(* ===== verification/Prelude.thy ===== *)
theory Prelude
  imports Main "HOL-Library.AList"
begin

section \<open>Prelude: the JavaScript operations the components share\<close>

text \<open>
  What the components of the console front end share: strings, truthiness, numbers in
  template literals, and association lists for the insertion-ordered \<open>Map\<close> of JavaScript.

  A JavaScript string is modelled by its UTF-8 encoding, a list of bytes (\<open>string\<close>).
  Equality, concatenation, \<open>includes\<close>, \<open>startsWith\<close> and \<open>endsWith\<close> agree with the
  operations on code units because UTF-8 is self-synchronising; nothing here uses
  \<open>length\<close> or \<open>slice\<close> on a string that may hold a non-ASCII character.
  \<open>undefined\<close> and \<open>null\<close> are both \<open>None\<close>: the code only tells them apart from values by
  truthiness, \<open>??\<close> and \<open>?.\<close>, which treat the two alike.
\<close>

named_theorems js_simps "unfolding rules for the JavaScript operations of the prelude"
named_theorems codec_simps "rules of the percent encoding"
named_theorems refs_simps "rules of the channel reference counts"

subsection \<open>Truthiness\<close>

definition truthy :: "string option \<Rightarrow> bool" where
  "truthy v \<longleftrightarrow> (case v of None \<Rightarrow> False | Some s \<Rightarrow> s \<noteq> [])"

text \<open>\<open>or_str v d\<close> is the expression \<open>v || d\<close> on strings.\<close>

definition or_str :: "string option \<Rightarrow> string \<Rightarrow> string" where
  "or_str v d = (case v of None \<Rightarrow> d | Some s \<Rightarrow> if s = [] then d else s)"

lemma truthy_simps [simp]:
  "\<not> truthy None"
  "truthy (Some s) \<longleftrightarrow> s \<noteq> []"
  by (simp_all add: truthy_def)

lemma or_str_simps [simp]:
  "or_str None d = d"
  "or_str (Some []) d = d"
  "s \<noteq> [] \<Longrightarrow> or_str (Some s) d = s"
  by (simp_all add: or_str_def)

lemma truthy_iff: "truthy v \<longleftrightarrow> (\<exists>s. v = Some s \<and> s \<noteq> [])"
  by (cases v) simp_all

subsection \<open>Strings\<close>

definition starts_with :: "string \<Rightarrow> string \<Rightarrow> bool" where
  "starts_with s p \<longleftrightarrow> take (length p) s = p"

definition ends_with :: "string \<Rightarrow> string \<Rightarrow> bool" where
  "ends_with s p \<longleftrightarrow> starts_with (rev s) (rev p)"

fun str_includes :: "string \<Rightarrow> string \<Rightarrow> bool" where
  "str_includes [] sub \<longleftrightarrow> sub = []"
| "str_includes (c # cs) sub \<longleftrightarrow> starts_with (c # cs) sub \<or> str_includes cs sub"

fun index_of :: "char \<Rightarrow> string \<Rightarrow> nat option" where
  "index_of c [] = None"
| "index_of c (x # xs) = (if x = c then Some 0 else map_option Suc (index_of c xs))"

text \<open>\<open>toLowerCase\<close> on ASCII letters.\<close>

definition toLowerCase :: "string \<Rightarrow> string" where
  "toLowerCase s =
     map (\<lambda>c. let n = of_char c :: nat in if 65 \<le> n \<and> n \<le> 90 then char_of (n + 32) else c) s"

lemma starts_with_iff: "starts_with s p \<longleftrightarrow> (\<exists>t. s = p @ t)"
  unfolding starts_with_def by (metis append_eq_conv_conj append_take_drop_id)

lemma starts_with_Nil [simp]: "starts_with s []"
  by (simp add: starts_with_def)

lemma starts_with_append [simp]: "starts_with (p @ t) p"
  by (simp add: starts_with_def)

lemma str_includes_iff: "str_includes s sub \<longleftrightarrow> (\<exists>a b. s = a @ sub @ b)"
proof (induction s)
  case Nil
  then show ?case by auto
next
  case (Cons c cs)
  show ?case
  proof
    assume "str_includes (c # cs) sub"
    then consider t where "c # cs = sub @ t" | a b where "cs = a @ sub @ b"
      using Cons.IH by (auto simp: starts_with_iff)
    then show "\<exists>a b. c # cs = a @ sub @ b"
      by cases (metis append_Nil, metis append_Cons)
  next
    assume "\<exists>a b. c # cs = a @ sub @ b"
    then obtain a b where eq: "c # cs = a @ sub @ b" by blast
    show "str_includes (c # cs) sub"
    proof (cases a)
      case Nil
      with eq have "starts_with (c # cs) sub" by (auto simp: starts_with_iff)
      then show ?thesis by simp
    next
      case (Cons x a')
      with eq have "cs = a' @ sub @ b" by simp
      then show ?thesis using Cons.IH by auto
    qed
  qed
qed

lemma str_includes_char: "str_includes s [c] \<longleftrightarrow> c \<in> set s"
  by (simp add: str_includes_iff in_set_conv_decomp)

lemma index_of_None [simp]: "index_of c s = None \<longleftrightarrow> c \<notin> set s"
  by (induction s) auto

lemma index_of_append:
  "c \<notin> set a \<Longrightarrow> index_of c (a @ c # b) = Some (length a)"
  by (induction a) auto

lemma index_of_SomeD:
  "index_of c s = Some n \<Longrightarrow> \<exists>b. s = take n s @ c # b \<and> c \<notin> set (take n s)"
proof (induction s arbitrary: n)
  case Nil
  then show ?case by simp
next
  case (Cons x xs)
  show ?case
  proof (cases "x = c")
    case True
    with Cons.prems show ?thesis by simp
  next
    case False
    with Cons.prems obtain m where "n = Suc m" and "index_of c xs = Some m" by auto
    with Cons.IH [of m] False show ?thesis by auto
  qed
qed

subsection \<open>Numbers in template literals\<close>

definition digit_char :: "nat \<Rightarrow> char" where
  "digit_char d = char_of (48 + d)"

fun show_nat :: "nat \<Rightarrow> string" where
  "show_nat n = (if n < 10 then [digit_char n] else show_nat (n div 10) @ [digit_char (n mod 10)])"

declare show_nat.simps [simp del]

definition show_int :: "int \<Rightarrow> string" where
  "show_int i = (if i < 0 then CHR ''-'' # show_nat (nat (- i)) else show_nat (nat i))"

definition digit_val :: "char \<Rightarrow> nat" where
  "digit_val c = of_char c - 48"

definition read_nat :: "string \<Rightarrow> nat" where
  "read_nat s = foldl (\<lambda>n c. 10 * n + digit_val c) 0 s"

lemma digit_val_char: "d < 10 \<Longrightarrow> digit_val (digit_char d) = d"
  by (simp add: digit_val_def digit_char_def)

lemma read_show_nat [simp]: "read_nat (show_nat n) = n"
proof (induction n rule: show_nat.induct)
  case (1 n)
  then show ?case
    by (subst show_nat.simps) (auto simp: read_nat_def digit_val_char)
qed

lemma show_nat_inject [simp]: "show_nat m = show_nat n \<longleftrightarrow> m = n"
  by (metis read_show_nat)

lemma digit_char_range: "d < 10 \<Longrightarrow> of_char (digit_char d) \<in> {48..57::nat}"
  by (simp add: digit_char_def)

lemma show_nat_digits: "c \<in> set (show_nat n) \<Longrightarrow> of_char c \<in> {48..57::nat}"
proof (induction n rule: show_nat.induct)
  case (1 n)
  show ?case
  proof (cases "n < 10")
    case True
    with "1.prems" show ?thesis
      by (subst (asm) show_nat.simps) (simp add: digit_char_range del: atLeastAtMost_iff)
  next
    case False
    with "1.prems" have "c \<in> set (show_nat (n div 10)) \<or> c = digit_char (n mod 10)"
      by (subst (asm) show_nat.simps) auto
    with False "1.IH" show ?thesis
      using digit_char_range [of "n mod 10"] by auto
  qed
qed

lemma show_nat_nonempty [simp]: "show_nat n \<noteq> []"
  by (subst show_nat.simps) simp

lemma show_nat_no_minus: "show_nat n \<noteq> CHR ''-'' # s"
proof
  assume "show_nat n = CHR ''-'' # s"
  then have "CHR ''-'' \<in> set (show_nat n)" by simp
  from show_nat_digits [OF this] show False by simp
qed

lemma show_int_inject [simp]: "show_int i = show_int j \<longleftrightarrow> i = j"
proof (cases "i < 0")
  case True
  then show ?thesis
    using show_nat_no_minus [of "nat j" "show_nat (nat (- i))"] by (auto simp: show_int_def)
next
  case False
  then show ?thesis
    using show_nat_no_minus [of "nat i" "show_nat (nat (- j))"] by (auto simp: show_int_def)
qed

subsection \<open>Insertion-ordered maps\<close>

text \<open>
  A JavaScript \<open>Map\<close> is the list of its entries in insertion order: \<open>set\<close> is
  \<^const>\<open>AList.update\<close> (in place for a known key, at the end otherwise), \<open>delete\<close>
  is \<^const>\<open>AList.delete\<close> and \<open>get\<close> is \<^const>\<open>map_of\<close>.
\<close>

lemma dom_map_of_update [simp]: "fst ` set (AList.update k v al) = insert k (fst ` set al)"
  by (induction al) auto

lemma map_of_update [simp]: "map_of (AList.update k v al) = (map_of al)(k \<mapsto> v)"
  by (rule update_conv')

lemma map_of_delete [simp]: "map_of (AList.delete k al) = (map_of al)(k := None)"
  by (rule delete_conv')

text \<open>A JavaScript \<open>Set\<close> is the list of its members in insertion order.\<close>

definition set_add :: "'a \<Rightarrow> 'a list \<Rightarrow> 'a list" where
  "set_add x xs = (if x \<in> set xs then xs else xs @ [x])"

definition set_delete :: "'a \<Rightarrow> 'a list \<Rightarrow> 'a list" where
  "set_delete x xs = filter (\<lambda>y. y \<noteq> x) xs"

lemma set_set_add [simp]: "set (set_add x xs) = insert x (set xs)"
  by (auto simp: set_add_def)

lemma set_set_delete [simp]: "set (set_delete x xs) = set xs - {x}"
  by (auto simp: set_delete_def)

lemma distinct_set_add [simp]: "distinct (set_add x xs) \<longleftrightarrow> distinct xs"
  by (auto simp: set_add_def)

lemma distinct_set_delete [intro]: "distinct xs \<Longrightarrow> distinct (set_delete x xs)"
  by (simp add: set_delete_def)

end
