(* ===== verification/Session.thy ===== *)
theory Session
  imports Prelude
begin

section \<open>The session: user slice, application slice and local storage\<close>

text \<open>
  The reducers of \<open>slices/userSlice.ts\<close> and \<open>slices/appSlice.ts\<close>. A reducer of
  these slices also writes \<open>localStorage\<close>, so a step maps a slice and a storage to the
  new slice and the new storage. The storage keeps a login across page reloads: the lemmas
  show that what a reload reads back is what the slice held.
\<close>

subsection \<open>Local storage\<close>

type_synonym storage = "string \<rightharpoonup> string"

definition ls_get :: "storage \<Rightarrow> string \<Rightarrow> string option" where
  "ls_get ls k = ls k"

definition ls_set :: "string \<Rightarrow> string \<Rightarrow> storage \<Rightarrow> storage" where
  "ls_set k v ls = ls(k \<mapsto> v)"

definition ls_remove :: "string \<Rightarrow> storage \<Rightarrow> storage" where
  "ls_remove k ls = ls(k := None)"

definition persistToken :: "string \<Rightarrow> string option \<Rightarrow> storage \<Rightarrow> storage" where
  "persistToken key v ls =
     (case v of
        None \<Rightarrow> ls_remove key ls
      | Some s \<Rightarrow> if s = [] then ls_remove key ls else ls_set key s ls)"

definition readStoredToken :: "storage \<Rightarrow> string \<Rightarrow> string option" where
  "readStoredToken ls key =
     (case ls_get ls key of
        None \<Rightarrow> None
      | Some v \<Rightarrow> if v \<noteq> [] \<and> v \<noteq> ''undefined'' \<and> v \<noteq> ''null'' then Some v else None)"

text \<open>A token the code can persist and read back: absent, or a real string.\<close>

definition clean_token :: "string option \<Rightarrow> bool" where
  "clean_token t \<longleftrightarrow>
     (case t of None \<Rightarrow> True | Some v \<Rightarrow> v \<noteq> [] \<and> v \<noteq> ''undefined'' \<and> v \<noteq> ''null'')"

text \<open>
  The session store as its users see it: a key written by \<open>put\<close> is read back, other keys
  are untouched.
\<close>

locale session_store =
  fixes read :: "'s \<Rightarrow> string \<Rightarrow> string option"
    and put :: "string \<Rightarrow> string option \<Rightarrow> 's \<Rightarrow> 's"
    and ok :: "string option \<Rightarrow> bool"
  assumes read_put: "ok v \<Longrightarrow> read (put k v s) k = v"
    and read_put_other: "k' \<noteq> k \<Longrightarrow> read (put k v s) k' = read s k'"
begin

text \<open>Two keys written one after the other are both read back, in either order.\<close>

lemma read_put_pair:
  assumes "a \<noteq> b" and "ok v" and "ok w"
  shows "read (put b w (put a v s)) a = v" and "read (put b w (put a v s)) b = w"
  using assms by (simp_all add: read_put read_put_other)

end

lemma persistToken_same: "persistToken k v ls k = (if truthy v then v else None)"
  by (auto simp: persistToken_def ls_set_def ls_remove_def split: option.splits)

lemma persistToken_other: "k' \<noteq> k \<Longrightarrow> persistToken k v ls k' = ls k'"
  by (auto simp: persistToken_def ls_set_def ls_remove_def split: option.splits)

interpretation session: session_store readStoredToken persistToken clean_token
proof
  fix v k and ls :: storage
  assume "clean_token v"
  then show "readStoredToken (persistToken k v ls) k = v"
    by (auto simp: readStoredToken_def ls_get_def persistToken_same clean_token_def
        split: option.splits)
next
  fix k k' :: string and v and ls :: storage
  assume "k' \<noteq> k"
  then show "readStoredToken (persistToken k v ls) k' = readStoredToken ls k'"
    by (simp add: readStoredToken_def ls_get_def persistToken_other)
qed

subsection \<open>The user slice\<close>

datatype scope_type = ScopePlatform | ScopeCluster | ScopeNamespace

datatype profile_status = PIdle | PLoading | PReady | PFailed

record current_user_role =
  role_id :: int
  role_code :: string
  role_name :: string
  scope_type :: scope_type
  role_cluster_code :: "string option"
  role_namespace :: "string option"

datatype user_id = IdNumber int | IdString string

record current_user =
  cu_id :: "user_id option"
  username :: "string option"
  display_name :: "string option"
  nickname :: "string option"
  avatar :: "string option"
  email :: "string option"
  phone :: "string option"
  auth_source :: "string option"
  cu_status :: "int option"
  last_login_at :: "string option"
  last_login_ip :: "string option"
  roles :: "current_user_role list option"
  perms :: "string list option"
  is_platform_admin :: "bool option"

record user_state =
  token :: "string option"
  refreshToken :: "string option"
  currentUser :: "current_user option"
  profileStatus :: profile_status

record login_response =
  access_token :: string
  refresh_token :: "string option"
  token_type :: "string option"
  expires_in :: "int option"
  login_user :: "current_user option"

definition initial_user_state :: "storage \<Rightarrow> user_state" where
  "initial_user_state ls =
     \<lparr>token = readStoredToken ls ''token'',
      refreshToken = readStoredToken ls ''refresh_token'',
      currentUser = None, profileStatus = PIdle\<rparr>"

datatype user_action =
    SetToken "string option"
  | SetRefreshToken "string option"
  | SetCurrentUser "current_user option"
  | Logout
  | LoginFulfilled login_response
  | FetchCurrentUserPending
  | FetchCurrentUserFulfilled current_user
  | FetchCurrentUserRejected

fun user_reduce :: "user_action \<Rightarrow> user_state \<times> storage \<Rightarrow> user_state \<times> storage" where
  "user_reduce (SetToken t) (s, ls) = (s\<lparr>token := t\<rparr>, persistToken ''token'' t ls)"
| "user_reduce (SetRefreshToken t) (s, ls) =
     (s\<lparr>refreshToken := t\<rparr>, persistToken ''refresh_token'' t ls)"
| "user_reduce (SetCurrentUser u) (s, ls) = (s\<lparr>currentUser := u\<rparr>, ls)"
| "user_reduce Logout (s, ls) =
     (s\<lparr>token := None, refreshToken := None, currentUser := None, profileStatus := PIdle\<rparr>,
      ls_remove ''refresh_token'' (ls_remove ''token'' ls))"
| "user_reduce (LoginFulfilled r) (s, ls) =
     (let s1 = s\<lparr>token := Some (access_token r), refreshToken := refresh_token r\<rparr>;
          ls1 = persistToken ''token'' (token s1) ls;
          ls2 = persistToken ''refresh_token'' (refreshToken s1) ls1
      in (s1\<lparr>profileStatus := PLoading\<rparr>, ls2))"
| "user_reduce FetchCurrentUserPending (s, ls) = (s\<lparr>profileStatus := PLoading\<rparr>, ls)"
| "user_reduce (FetchCurrentUserFulfilled u) (s, ls) =
     (s\<lparr>currentUser := Some u, profileStatus := PReady\<rparr>, ls)"
| "user_reduce FetchCurrentUserRejected (s, ls) = (s\<lparr>profileStatus := PFailed\<rparr>, ls)"

definition user_run :: "user_action list \<Rightarrow> user_state \<times> storage \<Rightarrow> user_state \<times> storage" where
  "user_run as p = fold user_reduce as p"

text \<open>The tokens an action carries are clean.\<close>

fun clean_action :: "user_action \<Rightarrow> bool" where
  "clean_action (SetToken t) = clean_token t"
| "clean_action (SetRefreshToken t) = clean_token t"
| "clean_action (LoginFulfilled r) =
     (clean_token (Some (access_token r)) \<and> clean_token (refresh_token r))"
| "clean_action _ = True"

text \<open>The invariant: what a reload would read is what the slice holds.\<close>

definition in_sync :: "user_state \<times> storage \<Rightarrow> bool" where
  "in_sync p \<longleftrightarrow>
     readStoredToken (snd p) ''token'' = token (fst p) \<and>
     readStoredToken (snd p) ''refresh_token'' = refreshToken (fst p)"

lemma readStored_remove [simp]:
  "readStoredToken (ls_remove k ls) k' = (if k = k' then None else readStoredToken ls k')"
  by (simp add: readStoredToken_def ls_get_def ls_remove_def)

lemma in_sync_initial: "in_sync (initial_user_state ls, ls)"
  by (simp add: in_sync_def initial_user_state_def)

lemma in_sync_step: "in_sync p \<Longrightarrow> clean_action a \<Longrightarrow> in_sync (user_reduce a p)"
  by (cases p; cases a)
    (auto simp: in_sync_def Let_def session.read_put session.read_put_other)

lemma in_sync_run: "in_sync p \<Longrightarrow> list_all clean_action as \<Longrightarrow> in_sync (user_run as p)"
  by (induction as arbitrary: p) (simp_all add: user_run_def in_sync_step)

text \<open>
  C34. A page reload keeps the login: after any sequence of user actions with real tokens,
  from any starting storage, the state that the module builds from the storage at the next
  start holds the same access and refresh token as the running slice, with the profile not
  loaded yet.
\<close>

theorem reload_restores_session:
  assumes "list_all clean_action as"
    and "user_run as (initial_user_state ls, ls) = (s, ls')"
  shows "initial_user_state ls' = s\<lparr>currentUser := None, profileStatus := PIdle\<rparr>"
proof -
  have "in_sync (s, ls')"
    using in_sync_run [OF in_sync_initial assms(1), of ls] assms(2) by simp
  then show ?thesis by (simp add: in_sync_def initial_user_state_def)
qed

theorem reload_restores_session_witness:
  "initial_user_state (snd (user_run [SetToken (Some ''t1''), SetRefreshToken (Some ''r1'')]
      (initial_user_state Map.empty, Map.empty)))
   = \<lparr>token = Some ''t1'', refreshToken = Some ''r1'', currentUser = None,
      profileStatus = PIdle\<rparr>"
proof -
  let ?as = "[SetToken (Some ''t1''), SetRefreshToken (Some ''r1'')]"
  let ?p = "user_run ?as (initial_user_state Map.empty, Map.empty)"
  have "list_all clean_action ?as" by (simp add: clean_token_def)
  from reload_restores_session [OF this, of Map.empty "fst ?p" "snd ?p"]
  show ?thesis by (simp add: user_run_def initial_user_state_def readStoredToken_def ls_get_def)
qed

subsection \<open>The application slice\<close>

record app_state =
  selectedClusterCode :: "string option"
  collapsed :: bool
  theme :: string

definition initial_app_state :: "storage \<Rightarrow> app_state" where
  "initial_app_state ls =
     \<lparr>selectedClusterCode = ls_get ls ''selectedClusterCode'', collapsed = False,
      theme = or_str (ls_get ls ''theme'') ''light''\<rparr>"

datatype app_action =
    SetSelectedClusterCode "string option"
  | SetCollapsed bool
  | ToggleCollapsed
  | SetTheme string

fun app_reduce :: "app_action \<Rightarrow> app_state \<times> storage \<Rightarrow> app_state \<times> storage" where
  "app_reduce (SetSelectedClusterCode c) (s, ls) =
     (s\<lparr>selectedClusterCode := c\<rparr>,
      (case c of
         None \<Rightarrow> ls_remove ''selectedClusterCode'' ls
       | Some v \<Rightarrow> if v = [] then ls_remove ''selectedClusterCode'' ls
                   else ls_set ''selectedClusterCode'' v ls))"
| "app_reduce (SetCollapsed b) (s, ls) = (s\<lparr>collapsed := b\<rparr>, ls)"
| "app_reduce ToggleCollapsed (s, ls) = (s\<lparr>collapsed := \<not> collapsed s\<rparr>, ls)"
| "app_reduce (SetTheme t) (s, ls) = (s\<lparr>theme := t\<rparr>, ls_set ''theme'' t ls)"

text \<open>The two slices own disjoint keys of the storage.\<close>

lemma app_reduce_keeps_tokens:
  "k = ''token'' \<or> k = ''refresh_token'' \<Longrightarrow> snd (app_reduce a (s, ls)) k = ls k"
  by (cases a) (auto simp: ls_set_def ls_remove_def split: option.splits)

lemma user_reduce_keeps_app_keys:
  "k = ''selectedClusterCode'' \<or> k = ''theme'' \<Longrightarrow> snd (user_reduce a (s, ls)) k = ls k"
  by (cases a) (auto simp: Let_def ls_remove_def persistToken_other)

end
