(* ===== verification/Permission.thy ===== *)
theory Permission
  imports Session "HOL-Library.List_Lexorder" "HOL-Library.Char_ord"
begin

section \<open>Permissions, routes and the menu\<close>

text \<open>
  \<open>hooks/usePermission.ts\<close>, \<open>hooks/useAllowedNamespaces.ts\<close>, \<open>app/routePerms.ts\<close>, the
  route table and the guards of \<open>app/router.tsx\<close>, and the menu of \<open>layouts/BasicLayout.tsx\<close>.
  A component is the view it renders. The lemmas show that the menu and the guards agree on
  every page, and that granting permissions only ever opens pages.
\<close>

subsection \<open>The permission points of the user\<close>

definition user_perms :: "current_user option \<Rightarrow> string list" where
  "user_perms u = (case u of None \<Rightarrow> [] | Some c \<Rightarrow> (case perms c of None \<Rightarrow> [] | Some ps \<Rightarrow> ps))"

definition isPlatformAdmin :: "current_user option \<Rightarrow> bool" where
  "isPlatformAdmin u = (case u of None \<Rightarrow> False | Some c \<Rightarrow> is_platform_admin c = Some True)"

definition hasPerm :: "current_user option \<Rightarrow> string \<Rightarrow> bool" where
  "hasPerm u code =
     (if isPlatformAdmin u \<or> ''*:*'' \<in> set (user_perms u) \<or> code \<in> set (user_perms u) then True
      else case index_of CHR '':'' code of
             None \<Rightarrow> False
           | Some idx \<Rightarrow> 0 < idx \<and> take idx code @ '':*'' \<in> set (user_perms u))"

definition hasAnyPerm :: "current_user option \<Rightarrow> string list \<Rightarrow> bool" where
  "hasAnyPerm u codes \<longleftrightarrow> isPlatformAdmin u \<or> (\<exists>c \<in> set codes. hasPerm u c)"

definition hasAllPerms :: "current_user option \<Rightarrow> string list \<Rightarrow> bool" where
  "hasAllPerms u codes \<longleftrightarrow> isPlatformAdmin u \<or> (\<forall>c \<in> set codes. hasPerm u c)"

text \<open>What the menu and the guards rely on.\<close>

locale permission_check =
  fixes any :: "'u \<Rightarrow> string list \<Rightarrow> bool" and admin :: "'u \<Rightarrow> bool"
    and has :: "'u \<Rightarrow> string \<Rightarrow> bool"
  assumes any_admin: "admin u \<Longrightarrow> any u cs"
    and any_iff: "\<not> admin u \<Longrightarrow> any u cs \<longleftrightarrow> (\<exists>c \<in> set cs. has u c)"
begin

lemma any_mono: "set cs \<subseteq> set ds \<Longrightarrow> any u cs \<Longrightarrow> any u ds"
  by (cases "admin u") (auto simp: any_admin any_iff)

lemma any_grows:
  assumes "\<And>c. has u c \<Longrightarrow> has v c" and "admin u \<Longrightarrow> admin v" and "any u cs"
  shows "any v cs"
  using assms by (cases "admin v"; cases "admin u") (auto simp: any_admin any_iff)

end

interpretation perm: permission_check hasAnyPerm isPlatformAdmin hasPerm
  by unfold_locales (simp_all add: hasAnyPerm_def)

lemma hasPerm_iff:
  "hasPerm u code \<longleftrightarrow> isPlatformAdmin u \<or> ''*:*'' \<in> set (user_perms u) \<or> code \<in> set (user_perms u)
     \<or> (\<exists>idx. index_of CHR '':'' code = Some idx \<and> 0 < idx
          \<and> take idx code @ '':*'' \<in> set (user_perms u))"
  by (cases "index_of CHR '':'' code") (simp_all add: hasPerm_def del: index_of_None)

lemma hasPerm_mono:
  assumes "set (user_perms u) \<subseteq> set (user_perms v)" and "isPlatformAdmin u \<Longrightarrow> isPlatformAdmin v"
    and "hasPerm u c"
  shows "hasPerm v c"
  using assms unfolding hasPerm_iff by blast

subsection \<open>Route permissions\<close>

definition ROUTE_PERMS :: "(string \<times> string list) list" where
  "ROUTE_PERMS =
    [(''/clusters'', [''cluster:list'', ''cluster:create'', ''cluster:update'', ''cluster:delete'', ''cluster:ping'']),
     (''/clusters/list'', [''cluster:list'']),
     (''/clusters/import'', [''cluster:create'']),
     (''/resources'', [''resource:list'', ''resource:get'', ''resource:create'', ''resource:update'', ''resource:delete'']),
     (''/resources/list'', [''resource:list'']),
     (''/resources/edit'', [''resource:get'']),
     (''/resources/quota'', [''resource:list'']),
     (''/backups'', [''backup:list'', ''backup:create'', ''backup:restore'', ''backup:delete'']),
     (''/backups/list'', [''backup:list'']),
     (''/backups/create'', [''backup:create'']),
     (''/rbac'', [''user:manage'', ''role:manage'']),
     (''/rbac/users'', [''user:manage'']),
     (''/rbac/roles'', [''role:manage'']),
     (''/audit'', [''audit:list'']),
     (''/audit/list'', [''audit:list'']),
     (''/helm'', [''helm:view'', ''helm:install'', ''helm:uninstall'', ''helm:rollback'']),
     (''/helm/list'', [''helm:view'']),
     (''/helm/repos'', [''helm:view'']),
     (''/pods/logs'', [''resource:get'', ''resource:list'']),
     (''/ops/compare'', [''resource:get''])]"

definition safeRedirectPath :: "string option \<Rightarrow> string" where
  "safeRedirectPath raw =
     (case raw of
        None \<Rightarrow> ''/dashboard''
      | Some r \<Rightarrow>
          if r = [] then ''/dashboard''
          else if \<not> starts_with r ''/'' \<or> starts_with r ''//'' \<or> str_includes r ''://''
          then ''/dashboard'' else r)"

text \<open>A location inside the application, as \<open>safeRedirectPath\<close> accepts it.\<close>

definition local_path :: "string \<Rightarrow> bool" where
  "local_path r \<longleftrightarrow> starts_with r ''/'' \<and> \<not> starts_with r ''//'' \<and> \<not> str_includes r ''://''"

lemma safeRedirectPath_local: "local_path (safeRedirectPath raw)"
proof -
  have "local_path ''/dashboard''"
    by (simp add: local_path_def starts_with_def)
  then show ?thesis by (auto simp: safeRedirectPath_def local_path_def split: option.split)
qed

lemma safeRedirectPath_id: "local_path r \<Longrightarrow> safeRedirectPath (Some r) = r"
  by (auto simp: safeRedirectPath_def local_path_def starts_with_def)

subsection \<open>The route table and the guards\<close>

datatype page = Dashboard | ClusterList | ClusterImport | ResourceList | ResourceEdit
  | QuotaManagement | BackupList | BackupCreate | PodLogsPage | AuditLogList | UserList
  | RoleList | HelmList | HelmRepos | ClusterCompare

datatype route_element =
    NavigateTo string
  | WithPage page
  | RequirePerm "string list" page

definition guarded :: "string \<Rightarrow> page \<Rightarrow> route_element" where
  "guarded p e =
     (case map_of ROUTE_PERMS p of None \<Rightarrow> WithPage e | Some ps \<Rightarrow> RequirePerm ps e)"

datatype route_object =
    IndexRoute route_element
  | LeafRoute string route_element
  | ParentRoute string "route_object list"

text \<open>The children of the route \<open>/\<close>, which \<open>RequireAuth\<close> wraps.\<close>

definition app_routes :: "route_object list" where
  "app_routes =
    [IndexRoute (NavigateTo ''/dashboard''),
     LeafRoute ''dashboard'' (WithPage Dashboard),
     ParentRoute ''clusters''
       [IndexRoute (NavigateTo ''/clusters/list''),
        LeafRoute ''list'' (guarded ''/clusters/list'' ClusterList),
        LeafRoute ''import'' (guarded ''/clusters/import'' ClusterImport)],
     ParentRoute ''resources''
       [IndexRoute (NavigateTo ''/resources/list''),
        LeafRoute ''list'' (guarded ''/resources/list'' ResourceList),
        LeafRoute ''quota'' (guarded ''/resources/quota'' QuotaManagement),
        LeafRoute ''workloads'' (NavigateTo ''/resources/list?tab=workload''),
        LeafRoute ''workloads/:type'' (NavigateTo ''/resources/list?tab=workload''),
        LeafRoute '':code/:apiVersion/:kind/:namespace/:name/edit''
          (guarded ''/resources/edit'' ResourceEdit)],
     ParentRoute ''backups''
       [IndexRoute (NavigateTo ''/backups/list''),
        LeafRoute ''list'' (guarded ''/backups/list'' BackupList),
        LeafRoute ''create'' (guarded ''/backups/create'' BackupCreate)],
     ParentRoute ''pods''
       [IndexRoute (NavigateTo ''/pods/logs''),
        LeafRoute ''logs'' (guarded ''/pods/logs'' PodLogsPage)],
     ParentRoute ''ops''
       [IndexRoute (NavigateTo ''/ops/compare''),
        LeafRoute ''compare'' (guarded ''/ops/compare'' ClusterCompare)],
     ParentRoute ''rbac''
       [IndexRoute (NavigateTo ''/rbac/users''),
        LeafRoute ''users'' (guarded ''/rbac/users'' UserList),
        LeafRoute ''roles'' (guarded ''/rbac/roles'' RoleList)],
     ParentRoute ''audit''
       [IndexRoute (NavigateTo ''/audit/list''),
        LeafRoute ''list'' (guarded ''/audit/list'' AuditLogList)],
     ParentRoute ''helm''
       [IndexRoute (NavigateTo ''/helm/list''),
        LeafRoute ''list'' (guarded ''/helm/list'' HelmList),
        LeafRoute ''repos'' (guarded ''/helm/repos'' HelmRepos)]]"

text \<open>
  The full paths of a route table: a child's path continues its parent's, an index route has
  the parent's path. A static path is matched by the route with that path.
\<close>

fun route_paths :: "string \<Rightarrow> route_object list \<Rightarrow> (string \<times> route_element) list" where
  "route_paths base [] = []"
| "route_paths base (IndexRoute e # rs) = (base, e) # route_paths base rs"
| "route_paths base (LeafRoute p e # rs) = (base @ ''/'' @ p, e) # route_paths base rs"
| "route_paths base (ParentRoute p cs # rs) =
     route_paths (base @ ''/'' @ p) cs @ route_paths base rs"

definition route_element_at :: "string \<Rightarrow> route_element option" where
  "route_element_at p = map_of (route_paths '''' app_routes) p"

datatype view =
    Redirect string
  | ShowPage page
  | ProfileError
  | PageFallback
  | Forbidden

definition render_element :: "user_state \<Rightarrow> route_element \<Rightarrow> view" where
  "render_element s e =
     (case e of
        NavigateTo p \<Rightarrow> Redirect p
      | WithPage pg \<Rightarrow> ShowPage pg
      | RequirePerm ps pg \<Rightarrow>
          if profileStatus s = PFailed \<and> currentUser s = None then ProfileError
          else if currentUser s = None then PageFallback
          else if isPlatformAdmin (currentUser s) \<or> hasAnyPerm (currentUser s) ps then ShowPage pg
          else Forbidden)"

text \<open>What the application shows at a static path; unknown paths go to the dashboard.\<close>

definition visit :: "user_state \<Rightarrow> string \<Rightarrow> view" where
  "visit s p =
     (case route_element_at p of
        None \<Rightarrow> Redirect ''/dashboard''
      | Some e \<Rightarrow> render_element s e)"

subsection \<open>The menu\<close>

datatype menu_route =
  MenuRoute (menu_path: string) (menu_name: "string option") (menu_routes: "menu_route list option")

fun filterRoutesByPermission ::
  "menu_route list \<Rightarrow> (string list \<Rightarrow> bool) \<Rightarrow> bool \<Rightarrow> menu_route list" where
  "filterRoutesByPermission [] any admin = []"
| "filterRoutesByPermission (MenuRoute p n sub # rs) any admin =
     (if admin then MenuRoute p n sub # rs
      else
        let menu_perms = map_of ROUTE_PERMS p;
            result = filterRoutesByPermission rs any admin
        in case sub of
             Some (c # cs) \<Rightarrow>
               (let children = filterRoutesByPermission (c # cs) any admin
                in if children = [] then
                     (case menu_perms of
                        Some (x # xs) \<Rightarrow>
                          if any (x # xs) then MenuRoute p n None # result else result
                      | _ \<Rightarrow> result)
                   else MenuRoute p n (Some children) # result)
           | _ \<Rightarrow>
               (if (case menu_perms of None \<Rightarrow> True | Some [] \<Rightarrow> True | Some ps \<Rightarrow> any ps)
                then MenuRoute p n sub # result else result))"

definition rawRoutes :: "menu_route list" where
  "rawRoutes =
    [MenuRoute ''/dashboard'' (Some [CHR 0xE6, CHR 0xA6, CHR 0x82, CHR 0xE8, CHR 0xA7, CHR 0x88]) None,
     MenuRoute ''/clusters'' (Some [CHR 0xE9, CHR 0x9B, CHR 0x86, CHR 0xE7, CHR 0xBE, CHR 0xA4, CHR 0xE7, CHR 0xAE,
      CHR 0xA1, CHR 0xE7, CHR 0x90, CHR 0x86]) (Some
       [MenuRoute ''/clusters/list'' (Some [CHR 0xE9, CHR 0x9B, CHR 0x86, CHR 0xE7, CHR 0xBE, CHR 0xA4, CHR 0xE5, CHR 0x88,
      CHR 0x97, CHR 0xE8, CHR 0xA1, CHR 0xA8]) None,
        MenuRoute ''/clusters/import'' (Some [CHR 0xE5, CHR 0xAF, CHR 0xBC, CHR 0xE5, CHR 0x85, CHR 0xA5, CHR 0xE9, CHR 0x9B,
      CHR 0x86, CHR 0xE7, CHR 0xBE, CHR 0xA4]) None]),
     MenuRoute ''/resources'' (Some [CHR 0xE8, CHR 0xB5, CHR 0x84, CHR 0xE6, CHR 0xBA, CHR 0x90, CHR 0xE7, CHR 0xAE,
      CHR 0xA1, CHR 0xE7, CHR 0x90, CHR 0x86]) (Some
       [MenuRoute ''/resources/list'' (Some [CHR 0xE8, CHR 0xB5, CHR 0x84, CHR 0xE6, CHR 0xBA, CHR 0x90, CHR 0xE5, CHR 0x88,
      CHR 0x97, CHR 0xE8, CHR 0xA1, CHR 0xA8]) None,
        MenuRoute ''/resources/quota'' (Some [CHR 0xE9, CHR 0x85, CHR 0x8D, CHR 0xE9, CHR 0xA2, CHR 0x9D, CHR 0xE7, CHR 0xAE,
      CHR 0xA1, CHR 0xE7, CHR 0x90, CHR 0x86]) None]),
     MenuRoute ''/backups'' (Some [CHR 0xE5, CHR 0xA4, CHR 0x87, CHR 0xE4, CHR 0xBB, CHR 0xBD, CHR 0xE7, CHR 0xAE,
      CHR 0xA1, CHR 0xE7, CHR 0x90, CHR 0x86]) (Some
       [MenuRoute ''/backups/list'' (Some [CHR 0xE5, CHR 0xA4, CHR 0x87, CHR 0xE4, CHR 0xBB, CHR 0xBD, CHR 0xE5, CHR 0x88,
      CHR 0x97, CHR 0xE8, CHR 0xA1, CHR 0xA8]) None,
        MenuRoute ''/backups/create'' (Some [CHR 0xE6, CHR 0x96, CHR 0xB0, CHR 0xE5, CHR 0xBB, CHR 0xBA, CHR 0xE5, CHR 0xA4,
      CHR 0x87, CHR 0xE4, CHR 0xBB, CHR 0xBD]) None]),
     MenuRoute ''/ops'' (Some [CHR 0xE8, CHR 0xBF, CHR 0x90, CHR 0xE7, CHR 0xBB, CHR 0xB4, CHR 0xE5, CHR 0xB7,
      CHR 0xA5, CHR 0xE5, CHR 0x85, CHR 0xB7]) (Some
       [MenuRoute ''/pods/logs'' (Some (''Pod '' @
     [CHR 0xE6, CHR 0x97, CHR 0xA5, CHR 0xE5, CHR 0xBF, CHR 0x97])) None,
        MenuRoute ''/ops/compare'' (Some [CHR 0xE8, CHR 0xB7, CHR 0xA8, CHR 0xE9, CHR 0x9B, CHR 0x86, CHR 0xE7, CHR 0xBE,
      CHR 0xA4, CHR 0xE5, CHR 0xAF, CHR 0xB9, CHR 0xE6, CHR 0xAF, CHR 0x94]) None]),
     MenuRoute ''/rbac'' (Some [CHR 0xE6, CHR 0x9D, CHR 0x83, CHR 0xE9, CHR 0x99, CHR 0x90, CHR 0xE7, CHR 0xAE,
      CHR 0xA1, CHR 0xE7, CHR 0x90, CHR 0x86]) (Some
       [MenuRoute ''/rbac/users'' (Some [CHR 0xE7, CHR 0x94, CHR 0xA8, CHR 0xE6, CHR 0x88, CHR 0xB7, CHR 0xE7, CHR 0xAE,
      CHR 0xA1, CHR 0xE7, CHR 0x90, CHR 0x86]) None,
        MenuRoute ''/rbac/roles'' (Some [CHR 0xE8, CHR 0xA7, CHR 0x92, CHR 0xE8, CHR 0x89, CHR 0xB2, CHR 0xE7, CHR 0xAE,
      CHR 0xA1, CHR 0xE7, CHR 0x90, CHR 0x86]) None]),
     MenuRoute ''/audit'' (Some [CHR 0xE5, CHR 0xAE, CHR 0xA1, CHR 0xE8, CHR 0xAE, CHR 0xA1, CHR 0xE6, CHR 0x97,
      CHR 0xA5, CHR 0xE5, CHR 0xBF, CHR 0x97]) (Some
       [MenuRoute ''/audit/list'' (Some [CHR 0xE6, CHR 0x93, CHR 0x8D, CHR 0xE4, CHR 0xBD, CHR 0x9C, CHR 0xE6, CHR 0x97,
      CHR 0xA5, CHR 0xE5, CHR 0xBF, CHR 0x97]) None]),
     MenuRoute ''/helm'' (Some (''Helm '' @
     [CHR 0xE5, CHR 0xBA, CHR 0x94, CHR 0xE7, CHR 0x94, CHR 0xA8])) (Some
       [MenuRoute ''/helm/list'' (Some (''Release '' @
     [CHR 0xE5, CHR 0x88, CHR 0x97, CHR 0xE8, CHR 0xA1, CHR 0xA8])) None,
        MenuRoute ''/helm/repos'' (Some [CHR 0xE5, CHR 0x88, CHR 0xB6, CHR 0xE5, CHR 0x93, CHR 0x81, CHR 0xE4, CHR 0xBB,
      CHR 0x93, CHR 0xE5, CHR 0xBA, CHR 0x93]) None])]"

definition filteredRoute :: "current_user option \<Rightarrow> menu_route list" where
  "filteredRoute u = filterRoutesByPermission rawRoutes (hasAnyPerm u) (isPlatformAdmin u)"

text \<open>The entries without a submenu, which a click follows.\<close>

fun menu_leaves :: "menu_route list \<Rightarrow> string list" where
  "menu_leaves [] = []"
| "menu_leaves (MenuRoute p n sub # rs) =
     (case sub of Some (c # cs) \<Rightarrow> menu_leaves (c # cs) | _ \<Rightarrow> [p]) @ menu_leaves rs"

text \<open>The paths of the entries with a submenu.\<close>

fun menu_parents :: "menu_route list \<Rightarrow> string list" where
  "menu_parents [] = []"
| "menu_parents (MenuRoute p n sub # rs) =
     (case sub of Some (c # cs) \<Rightarrow> p # menu_parents (c # cs) | _ \<Rightarrow> []) @ menu_parents rs"

definition leaf_allowed :: "(string list \<Rightarrow> bool) \<Rightarrow> string \<Rightarrow> bool" where
  "leaf_allowed any p \<longleftrightarrow>
     (case map_of ROUTE_PERMS p of None \<Rightarrow> True | Some ps \<Rightarrow> ps = [] \<or> any ps)"

lemma filter_leaves:
  "p \<notin> set (menu_parents rs) \<Longrightarrow>
   p \<in> set (menu_leaves (filterRoutesByPermission rs any False))
     \<longleftrightarrow> p \<in> set (menu_leaves rs) \<and> leaf_allowed any p"
proof (induction rs any False rule: filterRoutesByPermission.induct)
  case (1 any)
  then show ?case by simp
next
  case (2 q n sub rs any)
  show ?case
  proof (cases "sub = None \<or> sub = Some []")
    case True
    with 2 show ?thesis
      by (auto simp: Let_def leaf_allowed_def split: option.splits list.splits)
  next
    case False
    then obtain c cs where sub: "sub = Some (c # cs)" by (cases sub) (auto simp: neq_Nil_conv)
    let ?cs = "filterRoutesByPermission (c # cs) any False"
    have rest: "p \<in> set (menu_leaves (filterRoutesByPermission rs any False))
        \<longleftrightarrow> p \<in> set (menu_leaves rs) \<and> leaf_allowed any p"
      using 2 by simp
    have sub_leaves: "p \<in> set (menu_leaves ?cs) \<longleftrightarrow> p \<in> set (menu_leaves (c # cs)) \<and> leaf_allowed any p"
      using 2 sub by simp
    have "p \<noteq> q" using 2(3) sub by simp
    show ?thesis
    proof (cases "?cs = []")
      case True
      with sub_leaves rest \<open>p \<noteq> q\<close> show ?thesis
        by (auto simp: sub Let_def split: option.splits list.splits)
    next
      case False
      then obtain d ds where "?cs = d # ds" by (cases ?cs) auto
      with sub_leaves rest show ?thesis by (auto simp: sub Let_def)
    qed
  qed
qed

lemma filter_leaves_append:
  "set (menu_leaves (filterRoutesByPermission (rs @ rs') any False))
   = set (menu_leaves (filterRoutesByPermission rs any False))
     \<union> set (menu_leaves (filterRoutesByPermission rs' any False))"
proof (induction rs)
  case Nil
  then show ?case by simp
next
  case (Cons r rs)
  then show ?case
    by (cases r) (auto simp: Let_def split: option.splits list.splits)
qed

subsection \<open>Properties\<close>

text \<open>A page of the menu is guarded with the permissions that show its entry.\<close>

definition guard_matches :: "string \<Rightarrow> bool" where
  "guard_matches p \<longleftrightarrow>
     (case route_element_at p of
        Some (WithPage pg) \<Rightarrow> map_of ROUTE_PERMS p = None
      | Some (RequirePerm ps pg) \<Rightarrow> map_of ROUTE_PERMS p = Some ps \<and> ps \<noteq> []
      | _ \<Rightarrow> False)"

lemma menu_guards_match: "list_all guard_matches (menu_leaves rawRoutes)"
  by code_simp

lemma menu_leaves_no_parents: "list_all (\<lambda>p. \<not> List.member (menu_parents rawRoutes) p) (menu_leaves rawRoutes)"
  by code_simp

lemma visit_leaf:
  assumes "p \<in> set (menu_leaves rawRoutes)" and "currentUser s \<noteq> None"
  shows "(\<exists>pg. visit s p = ShowPage pg)
    \<longleftrightarrow> isPlatformAdmin (currentUser s) \<or> leaf_allowed (hasAnyPerm (currentUser s)) p"
proof -
  have "guard_matches p" using assms(1) menu_guards_match by (simp add: list_all_iff)
  then show ?thesis
    using assms(2)
    by (auto simp: guard_matches_def visit_def render_element_def leaf_allowed_def
        split: option.splits route_element.splits)
qed

text \<open>
  C25. The menu and the route guards agree: for a user whose profile is loaded, a page of the
  menu has its entry in the filtered menu exactly when its route shows the page instead of the
  403 view, for administrators and for every combination of permission points.
\<close>

theorem menu_agrees_with_guards:
  assumes "p \<in> set (menu_leaves rawRoutes)" and "currentUser s \<noteq> None"
  shows "p \<in> set (menu_leaves (filteredRoute (currentUser s)))
    \<longleftrightarrow> (\<exists>pg. visit s p = ShowPage pg)"
proof (cases "isPlatformAdmin (currentUser s)")
  case True
  have "filteredRoute (currentUser s) = rawRoutes"
    by (simp add: filteredRoute_def True rawRoutes_def)
  with True assms show ?thesis by (simp add: visit_leaf)
next
  case False
  have "p \<notin> set (menu_parents rawRoutes)"
    using assms(1) menu_leaves_no_parents by (simp add: list_all_iff)
  from filter_leaves [OF this] False assms show ?thesis
    by (simp add: visit_leaf filteredRoute_def)
qed

definition demo_user :: "string list \<Rightarrow> current_user" where
  "demo_user ps = \<lparr>cu_id = None, username = Some ''ann'', display_name = None, nickname = None,
     avatar = None, email = None, phone = None, auth_source = None, cu_status = None,
     last_login_at = None, last_login_ip = None, roles = None, perms = Some ps,
     is_platform_admin = None\<rparr>"

definition demo_user_state :: "string list \<Rightarrow> user_state" where
  "demo_user_state ps = \<lparr>token = Some ''t'', refreshToken = None,
     currentUser = Some (demo_user ps), profileStatus = PReady\<rparr>"

theorem menu_agrees_with_guards_witness:
  "''/helm/list'' \<in> set (menu_leaves (filteredRoute (Some (demo_user [''helm:*'']))))"
proof -
  have "''/helm/list'' \<in> set (menu_leaves rawRoutes)" by (simp add: rawRoutes_def)
  moreover have "visit (demo_user_state [''helm:*'']) ''/helm/list'' = ShowPage HelmList"
    by code_simp
  ultimately show ?thesis
    using menu_agrees_with_guards [of "''/helm/list''" "demo_user_state [''helm:*'']"]
    by (simp add: demo_user_state_def)
qed

text \<open>
  A menu entry can lead to a 403 view: a user who may install Helm releases but not view
  them sees the parent entry alone, as a link to \<open>/helm\<close>; that route redirects to the release
  list, whose guard turns the user away.
\<close>

theorem parent_entry_forbidden:
  assumes "currentUser s = Some u" and "hasPerm (Some u) ''helm:install''"
    and "\<not> hasPerm (Some u) ''helm:view''"
  shows "''/helm'' \<in> set (menu_leaves (filteredRoute (Some u)))
    \<and> visit s ''/helm'' = Redirect ''/helm/list'' \<and> visit s ''/helm/list'' = Forbidden"
proof -
  have admin: "\<not> isPlatformAdmin (Some u)" using assms(3) by (auto simp: hasPerm_def)
  have r1: "route_element_at ''/helm'' = Some (NavigateTo ''/helm/list'')" by code_simp
  have r2: "route_element_at ''/helm/list'' = Some (RequirePerm [''helm:view''] HelmList)"
    by code_simp
  have f: "filterRoutesByPermission
      [MenuRoute ''/helm'' n (Some [MenuRoute ''/helm/list'' m None, MenuRoute ''/helm/repos'' k None])]
      (hasAnyPerm (Some u)) False = [MenuRoute ''/helm'' n None]" for n m k
    using assms(2,3) admin by (simp add: ROUTE_PERMS_def hasAnyPerm_def)
  have app: "set (menu_leaves (filterRoutesByPermission (rs @ rs') any False))
      = set (menu_leaves (filterRoutesByPermission rs any False))
        \<union> set (menu_leaves (filterRoutesByPermission rs' any False))" for rs rs' any
    by (rule filter_leaves_append)
  have "rawRoutes = butlast rawRoutes @ [last rawRoutes]" by (simp add: rawRoutes_def)
  then have "''/helm'' \<in> set (menu_leaves (filteredRoute (Some u)))"
    using app [of "butlast rawRoutes" "[last rawRoutes]"] f admin
    by (simp add: filteredRoute_def) (simp add: rawRoutes_def)
  then show ?thesis
    using assms admin by (simp add: visit_def r1 r2 render_element_def hasAnyPerm_def)
qed

theorem parent_entry_forbidden_witness:
  "visit (demo_user_state [''helm:install'']) ''/helm/list'' = Forbidden"
proof -
  have "hasPerm (Some (demo_user [''helm:install''])) ''helm:install''"
    "\<not> hasPerm (Some (demo_user [''helm:install''])) ''helm:view''"
    by code_simp+
  then show ?thesis
    using parent_entry_forbidden [of "demo_user_state [''helm:install'']"
        "demo_user [''helm:install'']"]
    by (simp add: demo_user_state_def)
qed

text \<open>
  Granting permissions never closes a page: when a user's permission points are among
  those of another one, who is an administrator if the first is, every page shown to the
  first is shown to the second, on every path of the route table.
\<close>

theorem grant_opens_pages:
  assumes "set (user_perms (currentUser s)) \<subseteq> set (user_perms (currentUser s'))"
    and "isPlatformAdmin (currentUser s) \<longrightarrow> isPlatformAdmin (currentUser s')"
    and "currentUser s' \<noteq> None" and "visit s p = ShowPage pg"
  shows "visit s' p = ShowPage pg"
proof -
  have "hasPerm (currentUser s) c \<Longrightarrow> hasPerm (currentUser s') c" for c
    using hasPerm_mono assms(1,2) by blast
  then have "hasAnyPerm (currentUser s) ps \<Longrightarrow> hasAnyPerm (currentUser s') ps" for ps
    using perm.any_grows assms(2) by blast
  then show ?thesis
    using assms(2-4)
    by (auto simp: visit_def render_element_def split: option.splits route_element.splits if_splits)
qed

theorem grant_opens_pages_witness:
  "visit (demo_user_state [''audit:list'', ''helm:view'']) ''/audit/list'' = ShowPage AuditLogList"
proof -
  have "visit (demo_user_state [''audit:list'']) ''/audit/list'' = ShowPage AuditLogList"
    by code_simp
  moreover have "set (user_perms (currentUser (demo_user_state [''audit:list''])))
      \<subseteq> set (user_perms (currentUser (demo_user_state [''audit:list'', ''helm:view''])))"
    by (simp add: demo_user_state_def demo_user_def user_perms_def)
  moreover have "isPlatformAdmin (currentUser (demo_user_state [''audit:list'']))
      \<longrightarrow> isPlatformAdmin (currentUser (demo_user_state [''audit:list'', ''helm:view'']))"
    by (simp add: demo_user_state_def demo_user_def isPlatformAdmin_def)
  moreover have "currentUser (demo_user_state [''audit:list'', ''helm:view'']) \<noteq> None"
    by (simp add: demo_user_state_def)
  ultimately show ?thesis using grant_opens_pages by blast
qed

subsection \<open>The namespaces of a user\<close>

record ns_scope =
  sc_isFullCluster :: bool
  sc_fromRoles :: "string list"

text \<open>The loop over the roles: the flag and the set so far; \<open>break\<close> ends the recursion.
  Namespace names are DNS labels, on which JavaScript sorts as the bytes do.\<close>

fun role_loop :: "string \<Rightarrow> current_user_role list \<Rightarrow> string list \<Rightarrow> bool \<times> string list" where
  "role_loop code [] acc = (False, acc)"
| "role_loop code (r # rs) acc =
     (if scope_type r = ScopePlatform then (True, acc)
      else if scope_type r = ScopeCluster \<and> role_cluster_code r = Some code then (True, acc)
      else if scope_type r = ScopeNamespace \<and> role_cluster_code r = Some code
                \<and> truthy (role_namespace r)
        then role_loop code rs (set_add (the (role_namespace r)) acc)
      else role_loop code rs acc)"

definition namespace_scope :: "string option \<Rightarrow> current_user option \<Rightarrow> ns_scope" where
  "namespace_scope clusterCode u =
     (if \<not> truthy clusterCode then \<lparr>sc_isFullCluster = False, sc_fromRoles = []\<rparr>
      else if isPlatformAdmin u then \<lparr>sc_isFullCluster = True, sc_fromRoles = []\<rparr>
      else
        let user_roles = (case Option.bind u roles of None \<Rightarrow> [] | Some rs \<Rightarrow> rs);
            (full, names) = role_loop (the clusterCode) user_roles []
        in \<lparr>sc_isFullCluster = full, sc_fromRoles = sort names\<rparr>)"

record allowed_namespaces =
  an_namespaces :: "string list"
  an_isFullCluster :: bool
  an_isLoading :: bool

text \<open>\<open>data\<close> and \<open>fetching\<close> are what \<open>useListNamespacesQuery\<close> returns; \<open>skip_namespaces\<close>
  is its \<open>skip\<close> option.\<close>

definition skip_namespaces :: "string option \<Rightarrow> current_user option \<Rightarrow> bool" where
  "skip_namespaces clusterCode u \<longleftrightarrow>
     \<not> truthy clusterCode \<or> \<not> sc_isFullCluster (namespace_scope clusterCode u)"

definition useAllowedNamespaces ::
  "string option \<Rightarrow> current_user option \<Rightarrow> string list option \<Rightarrow> bool \<Rightarrow> allowed_namespaces" where
  "useAllowedNamespaces clusterCode u data fetching =
     (let sc = namespace_scope clusterCode u in
      if sc_isFullCluster sc
      then \<lparr>an_namespaces = (case data of None \<Rightarrow> [] | Some ns \<Rightarrow> ns),
            an_isFullCluster = True, an_isLoading = fetching\<rparr>
      else \<lparr>an_namespaces = sc_fromRoles sc, an_isFullCluster = False, an_isLoading = False\<rparr>)"

definition grants_cluster :: "string \<Rightarrow> current_user_role \<Rightarrow> bool" where
  "grants_cluster code r \<longleftrightarrow> scope_type r = ScopePlatform
     \<or> scope_type r = ScopeCluster \<and> role_cluster_code r = Some code"

definition grants_namespace :: "string \<Rightarrow> string \<Rightarrow> current_user_role \<Rightarrow> bool" where
  "grants_namespace code n r \<longleftrightarrow> scope_type r = ScopeNamespace
     \<and> role_cluster_code r = Some code \<and> role_namespace r = Some n \<and> n \<noteq> []"

lemma role_loop_full: "fst (role_loop code rs acc) \<longleftrightarrow> (\<exists>r \<in> set rs. grants_cluster code r)"
  by (induction code rs acc rule: role_loop.induct) (auto simp: grants_cluster_def)

lemma role_loop_names:
  "\<not> fst (role_loop code rs acc) \<Longrightarrow>
   set (snd (role_loop code rs acc)) = set acc \<union> {n. \<exists>r \<in> set rs. grants_namespace code n r}"
proof (induction code rs acc rule: role_loop.induct)
  case (1 code acc)
  then show ?case by simp
next
  case (2 code r rs acc)
  then show ?case
    by (cases "role_namespace r")
      (auto simp: grants_namespace_def split: if_splits)
qed

lemma role_loop_distinct: "distinct acc \<Longrightarrow> distinct (snd (role_loop code rs acc))"
  by (induction code rs acc rule: role_loop.induct) auto

text \<open>
  The namespaces offered to a user are the ones the roles grant: with a cluster selected,
  an administrator or a user with a platform role or a role on that cluster gets the full
  listing, and the query is sent for no one else; every other user gets, sorted and without
  duplicates, exactly the namespaces that the namespace roles of that cluster name.
\<close>

theorem allowed_namespaces_follow_roles:
  assumes "truthy clusterCode"
    and "user_roles = (case Option.bind u roles of None \<Rightarrow> [] | Some rs \<Rightarrow> rs)"
    and "a = useAllowedNamespaces clusterCode u data fetching"
  shows "(an_isFullCluster a \<longleftrightarrow> isPlatformAdmin u
           \<or> (\<exists>r \<in> set user_roles. grants_cluster (the clusterCode) r))
    \<and> skip_namespaces clusterCode u = (\<not> an_isFullCluster a)
    \<and> (if an_isFullCluster a then an_namespaces a = (case data of None \<Rightarrow> [] | Some ns \<Rightarrow> ns)
       else sorted (an_namespaces a) \<and> distinct (an_namespaces a)
         \<and> set (an_namespaces a)
             = {n. \<exists>r \<in> set user_roles. grants_namespace (the clusterCode) n r})"
  using assms role_loop_full [of "the clusterCode" user_roles "[]"]
    role_loop_names [of "the clusterCode" user_roles "[]"]
    role_loop_distinct [of "[]" "the clusterCode" user_roles]
  by (simp add: useAllowedNamespaces_def skip_namespaces_def namespace_scope_def Let_def split_beta)

definition ns_role :: "string \<Rightarrow> string \<Rightarrow> current_user_role" where
  "ns_role c n = \<lparr>role_id = 1, role_code = ''dev'', role_name = ''dev'', scope_type = ScopeNamespace,
     role_cluster_code = Some c, role_namespace = Some n\<rparr>"

definition demo_ns_user :: current_user where
  "demo_ns_user = (demo_user [])\<lparr>roles := Some [ns_role ''c1'' ''web'', ns_role ''c2'' ''x'',
     ns_role ''c1'' ''api'', ns_role ''c1'' ''web'']\<rparr>"

theorem allowed_namespaces_follow_roles_witness:
  "an_namespaces (useAllowedNamespaces (Some ''c1'') (Some demo_ns_user) None False)
   = [''api'', ''web'']
   \<and> \<not> an_isFullCluster (useAllowedNamespaces (Some ''c1'') (Some demo_ns_user) None False)"
proof -
  have "truthy (Some ''c1'')" by simp
  from allowed_namespaces_follow_roles [OF this refl refl, of "Some demo_ns_user" None False]
  have "\<not> an_isFullCluster (useAllowedNamespaces (Some ''c1'') (Some demo_ns_user) None False)"
    by (simp add: isPlatformAdmin_def demo_ns_user_def demo_user_def grants_cluster_def ns_role_def)
  moreover have "an_namespaces (useAllowedNamespaces (Some ''c1'') (Some demo_ns_user) None False)
      = [''api'', ''web'']"
    by code_simp
  ultimately show ?thesis by blast
qed

end
