(* ===== verification/WsStore.thy ===== *)
theory WsStore
  imports Prelude
begin

section \<open>The WebSocket slice\<close>

text \<open>
  The reducers and selectors of \<open>slices/wsSlice.ts\<close>: connection status, subscriptions and
  the three message buffers. \<open>new Date()\<close> is the argument \<open>now\<close> of the reducer. A
  message is typed by its \<open>type\<close> field, as the casts of \<open>onMessage\<close> declare; a missing
  \<open>data\<close> is \<open>None\<close>. The buffers are shown to hold the most recent part of the history
  of what was pushed into them.
\<close>

subsection \<open>Ring buffers\<close>

definition ringPush :: "'a list \<Rightarrow> 'a \<Rightarrow> nat \<Rightarrow> 'a list" where
  "ringPush arr item limit =
     (let arr1 = arr @ [item]
      in if length arr1 > limit then drop (length arr1 - limit) arr1 else arr1)"

text \<open>The last \<open>n\<close> elements of a history.\<close>

definition last_n :: "nat \<Rightarrow> 'a list \<Rightarrow> 'a list" where
  "last_n n xs = drop (length xs - n) xs"

lemma length_last_n [simp]: "length (last_n n xs) = min n (length xs)"
  by (auto simp: last_n_def)

lemma last_n_Nil [simp]: "last_n n [] = []"
  by (simp add: last_n_def)

lemma last_n_short [simp]: "length xs \<le> n \<Longrightarrow> last_n n xs = xs"
  by (simp add: last_n_def)

lemma ringPush_last_n: "ringPush arr item n = last_n n (arr @ [item])"
  by (auto simp: ringPush_def last_n_def Let_def)

lemma last_n_last_n_append: "last_n n (last_n n xs @ ys) = last_n n (xs @ ys)"
proof (cases "length xs \<le> n")
  case False
  then have "length xs - (length xs - n) = n" by simp
  with False show ?thesis by (simp add: last_n_def add.commute)
qed simp

text \<open>
  A bounded buffer as its readers see it: a push keeps it within the bound and drops only
  from the front. Over a whole history this gives the suffix of that history.
\<close>

locale bounded_buffer =
  fixes push :: "'a list \<Rightarrow> 'a \<Rightarrow> 'a list" and bound :: nat
  assumes push_suffix: "push b x = last_n bound (b @ [x])"
    and bound_pos: "0 < bound"
begin

lemma push_length: "length (push b x) \<le> bound"
  by (simp add: push_suffix)

lemma push_last: "push b x \<noteq> [] \<and> last (push b x) = x"
  using bound_pos by (simp add: push_suffix last_n_def)

lemma pushes_suffix: "length b \<le> bound \<Longrightarrow> foldl push b xs = last_n bound (b @ xs)"
proof (induction xs arbitrary: b)
  case Nil
  then show ?case by simp
next
  case (Cons x xs)
  have "foldl push (push b x) xs = last_n bound (push b x @ xs)"
    by (rule Cons.IH) (rule push_length)
  also have "\<dots> = last_n bound (b @ x # xs)"
    by (simp add: push_suffix last_n_last_n_append)
  finally show ?case by simp
qed

end

subsection \<open>Messages and state\<close>

datatype connection_status =
  WIdle | WConnecting | WOpen | WClosing | WClosed | WReconnecting | WError

datatype task_stage =
  StPending | StExporting | StUploading | StCompleted | StFailed | StRestoring

record task_progress =
  tp_task_id :: "string option"
  tp_backup_id :: "string option"
  tp_cluster_code :: "string option"
  tp_namespace :: "string option"
  tp_kind :: "string option"
  tp_name :: "string option"
  tp_stage :: task_stage
  tp_progress :: int
  tp_message :: "string option"
  tp_error :: "string option"
  tp_timestamp :: "string option"

datatype event_type = EvAdded | EvModified | EvDeleted | EvError

datatype event_severity = SevNormal | SevWarning | SevError

record cluster_event =
  ce_cluster_code :: string
  ce_kind :: string
  ce_namespace :: "string option"
  ce_name :: string
  ce_event_type :: event_type
  ce_reason :: "string option"
  ce_message :: "string option"
  ce_severity :: "event_severity option"
  ce_timestamp :: "string option"

record pod_log_line =
  pl_cluster_code :: string
  pl_namespace :: string
  pl_pod_name :: string
  pl_container_name :: "string option"
  pl_line :: string
  pl_follow :: "bool option"
  pl_eof :: "bool option"

text \<open>
  A message: its type, the optional channel and the optional data. The error message of an
  \<open>error\<close> frame is itself optional.
\<close>

datatype ws_message =
    MsgPong "string option"
  | MsgError "string option" "string option option"
  | MsgTaskProgress "string option" "task_progress option"
  | MsgClusterEvent "string option" "cluster_event option"
  | MsgPodLogs "string option" "pod_log_line option"
  | MsgOther string

record ws_state =
  ws_status :: connection_status
  lastError :: "string option"
  lastConnectedAt :: "string option"
  reconnectCount :: nat
  subscriptions :: "string list"
  taskProgress :: "task_progress list"
  clusterEvents :: "cluster_event list"
  podLogs :: "string \<rightharpoonup> pod_log_line list"
  lastPongAt :: "string option"

definition MAX_TASK_PROGRESS :: nat where "MAX_TASK_PROGRESS = 200"

definition MAX_CLUSTER_EVENTS :: nat where "MAX_CLUSTER_EVENTS = 200"

definition MAX_POD_LOG_LINES :: nat where "MAX_POD_LOG_LINES = 1000"

definition initial_ws_state :: ws_state where
  "initial_ws_state =
     \<lparr>ws_status = WIdle, lastError = None, lastConnectedAt = None, reconnectCount = 0,
      subscriptions = [], taskProgress = [], clusterEvents = [], podLogs = Map.empty,
      lastPongAt = None\<rparr>"

definition buildPodLogChannel :: "string \<Rightarrow> string \<Rightarrow> string \<Rightarrow> string" where
  "buildPodLogChannel clusterCode ns podName =
     ''pod_logs'' @ '':'' @ clusterCode @ '':'' @ ns @ '':'' @ podName"

text \<open>The text of a failed subscription without a message of its own.\<close>

definition txt_subscribe_failed :: string where
  "txt_subscribe_failed = ''WebSocket '' @
     [CHR 0xE9, CHR 0xA2, CHR 0x91, CHR 0xE9, CHR 0x81, CHR 0x93, CHR 0xE8, CHR 0xAE, CHR 0xA2,
      CHR 0xE9, CHR 0x98, CHR 0x85, CHR 0xE5, CHR 0xA4, CHR 0xB1, CHR 0xE8, CHR 0xB4, CHR 0xA5]"

subsection \<open>The reducers\<close>

datatype ws_action =
    SetStatus connection_status
  | SetLastError "string option"
  | SetReconnecting
  | BumpReconnect
  | AddSubscription string
  | RemoveSubscription string
  | ClearSubscriptions
  | OnMessage ws_message
  | ClearTaskProgress
  | ClearClusterEvents
  | ClearPodLogs "string option"
  | ResetWS

definition pod_log_bucket :: "string option \<Rightarrow> pod_log_line \<Rightarrow> string" where
  "pod_log_bucket channel payload =
     (case channel of
        Some ch \<Rightarrow>
          if ch \<noteq> [] \<and> str_includes ch '':'' then ch
          else buildPodLogChannel (pl_cluster_code payload) (pl_namespace payload) (pl_pod_name payload)
      | None \<Rightarrow>
          buildPodLogChannel (pl_cluster_code payload) (pl_namespace payload) (pl_pod_name payload))"

fun onMessage :: "string \<Rightarrow> ws_message \<Rightarrow> ws_state \<Rightarrow> ws_state" where
  "onMessage now (MsgPong c) s = s\<lparr>lastPongAt := Some now\<rparr>"
| "onMessage now (MsgError c d) s =
     s\<lparr>lastError := Some (or_str (Option.bind d (\<lambda>m. m)) txt_subscribe_failed)\<rparr>"
| "onMessage now (MsgTaskProgress c None) s = s"
| "onMessage now (MsgTaskProgress c (Some p)) s =
     s\<lparr>taskProgress := ringPush (taskProgress s) p MAX_TASK_PROGRESS\<rparr>"
| "onMessage now (MsgClusterEvent c None) s = s"
| "onMessage now (MsgClusterEvent c (Some p)) s =
     s\<lparr>clusterEvents := ringPush (clusterEvents s) p MAX_CLUSTER_EVENTS\<rparr>"
| "onMessage now (MsgPodLogs c None) s = s"
| "onMessage now (MsgPodLogs c (Some p)) s =
     (let channel = pod_log_bucket c p;
          bucket = (case podLogs s channel of None \<Rightarrow> [] | Some b \<Rightarrow> b)
      in if channel = [] then s
         else s\<lparr>podLogs := (podLogs s)(channel \<mapsto> ringPush bucket p MAX_POD_LOG_LINES)\<rparr>)"
| "onMessage now (MsgOther t) s = s"

fun ws_reduce :: "string \<Rightarrow> ws_action \<Rightarrow> ws_state \<Rightarrow> ws_state" where
  "ws_reduce now (SetStatus st) s =
     (let s1 = s\<lparr>ws_status := st\<rparr>
      in if st = WOpen then s1\<lparr>lastConnectedAt := Some now, lastError := None\<rparr> else s1)"
| "ws_reduce now (SetLastError e) s =
     (let s1 = s\<lparr>lastError := e\<rparr>
      in if truthy e then s1\<lparr>ws_status := WError\<rparr> else s1)"
| "ws_reduce now SetReconnecting s =
     s\<lparr>ws_status := WReconnecting, reconnectCount := reconnectCount s + 1\<rparr>"
| "ws_reduce now BumpReconnect s = s\<lparr>reconnectCount := reconnectCount s + 1\<rparr>"
| "ws_reduce now (AddSubscription ch) s =
     (if ch = [] then s
      else if ch \<in> set (subscriptions s) then s
      else s\<lparr>subscriptions := subscriptions s @ [ch]\<rparr>)"
| "ws_reduce now (RemoveSubscription ch) s =
     (let s1 = s\<lparr>subscriptions := filter (\<lambda>c. c \<noteq> ch) (subscriptions s)\<rparr>
      in if starts_with ch (''pod_logs'' @ '':'') then s1\<lparr>podLogs := (podLogs s1)(ch := None)\<rparr>
         else s1)"
| "ws_reduce now ClearSubscriptions s = s\<lparr>subscriptions := [], podLogs := Map.empty\<rparr>"
| "ws_reduce now (OnMessage m) s = onMessage now m s"
| "ws_reduce now ClearTaskProgress s = s\<lparr>taskProgress := []\<rparr>"
| "ws_reduce now ClearClusterEvents s = s\<lparr>clusterEvents := []\<rparr>"
| "ws_reduce now (ClearPodLogs c) s =
     (case c of
        None \<Rightarrow> s\<lparr>podLogs := Map.empty\<rparr>
      | Some ch \<Rightarrow> if ch = [] then s\<lparr>podLogs := Map.empty\<rparr>
                   else s\<lparr>podLogs := (podLogs s)(ch := None)\<rparr>)"
| "ws_reduce now ResetWS s =
     s\<lparr>ws_status := WIdle, lastError := None, reconnectCount := 0, subscriptions := [],
       taskProgress := [], clusterEvents := [], podLogs := Map.empty, lastPongAt := None\<rparr>"

subsection \<open>Selectors\<close>

definition selectPodLogs :: "ws_state \<Rightarrow> string \<Rightarrow> pod_log_line list" where
  "selectPodLogs s channel = (case podLogs s channel of None \<Rightarrow> [] | Some b \<Rightarrow> b)"

subsection \<open>The buffers refine the message history\<close>

text \<open>
  The specification of the three buffers: the whole history of what arrived since the last
  clearing action, kept without a bound. \<open>log_step\<close> follows an action on the histories;
  the slice must hold the most recent part of each.
\<close>

interpretation task_buffer: bounded_buffer "\<lambda>b x. ringPush b x MAX_TASK_PROGRESS" MAX_TASK_PROGRESS
  by unfold_locales (simp_all add: ringPush_last_n MAX_TASK_PROGRESS_def)

interpretation event_buffer: bounded_buffer "\<lambda>b x. ringPush b x MAX_CLUSTER_EVENTS" MAX_CLUSTER_EVENTS
  by unfold_locales (simp_all add: ringPush_last_n MAX_CLUSTER_EVENTS_def)

interpretation line_buffer: bounded_buffer "\<lambda>b x. ringPush b x MAX_POD_LOG_LINES" MAX_POD_LOG_LINES
  by unfold_locales (simp_all add: ringPush_last_n MAX_POD_LOG_LINES_def)

record ws_log =
  lg_tasks :: "task_progress list"
  lg_events :: "cluster_event list"
  lg_lines :: "string \<Rightarrow> pod_log_line list"

definition empty_log :: ws_log where
  "empty_log = \<lparr>lg_tasks = [], lg_events = [], lg_lines = (\<lambda>_. [])\<rparr>"

fun log_step :: "ws_action \<Rightarrow> ws_log \<Rightarrow> ws_log" where
  "log_step (OnMessage (MsgTaskProgress c (Some p))) g = g\<lparr>lg_tasks := lg_tasks g @ [p]\<rparr>"
| "log_step (OnMessage (MsgClusterEvent c (Some p))) g = g\<lparr>lg_events := lg_events g @ [p]\<rparr>"
| "log_step (OnMessage (MsgPodLogs c (Some p))) g =
     (let ch = pod_log_bucket c p
      in g\<lparr>lg_lines := (lg_lines g)(ch := lg_lines g ch @ [p])\<rparr>)"
| "log_step ClearTaskProgress g = g\<lparr>lg_tasks := []\<rparr>"
| "log_step ClearClusterEvents g = g\<lparr>lg_events := []\<rparr>"
| "log_step (ClearPodLogs c) g =
     (if truthy c then g\<lparr>lg_lines := (lg_lines g)(the c := [])\<rparr> else g\<lparr>lg_lines := (\<lambda>_. [])\<rparr>)"
| "log_step (RemoveSubscription ch) g =
     (if starts_with ch ''pod_logs:'' then g\<lparr>lg_lines := (lg_lines g)(ch := [])\<rparr> else g)"
| "log_step ClearSubscriptions g = g\<lparr>lg_lines := (\<lambda>_. [])\<rparr>"
| "log_step ResetWS g = empty_log"
| "log_step _ g = g"

definition ws_run :: "(string \<times> ws_action) list \<Rightarrow> ws_state \<Rightarrow> ws_state" where
  "ws_run as s = fold (\<lambda>(now, a) s. ws_reduce now a s) as s"

definition log_run :: "(string \<times> ws_action) list \<Rightarrow> ws_log \<Rightarrow> ws_log" where
  "log_run as g = fold (\<lambda>(now, a) g. log_step a g) as g"

definition holds_recent :: "ws_state \<Rightarrow> ws_log \<Rightarrow> bool" where
  "holds_recent s g \<longleftrightarrow>
     taskProgress s = last_n MAX_TASK_PROGRESS (lg_tasks g) \<and>
     clusterEvents s = last_n MAX_CLUSTER_EVENTS (lg_events g) \<and>
     (\<forall>ch. selectPodLogs s ch = last_n MAX_POD_LOG_LINES (lg_lines g ch))"

lemma pod_log_bucket_nonempty [simp]: "pod_log_bucket c p \<noteq> []"
  by (auto simp: pod_log_bucket_def buildPodLogChannel_def split: option.splits)

lemma pod_log_bucket_nonempty' [simp]: "[] \<noteq> pod_log_bucket c p"
  by (metis pod_log_bucket_nonempty)

text \<open>The two delivery paths of a log line lead to the bucket its viewer reads.\<close>

lemma pod_log_bucket_short:
  "pod_log_bucket None p =
     buildPodLogChannel (pl_cluster_code p) (pl_namespace p) (pl_pod_name p)"
  "pod_log_bucket (Some ''pod_logs'') p =
     buildPodLogChannel (pl_cluster_code p) (pl_namespace p) (pl_pod_name p)"
  by (simp_all add: pod_log_bucket_def starts_with_def)

lemma pod_log_bucket_full:
  "pod_log_bucket (Some (buildPodLogChannel c n q)) p = buildPodLogChannel c n q"
  by (simp add: pod_log_bucket_def str_includes_char buildPodLogChannel_def)

lemma ringPush_recent:
  "0 < n \<Longrightarrow> ringPush (last_n n xs) x n = last_n n (xs @ [x])"
  by (simp add: ringPush_last_n last_n_last_n_append)

lemma selectPodLogs_update [simp]:
  "selectPodLogs (s\<lparr>podLogs := f\<rparr>) ch = (case f ch of None \<Rightarrow> [] | Some b \<Rightarrow> b)"
  by (simp add: selectPodLogs_def)

lemma selectPodLogs_frame [simp]:
  "selectPodLogs (s\<lparr>ws_status := a\<rparr>) ch = selectPodLogs s ch"
  "selectPodLogs (s\<lparr>lastError := b\<rparr>) ch = selectPodLogs s ch"
  "selectPodLogs (s\<lparr>lastConnectedAt := b\<rparr>) ch = selectPodLogs s ch"
  "selectPodLogs (s\<lparr>reconnectCount := k\<rparr>) ch = selectPodLogs s ch"
  "selectPodLogs (s\<lparr>subscriptions := l\<rparr>) ch = selectPodLogs s ch"
  "selectPodLogs (s\<lparr>taskProgress := t\<rparr>) ch = selectPodLogs s ch"
  "selectPodLogs (s\<lparr>clusterEvents := e\<rparr>) ch = selectPodLogs s ch"
  "selectPodLogs (s\<lparr>lastPongAt := b\<rparr>) ch = selectPodLogs s ch"
  by (simp_all add: selectPodLogs_def)

lemma limits_pos: "0 < MAX_TASK_PROGRESS" "0 < MAX_CLUSTER_EVENTS" "0 < MAX_POD_LOG_LINES"
  by (simp_all add: MAX_TASK_PROGRESS_def MAX_CLUSTER_EVENTS_def MAX_POD_LOG_LINES_def)

lemma holds_recent_message:
  assumes "holds_recent s g"
  shows "holds_recent (onMessage now m s) (log_step (OnMessage m) g)"
  using assms
  by (cases "(now, m, s)" rule: onMessage.cases)
    (auto simp: holds_recent_def Let_def ringPush_recent limits_pos,
     auto simp: selectPodLogs_def ringPush_recent limits_pos)

lemma holds_recent_step:
  assumes "holds_recent s g"
  shows "holds_recent (ws_reduce now a s) (log_step a g)"
proof (cases a)
  case (OnMessage m)
  then show ?thesis using holds_recent_message [OF assms] by simp
next
  case (ClearPodLogs c)
  then show ?thesis
    using assms by (cases c) (auto simp: holds_recent_def selectPodLogs_def)
qed (use assms in \<open>auto simp: holds_recent_def empty_log_def Let_def selectPodLogs_def\<close>)

lemma holds_recent_run:
  "holds_recent s g \<Longrightarrow> holds_recent (ws_run as s) (log_run as g)"
  by (induction as arbitrary: s g)
    (auto simp: ws_run_def log_run_def holds_recent_step split: prod.splits)

lemma holds_recent_initial: "holds_recent initial_ws_state empty_log"
  by (simp add: holds_recent_def initial_ws_state_def empty_log_def selectPodLogs_def)

text \<open>
  C26. The buffers of the slice refine the message history: after any sequence of actions from
  the initial state, the task buffer, the event buffer and the log buffer of every channel
  hold exactly the most recent 200, 200 and 1000 entries, in order, of everything that
  arrived for them since they were last cleared.
\<close>

theorem buffers_refine_history:
  "holds_recent (ws_run as initial_ws_state) (log_run as empty_log)"
  by (rule holds_recent_run) (rule holds_recent_initial)

subsection \<open>Well-formed states\<close>

definition ws_wf :: "ws_state \<Rightarrow> bool" where
  "ws_wf s \<longleftrightarrow>
     distinct (subscriptions s) \<and> [] \<notin> set (subscriptions s) \<and>
     length (taskProgress s) \<le> 200 \<and> length (clusterEvents s) \<le> 200 \<and>
     (\<forall>ch b. podLogs s ch = Some b \<longrightarrow> length b \<le> 1000) \<and> podLogs s [] = None"

lemma length_ringPush: "0 < n \<Longrightarrow> length (ringPush b x n) \<le> n"
  by (simp add: ringPush_last_n)

lemma ws_wf_initial: "ws_wf initial_ws_state"
  by (simp add: ws_wf_def initial_ws_state_def)

lemma ws_wf_message: "ws_wf s \<Longrightarrow> ws_wf (onMessage now m s)"
  using length_ringPush [of MAX_TASK_PROGRESS] length_ringPush [of MAX_CLUSTER_EVENTS]
    length_ringPush [of MAX_POD_LOG_LINES] limits_pos
  by (cases "(now, m, s)" rule: onMessage.cases)
    (auto simp: ws_wf_def Let_def MAX_TASK_PROGRESS_def MAX_CLUSTER_EVENTS_def
      MAX_POD_LOG_LINES_def)

lemma ws_wf_step: "ws_wf s \<Longrightarrow> ws_wf (ws_reduce now a s)"
  by (cases a) (auto simp: ws_wf_message, auto simp: ws_wf_def Let_def split: option.splits)

text \<open>
  C35. Every reachable state of the slice is well formed: no channel is listed twice or with
  an empty name, the task and event buffers hold at most 200 entries and every log buffer
  at most 1000 lines.
\<close>

theorem ws_run_wf: "ws_wf (ws_run as initial_ws_state)"
proof -
  have "ws_wf s \<Longrightarrow> ws_wf (ws_run as s)" for s
    by (induction as arbitrary: s) (auto simp: ws_run_def ws_wf_step split: prod.splits)
  then show ?thesis using ws_wf_initial by blast
qed

text \<open>
  C36. A log line is filed under the channel that the viewer of its pod reads, on both
  delivery paths: a frame that names the full channel goes to that channel, and a frame
  that only names \<open>pod_logs\<close> (or no channel) goes to the channel built from the line's
  own cluster, namespace and pod, where it becomes the last line; no other channel changes.
\<close>

theorem pod_log_routing:
  assumes "channel = None \<or> channel = Some ''pod_logs''
      \<or> channel = Some (buildPodLogChannel (pl_cluster_code p) (pl_namespace p) (pl_pod_name p))"
  shows "let ch = buildPodLogChannel (pl_cluster_code p) (pl_namespace p) (pl_pod_name p);
             s' = ws_reduce now (OnMessage (MsgPodLogs channel (Some p))) s
         in selectPodLogs s' ch \<noteq> [] \<and> last (selectPodLogs s' ch) = p
            \<and> selectPodLogs s' = (selectPodLogs s)(ch := selectPodLogs s' ch)"
proof -
  let ?ch = "buildPodLogChannel (pl_cluster_code p) (pl_namespace p) (pl_pod_name p)"
  have "pod_log_bucket channel p = ?ch"
    using assms by (auto simp: pod_log_bucket_short pod_log_bucket_full)
  moreover have "?ch \<noteq> []" by (simp add: buildPodLogChannel_def)
  ultimately show ?thesis
    by (simp add: Let_def fun_eq_iff line_buffer.push_last) (simp add: selectPodLogs_def)
qed

text \<open>The witness: a line of pod \<open>p\<close> that arrives on the short channel name.\<close>

theorem pod_log_routing_witness:
  "last (selectPodLogs (ws_reduce ''now'' (OnMessage (MsgPodLogs (Some ''pod_logs'')
       (Some \<lparr>pl_cluster_code = ''c'', pl_namespace = ''n'', pl_pod_name = ''p'',
              pl_container_name = None, pl_line = ''hello'', pl_follow = None, pl_eof = None\<rparr>)))
       initial_ws_state) ''pod_logs:c:n:p'')
   = \<lparr>pl_cluster_code = ''c'', pl_namespace = ''n'', pl_pod_name = ''p'',
      pl_container_name = None, pl_line = ''hello'', pl_follow = None, pl_eof = None\<rparr>"
proof -
  let ?p = "\<lparr>pl_cluster_code = ''c'', pl_namespace = ''n'', pl_pod_name = ''p'',
              pl_container_name = None, pl_line = ''hello'', pl_follow = None, pl_eof = None\<rparr>"
  have "Some ''pod_logs'' = None \<or> Some ''pod_logs'' = Some ''pod_logs''
      \<or> Some ''pod_logs'' =
        Some (buildPodLogChannel (pl_cluster_code ?p) (pl_namespace ?p) (pl_pod_name ?p))"
    by simp
  from pod_log_routing [OF this, of "''now''" initial_ws_state]
  show ?thesis by (simp add: buildPodLogChannel_def Let_def del: ws_reduce.simps)
qed

end
