(* ===== verification/Store.thy ===== *)
theory Store
  imports Session WsStore
begin

section \<open>The root store\<close>

text \<open>
  \<open>app/store.ts\<close>: the root reducer over the user, application and WebSocket slices and the
  six API caches, and the middleware \<open>resetApiCacheOnLogout\<close>. The caches belong to RTK
  Query, which is not part of the repository: \<open>api_reduce\<close> (its reducer) and \<open>api_init\<close>
  (its initial state, which the documented action \<open>resetApiState\<close> restores) are parameters.
\<close>

datatype api_slice = ClusterApi | ResourceApi | VersionApi | BackupApi | RbacApi | HelmApi

record 'c root_state =
  r_user :: user_state
  r_app :: app_state
  r_ws :: ws_state
  r_cache :: "api_slice \<Rightarrow> 'c"
  r_ls :: storage

datatype 'x root_action =
    UserAct user_action
  | AppAct app_action
  | WsAct ws_action
  | ApiAct api_slice 'x
  | ResetApiState api_slice

definition allApis :: "api_slice list" where
  "allApis = [ClusterApi, ResourceApi, VersionApi, BackupApi, RbacApi, HelmApi]"

fun root_reduce ::
  "(api_slice \<Rightarrow> 'x \<Rightarrow> 'c \<Rightarrow> 'c) \<Rightarrow> (api_slice \<Rightarrow> 'c) \<Rightarrow> string \<Rightarrow>
   'x root_action \<Rightarrow> 'c root_state \<Rightarrow> 'c root_state" where
  "root_reduce api_reduce api_init now (UserAct a) s =
     (let (u, ls) = user_reduce a (r_user s, r_ls s) in s\<lparr>r_user := u, r_ls := ls\<rparr>)"
| "root_reduce api_reduce api_init now (AppAct a) s =
     (let (p, ls) = app_reduce a (r_app s, r_ls s) in s\<lparr>r_app := p, r_ls := ls\<rparr>)"
| "root_reduce api_reduce api_init now (WsAct a) s = s\<lparr>r_ws := ws_reduce now a (r_ws s)\<rparr>"
| "root_reduce api_reduce api_init now (ApiAct i x) s =
     s\<lparr>r_cache := (r_cache s)(i := api_reduce i x (r_cache s i))\<rparr>"
| "root_reduce api_reduce api_init now (ResetApiState i) s =
     s\<lparr>r_cache := (r_cache s)(i := api_init i)\<rparr>"

text \<open>
  The middleware runs the action first; after a logout it dispatches the two kinds of resets.
  Neither of them is a logout, so a nested dispatch is a plain reducer step.
\<close>

definition store_dispatch ::
  "(api_slice \<Rightarrow> 'x \<Rightarrow> 'c \<Rightarrow> 'c) \<Rightarrow> (api_slice \<Rightarrow> 'c) \<Rightarrow> string \<Rightarrow>
   'x root_action \<Rightarrow> 'c root_state \<Rightarrow> 'c root_state" where
  "store_dispatch api_reduce api_init now a s =
     (let result = root_reduce api_reduce api_init now a s
      in case a of
           UserAct Logout \<Rightarrow>
             fold (\<lambda>i. root_reduce api_reduce api_init now (ResetApiState i)) allApis
               (root_reduce api_reduce api_init now (AppAct (SetSelectedClusterCode None)) result)
         | _ \<Rightarrow> result)"

definition initial_root_state :: "(api_slice \<Rightarrow> 'c) \<Rightarrow> storage \<Rightarrow> 'c root_state" where
  "initial_root_state api_init ls =
     \<lparr>r_user = initial_user_state ls, r_app = initial_app_state ls, r_ws = initial_ws_state,
      r_cache = api_init, r_ls = ls\<rparr>"

lemma fold_reset:
  "fold (\<lambda>i. root_reduce api_reduce api_init now (ResetApiState i)) is s
   = s\<lparr>r_cache := (\<lambda>i. if i \<in> set is then api_init i else r_cache s i)\<rparr>"
  by (induction "is" arbitrary: s) (auto simp: fun_eq_iff)

lemma set_allApis: "set allApis = UNIV"
proof -
  have "i \<in> set allApis" for i by (cases i) (simp_all add: allApis_def)
  then show ?thesis by blast
qed

text \<open>The effect of a logout: only the sidebar, the theme, the WebSocket slice and the other keys stay.\<close>

lemma logout_resets_store:
  "store_dispatch api_reduce api_init now (UserAct Logout) s =
     s\<lparr>r_user := initial_user_state Map.empty,
       r_app := (r_app s)\<lparr>selectedClusterCode := None\<rparr>,
       r_cache := api_init,
       r_ls := (r_ls s)(''token'' := None, ''refresh_token'' := None,
                        ''selectedClusterCode'' := None)\<rparr>"
  by (cases "r_user s")
    (simp add: store_dispatch_def fold_reset set_allApis initial_user_state_def
      readStoredToken_def ls_get_def ls_remove_def fun_upd_twist)

text \<open>
  After a logout a page reload starts logged out, whatever was stored before: the root
  state built from the storage has no token, no refresh token, no user and no selected
  cluster, and the caches are initial.
\<close>

theorem reload_after_logout:
  "let s' = initial_root_state api_init
              (r_ls (store_dispatch api_reduce api_init now (UserAct Logout) s))
   in r_user s' = \<lparr>token = None, refreshToken = None, currentUser = None, profileStatus = PIdle\<rparr>
      \<and> selectedClusterCode (r_app s') = None \<and> r_cache s' = api_init"
  by (cases "r_user s")
    (simp add: Let_def store_dispatch_def fold_reset set_allApis initial_root_state_def
      initial_user_state_def initial_app_state_def readStoredToken_def ls_get_def ls_remove_def)

subsection \<open>Two accounts, one browser\<close>

text \<open>
  The hook of the connection resets the WebSocket slice when the layout of the logged-in pages goes
  away after a logout; the time of the last connection survives, in the store only. Two stores that
  agree on the rest are told apart by nothing that happens later. An action comes with its time.
\<close>

definition forget_time :: "'c root_state \<Rightarrow> 'c root_state" where
  "forget_time s = s\<lparr>r_ws := (r_ws s)\<lparr>lastConnectedAt := None\<rparr>\<rparr>"

definition store_run ::
  "(api_slice \<Rightarrow> 'x \<Rightarrow> 'c \<Rightarrow> 'c) \<Rightarrow> (api_slice \<Rightarrow> 'c) \<Rightarrow> (string \<times> 'x root_action) list
    \<Rightarrow> 'c root_state \<Rightarrow> 'c root_state" where
  "store_run api_reduce api_init as s = fold (\<lambda>(now, a). store_dispatch api_reduce api_init now a) as s"

lemma store_run_simps [simp]:
  "store_run R I [] s = s"
  "store_run R I ((now, a) # as) s = store_run R I as (store_dispatch R I now a s)"
  "store_run R I (as @ bs) s = store_run R I bs (store_run R I as s)"
  by (simp_all add: store_run_def)

lemma ws_reduce_forgets:
  "(ws_reduce now a (s\<lparr>lastConnectedAt := t\<rparr>))\<lparr>lastConnectedAt := None\<rparr>
     = (ws_reduce now a s)\<lparr>lastConnectedAt := None\<rparr>"
proof (cases a)
  case (OnMessage m)
  then show ?thesis by (cases "(now, m, s)" rule: onMessage.cases) (simp_all add: Let_def)
qed (simp_all add: Let_def split: option.split)

lemma dispatch_forgets:
  "forget_time (store_dispatch R I now a (forget_time s)) = forget_time (store_dispatch R I now a s)"
proof (cases a)
  case (UserAct u)
  then show ?thesis
    by (cases u) (simp_all add: store_dispatch_def forget_time_def fold_reset set_allApis Let_def case_prod_unfold)
next
  case (AppAct b)
  obtain p ls where "app_reduce b (r_app s, r_ls s) = (p, ls)" by fastforce
  with AppAct show ?thesis by (simp add: store_dispatch_def forget_time_def)
next
  case (WsAct b)
  then show ?thesis by (simp add: store_dispatch_def forget_time_def ws_reduce_forgets)
qed (simp_all add: store_dispatch_def forget_time_def)

lemma dispatch_congruent:
  assumes "forget_time s = forget_time s'"
  shows "forget_time (store_dispatch R I now a s) = forget_time (store_dispatch R I now a s')"
proof -
  have "forget_time (store_dispatch R I now a s) = forget_time (store_dispatch R I now a (forget_time s))"
    by (rule dispatch_forgets [symmetric])
  also have "\<dots> = forget_time (store_dispatch R I now a s')" by (simp only: assms dispatch_forgets)
  finally show ?thesis .
qed

lemma run_congruent:
  "forget_time s = forget_time s' \<Longrightarrow> forget_time (store_run R I as s) = forget_time (store_run R I as s')"
proof (induction as arbitrary: s s')
  case (Cons p as)
  obtain now a where "p = (now, a)" by (cases p)
  then show ?case using Cons.IH [OF dispatch_congruent [OF Cons.prems]] by (simp only: store_run_simps)
qed simp

text \<open>What of a history survives a logout: the actions on the sidebar and on the theme.\<close>

definition kept_action :: "'x root_action \<Rightarrow> bool" where
  "kept_action a \<longleftrightarrow>
     (case a of AppAct (SetSelectedClusterCode c) \<Rightarrow> False | AppAct b \<Rightarrow> True | _ \<Rightarrow> False)"

definition session_keys :: "string set" where
  "session_keys = {''token'', ''refresh_token'', ''selectedClusterCode''}"

definition kept_part :: "'c root_state \<Rightarrow> bool \<times> string \<times> storage" where
  "kept_part s = (collapsed (r_app s), theme (r_app s), (r_ls s) |` (- session_keys))"

lemma kept_part_eq:
  "kept_part s = kept_part s' \<longleftrightarrow>
     collapsed (r_app s) = collapsed (r_app s') \<and> theme (r_app s) = theme (r_app s')
     \<and> (\<forall>k. k \<notin> session_keys \<longrightarrow> r_ls s k = r_ls s' k)"
proof -
  have "f |` (- A) = g |` (- A) \<longleftrightarrow> (\<forall>k. k \<notin> A \<longrightarrow> f k = g k)" for f g :: storage and A
    by (auto simp: restrict_map_def fun_eq_iff)
  then show ?thesis by (simp add: kept_part_def)
qed

lemma kept_part_fields:
  "kept_part (s\<lparr>r_ws := w\<rparr>) = kept_part s" "kept_part (s\<lparr>r_cache := f\<rparr>) = kept_part s"
  "kept_part (s\<lparr>r_user := u, r_ls := ls\<rparr>) = kept_part s \<longleftrightarrow> (\<forall>k. k \<notin> session_keys \<longrightarrow> ls k = r_ls s k)"
  by (auto simp: kept_part_def restrict_map_def fun_eq_iff)

lemma user_reduce_other_keys: "k \<notin> session_keys \<Longrightarrow> snd (user_reduce a (s, ls)) k = ls k"
  by (cases a) (auto simp: session_keys_def Let_def ls_remove_def persistToken_other)

lemma app_reduce_kept:
  assumes "kept_part s = kept_part s'"
  shows "kept_part (store_dispatch R I now (AppAct b) s) = kept_part (store_dispatch R I now' (AppAct b) s')"
  using assms
  by (cases b)
    (auto simp: store_dispatch_def kept_part_eq session_keys_def ls_set_def ls_remove_def split: option.split)

lemma unkept_dispatch: "\<not> kept_action a \<Longrightarrow> kept_part (store_dispatch R I now a s) = kept_part s"
proof (cases a)
  case (UserAct u)
  obtain v ls where red: "user_reduce u (r_user s, r_ls s) = (v, ls)" by fastforce
  then have "kept_part (s\<lparr>r_user := v, r_ls := ls\<rparr>) = kept_part s"
    using user_reduce_other_keys [of _ u "r_user s" "r_ls s"] by (simp add: kept_part_fields)
  moreover have reset: "kept_part (fold (\<lambda>i. root_reduce R I now (ResetApiState i)) allApis
      (root_reduce R I now (AppAct (SetSelectedClusterCode None)) x)) = kept_part x" for x
    by (auto simp: fold_reset kept_part_def restrict_map_def session_keys_def ls_remove_def fun_eq_iff)
  ultimately show ?thesis
    using UserAct red reset [of "s\<lparr>r_user := v, r_ls := ls\<rparr>"] by (cases u) (simp_all add: store_dispatch_def)
next
  case (AppAct b)
  moreover assume "\<not> kept_action a"
  ultimately obtain c where "a = AppAct (SetSelectedClusterCode c)" by (cases b) (simp_all add: kept_action_def)
  then show ?thesis
    by (auto simp: store_dispatch_def kept_part_def restrict_map_def session_keys_def ls_set_def ls_remove_def
        fun_eq_iff split: option.split)
qed (simp_all add: store_dispatch_def kept_part_fields)

lemma kept_run:
  assumes "map snd (filter (kept_action \<circ> snd) as) = map snd (filter (kept_action \<circ> snd) bs)"
    and "kept_part s = kept_part s'"
  shows "kept_part (store_run R I as s) = kept_part (store_run R I bs s')"
proof -
  have drop: "kept_part s = kept_part s' \<Longrightarrow>
      kept_part (store_run R I as s) = kept_part (store_run R I (filter (kept_action \<circ> snd) as) s')" for as s s'
  proof (induction as arbitrary: s s')
    case (Cons p as)
    obtain now a where p: "p = (now, a)" by (cases p)
    show ?case
    proof (cases "kept_action a")
      case True
      then obtain b where "a = AppAct b" by (cases a) (simp_all add: kept_action_def)
      with True show ?thesis
        using Cons.IH [OF app_reduce_kept [OF Cons.prems, of R I now b now]] by (simp add: p)
    next
      case False
      then show ?thesis using unkept_dispatch [of a R I now s] Cons by (simp add: p)
    qed
  qed simp
  have same: "map snd xs = map snd ys \<Longrightarrow> list_all (kept_action \<circ> snd) xs \<Longrightarrow> kept_part s = kept_part s' \<Longrightarrow>
      kept_part (store_run R I xs s) = kept_part (store_run R I ys s')" for xs ys s s'
  proof (induction xs arbitrary: ys s s')
    case (Cons p xs)
    obtain t a where p: "p = (t, a)" by (cases p)
    obtain t' zs where ys: "ys = (t', a) # zs" using Cons.prems(1) by (cases ys) (auto simp: p)
    obtain b where "a = AppAct b" using Cons.prems(2) by (cases a) (simp_all add: p kept_action_def)
    then show ?case
      using Cons.IH [OF _ _ app_reduce_kept [OF Cons.prems(3), of R I t b t'], of zs] Cons.prems by (simp add: p ys)
  qed simp
  show ?thesis
    using drop [OF refl, of as s] drop [OF refl, of bs s'] same [OF assms(1) _ assms(2)] by (simp add: list_all_iff)
qed

text \<open>After the logout and the reset of the slice, the kept part determines the store.\<close>

definition after_logout :: "(api_slice \<Rightarrow> 'c) \<Rightarrow> bool \<times> string \<times> storage \<Rightarrow> 'c root_state" where
  "after_logout api_init p =
     (case p of (c, t, ls) \<Rightarrow>
        \<lparr>r_user = initial_user_state Map.empty,
         r_app = \<lparr>selectedClusterCode = None, collapsed = c, theme = t\<rparr>, r_ws = initial_ws_state,
         r_cache = api_init, r_ls = ls\<rparr>)"

lemma ws_run_only: "\<exists>w. store_run R I (map (\<lambda>(t, b). (t, WsAct b)) ws) s = s\<lparr>r_ws := w\<rparr>"
proof (induction ws arbitrary: s)
  case Nil
  show ?case by (intro exI [of _ "r_ws s"]) simp
next
  case (Cons p ws)
  obtain t b where p: "p = (t, b)" by (cases p)
  have "store_dispatch R I t (WsAct b) s = s\<lparr>r_ws := ws_reduce t b (r_ws s)\<rparr>" by (simp add: store_dispatch_def)
  with Cons.IH [of "s\<lparr>r_ws := ws_reduce t b (r_ws s)\<rparr>"] show ?case by (auto simp: p)
qed

lemma logged_out_store:
  "forget_time (store_run R I ((t1, UserAct Logout) # map (\<lambda>(t, b). (t, WsAct b)) ws @ [(t2, WsAct ResetWS)]) s)
     = after_logout I (kept_part s)"
proof -
  let ?s = "store_dispatch R I t1 (UserAct Logout) s"
  obtain w where w: "store_run R I (map (\<lambda>(t, b). (t, WsAct b)) ws) ?s = ?s\<lparr>r_ws := w\<rparr>"
    using ws_run_only by blast
  have "(r_ls s)(''token'' := None, ''refresh_token'' := None, ''selectedClusterCode'' := None)
      = (r_ls s) |` (- session_keys)"
    by (auto simp: fun_eq_iff restrict_map_def session_keys_def)
  moreover have "store_dispatch R I t2 (WsAct ResetWS) x = x\<lparr>r_ws := ws_reduce t2 ResetWS (r_ws x)\<rparr>" for x
    by (simp add: store_dispatch_def)
  ultimately show ?thesis
    using w by (simp add: logout_resets_store forget_time_def after_logout_def kept_part_def initial_ws_state_def)
qed

text \<open>
  C27. The next account sees nothing of the one before. Take any two histories of the store since the
  page was loaded that differ in everything but the actions on the sidebar and the theme: other
  accounts, other tokens, clusters, query results and pushed messages. Once the user has logged out and
  the connection hook has reset its slice, with whatever the closing connection still delivered in
  between, every later run gives the same store after both histories: the same slices, caches and local
  storage. Only the time of the last connection may differ.
\<close>

theorem next_account_sees_nothing:
  assumes "map snd (filter (kept_action \<circ> snd) as) = map snd (filter (kept_action \<circ> snd) bs)"
  shows "forget_time (store_run R I (as @ (t1, UserAct Logout) # map (\<lambda>(t, b). (t, WsAct b)) ws
             @ (t2, WsAct ResetWS) # cs) (initial_root_state I ls))
       = forget_time (store_run R I (bs @ (u1, UserAct Logout) # map (\<lambda>(t, b). (t, WsAct b)) vs
             @ (u2, WsAct ResetWS) # cs) (initial_root_state I ls))"
proof -
  let ?a = "store_run R I as (initial_root_state I ls)" and ?b = "store_run R I bs (initial_root_state I ls)"
  have "kept_part ?a = kept_part ?b" by (rule kept_run [OF assms refl])
  then have "forget_time (store_run R I ((t1, UserAct Logout) # map (\<lambda>(t, b). (t, WsAct b)) ws @ [(t2, WsAct ResetWS)]) ?a)
      = forget_time (store_run R I ((u1, UserAct Logout) # map (\<lambda>(t, b). (t, WsAct b)) vs @ [(u2, WsAct ResetWS)]) ?b)"
    by (simp only: logged_out_store)
  from run_congruent [OF this, of R I cs] show ?thesis by simp
qed

text \<open>One account folds the sidebar, works in a cluster and fills a cache; the other only folds the sidebar.\<close>

theorem next_account_sees_nothing_witness:
  "forget_time (store_run (\<lambda>_ (x::unit) (c::nat). Suc c) (\<lambda>_. 0)
      ([([], UserAct (SetToken (Some ''a''))), ([], AppAct ToggleCollapsed), ([], ApiAct HelmApi ()),
        ([], AppAct (SetSelectedClusterCode (Some ''prod'')))]
        @ ([], UserAct Logout) # map (\<lambda>(t, b). (t, WsAct b)) [([], SetStatus WClosed)]
        @ ([], WsAct ResetWS) # [([], UserAct (SetToken (Some ''b'')))])
      (initial_root_state (\<lambda>_. 0) Map.empty))
   = forget_time (store_run (\<lambda>_ (x::unit) (c::nat). Suc c) (\<lambda>_. 0)
      ([([], AppAct ToggleCollapsed)]
        @ ([], UserAct Logout) # map (\<lambda>(t, b). (t, WsAct b)) []
        @ ([], WsAct ResetWS) # [([], UserAct (SetToken (Some ''b'')))])
      (initial_root_state (\<lambda>_. 0) Map.empty))"
proof -
  let ?as = "[([], UserAct (SetToken (Some ''a''))), ([], AppAct ToggleCollapsed), ([], ApiAct HelmApi ()),
      ([], AppAct (SetSelectedClusterCode (Some ''prod'')))]"
  have "map snd (filter (kept_action \<circ> snd) ?as) = map snd (filter (kept_action \<circ> snd) [([], AppAct ToggleCollapsed)])"
    by (simp add: kept_action_def)
  from next_account_sees_nothing [OF this] show ?thesis .
qed

end
