(* ===== verification/UriCodec.thy ===== *)
theory UriCodec
  imports Prelude
begin

section \<open>Percent encoding and URL paths\<close>

text \<open>
  \<open>encodeURIComponent\<close> and the decoding that \<open>URLSearchParams.get\<close> performs, on the
  UTF-8 bytes of a string, and the URL paths the services build from encoded segments.
  The services only rely on two laws of the codec, which the locale \<open>url_codec\<close> states:
  decoding undoes encoding, and an encoded segment holds no slash. That a path determines
  its segments is proved once inside the locale.
\<close>

subsection \<open>The codec\<close>

definition unreserved :: "char \<Rightarrow> bool" where
  "unreserved c \<longleftrightarrow>
     (let n = of_char c :: nat in
      48 \<le> n \<and> n \<le> 57 \<or> 65 \<le> n \<and> n \<le> 90 \<or> 97 \<le> n \<and> n \<le> 122) \<or>
     c \<in> set ''-_.!~*()'' \<or> c = CHR 0x27"

definition hex_char :: "nat \<Rightarrow> char" where
  "hex_char d = (if d < 10 then char_of (48 + d) else char_of (55 + d))"

definition hex_val :: "char \<Rightarrow> nat option" where
  "hex_val c =
     (let n = of_char c :: nat in
      if 48 \<le> n \<and> n \<le> 57 then Some (n - 48)
      else if 65 \<le> n \<and> n \<le> 70 then Some (n - 55)
      else if 97 \<le> n \<and> n \<le> 102 then Some (n - 87)
      else None)"

definition enc_char :: "char \<Rightarrow> string" where
  "enc_char c =
     (if unreserved c then [c]
      else [CHR ''%'', hex_char (of_char c div 16), hex_char (of_char c mod 16)])"

definition encodeURIComponent :: "string \<Rightarrow> string" where
  "encodeURIComponent s = concat (map enc_char s)"

text \<open>
  The decoding of a query value: \<open>%XX\<close> is a byte, \<open>+\<close> a space, and a stray \<open>%\<close> is
  kept as it is.
\<close>

fun form_decode :: "string \<Rightarrow> string" where
  "form_decode [] = []"
| "form_decode (c # cs) =
     (if c = CHR ''%'' then
        (case cs of
           a # b # rest \<Rightarrow>
             (case (hex_val a, hex_val b) of
                (Some x, Some y) \<Rightarrow> char_of (16 * x + y) # form_decode rest
              | _ \<Rightarrow> c # form_decode cs)
         | _ \<Rightarrow> c # form_decode cs)
      else if c = CHR ''+'' then CHR '' '' # form_decode cs
      else c # form_decode cs)"

lemma hex_val_char: "d < 16 \<Longrightarrow> hex_val (hex_char d) = Some d"
  by (auto simp: hex_val_def hex_char_def Let_def)

lemma of_char_less_256: "of_char c < (256 :: nat)"
  by (rule nat_of_char_less_256)

lemma form_decode_enc_char [codec_simps]: "form_decode (enc_char c @ rest) = c # form_decode rest"
proof (cases "unreserved c")
  case True
  then have "c \<noteq> CHR ''%''" and "c \<noteq> CHR ''+''"
    by (auto simp: unreserved_def Let_def)
  with True show ?thesis by (simp add: enc_char_def)
next
  case False
  let ?n = "of_char c :: nat"
  have "hex_val (hex_char (?n div 16)) = Some (?n div 16)"
    using of_char_less_256 [of c] by (intro hex_val_char) linarith
  moreover have "hex_val (hex_char (?n mod 16)) = Some (?n mod 16)"
    by (intro hex_val_char) simp
  moreover have "char_of (16 * (?n div 16) + ?n mod 16) = c"
    by simp
  ultimately show ?thesis
    using False by (simp add: enc_char_def)
qed

lemma form_decode_encode [codec_simps]: "form_decode (encodeURIComponent s) = s"
  unfolding encodeURIComponent_def
  by (induction s) (simp_all add: codec_simps)

text \<open>The bytes an encoded string can hold: unreserved ones, the percent sign, hex digits.\<close>

lemma hex_char_unreserved: "d < 16 \<Longrightarrow> unreserved (hex_char d)"
  by (auto simp: unreserved_def hex_char_def Let_def)

lemma enc_char_bytes: "x \<in> set (enc_char c) \<Longrightarrow> unreserved x \<or> x = CHR ''%''"
proof -
  assume x: "x \<in> set (enc_char c)"
  have "of_char c div 16 < (16 :: nat)" using of_char_less_256 [of c] by linarith
  then have "unreserved (hex_char (of_char c div 16))" by (rule hex_char_unreserved)
  moreover have "unreserved (hex_char (of_char c mod 16))" by (rule hex_char_unreserved) simp
  ultimately show ?thesis using x by (auto simp: enc_char_def split: if_splits)
qed

lemma encode_bytes: "x \<in> set (encodeURIComponent s) \<Longrightarrow> unreserved x \<or> x = CHR ''%''"
  by (auto simp: encodeURIComponent_def dest: enc_char_bytes)

lemma encode_no_slash: "CHR ''/'' \<notin> set (encodeURIComponent s)"
  using encode_bytes [of "CHR ''/''" s] by (auto simp: unreserved_def)

lemma encode_no_query_delimiter:
  "CHR ''?'' \<notin> set (encodeURIComponent s)" "CHR ''&'' \<notin> set (encodeURIComponent s)"
  "CHR ''#'' \<notin> set (encodeURIComponent s)"
  using encode_bytes [of "CHR ''?''" s] encode_bytes [of "CHR ''&''" s]
    encode_bytes [of "CHR ''#''" s]
  by (auto simp: unreserved_def)

lemma encode_unreserved: "list_all unreserved s \<Longrightarrow> encodeURIComponent s = s"
  unfolding encodeURIComponent_def by (induction s) (auto simp: enc_char_def)

subsection \<open>What the services rely on\<close>

locale url_codec =
  fixes enc :: "string \<Rightarrow> string" and dec :: "string \<Rightarrow> string"
  assumes dec_enc: "dec (enc s) = s"
    and enc_no_slash: "CHR ''/'' \<notin> set (enc s)"
begin

lemma enc_inject: "enc s = enc t \<longleftrightarrow> s = t"
  by (metis dec_enc)

text \<open>The path with the given segments, each encoded and introduced by a slash.\<close>

definition path :: "string list \<Rightarrow> string" where
  "path segs = concat (map (\<lambda>s. CHR ''/'' # enc s) segs)"

lemma path_Nil: "path [] = []"
  by (simp add: path_def)

lemma path_Cons: "path (s # segs) = CHR ''/'' # enc s @ path segs"
  by (simp add: path_def)

lemma takeWhile_segment: "takeWhile (\<lambda>c. c \<noteq> CHR ''/'') (enc s @ path segs) = enc s"
proof (cases segs)
  case Nil
  then show ?thesis
    using enc_no_slash [of s] by (simp add: path_Nil takeWhile_eq_all_conv) metis
next
  case (Cons t ts)
  then show ?thesis
    using enc_no_slash [of s] by (subst takeWhile_append2) (auto simp: path_Cons)
qed

theorem path_inject: "path segs = path segs' \<longleftrightarrow> segs = segs'"
proof (induction segs arbitrary: segs')
  case Nil
  then show ?case by (cases segs') (simp_all add: path_Nil path_Cons)
next
  case (Cons s segs)
  show ?case
  proof (cases segs')
    case Nil
    then show ?thesis by (simp add: path_Nil path_Cons)
  next
    case (Cons t ts)
    have "enc s @ path segs = enc t @ path ts \<Longrightarrow> enc s = enc t"
      by (metis takeWhile_segment)
    with Cons Cons.IH show ?thesis
      by (auto simp: path_Cons enc_inject)
  qed
qed

end

interpretation uri: url_codec encodeURIComponent form_decode
  by unfold_locales (simp_all add: codec_simps encode_no_slash)

end
