(* ===== verification/Login.thy ===== *)
theory Login
  imports Permission Store UriCodec
begin

section \<open>Logging in and out\<close>

text \<open>
  The guard \<open>RequireAuth\<close> of \<open>app/router.tsx\<close>, the form of \<open>pages/Login/index.tsx\<close>, and
  the session part of \<open>layouts/BasicLayout.tsx\<close> (loading the profile, choosing the first
  cluster, logging out, the connection badge). The result of a thunk is an argument.
\<close>

subsection \<open>Query strings\<close>

text \<open>\<open>URLSearchParams.get\<close>: the value of the first pair with the given name.\<close>

fun split_on :: "char \<Rightarrow> string \<Rightarrow> string list" where
  "split_on d [] = [[]]"
| "split_on d (c # cs) =
     (if c = d then [] # split_on d cs
      else case split_on d cs of [] \<Rightarrow> [[c]] | p # ps \<Rightarrow> (c # p) # ps)"

definition split_pair :: "string \<Rightarrow> string \<times> string" where
  "split_pair s = (case index_of CHR ''='' s of
     None \<Rightarrow> (form_decode s, [])
   | Some n \<Rightarrow> (form_decode (take n s), form_decode (drop (Suc n) s)))"

definition search_params :: "string \<Rightarrow> (string \<times> string) list" where
  "search_params q = map split_pair (filter (\<lambda>s. s \<noteq> []) (split_on CHR ''&'' q))"

definition searchParams_get :: "string \<Rightarrow> string \<Rightarrow> string option" where
  "searchParams_get q name = map_of (search_params q) name"

lemma split_on_none: "d \<notin> set s \<Longrightarrow> split_on d s = [s]"
  by (induction s) auto

lemma searchParams_get_encoded:
  assumes "list_all unreserved name" and "name \<noteq> []"
  shows "searchParams_get (name @ ''='' @ encodeURIComponent v) name = Some v"
proof -
  have eq: "CHR ''='' \<notin> set name" and amp: "CHR ''&'' \<notin> set name"
    using assms(1) by (auto simp: list_all_iff unreserved_def)
  have "split_on CHR ''&'' (name @ ''='' @ encodeURIComponent v)
      = [name @ ''='' @ encodeURIComponent v]"
    using amp encode_no_query_delimiter(2) [of v] by (intro split_on_none) auto
  moreover have "index_of CHR ''='' (name @ CHR ''='' # encodeURIComponent v) = Some (length name)"
    by (rule index_of_append [OF eq])
  moreover have "form_decode name = name"
    using encode_unreserved [OF assms(1)] form_decode_encode [of name] by simp
  ultimately show ?thesis
    using assms(2)
    by (simp add: searchParams_get_def search_params_def split_pair_def form_decode_encode)
qed

subsection \<open>The guards around the pages\<close>

definition login_url :: "string \<Rightarrow> string \<Rightarrow> string" where
  "login_url loc_pathname loc_search = ''/login?redirect='' @ encodeURIComponent (loc_pathname @ loc_search)"

text \<open>\<open>None\<close> renders the children.\<close>

definition RequireAuth :: "user_state \<Rightarrow> string \<Rightarrow> string \<Rightarrow> string option" where
  "RequireAuth s loc_pathname loc_search =
     (if \<not> truthy (token s) then Some (login_url loc_pathname loc_search) else None)"

definition RedirectIfAuthed :: "user_state \<Rightarrow> string option" where
  "RedirectIfAuthed s =
     (if truthy (token s) then Some (safeRedirectPath (Some ''/dashboard'')) else None)"

text \<open>The whole route at a static path below \<open>/\<close>.\<close>

definition open_path :: "user_state \<Rightarrow> string \<Rightarrow> string \<Rightarrow> view" where
  "open_path s p q =
     (case RequireAuth s p q of Some u \<Rightarrow> Redirect u | None \<Rightarrow> visit s p)"

subsection \<open>The login form\<close>

definition login_redirect :: "string \<Rightarrow> string" where
  "login_redirect query = safeRedirectPath (searchParams_get query ''redirect'')"

datatype 'a thunk = ThunkOk 'a | ThunkFails

record submit_result =
  sub_user :: user_state
  sub_ls :: storage
  sub_warnings :: "string list"
  sub_success :: "string list"
  sub_navigate :: "string option"

definition txt_profile_warning :: string where
  "txt_profile_warning = [CHR 0xE5, CHR 0xB7, CHR 0xB2, CHR 0xE7, CHR 0x99, CHR 0xBB, CHR 0xE5, CHR 0xBD,
      CHR 0x95, CHR 0xEF, CHR 0xBC, CHR 0x8C, CHR 0xE4, CHR 0xBD, CHR 0x86, CHR 0xE6,
      CHR 0x9D, CHR 0x83, CHR 0xE9, CHR 0x99, CHR 0x90, CHR 0xE4, CHR 0xBF, CHR 0xA1,
      CHR 0xE6, CHR 0x81, CHR 0xAF, CHR 0xE5, CHR 0x8A, CHR 0xA0, CHR 0xE8, CHR 0xBD,
      CHR 0xBD, CHR 0xE5, CHR 0xA4, CHR 0xB1, CHR 0xE8, CHR 0xB4, CHR 0xA5, CHR 0xEF,
      CHR 0xBC, CHR 0x8C, CHR 0xE8, CHR 0xBF, CHR 0x9B, CHR 0xE5, CHR 0x85, CHR 0xA5,
      CHR 0xE5, CHR 0x90, CHR 0x8E, CHR 0xE5, CHR 0x8F, CHR 0xAF, CHR 0xE9, CHR 0x87,
      CHR 0x8D, CHR 0xE8, CHR 0xAF, CHR 0x95]"

definition txt_login_ok :: string where
  "txt_login_ok = [CHR 0xE7, CHR 0x99, CHR 0xBB, CHR 0xE5, CHR 0xBD, CHR 0x95, CHR 0xE6, CHR 0x88,
      CHR 0x90, CHR 0xE5, CHR 0x8A, CHR 0x9F]"

definition handleSubmit ::
  "string \<Rightarrow> login_response thunk \<Rightarrow> current_user thunk \<Rightarrow> user_state \<times> storage \<Rightarrow> submit_result"
  where
  "handleSubmit redirect login_result profile p =
     (case login_result of
        ThunkFails \<Rightarrow> \<lparr>sub_user = fst p, sub_ls = snd p, sub_warnings = [], sub_success = [],
                        sub_navigate = None\<rparr>
      | ThunkOk r \<Rightarrow>
          let p1 = user_reduce FetchCurrentUserPending (user_reduce (LoginFulfilled r) p);
              (p2, warn) =
                (case profile of
                   ThunkOk u \<Rightarrow> (user_reduce (FetchCurrentUserFulfilled u) p1, [])
                 | ThunkFails \<Rightarrow> (user_reduce FetchCurrentUserRejected p1, [txt_profile_warning]))
          in \<lparr>sub_user = fst p2, sub_ls = snd p2, sub_warnings = warn,
              sub_success = [txt_login_ok], sub_navigate = Some redirect\<rparr>)"

subsection \<open>The layout\<close>

definition should_fetch_profile :: "user_state \<Rightarrow> bool" where
  "should_fetch_profile s \<longleftrightarrow> truthy (token s) \<and> currentUser s = None \<and> profileStatus s = PIdle"

text \<open>The effect that loads the profile, up to the answer.\<close>

definition profile_effect :: "user_state \<times> storage \<Rightarrow> user_state \<times> storage" where
  "profile_effect p =
     (if should_fetch_profile (fst p) then user_reduce FetchCurrentUserPending p else p)"

definition cluster_effect :: "string list \<Rightarrow> app_state \<times> storage \<Rightarrow> app_state \<times> storage" where
  "cluster_effect codes p =
     (if \<not> truthy (selectedClusterCode (fst p)) \<and> codes \<noteq> []
      then app_reduce (SetSelectedClusterCode (Some (hd codes))) p else p)"

text \<open>
  \<open>handleLogout\<close>: the refresh token that is posted to \<open>/auth/logout\<close>, and what happens once
  the post has settled, well or badly.
\<close>

definition logout_body :: "storage \<Rightarrow> string option" where
  "logout_body ls = (let rt = ls_get ls ''refresh_token'' in if truthy rt then rt else None)"

definition handleLogout ::
  "(api_slice \<Rightarrow> 'x \<Rightarrow> 'c \<Rightarrow> 'c) \<Rightarrow> (api_slice \<Rightarrow> 'c) \<Rightarrow> string \<Rightarrow> 'c root_state
    \<Rightarrow> 'c root_state \<times> string" where
  "handleLogout api_reduce api_init now s =
     (store_dispatch api_reduce api_init now (UserAct Logout) s, ''/login'')"

definition showClusterSwitcher :: "string \<Rightarrow> bool" where
  "showClusterSwitcher loc_pathname = starts_with loc_pathname ''/resources''"

datatype badge_status = BadgeSuccess | BadgeProcessing | BadgeWarning | BadgeError | BadgeDefault

definition ws_badge :: "connection_status \<Rightarrow> badge_status \<times> string \<times> string" where
  "ws_badge st =
     (case st of
        WIdle \<Rightarrow> (BadgeDefault, [CHR 0xE6, CHR 0x9C, CHR 0xAA, CHR 0xE8, CHR 0xBF, CHR 0x9E, CHR 0xE6, CHR 0x8E,
      CHR 0xA5], ''#d9d9d9'')
      | WConnecting \<Rightarrow> (BadgeProcessing, [CHR 0xE8, CHR 0xBF, CHR 0x9E, CHR 0xE6, CHR 0x8E, CHR 0xA5, CHR 0xE4, CHR 0xB8,
      CHR 0xAD], ''#1677ff'')
      | WOpen \<Rightarrow> (BadgeSuccess, [CHR 0xE5, CHR 0xB7, CHR 0xB2, CHR 0xE8, CHR 0xBF, CHR 0x9E, CHR 0xE6, CHR 0x8E,
      CHR 0xA5], ''#52c41a'')
      | WClosing \<Rightarrow> (BadgeDefault, [CHR 0xE5, CHR 0x85, CHR 0xB3, CHR 0xE9, CHR 0x97, CHR 0xAD, CHR 0xE4, CHR 0xB8,
      CHR 0xAD], ''#faad14'')
      | WClosed \<Rightarrow> (BadgeDefault, [CHR 0xE5, CHR 0xB7, CHR 0xB2, CHR 0xE6, CHR 0x96, CHR 0xAD, CHR 0xE5, CHR 0xBC,
      CHR 0x80], ''#d9d9d9'')
      | WReconnecting \<Rightarrow> (BadgeWarning, [CHR 0xE9, CHR 0x87, CHR 0x8D, CHR 0xE8, CHR 0xBF, CHR 0x9E, CHR 0xE4, CHR 0xB8,
      CHR 0xAD], ''#faad14'')
      | WError \<Rightarrow> (BadgeError, [CHR 0xE8, CHR 0xBF, CHR 0x9E, CHR 0xE6, CHR 0x8E, CHR 0xA5, CHR 0xE9, CHR 0x94,
      CHR 0x99, CHR 0xE8, CHR 0xAF, CHR 0xAF], ''#ff4d4f''))"

definition wsBadgeLabel :: "connection_status \<Rightarrow> string" where
  "wsBadgeLabel st = ''WebSocket: '' @ fst (snd (ws_badge st))"

subsection \<open>Properties\<close>

text \<open>The profile is asked for once per session: an answer, even a failure, stops the effect.\<close>

lemma profile_effect_once:
  "\<not> should_fetch_profile (fst (profile_effect p))"
  "\<not> should_fetch_profile (fst (user_reduce (FetchCurrentUserFulfilled u) (profile_effect p)))"
  "\<not> should_fetch_profile (fst (user_reduce FetchCurrentUserRejected (profile_effect p)))"
  by (cases p; simp add: profile_effect_def should_fetch_profile_def)+

text \<open>
  No crafted link makes the login page leave the application: whatever the query string of
  the login page is, the target it navigates to after the login is a path of this site, that
  is, starts with one slash and holds no scheme separator.
\<close>

theorem login_redirect_stays_local:
  "starts_with (login_redirect query) ''/'' \<and> \<not> starts_with (login_redirect query) ''//''
   \<and> \<not> str_includes (login_redirect query) ''://''"
  using safeRedirectPath_local [of "searchParams_get query ''redirect''"]
  by (simp add: login_redirect_def local_path_def)

text \<open>
  C9. A login brings the user back: opening a location without a token redirects to the login
  page with a query from which the login page recovers that location byte for byte; a login
  that succeeds navigates back to it, the guard then lets the user pass to the page's own
  check, with or without a loaded profile, and a reload reads the same session from storage.
\<close>

theorem login_returns_to_page:
  assumes "\<not> truthy (token s)" and "local_path (p @ q)"
    and "clean_token (Some (access_token r))" and "clean_token (refresh_token r)"
  shows "\<exists>query. RequireAuth s p q = Some (''/login?'' @ query)
    \<and> (let res = handleSubmit (login_redirect query) (ThunkOk r) profile (s, ls)
       in sub_navigate res = Some (p @ q)
        \<and> open_path (sub_user res) p q = visit (sub_user res) p
        \<and> token (sub_user res) = Some (access_token r)
        \<and> currentUser (sub_user res)
            = (case profile of ThunkOk u \<Rightarrow> Some u | ThunkFails \<Rightarrow> currentUser s)
        \<and> token (initial_user_state (sub_ls res)) = Some (access_token r)
        \<and> refreshToken (initial_user_state (sub_ls res)) = refresh_token r)"
proof -
  let ?query = "''redirect='' @ encodeURIComponent (p @ q)"
  have "searchParams_get (''redirect'' @ ''='' @ encodeURIComponent (p @ q)) ''redirect'' = Some (p @ q)"
    by (rule searchParams_get_encoded) (simp_all add: unreserved_def)
  then have target: "login_redirect ?query = p @ q"
    using safeRedirectPath_id [OF assms(2)] by (simp add: login_redirect_def)
  have "RequireAuth s p q = Some (''/login?'' @ ?query)"
    using assms(1) by (simp add: RequireAuth_def login_url_def)
  then show ?thesis
    using assms(3,4) target
    by (intro exI [of _ ?query])
      (cases profile; simp add: handleSubmit_def Let_def open_path_def RequireAuth_def
        initial_user_state_def session.read_put session.read_put_other clean_token_def)
qed

definition demo_login :: login_response where
  "demo_login = \<lparr>access_token = ''t1'', refresh_token = Some ''r1'', token_type = None,
     expires_in = None, login_user = None\<rparr>"

theorem login_returns_to_page_witness:
  "\<exists>query. sub_navigate (handleSubmit (login_redirect query) (ThunkOk demo_login) ThunkFails
      (initial_user_state Map.empty, Map.empty)) = Some ''/helm/list?tab=a b''"
proof -
  have "\<not> truthy (token (initial_user_state Map.empty))"
    by (simp add: initial_user_state_def readStoredToken_def ls_get_def)
  moreover have "local_path (''/helm/list'' @ ''?tab=a b'')"
    by (simp add: local_path_def starts_with_def)
  moreover have "clean_token (Some (access_token demo_login))" "clean_token (refresh_token demo_login)"
    by (simp_all add: clean_token_def demo_login_def)
  ultimately show ?thesis
    using login_returns_to_page [of "initial_user_state Map.empty" "''/helm/list''"
        "''?tab=a b''" demo_login ThunkFails Map.empty]
    by (auto simp: Let_def)
qed

end
