(* ===== verification/WsClient.thy ===== *)
theory WsClient
  imports Store
begin

section \<open>The WebSocket client and its lifecycle\<close>

text \<open>
  \<open>app/services/websocket.ts\<close> and \<open>hooks/useWebSocket.ts\<close>: the module-level singleton
  connection, the reference counts of the channels and the hook that connects and
  disconnects with the login. Clients are objects whose listeners outlive their use as
  the singleton, so the world keeps every client ever made and a client is named by its
  position.

  The socket is a \<open>ReconnectingWebSocket\<close>, a library outside the repository. The code looks
  at it only through \<open>readyState === OPEN\<close> (\<open>c_open\<close>), \<open>send\<close> (which appends to the
  frames of the current connection, \<open>c_wire\<close>) and \<open>close\<close>; what the library does on its own
  are the \<open>sock\<close> steps below, under its documented behaviour: \<open>onopen\<close> fires when a new
  connection is open and never after \<open>close\<close>, and \<open>onclose\<close>, \<open>onerror\<close> and \<open>onmessage\<close>
  may fire at any time, also on a socket that was closed.
\<close>

subsection \<open>State\<close>

datatype client_action = ActSubscribe string | ActUnsubscribe string | ActPing

record ws_client =
  c_token :: string
  c_protocol :: string
  c_rws :: bool
  c_open :: bool
  c_stopped :: bool
  c_heartbeat :: bool
  c_explicitlyClosed :: bool
  c_pending :: "string list"
  c_wire :: "client_action list"

record ws_world =
  w_clients :: "ws_client list"
  w_instance :: "nat option"
  w_refs :: "(string \<times> nat) list"
  w_ws :: ws_state
  w_user_token :: "string option"
  w_effect :: "string option option"
  w_now :: string

text \<open>\<open>w_effect\<close> is the token the hook last ran with, \<open>None\<close> while it is not mounted.\<close>

definition client :: "nat \<Rightarrow> ws_world \<Rightarrow> ws_client" where
  "client i w = w_clients w ! i"

definition with_client :: "nat \<Rightarrow> (ws_client \<Rightarrow> ws_client) \<Rightarrow> ws_world \<Rightarrow> ws_world" where
  "with_client i f w = w\<lparr>w_clients := (w_clients w)[i := f (w_clients w ! i)]\<rparr>"

definition dispatch :: "ws_action \<Rightarrow> ws_world \<Rightarrow> ws_world" where
  "dispatch a w = w\<lparr>w_ws := ws_reduce (w_now w) a (w_ws w)\<rparr>"

subsection \<open>The client\<close>

definition sendRaw :: "nat \<Rightarrow> client_action \<Rightarrow> ws_world \<Rightarrow> ws_world" where
  "sendRaw i action w =
     (if \<not> c_rws (client i w) \<or> \<not> c_open (client i w) then
        (case action of
           ActSubscribe ch \<Rightarrow>
             if ch \<noteq> [] then with_client i (\<lambda>c. c\<lparr>c_pending := set_add ch (c_pending c)\<rparr>) w else w
         | ActUnsubscribe ch \<Rightarrow>
             if ch \<noteq> [] then with_client i (\<lambda>c. c\<lparr>c_pending := set_delete ch (c_pending c)\<rparr>) w
             else w
         | ActPing \<Rightarrow> w)
      else with_client i (\<lambda>c. c\<lparr>c_wire := c_wire c @ [action]\<rparr>) w)"

definition client_subscribe :: "nat \<Rightarrow> string \<Rightarrow> ws_world \<Rightarrow> ws_world" where
  "client_subscribe i channel w =
     (if channel = [] then w
      else sendRaw i (ActSubscribe channel) (dispatch (AddSubscription channel) w))"

definition client_unsubscribe :: "nat \<Rightarrow> string \<Rightarrow> ws_world \<Rightarrow> ws_world" where
  "client_unsubscribe i channel w =
     (if channel = [] then w
      else with_client i (\<lambda>c. c\<lparr>c_pending := set_delete channel (c_pending c)\<rparr>)
             (sendRaw i (ActUnsubscribe channel) (dispatch (RemoveSubscription channel) w)))"

definition stopHeartbeat :: "nat \<Rightarrow> ws_world \<Rightarrow> ws_world" where
  "stopHeartbeat i w =
     (if c_heartbeat (client i w) then with_client i (\<lambda>c. c\<lparr>c_heartbeat := False\<rparr>) w else w)"

definition startHeartbeat :: "nat \<Rightarrow> ws_world \<Rightarrow> ws_world" where
  "startHeartbeat i w = with_client i (\<lambda>c. c\<lparr>c_heartbeat := True\<rparr>) (stopHeartbeat i w)"

definition heartbeat_tick :: "nat \<Rightarrow> ws_world \<Rightarrow> ws_world" where
  "heartbeat_tick i w =
     (if c_rws (client i w) \<and> c_open (client i w) then sendRaw i ActPing w else w)"

text \<open>\<open>ReconnectingWebSocket.close\<close>: no reconnect any more, \<open>readyState\<close> leaves \<open>OPEN\<close>.\<close>

definition rws_close :: "nat \<Rightarrow> ws_world \<Rightarrow> ws_world" where
  "rws_close i w =
     (if c_rws (client i w) then with_client i (\<lambda>c. c\<lparr>c_stopped := True, c_open := False\<rparr>) w else w)"

definition client_close :: "nat \<Rightarrow> ws_world \<Rightarrow> ws_world" where
  "client_close i w =
     (let w1 = with_client i (\<lambda>c. c\<lparr>c_explicitlyClosed := True\<rparr>) w;
          w2 = stopHeartbeat i w1;
          w3 = with_client i (\<lambda>c. c\<lparr>c_pending := []\<rparr>) w2;
          w4 = rws_close i w3
      in with_client i (\<lambda>c. c\<lparr>c_rws := False\<rparr>) w4)"

subsection \<open>The listeners\<close>

definition on_open :: "nat \<Rightarrow> ws_world \<Rightarrow> ws_world" where
  "on_open i w =
     (let w1 = dispatch (SetStatus WOpen) w;
          w2 = fold (\<lambda>(ch, count) v.
                 if count > 0 then sendRaw i (ActSubscribe ch) (dispatch (AddSubscription ch) v)
                 else v) (w_refs w1) w1;
          w3 = fold (\<lambda>ch. sendRaw i (ActSubscribe ch)) (c_pending (client i w2)) w2;
          w4 = with_client i (\<lambda>c. c\<lparr>c_pending := []\<rparr>) w3
      in startHeartbeat i w4)"

definition txt_auth_failed :: "int \<Rightarrow> string" where
  "txt_auth_failed code =
     ''WebSocket '' @
     [CHR 0xE9, CHR 0x89, CHR 0xB4, CHR 0xE6, CHR 0x9D, CHR 0x83, CHR 0xE5, CHR 0xA4, CHR 0xB1,
      CHR 0xE8, CHR 0xB4, CHR 0xA5] @ '' (close code '' @ show_int code @ '')'' @
     [CHR 0xEF, CHR 0xBC, CHR 0x8C, CHR 0xE5, CHR 0xB7, CHR 0xB2, CHR 0xE5, CHR 0x81, CHR 0x9C,
      CHR 0xE6, CHR 0xAD, CHR 0xA2, CHR 0xE9, CHR 0x87, CHR 0x8D, CHR 0xE8, CHR 0xBF, CHR 0x9E]"

definition on_close :: "nat \<Rightarrow> int \<Rightarrow> ws_world \<Rightarrow> ws_world" where
  "on_close i code w =
     (let w1 = stopHeartbeat i w
      in if c_explicitlyClosed (client i w1) then dispatch (SetStatus WClosed) w1
         else if code = 1008 \<or> code = 4001 then
           rws_close i (dispatch (SetLastError (Some (txt_auth_failed code))) w1)
         else dispatch SetReconnecting w1)"

definition on_error :: "nat \<Rightarrow> ws_world \<Rightarrow> ws_world" where
  "on_error i w = dispatch (SetStatus WError) w"

text \<open>
  A received frame: text, a binary buffer, a blob or anything else. \<open>decode\<close> is the text of
  a buffer and \<open>parse\<close> is \<open>JSON.parse\<close> read as a message, \<open>None\<close> where it throws. A blob
  is read asynchronously: its text arrives as a later frame.
\<close>

datatype raw_frame = RawText string | RawArrayBuffer "nat list" | RawBlob "nat list" | RawOther

definition handleMessage ::
  "(nat list \<Rightarrow> string) \<Rightarrow> (string \<Rightarrow> ws_message option) \<Rightarrow> raw_frame \<Rightarrow> ws_world \<Rightarrow> ws_world" where
  "handleMessage decode parse raw w =
     (let deliver = (\<lambda>text. case parse text of None \<Rightarrow> w | Some msg \<Rightarrow> dispatch (OnMessage msg) w)
      in case raw of
           RawText t \<Rightarrow> deliver t
         | RawArrayBuffer b \<Rightarrow> deliver (decode b)
         | RawBlob b \<Rightarrow> w
         | RawOther \<Rightarrow> w)"

subsection \<open>The singleton\<close>

definition new_client :: "string \<Rightarrow> ws_world \<Rightarrow> ws_client" where
  "new_client tok w =
     (let fresh = w_user_token w; t = (if truthy fresh then the fresh else tok)
      in \<lparr>c_token = tok, c_protocol = ''access_token.'' @ t, c_rws = True, c_open = False,
          c_stopped = False, c_heartbeat = False, c_explicitlyClosed = False, c_pending = [],
          c_wire = []\<rparr>)"

definition install_client :: "string \<Rightarrow> ws_world \<Rightarrow> ws_world" where
  "install_client tok w =
     (let w1 = dispatch (SetStatus WConnecting) w
      in w1\<lparr>w_clients := w_clients w1 @ [new_client tok w1],
            w_instance := Some (length (w_clients w1))\<rparr>)"

definition connectWebSocket :: "string \<Rightarrow> ws_world \<Rightarrow> ws_world" where
  "connectWebSocket tok w =
     (case w_instance w of
        None \<Rightarrow> install_client tok w
      | Some i \<Rightarrow>
          if \<not> c_explicitlyClosed (client i w) \<and> c_token (client i w) = tok then w
          else install_client tok ((client_close i w)\<lparr>w_instance := None\<rparr>))"

definition disconnectWebSocket :: "ws_world \<Rightarrow> ws_world" where
  "disconnectWebSocket w =
     (case w_instance w of
        None \<Rightarrow> w
      | Some i \<Rightarrow> (client_close i w)\<lparr>w_instance := None\<rparr>)"

subsection \<open>Subscriptions with reference counts\<close>

definition ref_count :: "(string \<times> nat) list \<Rightarrow> string \<Rightarrow> nat" where
  "ref_count refs ch = (case map_of refs ch of None \<Rightarrow> 0 | Some n \<Rightarrow> n)"

definition subscribeChannel :: "string \<Rightarrow> ws_world \<Rightarrow> ws_world" where
  "subscribeChannel channel w =
     (if channel = [] then w
      else let next = ref_count (w_refs w) channel + 1;
               w1 = w\<lparr>w_refs := AList.update channel next (w_refs w)\<rparr>
           in if next = 1
              then (case w_instance w1 of None \<Rightarrow> w1 | Some i \<Rightarrow> client_subscribe i channel w1)
              else w1)"

definition unsubscribeChannel :: "string \<Rightarrow> ws_world \<Rightarrow> ws_world" where
  "unsubscribeChannel channel w =
     (if channel = [] then w
      else let cur = ref_count (w_refs w) channel
           in if cur \<le> 1
              then let w1 = w\<lparr>w_refs := AList.delete channel (w_refs w)\<rparr>
                   in (case w_instance w1 of None \<Rightarrow> w1 | Some i \<Rightarrow> client_unsubscribe i channel w1)
              else w\<lparr>w_refs := AList.update channel (cur - 1) (w_refs w)\<rparr>)"

definition resetChannelRefs :: "ws_world \<Rightarrow> ws_world" where
  "resetChannelRefs w = w\<lparr>w_refs := []\<rparr>"

subsection \<open>The lifecycle hook\<close>

definition lifecycle_effect :: "string option \<Rightarrow> ws_world \<Rightarrow> ws_world" where
  "lifecycle_effect tok w =
     (if \<not> truthy tok then dispatch ResetWS (resetChannelRefs (disconnectWebSocket w))
      else connectWebSocket (the tok) w)"

text \<open>The cleanup exists only for an effect that ran with a token.\<close>

definition lifecycle_cleanup :: "string option \<Rightarrow> ws_world \<Rightarrow> ws_world" where
  "lifecycle_cleanup tok w =
     (if truthy tok then dispatch ResetWS (disconnectWebSocket w) else w)"

text \<open>React runs the cleanup of the previous effect, then the effect with the new token.\<close>

definition run_effects :: "ws_world \<Rightarrow> ws_world" where
  "run_effects w =
     (let tok = w_user_token w;
          w1 = (case w_effect w of None \<Rightarrow> w | Some old \<Rightarrow> lifecycle_cleanup old w)
      in (lifecycle_effect tok w1)\<lparr>w_effect := Some tok\<rparr>)"

definition unmount_effects :: "ws_world \<Rightarrow> ws_world" where
  "unmount_effects w =
     (case w_effect w of None \<Rightarrow> w | Some old \<Rightarrow> (lifecycle_cleanup old w)\<lparr>w_effect := None\<rparr>)"

end
