(* ===== verification/WsClientProofs.thy ===== *)
theory WsClientProofs
  imports WsClient
begin

section \<open>Steps and invariants of the WebSocket client\<close>

text \<open>
  The step relation of the world (pages subscribing, the hook, the timer, the sockets), the
  invariant that ties the reference counts, the Redux subscriptions and the frames of the
  connection together, and the properties that follow in every reachable world.
\<close>

subsection \<open>Frames\<close>

text \<open>
  The channels a connection has asked for: a new connection starts with none, every frame
  adds or removes one (\<open>handler.go\<close> and \<open>hub.go\<close> of the server keep this set per
  connection, for the channels the user may see).
\<close>

fun frame_step :: "client_action \<Rightarrow> string set \<Rightarrow> string set" where
  "frame_step (ActSubscribe ch) S = insert ch S"
| "frame_step (ActUnsubscribe ch) S = S - {ch}"
| "frame_step ActPing S = S"

definition requested :: "client_action list \<Rightarrow> string set" where
  "requested wire = fold frame_step wire {}"

lemma requested_Nil [simp]: "requested [] = {}"
  by (simp add: requested_def)

lemma requested_snoc [simp]: "requested (wire @ [a]) = frame_step a (requested wire)"
  by (simp add: requested_def)

lemma requested_subscribes: "requested (wire @ map ActSubscribe chs) = requested wire \<union> set chs"
  by (induction chs rule: rev_induct) (simp_all flip: append_assoc)

lemma requested_only: "requested (map ActSubscribe chs) = set chs"
  using requested_subscribes [of "[]"] by simp

subsection \<open>Frame rules\<close>

lemma dispatch_frame [simp]:
  "w_clients (dispatch a w) = w_clients w" "w_instance (dispatch a w) = w_instance w"
  "w_refs (dispatch a w) = w_refs w" "w_user_token (dispatch a w) = w_user_token w"
  "w_effect (dispatch a w) = w_effect w" "w_now (dispatch a w) = w_now w"
  "client i (dispatch a w) = client i w"
  "w_ws (dispatch a w) = ws_reduce (w_now w) a (w_ws w)"
  by (simp_all add: dispatch_def client_def)

lemma with_client_frame [simp]:
  "w_instance (with_client i f w) = w_instance w" "w_refs (with_client i f w) = w_refs w"
  "w_ws (with_client i f w) = w_ws w" "w_user_token (with_client i f w) = w_user_token w"
  "w_effect (with_client i f w) = w_effect w" "w_now (with_client i f w) = w_now w"
  "length (w_clients (with_client i f w)) = length (w_clients w)"
  by (simp_all add: with_client_def)

lemma client_with_client [simp]:
  "i < length (w_clients w) \<Longrightarrow> client i (with_client i f w) = f (client i w)"
  "j \<noteq> i \<Longrightarrow> client j (with_client i f w) = client j w"
  by (simp_all add: with_client_def client_def)

lemma client_update_other [simp]:
  "client i (w\<lparr>w_instance := a\<rparr>) = client i w" "client i (w\<lparr>w_refs := r\<rparr>) = client i w"
  "client i (w\<lparr>w_ws := s\<rparr>) = client i w" "client i (w\<lparr>w_user_token := t\<rparr>) = client i w"
  "client i (w\<lparr>w_effect := e\<rparr>) = client i w" "client i (w\<lparr>w_now := n\<rparr>) = client i w"
  by (simp_all add: client_def)

text \<open>What the slice does to the list of subscriptions.\<close>

lemma subscriptions_reduce [simp]:
  "subscriptions (ws_reduce now (SetStatus st) s) = subscriptions s"
  "subscriptions (ws_reduce now (SetLastError e) s) = subscriptions s"
  "subscriptions (ws_reduce now SetReconnecting s) = subscriptions s"
  "subscriptions (ws_reduce now ResetWS s) = []"
  "subscriptions (ws_reduce now ClearTaskProgress s) = subscriptions s"
  "subscriptions (ws_reduce now ClearClusterEvents s) = subscriptions s"
  "subscriptions (ws_reduce now (ClearPodLogs c) s) = subscriptions s"
  by (auto simp: Let_def split: option.splits)

lemma subscriptions_message [simp]: "subscriptions (ws_reduce now (OnMessage m) s) = subscriptions s"
  by (cases "(now, m, s)" rule: onMessage.cases) (auto simp: Let_def)

lemma set_subscriptions_add [simp]:
  "set (subscriptions (ws_reduce now (AddSubscription ch) s)) =
     (if ch = [] then set (subscriptions s) else insert ch (set (subscriptions s)))"
  by auto

lemma set_subscriptions_remove [simp]:
  "set (subscriptions (ws_reduce now (RemoveSubscription ch) s)) = set (subscriptions s) - {ch}"
  by (auto simp: Let_def)

declare ws_reduce.simps [simp del]

subsection \<open>Reference counts\<close>

definition refs_ok :: "(string \<times> nat) list \<Rightarrow> bool" where
  "refs_ok refs \<longleftrightarrow> distinct (map fst refs) \<and> (\<forall>(ch, n) \<in> set refs. ch \<noteq> [] \<and> 0 < n)"

definition active :: "(string \<times> nat) list \<Rightarrow> string set" where
  "active refs = {ch. 0 < ref_count refs ch}"

lemma ref_count_simps [refs_simps, simp]:
  "ref_count [] ch = 0"
  "ref_count (AList.update k n refs) ch = (if ch = k then n else ref_count refs ch)"
  "ref_count (AList.delete k refs) ch = (if ch = k then 0 else ref_count refs ch)"
  by (simp_all add: ref_count_def)

lemma active_refs: "refs_ok refs \<Longrightarrow> active refs = fst ` set refs"
proof
  assume ok: "refs_ok refs"
  show "active refs \<subseteq> fst ` set refs"
    by (auto simp: active_def ref_count_def split: option.splits dest!: map_of_SomeD)
      (force dest: map_of_SomeD)
  show "fst ` set refs \<subseteq> active refs"
    using ok by (auto simp: active_def ref_count_def refs_ok_def)
qed

lemma refs_ok_Nil [simp]: "refs_ok []"
  by (simp add: refs_ok_def)

lemma refs_ok_update: "refs_ok refs \<Longrightarrow> ch \<noteq> [] \<Longrightarrow> 0 < n \<Longrightarrow> refs_ok (AList.update ch n refs)"
  by (induction refs) (auto simp: refs_ok_def)

lemma refs_ok_delete: "refs_ok refs \<Longrightarrow> refs_ok (AList.delete ch refs)"
  by (auto simp: refs_ok_def distinct_delete AList.delete_eq split: prod.splits)
    (auto simp: distinct_map inj_on_def)

lemma active_update: "0 < n \<Longrightarrow> active (AList.update ch n refs) = insert ch (active refs)"
  by (auto simp: active_def)

lemma active_delete: "active (AList.delete ch refs) = active refs - {ch}"
  by (auto simp: active_def)

lemma active_Nil [simp]: "active [] = {}"
  by (simp add: active_def)

text \<open>
  The contract of a reference-counted channel manager: a subscription adds one to the count
  of its channel, a release takes one off (stopping at zero), other channels are untouched.
\<close>

locale ref_counter =
  fixes sub :: "string \<Rightarrow> 's \<Rightarrow> 's" and unsub :: "string \<Rightarrow> 's \<Rightarrow> 's"
    and count :: "'s \<Rightarrow> string \<Rightarrow> nat"
  assumes count_sub: "ch \<noteq> [] \<Longrightarrow> count (sub ch s) c = count s c + (if c = ch then 1 else 0)"
    and count_unsub: "ch \<noteq> [] \<Longrightarrow> count (unsub ch s) c = count s c - (if c = ch then 1 else 0)"
begin

text \<open>\<open>True\<close> subscribes, \<open>False\<close> releases.\<close>

fun run :: "(bool \<times> string) list \<Rightarrow> 's \<Rightarrow> 's" where
  "run [] s = s"
| "run ((b, ch) # ops) s = run ops (if b then sub ch s else unsub ch s)"

text \<open>No prefix releases a channel more often than it was held.\<close>

fun bracketed :: "string \<Rightarrow> nat \<Rightarrow> (bool \<times> string) list \<Rightarrow> bool" where
  "bracketed ch n [] = True"
| "bracketed ch n ((b, c) # ops) =
     (if c \<noteq> ch then bracketed ch n ops
      else if b then bracketed ch (n + 1) ops
      else 0 < n \<and> bracketed ch (n - 1) ops)"

lemma run_count:
  assumes "\<And>b c. (b, c) \<in> set ops \<Longrightarrow> c \<noteq> []" and "bracketed ch (count s ch) ops"
  shows "count (run ops s) ch + count_list ops (False, ch) = count s ch + count_list ops (True, ch)"
  using assms
proof (induction ops arbitrary: s)
  case Nil
  then show ?case by simp
next
  case (Cons op ops)
  obtain b c where op: "op = (b, c)" by (cases op)
  from Cons.prems(1) op have c: "c \<noteq> []" by auto
  let ?s = "if b then sub c s else unsub c s"
  have "bracketed ch (count ?s ch) ops"
    using Cons.prems(2) c by (auto simp: op count_sub count_unsub split: if_splits)
  then have "count (run ops ?s) ch + count_list ops (False, ch)
      = count ?s ch + count_list ops (True, ch)"
    using Cons.prems(1) by (intro Cons.IH) auto
  then show ?case
    using Cons.prems(2) c by (auto simp: op count_sub count_unsub split: if_splits)
qed

end

lemma w_refs_client_ops [simp]:
  "w_refs (sendRaw i a w) = w_refs w"
  "w_refs (client_subscribe i ch w) = w_refs w"
  "w_refs (client_unsubscribe i ch w) = w_refs w"
  by (auto simp: sendRaw_def client_subscribe_def client_unsubscribe_def
      split: client_action.splits)

interpretation channel_refs:
  ref_counter subscribeChannel unsubscribeChannel "\<lambda>w. ref_count (w_refs w)"
  by unfold_locales
    (auto simp: subscribeChannel_def unsubscribeChannel_def Let_def split: option.splits)

subsection \<open>What the operations do to one client\<close>

lemma sendRaw_open:
  "c_rws (client i w) \<Longrightarrow> c_open (client i w) \<Longrightarrow>
   sendRaw i a w = with_client i (\<lambda>c. c\<lparr>c_wire := c_wire c @ [a]\<rparr>) w"
  by (simp add: sendRaw_def)

lemma sendRaw_frame [simp]:
  "w_instance (sendRaw i a w) = w_instance w" "w_ws (sendRaw i a w) = w_ws w"
  "w_user_token (sendRaw i a w) = w_user_token w" "w_effect (sendRaw i a w) = w_effect w"
  "w_now (sendRaw i a w) = w_now w" "length (w_clients (sendRaw i a w)) = length (w_clients w)"
  "j \<noteq> i \<Longrightarrow> client j (sendRaw i a w) = client j w"
  by (auto simp: sendRaw_def split: client_action.splits)

lemma stopHeartbeat_frame [simp]:
  "w_instance (stopHeartbeat i w) = w_instance w" "w_ws (stopHeartbeat i w) = w_ws w"
  "w_refs (stopHeartbeat i w) = w_refs w" "w_user_token (stopHeartbeat i w) = w_user_token w"
  "w_effect (stopHeartbeat i w) = w_effect w" "w_now (stopHeartbeat i w) = w_now w"
  "length (w_clients (stopHeartbeat i w)) = length (w_clients w)"
  "j \<noteq> i \<Longrightarrow> client j (stopHeartbeat i w) = client j w"
  "i < length (w_clients w) \<Longrightarrow>
     client i (stopHeartbeat i w) = (client i w)\<lparr>c_heartbeat := False\<rparr>"
  by (auto simp: stopHeartbeat_def)

lemma rws_close_frame [simp]:
  "w_instance (rws_close i w) = w_instance w" "w_ws (rws_close i w) = w_ws w"
  "w_refs (rws_close i w) = w_refs w" "w_user_token (rws_close i w) = w_user_token w"
  "w_effect (rws_close i w) = w_effect w" "w_now (rws_close i w) = w_now w"
  "length (w_clients (rws_close i w)) = length (w_clients w)"
  "j \<noteq> i \<Longrightarrow> client j (rws_close i w) = client j w"
  "i < length (w_clients w) \<Longrightarrow> client i (rws_close i w) =
     (if c_rws (client i w) then (client i w)\<lparr>c_stopped := True, c_open := False\<rparr> else client i w)"
  by (auto simp: rws_close_def)

lemma client_close_frame [simp]:
  "w_instance (client_close i w) = w_instance w" "w_ws (client_close i w) = w_ws w"
  "w_refs (client_close i w) = w_refs w" "w_user_token (client_close i w) = w_user_token w"
  "w_effect (client_close i w) = w_effect w" "w_now (client_close i w) = w_now w"
  "length (w_clients (client_close i w)) = length (w_clients w)"
  "j \<noteq> i \<Longrightarrow> client j (client_close i w) = client j w"
  by (simp_all add: client_close_def Let_def)

lemma client_client_close:
  "i < length (w_clients w) \<Longrightarrow> c_rws (client i w) \<Longrightarrow>
   client i (client_close i w) =
     (client i w)\<lparr>c_explicitlyClosed := True, c_heartbeat := False, c_pending := [],
                   c_stopped := True, c_open := False, c_rws := False\<rparr>"
  by (simp add: client_close_def Let_def)

text \<open>Restoring the subscriptions on an open connection, one channel at a time.\<close>

definition restore_one :: "nat \<Rightarrow> string \<times> nat \<Rightarrow> ws_world \<Rightarrow> ws_world" where
  "restore_one i = (\<lambda>(ch, count) v.
     if count > 0 then sendRaw i (ActSubscribe ch) (dispatch (AddSubscription ch) v) else v)"

lemma restore_one_open:
  assumes "i < length (w_clients v)" and "c_rws (client i v)" and "c_open (client i v)" and "0 < n"
  shows "restore_one i (ch, n) v =
    with_client i (\<lambda>c. c\<lparr>c_wire := c_wire c @ [ActSubscribe ch]\<rparr>) (dispatch (AddSubscription ch) v)"
  using assms by (simp add: restore_one_def sendRaw_open)

lemma fold_restore:
  assumes "i < length (w_clients v)" and "c_rws (client i v)" and "c_open (client i v)"
    and "\<forall>(ch, n) \<in> set refs. ch \<noteq> [] \<and> 0 < n"
  shows "client i (fold (restore_one i) refs v) =
      (client i v)\<lparr>c_wire := c_wire (client i v) @ map ActSubscribe (map fst refs)\<rparr> \<and>
    set (subscriptions (w_ws (fold (restore_one i) refs v))) =
      set (subscriptions (w_ws v)) \<union> fst ` set refs \<and>
    w_instance (fold (restore_one i) refs v) = w_instance v \<and>
    w_refs (fold (restore_one i) refs v) = w_refs v \<and>
    length (w_clients (fold (restore_one i) refs v)) = length (w_clients v) \<and>
    (\<forall>j. j \<noteq> i \<longrightarrow> client j (fold (restore_one i) refs v) = client j v)"
  using assms
proof (induction refs arbitrary: v)
  case Nil
  then show ?case by simp
next
  case (Cons r refs)
  obtain ch n where r: "r = (ch, n)" by (cases r)
  let ?v = "restore_one i (ch, n) v"
  have ok: "ch \<noteq> []" "0 < n" "\<forall>(ch, n) \<in> set refs. ch \<noteq> [] \<and> 0 < n"
    using Cons.prems(4) r by auto
  have v: "?v = with_client i (\<lambda>c. c\<lparr>c_wire := c_wire c @ [ActSubscribe ch]\<rparr>)
      (dispatch (AddSubscription ch) v)"
    using Cons.prems(1-3) ok(2) by (rule restore_one_open)
  have vi: "client i ?v = (client i v)\<lparr>c_wire := c_wire (client i v) @ [ActSubscribe ch]\<rparr>"
    and vj: "\<forall>j. j \<noteq> i \<longrightarrow> client j ?v = client j v"
    and vs: "set (subscriptions (w_ws ?v)) = insert ch (set (subscriptions (w_ws v)))"
    and vf: "w_instance ?v = w_instance v" "w_refs ?v = w_refs v"
      "length (w_clients ?v) = length (w_clients v)"
    using Cons.prems(1) ok(1) by (simp_all add: v)
  have "i < length (w_clients ?v)" "c_rws (client i ?v)" "c_open (client i ?v)"
    using Cons.prems by (simp_all add: vi vf)
  from Cons.IH [OF this ok(3)] show ?case
    by (simp add: r vi vj vs vf)
qed

lemma fold_pending:
  assumes "i < length (w_clients v)" and "c_rws (client i v)" and "c_open (client i v)"
  shows "fold (\<lambda>ch. sendRaw i (ActSubscribe ch)) chs v =
    with_client i (\<lambda>c. c\<lparr>c_wire := c_wire c @ map ActSubscribe chs\<rparr>) v"
  using assms
proof (induction chs arbitrary: v)
  case Nil
  then show ?case by (simp add: with_client_def)
next
  case (Cons ch chs)
  have "with_client i (\<lambda>c. c\<lparr>c_wire := c_wire c @ map ActSubscribe chs\<rparr>)
      (with_client i (\<lambda>c. c\<lparr>c_wire := c_wire c @ [ActSubscribe ch]\<rparr>) v)
    = with_client i (\<lambda>c. c\<lparr>c_wire := c_wire c @ map ActSubscribe (ch # chs)\<rparr>) v"
    using Cons.prems by (simp add: with_client_def)
  with Cons show ?case by (simp add: sendRaw_open)
qed

text \<open>The effect of \<open>onopen\<close>: every held channel and every pending one is asked for.\<close>

lemma on_open_effect:
  assumes "i < length (w_clients w)" and "c_rws (client i w)" and "c_open (client i w)"
    and "refs_ok (w_refs w)"
  shows "client i (on_open i w) =
      (client i w)\<lparr>c_wire := c_wire (client i w) @ map ActSubscribe (map fst (w_refs w))
                              @ map ActSubscribe (c_pending (client i w)),
                   c_pending := [], c_heartbeat := True\<rparr>"
    and "set (subscriptions (w_ws (on_open i w))) =
      set (subscriptions (w_ws w)) \<union> fst ` set (w_refs w)"
    and "w_instance (on_open i w) = w_instance w" and "w_refs (on_open i w) = w_refs w"
    and "length (w_clients (on_open i w)) = length (w_clients w)"
    and "j \<noteq> i \<Longrightarrow> client j (on_open i w) = client j w"
proof -
  let ?w1 = "dispatch (SetStatus WOpen) w"
  let ?w2 = "fold (restore_one i) (w_refs w) ?w1"
  have on: "on_open i w = startHeartbeat i (with_client i (\<lambda>c. c\<lparr>c_pending := []\<rparr>)
      (fold (\<lambda>ch. sendRaw i (ActSubscribe ch)) (c_pending (client i ?w2)) ?w2))"
    by (simp add: on_open_def Let_def restore_one_def)
  have "\<forall>(ch, n) \<in> set (w_refs w). ch \<noteq> [] \<and> 0 < n"
    using assms(4) by (simp add: refs_ok_def)
  note f = fold_restore [of i ?w1, OF _ _ _ this, simplified, OF assms(1-3)]
  have p: "fold (\<lambda>ch. sendRaw i (ActSubscribe ch)) chs ?w2 =
      with_client i (\<lambda>c. c\<lparr>c_wire := c_wire c @ map ActSubscribe chs\<rparr>) ?w2" for chs
    using f assms by (intro fold_pending) auto
  show "client i (on_open i w) =
      (client i w)\<lparr>c_wire := c_wire (client i w) @ map ActSubscribe (map fst (w_refs w))
                              @ map ActSubscribe (c_pending (client i w)),
                   c_pending := [], c_heartbeat := True\<rparr>"
    and "set (subscriptions (w_ws (on_open i w))) =
      set (subscriptions (w_ws w)) \<union> fst ` set (w_refs w)"
    and "w_instance (on_open i w) = w_instance w" and "w_refs (on_open i w) = w_refs w"
    and "length (w_clients (on_open i w)) = length (w_clients w)"
    and "j \<noteq> i \<Longrightarrow> client j (on_open i w) = client j w"
    using f assms(1) by (simp_all add: on p startHeartbeat_def)
qed

end
