(* ===== verification/WsInvariant.thy ===== *)
theory WsInvariant
  imports WsClientProofs
begin

section \<open>Reachable worlds of the WebSocket client\<close>

text \<open>
  The steps of the world, the invariant every step keeps, and what it gives in every
  reachable world. The handlers of \<open>handleMessage\<close> run with an arbitrary decoder and
  parser.
\<close>

subsection \<open>Steps\<close>

definition sock_opens :: "nat \<Rightarrow> ws_world \<Rightarrow> ws_world" where
  "sock_opens i w = on_open i (with_client i (\<lambda>c. c\<lparr>c_open := True, c_wire := []\<rparr>) w)"

definition sock_closes :: "nat \<Rightarrow> int \<Rightarrow> ws_world \<Rightarrow> ws_world" where
  "sock_closes i code w = on_close i code (with_client i (\<lambda>c. c\<lparr>c_open := False\<rparr>) w)"

inductive ws_step :: "ws_world \<Rightarrow> ws_world \<Rightarrow> bool" where
  page_subscribe: "ws_step w (subscribeChannel ch w)"
| page_unsubscribe: "ws_step w (unsubscribeChannel ch w)"
| page_clear_tasks: "ws_step w (dispatch ClearTaskProgress w)"
| page_clear_events: "ws_step w (dispatch ClearClusterEvents w)"
| page_clear_logs: "ws_step w (dispatch (ClearPodLogs c) w)"
| token_changes: "ws_step w (w\<lparr>w_user_token := t\<rparr>)"
| effects_run: "w_effect w \<noteq> Some (w_user_token w) \<Longrightarrow> ws_step w (run_effects w)"
| layout_unmounts: "ws_step w (unmount_effects w)"
| clock: "ws_step w (w\<lparr>w_now := t\<rparr>)"
| heartbeat: "i < length (w_clients w) \<Longrightarrow> c_heartbeat (client i w) \<Longrightarrow>
    ws_step w (heartbeat_tick i w)"
| sock_open: "i < length (w_clients w) \<Longrightarrow> \<not> c_stopped (client i w) \<Longrightarrow>
    \<not> c_open (client i w) \<Longrightarrow> ws_step w (sock_opens i w)"
| sock_close: "i < length (w_clients w) \<Longrightarrow> ws_step w (sock_closes i code w)"
| sock_error: "i < length (w_clients w) \<Longrightarrow> ws_step w (on_error i w)"
| sock_message: "i < length (w_clients w) \<Longrightarrow> ws_step w (handleMessage decode parse raw w)"

definition initial_world :: "string option \<Rightarrow> string \<Rightarrow> ws_world" where
  "initial_world tok now =
     \<lparr>w_clients = [], w_instance = None, w_refs = [], w_ws = initial_ws_state,
      w_user_token = tok, w_effect = None, w_now = now\<rparr>"

inductive ws_reach :: "ws_world \<Rightarrow> bool" where
  start: "ws_reach (initial_world tok now)"
| step: "ws_reach w \<Longrightarrow> ws_step w w' \<Longrightarrow> ws_reach w'"

subsection \<open>The invariant\<close>

text \<open>A client that was closed: no socket, no timer, nothing pending.\<close>

definition dead :: "ws_client \<Rightarrow> bool" where
  "dead c \<longleftrightarrow> c_explicitlyClosed c \<and> \<not> c_rws c \<and> c_stopped c \<and> \<not> c_open c \<and>
     \<not> c_heartbeat c \<and> c_pending c = []"

text \<open>
  The singleton agrees with the reference counts \<open>A\<close> and the Redux subscriptions \<open>S\<close>: on an
  open connection all three sets of channels are equal, otherwise the pending and the listed
  channels are among the held ones and the rest is restored by \<open>onopen\<close>.
\<close>

definition synced :: "ws_client \<Rightarrow> string set \<Rightarrow> string set \<Rightarrow> bool" where
  "synced c A S \<longleftrightarrow>
     \<not> c_explicitlyClosed c \<and> c_rws c \<and> (c_open c \<longrightarrow> \<not> c_stopped c) \<and>
     c_heartbeat c = c_open c \<and>
     (if c_open c then c_pending c = [] \<and> requested (c_wire c) = A \<and> S = A
      else set (c_pending c) \<subseteq> A \<and> S \<subseteq> A)"

definition ws_inv :: "ws_world \<Rightarrow> bool" where
  "ws_inv w \<longleftrightarrow>
     refs_ok (w_refs w) \<and>
     (\<forall>j < length (w_clients w). w_instance w \<noteq> Some j \<longrightarrow> dead (client j w)) \<and>
     (case w_instance w of
        None \<Rightarrow> set (subscriptions (w_ws w)) = {}
      | Some i \<Rightarrow> i < length (w_clients w) \<and>
                  synced (client i w) (active (w_refs w)) (set (subscriptions (w_ws w))))"

lemma ws_invE:
  assumes "ws_inv w"
  obtains (idle) "w_instance w = None" "subscriptions (w_ws w) = []" "refs_ok (w_refs w)"
      "\<forall>j < length (w_clients w). dead (client j w)"
  | (conn) i where "w_instance w = Some i" "i < length (w_clients w)" "refs_ok (w_refs w)"
      "\<forall>j < length (w_clients w). j \<noteq> i \<longrightarrow> dead (client j w)"
      "synced (client i w) (active (w_refs w)) (set (subscriptions (w_ws w)))"
  using assms by (cases "w_instance w") (auto simp: ws_inv_def)

lemma ws_inv_None:
  "w_instance w = None \<Longrightarrow> ws_inv w \<longleftrightarrow>
     refs_ok (w_refs w) \<and> (\<forall>j < length (w_clients w). dead (client j w)) \<and>
     set (subscriptions (w_ws w)) = {}"
  by (simp add: ws_inv_def)

lemma ws_inv_Some:
  "w_instance w = Some i \<Longrightarrow> ws_inv w \<longleftrightarrow>
     refs_ok (w_refs w) \<and> (\<forall>j < length (w_clients w). j \<noteq> i \<longrightarrow> dead (client j w)) \<and>
     i < length (w_clients w) \<and>
     synced (client i w) (active (w_refs w)) (set (subscriptions (w_ws w)))"
  by (auto simp: ws_inv_def)

lemma ws_inv_initial: "ws_inv (initial_world tok now)"
  by (simp add: ws_inv_def initial_world_def initial_ws_state_def)

text \<open>Steps that touch neither a client nor a subscription keep the invariant.\<close>

lemma ws_inv_cong:
  assumes "w_clients w' = w_clients w" "w_instance w' = w_instance w" "w_refs w' = w_refs w"
    "set (subscriptions (w_ws w')) = set (subscriptions (w_ws w))"
  shows "ws_inv w' = ws_inv w"
  using assms by (cases "w_instance w") (simp_all add: ws_inv_def client_def)

subsection \<open>Subscribing and releasing\<close>

lemma sendRaw_client:
  "i < length (w_clients w) \<Longrightarrow> c_rws (client i w) \<Longrightarrow> c_open (client i w) \<Longrightarrow>
     client i (sendRaw i a w) = (client i w)\<lparr>c_wire := c_wire (client i w) @ [a]\<rparr>"
  "i < length (w_clients w) \<Longrightarrow> \<not> c_open (client i w) \<Longrightarrow> ch \<noteq> [] \<Longrightarrow>
     client i (sendRaw i (ActSubscribe ch) w) =
       (client i w)\<lparr>c_pending := set_add ch (c_pending (client i w))\<rparr>"
  "i < length (w_clients w) \<Longrightarrow> \<not> c_open (client i w) \<Longrightarrow> ch \<noteq> [] \<Longrightarrow>
     client i (sendRaw i (ActUnsubscribe ch) w) =
       (client i w)\<lparr>c_pending := set_delete ch (c_pending (client i w))\<rparr>"
  by (simp_all add: sendRaw_def)

lemma client_subscribe_synced:
  assumes "i < length (w_clients w)" and "ch \<noteq> []"
    and "synced (client i w) A (set (subscriptions (w_ws w)))"
  shows "synced (client i (client_subscribe i ch w)) (insert ch A)
           (set (subscriptions (w_ws (client_subscribe i ch w))))"
  using assms
  by (cases "c_open (client i w)")
    (auto simp: client_subscribe_def sendRaw_client synced_def)

lemma client_unsubscribe_synced:
  assumes "i < length (w_clients w)" and "ch \<noteq> []"
    and "synced (client i w) A (set (subscriptions (w_ws w)))"
  shows "synced (client i (client_unsubscribe i ch w)) (A - {ch})
           (set (subscriptions (w_ws (client_unsubscribe i ch w))))"
  using assms
  by (cases "c_open (client i w)")
    (auto simp: client_unsubscribe_def sendRaw_client synced_def set_delete_def)

lemma client_ops_frame [simp]:
  "w_instance (client_subscribe i ch w) = w_instance w"
  "w_instance (client_unsubscribe i ch w) = w_instance w"
  "length (w_clients (client_subscribe i ch w)) = length (w_clients w)"
  "length (w_clients (client_unsubscribe i ch w)) = length (w_clients w)"
  "j \<noteq> i \<Longrightarrow> client j (client_subscribe i ch w) = client j w"
  "j \<noteq> i \<Longrightarrow> client j (client_unsubscribe i ch w) = client j w"
  by (simp_all add: client_subscribe_def client_unsubscribe_def)

lemma ws_inv_subscribe:
  assumes "ws_inv w"
  shows "ws_inv (subscribeChannel ch w)"
proof (cases "ch = []")
  case True
  with assms show ?thesis by (simp add: subscribeChannel_def)
next
  case False
  let ?n = "ref_count (w_refs w) ch + 1"
  let ?w1 = "w\<lparr>w_refs := AList.update ch ?n (w_refs w)\<rparr>"
  have refs: "refs_ok (AList.update ch ?n (w_refs w))" if "refs_ok (w_refs w)"
    using that False by (intro refs_ok_update) auto
  have act: "active (AList.update ch ?n (w_refs w)) = insert ch (active (w_refs w))"
    by (rule active_update) simp
  have old: "insert ch (active (w_refs w)) = active (w_refs w)" if "?n \<noteq> 1"
    using that by (auto simp: active_def)
  from assms show ?thesis
  proof (cases rule: ws_invE)
    case idle
    then have "subscribeChannel ch w = ?w1"
      using False by (auto simp: subscribeChannel_def Let_def)
    moreover have "ws_inv ?w1" using idle refs by (simp add: ws_inv_None)
    ultimately show ?thesis by simp
  next
    case (conn i)
    show ?thesis
    proof (cases "?n = 1")
      case True
      then have eq: "subscribeChannel ch w = client_subscribe i ch ?w1"
        using conn(1) False by (simp add: subscribeChannel_def Let_def)
      have "synced (client i (client_subscribe i ch ?w1)) (insert ch (active (w_refs w)))
          (set (subscriptions (w_ws (client_subscribe i ch ?w1))))"
        using conn False by (intro client_subscribe_synced) simp_all
      then show ?thesis
        using conn refs act by (simp add: eq ws_inv_Some)
    next
      case False
      then have eq: "subscribeChannel ch w = ?w1"
        using \<open>ch \<noteq> []\<close> by (simp add: subscribeChannel_def Let_def)
      from conn refs act old [OF False] show ?thesis
        by (simp add: eq ws_inv_Some)
    qed
  qed
qed

lemma ws_inv_unsubscribe:
  assumes "ws_inv w"
  shows "ws_inv (unsubscribeChannel ch w)"
proof (cases "ch = []")
  case True
  with assms show ?thesis by (simp add: unsubscribeChannel_def)
next
  case False
  let ?cur = "ref_count (w_refs w) ch"
  let ?w1 = "w\<lparr>w_refs := AList.delete ch (w_refs w)\<rparr>"
  let ?w2 = "w\<lparr>w_refs := AList.update ch (?cur - 1) (w_refs w)\<rparr>"
  show ?thesis
  proof (cases "?cur \<le> 1")
    case True
    from assms show ?thesis
    proof (cases rule: ws_invE)
      case idle
      with True False show ?thesis
        by (simp add: unsubscribeChannel_def Let_def ws_inv_None refs_ok_delete)
    next
      case (conn i)
      have eq: "unsubscribeChannel ch w = client_unsubscribe i ch ?w1"
        using True False conn(1) by (simp add: unsubscribeChannel_def Let_def)
      have "synced (client i (client_unsubscribe i ch ?w1)) (active (w_refs w) - {ch})
          (set (subscriptions (w_ws (client_unsubscribe i ch ?w1))))"
        using conn False by (intro client_unsubscribe_synced) simp_all
      with conn show ?thesis
        by (simp add: eq ws_inv_Some refs_ok_delete active_delete)
    qed
  next
    case more: False
    have eq: "unsubscribeChannel ch w = ?w2"
      using more False by (simp add: unsubscribeChannel_def Let_def)
    have refs: "refs_ok (AList.update ch (?cur - 1) (w_refs w))" if "refs_ok (w_refs w)"
      using that more False by (intro refs_ok_update) auto
    have act: "active (AList.update ch (?cur - 1) (w_refs w)) = active (w_refs w)"
      using more by (auto simp: active_def)
    show ?thesis
    proof (cases "w_instance w")
      case None
      with assms refs show ?thesis by (simp add: eq ws_inv_None)
    next
      case (Some i)
      with assms refs act show ?thesis by (simp add: eq ws_inv_Some)
    qed
  qed
qed

subsection \<open>Connecting and disconnecting\<close>

lemma dead_closed:
  assumes "i < length (w_clients w)" and "c_rws (client i w)"
  shows "dead (client i (client_close i w))"
  using assms by (simp add: client_client_close dead_def)

lemma disconnect_instance [simp]: "w_instance (disconnectWebSocket w) = None"
  by (simp add: disconnectWebSocket_def split: option.split)

lemma disconnect_frame [simp]:
  "w_refs (disconnectWebSocket w) = w_refs w" "w_ws (disconnectWebSocket w) = w_ws w"
  "w_user_token (disconnectWebSocket w) = w_user_token w"
  "w_effect (disconnectWebSocket w) = w_effect w"
  "length (w_clients (disconnectWebSocket w)) = length (w_clients w)"
  by (simp_all add: disconnectWebSocket_def split: option.split)

lemma disconnect_dead:
  assumes "ws_inv w"
  shows "\<forall>j < length (w_clients w). dead (client j (disconnectWebSocket w))"
  using assms
proof (cases rule: ws_invE)
  case idle
  then show ?thesis by (simp add: disconnectWebSocket_def)
next
  case (conn i)
  then have "dead (client i (client_close i w))"
    by (intro dead_closed) (simp_all add: synced_def)
  with conn show ?thesis
    by (auto simp: disconnectWebSocket_def) (metis client_close_frame(8))
qed

lemma ws_inv_disconnect_reset:
  "ws_inv w \<Longrightarrow> ws_inv (dispatch ResetWS (disconnectWebSocket w))"
  "ws_inv w \<Longrightarrow> ws_inv (dispatch ResetWS (resetChannelRefs (disconnectWebSocket w)))"
  using disconnect_dead [of w]
  by (auto simp: ws_inv_None resetChannelRefs_def elim: ws_invE)

lemma install_frame [simp]:
  "w_instance (install_client tok w) = Some (length (w_clients w))"
  "w_refs (install_client tok w) = w_refs w"
  "length (w_clients (install_client tok w)) = length (w_clients w) + 1"
  "subscriptions (w_ws (install_client tok w)) = subscriptions (w_ws w)"
  "w_user_token (install_client tok w) = w_user_token w"
  "w_effect (install_client tok w) = w_effect w"
  by (simp_all add: install_client_def Let_def)

lemma install_clients:
  "client (length (w_clients w)) (install_client tok w) = new_client tok w"
  "j < length (w_clients w) \<Longrightarrow> client j (install_client tok w) = client j w"
  by (simp_all add: install_client_def Let_def client_def new_client_def nth_append)

lemma synced_new: "S \<subseteq> A \<Longrightarrow> synced (new_client tok w) A S"
  by (simp add: synced_def new_client_def Let_def)

lemma ws_inv_install:
  assumes "refs_ok (w_refs w)" and "\<forall>j < length (w_clients w). dead (client j w)"
    and "set (subscriptions (w_ws w)) \<subseteq> active (w_refs w)"
  shows "ws_inv (install_client tok w)"
  using assms by (auto simp: ws_inv_Some install_clients synced_new less_Suc_eq)

lemma ws_inv_connect:
  assumes "ws_inv w"
  shows "ws_inv (connectWebSocket tok w)"
  using assms
proof (cases rule: ws_invE)
  case idle
  then show ?thesis by (simp add: connectWebSocket_def ws_inv_install)
next
  case (conn i)
  have eq: "(client_close i w)\<lparr>w_instance := None\<rparr> = disconnectWebSocket w"
    using conn(1) by (simp add: disconnectWebSocket_def)
  have "set (subscriptions (w_ws w)) \<subseteq> active (w_refs w)"
    using conn(5) by (auto simp: synced_def split: if_splits)
  then have "ws_inv (install_client tok (disconnectWebSocket w))"
    using conn(3) disconnect_dead [OF assms] by (intro ws_inv_install) simp_all
  then show ?thesis using conn(1) assms by (simp add: connectWebSocket_def eq)
qed

lemma ws_inv_effects:
  assumes "ws_inv w"
  shows "ws_inv (run_effects w)" and "ws_inv (unmount_effects w)"
proof -
  have eff: "ws_inv (v\<lparr>w_effect := e\<rparr>) = ws_inv v" for v e
    by (rule ws_inv_cong) simp_all
  have cleanup: "ws_inv (lifecycle_cleanup t v)" if "ws_inv v" for t v
    using that by (simp add: lifecycle_cleanup_def ws_inv_disconnect_reset)
  have effect: "ws_inv (lifecycle_effect t v)" if "ws_inv v" for t v
    using that by (simp add: lifecycle_effect_def ws_inv_disconnect_reset ws_inv_connect)
  show "ws_inv (run_effects w)"
    using assms by (simp add: run_effects_def Let_def eff cleanup effect split: option.split)
  show "ws_inv (unmount_effects w)"
    using assms by (simp add: unmount_effects_def eff cleanup split: option.split)
qed

subsection \<open>The listeners\<close>

lemma ws_inv_sock_opens:
  assumes "ws_inv w" and "i < length (w_clients w)" and "\<not> c_stopped (client i w)"
  shows "ws_inv (sock_opens i w)"
  using assms(1)
proof (cases rule: ws_invE)
  case idle
  with assms(2,3) show ?thesis by (auto simp: dead_def)
next
  case (conn k)
  with assms(2,3) have k: "k = i" by (auto simp: dead_def)
  let ?w = "with_client i (\<lambda>c. c\<lparr>c_open := True, c_wire := []\<rparr>) w"
  have c: "client i ?w = (client i w)\<lparr>c_open := True, c_wire := []\<rparr>"
    using assms(2) by simp
  have "c_rws (client i w)" using conn k by (simp add: synced_def)
  note o = on_open_effect [of i ?w, simplified c, simplified, OF assms(2) this conn(3)]
  have act: "fst ` set (w_refs w) = active (w_refs w)"
    using active_refs [OF conn(3)] by simp
  let ?P = "c_pending (client i w)"
  have sub: "set ?P \<subseteq> active (w_refs w)" "set (subscriptions (w_ws w)) \<subseteq> active (w_refs w)"
    using conn(5) k by (auto simp: synced_def split: if_splits)
  have wire: "requested (map ActSubscribe (map fst (w_refs w)) @ map ActSubscribe ?P)
      = active (w_refs w)"
    unfolding map_append [symmetric] requested_only using sub act by auto
  have "synced (client i (on_open i ?w)) (active (w_refs w))
      (set (subscriptions (w_ws (on_open i ?w))))"
    unfolding o(1,2) act using conn(5) k assms(3) sub wire
    by (simp add: synced_def Un_absorb1)
  then show ?thesis
    using conn(1,3,4) assms(2) k
    by (simp add: sock_opens_def ws_inv_Some o(3-5)) (simp add: o(6))
qed

lemma dispatch_status_cong:
  "ws_inv (dispatch (SetStatus st) w) = ws_inv w"
  "ws_inv (dispatch (SetLastError e) w) = ws_inv w"
  "ws_inv (dispatch SetReconnecting w) = ws_inv w"
  "ws_inv (dispatch (OnMessage m) w) = ws_inv w"
  "ws_inv (dispatch ClearTaskProgress w) = ws_inv w"
  "ws_inv (dispatch ClearClusterEvents w) = ws_inv w"
  "ws_inv (dispatch (ClearPodLogs c) w) = ws_inv w"
  by (rule ws_inv_cong, simp_all)+

text \<open>Losing the connection, and stopping the socket, of any client.\<close>

lemma synced_lost: "synced c A S \<Longrightarrow> synced (c\<lparr>c_open := False, c_heartbeat := False\<rparr>) A S"
  by (auto simp: synced_def split: if_splits)

lemma dead_lost: "dead c \<Longrightarrow> dead (c\<lparr>c_open := False, c_heartbeat := False\<rparr>)"
  by (simp add: dead_def)

lemma ws_inv_client_update:
  assumes "ws_inv w" and "i < length (w_clients w)"
    and "w_instance w' = w_instance w" "w_refs w' = w_refs w"
      "length (w_clients w') = length (w_clients w)"
      "set (subscriptions (w_ws w')) = set (subscriptions (w_ws w))"
      "\<And>j. j \<noteq> i \<Longrightarrow> client j w' = client j w"
    and "dead (client i w) \<Longrightarrow> dead (client i w')"
    and "\<And>A S. synced (client i w) A S \<Longrightarrow> synced (client i w') A S"
  shows "ws_inv w'"
  using assms(1)
proof (cases rule: ws_invE)
  case idle
  then show ?thesis using assms(2-) by (simp add: ws_inv_None) metis
next
  case (conn k)
  then show ?thesis
    using assms(2-) by (simp add: ws_inv_Some) metis
qed

lemma ws_inv_sock_closes:
  assumes "ws_inv w" and "i < length (w_clients w)"
  shows "ws_inv (sock_closes i code w)"
proof -
  let ?w1 = "stopHeartbeat i (with_client i (\<lambda>c. c\<lparr>c_open := False\<rparr>) w)"
  have c1: "client i ?w1 = (client i w)\<lparr>c_open := False, c_heartbeat := False\<rparr>"
    using assms(2) by simp
  have "ws_inv ?w1"
    using assms by (rule ws_inv_client_update) (simp_all add: c1 dead_lost synced_lost)
  moreover have "ws_inv (rws_close i (dispatch (SetLastError e) ?w1))" for e
    using assms
    by (rule ws_inv_client_update)
      (use assms(2) in \<open>auto simp: dead_def synced_def split: if_splits\<close>)
  ultimately show ?thesis
    by (simp add: sock_closes_def on_close_def Let_def dispatch_status_cong)
qed

lemma ws_inv_heartbeat:
  assumes "ws_inv w" and "i < length (w_clients w)"
  shows "ws_inv (heartbeat_tick i w)"
proof (cases "c_rws (client i w) \<and> c_open (client i w)")
  case True
  then have "heartbeat_tick i w = sendRaw i ActPing w" by (simp add: heartbeat_tick_def)
  moreover have "ws_inv (sendRaw i ActPing w)"
    using assms
    by (rule ws_inv_client_update)
      (use assms(2) True in \<open>auto simp: sendRaw_client sendRaw_open dead_def synced_def split: if_splits\<close>)
  ultimately show ?thesis by simp
next
  case False
  with assms show ?thesis by (auto simp: heartbeat_tick_def)
qed

theorem ws_step_inv: "ws_step w w' \<Longrightarrow> ws_inv w \<Longrightarrow> ws_inv w'"
proof (induction rule: ws_step.induct)
  case (token_changes w t)
  then show ?case by (subst ws_inv_cong) simp_all
next
  case (clock w t)
  then show ?case by (subst ws_inv_cong) simp_all
next
  case (sock_message i w decode parse raw)
  then show ?case
    by (auto simp: handleMessage_def Let_def dispatch_status_cong split: raw_frame.split option.split)
qed (simp_all add: ws_inv_subscribe ws_inv_unsubscribe dispatch_status_cong ws_inv_effects
    ws_inv_heartbeat ws_inv_sock_opens ws_inv_sock_closes on_error_def)

lemma ws_reach_inv: "ws_reach w \<Longrightarrow> ws_inv w"
  by (induction rule: ws_reach.induct) (auto simp: ws_inv_initial intro: ws_step_inv)

end
