(* ===== verification/WsTheorems.thy ===== *)
theory WsTheorems
  imports WsInvariant
begin

section \<open>Properties of the WebSocket client\<close>

text \<open>
  What the invariant gives in every reachable world: the subscriptions of an open connection,
  reconnects, token changes and logouts, and the behaviour of closed clients whose listeners
  still fire.
\<close>

subsection \<open>What holds in every reachable world\<close>

lemma reach_synced:
  assumes "ws_reach w" and "w_instance w = Some i"
  shows "i < length (w_clients w)" and "refs_ok (w_refs w)"
    and "synced (client i w) (active (w_refs w)) (set (subscriptions (w_ws w)))"
  using ws_reach_inv [OF assms(1)] assms(2) by (simp_all add: ws_inv_Some)

text \<open>A run that ends on an open connection, for the witnesses.\<close>

definition demo_pages :: ws_world where
  "demo_pages = subscribeChannel ''task_progress''
     (subscribeChannel ''task_progress'' (initial_world (Some ''t1'') ''now''))"

definition demo_connecting :: ws_world where
  "demo_connecting = run_effects demo_pages"

definition demo_open :: ws_world where
  "demo_open = sock_opens 0 demo_connecting"

lemmas ws_eval = demo_open_def demo_connecting_def demo_pages_def sock_opens_def on_open_def
  run_effects_def lifecycle_effect_def lifecycle_cleanup_def connectWebSocket_def
  disconnectWebSocket_def install_client_def new_client_def client_close_def rws_close_def
  startHeartbeat_def stopHeartbeat_def subscribeChannel_def unsubscribeChannel_def
  client_subscribe_def client_unsubscribe_def sendRaw_def with_client_def client_def
  dispatch_def initial_world_def initial_ws_state_def ref_count_def ws_reduce.simps Let_def
  set_add_def set_delete_def sock_closes_def on_close_def

lemma demo_connecting_eval:
  "w_effect demo_connecting = Some (Some ''t1'')" "w_instance demo_connecting = Some 0"
  "length (w_clients demo_connecting) = 1" "\<not> c_open (client 0 demo_connecting)"
  "\<not> c_stopped (client 0 demo_connecting)" "w_refs demo_connecting = [(''task_progress'', 2)]"
  by (simp_all add: ws_eval)

lemma demo_open_eval:
  "w_effect demo_open = Some (Some ''t1'')" "w_instance demo_open = Some 0"
  "length (w_clients demo_open) = 1" "c_open (client 0 demo_open)"
  "w_refs demo_open = [(''task_progress'', 2)]"
  "c_wire (client 0 demo_open) = [ActSubscribe ''task_progress'']"
  by code_simp+

lemma demo_reach: "ws_reach demo_connecting" "ws_reach demo_open"
proof -
  have "ws_reach demo_pages"
    unfolding demo_pages_def
    by (rule ws_reach.step [OF ws_reach.step [OF ws_reach.start ws_step.page_subscribe]
        ws_step.page_subscribe])
  moreover have "w_effect demo_pages \<noteq> Some (w_user_token demo_pages)"
    by (simp add: ws_eval)
  ultimately show c: "ws_reach demo_connecting"
    unfolding demo_connecting_def by (intro ws_reach.step [OF _ ws_step.effects_run])
  show "ws_reach demo_open"
    unfolding demo_open_def
    by (rule ws_reach.step [OF c ws_step.sock_open]) (simp_all add: demo_connecting_eval)
qed

text \<open>
  C1. On an open connection the server has been asked for exactly the channels some page
  holds: in every reachable world, the channels requested by the frames of the current
  connection, the subscriptions listed in the store and the channels with a positive
  reference count are the same, and no subscription is left pending.
\<close>

theorem open_connection_in_sync:
  assumes "ws_reach w" and "w_instance w = Some i" and "c_open (client i w)"
  shows "requested (c_wire (client i w)) = {ch. 0 < ref_count (w_refs w) ch}
    \<and> set (subscriptions (w_ws w)) = {ch. 0 < ref_count (w_refs w) ch}
    \<and> c_pending (client i w) = []"
  using reach_synced [OF assms(1,2)] assms(3) by (simp add: synced_def active_def)

theorem open_connection_in_sync_witness:
  "requested (c_wire (client 0 demo_open)) = {ch. 0 < ref_count (w_refs demo_open) ch}
   \<and> ref_count (w_refs demo_open) ''task_progress'' = 2"
  using open_connection_in_sync [OF demo_reach(2) demo_open_eval(2,4)]
  by (simp add: demo_open_eval ref_count_def)

text \<open>
  C29. A page has one live connection at most: in every reachable world a client with an open
  socket or a running heartbeat is the singleton, its heartbeat runs exactly while its socket
  is open, and every other client ever made is closed with its socket stopped, its timer
  cleared and nothing pending.
\<close>

theorem single_live_connection:
  assumes "ws_reach w" and "j < length (w_clients w)"
  shows "if w_instance w = Some j then c_heartbeat (client j w) = c_open (client j w)
         else dead (client j w)"
  using ws_reach_inv [OF assms(1)] assms(2) by (auto simp: ws_inv_def synced_def)

theorem single_live_connection_witness:
  "c_heartbeat (client 0 demo_open) = c_open (client 0 demo_open)"
proof -
  have "0 < length (w_clients demo_open)" by (simp add: demo_open_eval)
  from single_live_connection [OF demo_reach(2) this] show ?thesis
    by (simp add: demo_open_eval)
qed

text \<open>
  C5. A reconnect restores the subscriptions: when the socket of the current client opens
  again, the new connection sends only subscribe frames, and the channels they name are
  exactly those with a positive reference count.
\<close>

theorem reconnect_restores_subscriptions:
  assumes "ws_reach w" and "w_instance w = Some i"
    and "\<not> c_open (client i w)" and "\<not> c_stopped (client i w)"
  shows "let c = client i (sock_opens i w)
         in c_open c \<and> requested (c_wire c) = {ch. 0 < ref_count (w_refs w) ch}
            \<and> (\<exists>chs. c_wire c = map ActSubscribe chs)"
proof -
  note s = reach_synced [OF assms(1,2)]
  let ?w = "with_client i (\<lambda>c. c\<lparr>c_open := True, c_wire := []\<rparr>) w"
  have c: "client i ?w = (client i w)\<lparr>c_open := True, c_wire := []\<rparr>" using s(1) by simp
  have "c_rws (client i w)" using s(3) by (simp add: synced_def)
  note o = on_open_effect [of i ?w, simplified c, simplified, OF s(1) this s(2)]
  have reach: "ws_reach (sock_opens i w)"
    using assms s(1) by (intro ws_reach.step [OF assms(1)] ws_step.sock_open)
  have wire: "c_wire (client i (sock_opens i w))
      = map ActSubscribe (map fst (w_refs w) @ c_pending (client i w))"
    and "c_open (client i (sock_opens i w))" "w_refs (sock_opens i w) = w_refs w"
    and "w_instance (sock_opens i w) = Some i"
    using o assms(2) by (simp_all add: sock_opens_def)
  then show ?thesis
    using reach_synced [OF reach] by (auto simp: Let_def synced_def active_def simp del: map_append)
qed

theorem reconnect_restores_subscriptions_witness:
  "requested (c_wire (client 0 (sock_opens 0 demo_connecting)))
   = {ch. 0 < ref_count (w_refs demo_connecting) ch}"
  using reconnect_restores_subscriptions
    [OF demo_reach(1) demo_connecting_eval(2) demo_connecting_eval(4,5)]
  by (simp add: Let_def)

subsection \<open>Pages that come and go\<close>

lemma open_after_page_ops:
  assumes "ws_reach w" and "w_instance w = Some i" and "c_open (client i w)"
  shows "ws_reach (subscribeChannel ch w) \<and> w_instance (subscribeChannel ch w) = Some i
      \<and> c_open (client i (subscribeChannel ch w))"
    and "ws_reach (unsubscribeChannel ch w) \<and> w_instance (unsubscribeChannel ch w) = Some i
      \<and> c_open (client i (unsubscribeChannel ch w))"
proof -
  have i: "i < length (w_clients w)" and rws: "c_rws (client i w)"
    using reach_synced [OF assms(1,2)] by (simp_all add: synced_def)
  show "ws_reach (subscribeChannel ch w) \<and> w_instance (subscribeChannel ch w) = Some i
      \<and> c_open (client i (subscribeChannel ch w))"
    using ws_reach.step [OF assms(1) ws_step.page_subscribe] i rws assms(2,3)
    by (auto simp: subscribeChannel_def client_subscribe_def Let_def sendRaw_open)
  show "ws_reach (unsubscribeChannel ch w) \<and> w_instance (unsubscribeChannel ch w) = Some i
      \<and> c_open (client i (unsubscribeChannel ch w))"
    using ws_reach.step [OF assms(1) ws_step.page_unsubscribe] i rws assms(2,3)
    by (auto simp: unsubscribeChannel_def client_unsubscribe_def Let_def sendRaw_open)
qed

lemma open_after_page_run:
  assumes "ws_reach w" and "w_instance w = Some i" and "c_open (client i w)"
  shows "ws_reach (channel_refs.run ops w) \<and> w_instance (channel_refs.run ops w) = Some i
      \<and> c_open (client i (channel_refs.run ops w))"
  using assms
proof (induction ops arbitrary: w)
  case Nil
  then show ?case by simp
next
  case (Cons op ops)
  obtain b ch where "op = (b, ch)" by (cases op)
  with Cons.IH open_after_page_ops [OF Cons.prems, of ch] show ?case
    by (cases b) simp_all
qed

text \<open>
  A page that leaves does not cut the stream of another: while a connection is open, let
  pages subscribe (\<open>True\<close>) and release (\<open>False\<close>) channels in any order in which no channel
  is released more often than it is held. The server is then still asked for a channel
  exactly if more subscriptions of it were made than released, counting the ones held before.
\<close>

theorem shared_channel_survives:
  assumes "ws_reach w" and "w_instance w = Some i" and "c_open (client i w)"
    and "\<forall>(b, c) \<in> set ops. c \<noteq> []"
    and "channel_refs.bracketed ch (ref_count (w_refs w) ch) ops"
  shows "ch \<in> requested (c_wire (client i (channel_refs.run ops w))) \<longleftrightarrow>
    count_list ops (False, ch) < ref_count (w_refs w) ch + count_list ops (True, ch)"
proof -
  let ?w = "channel_refs.run ops w"
  have "ref_count (w_refs ?w) ch + count_list ops (False, ch)
      = ref_count (w_refs w) ch + count_list ops (True, ch)"
    using assms(4,5) by (intro channel_refs.run_count) auto
  moreover have "requested (c_wire (client i ?w)) = {c. 0 < ref_count (w_refs ?w) c}"
    using open_after_page_run [OF assms(1-3), of ops] reach_synced [of ?w i]
    by (auto simp: synced_def active_def)
  ultimately show ?thesis by auto
qed

text \<open>
  The witness: of two pages on \<open>task_progress\<close> one leaves while a third channel comes and
  goes.
\<close>

theorem shared_channel_survives_witness:
  "''task_progress'' \<in> requested (c_wire (client 0 (channel_refs.run
     [(False, ''task_progress''), (True, ''cluster_event''), (False, ''cluster_event'')]
     demo_open)))"
proof -
  let ?ops = "[(False, ''task_progress''), (True, ''cluster_event''), (False, ''cluster_event'')]"
  have "\<forall>(b, c) \<in> set ?ops. c \<noteq> []" by simp
  moreover have "channel_refs.bracketed ''task_progress''
      (ref_count (w_refs demo_open) ''task_progress'') ?ops"
    by (simp add: demo_open_eval ref_count_def)
  ultimately show ?thesis
    using shared_channel_survives [OF demo_reach(2) demo_open_eval(2,4), of ?ops "''task_progress''"]
    by (simp add: demo_open_eval ref_count_def)
qed

subsection \<open>Token changes and logouts\<close>

lemma run_effects_login:
  assumes "ws_reach w" and "w_instance w = Some i" and "w_effect w = Some (Some t)"
    and "t \<noteq> []" and "t' \<noteq> []" and "t' \<noteq> t"
  defines "v \<equiv> w\<lparr>w_user_token := Some t'\<rparr>"
  shows "ws_reach (run_effects v)"
    and "w_instance (run_effects v) = Some (length (w_clients w))"
    and "w_refs (run_effects v) = w_refs w"
    and "length (w_clients (run_effects v)) = length (w_clients w) + 1"
    and "client (length (w_clients w)) (run_effects v) =
      \<lparr>c_token = t', c_protocol = ''access_token.'' @ t', c_rws = True, c_open = False,
       c_stopped = False, c_heartbeat = False, c_explicitlyClosed = False, c_pending = [],
       c_wire = []\<rparr>"
proof -
  have "ws_reach v"
    unfolding v_def using assms(1) ws_step.token_changes by (rule ws_reach.step)
  moreover have "w_effect v \<noteq> Some (w_user_token v)" using assms by (simp add: v_def)
  ultimately show "ws_reach (run_effects v)"
    by (intro ws_reach.step [OF _ ws_step.effects_run])
  let ?u = "dispatch ResetWS (disconnectWebSocket v)"
  have eff: "run_effects v = (install_client t' ?u)\<lparr>w_effect := Some (Some t')\<rparr>"
    using assms by (simp add: run_effects_def lifecycle_cleanup_def lifecycle_effect_def
        connectWebSocket_def v_def Let_def)
  have len: "length (w_clients ?u) = length (w_clients w)" by (simp add: v_def)
  show "w_instance (run_effects v) = Some (length (w_clients w))"
    and "w_refs (run_effects v) = w_refs w"
    and "length (w_clients (run_effects v)) = length (w_clients w) + 1"
    unfolding eff by (simp_all add: v_def)
  have "client (length (w_clients ?u)) (run_effects v) = new_client t' ?u"
    unfolding eff using install_clients(1) [of ?u t'] by simp
  then show "client (length (w_clients w)) (run_effects v) =
      \<lparr>c_token = t', c_protocol = ''access_token.'' @ t', c_rws = True, c_open = False,
       c_stopped = False, c_heartbeat = False, c_explicitlyClosed = False, c_pending = [],
       c_wire = []\<rparr>"
    unfolding len by (simp add: new_client_def v_def assms(5))
qed

text \<open>
  A refreshed token rebuilds the connection without losing a subscription: when the
  token of a running session changes and the hook runs, the old client is closed, a new one
  that authenticates with the new token takes its place, and once it is open the server has
  been asked again for every channel the pages held before.
\<close>

theorem token_change_keeps_subscriptions:
  assumes "ws_reach w" and "w_instance w = Some i" and "w_effect w = Some (Some t)"
    and "t \<noteq> []" and "t' \<noteq> []" and "t' \<noteq> t"
  shows "let n = length (w_clients w);
             v = sock_opens n (run_effects (w\<lparr>w_user_token := Some t'\<rparr>))
         in w_instance v = Some n \<and> dead (client i v)
            \<and> c_protocol (client n v) = ''access_token.'' @ t' \<and> c_open (client n v)
            \<and> requested (c_wire (client n v)) = {ch. 0 < ref_count (w_refs w) ch}"
proof -
  let ?n = "length (w_clients w)"
  let ?u = "run_effects (w\<lparr>w_user_token := Some t'\<rparr>)"
  note r = run_effects_login [OF assms]
  have u: "?n < length (w_clients ?u)" "\<not> c_stopped (client ?n ?u)" "\<not> c_open (client ?n ?u)"
    by (simp_all add: r(4,5))
  let ?w = "with_client ?n (\<lambda>c. c\<lparr>c_open := True, c_wire := []\<rparr>) ?u"
  have c: "client ?n ?w = (client ?n ?u)\<lparr>c_open := True\<rparr>" using u(1) by (simp add: r(5))
  have "refs_ok (w_refs ?w)" using reach_synced(2) [OF r(1,2)] by simp
  then have o: "client ?n (sock_opens ?n ?u) = (client ?n ?w)\<lparr>c_wire := c_wire (client ?n ?w)
        @ map ActSubscribe (map fst (w_refs ?w)) @ map ActSubscribe (c_pending (client ?n ?w)),
        c_pending := [], c_heartbeat := True\<rparr>"
    "w_instance (sock_opens ?n ?u) = Some ?n" "w_refs (sock_opens ?n ?u) = w_refs w"
    "length (w_clients (sock_opens ?n ?u)) = ?n + 1"
    unfolding sock_opens_def using u(1)
    by (subst on_open_effect, simp_all add: c r)+
  have reach: "ws_reach (sock_opens ?n ?u)"
    using u by (intro ws_reach.step [OF r(1)] ws_step.sock_open)
  have "i < ?n" using reach_synced(1) [OF assms(1,2)] .
  then have "dead (client i (sock_opens ?n ?u))"
    using ws_reach_inv [OF reach] o by (auto simp: ws_inv_def)
  moreover have "requested (c_wire (client ?n (sock_opens ?n ?u)))
      = {ch. 0 < ref_count (w_refs w) ch}"
    using reach_synced(3) [OF reach o(2)] o c by (simp add: synced_def active_def)
  ultimately show ?thesis
    using o c by (simp add: Let_def r(5))
qed

theorem token_change_keeps_subscriptions_witness:
  "requested (c_wire (client 1 (sock_opens 1 (run_effects (demo_open\<lparr>w_user_token := Some ''t2''\<rparr>)))))
   = {ch. 0 < ref_count (w_refs demo_open) ch}"
  using token_change_keeps_subscriptions [OF demo_reach(2) demo_open_eval(2,1), of "''t2''"]
  by (simp add: Let_def demo_open_eval(3))

text \<open>
  The branch of the hook for an empty token, run while the layout is still mounted.
\<close>

lemma null_token_ends_connection:
  assumes "ws_reach w" and "w_effect w = Some (Some t)" and "t \<noteq> []"
  shows "let v = run_effects (w\<lparr>w_user_token := None\<rparr>)
         in w_instance v = None \<and> (\<forall>j < length (w_clients v). dead (client j v))
            \<and> w_refs v = []
            \<and> w_ws v = initial_ws_state\<lparr>lastConnectedAt := lastConnectedAt (w_ws w)\<rparr>"
proof -
  let ?v = "run_effects (w\<lparr>w_user_token := None\<rparr>)"
  have "ws_reach (w\<lparr>w_user_token := None\<rparr>)"
    using assms(1) ws_step.token_changes by (rule ws_reach.step)
  then have reach: "ws_reach ?v"
    by (rule ws_reach.step [OF _ ws_step.effects_run]) (simp add: assms(2))
  have eff: "w_instance ?v = None" "w_refs ?v = []"
    "w_ws ?v = initial_ws_state\<lparr>lastConnectedAt := lastConnectedAt (w_ws w)\<rparr>"
    using assms(2,3)
    by (simp_all add: run_effects_def lifecycle_cleanup_def lifecycle_effect_def
        resetChannelRefs_def ws_reduce.simps initial_ws_state_def)
  then show ?thesis
    using ws_reach_inv [OF reach] by (simp add: Let_def ws_inv_None)
qed

text \<open>
  That branch is not the one a logout of the application takes: \<open>RequireAuth\<close> (\<open>router.tsx\<close>)
  replaces the layout by the login page once the token is gone, so React runs the cleanups of the layout
  and of the pages inside it instead. The cleanup of the layout keeps the reference counts; they are
  emptied by the pages, each of which releases what it holds.
\<close>

lemma releases_frame:
  assumes "ws_reach w"
  shows "ws_reach (fold unsubscribeChannel chs w)
    \<and> w_effect (fold unsubscribeChannel chs w) = w_effect w
    \<and> lastConnectedAt (w_ws (fold unsubscribeChannel chs w)) = lastConnectedAt (w_ws w)"
  using assms
proof (induction chs arbitrary: w)
  case (Cons ch chs)
  let ?w = "unsubscribeChannel ch w"
  have "ws_reach ?w" using Cons.prems ws_step.page_unsubscribe by (rule ws_reach.step)
  moreover have "w_effect ?w = w_effect w" "lastConnectedAt (w_ws ?w) = lastConnectedAt (w_ws w)"
    by (auto simp: unsubscribeChannel_def client_unsubscribe_def Let_def ws_reduce.simps split: option.split)
  ultimately show ?case using Cons.IH by simp
qed simp

lemma releases_count:
  "ch \<noteq> [] \<Longrightarrow> ref_count (w_refs (fold unsubscribeChannel chs w)) ch
     = ref_count (w_refs w) ch - count_list chs ch"
proof (induction chs arbitrary: w)
  case (Cons c chs)
  show ?case
    using Cons channel_refs.count_unsub [of c w ch]
    by (cases "c = []") (simp_all add: unsubscribeChannel_def)
qed simp

lemma releases_idle:
  "w_instance w = None \<Longrightarrow>
     w_instance (fold unsubscribeChannel chs w) = None \<and> w_ws (fold unsubscribeChannel chs w) = w_ws w"
proof (induction chs arbitrary: w)
  case (Cons ch chs)
  then have "w_instance (unsubscribeChannel ch w) = None" "w_ws (unsubscribeChannel ch w) = w_ws w"
    by (simp_all add: unsubscribeChannel_def Let_def)
  then show ?case using Cons.IH by simp
qed simp

lemma no_counts_no_refs:
  assumes "refs_ok refs" and "\<And>ch. ch \<noteq> [] \<Longrightarrow> ref_count refs ch = 0"
  shows "refs = []"
proof (rule ccontr)
  assume "refs \<noteq> []"
  then obtain ch n rest where r: "refs = (ch, n) # rest" by (cases refs) auto
  then have "ch \<in> active refs" using active_refs [OF assms(1)] by simp
  moreover have "ch \<noteq> []" using assms(1) by (simp add: r refs_ok_def)
  ultimately show False using assms(2) [of ch] by (simp add: active_def)
qed

text \<open>
  C33. A logout ends everything. The token is cleared, \<open>RequireAuth\<close> takes the layout down, and
  React runs the cleanup of the hook and those of the mounted pages in some order: \<open>chs1\<close> are the channels
  released before the cleanup of the hook, \<open>chs2\<close> those released after it, and the pages release
  together what they hold. Then every client is closed for good, there is no singleton, no channel is
  counted, and the slice is as at the start but for the time of the last connection, so that a later login inherits no
  subscription and no message.
\<close>

theorem logout_ends_connection:
  assumes "ws_reach w" and "w_effect w = Some (Some t)" and "t \<noteq> []"
    and "\<forall>ch. ch \<noteq> [] \<longrightarrow> count_list (chs1 @ chs2) ch = ref_count (w_refs w) ch"
  shows "let v = fold unsubscribeChannel chs2
                   (unmount_effects (fold unsubscribeChannel chs1 (w\<lparr>w_user_token := None\<rparr>)))
         in w_instance v = None \<and> (\<forall>j < length (w_clients v). dead (client j v))
            \<and> w_refs v = []
            \<and> w_ws v = initial_ws_state\<lparr>lastConnectedAt := lastConnectedAt (w_ws w)\<rparr>"
proof -
  let ?u = "fold unsubscribeChannel chs1 (w\<lparr>w_user_token := None\<rparr>)"
  let ?m = "unmount_effects ?u"
  let ?v = "fold unsubscribeChannel chs2 ?m"
  have "ws_reach (w\<lparr>w_user_token := None\<rparr>)"
    using assms(1) ws_step.token_changes by (rule ws_reach.step)
  note u = releases_frame [OF this, of chs1]
  then have reach: "ws_reach ?m" using ws_step.layout_unmounts by (blast intro: ws_reach.step)
  have m: "w_instance ?m = None" "w_refs ?m = w_refs ?u"
    "w_ws ?m = initial_ws_state\<lparr>lastConnectedAt := lastConnectedAt (w_ws w)\<rparr>"
    using u assms(2,3)
    by (simp_all add: unmount_effects_def lifecycle_cleanup_def ws_reduce.simps initial_ws_state_def)
  have inv: "ws_inv ?v" using releases_frame [OF reach] ws_reach_inv by blast
  have idle: "w_instance ?v = None" "w_ws ?v = w_ws ?m" using releases_idle [OF m(1), of chs2] by simp_all
  have "w_refs ?v = []"
  proof (rule no_counts_no_refs)
    show "refs_ok (w_refs ?v)" using inv by (simp add: ws_inv_def)
    show "ref_count (w_refs ?v) ch = 0" if "ch \<noteq> []" for ch
      using assms(4) that by (simp add: releases_count m(2))
  qed
  then show ?thesis using idle inv m(3) by (simp add: Let_def ws_inv_None)
qed

theorem logout_ends_connection_witness:
  "w_refs (fold unsubscribeChannel [''task_progress'']
     (unmount_effects (fold unsubscribeChannel [''task_progress''] (demo_open\<lparr>w_user_token := None\<rparr>)))) = []"
  using logout_ends_connection [OF demo_reach(2) demo_open_eval(1), of "[''task_progress'']" "[''task_progress'']"]
  by (simp add: Let_def demo_open_eval(5) ref_count_def)

subsection \<open>Listeners of closed clients\<close>

text \<open>
  A closed client still writes the shared status: \<open>close\<close> does not detach the
  listeners, so when the close event of a replaced client arrives while the current client
  is already open, the status in the store becomes \<open>closed\<close> although the singleton stays
  open and subscribed.
\<close>

theorem stale_close_overwrites_status:
  assumes "ws_reach w" and "w_instance w = Some i" and "c_open (client i w)"
    and "j < length (w_clients w)" and "j \<noteq> i"
  shows "let v = sock_closes j code w
         in ws_reach v \<and> ws_status (w_ws v) = WClosed \<and> w_instance v = Some i
            \<and> c_open (client i v)
            \<and> requested (c_wire (client i v)) = {ch. 0 < ref_count (w_refs v) ch}"
proof -
  let ?v = "sock_closes j code w"
  have reach: "ws_reach ?v"
    using assms(1,4) by (intro ws_reach.step [OF assms(1)] ws_step.sock_close)
  have "dead (client j w)"
    using ws_reach_inv [OF assms(1)] assms(2,4,5) by (simp add: ws_inv_Some)
  then have eq: "?v = dispatch (SetStatus WClosed)
      (stopHeartbeat j (with_client j (\<lambda>c. c\<lparr>c_open := False\<rparr>) w))"
    using assms(4) by (simp add: sock_closes_def on_close_def dead_def)
  have "w_instance ?v = Some i" "c_open (client i ?v)"
    using assms(2,3,5) by (simp_all add: eq)
  then show ?thesis
    using reach reach_synced(3) [OF reach]
    by (simp add: Let_def synced_def active_def) (simp add: eq ws_reduce.simps)
qed

text \<open>The witness: the token changes, the new socket opens, then the old one reports its close.\<close>

definition demo_renewed :: ws_world where
  "demo_renewed = sock_opens 1 (run_effects (demo_open\<lparr>w_user_token := Some ''t2''\<rparr>))"

lemma demo_renewed_eval:
  "w_instance demo_renewed = Some 1" "c_open (client 1 demo_renewed)"
  "length (w_clients demo_renewed) = 2" "ws_status (w_ws demo_renewed) = WOpen"
  by code_simp+

lemma demo_renewed_reach: "ws_reach demo_renewed"
proof -
  note r = run_effects_login [OF demo_reach(2) demo_open_eval(2,1), of "''t2''"]
  then show ?thesis
    unfolding demo_renewed_def
    by (intro ws_reach.step [OF _ ws_step.sock_open]) (simp_all add: demo_open_eval(3))
qed

theorem stale_close_overwrites_status_witness:
  "ws_status (w_ws demo_renewed) = WOpen
   \<and> ws_status (w_ws (sock_closes 0 1000 demo_renewed)) = WClosed
   \<and> c_open (client 1 (sock_closes 0 1000 demo_renewed))"
  using stale_close_overwrites_status [OF demo_renewed_reach demo_renewed_eval(1,2), of 0 1000]
  by (simp add: Let_def demo_renewed_eval(3,4))

lemma protocol_client_ops [simp]:
  "c_protocol (client j (with_client i f w)) =
     (if j = i \<and> i < length (w_clients w) then c_protocol (f (client i w))
      else c_protocol (client j w))"
  by (auto simp: with_client_def client_def list_update_beyond)

lemma protocol_sendRaw [simp]: "c_protocol (client j (sendRaw i a w)) = c_protocol (client j w)"
  by (auto simp: sendRaw_def split: client_action.splits)

lemma protocol_simple_ops [simp]:
  "c_protocol (client j (stopHeartbeat i w)) = c_protocol (client j w)"
  "c_protocol (client j (rws_close i w)) = c_protocol (client j w)"
  "c_protocol (client j (client_subscribe i ch w)) = c_protocol (client j w)"
  "c_protocol (client j (client_unsubscribe i ch w)) = c_protocol (client j w)"
  "c_protocol (client j (heartbeat_tick i w)) = c_protocol (client j w)"
  "c_protocol (client j (client_close i w)) = c_protocol (client j w)"
  by (simp_all add: stopHeartbeat_def rws_close_def client_subscribe_def client_unsubscribe_def
      heartbeat_tick_def client_close_def Let_def)

lemma protocol_fold [simp]:
  "c_protocol (client j (fold (restore_one i) refs w)) = c_protocol (client j w)"
  "c_protocol (client j (fold (\<lambda>ch. sendRaw i (ActSubscribe ch)) chs w)) = c_protocol (client j w)"
  by (induction refs arbitrary: w, simp_all add: restore_one_def split: prod.split)
    (induction chs arbitrary: w, simp_all)

lemma protocol_listeners [simp]:
  "c_protocol (client j (sock_opens i w)) = c_protocol (client j w)"
  "c_protocol (client j (sock_closes i code w)) = c_protocol (client j w)"
  by (simp_all add: sock_opens_def sock_closes_def on_open_def on_close_def startHeartbeat_def
      Let_def flip: restore_one_def)

lemma protocol_disconnect [simp]:
  "c_protocol (client j (disconnectWebSocket w)) = c_protocol (client j w)"
  by (simp add: disconnectWebSocket_def split: option.split)

lemma protocol_connect:
  assumes "j < length (w_clients w)"
  shows "c_protocol (client j (connectWebSocket tok w)) = c_protocol (client j w)"
  using assms install_clients(2) [of j "(client_close i w)\<lparr>w_instance := None\<rparr>" tok for i]
  by (auto simp: connectWebSocket_def install_clients split: option.split)

lemma protocol_effects:
  assumes "j < length (w_clients w)"
  shows "c_protocol (client j (run_effects w)) = c_protocol (client j w)"
    and "c_protocol (client j (unmount_effects w)) = c_protocol (client j w)"
proof -
  have cleanup: "c_protocol (client j (lifecycle_cleanup t v)) = c_protocol (client j v)"
    "length (w_clients (lifecycle_cleanup t v)) = length (w_clients v)" for t v
    by (simp_all add: lifecycle_cleanup_def)
  show "c_protocol (client j (run_effects w)) = c_protocol (client j w)"
    using assms
    by (auto simp: run_effects_def lifecycle_effect_def resetChannelRefs_def Let_def cleanup
        protocol_connect split: option.split)
  show "c_protocol (client j (unmount_effects w)) = c_protocol (client j w)"
    by (simp add: unmount_effects_def cleanup split: option.split)
qed

lemma protocol_pages [simp]:
  "c_protocol (client j (subscribeChannel ch w)) = c_protocol (client j w)"
  "c_protocol (client j (unsubscribeChannel ch w)) = c_protocol (client j w)"
  by (simp_all add: subscribeChannel_def unsubscribeChannel_def Let_def split: option.split)

text \<open>
  The token of a client's handshake is fixed when the client is made: no step changes the
  protocol string of an existing client. So a reconnect of the same client after the token
  in the store has changed presents the old token again; only a new client presents the new
  one.
\<close>

theorem handshake_token_fixed:
  assumes "ws_step w w'" and "j < length (w_clients w)"
  shows "c_protocol (client j w') = c_protocol (client j w)"
  using assms
  by (induction rule: ws_step.induct)
    (simp_all add: protocol_effects on_error_def handleMessage_def Let_def
      split: raw_frame.split option.split)

theorem handshake_token_fixed_witness:
  "c_protocol (client 0 (demo_open\<lparr>w_user_token := Some ''t2''\<rparr>)) = c_protocol (client 0 demo_open)"
proof -
  have "0 < length (w_clients demo_open)" by (simp add: demo_open_eval)
  then show ?thesis by (rule handshake_token_fixed [OF ws_step.token_changes])
qed

end
