(* ===== verification/HttpClient.thy ===== *)
theory HttpClient
  imports Store UriCodec
begin

section \<open>The HTTP client\<close>

text \<open>
  \<open>app/services/request.ts\<close>: the two axios interceptors with the single-flight token
  refresh, the error toasts, and \<open>download\<close>; and \<open>axiosBaseQuery.ts\<close>. An asynchronous
  function is cut at its \<open>await\<close>s: a request is sent and its response is a later step, the
  interceptor of a 401 waits for the refresh, and the reply to the refresh resumes every
  waiting interceptor in the order in which it started to wait. The network, axios and the
  browser are the environment of the steps. The API caches of the root store play no part
  here, so their type is \<open>unit\<close>.
\<close>

subsection \<open>Configurations, errors and state\<close>

record axios_config =
  cfg_url :: string
  cfg_blob :: bool
  cfg_retried :: bool
  cfg_authorization :: "string option"
  cfg_trace_id :: "string option"

record error_data =
  ed_message :: "string option"
  ed_msg :: "string option"
  ed_error :: "string option"
  ed_trace_id :: "string option"

record axios_response =
  rs_status :: int
  rs_data :: "error_data option"

record axios_error =
  ae_code :: "string option"
  ae_name :: string
  ae_message :: string
  ae_response :: "axios_response option"
  ae_config :: "axios_config option"

datatype outcome = Resolved | Rejected axios_error

record http_state =
  h_store :: "unit root_state"
  h_dispatch :: bool
  h_pathname :: string
  h_search :: string
  h_href :: "string option"
  h_toasts :: "string list"
  h_debug :: "string list"
  h_refreshInFlight :: bool
  h_waiting :: "(nat \<times> axios_error) list"
  h_pending :: "(nat \<times> axios_config) list"
  h_done :: "(nat \<times> outcome) list"
  h_sent :: "(nat \<times> axios_config) list"
  h_refresh_calls :: nat
  h_refresh_replies :: nat
  h_next :: nat

text \<open>
  \<open>h_dispatch\<close> says whether \<open>setDispatch\<close> was called. \<open>h_href\<close> is the navigation asked
  for by assigning \<open>location.href\<close>. \<open>h_sent\<close> logs every request handed to the network,
  \<open>h_refresh_calls\<close> and \<open>h_refresh_replies\<close> count the refresh posts and their replies.
\<close>

abbreviation h_ls :: "http_state \<Rightarrow> storage" where
  "h_ls st \<equiv> r_ls (h_store st)"

definition on_store :: "(unit root_state \<Rightarrow> unit root_state) \<Rightarrow> http_state \<Rightarrow> http_state" where
  "on_store f st = st\<lparr>h_store := f (h_store st)\<rparr>"

definition dispatch_user :: "user_action \<Rightarrow> http_state \<Rightarrow> http_state" where
  "dispatch_user a = on_store (store_dispatch (\<lambda>_ (_::unit) c. c) (\<lambda>_. ()) [] (UserAct a))"

definition dispatch_app :: "app_action \<Rightarrow> http_state \<Rightarrow> http_state" where
  "dispatch_app a = on_store (store_dispatch (\<lambda>_ (_::unit) c. c) (\<lambda>_. ()) [] (AppAct a))"

definition on_ls :: "(storage \<Rightarrow> storage) \<Rightarrow> http_state \<Rightarrow> http_state" where
  "on_ls f = on_store (\<lambda>s. s\<lparr>r_ls := f (r_ls s)\<rparr>)"

definition toast :: "string \<Rightarrow> http_state \<Rightarrow> http_state" where
  "toast t st = st\<lparr>h_toasts := h_toasts st @ [t]\<rparr>"

definition setDispatch :: "http_state \<Rightarrow> http_state" where
  "setDispatch st = st\<lparr>h_dispatch := True\<rparr>"

subsection \<open>Texts\<close>

definition txt_bad_credentials :: string where
  "txt_bad_credentials = [CHR 0xE7, CHR 0x94, CHR 0xA8, CHR 0xE6, CHR 0x88, CHR 0xB7, CHR 0xE5, CHR 0x90,
      CHR 0x8D, CHR 0xE6, CHR 0x88, CHR 0x96, CHR 0xE5, CHR 0xAF, CHR 0x86, CHR 0xE7,
      CHR 0xA0, CHR 0x81, CHR 0xE9, CHR 0x94, CHR 0x99, CHR 0xE8, CHR 0xAF, CHR 0xAF]"

definition txt_forbidden :: string where "txt_forbidden = [CHR 0xE6, CHR 0x97, CHR 0xA0, CHR 0xE6, CHR 0x9D, CHR 0x83, CHR 0xE9, CHR 0x99,
      CHR 0x90, CHR 0xE8, CHR 0xAE, CHR 0xBF, CHR 0xE9, CHR 0x97, CHR 0xAE]"

definition txt_not_found :: string where "txt_not_found = [CHR 0xE8, CHR 0xB5, CHR 0x84, CHR 0xE6, CHR 0xBA, CHR 0x90, CHR 0xE4, CHR 0xB8,
      CHR 0x8D, CHR 0xE5, CHR 0xAD, CHR 0x98, CHR 0xE5, CHR 0x9C, CHR 0xA8]"

definition txt_server_error :: string where "txt_server_error = [CHR 0xE6, CHR 0x9C, CHR 0x8D, CHR 0xE5, CHR 0x8A, CHR 0xA1, CHR 0xE5, CHR 0x99,
      CHR 0xA8, CHR 0xE5, CHR 0x86, CHR 0x85, CHR 0xE9, CHR 0x83, CHR 0xA8, CHR 0xE9,
      CHR 0x94, CHR 0x99, CHR 0xE8, CHR 0xAF, CHR 0xAF]"

definition txt_request_failed :: string where "txt_request_failed = [CHR 0xE8, CHR 0xAF, CHR 0xB7, CHR 0xE6, CHR 0xB1, CHR 0x82, CHR 0xE5, CHR 0xA4,
      CHR 0xB1, CHR 0xE8, CHR 0xB4, CHR 0xA5]"

definition txt_download_failed :: string where "txt_download_failed = [CHR 0xE4, CHR 0xB8, CHR 0x8B, CHR 0xE8, CHR 0xBD, CHR 0xBD, CHR 0xE5, CHR 0xA4,
      CHR 0xB1, CHR 0xE8, CHR 0xB4, CHR 0xA5]"

subsection \<open>Helpers of the interceptors\<close>

definition getToken :: "storage \<Rightarrow> string option" where
  "getToken ls = ls_get ls ''token''"

definition isCanceled :: "axios_error \<Rightarrow> bool" where
  "isCanceled e \<longleftrightarrow> ae_code e = Some ''ERR_CANCELED'' \<or> ae_name e = ''CanceledError''
     \<or> ae_message e = ''canceled''"

definition isAuthPath :: "string \<Rightarrow> bool" where
  "isAuthPath url \<longleftrightarrow> str_includes url ''/auth/login'' \<or> str_includes url ''/auth/refresh''
     \<or> str_includes url ''/auth/logout''"

definition handleUnauthorized :: "http_state \<Rightarrow> http_state" where
  "handleUnauthorized st =
     (let st1 = on_ls (ls_remove ''refresh_token'' \<circ> ls_remove ''token'') st;
          st2 = (if h_dispatch st1
                 then dispatch_app (SetSelectedClusterCode None) (dispatch_user Logout st1)
                 else st1)
      in if h_pathname st2 \<noteq> ''/login''
         then st2\<lparr>h_href := Some (''/login?redirect='' @
                       encodeURIComponent (h_pathname st2 @ h_search st2))\<rparr>
         else st2)"

definition err_status :: "axios_error \<Rightarrow> int option" where
  "err_status e = map_option rs_status (ae_response e)"

definition err_data :: "axios_error \<Rightarrow> error_data option" where
  "err_data e = Option.bind (ae_response e) rs_data"

definition err_url :: "axios_error \<Rightarrow> string" where
  "err_url e = (case ae_config e of None \<Rightarrow> [] | Some c \<Rightarrow> cfg_url c)"

definition status_text :: "int option \<Rightarrow> string" where
  "status_text s =
     (if s = Some 403 then txt_forbidden
      else if s = Some 404 then txt_not_found
      else if s = Some 500 then txt_server_error
      else txt_request_failed)"

definition error_text :: "axios_error \<Rightarrow> string" where
  "error_text e =
     (let d = err_data e
      in or_str (Option.bind d ed_message)
           (or_str (Option.bind d ed_msg)
             (or_str (Option.bind d ed_error) (status_text (err_status e)))))"

definition handleError :: "axios_error \<Rightarrow> http_state \<Rightarrow> http_state" where
  "handleError e st =
     (if isCanceled e then st
      else if err_status e = Some 401 then
        (if str_includes (err_url e) ''/auth/login'' \<or> str_includes (err_url e) ''/auth/refresh''
         then toast (or_str (Option.bind (err_data e) ed_message) txt_bad_credentials) st
         else handleUnauthorized st)
      else if (case ae_config e of None \<Rightarrow> False | Some c \<Rightarrow> cfg_blob c) then st
      else let errorMessage = error_text e;
               st1 = toast errorMessage st;
               tr = Option.bind (err_data e) ed_trace_id
           in if truthy tr
              then st1\<lparr>h_debug := h_debug st1 @
                     [''[trace_id='' @ the tr @ ''] '' @ errorMessage]\<rparr>
              else st1)"

subsection \<open>Sending a request\<close>

text \<open>The request interceptor; \<open>uuid\<close> is \<open>window.crypto?.randomUUID?.()\<close>.\<close>

definition request_interceptor :: "string option \<Rightarrow> storage \<Rightarrow> axios_config \<Rightarrow> axios_config" where
  "request_interceptor uuid ls config =
     (let token = getToken ls;
          c1 = (if truthy token
                then config\<lparr>cfg_authorization := Some (''Bearer '' @ the token)\<rparr> else config);
          traceId = (if truthy (cfg_trace_id c1) then cfg_trace_id c1 else uuid)
      in if truthy traceId then c1\<lparr>cfg_trace_id := traceId\<rparr> else c1)"

definition send_request :: "string option \<Rightarrow> nat \<Rightarrow> axios_config \<Rightarrow> http_state \<Rightarrow> http_state" where
  "send_request uuid i config st =
     (let c = request_interceptor uuid (h_ls st) config
      in st\<lparr>h_pending := h_pending st @ [(i, c)], h_sent := h_sent st @ [(i, c)]\<rparr>)"

definition settle :: "nat \<Rightarrow> outcome \<Rightarrow> http_state \<Rightarrow> http_state" where
  "settle i out st = st\<lparr>h_done := h_done st @ [(i, out)]\<rparr>"

subsection \<open>The token refresh\<close>

text \<open>The refresh token to post, if there is a usable one.\<close>

definition refresh_token_to_send :: "storage \<Rightarrow> string option" where
  "refresh_token_to_send ls =
     (case ls_get ls ''refresh_token'' of
        None \<Rightarrow> None
      | Some rt \<Rightarrow> if rt = [] \<or> rt = ''undefined'' \<or> rt = ''null'' then None else Some rt)"

record refresh_data =
  rd_access_token :: "string option"
  rd_refresh_token :: "string option"

text \<open>The reply to the post: the optional \<open>data\<close> of the envelope, or a failure.\<close>

datatype refresh_reply = RefreshReply "refresh_data option" | RefreshFails

definition store_new_tokens :: "string \<Rightarrow> string option \<Rightarrow> http_state \<Rightarrow> http_state" where
  "store_new_tokens access refresh st =
     (let st1 = on_ls (ls_set ''token'' access) st;
          st2 = (if truthy refresh then on_ls (ls_set ''refresh_token'' (the refresh)) st1 else st1)
      in if h_dispatch st2
         then let st3 = dispatch_user (SetToken (Some access)) st2
              in if truthy refresh then dispatch_user (SetRefreshToken refresh) st3 else st3
         else st2)"

text \<open>
  \<open>refreshAccessToken\<close> after its \<open>await\<close>: the new access token, \<open>None\<close> for \<open>null\<close> and
  for a rejected promise, which the interceptor treats alike.
\<close>

definition refreshAccessToken_resumed ::
  "refresh_reply \<Rightarrow> http_state \<Rightarrow> string option \<times> http_state" where
  "refreshAccessToken_resumed reply st =
     (case reply of
        RefreshFails \<Rightarrow> (None, st)
      | RefreshReply data \<Rightarrow>
          (let access = Option.bind data rd_access_token
           in if \<not> truthy access then (None, st)
              else (access, store_new_tokens (the access) (Option.bind data rd_refresh_token) st)))"

text \<open>The response interceptor up to its \<open>await\<close>.\<close>

definition wants_refresh :: "axios_error \<Rightarrow> bool" where
  "wants_refresh e \<longleftrightarrow>
     err_status e = Some 401 \<and>
     (case ae_config e of None \<Rightarrow> False | Some c \<Rightarrow> \<not> cfg_retried c) \<and>
     \<not> isAuthPath (err_url e)"

definition on_response_error :: "nat \<Rightarrow> axios_error \<Rightarrow> http_state \<Rightarrow> http_state" where
  "on_response_error i e st =
     (if wants_refresh e then
        (if h_refreshInFlight st then st\<lparr>h_waiting := h_waiting st @ [(i, e)]\<rparr>
         else case refresh_token_to_send (h_ls st) of
                None \<Rightarrow> settle i (Rejected e) (handleError e st)
              | Some rt \<Rightarrow>
                  st\<lparr>h_refreshInFlight := True, h_refresh_calls := h_refresh_calls st + 1,
                     h_waiting := h_waiting st @ [(i, e)]\<rparr>)
      else settle i (Rejected e) (handleError e st))"

text \<open>The response interceptor after its \<open>await\<close>, with the value of the refresh.\<close>

definition resume :: "string option \<Rightarrow> string option \<Rightarrow> nat \<times> axios_error \<Rightarrow> http_state \<Rightarrow> http_state" where
  "resume uuid next w st =
     (case w of (i, e) \<Rightarrow>
        (case (truthy next, ae_config e) of
           (True, Some c) \<Rightarrow>
             send_request uuid i
               (c\<lparr>cfg_retried := True, cfg_authorization := Some (''Bearer '' @ the next)\<rparr>) st
         | _ \<Rightarrow> settle i (Rejected e) (handleError e st)))"

definition on_refresh_reply :: "string option \<Rightarrow> refresh_reply \<Rightarrow> http_state \<Rightarrow> http_state" where
  "on_refresh_reply uuid reply st =
     (let (next, st1) = refreshAccessToken_resumed reply st;
          waiters = h_waiting st1;
          st2 = st1\<lparr>h_refreshInFlight := False, h_waiting := [],
                    h_refresh_replies := h_refresh_replies st1 + 1\<rparr>
      in fold (resume uuid next) waiters st2)"

definition issue :: "string option \<Rightarrow> string \<Rightarrow> bool \<Rightarrow> http_state \<Rightarrow> http_state" where
  "issue uuid url blob st =
     send_request uuid (h_next st)
       \<lparr>cfg_url = url, cfg_blob = blob, cfg_retried = False, cfg_authorization = None,
        cfg_trace_id = None\<rparr> (st\<lparr>h_next := h_next st + 1\<rparr>)"

definition take_pending :: "nat \<Rightarrow> http_state \<Rightarrow> http_state" where
  "take_pending i st = st\<lparr>h_pending := filter (\<lambda>(j, _). j \<noteq> i) (h_pending st)\<rparr>"

subsection \<open>Downloads\<close>

text \<open>
  \<open>download\<close> after the \<open>await\<close> of its request. \<open>json_message\<close> is \<open>JSON.parse(text).message\<close>,
  \<open>None\<close> when it throws. A response is its content type and the text of its blob; an error
  comes with the text of its data when that is a \<open>Blob\<close>.
\<close>

datatype download_reply =
    DownloadOk "string option" string
  | DownloadErr axios_error "string option"

datatype download_outcome = Saved string string | Thrown string

definition download_settled ::
  "(string \<Rightarrow> string option option) \<Rightarrow> string \<Rightarrow> download_reply \<Rightarrow> http_state
    \<Rightarrow> download_outcome \<times> http_state" where
  "download_settled json_message filename r st =
     (case r of
        DownloadOk ctype txt \<Rightarrow>
          (if str_includes (or_str ctype []) ''application/json'' then
             (let st1 = (case json_message txt of
                           Some m \<Rightarrow> toast (or_str m txt_download_failed) st
                         | None \<Rightarrow> toast txt_download_failed st)
              in (Thrown ''download rejected'', toast txt_download_failed st1))
           else (Saved filename txt, st))
      | DownloadErr e blob \<Rightarrow>
          (if isCanceled e then (Thrown (ae_message e), st)
           else if err_status e = Some 401 then (Thrown (ae_message e), handleUnauthorized st)
           else case Option.bind blob json_message of
                  Some m \<Rightarrow> (Thrown (ae_message e), toast (or_str m txt_download_failed) st)
                | None \<Rightarrow> (Thrown (ae_message e), toast txt_download_failed st)))"

subsection \<open>The base query of the services\<close>

text \<open>
  \<open>axiosBaseQuery.ts\<close>. A body is an envelope (an object with a \<open>code\<close>) or any other value.
\<close>

record 'd envelope =
  env_code :: int
  env_message :: "string option"
  env_data :: 'd

datatype 'd body = EnvelopeBody "'d envelope" | RawBody 'd

datatype 'd error_body = EnvelopeError "'d envelope" | ResponseError "error_data option"

record 'd base_query_error =
  be_status :: "int option"
  be_data :: "'d error_body"
  be_message :: string

datatype 'd query_result = QueryData 'd | QueryError "'d base_query_error"

datatype 'd settled = Fulfilled int "'d body" | Failed axios_error

definition axiosBaseQuery :: "'d settled \<Rightarrow> 'd query_result" where
  "axiosBaseQuery r =
     (case r of
        Fulfilled http_status (EnvelopeBody env) \<Rightarrow>
          (if env_code env = 0 then QueryData (env_data env)
           else QueryError \<lparr>be_status = Some http_status, be_data = EnvelopeError env,
                  be_message = or_str (env_message env) ''Request failed''\<rparr>)
      | Fulfilled http_status (RawBody b) \<Rightarrow> QueryData b
      | Failed e \<Rightarrow>
          (let d = err_data e in
           QueryError \<lparr>be_status = err_status e, be_data = ResponseError d,
             be_message = or_str (Option.bind d ed_message)
               (or_str (Option.bind d ed_msg)
                 (or_str (Option.bind d ed_error)
                   (or_str (Some (ae_message e)) ''Request failed'')))\<rparr>))"

end
