(* ===== verification/HttpProofs.thy ===== *)
theory HttpProofs
  imports HttpClient "HOL-Library.Multiset"
begin

section \<open>Runs of the HTTP client\<close>

text \<open>
  The step relation of the interceptors, the invariant of every run, and the properties of
  the token refresh: it is single-flight, no request is lost or sent more than twice, and
  what a successful and a failed refresh do to the waiting requests and the session.
\<close>

subsection \<open>Steps\<close>

inductive http_step :: "http_state \<Rightarrow> http_state \<Rightarrow> bool" where
  issue: "http_step st (issue uuid url blob st)"
| response_ok: "(i, c) \<in> set (h_pending st) \<Longrightarrow>
    http_step st (settle i Resolved (take_pending i st))"
| response_error: "(i, c) \<in> set (h_pending st) \<Longrightarrow> ae_config e = Some c \<Longrightarrow>
    http_step st (on_response_error i e (take_pending i st))"
| refresh_reply: "h_refreshInFlight st \<Longrightarrow> http_step st (on_refresh_reply uuid reply st)"
| user_action: "http_step st (dispatch_user a st)"
| navigate: "http_step st (st\<lparr>h_pathname := p, h_search := q\<rparr>)"

definition http_start :: "storage \<Rightarrow> string \<Rightarrow> string \<Rightarrow> http_state" where
  "http_start ls p q =
     \<lparr>h_store = initial_root_state (\<lambda>_. ()) ls, h_dispatch = True, h_pathname = p, h_search = q,
      h_href = None, h_toasts = [], h_debug = [], h_refreshInFlight = False, h_waiting = [],
      h_pending = [], h_done = [], h_sent = [], h_refresh_calls = 0, h_refresh_replies = 0,
      h_next = 0\<rparr>"

inductive http_reach :: "http_state \<Rightarrow> bool" where
  start: "http_reach (http_start ls p q)"
| step: "http_reach st \<Longrightarrow> http_step st st' \<Longrightarrow> http_reach st'"

subsection \<open>What the handlers leave alone\<close>

text \<open>The bookkeeping of the requests, which the session and the toasts never touch.\<close>

definition books :: "http_state \<Rightarrow> bool \<times> (nat \<times> axios_error) list \<times> (nat \<times> axios_config) list
    \<times> (nat \<times> outcome) list \<times> (nat \<times> axios_config) list \<times> nat \<times> nat \<times> nat" where
  "books st = (h_refreshInFlight st, h_waiting st, h_pending st, h_done st, h_sent st,
     h_refresh_calls st, h_refresh_replies st, h_next st)"

lemma books_frame [simp]:
  "books (on_store f st) = books st" "books (toast t st) = books st"
  "books (st\<lparr>h_href := u\<rparr>) = books st" "books (st\<lparr>h_debug := d\<rparr>) = books st"
  "books (st\<lparr>h_pathname := p, h_search := q\<rparr>) = books st"
  by (simp_all add: books_def on_store_def toast_def)

lemma books_session [simp]:
  "books (dispatch_user a st) = books st" "books (dispatch_app b st) = books st"
  "books (on_ls g st) = books st"
  by (simp_all add: dispatch_user_def dispatch_app_def on_ls_def)

lemma books_unauthorized [simp]: "books (handleUnauthorized st) = books st"
  by (simp add: handleUnauthorized_def Let_def)

lemma books_handleError [simp]: "books (handleError e st) = books st"
  by (simp add: handleError_def Let_def)

lemma books_store_new_tokens [simp]: "books (store_new_tokens a r st) = books st"
  by (simp add: store_new_tokens_def Let_def)

lemma books_resumed [simp]: "books (snd (refreshAccessToken_resumed reply st)) = books st"
  by (simp add: refreshAccessToken_resumed_def Let_def split: refresh_reply.split)

lemmas books_fields = books_def prod.inject

lemma handler_fields [simp]:
  "h_waiting (handleError e st) = h_waiting st" "h_pending (handleError e st) = h_pending st"
  "h_done (handleError e st) = h_done st" "h_sent (handleError e st) = h_sent st"
  "h_refreshInFlight (handleError e st) = h_refreshInFlight st"
  "h_refresh_calls (handleError e st) = h_refresh_calls st"
  "h_refresh_replies (handleError e st) = h_refresh_replies st"
  "h_next (handleError e st) = h_next st"
  using books_handleError [of e st] by (simp_all add: books_fields)

subsection \<open>Resuming the waiting interceptors\<close>

definition resent :: "string option \<Rightarrow> storage \<Rightarrow> string \<Rightarrow> nat \<times> axios_error \<Rightarrow> nat \<times> axios_config" where
  "resent uuid ls t w =
     (fst w, request_interceptor uuid ls ((the (ae_config (snd w)))
        \<lparr>cfg_retried := True, cfg_authorization := Some (''Bearer '' @ t)\<rparr>))"

lemma resume_success:
  assumes "t \<noteq> []" and "\<forall>w \<in> set ws. ae_config (snd w) \<noteq> None"
  shows "fold (resume uuid (Some t)) ws st =
    st\<lparr>h_pending := h_pending st @ map (resent uuid (h_ls st) t) ws,
       h_sent := h_sent st @ map (resent uuid (h_ls st) t) ws\<rparr>"
  using assms(2)
proof (induction ws arbitrary: st)
  case Nil
  then show ?case by simp
next
  case (Cons w ws)
  obtain i e where w: "w = (i, e)" by (cases w)
  with Cons.prems obtain c where c: "ae_config e = Some c" by auto
  have "resume uuid (Some t) w st =
      st\<lparr>h_pending := h_pending st @ [resent uuid (h_ls st) t w],
         h_sent := h_sent st @ [resent uuid (h_ls st) t w]\<rparr>"
    using assms(1) by (simp add: resume_def w c send_request_def resent_def Let_def)
  with Cons show ?case by simp
qed

lemma resume_failure:
  assumes "\<not> truthy next"
  shows "let st' = fold (resume uuid next) ws st
    in h_done st' = h_done st @ map (\<lambda>(i, e). (i, Rejected e)) ws
       \<and> h_waiting st' = h_waiting st \<and> h_pending st' = h_pending st \<and> h_sent st' = h_sent st
       \<and> h_refreshInFlight st' = h_refreshInFlight st \<and> h_refresh_calls st' = h_refresh_calls st
       \<and> h_refresh_replies st' = h_refresh_replies st \<and> h_next st' = h_next st"
proof (induction ws arbitrary: st)
  case Nil
  then show ?case by (simp add: Let_def)
next
  case (Cons w ws)
  obtain i e where w: "w = (i, e)" by (cases w)
  have "resume uuid next w st = settle i (Rejected e) (handleError e st)"
    using assms by (simp add: resume_def w)
  with Cons [of "settle i (Rejected e) (handleError e st)"] show ?case
    by (simp add: Let_def w settle_def)
qed

subsection \<open>The invariant\<close>

definition sends :: "http_state \<Rightarrow> nat \<Rightarrow> nat" where
  "sends st i = count (mset (map fst (h_sent st))) i"

definition ids :: "http_state \<Rightarrow> nat multiset" where
  "ids st = mset (map fst (h_pending st)) + mset (map fst (h_waiting st))
     + mset (map fst (h_done st))"

definition pending_ok :: "(nat \<Rightarrow> nat) \<Rightarrow> nat \<times> axios_config \<Rightarrow> bool" where
  "pending_ok f p \<longleftrightarrow> f (fst p) = (if cfg_retried (snd p) then 2 else 1)"

definition waiting_ok :: "(nat \<Rightarrow> nat) \<Rightarrow> nat \<times> axios_error \<Rightarrow> bool" where
  "waiting_ok f w \<longleftrightarrow> f (fst w) = 1 \<and> wants_refresh (snd w)"

definition done_ok :: "(nat \<Rightarrow> nat) \<Rightarrow> nat \<times> outcome \<Rightarrow> bool" where
  "done_ok f d \<longleftrightarrow> 1 \<le> f (fst d) \<and> f (fst d) \<le> 2"

definition http_inv :: "http_state \<Rightarrow> bool" where
  "http_inv st \<longleftrightarrow>
     (h_refreshInFlight st \<longleftrightarrow> h_waiting st \<noteq> []) \<and>
     h_refresh_calls st = h_refresh_replies st + (if h_refreshInFlight st then 1 else 0) \<and>
     ids st = mset [0..<h_next st] \<and>
     list_all (pending_ok (sends st)) (h_pending st) \<and>
     list_all (waiting_ok (sends st)) (h_waiting st) \<and>
     list_all (done_ok (sends st)) (h_done st) \<and>
     (\<forall>i \<ge> h_next st. sends st i = 0)"

lemma sends_frame [simp]:
  "sends (st\<lparr>h_waiting := ws\<rparr>) = sends st" "sends (st\<lparr>h_pending := ps\<rparr>) = sends st"
  "sends (st\<lparr>h_done := ds\<rparr>) = sends st" "sends (st\<lparr>h_refreshInFlight := b\<rparr>) = sends st"
  "sends (st\<lparr>h_refresh_calls := n\<rparr>) = sends st" "sends (st\<lparr>h_refresh_replies := n\<rparr>) = sends st"
  "sends (st\<lparr>h_next := n\<rparr>) = sends st"
  by (simp_all add: sends_def fun_eq_iff)

lemma sends_cong: "books st' = books st \<Longrightarrow> sends st' = sends st"
  by (simp add: books_fields sends_def fun_eq_iff)

lemma http_inv_cong: "books st' = books st \<Longrightarrow> http_inv st' = http_inv st"
  using sends_cong [of st' st] by (simp add: http_inv_def books_fields ids_def)

lemma http_invD:
  assumes "http_inv st"
  shows "h_refreshInFlight st \<longleftrightarrow> h_waiting st \<noteq> []"
    and "h_refresh_calls st = h_refresh_replies st + (if h_refreshInFlight st then 1 else 0)"
    and "ids st = mset [0..<h_next st]"
    and "list_all (pending_ok (sends st)) (h_pending st)"
    and "list_all (waiting_ok (sends st)) (h_waiting st)"
    and "list_all (done_ok (sends st)) (h_done st)"
    and "i \<ge> h_next st \<Longrightarrow> sends st i = 0"
  using assms unfolding http_inv_def by blast+

lemma ok_cong:
  "list_all (pending_ok f) ps \<Longrightarrow> (\<And>i c. (i, c) \<in> set ps \<Longrightarrow> g i = f i) \<Longrightarrow> list_all (pending_ok g) ps"
  "list_all (waiting_ok f) ws \<Longrightarrow> (\<And>i e. (i, e) \<in> set ws \<Longrightarrow> g i = f i) \<Longrightarrow> list_all (waiting_ok g) ws"
  "list_all (done_ok f) ds \<Longrightarrow> (\<And>i d. (i, d) \<in> set ds \<Longrightarrow> g i = f i) \<Longrightarrow> list_all (done_ok g) ds"
  by (fastforce simp: list_all_iff pending_ok_def waiting_ok_def done_ok_def)+

lemma http_inv_start: "http_inv (http_start ls p q)"
  by (simp add: http_inv_def http_start_def ids_def sends_def)

lemma ids_bound:
  assumes "http_inv st"
  shows "(i, c) \<in> set (h_pending st) \<Longrightarrow> i < h_next st"
    and "(i, e) \<in> set (h_waiting st) \<Longrightarrow> i < h_next st"
    and "(i, out) \<in> set (h_done st) \<Longrightarrow> i < h_next st"
proof -
  have "set_mset (ids st) = {0..<h_next st}"
    using assms by (simp add: http_inv_def)
  then have "fst ` set (h_pending st) \<union> fst ` set (h_waiting st) \<union> fst ` set (h_done st)
      = {0..<h_next st}"
    by (simp add: ids_def Un_assoc)
  then show "(i, c) \<in> set (h_pending st) \<Longrightarrow> i < h_next st"
    and "(i, e) \<in> set (h_waiting st) \<Longrightarrow> i < h_next st"
    and "(i, out) \<in> set (h_done st) \<Longrightarrow> i < h_next st"
    by force+
qed

lemma distinct_pending: "http_inv st \<Longrightarrow> distinct (map fst (h_pending st))"
proof -
  assume "http_inv st"
  then have "mset (map fst (h_pending st)) \<subseteq># mset [0..<h_next st]"
    unfolding http_inv_def ids_def by (metis mset_subset_eq_add_left subset_mset.order_trans
        subset_mset.add_increasing2 subset_mset.le_add_same_cancel1 subset_mset.zero_le)
  then have "count (mset (map fst (h_pending st))) i \<le> 1" for i
    using mset_subset_eq_count [of _ "mset [0..<h_next st]" i] distinct_count_atmost_1 [of "[0..<h_next st]"]
    by (metis distinct_upt le_refl linorder_le_cases order_trans zero_le_one)
  then show ?thesis
    by (metis count_eq_zero_iff distinct_count_atmost_1 le_antisym less_one linorder_not_le set_mset_mset)
qed

lemma mset_take_pending:
  assumes "distinct (map fst xs)" and "(i, c) \<in> set xs"
  shows "mset (map fst xs) = add_mset i (mset (map fst (filter (\<lambda>(j, _). j \<noteq> i) xs)))"
  using assms
proof (induction xs)
  case Nil
  then show ?case by simp
next
  case (Cons x xs)
  show ?case
  proof (cases "fst x = i")
    case True
    with Cons.prems have "i \<notin> fst ` set xs" by auto
    then have "filter (\<lambda>(j, _). j \<noteq> i) xs = xs"
      by (force simp: filter_id_conv)
    with True show ?thesis by (cases x) simp
  next
    case False
    with Cons show ?thesis by (cases x) auto
  qed
qed


lemma fst_take_pending: "j \<in> fst ` set (filter (\<lambda>(k, _). k \<noteq> i) xs) \<longleftrightarrow> j \<noteq> i \<and> j \<in> fst ` set xs"
  by force

text \<open>A request that gets its answer: the invariant with that one request taken out.\<close>

definition taken :: "nat \<Rightarrow> axios_config \<Rightarrow> http_state \<Rightarrow> bool" where
  "taken i c st \<longleftrightarrow>
     (h_refreshInFlight st \<longleftrightarrow> h_waiting st \<noteq> []) \<and>
     h_refresh_calls st = h_refresh_replies st + (if h_refreshInFlight st then 1 else 0) \<and>
     add_mset i (ids st) = mset [0..<h_next st] \<and>
     sends st i = (if cfg_retried c then 2 else 1) \<and>
     list_all (pending_ok (sends st)) (h_pending st) \<and>
     list_all (waiting_ok (sends st)) (h_waiting st) \<and>
     list_all (done_ok (sends st)) (h_done st) \<and>
     (\<forall>j \<ge> h_next st. sends st j = 0)"

lemma taken_cong: "books st' = books st \<Longrightarrow> taken i c st' = taken i c st"
  using sends_cong [of st' st] by (simp add: taken_def books_fields ids_def)

lemma take_pending_taken:
  assumes "http_inv st" and "(i, c) \<in> set (h_pending st)"
  shows "taken i c (take_pending i st)"
proof -
  have "mset (map fst (h_pending st))
      = add_mset i (mset (map fst (filter (\<lambda>(j, _). j \<noteq> i) (h_pending st))))"
    using mset_take_pending [OF distinct_pending [OF assms(1)] assms(2)] .
  then have "ids st = add_mset i (ids (take_pending i st))"
    by (simp add: ids_def take_pending_def)
  moreover have "sends (take_pending i st) = sends st" by (simp add: take_pending_def)
  ultimately show ?thesis
    using assms by (auto simp: http_inv_def taken_def take_pending_def list_all_iff pending_ok_def
        simp del: mset_upt)
qed

lemma taken_settle:
  assumes "taken i c st"
  shows "http_inv (settle i out st)"
proof -
  have d: "done_ok (sends st) (i, out)"
    using assms by (auto simp: taken_def done_ok_def simp del: mset_upt split: if_splits)
  have s: "sends (settle i out st) = sends st" by (simp add: settle_def)
  have m: "ids (settle i out st) = add_mset i (ids st)" by (simp add: ids_def settle_def)
  show ?thesis
    unfolding http_inv_def s m using assms d unfolding taken_def
    by (simp add: settle_def del: mset_upt)
qed

lemma taken_handleError: "taken i c st \<Longrightarrow> http_inv (settle i out (handleError e st))"
  by (rule taken_settle [of i c]) (simp only: taken_cong [OF books_handleError])

lemma taken_response_error:
  assumes "taken i c st" and "ae_config e = Some c"
  shows "http_inv (on_response_error i e st)"
proof (cases "wants_refresh e \<and> (h_refreshInFlight st \<or> refresh_token_to_send (h_ls st) \<noteq> None)")
  case True
  then have "\<not> cfg_retried c" using assms(2) by (simp add: wants_refresh_def)
  then show ?thesis
    using True assms(1)
    by (cases "h_refreshInFlight st")
      (auto simp: on_response_error_def taken_def http_inv_def ids_def waiting_ok_def
        simp del: mset_upt)
next
  case False
  then show ?thesis
    using taken_handleError [OF assms(1)] by (auto simp: on_response_error_def)
qed

subsection \<open>The reply to the refresh\<close>

lemma fst_resent [simp]: "fst (resent uuid ls t w) = fst w" "fst \<circ> resent uuid ls t = fst"
  by (simp_all add: resent_def fun_eq_iff)

lemma resent_fst: "map fst (map (resent uuid ls t) ws) = map fst ws"
  by (simp add: resent_def)

lemma request_interceptor_retried [simp]:
  "cfg_retried (request_interceptor uuid ls c) = cfg_retried c"
  by (simp add: request_interceptor_def Let_def)

lemma count_map_fst_nz: "count (mset (map fst xs)) i \<noteq> 0 \<longleftrightarrow> i \<in> fst ` set xs"
  by (induction xs) auto

lemma count_ids_le:
  assumes "http_inv st"
  shows "count (ids st) i \<le> 1"
proof -
  have "ids st = mset [0..<h_next st]" using assms by (simp add: http_inv_def del: mset_upt)
  then show ?thesis by (simp add: count_mset_set')
qed

lemma waiting_once:
  assumes "http_inv st" and "i \<in> fst ` set (h_waiting st)"
  shows "count (mset (map fst (h_waiting st))) i = 1" and "i \<notin> fst ` set (h_pending st)"
    and "i \<notin> fst ` set (h_done st)"
proof -
  have w: "count (mset (map fst (h_waiting st))) i \<noteq> 0"
    using assms(2) by (simp only: count_map_fst_nz not_False_eq_True)
  have sum: "count (mset (map fst (h_pending st))) i + count (mset (map fst (h_waiting st))) i
      + count (mset (map fst (h_done st))) i \<le> 1"
    using count_ids_le [OF assms(1), of i] by (simp only: ids_def count_union)
  from w sum show "count (mset (map fst (h_waiting st))) i = 1" by linarith
  from w sum have "count (mset (map fst (h_pending st))) i = 0" by linarith
  then show "i \<notin> fst ` set (h_pending st)" using count_map_fst_nz [of "h_pending st" i] by simp
  from w sum have "count (mset (map fst (h_done st))) i = 0" by linarith
  then show "i \<notin> fst ` set (h_done st)" using count_map_fst_nz [of "h_done st" i] by simp
qed

lemma wants_refresh_config: "wants_refresh e \<Longrightarrow> \<exists>c. ae_config e = Some c \<and> \<not> cfg_retried c"
  by (cases "ae_config e") (simp_all add: wants_refresh_def)

lemma waiting_config:
  assumes "http_inv st"
  shows "\<forall>w \<in> set (h_waiting st). ae_config (snd w) \<noteq> None"
proof
  fix w assume "w \<in> set (h_waiting st)"
  moreover have "list_all (waiting_ok (sends st)) (h_waiting st)"
    using assms unfolding http_inv_def by blast
  ultimately have "wants_refresh (snd w)" by (simp add: list_all_iff waiting_ok_def)
  then show "ae_config (snd w) \<noteq> None" using wants_refresh_config by fastforce
qed

text \<open>The state the waiting interceptors resume in.\<close>

definition refreshed :: "refresh_reply \<Rightarrow> http_state \<Rightarrow> http_state" where
  "refreshed reply st = (snd (refreshAccessToken_resumed reply st))
     \<lparr>h_refreshInFlight := False, h_waiting := [], h_refresh_replies := h_refresh_replies st + 1\<rparr>"

lemma refreshed_fields [simp]:
  "h_waiting (refreshed reply st) = []" "h_pending (refreshed reply st) = h_pending st"
  "h_done (refreshed reply st) = h_done st" "h_sent (refreshed reply st) = h_sent st"
  "h_refreshInFlight (refreshed reply st) = False"
  "h_refresh_calls (refreshed reply st) = h_refresh_calls st"
  "h_refresh_replies (refreshed reply st) = h_refresh_replies st + 1"
  "h_next (refreshed reply st) = h_next st"
  using books_resumed [of reply st] by (simp_all add: refreshed_def books_fields)

lemma on_refresh_reply_refreshed:
  "fst (refreshAccessToken_resumed reply st) = new \<Longrightarrow>
   on_refresh_reply uuid reply st = fold (resume uuid new) (h_waiting st) (refreshed reply st)"
  using books_resumed [of reply st]
  by (simp add: on_refresh_reply_def refreshed_def split_beta Let_def books_fields)

lemma reply_success:
  assumes "http_inv st" and "fst (refreshAccessToken_resumed reply st) = Some t" and "t \<noteq> []"
  shows "on_refresh_reply uuid reply st =
    (let R = map (resent uuid (h_ls (refreshed reply st)) t) (h_waiting st)
     in (refreshed reply st)\<lparr>h_pending := h_pending st @ R, h_sent := h_sent st @ R\<rparr>)"
  using resume_success [OF assms(3) waiting_config [OF assms(1)], of uuid "refreshed reply st"]
    on_refresh_reply_refreshed [OF assms(2), of uuid]
  by (simp add: Let_def)

lemma reply_failure:
  assumes "\<not> truthy (fst (refreshAccessToken_resumed reply st))"
  shows "books (on_refresh_reply uuid reply st) =
    (False, [], h_pending st, h_done st @ map (\<lambda>(i, e). (i, Rejected e)) (h_waiting st),
     h_sent st, h_refresh_calls st, h_refresh_replies st + 1, h_next st)"
  using resume_failure [OF assms, of uuid "h_waiting st" "refreshed reply st"]
    on_refresh_reply_refreshed [OF refl, of uuid reply st]
  by (simp add: Let_def books_fields)

lemma inv_reply_success:
  assumes inv: "http_inv st" and new: "fst (refreshAccessToken_resumed reply st) = Some t" "t \<noteq> []"
    and flight: "h_refreshInFlight st"
  shows "http_inv (on_refresh_reply uuid reply st)"
proof -
  let ?R = "map (resent uuid (h_ls (refreshed reply st)) t) (h_waiting st)"
  let ?st = "(refreshed reply st)\<lparr>h_pending := h_pending st @ ?R, h_sent := h_sent st @ ?R\<rparr>"
  have fst: "map fst ?R = map fst (h_waiting st)" by (rule resent_fst)
  have s: "sends ?st i = sends st i + count (mset (map fst (h_waiting st))) i" for i
    using arg_cong [OF fst, of "\<lambda>xs. count (mset xs) i"] by (simp add: sends_def)
  have not_w: "sends ?st i = sends st i" if "i \<notin> fst ` set (h_waiting st)" for i
    using that count_map_fst_nz [of "h_waiting st" i] unfolding s by linarith
  have w: "sends ?st i = 2" if "i \<in> fst ` set (h_waiting st)" for i
    using that waiting_once(1) [OF inv that] http_invD(5) [OF inv]
    by (auto simp: s list_all_iff waiting_ok_def)
  have ids: "ids ?st = ids st" by (simp add: ids_def)
  have old: "i \<notin> fst ` set (h_waiting st)" if "(i, c) \<in> set (h_pending st) \<or> (i, d) \<in> set (h_done st)"
    for i c d
    using that waiting_once(2,3) [OF inv, of i] by force
  have "list_all (pending_ok (sends ?st)) (h_pending st)"
    by (rule ok_cong(1) [OF http_invD(4) [OF inv]], rule not_w, rule old, blast)
  moreover have "list_all (done_ok (sends ?st)) (h_done st)"
    by (rule ok_cong(3) [OF http_invD(6) [OF inv]], rule not_w, rule old, blast)
  moreover have "list_all (pending_ok (sends ?st)) ?R"
    using w by (simp add: list_all_iff pending_ok_def) (simp add: resent_def)
  moreover have "\<forall>i \<ge> h_next st. sends ?st i = 0"
    using http_invD(7) [OF inv] ids_bound(2) [OF inv] not_w by (metis (no_types, lifting) imageE not_le prod.collapse)
  ultimately have "http_inv ?st"
    unfolding http_inv_def ids using inv flight by (simp add: http_inv_def del: mset_upt)
  then show ?thesis by (simp add: reply_success [OF inv new] Let_def)
qed

lemma inv_reply_failure:
  assumes inv: "http_inv st" and new: "\<not> truthy (fst (refreshAccessToken_resumed reply st))"
    and flight: "h_refreshInFlight st"
  shows "http_inv (on_refresh_reply uuid reply st)"
proof -
  let ?D = "map (\<lambda>(i, e). (i, Rejected e)) (h_waiting st)"
  let ?st = "st\<lparr>h_refreshInFlight := False, h_waiting := [], h_done := h_done st @ ?D,
      h_refresh_replies := h_refresh_replies st + 1\<rparr>"
  have "map fst ?D = map fst (h_waiting st)" by (auto simp: split_beta)
  then have ids: "ids ?st = ids st" unfolding ids_def by (simp del: map_map mset_map)
  have s: "sends ?st = sends st" by simp
  have "list_all (done_ok (sends st)) ?D"
    using http_invD(5) [OF inv] by (fastforce simp: list_all_iff waiting_ok_def done_ok_def)
  then have "http_inv ?st"
    unfolding http_inv_def ids s using http_invD [OF inv] flight by (simp del: mset_upt)
  moreover have "books (on_refresh_reply uuid reply st) = books ?st"
    by (simp add: reply_failure [OF new]) (simp add: books_def)
  ultimately show ?thesis using http_inv_cong by blast
qed

lemma inv_reply:
  "http_inv st \<Longrightarrow> h_refreshInFlight st \<Longrightarrow> http_inv (on_refresh_reply uuid reply st)"
  by (cases "fst (refreshAccessToken_resumed reply st)")
    (metis inv_reply_failure truthy_simps(1), metis inv_reply_failure inv_reply_success truthy_simps(2))

lemma inv_issue:
  assumes "http_inv st"
  shows "http_inv (issue uuid url blob st)"
proof -
  let ?c = "request_interceptor uuid (h_ls st) \<lparr>cfg_url = url, cfg_blob = blob,
      cfg_retried = False, cfg_authorization = None, cfg_trace_id = None\<rparr>"
  let ?n = "h_next st"
  let ?st = "st\<lparr>h_next := ?n + 1, h_pending := h_pending st @ [(?n, ?c)],
      h_sent := h_sent st @ [(?n, ?c)]\<rparr>"
  have st: "issue uuid url blob st = ?st"
    by (simp add: issue_def send_request_def Let_def)
  have s: "sends ?st i = (if i = ?n then 1 else sends st i)" for i
    using http_invD(7) [OF assms, of ?n] by (simp add: sends_def)
  have ids: "ids ?st = add_mset ?n (ids st)" by (simp add: ids_def)
  have upt: "mset [0..<Suc ?n] = add_mset ?n (mset [0..<?n])" by simp
  have "list_all (pending_ok (sends ?st)) (h_pending st)"
    by (rule ok_cong(1) [OF http_invD(4) [OF assms]], subst s)
      (auto dest: ids_bound(1) [OF assms])
  moreover have "list_all (waiting_ok (sends ?st)) (h_waiting st)"
    by (rule ok_cong(2) [OF http_invD(5) [OF assms]], subst s)
      (auto dest: ids_bound(2) [OF assms])
  moreover have "list_all (done_ok (sends ?st)) (h_done st)"
    by (rule ok_cong(3) [OF http_invD(6) [OF assms]], subst s)
      (auto dest: ids_bound(3) [OF assms])
  moreover have "pending_ok (sends ?st) (?n, ?c)" unfolding pending_ok_def s by simp
  moreover have "\<forall>i \<ge> Suc ?n. sends ?st i = 0"
    using http_invD(7) [OF assms] unfolding s by simp
  moreover have "ids ?st = mset [0..<Suc ?n]"
    by (simp only: ids upt http_invD(3) [OF assms])
  ultimately have "http_inv ?st"
    using http_invD(1,2) [OF assms] unfolding http_inv_def by (simp del: mset_upt add: s)
  then show ?thesis by (simp only: st)
qed

lemma http_step_inv: "http_step st st' \<Longrightarrow> http_inv st \<Longrightarrow> http_inv st'"
proof (induction rule: http_step.induct)
  case (response_ok i c st)
  then show ?case using take_pending_taken taken_settle by blast
next
  case (response_error i c st e)
  then show ?case using take_pending_taken taken_response_error by blast
next
  case (user_action a st)
  then show ?case by (simp only: http_inv_cong [OF books_session(1)])
next
  case (navigate st p q)
  then show ?case by (simp only: http_inv_cong [OF books_frame(5)])
qed (simp_all add: inv_issue inv_reply)

theorem http_reach_inv: "http_reach st \<Longrightarrow> http_inv st"
  by (induction rule: http_reach.induct) (simp_all add: http_inv_start http_step_inv)

end
