(* ===== verification/HttpTheorems.thy ===== *)
theory HttpTheorems
  imports HttpProofs
begin

section \<open>Properties of the HTTP client\<close>

text \<open>
  The refresh is single-flight, every request is accounted for, what a successful and a
  failed refresh do, how failures are shown, and the results of the base query.
\<close>

subsection \<open>A run used by the witnesses\<close>

definition demo_401 :: "string \<Rightarrow> axios_error" where
  "demo_401 url = \<lparr>ae_code = None, ae_name = ''AxiosError'', ae_message = ''failed'',
     ae_response = Some \<lparr>rs_status = 401, rs_data = None\<rparr>,
     ae_config = Some \<lparr>cfg_url = url, cfg_blob = False, cfg_retried = False,
       cfg_authorization = None, cfg_trace_id = None\<rparr>\<rparr>"

definition demo_session :: storage where
  "demo_session = [''token'' \<mapsto> ''t1'', ''refresh_token'' \<mapsto> ''r1'']"

definition demo_start :: http_state where
  "demo_start = http_start demo_session ''/clusters/list'' ''''"

text \<open>One request was issued without a token in the storage and met a 401 after a login.\<close>

definition demo_config :: axios_config where
  "demo_config = \<lparr>cfg_url = ''/clusters'', cfg_blob = False, cfg_retried = False,
     cfg_authorization = Some ''Bearer t1'', cfg_trace_id = None\<rparr>"

definition demo_error :: axios_error where
  "demo_error = (demo_401 ''/clusters'')\<lparr>ae_config := Some demo_config\<rparr>"

definition demo_flight :: http_state where
  "demo_flight = on_response_error 0 demo_error
     (take_pending 0 (issue None ''/clusters'' False demo_start))"

lemma demo_ls: "h_ls demo_start = demo_session"
  by (simp add: demo_start_def http_start_def initial_root_state_def)

lemma demo_issued: "issue None ''/clusters'' False demo_start =
    demo_start\<lparr>h_next := 1, h_pending := [(0, demo_config)], h_sent := [(0, demo_config)]\<rparr>"
  using demo_ls
  by (simp add: issue_def send_request_def request_interceptor_def getToken_def ls_get_def Let_def
      demo_session_def demo_config_def) (simp add: demo_start_def http_start_def)

lemma demo_wants: "wants_refresh demo_error"
  by (simp add: wants_refresh_def demo_error_def demo_401_def err_status_def err_url_def
      demo_config_def isAuthPath_def starts_with_def)

lemma demo_flight_eq: "demo_flight = demo_start\<lparr>h_next := 1, h_sent := [(0, demo_config)],
    h_refreshInFlight := True, h_refresh_calls := 1, h_waiting := [(0, demo_error)]\<rparr>"
  using demo_wants demo_ls
  by (simp add: demo_flight_def demo_issued on_response_error_def take_pending_def
      refresh_token_to_send_def ls_get_def demo_session_def)
    (simp add: demo_start_def http_start_def)

lemma demo_flight_reach: "http_reach demo_flight"
proof -
  let ?st = "issue None ''/clusters'' False demo_start"
  have "http_reach ?st"
    unfolding demo_start_def by (rule http_reach.step [OF http_reach.start http_step.issue])
  moreover have "http_step ?st demo_flight"
    unfolding demo_flight_def
    by (rule http_step.response_error [where c = demo_config])
      (simp_all add: demo_issued demo_error_def)
  ultimately show ?thesis by (rule http_reach.step)
qed

lemma demo_flight_fields:
  "h_refreshInFlight demo_flight" "h_waiting demo_flight = [(0, demo_error)]"
  "h_pending demo_flight = []" "h_done demo_flight = []" "h_dispatch demo_flight"
  "h_pathname demo_flight = ''/clusters/list''" "h_search demo_flight = []"
  by (simp_all add: demo_flight_eq demo_start_def http_start_def)

subsection \<open>Single flight and accounting\<close>

text \<open>
  C28. The refresh is single-flight: in every run there is at most one refresh post without a
  reply, exactly while interceptors wait for it, however many requests meet a 401 in the
  meantime; so no refresh token is ever posted twice concurrently.
\<close>

theorem refresh_single_flight:
  assumes "http_reach st"
  shows "h_refresh_calls st = h_refresh_replies st + (if h_refreshInFlight st then 1 else 0)
    \<and> (h_refreshInFlight st \<longleftrightarrow> h_waiting st \<noteq> [])"
  using http_invD [OF http_reach_inv [OF assms]] by blast

theorem refresh_single_flight_witness:
  "h_refresh_calls demo_flight = h_refresh_replies demo_flight + 1"
  using refresh_single_flight [OF demo_flight_reach] by (simp add: demo_flight_fields)

text \<open>
  C3. No request is lost, duplicated or retried for ever: in every run each issued request is
  in exactly one of the three places, at the network, waiting for the refresh, or settled,
  and appears there once; it was sent once, or twice when its first answer was a 401 that a
  refresh cured, and never more often.
\<close>

theorem request_accounting:
  assumes "http_reach st"
  shows "mset (map fst (h_pending st)) + mset (map fst (h_waiting st)) + mset (map fst (h_done st))
      = mset [0..<h_next st]
    \<and> (\<forall>i < h_next st. 1 \<le> length (filter (\<lambda>p. fst p = i) (h_sent st))
         \<and> length (filter (\<lambda>p. fst p = i) (h_sent st)) \<le> 2)"
proof -
  have inv: "http_inv st" by (rule http_reach_inv [OF assms])
  have len: "length (filter (\<lambda>p. fst p = i) xs) = count (mset (map fst xs)) i"
    for i :: nat and xs :: "(nat \<times> axios_config) list"
    by (induction xs) auto
  have "1 \<le> sends st i \<and> sends st i \<le> 2" if "i < h_next st" for i
  proof -
    from that have "i \<in># ids st" by (simp add: http_invD(3) [OF inv])
    then consider "i \<in> fst ` set (h_pending st)" | "i \<in> fst ` set (h_waiting st)"
      | "i \<in> fst ` set (h_done st)"
      by (auto simp: ids_def)
    then show ?thesis
      using http_invD(4-6) [OF inv]
      by cases (auto simp: list_all_iff pending_ok_def waiting_ok_def done_ok_def)
  qed
  then show ?thesis using http_invD(3) [OF inv] unfolding len ids_def sends_def by blast
qed

theorem request_accounting_witness:
  "mset (map fst (h_pending demo_flight)) + mset (map fst (h_waiting demo_flight))
     + mset (map fst (h_done demo_flight)) = mset [0..<h_next demo_flight]"
  using request_accounting [OF demo_flight_reach] by blast

subsection \<open>A refresh that succeeds\<close>

lemma toasts_session [simp]:
  "h_toasts (dispatch_user a st) = h_toasts st" "h_toasts (on_ls f st) = h_toasts st"
  "h_href (dispatch_user a st) = h_href st" "h_href (on_ls f st) = h_href st"
  "h_dispatch (dispatch_user a st) = h_dispatch st" "h_dispatch (on_ls f st) = h_dispatch st"
  "h_pathname (dispatch_user a st) = h_pathname st" "h_pathname (on_ls f st) = h_pathname st"
  "h_search (dispatch_user a st) = h_search st" "h_search (on_ls f st) = h_search st"
  "h_toasts (dispatch_app b st) = h_toasts st" "h_href (dispatch_app b st) = h_href st"
  "h_dispatch (dispatch_app b st) = h_dispatch st" "h_pathname (dispatch_app b st) = h_pathname st"
  "h_search (dispatch_app b st) = h_search st"
  by (simp_all add: dispatch_user_def dispatch_app_def on_ls_def on_store_def)

lemma ls_on_ls [simp]: "h_ls (on_ls f st) = f (h_ls st)"
  by (simp add: on_ls_def on_store_def)

lemma user_on_ls [simp]: "r_user (h_store (on_ls f st)) = r_user (h_store st)"
  by (simp add: on_ls_def on_store_def)

lemma ls_set_tokens [simp]:
  "h_ls (dispatch_user (SetToken t) st) = persistToken ''token'' t (h_ls st)"
  "h_ls (dispatch_user (SetRefreshToken t) st) = persistToken ''refresh_token'' t (h_ls st)"
  "r_user (h_store (dispatch_user (SetToken t) st)) = (r_user (h_store st))\<lparr>token := t\<rparr>"
  "r_user (h_store (dispatch_user (SetRefreshToken t) st)) =
     (r_user (h_store st))\<lparr>refreshToken := t\<rparr>"
  by (simp_all add: dispatch_user_def on_store_def store_dispatch_def)

lemma store_new_tokens_facts:
  assumes "a \<noteq> []"
  shows "h_ls (store_new_tokens a r st) ''token'' = Some a"
    and "h_ls (store_new_tokens a r st) ''refresh_token'' =
           (if truthy r then r else h_ls st ''refresh_token'')"
    and "h_dispatch st \<Longrightarrow> token (r_user (h_store (store_new_tokens a r st))) = Some a"
    and "h_toasts (store_new_tokens a r st) = h_toasts st"
    and "h_href (store_new_tokens a r st) = h_href st"
    and "h_done (store_new_tokens a r st) = h_done st"
  using assms books_store_new_tokens [of a r st, unfolded books_fields]
  by (auto simp: store_new_tokens_def Let_def persistToken_same persistToken_other ls_set_def
      truthy_iff)

definition success_reply :: "string \<Rightarrow> string option \<Rightarrow> refresh_reply" where
  "success_reply t r = RefreshReply (Some \<lparr>rd_access_token = Some t, rd_refresh_token = r\<rparr>)"

lemma resumed_success:
  "t \<noteq> [] \<Longrightarrow> refreshAccessToken_resumed (success_reply t r) st = (Some t, store_new_tokens t r st)"
  by (simp add: refreshAccessToken_resumed_def success_reply_def Let_def)

lemma resent_headers:
  assumes "ls ''token'' = Some t" and "t \<noteq> []"
  shows "cfg_authorization (snd (resent uuid ls t w)) = Some (''Bearer '' @ t)"
    and "cfg_retried (snd (resent uuid ls t w))"
    and "cfg_url (snd (resent uuid ls t w)) = cfg_url (the (ae_config (snd w)))"
    and "cfg_blob (snd (resent uuid ls t w)) = cfg_blob (the (ae_config (snd w)))"
  using assms
  by (simp_all add: resent_def request_interceptor_def getToken_def ls_get_def Let_def)

text \<open>
  C2. A successful refresh cures every waiting request: the reply puts the new access token
  into the storage and, with a store attached, the user slice, and sends each waiting request
  once more, in the order in which they met their 401, to its own URL, marked as retried and
  with the new token in its header. Nothing is rejected, no toast shown and no redirect asked.
\<close>

theorem refresh_success_resends:
  assumes "http_reach st" and "t \<noteq> []"
    and "st' = on_refresh_reply uuid (success_reply t r) st"
  shows "h_ls st' ''token'' = Some t \<and> (h_dispatch st \<longrightarrow> token (r_user (h_store st')) = Some t)
    \<and> (\<exists>R. h_pending st' = h_pending st @ R \<and> h_sent st' = h_sent st @ R
         \<and> map (\<lambda>(i, c). (i, cfg_url c)) R
             = map (\<lambda>(i, e). (i, cfg_url (the (ae_config e)))) (h_waiting st)
         \<and> (\<forall>(i, c) \<in> set R. cfg_retried c \<and> cfg_authorization c = Some (''Bearer '' @ t)))
    \<and> h_waiting st' = [] \<and> h_done st' = h_done st
    \<and> h_toasts st' = h_toasts st \<and> h_href st' = h_href st"
proof -
  let ?st = "refreshed (success_reply t r) st"
  let ?R = "map (resent uuid (h_ls ?st) t) (h_waiting st)"
  have st': "st' = ?st\<lparr>h_pending := h_pending st @ ?R, h_sent := h_sent st @ ?R\<rparr>"
    using reply_success [OF http_reach_inv [OF assms(1)], of "success_reply t r" t uuid] assms(2,3)
    by (simp add: resumed_success Let_def)
  have ls: "h_ls ?st ''token'' = Some t"
    by (simp add: refreshed_def resumed_success assms(2) store_new_tokens_facts)
  have "map (\<lambda>(i, c). (i, cfg_url c)) ?R
      = map (\<lambda>(i, e). (i, cfg_url (the (ae_config e)))) (h_waiting st)"
    by (simp add: split_beta resent_headers(3) [where ls = "h_ls ?st", OF ls assms(2)])
  moreover have "\<forall>(i, c) \<in> set ?R. cfg_retried c \<and> cfg_authorization c = Some (''Bearer '' @ t)"
    using resent_headers(1,2) [where ls = "h_ls ?st", OF ls assms(2)] by (simp add: split_beta)
  ultimately show ?thesis
    using ls by (intro conjI exI [of _ ?R])
      (simp_all add: st' refreshed_def resumed_success assms(2) store_new_tokens_facts)
qed

theorem refresh_success_resends_witness:
  "h_ls (on_refresh_reply None (success_reply ''t2'' None) demo_flight) ''token'' = Some ''t2''
   \<and> h_done (on_refresh_reply None (success_reply ''t2'' None) demo_flight) = []"
  using refresh_success_resends [OF demo_flight_reach _ refl, of "''t2''" None None]
  by (simp add: demo_flight_fields)

subsection \<open>A refresh that fails\<close>

text \<open>The session is over: nothing of it is stored, and the browser is sent to the login page.\<close>

definition session_over :: "http_state \<Rightarrow> bool" where
  "session_over st \<longleftrightarrow>
     h_ls st ''token'' = None \<and> h_ls st ''refresh_token'' = None \<and>
     (h_dispatch st \<longrightarrow> token (r_user (h_store st)) = None \<and>
        refreshToken (r_user (h_store st)) = None \<and> currentUser (r_user (h_store st)) = None) \<and>
     (h_pathname st \<noteq> ''/login'' \<longrightarrow>
        h_href st = Some (''/login?redirect='' @ encodeURIComponent (h_pathname st @ h_search st)))"

lemma logout_facts [simp]:
  "h_ls (dispatch_user Logout st) k =
     (if k \<in> {''token'', ''refresh_token'', ''selectedClusterCode''} then None else h_ls st k)"
  "r_user (h_store (dispatch_user Logout st)) =
     \<lparr>token = None, refreshToken = None, currentUser = None, profileStatus = PIdle\<rparr>"
  by (simp_all add: dispatch_user_def on_store_def store_dispatch_def fold_reset ls_remove_def
      user_state.equality)

lemma clear_cluster_facts [simp]:
  "h_ls (dispatch_app (SetSelectedClusterCode None) st) k =
     (if k = ''selectedClusterCode'' then None else h_ls st k)"
  "r_user (h_store (dispatch_app b st)) = r_user (h_store st)"
  by (simp_all add: dispatch_app_def on_store_def store_dispatch_def ls_remove_def split_beta)

lemma unauthorized_fields [simp]:
  "h_dispatch (handleUnauthorized st) = h_dispatch st"
  "h_pathname (handleUnauthorized st) = h_pathname st"
  "h_search (handleUnauthorized st) = h_search st"
  "h_toasts (handleUnauthorized st) = h_toasts st"
  by (simp_all add: handleUnauthorized_def Let_def)

lemma session_over_unauthorized: "session_over (handleUnauthorized st)"
  by (simp add: session_over_def handleUnauthorized_def Let_def ls_remove_def)

lemma session_over_settle [simp]: "session_over (settle i out st) = session_over st"
  by (simp add: session_over_def settle_def)

lemma handleError_401:
  assumes "wants_refresh e"
  shows "handleError e st = (if isCanceled e then st else handleUnauthorized st)"
  using assms by (auto simp: handleError_def wants_refresh_def isAuthPath_def)

lemma resume_rejects:
  assumes "\<not> truthy new" and "list_all (\<lambda>w. wants_refresh (snd w)) ws"
    and "session_over st \<or> (\<exists>w \<in> set ws. \<not> isCanceled (snd w))"
  shows "session_over (fold (resume uuid new) ws st)"
  using assms(2,3)
proof (induction ws arbitrary: st)
  case Nil
  then show ?case by simp
next
  case (Cons w ws)
  obtain i e where w: "w = (i, e)" by (cases w)
  have "resume uuid new w st
      = settle i (Rejected e) (if isCanceled e then st else handleUnauthorized st)"
    using assms(1) Cons.prems(1) by (simp add: resume_def w handleError_401)
  moreover from this have "session_over (resume uuid new w st) \<or> (\<exists>w \<in> set ws. \<not> isCanceled (snd w))"
    using Cons.prems(2) by (auto simp: w session_over_unauthorized)
  ultimately show ?case using Cons by simp
qed

text \<open>
  C4. A failed refresh (rejected, or without an access token) rejects every waiting request
  with its own error, in order, sends none of them again, and, unless all of them were
  cancelled, ends the session: both tokens leave the storage, the user slice is empty, and the
  browser is sent to the login page with the encoded current location as \<open>redirect\<close>.
\<close>

theorem refresh_failure_ends_session:
  assumes "http_reach st" and "\<not> truthy (fst (refreshAccessToken_resumed reply st))"
    and "\<exists>(i, e) \<in> set (h_waiting st). \<not> isCanceled e"
    and "st' = on_refresh_reply uuid reply st"
  shows "h_done st' = h_done st @ map (\<lambda>(i, e). (i, Rejected e)) (h_waiting st)
    \<and> h_waiting st' = [] \<and> h_sent st' = h_sent st \<and> \<not> h_refreshInFlight st'
    \<and> session_over st'"
proof -
  have "list_all (\<lambda>w. wants_refresh (snd w)) (h_waiting st)"
    using http_invD(5) [OF http_reach_inv [OF assms(1)]]
    by (simp add: list_all_iff waiting_ok_def)
  then have "session_over (on_refresh_reply uuid reply st)"
    unfolding on_refresh_reply_refreshed [OF refl]
    by (rule resume_rejects [OF assms(2)]) (use assms(3) in fastforce)
  then show ?thesis
    using reply_failure [OF assms(2), of uuid] by (simp add: assms(4) books_fields)
qed

theorem refresh_failure_ends_session_witness:
  "session_over (on_refresh_reply None RefreshFails demo_flight)
   \<and> h_done (on_refresh_reply None RefreshFails demo_flight) = [(0, Rejected demo_error)]"
proof -
  have "\<not> truthy (fst (refreshAccessToken_resumed RefreshFails demo_flight))"
    by (simp add: refreshAccessToken_resumed_def)
  moreover have "\<exists>(i, e) \<in> set (h_waiting demo_flight). \<not> isCanceled e"
    by (simp add: demo_flight_fields isCanceled_def demo_error_def demo_401_def)
  ultimately show ?thesis
    using refresh_failure_ends_session [OF demo_flight_reach _ _ refl, of RefreshFails None]
    by (simp add: demo_flight_fields)
qed

text \<open>
  A logout does not survive a refresh that is under way: when the user logs out while the
  refresh post is at the server and the reply then brings tokens, the handler stores them, and
  the storage and the user slice hold a session again, so the logout is undone.
\<close>

theorem logout_undone_by_refresh:
  assumes "http_reach st" and "h_refreshInFlight st" and "h_dispatch st"
    and "t \<noteq> []" and "r \<noteq> []"
    and "st' = on_refresh_reply uuid (success_reply t (Some r)) (dispatch_user Logout st)"
  shows "h_ls (dispatch_user Logout st) ''token'' = None
    \<and> h_ls st' ''token'' = Some t \<and> h_ls st' ''refresh_token'' = Some r
    \<and> token (r_user (h_store st')) = Some t"
proof -
  let ?st = "dispatch_user Logout st"
  have reach: "http_reach ?st" by (rule http_reach.step [OF assms(1) http_step.user_action])
  let ?R = "map (resent uuid (h_ls (refreshed (success_reply t (Some r)) ?st)) t) (h_waiting ?st)"
  have "st' = (refreshed (success_reply t (Some r)) ?st)
      \<lparr>h_pending := h_pending ?st @ ?R, h_sent := h_sent ?st @ ?R\<rparr>"
    using reply_success [OF http_reach_inv [OF reach], of "success_reply t (Some r)" t uuid]
      assms(4,6)
    by (simp add: resumed_success Let_def)
  then show ?thesis
    using assms(3-5) by (simp add: refreshed_def resumed_success store_new_tokens_facts)
qed

theorem logout_undone_by_refresh_witness:
  "token (r_user (h_store (on_refresh_reply None (success_reply ''t2'' (Some ''r2''))
      (dispatch_user Logout demo_flight)))) = Some ''t2''"
  using logout_undone_by_refresh [OF demo_flight_reach _ _ _ _ refl, of "''t2''" "''r2''" None]
  by (simp add: demo_flight_fields)

subsection \<open>How failures are shown\<close>

lemma or_str_nonempty: "d \<noteq> [] \<Longrightarrow> or_str v d \<noteq> []"
  by (cases v) (auto simp: or_str_def)

lemma texts_nonempty [simp]:
  "txt_bad_credentials \<noteq> []" "txt_download_failed \<noteq> []" "status_text s \<noteq> []"
  by (simp_all add: txt_bad_credentials_def txt_download_failed_def status_text_def
      txt_forbidden_def txt_not_found_def txt_server_error_def txt_request_failed_def)

lemma error_text_nonempty: "error_text e \<noteq> []"
  unfolding error_text_def Let_def by (intro or_str_nonempty) simp

text \<open>A failure of a download reaches the interceptor first and \<open>download\<close> afterwards.\<close>

definition is_blob_error :: "axios_error \<Rightarrow> bool" where
  "is_blob_error e \<longleftrightarrow> (case ae_config e of None \<Rightarrow> False | Some c \<Rightarrow> cfg_blob c)"

lemma error_shown_once_blob:
  "\<not> isCanceled e \<Longrightarrow> err_status e \<noteq> Some 401 \<Longrightarrow> is_blob_error e \<Longrightarrow> handleError e st = st"
  by (simp add: handleError_def is_blob_error_def)

text \<open>A plain refusal, for the witness.\<close>

definition demo_forbidden :: axios_error where
  "demo_forbidden = demo_error\<lparr>ae_response := Some \<lparr>rs_status = 403, rs_data = None\<rparr>\<rparr>"

text \<open>
  What the interceptor does with one error: one that was not cancelled and is not that of a download
  adds one non-empty toast and leaves session and location alone, or is a 401 outside the login and
  refresh end points and ends the session without a toast.
\<close>

lemma handleError_outcome:
  "if isCanceled e then handleError e st = st
   else if err_status e = Some 401 \<and> \<not> str_includes (err_url e) ''/auth/login''
             \<and> \<not> str_includes (err_url e) ''/auth/refresh''
     then session_over (handleError e st) \<and> h_toasts (handleError e st) = h_toasts st
   else if is_blob_error e \<and> err_status e \<noteq> Some 401 then handleError e st = st
   else (\<exists>t. t \<noteq> [] \<and> h_toasts (handleError e st) = h_toasts st @ [t]
           \<and> h_store (handleError e st) = h_store st \<and> h_href (handleError e st) = h_href st)"
proof -
  consider "isCanceled e" | "\<not> isCanceled e" "err_status e = Some 401"
    | "\<not> isCanceled e" "err_status e \<noteq> Some 401" by blast
  then show ?thesis
  proof cases
    case 1
    then show ?thesis by (simp add: handleError_def)
  next
    case 2
    then show ?thesis
      by (simp add: handleError_def session_over_unauthorized toast_def or_str_nonempty)
  next
    case 3
    then show ?thesis
      using error_text_nonempty [of e]
      by (cases "ae_config e") (simp_all add: handleError_def toast_def is_blob_error_def Let_def)
  qed
qed

text \<open>
  The reading of a whole run: an expired session, and the toasts that a list of settled requests asks
  for. A cancelled request, a failed download and an expired session ask for none.
\<close>

definition expired_session :: "axios_error \<Rightarrow> bool" where
  "expired_session e \<longleftrightarrow>
     \<not> isCanceled e \<and> err_status e = Some 401 \<and> \<not> str_includes (err_url e) ''/auth/login''
     \<and> \<not> str_includes (err_url e) ''/auth/refresh''"

fun notices :: "(nat \<times> outcome) list \<Rightarrow> string list" where
  "notices [] = []"
| "notices ((i, Resolved) # ds) = notices ds"
| "notices ((i, Rejected e) # ds) =
     (if isCanceled e \<or> expired_session e \<or> (is_blob_error e \<and> err_status e \<noteq> Some 401) then []
      else [if err_status e = Some 401 then or_str (Option.bind (err_data e) ed_message) txt_bad_credentials
            else error_text e]) @ notices ds"

lemma notices_append [simp]: "notices (ds @ ds') = notices ds @ notices ds'"
  by (induction ds rule: notices.induct) simp_all

lemma notices_nonempty: "t \<in> set (notices ds) \<Longrightarrow> t \<noteq> []"
  by (induction ds rule: notices.induct) (auto simp: error_text_nonempty [THEN not_sym] or_str_nonempty [THEN not_sym] split: if_splits)

lemma handleError_notice: "h_toasts (handleError e st) = h_toasts st @ notices [(i, Rejected e)]"
  by (auto simp: handleError_def toast_def is_blob_error_def expired_session_def Let_def split: option.splits)

lemma handleError_href: "h_href (handleError e st) \<noteq> h_href st \<Longrightarrow> expired_session e"
  by (auto simp: handleError_def toast_def expired_session_def Let_def split: if_splits)

definition run_told :: "http_state \<Rightarrow> bool" where
  "run_told st \<longleftrightarrow>
     h_toasts st = notices (h_done st)
     \<and> (h_href st \<noteq> None \<longrightarrow> (\<exists>i e. (i, Rejected e) \<in> set (h_done st) \<and> expired_session e))"

lemma told_settle:
  assumes "run_told st"
  shows "run_told (settle i (Rejected e) (handleError e st))"
proof (cases "h_href (handleError e st) = h_href st")
  case True
  then show ?thesis using assms handleError_notice [of e st i] by (auto simp: run_told_def settle_def)
next
  case False
  have "run_told (settle i (Rejected e) (handleError e st))
      \<longleftrightarrow> (h_href (handleError e st) \<noteq> None \<longrightarrow>
            (\<exists>j d. (j, Rejected d) \<in> set (h_done st @ [(i, Rejected e)]) \<and> expired_session d))"
    using assms by (simp add: run_told_def settle_def handleError_notice [of e st i])
  then show ?thesis using handleError_href [OF False] by auto
qed

lemma told_resume:
  assumes "run_told st"
  shows "run_told (resume uuid new w st)"
proof -
  obtain i e where w: "w = (i, e)" by (cases w)
  have "run_told (send_request uuid i c st)" for c
    using assms by (simp add: run_told_def send_request_def Let_def)
  then show ?thesis
    using told_settle [OF assms, of i e] by (simp add: w resume_def split: bool.split option.split)
qed

lemma told_fold: "run_told st \<Longrightarrow> run_told (fold (resume uuid new) ws st)"
  by (induction ws arbitrary: st) (simp_all add: told_resume)

lemma told_refreshed: "run_told st \<Longrightarrow> run_told (refreshed reply st)"
proof -
  have "h_toasts (snd (refreshAccessToken_resumed reply st)) = h_toasts st"
    "h_href (snd (refreshAccessToken_resumed reply st)) = h_href st"
    by (auto simp: refreshAccessToken_resumed_def Let_def store_new_tokens_facts truthy_iff split: refresh_reply.split)
  then show "run_told st \<Longrightarrow> run_told (refreshed reply st)" by (simp add: run_told_def) (simp add: refreshed_def)
qed

lemma http_step_told: "http_step st st' \<Longrightarrow> run_told st \<Longrightarrow> run_told st'"
proof (induction rule: http_step.induct)
  case (issue st uuid url blob)
  then show ?case by (simp add: issue_def send_request_def Let_def run_told_def)
next
  case (response_ok i c st)
  then show ?case by (auto simp: settle_def take_pending_def run_told_def)
next
  case (response_error i c st e)
  have "run_told (take_pending i st)" using response_error.prems by (simp add: take_pending_def run_told_def)
  then show ?case using told_settle [of "take_pending i st" i e]
    by (auto simp: on_response_error_def run_told_def split: option.split)
next
  case (refresh_reply st uuid reply)
  then show ?case using told_fold [OF told_refreshed] by (simp add: on_refresh_reply_refreshed [OF refl])
next
  case (user_action st a)
  then show ?case using books_session(1) [of a st] by (simp add: run_told_def books_fields)
next
  case (navigate st p q)
  then show ?case by (simp add: run_told_def)
qed

text \<open>
  C37. What a run of the interceptors tells the user. At every moment, the toasts shown are those of the
  settled failures, in the order in which they settled: one non-empty toast for each failed request that
  was neither cancelled, nor a download, nor the end of an expired session, and none for anything else,
  also where a failure waited for a refresh of the token first. A request settles once, so no failure is
  shown twice by the interceptor; and the browser is sent to the login page only after a request failed because the session
  had expired.
\<close>

theorem failures_told_in_order:
  assumes "http_reach st"
  shows "h_toasts st = notices (h_done st) \<and> [] \<notin> set (h_toasts st) \<and> distinct (map fst (h_done st))
    \<and> (h_href st \<noteq> None \<longrightarrow> (\<exists>i e. (i, Rejected e) \<in> set (h_done st) \<and> expired_session e))"
proof -
  have "run_told st"
    using assms
    by (induction rule: http_reach.induct) (simp_all add: run_told_def http_start_def http_step_told [unfolded run_told_def])
  moreover have "distinct (map fst (h_done st))"
  proof -
    have "count (mset (map fst (h_done st))) i \<le> 1" for i
      using count_ids_le [OF http_reach_inv [OF assms], of i] unfolding ids_def count_union by linarith
    then show ?thesis
      by (metis count_eq_zero_iff distinct_count_atmost_1 le_antisym less_one linorder_not_le set_mset_mset)
  qed
  ultimately show ?thesis using notices_nonempty by (auto simp: run_told_def)
qed

theorem failures_told_in_order_witness:
  "h_toasts (on_response_error 0 demo_forbidden (take_pending 0 (issue None ''/clusters'' False demo_start)))
     = [txt_forbidden]"
proof -
  have "http_reach (issue None ''/clusters'' False demo_start)"
    unfolding demo_start_def by (rule http_reach.step [OF http_reach.start http_step.issue])
  then have "http_reach (on_response_error 0 demo_forbidden
      (take_pending 0 (issue None ''/clusters'' False demo_start)))"
    by (rule http_reach.step [OF _ http_step.response_error])
      (simp_all add: demo_issued demo_forbidden_def demo_error_def)
  note run = failures_told_in_order [OF this]
  have "\<not> wants_refresh demo_forbidden"
    by (simp add: wants_refresh_def demo_forbidden_def err_status_def)
  then have "h_done (on_response_error 0 demo_forbidden
      (take_pending 0 (issue None ''/clusters'' False demo_start))) = [(0, Rejected demo_forbidden)]"
    by (simp add: on_response_error_def settle_def take_pending_def demo_issued)
      (simp add: demo_start_def http_start_def)
  with run show ?thesis
    by (simp add: demo_forbidden_def demo_error_def demo_401_def isCanceled_def expired_session_def
        err_status_def is_blob_error_def demo_config_def error_text_def err_data_def or_str_def status_text_def)
qed

text \<open>
  A download tells the user exactly once that it failed, and saves nothing then: for an
  error answer that was neither cancelled nor a 401, the interceptor keeps quiet and
  \<open>download\<close> adds exactly one non-empty toast, whatever the body holds, JSON or not.
\<close>

theorem download_failure_shown_once:
  assumes "\<not> isCanceled e" and "err_status e \<noteq> Some 401" and "is_blob_error e"
    and "download_settled json filename (DownloadErr e blob) (handleError e st) = (out, st')"
  shows "out = Thrown (ae_message e) \<and> (\<exists>t. t \<noteq> [] \<and> st' = toast t st)"
proof -
  have quiet: "handleError e st = st"
    using error_shown_once_blob [OF assms(1-3)] .
  let ?t = "case Option.bind blob json of Some m \<Rightarrow> or_str m txt_download_failed
      | None \<Rightarrow> txt_download_failed"
  have "?t \<noteq> []" by (simp add: or_str_nonempty split: option.split)
  moreover have "out = Thrown (ae_message e) \<and> st' = toast ?t st"
    using assms(1,2,4) by (simp add: quiet download_settled_def split: option.splits)
  ultimately show ?thesis by blast
qed

definition demo_blob_error :: axios_error where
  "demo_blob_error = demo_error\<lparr>ae_response := Some \<lparr>rs_status = 403, rs_data = None\<rparr>,
     ae_config := Some (demo_config\<lparr>cfg_blob := True\<rparr>)\<rparr>"

theorem download_failure_shown_once_witness:
  "\<exists>t. t \<noteq> [] \<and> snd (download_settled (\<lambda>_. None) ''a.zip''
      (DownloadErr demo_blob_error (Some ''<html>'')) (handleError demo_blob_error demo_start))
    = toast t demo_start"
proof -
  have "\<not> isCanceled demo_blob_error" "err_status demo_blob_error \<noteq> Some 401"
    "is_blob_error demo_blob_error"
    by (simp_all add: isCanceled_def demo_blob_error_def demo_error_def demo_401_def
        err_status_def is_blob_error_def)
  from download_failure_shown_once [OF this prod.collapse [symmetric],
      of "\<lambda>_. None" "''a.zip''" "Some ''<html>''" demo_start]
  show ?thesis by blast
qed

text \<open>
  A download that the server refuses inside a 200 answer with a JSON body is reported
  twice: the toast with the server's message is followed by a second, generic one, because the
  error thrown for the refusal is caught by the function's own \<open>catch\<close>.
\<close>

theorem download_rejected_twice:
  assumes "str_includes ctype ''application/json''" and "json txt = Some (Some m)" and "m \<noteq> []"
  shows "download_settled json filename (DownloadOk (Some ctype) txt) st
    = (Thrown ''download rejected'', toast txt_download_failed (toast m st))"
proof -
  have "ctype \<noteq> []" using assms(1) by auto
  then show ?thesis using assms by (simp add: download_settled_def)
qed

theorem download_rejected_twice_witness:
  "h_toasts (snd (download_settled (\<lambda>_. Some (Some ''no such backup'')) ''b.zip''
      (DownloadOk (Some ''application/json'') ''{}'') demo_start))
    = [''no such backup'', txt_download_failed]"
  using download_rejected_twice [of "''application/json''" "\<lambda>_. Some (Some ''no such backup'')"
      "''{}''" "''no such backup''" "''b.zip''" demo_start]
  by (simp add: starts_with_def toast_def demo_start_def http_start_def)

subsection \<open>The base query\<close>

text \<open>
  A query of the services ends in data exactly when the request was fulfilled and its body
  is not an envelope with a non-zero code, even under an HTTP status 200; every other end is
  an error whose message is never empty.
\<close>

theorem base_query_outcome:
  "(case axiosBaseQuery r of
      QueryData d \<Rightarrow> (\<exists>s env. r = Fulfilled s (EnvelopeBody env) \<and> env_code env = 0 \<and> d = env_data env)
        \<or> (\<exists>s. r = Fulfilled s (RawBody d))
    | QueryError e \<Rightarrow> be_message e \<noteq> []
        \<and> ((\<exists>s env. r = Fulfilled s (EnvelopeBody env) \<and> env_code env \<noteq> 0 \<and> be_status e = Some s)
          \<or> (\<exists>x. r = Failed x \<and> be_status e = err_status x)))"
proof (cases r)
  case (Fulfilled s b)
  then show ?thesis by (cases b) (simp_all add: axiosBaseQuery_def or_str_nonempty)
next
  case (Failed x)
  then show ?thesis by (simp add: axiosBaseQuery_def Let_def or_str_nonempty)
qed

end
