(* ===== verification/Endpoints.thy ===== *)
theory Endpoints
  imports UriCodec
begin

section \<open>Requests, cache tags and refetching\<close>

text \<open>
  What the six service APIs under \<open>app/services\<close> share: the arguments of the base query and
  the cache tags of RTK Query. RTK Query is not part of the repository; of it the model uses
  the documented rule that a query result is fetched again when a mutation invalidates a tag
  that the result provides. The locale \<open>tagged_listing\<close> states the contract between the queries
  of a listing and the mutations that change it.
\<close>

datatype http_method = GET | POST | PUT | PATCH | DELETE

datatype param = PStr string | PNum int | PBool bool

text \<open>An absent optional value is left out of the query string.\<close>

type_synonym params = "(string \<times> param) list"

record 'd request =
  rq_url :: string
  rq_method :: http_method
  rq_params :: "params option"
  rq_data :: "'d option"

definition opt_param :: "string \<Rightarrow> ('a \<Rightarrow> param) \<Rightarrow> 'a option \<Rightarrow> params" where
  "opt_param k f v = (case v of None \<Rightarrow> [] | Some x \<Rightarrow> [(k, f x)])"

definition get_req :: "string \<Rightarrow> params option \<Rightarrow> 'd request" where
  "get_req url ps = \<lparr>rq_url = url, rq_method = GET, rq_params = ps, rq_data = None\<rparr>"

definition send_req :: "http_method \<Rightarrow> string \<Rightarrow> 'd option \<Rightarrow> 'd request" where
  "send_req m url d = \<lparr>rq_url = url, rq_method = m, rq_params = None, rq_data = d\<rparr>"

datatype tag_id = IdStr string | IdNum int

datatype tag = Tag string tag_id

abbreviation list_tag :: "string \<Rightarrow> tag" where
  "list_tag t \<equiv> Tag t (IdStr ''LIST'')"

definition refetched :: "tag list \<Rightarrow> tag list \<Rightarrow> bool" where
  "refetched provided invalidated \<longleftrightarrow> (\<exists>t \<in> set provided. t \<in> set invalidated)"

text \<open>
  The contract of a listing: its queries provide a tag that every mutation of a group invalidates, so
  that no table that shows the listing stays as it was after such a mutation.
\<close>

locale tagged_listing =
  fixes provides :: "'q \<Rightarrow> tag list" and invalidates :: "'m \<Rightarrow> tag list"
    and listing :: "'q \<Rightarrow> bool" and changes :: "'m \<Rightarrow> bool" and mark :: tag
  assumes listing_tagged: "listing q \<Longrightarrow> mark \<in> set (provides q)"
    and change_tagged: "changes m \<Longrightarrow> mark \<in> set (invalidates m)"
begin

lemma no_stale_table: "listing q \<Longrightarrow> changes m \<Longrightarrow> refetched (provides q) (invalidates m)"
  using listing_tagged change_tagged by (auto simp: refetched_def)

end

end
