(* ===== verification/ClusterService.thy ===== *)
theory ClusterService
  imports Endpoints
begin

section \<open>The cluster service\<close>

text \<open>
  \<open>app/services/cluster.ts\<close>: requests and cache tags of its endpoints. This service puts the
  cluster code, namespace and Pod into the path as they are, without encoding them.
\<close>

record 'l cluster =
  cl_id :: "int option"
  cl_code :: string
  cl_name :: string
  cl_description :: "string option"
  cl_api_server :: "string option"
  cl_status :: int
  cl_version :: "string option"
  cl_node_count :: "int option"
  cl_last_sync_at :: "string option"
  cl_labels :: "'l option"
  cl_creator_id :: "int option"
  cl_created_at :: "string option"
  cl_updated_at :: "string option"

definition CLUSTER_STATUS_OFFLINE :: int where "CLUSTER_STATUS_OFFLINE = 0"
definition CLUSTER_STATUS_ONLINE :: int where "CLUSTER_STATUS_ONLINE = 1"

record list_clusters_params =
  lc_keyword :: "string option"
  lc_page :: "int option"
  lc_size :: "int option"

record import_cluster_data =
  ic_name :: string
  ic_code :: string
  ic_description :: "string option"
  ic_kubeconfig_text :: "string option"
  ic_kubeconfig_base64 :: "string option"
  ic_labels :: "string option"

record update_cluster_data =
  uc_name :: "string option"
  uc_description :: "string option"
  uc_kubeconfig_text :: "string option"
  uc_kubeconfig_base64 :: "string option"
  uc_labels :: "string option"

record stream_pod_logs_params =
  sl_clusterCode :: string
  sl_namespace :: string
  sl_pod :: string
  sl_container :: "string option"
  sl_follow :: "bool option"
  sl_tail :: "int option"

datatype cluster_query =
    ListClusters "list_clusters_params option"
  | GetCluster string
  | StreamPodLogs stream_pod_logs_params

datatype cluster_mutation =
    ImportCluster import_cluster_data
  | UpdateCluster string update_cluster_data
  | DeleteCluster string
  | PingCluster string
  | TempPing "string option"

datatype cluster_data =
    ImportData import_cluster_data
  | UpdateData update_cluster_data
  | TempPingData "string option"

definition pod_logs_params :: "stream_pod_logs_params \<Rightarrow> params" where
  "pod_logs_params p =
     (if truthy (sl_container p) then [(''container'', PStr (the (sl_container p)))] else []) @
     (case sl_follow p of None \<Rightarrow> []
      | Some b \<Rightarrow> [(''follow'', PStr (if b then ''1'' else ''0''))]) @
     (case sl_tail p of None \<Rightarrow> []
      | Some n \<Rightarrow> if n > 0 then [(''tail'', PStr (show_int n))] else [])"

fun cluster_query_request :: "cluster_query \<Rightarrow> cluster_data request" where
  "cluster_query_request (ListClusters ps) =
     get_req ''/clusters''
       (map_option (\<lambda>p. opt_param ''keyword'' PStr (lc_keyword p) @
          opt_param ''page'' PNum (lc_page p) @ opt_param ''size'' PNum (lc_size p)) ps)"
| "cluster_query_request (GetCluster code) = get_req (''/clusters/'' @ code) None"
| "cluster_query_request (StreamPodLogs p) =
     get_req (''/clusters/'' @ sl_clusterCode p @ ''/pods/'' @ sl_namespace p @ ''/'' @ sl_pod p @
       ''/logs'') (Some (pod_logs_params p))"

fun cluster_mutation_request :: "cluster_mutation \<Rightarrow> cluster_data request" where
  "cluster_mutation_request (ImportCluster d) = send_req POST ''/clusters'' (Some (ImportData d))"
| "cluster_mutation_request (UpdateCluster code d) =
     send_req PUT (''/clusters/'' @ code) (Some (UpdateData d))"
| "cluster_mutation_request (DeleteCluster code) = send_req DELETE (''/clusters/'' @ code) None"
| "cluster_mutation_request (PingCluster code) =
     send_req POST (''/clusters/'' @ code @ ''/ping'') None"
| "cluster_mutation_request (TempPing d) =
     send_req POST ''/clusters/_/ping'' (Some (TempPingData d))"

text \<open>The tags a query provides, with the codes of its result (\<open>None\<close> while there is none).\<close>

fun cluster_provides :: "cluster_query \<times> string list option \<Rightarrow> tag list" where
  "cluster_provides (ListClusters ps, result) =
     (case result of
        Some codes \<Rightarrow> map (\<lambda>code. Tag ''Cluster'' (IdStr code)) codes @ [list_tag ''Cluster'']
      | None \<Rightarrow> [list_tag ''Cluster''])"
| "cluster_provides (GetCluster code, result) = [Tag ''Cluster'' (IdStr code)]"
| "cluster_provides (StreamPodLogs p, result) = []"

fun cluster_invalidates :: "cluster_mutation \<Rightarrow> tag list" where
  "cluster_invalidates (ImportCluster d) = [list_tag ''Cluster'']"
| "cluster_invalidates (UpdateCluster code d) =
     [Tag ''Cluster'' (IdStr code), list_tag ''Cluster'']"
| "cluster_invalidates (DeleteCluster code) =
     [Tag ''Cluster'' (IdStr code), list_tag ''Cluster'']"
| "cluster_invalidates (PingCluster code) = [Tag ''Cluster'' (IdStr code)]"
| "cluster_invalidates (TempPing d) = []"

subsection \<open>What the tags refresh\<close>

interpretation clusters: tagged_listing cluster_provides cluster_invalidates
  "\<lambda>q. \<exists>ps result. q = (ListClusters ps, result)" "\<lambda>m. \<not> (\<exists>c d. m \<in> {PingCluster c, TempPing d})"
  "list_tag ''Cluster''"
proof
  fix m
  assume "\<not> (\<exists>c d. m \<in> {PingCluster c, TempPing d})"
  then show "list_tag ''Cluster'' \<in> set (cluster_invalidates m)" by (cases m) auto
qed (auto split: option.splits)

text \<open>A ping refreshes the listings that show the cluster, and the cluster itself.\<close>

lemma ping_refreshes:
  "refetched (cluster_provides (ListClusters ps, Some codes)) (cluster_invalidates (PingCluster c)) \<longleftrightarrow>
     c \<in> set codes \<or> c = ''LIST''"
  "refetched (cluster_provides (GetCluster c, result)) (cluster_invalidates (PingCluster c))"
  by (auto simp: refetched_def)

end
