(* ===== verification/ResourceService.thy ===== *)
theory ResourceService
  imports Endpoints
begin

section \<open>The resource and version services\<close>

text \<open>
  \<open>app/services/resource.ts\<close> and \<open>app/services/version.ts\<close>: the requests and cache tags of
  every endpoint. The URL of a resource determines the resource, because each segment is
  encoded; the cache tag of a resource is a plain concatenation, which two resources may share.
\<close>

subsection \<open>Resources\<close>

record list_resources_params =
  lr_code :: string
  lr_apiVersion :: string
  lr_kind :: string
  lr_namespace :: "string option"
  lr_page :: "int option"
  lr_size :: "int option"
  lr_keyword :: "string option"

record get_resource_params =
  gr_code :: string
  gr_apiVersion :: string
  gr_kind :: string
  gr_namespace :: "string option"
  gr_name :: string

record create_resource_params =
  cr_code :: string
  cr_apiVersion :: string
  cr_kind :: string
  cr_yaml :: string

datatype resource_query =
    ListResources list_resources_params
  | GetResource get_resource_params
  | ListNamespaces string

datatype resource_mutation =
    CreateResource create_resource_params
  | UpdateResource get_resource_params string
  | DeleteResource get_resource_params

datatype resource_data = YamlData string

definition enc :: "string \<Rightarrow> string" where
  "enc s = encodeURIComponent s"

definition kind_url :: "string \<Rightarrow> string \<Rightarrow> string \<Rightarrow> string" where
  "kind_url code apiVersion kind =
     ''/clusters/'' @ enc code @ ''/resources/'' @ enc apiVersion @ ''/'' @ enc kind"

definition resource_url :: "get_resource_params \<Rightarrow> string" where
  "resource_url p =
     (if truthy (gr_namespace p)
      then ''/clusters/'' @ enc (gr_code p) @ ''/resources/'' @ enc (gr_apiVersion p) @ ''/'' @
             enc (gr_kind p) @ ''/'' @ enc (the (gr_namespace p)) @ ''/'' @ enc (gr_name p)
      else ''/clusters/'' @ enc (gr_code p) @ ''/resources/'' @ enc (gr_apiVersion p) @ ''/'' @
             enc (gr_kind p) @ ''/'' @ enc (gr_name p))"

definition resource_tag :: "get_resource_params \<Rightarrow> tag" where
  "resource_tag p =
     Tag ''Resource'' (IdStr (gr_code p @ ''-'' @ gr_apiVersion p @ ''-'' @ gr_kind p @ ''-'' @
       or_str (gr_namespace p) [] @ ''-'' @ gr_name p))"

fun resource_query_request :: "resource_query \<Rightarrow> resource_data request" where
  "resource_query_request (ListResources p) =
     get_req (kind_url (lr_code p) (lr_apiVersion p) (lr_kind p))
       (Some (opt_param ''namespace'' PStr (lr_namespace p) @ opt_param ''page'' PNum (lr_page p) @
              opt_param ''size'' PNum (lr_size p) @ opt_param ''keyword'' PStr (lr_keyword p)))"
| "resource_query_request (GetResource p) = get_req (resource_url p) None"
| "resource_query_request (ListNamespaces code) =
     get_req (''/clusters/'' @ enc code @ ''/resources/v1/Namespace'') None"

fun resource_mutation_request :: "resource_mutation \<Rightarrow> resource_data request" where
  "resource_mutation_request (CreateResource p) =
     send_req POST (kind_url (cr_code p) (cr_apiVersion p) (cr_kind p)) (Some (YamlData (cr_yaml p)))"
| "resource_mutation_request (UpdateResource p yaml) =
     send_req PUT (resource_url p) (Some (YamlData yaml))"
| "resource_mutation_request (DeleteResource p) = send_req DELETE (resource_url p) None"

fun resource_provides :: "resource_query \<Rightarrow> tag list" where
  "resource_provides (ListResources p) = [list_tag ''Resource'']"
| "resource_provides (GetResource p) = [resource_tag p]"
| "resource_provides (ListNamespaces code) = []"

fun resource_invalidates :: "resource_mutation \<Rightarrow> tag list" where
  "resource_invalidates (CreateResource p) = [list_tag ''Resource'']"
| "resource_invalidates (UpdateResource p yaml) = [list_tag ''Resource'', resource_tag p]"
| "resource_invalidates (DeleteResource p) = [list_tag ''Resource'', resource_tag p]"

text \<open>
  \<open>transformResponse\<close> of \<open>listNamespaces\<close>, on the names of the items; \<open>None\<close> is a response
  without \<open>items\<close>.
\<close>

definition listNamespaces_transform :: "string list option \<Rightarrow> string list" where
  "listNamespaces_transform items = (case items of None \<Rightarrow> [] | Some ns \<Rightarrow> ns)"

text \<open>The segments that a resource URL consists of.\<close>

definition resource_segments :: "get_resource_params \<Rightarrow> string list" where
  "resource_segments p =
     [''clusters'', gr_code p, ''resources'', gr_apiVersion p, gr_kind p]
       @ (if truthy (gr_namespace p) then [the (gr_namespace p)] else []) @ [gr_name p]"

lemma enc_plain [simp]:
  "encodeURIComponent ''clusters'' = ''clusters''"
  "encodeURIComponent ''resources'' = ''resources''"
  "encodeURIComponent ''v1'' = ''v1''"
  "encodeURIComponent ''Namespace'' = ''Namespace''"
  by (rule encode_unreserved; simp add: unreserved_def)+

lemma resource_url_path: "resource_url p = uri.path (resource_segments p)"
  by (simp add: resource_url_def resource_segments_def uri.path_Cons uri.path_Nil enc_def)

lemma kind_url_path: "kind_url c a k = uri.path [''clusters'', c, ''resources'', a, k]"
  by (simp add: kind_url_def uri.path_Cons uri.path_Nil enc_def)

text \<open>Two parameter records that name the same resource: an empty namespace is none.\<close>

definition same_resource :: "get_resource_params \<Rightarrow> get_resource_params \<Rightarrow> bool" where
  "same_resource p q \<longleftrightarrow>
     gr_code p = gr_code q \<and> gr_apiVersion p = gr_apiVersion q \<and> gr_kind p = gr_kind q
     \<and> or_str (gr_namespace p) [] = or_str (gr_namespace q) [] \<and> gr_name p = gr_name q"

lemma segments_same: "resource_segments p = resource_segments q \<longleftrightarrow> same_resource p q"
proof (cases "truthy (gr_namespace p)")
  case True
  then obtain n where "gr_namespace p = Some n" "n \<noteq> []" by (auto simp: truthy_iff)
  then show ?thesis
    by (cases "gr_namespace q") (auto simp: resource_segments_def same_resource_def or_str_def)
next
  case False
  then have "or_str (gr_namespace p) [] = []" by (cases "gr_namespace p") auto
  with False show ?thesis
    by (cases "gr_namespace q") (auto simp: resource_segments_def same_resource_def or_str_def)
qed

text \<open>
  C39. The URL of a resource names that resource only: the requests that get, update or delete
  two resources go to the same URL exactly when cluster, API version, kind, namespace and name
  agree, whatever characters (slashes, percent signs) these hold, and no such URL is that of
  the listing or creation of a kind.
\<close>

theorem resource_url_identifies:
  "(resource_url p = resource_url q \<longleftrightarrow> same_resource p q)
   \<and> resource_url p \<noteq> kind_url c a k
   \<and> rq_url (resource_query_request (GetResource p)) = resource_url p
   \<and> rq_url (resource_mutation_request (UpdateResource p yaml)) = resource_url p
   \<and> rq_url (resource_mutation_request (DeleteResource p)) = resource_url p
   \<and> rq_url (resource_query_request (ListResources l))
       = kind_url (lr_code l) (lr_apiVersion l) (lr_kind l)
   \<and> rq_url (resource_mutation_request (CreateResource n))
       = kind_url (cr_code n) (cr_apiVersion n) (cr_kind n)"
proof -
  have "resource_segments p = resource_segments q \<longleftrightarrow> same_resource p q"
    by (rule segments_same)
  then have "resource_url p = resource_url q \<longleftrightarrow> same_resource p q"
    by (simp only: resource_url_path uri.path_inject)
  moreover have "resource_url p \<noteq> kind_url c a k"
    unfolding resource_url_path kind_url_path uri.path_inject
    by (simp add: resource_segments_def)
  ultimately show ?thesis by (simp add: get_req_def send_req_def)
qed

subsection \<open>Versions\<close>

record version_target =
  vt_code :: string
  vt_apiVersion :: string
  vt_kind :: string
  vt_namespace :: "string option"
  vt_name :: string

datatype version_query = ListVersions version_target | GetVersionDiff version_target int int

datatype version_mutation = RollbackVersion version_target int

record rollback_data =
  rb_cluster_code :: string
  rb_namespace :: "string option"
  rb_api_version :: string
  rb_kind :: string
  rb_name :: string
  rb_seq :: int

definition CURRENT_VERSION_SEQ :: int where "CURRENT_VERSION_SEQ = 0"

definition versionSeqLabel :: "int \<Rightarrow> string" where
  "versionSeqLabel seq = (if seq = CURRENT_VERSION_SEQ then [CHR 0xE5, CHR 0xBD, CHR 0x93, CHR 0xE5, CHR 0x89, CHR 0x8D, CHR 0xE7, CHR 0x89,
      CHR 0x88, CHR 0xE6, CHR 0x9C, CHR 0xAC] else ''#'' @ show_int seq)"

definition target_params :: "version_target \<Rightarrow> params" where
  "target_params t =
     [(''cluster_code'', PStr (vt_code t))] @ opt_param ''namespace'' PStr (vt_namespace t) @
     [(''api_version'', PStr (vt_apiVersion t)), (''kind'', PStr (vt_kind t)),
      (''name'', PStr (vt_name t))]"

fun version_query_request :: "version_query \<Rightarrow> rollback_data request" where
  "version_query_request (ListVersions t) = get_req ''/versions'' (Some (target_params t))"
| "version_query_request (GetVersionDiff t a b) =
     get_req ''/versions/diff''
       (Some (target_params t @ [(''seq_a'', PNum a), (''seq_b'', PNum b)]))"

fun version_mutation_request :: "version_mutation \<Rightarrow> rollback_data request" where
  "version_mutation_request (RollbackVersion t seq) =
     send_req POST ''/versions/rollback''
       (Some \<lparr>rb_cluster_code = vt_code t, rb_namespace = vt_namespace t,
              rb_api_version = vt_apiVersion t, rb_kind = vt_kind t, rb_name = vt_name t,
              rb_seq = seq\<rparr>)"

fun version_provides :: "version_query \<Rightarrow> tag list" where
  "version_provides (ListVersions t) = [list_tag ''Version'']"
| "version_provides (GetVersionDiff t a b) = []"

fun version_invalidates :: "version_mutation \<Rightarrow> tag list" where
  "version_invalidates (RollbackVersion t seq) = [list_tag ''Version'']"

lemma versionSeqLabel_inject: "versionSeqLabel a = versionSeqLabel b \<longleftrightarrow> a = b"
  by (auto simp: versionSeqLabel_def CURRENT_VERSION_SEQ_def)

end
