(* ===== verification/RbacService.thy ===== *)
theory RbacService
  imports Endpoints
begin

section \<open>The access control service\<close>

text \<open>
  \<open>app/services/rbac.ts\<close>: permission points, roles, users and the audit log.
\<close>

subsection \<open>Data\<close>

record permission =
  pm_code :: string
  pm_name :: string
  pm_module :: string
  pm_description :: "string option"
  pm_action :: "string option"

record role =
  ro_id :: int
  ro_code :: string
  ro_name :: string
  ro_description :: "string option"
  ro_builtin :: int
  ro_status :: int
  ro_perm_count :: "int option"
  ro_user_count :: "int option"
  ro_created_at :: "string option"

record list_params =
  lp_page :: "int option"
  lp_page_size :: "int option"
  lp_keyword :: "string option"
  lp_status :: "int option"

record create_role_body =
  crb_code :: string
  crb_name :: string
  crb_description :: "string option"
  crb_perms :: "string list option"

record update_role_body =
  urb_name :: "string option"
  urb_description :: "string option"
  urb_status :: "int option"

record user =
  us_id :: int
  us_username :: string
  us_display_name :: "string option"
  us_email :: "string option"
  us_phone :: "string option"
  us_auth_source :: "string option"
  us_status :: int
  us_last_login_at :: "string option"
  us_created_at :: "string option"
  us_role_count :: "int option"

record create_user_body =
  cub_username :: string
  cub_display_name :: "string option"
  cub_email :: "string option"
  cub_phone :: "string option"
  cub_password :: string
  cub_auth_source :: "string option"
  cub_status :: "int option"

record update_user_body =
  uub_display_name :: "string option"
  uub_email :: "string option"
  uub_phone :: "string option"
  uub_status :: "int option"

datatype rbac_scope = RScopePlatform | RScopeCluster | RScopeNamespace

record bind_user_role_body =
  bur_role_id :: int
  bur_scope_type :: rbac_scope
  bur_cluster_code :: "string option"
  bur_namespace :: "string option"

record list_audit_logs_params =
  la_page :: "int option"
  la_page_size :: "int option"
  la_username :: "string option"
  la_module :: "string option"
  la_action :: "string option"
  la_status :: "string option"
  la_cluster_code :: "string option"
  la_namespace :: "string option"
  la_target_type :: "string option"
  la_target_id :: "string option"
  la_trace_id :: "string option"
  la_start_time :: "string option"
  la_end_time :: "string option"

datatype rbac_query =
    ListPermissions "string option option"
  | ListRoles "list_params option"
  | GetRolePermissions int
  | ListUsers "list_params option"
  | ListUserRoles int
  | ListAuditLogs "list_audit_logs_params option"

datatype rbac_mutation =
    CreateRole create_role_body
  | UpdateRole int update_role_body
  | DeleteRole int
  | SetRolePermissions int "string list"
  | CreateUser create_user_body
  | UpdateUser int update_user_body
  | UpdateUserStatus int int
  | ResetPassword int string
  | BindUserRole int bind_user_role_body
  | UnbindUserRole int bind_user_role_body

datatype rbac_data =
    CreateRoleData create_role_body
  | UpdateRoleData update_role_body
  | PermsData "string list"
  | CreateUserData create_user_body
  | UpdateUserData update_user_body
  | StatusData int
  | PasswordData string
  | BindData bind_user_role_body

subsection \<open>Requests\<close>

definition list_query :: "list_params \<Rightarrow> params" where
  "list_query p = opt_param ''page'' PNum (lp_page p) @ opt_param ''page_size'' PNum (lp_page_size p)
     @ opt_param ''keyword'' PStr (lp_keyword p) @ opt_param ''status'' PNum (lp_status p)"

definition audit_query :: "list_audit_logs_params \<Rightarrow> params" where
  "audit_query p =
     opt_param ''page'' PNum (la_page p) @ opt_param ''page_size'' PNum (la_page_size p) @
     opt_param ''username'' PStr (la_username p) @ opt_param ''module'' PStr (la_module p) @
     opt_param ''action'' PStr (la_action p) @ opt_param ''status'' PStr (la_status p) @
     opt_param ''cluster_code'' PStr (la_cluster_code p) @
     opt_param ''namespace'' PStr (la_namespace p) @
     opt_param ''target_type'' PStr (la_target_type p) @
     opt_param ''target_id'' PStr (la_target_id p) @ opt_param ''trace_id'' PStr (la_trace_id p) @
     opt_param ''start_time'' PStr (la_start_time p) @ opt_param ''end_time'' PStr (la_end_time p)"

fun rbac_query_request :: "rbac_query \<Rightarrow> rbac_data request" where
  "rbac_query_request (ListPermissions ps) =
     get_req ''/permissions'' (map_option (opt_param ''module'' PStr) ps)"
| "rbac_query_request (ListRoles ps) = get_req ''/roles'' (map_option list_query ps)"
| "rbac_query_request (GetRolePermissions i) =
     get_req (''/roles/'' @ show_int i @ ''/permissions'') None"
| "rbac_query_request (ListUsers ps) = get_req ''/users'' (map_option list_query ps)"
| "rbac_query_request (ListUserRoles i) = get_req (''/users/'' @ show_int i @ ''/roles'') None"
| "rbac_query_request (ListAuditLogs ps) = get_req ''/audit-logs'' (map_option audit_query ps)"

fun rbac_mutation_request :: "rbac_mutation \<Rightarrow> rbac_data request" where
  "rbac_mutation_request (CreateRole b) = send_req POST ''/roles'' (Some (CreateRoleData b))"
| "rbac_mutation_request (UpdateRole i b) =
     send_req PUT (''/roles/'' @ show_int i) (Some (UpdateRoleData b))"
| "rbac_mutation_request (DeleteRole i) = send_req DELETE (''/roles/'' @ show_int i) None"
| "rbac_mutation_request (SetRolePermissions i ps) =
     send_req POST (''/roles/'' @ show_int i @ ''/permissions'') (Some (PermsData ps))"
| "rbac_mutation_request (CreateUser b) = send_req POST ''/users'' (Some (CreateUserData b))"
| "rbac_mutation_request (UpdateUser i b) =
     send_req PUT (''/users/'' @ show_int i) (Some (UpdateUserData b))"
| "rbac_mutation_request (UpdateUserStatus i s) =
     send_req PATCH (''/users/'' @ show_int i @ ''/status'') (Some (StatusData s))"
| "rbac_mutation_request (ResetPassword i p) =
     send_req POST (''/users/'' @ show_int i @ ''/reset-password'') (Some (PasswordData p))"
| "rbac_mutation_request (BindUserRole i b) =
     send_req POST (''/users/'' @ show_int i @ ''/roles'') (Some (BindData b))"
| "rbac_mutation_request (UnbindUserRole i b) =
     send_req DELETE (''/users/'' @ show_int i @ ''/roles'') (Some (BindData b))"

subsection \<open>Cache tags\<close>

text \<open>\<open>result\<close> holds the ids of the items of a listing, \<open>None\<close> while there is no result.\<close>

definition listing_tags :: "string \<Rightarrow> int list option \<Rightarrow> tag list" where
  "listing_tags t result =
     (case result of
        Some is \<Rightarrow> map (\<lambda>i. Tag t (IdNum i)) is @ [list_tag t]
      | None \<Rightarrow> [list_tag t])"

fun rbac_provides :: "rbac_query \<times> int list option \<Rightarrow> tag list" where
  "rbac_provides (ListPermissions ps, result) = [list_tag ''Permission'']"
| "rbac_provides (ListRoles ps, result) = listing_tags ''Role'' result"
| "rbac_provides (GetRolePermissions i, result) =
     [Tag ''Permission'' (IdStr (''ROLE-'' @ show_int i))]"
| "rbac_provides (ListUsers ps, result) = listing_tags ''User'' result"
| "rbac_provides (ListUserRoles i, result) = [Tag ''User'' (IdStr (''ROLES-'' @ show_int i))]"
| "rbac_provides (ListAuditLogs ps, result) = [list_tag ''AuditLog'']"

fun rbac_invalidates :: "rbac_mutation \<Rightarrow> tag list" where
  "rbac_invalidates (CreateRole b) = [list_tag ''Role'']"
| "rbac_invalidates (UpdateRole i b) = [Tag ''Role'' (IdNum i), list_tag ''Role'']"
| "rbac_invalidates (DeleteRole i) = [Tag ''Role'' (IdNum i), list_tag ''Role'']"
| "rbac_invalidates (SetRolePermissions i ps) =
     [Tag ''Permission'' (IdStr (''ROLE-'' @ show_int i)), Tag ''Role'' (IdNum i), list_tag ''Role'']"
| "rbac_invalidates (CreateUser b) = [list_tag ''User'']"
| "rbac_invalidates (UpdateUser i b) = [Tag ''User'' (IdNum i), list_tag ''User'']"
| "rbac_invalidates (UpdateUserStatus i s) = [Tag ''User'' (IdNum i), list_tag ''User'']"
| "rbac_invalidates (ResetPassword i p) = []"
| "rbac_invalidates (BindUserRole i b) =
     [Tag ''User'' (IdStr (''ROLES-'' @ show_int i)), Tag ''User'' (IdNum i), list_tag ''User'']"
| "rbac_invalidates (UnbindUserRole i b) =
     [Tag ''User'' (IdStr (''ROLES-'' @ show_int i)), Tag ''User'' (IdNum i), list_tag ''User'']"

subsection \<open>What the tags refresh\<close>

fun is_role_change :: "rbac_mutation \<Rightarrow> bool" where
  "is_role_change (CreateRole b) = True"
| "is_role_change (UpdateRole i b) = True"
| "is_role_change (DeleteRole i) = True"
| "is_role_change (SetRolePermissions i ps) = True"
| "is_role_change m = False"

interpretation role_listing: tagged_listing rbac_provides rbac_invalidates
  "\<lambda>q. \<exists>ps result. q = (ListRoles ps, result)" is_role_change "list_tag ''Role''"
proof
  fix m
  show "is_role_change m \<Longrightarrow> list_tag ''Role'' \<in> set (rbac_invalidates m)" by (cases m) simp_all
qed (auto simp: listing_tags_def split: option.splits)

interpretation user_listing: tagged_listing rbac_provides rbac_invalidates
  "\<lambda>q. \<exists>ps result. q = (ListUsers ps, result)"
  "\<lambda>m. \<not> is_role_change m \<and> \<not> (\<exists>i p. m = ResetPassword i p)" "list_tag ''User''"
proof
  fix m
  assume "\<not> is_role_change m \<and> \<not> (\<exists>i p. m = ResetPassword i p)"
  then show "list_tag ''User'' \<in> set (rbac_invalidates m)" by (cases m) simp_all
qed (auto simp: listing_tags_def split: option.splits)

text \<open>The two drawers: the permissions of a role and the roles of a user.\<close>

lemma drawers_refetched:
  "refetched (rbac_provides (GetRolePermissions i, result)) (rbac_invalidates (SetRolePermissions i ps))"
  "refetched (rbac_provides (ListUserRoles j, result)) (rbac_invalidates (BindUserRole j b))"
  "refetched (rbac_provides (ListUserRoles j, result)) (rbac_invalidates (UnbindUserRole j b))"
  by (simp_all add: refetched_def)

text \<open>
  The number of users that the role listing shows is not among what a binding refreshes: the
  listing of the roles keeps its old counts after a role was bound or unbound.
\<close>

lemma binding_keeps_role_listing:
  "\<not> refetched (rbac_provides (ListRoles ps, result)) (rbac_invalidates (BindUserRole i b))"
  "\<not> refetched (rbac_provides (ListRoles ps, result)) (rbac_invalidates (UnbindUserRole i b))"
  by (auto simp: refetched_def listing_tags_def split: option.splits)

end
