(* ===== verification/BackupService.thy ===== *)
theory BackupService
  imports Endpoints
begin

section \<open>The backup service\<close>

text \<open>
  \<open>app/services/backup.ts\<close>: backups, restores, and the two ways to download a backup.
\<close>

datatype storage_type = StorageLocal | StorageNfs | StorageS3

datatype backup_status = BsPending | BsRunning | BsSuccess | BsFailed | BsCancelled

datatype backup_mode = BmSingle | BmNamespaceBatch

record backup =
  bk_id :: int
  bk_cluster_code :: string
  bk_namespace :: "string option"
  bk_target_kind :: "string option"
  bk_target_name :: "string option"
  bk_backup_type :: string
  bk_storage_type :: string
  bk_storage_path :: "string option"
  bk_status :: backup_status
  bk_size_bytes :: "int option"
  bk_operator :: "string option"
  bk_operator_id :: "int option"
  bk_started_at :: "string option"
  bk_completed_at :: "string option"
  bk_error_message :: "string option"
  bk_object_count :: "int option"
  bk_created_at :: "string option"
  bk_updated_at :: "string option"

record list_backups_params =
  lb_keyword :: "string option"
  lb_cluster_code :: "string option"
  lb_status :: "backup_status option"
  lb_backup_type :: "string option"
  lb_page :: "int option"
  lb_size :: "int option"

record create_backup_body =
  cb_mode :: "backup_mode option"
  cb_namespace :: "string option"
  cb_namespaces :: "string list option"
  cb_target_kind :: "string option"
  cb_target_name :: "string option"
  cb_kind_filter :: "string list option"
  cb_storage_type :: "storage_type option"

datatype restore_mode = RmOverwrite | RmCreateNew

record restore_backup_body =
  rs_target_cluster_code :: "string option"
  rs_target_namespace :: "string option"
  rs_mode :: "restore_mode option"

datatype backup_query = ListBackups "list_backups_params option" | GetBackup int

datatype backup_mutation =
    CreateBackup string create_backup_body
  | RestoreBackup int "restore_backup_body option"
  | DeleteBackup int

datatype backup_data = CreateData create_backup_body | RestoreData "restore_backup_body option"

definition show_backup_status :: "backup_status \<Rightarrow> string" where
  "show_backup_status s =
     (case s of BsPending \<Rightarrow> ''pending'' | BsRunning \<Rightarrow> ''running'' | BsSuccess \<Rightarrow> ''success''
      | BsFailed \<Rightarrow> ''failed'' | BsCancelled \<Rightarrow> ''cancelled'')"

fun backup_query_request :: "backup_query \<Rightarrow> backup_data request" where
  "backup_query_request (ListBackups ps) =
     get_req ''/backups''
       (map_option (\<lambda>p. opt_param ''keyword'' PStr (lb_keyword p) @
          opt_param ''cluster_code'' PStr (lb_cluster_code p) @
          opt_param ''status'' (PStr \<circ> show_backup_status) (lb_status p) @
          opt_param ''backup_type'' PStr (lb_backup_type p) @
          opt_param ''page'' PNum (lb_page p) @ opt_param ''size'' PNum (lb_size p)) ps)"
| "backup_query_request (GetBackup i) = get_req (''/backups/'' @ show_int i) None"

fun backup_mutation_request :: "backup_mutation \<Rightarrow> backup_data request" where
  "backup_mutation_request (CreateBackup code b) =
     send_req POST (''/clusters/'' @ encodeURIComponent code @ ''/backups'') (Some (CreateData b))"
| "backup_mutation_request (RestoreBackup i b) =
     send_req POST (''/backups/'' @ show_int i @ ''/restore'') (Some (RestoreData b))"
| "backup_mutation_request (DeleteBackup i) = send_req DELETE (''/backups/'' @ show_int i) None"

fun backup_provides :: "backup_query \<times> int list option \<Rightarrow> tag list" where
  "backup_provides (ListBackups ps, result) =
     (case result of
        Some is \<Rightarrow> map (\<lambda>i. Tag ''Backup'' (IdNum i)) is @ [list_tag ''Backup'']
      | None \<Rightarrow> [list_tag ''Backup''])"
| "backup_provides (GetBackup i, result) = [Tag ''Backup'' (IdNum i)]"

fun backup_invalidates :: "backup_mutation \<Rightarrow> tag list" where
  "backup_invalidates (CreateBackup code b) = [list_tag ''Backup'']"
| "backup_invalidates (RestoreBackup i b) = [list_tag ''Backup'']"
| "backup_invalidates (DeleteBackup i) = [Tag ''Backup'' (IdNum i), list_tag ''Backup'']"

interpretation backups: tagged_listing backup_provides backup_invalidates
  "\<lambda>q. \<exists>ps result. q = (ListBackups ps, result)" "\<lambda>m. True" "list_tag ''Backup''"
proof
  fix m
  show "list_tag ''Backup'' \<in> set (backup_invalidates m)" by (cases m) simp_all
qed (auto split: option.splits)

subsection \<open>Downloads\<close>

text \<open>The URL and the file name that are handed to \<open>download\<close>, or the error thrown instead.\<close>

datatype download_call = Download string string | DownloadError string

text \<open>The trigger of \<open>useDownloadBackup\<close>; its loading flag is set for the time of the call.\<close>

definition useDownloadBackup_trigger :: "int \<Rightarrow> string option \<Rightarrow> download_call" where
  "useDownloadBackup_trigger i filename =
     Download (''/backups/'' @ show_int i @ ''/download'')
       (or_str filename (''backup-'' @ show_int i @ ''.yaml''))"

definition downloadBackupById :: "backup \<Rightarrow> download_call" where
  "downloadBackupById record =
     (if bk_backup_type record = ''namespace_batch''
      then DownloadError [CHR 0xE6, CHR 0x89, CHR 0xB9, CHR 0xE9, CHR 0x87, CHR 0x8F, CHR 0xE5, CHR 0xA4,
      CHR 0x87, CHR 0xE4, CHR 0xBB, CHR 0xBD, CHR 0xE6, CHR 0x9A, CHR 0x82, CHR 0xE4,
      CHR 0xB8, CHR 0x8D, CHR 0xE6, CHR 0x94, CHR 0xAF, CHR 0xE6, CHR 0x8C, CHR 0x81,
      CHR 0xE4, CHR 0xB8, CHR 0x8B, CHR 0xE8, CHR 0xBD, CHR 0xBD]
      else
        let namePart = or_str (bk_target_name record)
              (or_str (bk_target_kind record) (show_int (bk_id record)));
            filename = ''backup-'' @ bk_cluster_code record @ ''-'' @ namePart @ ''-'' @
              show_int (bk_id record) @ ''.yaml''
        in Download (''/backups/'' @ show_int (bk_id record) @ ''/download'') filename)"

end
