(* ===== verification/HelmService.thy ===== *)
theory HelmService
  imports Endpoints
begin

section \<open>The Helm service\<close>

text \<open>
  \<open>app/services/helm.ts\<close>: releases of a cluster, chart repositories and charts.
\<close>

record helm_release =
  hr_name :: string
  hr_namespace :: string
  hr_revision :: string
  hr_status :: string
  hr_chart :: string
  hr_appVersion :: string
  hr_updated :: string

record install_release_body =
  ir_release_name :: string
  ir_namespace :: string
  ir_chart_ref :: string
  ir_repo_url :: "string option"
  ir_values :: "string option"
  ir_version :: "string option"
  ir_wait :: "bool option"
  ir_dry_run :: "bool option"

record helm_history_item =
  hh_revision :: int
  hh_status :: string
  hh_chart :: string
  hh_app_version :: string
  hh_description :: string
  hh_updated :: string

record helm_repo =
  rp_name :: string
  rp_url :: string

record add_repo_body =
  ar_name :: string
  ar_url :: string
  ar_username :: "string option"
  ar_password :: "string option"

record helm_chart =
  hc_name :: string
  hc_version :: string
  hc_app_version :: string
  hc_description :: string

datatype helm_query =
    ListReleases string "string option"
  | ListHistory string string string
  | ListRepos
  | SearchCharts "string option" "string option"

datatype helm_mutation =
    InstallRelease string install_release_body
  | UninstallRelease string string string
  | RollbackRelease string string string "int option"
  | AddRepo add_repo_body
  | RemoveRepo string
  | UpdateRepos "string option"

datatype helm_data = InstallData install_release_body | AddRepoData add_repo_body

definition releases_url :: "string \<Rightarrow> string" where
  "releases_url clusterCode = ''/clusters/'' @ encodeURIComponent clusterCode @ ''/helm/releases''"

definition release_url :: "string \<Rightarrow> string \<Rightarrow> string \<Rightarrow> string" where
  "release_url clusterCode namespace name =
     releases_url clusterCode @ ''/'' @ encodeURIComponent namespace @ ''/'' @
     encodeURIComponent name"

text \<open>A truthy value as a parameter; a revision is truthy when it is not 0.\<close>

definition truthy_param :: "string \<Rightarrow> string option \<Rightarrow> params" where
  "truthy_param k v = (if truthy v then [(k, PStr (the v))] else [])"

fun helm_query_request :: "helm_query \<Rightarrow> helm_data request" where
  "helm_query_request (ListReleases c ns) =
     get_req (releases_url c) (if truthy ns then Some [(''namespace'', PStr (the ns))] else None)"
| "helm_query_request (ListHistory c ns n) = get_req (release_url c ns n @ ''/history'') None"
| "helm_query_request ListRepos = get_req ''/helm/repos'' None"
| "helm_query_request (SearchCharts repo keyword) =
     get_req ''/helm/charts'' (Some (truthy_param ''repo'' repo @ truthy_param ''keyword'' keyword))"

fun helm_mutation_request :: "helm_mutation \<Rightarrow> helm_data request" where
  "helm_mutation_request (InstallRelease c b) = send_req POST (releases_url c) (Some (InstallData b))"
| "helm_mutation_request (UninstallRelease c ns n) = send_req DELETE (release_url c ns n) None"
| "helm_mutation_request (RollbackRelease c ns n revision) =
     (send_req POST (release_url c ns n @ ''/rollback'') None)
       \<lparr>rq_params := (case revision of
          None \<Rightarrow> None
        | Some r \<Rightarrow> if r = 0 then None else Some [(''revision'', PNum r)])\<rparr>"
| "helm_mutation_request (AddRepo b) = send_req POST ''/helm/repos'' (Some (AddRepoData b))"
| "helm_mutation_request (RemoveRepo n) =
     send_req DELETE (''/helm/repos/'' @ encodeURIComponent n) None"
| "helm_mutation_request (UpdateRepos n) =
     (send_req POST ''/helm/repos/update'' None)
       \<lparr>rq_params := (if truthy n then Some [(''name'', PStr (the n))] else None)\<rparr>"

fun helm_provides :: "helm_query \<Rightarrow> tag list" where
  "helm_provides (ListReleases c ns) = [list_tag ''HelmRelease'']"
| "helm_provides (ListHistory c ns n) = []"
| "helm_provides ListRepos = [list_tag ''HelmRepo'']"
| "helm_provides (SearchCharts r k) = [list_tag ''HelmChart'']"

fun helm_invalidates :: "helm_mutation \<Rightarrow> tag list" where
  "helm_invalidates (InstallRelease c b) = [list_tag ''HelmRelease'']"
| "helm_invalidates (UninstallRelease c ns n) = [list_tag ''HelmRelease'']"
| "helm_invalidates (RollbackRelease c ns n r) = [list_tag ''HelmRelease'']"
| "helm_invalidates (AddRepo b) = [list_tag ''HelmRepo'', list_tag ''HelmChart'']"
| "helm_invalidates (RemoveRepo n) = [list_tag ''HelmRepo'', list_tag ''HelmChart'']"
| "helm_invalidates (UpdateRepos n) = [list_tag ''HelmRepo'', list_tag ''HelmChart'']"

fun is_repo_change :: "helm_mutation \<Rightarrow> bool" where
  "is_repo_change (AddRepo b) = True"
| "is_repo_change (RemoveRepo n) = True"
| "is_repo_change (UpdateRepos n) = True"
| "is_repo_change m = False"

interpretation releases: tagged_listing helm_provides helm_invalidates
  "\<lambda>q. \<exists>c ns. q = ListReleases c ns" "\<lambda>m. \<not> is_repo_change m" "list_tag ''HelmRelease''"
proof
  fix m
  show "\<not> is_repo_change m \<Longrightarrow> list_tag ''HelmRelease'' \<in> set (helm_invalidates m)" by (cases m) simp_all
qed auto

interpretation repositories: tagged_listing helm_provides helm_invalidates
  "\<lambda>q. q = ListRepos" is_repo_change "list_tag ''HelmRepo''"
proof
  fix m
  show "is_repo_change m \<Longrightarrow> list_tag ''HelmRepo'' \<in> set (helm_invalidates m)" by (cases m) simp_all
qed auto

interpretation charts: tagged_listing helm_provides helm_invalidates
  "\<lambda>q. \<exists>r k. q = SearchCharts r k" is_repo_change "list_tag ''HelmChart''"
proof
  fix m
  show "is_repo_change m \<Longrightarrow> list_tag ''HelmChart'' \<in> set (helm_invalidates m)" by (cases m) simp_all
qed auto

text \<open>The history of a release has no tag: a rollback does not refresh it.\<close>

lemma rollback_keeps_history:
  "\<not> refetched (helm_provides (ListHistory c ns n)) (helm_invalidates (RollbackRelease c' ns' n' r))"
  by (simp add: refetched_def)

end
