(* ===== verification/Services.thy ===== *)
theory Services
  imports ClusterService ResourceService RbacService BackupService HelmService
begin

section \<open>The services together\<close>

text \<open>
  The contract of a listing, interpreted on the resource and version services as well; with the
  interpretations in the theories of the other services this says which mutations refresh which tables.
\<close>

lemma same_resource_tag: "same_resource p q \<Longrightarrow> resource_tag p = resource_tag q"
  by (simp add: same_resource_def resource_tag_def)

interpretation resources: tagged_listing resource_provides resource_invalidates
  "\<lambda>q. \<exists>p. q = ListResources p" "\<lambda>m. True" "list_tag ''Resource''"
proof
  fix m
  show "list_tag ''Resource'' \<in> set (resource_invalidates m)" by (cases m) simp_all
qed auto

interpretation versions: tagged_listing version_provides version_invalidates
  "\<lambda>q. \<exists>t. q = ListVersions t" "\<lambda>m. True" "list_tag ''Version''"
proof
  fix m
  show "list_tag ''Version'' \<in> set (version_invalidates m)" by (cases m) simp
qed auto

text \<open>An edit or a deletion reaches the cached reads of the resource however its namespace was written.\<close>

lemma edit_refreshes_reads:
  assumes "same_resource p q"
  shows "refetched (resource_provides (GetResource q)) (resource_invalidates (UpdateResource p yaml))"
    and "refetched (resource_provides (GetResource q)) (resource_invalidates (DeleteResource p))"
  using same_resource_tag [OF assms] by (simp_all add: refetched_def)

text \<open>
  What no tag refreshes: the namespaces of a cluster after one was created or deleted as a resource, and
  the comparison of two versions, also with the current one.
\<close>

lemma namespaces_not_refreshed:
  "\<not> refetched (resource_provides (ListNamespaces c)) (resource_invalidates m)"
  "\<not> refetched (version_provides (GetVersionDiff t a b)) (version_invalidates mv)"
  by (simp_all add: refetched_def)

end
