(* ===== verification/JsNumber.thy ===== *)
theory JsNumber
  imports Prelude Complex_Main
begin

section \<open>Numbers read from text\<close>

text \<open>
  \<open>parseInt(s, 10)\<close>, \<open>parseFloat(s)\<close> and \<open>Number(s)\<close> of JavaScript. A number is an exact
  rational, \<open>None\<close> is \<open>NaN\<close>; \<open>JsDouble\<close> rounds it where the code computes with it. The word \<open>Infinity\<close>
  is left out.
\<close>

definition js_space :: "char \<Rightarrow> bool" where
  "js_space c \<longleftrightarrow> c \<in> {CHR '' '', CHR 0x09, CHR 0x0A, CHR 0x0B, CHR 0x0C, CHR 0x0D}"

definition js_trim :: "string \<Rightarrow> string" where
  "js_trim s = rev (dropWhile js_space (rev (dropWhile js_space s)))"

definition is_digit :: "char \<Rightarrow> bool" where
  "is_digit c \<longleftrightarrow> 48 \<le> (of_char c :: nat) \<and> (of_char c :: nat) \<le> 57"

text \<open>An optional sign and the rest.\<close>

definition read_sign :: "string \<Rightarrow> int \<times> string" where
  "read_sign s = (case s of
     [] \<Rightarrow> (1, [])
   | c # cs \<Rightarrow> if c = CHR ''-'' then (- 1, cs) else if c = CHR ''+'' then (1, cs) else (1, s))"

definition parseInt :: "string \<Rightarrow> int option" where
  "parseInt s =
     (let (sg, t) = read_sign (dropWhile js_space s); ds = takeWhile is_digit t
      in if ds = [] then None else Some (sg * int (read_nat ds)))"

text \<open>The exponent part, read only when it has digits.\<close>

definition read_exponent :: "string \<Rightarrow> int \<times> string" where
  "read_exponent s = (case s of
     [] \<Rightarrow> (0, s)
   | c # cs \<Rightarrow>
       if c = CHR ''e'' \<or> c = CHR ''E'' then
         (let (sg, t) = read_sign cs; ds = takeWhile is_digit t
          in if ds = [] then (0, s) else (sg * int (read_nat ds), dropWhile is_digit t))
       else (0, s))"

text \<open>The longest prefix that is a decimal literal: its value and the rest.\<close>

definition read_decimal :: "string \<Rightarrow> (rat \<times> string) option" where
  "read_decimal s =
     (let (sg, t) = read_sign s;
          ip = takeWhile is_digit t;
          r = dropWhile is_digit t;
          (fp, r2) = (case r of
              c # cs \<Rightarrow> if c = CHR ''.'' then (takeWhile is_digit cs, dropWhile is_digit cs) else ([], r)
            | [] \<Rightarrow> ([], r));
          (ex, r3) = read_exponent r2
      in if ip = [] \<and> fp = [] then None
         else let m = of_int sg * of_nat (read_nat (ip @ fp)) / 10 ^ length fp
              in Some (if 0 \<le> ex then m * 10 ^ nat ex else m / 10 ^ nat (- ex), r3))"

definition parseFloat :: "string \<Rightarrow> rat option" where
  "parseFloat s = map_option fst (read_decimal (dropWhile js_space s))"

definition radix_digit :: "nat \<Rightarrow> char \<Rightarrow> nat option" where
  "radix_digit b c =
     (let n = of_char c :: nat;
          v = (if 48 \<le> n \<and> n \<le> 57 then n - 48
               else if 97 \<le> n \<and> n \<le> 122 then n - 87
               else if 65 \<le> n \<and> n \<le> 90 then n - 55 else b)
      in if v < b then Some v else None)"

fun read_radix :: "nat \<Rightarrow> nat \<Rightarrow> string \<Rightarrow> nat option" where
  "read_radix b acc [] = Some acc"
| "read_radix b acc (c # cs) =
     (case radix_digit b c of None \<Rightarrow> None | Some d \<Rightarrow> read_radix b (b * acc + d) cs)"

definition radix_of :: "char \<Rightarrow> nat option" where
  "radix_of c =
     (if c = CHR ''x'' \<or> c = CHR ''X'' then Some 16
      else if c = CHR ''o'' \<or> c = CHR ''O'' then Some 8
      else if c = CHR ''b'' \<or> c = CHR ''B'' then Some 2 else None)"

definition js_Number :: "string \<Rightarrow> rat option" where
  "js_Number s =
     (case js_trim s of
        [] \<Rightarrow> Some 0
      | t \<Rightarrow>
          (case t of
             CHR ''0'' # x # d # ds \<Rightarrow>
               (case radix_of x of
                  Some b \<Rightarrow> map_option of_nat (read_radix b 0 (d # ds))
                | None \<Rightarrow> (case read_decimal t of Some (v, []) \<Rightarrow> Some v | _ \<Rightarrow> None))
           | _ \<Rightarrow> (case read_decimal t of Some (v, []) \<Rightarrow> Some v | _ \<Rightarrow> None)))"

text \<open>\<open>Math.round\<close>.\<close>

definition math_round :: "rat \<Rightarrow> int" where
  "math_round x = \<lfloor>x + 1 / 2\<rfloor>"

lemma show_nat_is_digit: "list_all is_digit (show_nat n)"
  using show_nat_digits by (auto simp: list_all_iff is_digit_def)

lemma read_decimal_nat:
  assumes "r = [] \<or> \<not> is_digit (hd r) \<and> hd r \<noteq> CHR ''.'' \<and> hd r \<noteq> CHR ''e'' \<and> hd r \<noteq> CHR ''E''"
  shows "read_decimal (show_nat n @ r) = Some (of_nat n, r)"
proof -
  obtain d ds where n: "show_nat n = d # ds" by (cases "show_nat n") auto
  then have d: "is_digit d" using show_nat_is_digit [of n] by simp
  then have sign: "read_sign (show_nat n @ r) = (1, show_nat n @ r)"
    by (auto simp: read_sign_def n is_digit_def)
  have all: "\<forall>c \<in> set (show_nat n). is_digit c"
    using show_nat_is_digit by (simp add: list_all_iff)
  have tk: "takeWhile is_digit (show_nat n @ r) = show_nat n"
    "dropWhile is_digit (show_nat n @ r) = r"
    using assms all by (cases r; simp add: takeWhile_append2 dropWhile_append2)+
  have ex: "read_exponent r = (0, r)"
    using assms by (cases r) (auto simp: read_exponent_def)
  have fp: "(case r of c # cs \<Rightarrow> if c = CHR ''.'' then (takeWhile is_digit cs, dropWhile is_digit cs)
      else ([], r) | [] \<Rightarrow> ([], r)) = ([], r)"
    using assms by (cases r) auto
  show ?thesis
    unfolding read_decimal_def sign Let_def prod.case tk fp ex by simp
qed

lemma parseFloat_nat:
  assumes "r = [] \<or> \<not> is_digit (hd r) \<and> hd r \<noteq> CHR ''.'' \<and> hd r \<noteq> CHR ''e'' \<and> hd r \<noteq> CHR ''E''"
  shows "parseFloat (show_nat n @ r) = Some (of_nat n)"
proof -
  obtain d ds where n: "show_nat n = d # ds" by (cases "show_nat n") auto
  then have "is_digit d" using show_nat_is_digit [of n] by simp
  then have "dropWhile js_space (show_nat n @ r) = show_nat n @ r"
    by (auto simp: n js_space_def is_digit_def)
  then show ?thesis by (simp add: parseFloat_def read_decimal_nat [OF assms])
qed

lemma parseInt_nat:
  assumes "r = [] \<or> \<not> is_digit (hd r)"
  shows "parseInt (show_nat n @ r) = Some (int n)"
proof -
  obtain d ds where n: "show_nat n = d # ds" by (cases "show_nat n") auto
  then have d: "is_digit d" using show_nat_is_digit [of n] by simp
  then have sp: "dropWhile js_space (show_nat n @ r) = show_nat n @ r"
    by (auto simp: n js_space_def is_digit_def)
  have sign: "read_sign (show_nat n @ r) = (1, show_nat n @ r)"
    using d by (auto simp: read_sign_def n is_digit_def)
  have all: "\<forall>c \<in> set (show_nat n). is_digit c"
    using show_nat_is_digit by (simp add: list_all_iff)
  have "takeWhile is_digit (show_nat n @ r) = show_nat n"
    using assms all by (cases r; simp add: takeWhile_append2)
  then show ?thesis by (simp add: parseInt_def sp sign Let_def)
qed

end
