(* ===== verification/JsDouble.thy ===== *)
theory JsDouble
  imports JsNumber "HOL-Library.Log_Nat"
begin

section \<open>The doubles of JavaScript\<close>

text \<open>
  The arithmetic of \<open>number\<close> for the code that divides: IEEE 754 doubles with rounding to the nearest,
  ties to even. A finite double is the rational it stands for, so the two zeros are one (their sign is
  never looked at by the code). \<open>fl\<close> is the rounding, with the subnormal range; a result from
  \<open>2^1024\<close> on is an infinity.
\<close>

datatype js_double = JsNaN | JsInf bool | JsNum rat

subsection \<open>Rounding\<close>

text \<open>The exponent of the leading bit.\<close>

definition binade :: "rat \<Rightarrow> int" where
  "binade x =
     (case quotient_of \<bar>x\<bar> of (n, d) \<Rightarrow>
        let e = int (floorlog 2 (nat n)) - int (floorlog 2 (nat d))
        in if 2 powi e \<le> \<bar>x\<bar> then e else e - 1)"

definition round_half_even :: "rat \<Rightarrow> int" where
  "round_half_even x =
     (let n = \<lfloor>x\<rfloor>; f = x - of_int n
      in if f < 1 / 2 \<or> f = 1 / 2 \<and> even n then n else n + 1)"

text \<open>The distance of the doubles around a number: 53 bits, not below the subnormal quantum.\<close>

definition quantum :: "rat \<Rightarrow> rat" where
  "quantum x = 2 powi max (binade x - 52) (- 1074)"

definition fl :: "rat \<Rightarrow> rat" where
  "fl x = (if x = 0 then 0 else of_int (round_half_even (x / quantum x)) * quantum x)"

definition to_double :: "rat \<Rightarrow> js_double" where
  "to_double x = (let y = fl x in if 2 ^ 1024 \<le> \<bar>y\<bar> then JsInf (0 < y) else JsNum y)"

subsection \<open>Operations\<close>

text \<open>The product with a positive finite number, and the quotient by a number that is not zero.\<close>

fun js_scale :: "js_double \<Rightarrow> rat \<Rightarrow> js_double" where
  "js_scale JsNaN k = JsNaN"
| "js_scale (JsInf b) k = JsInf b"
| "js_scale (JsNum x) k = to_double (x * k)"

fun js_div :: "js_double \<Rightarrow> js_double \<Rightarrow> js_double" where
  "js_div (JsNum x) (JsNum y) = to_double (x / y)"
| "js_div (JsNum x) (JsInf b) = JsNum 0"
| "js_div (JsInf b) (JsNum y) = JsInf (b = (0 < y))"
| "js_div _ _ = JsNaN"

text \<open>\<open>Math.round\<close>, exact on doubles, and \<open>Math.min\<close> with a finite number.\<close>

fun js_round :: "js_double \<Rightarrow> js_double" where
  "js_round (JsNum x) = JsNum (of_int (math_round x))"
| "js_round v = v"

fun js_min :: "rat \<Rightarrow> js_double \<Rightarrow> js_double" where
  "js_min k JsNaN = JsNaN"
| "js_min k (JsInf b) = (if b then JsNum k else JsInf False)"
| "js_min k (JsNum x) = JsNum (min k x)"

definition js_read :: "rat option \<Rightarrow> js_double" where
  "js_read v = (case v of None \<Rightarrow> JsNaN | Some x \<Rightarrow> to_double x)"

text \<open>A comparison \<open>v >= k\<close>.\<close>

fun js_ge :: "js_double \<Rightarrow> rat \<Rightarrow> bool" where
  "js_ge JsNaN k = False"
| "js_ge (JsInf b) k = b"
| "js_ge (JsNum x) k = (k \<le> x)"

text \<open>The text of a number that is an integer.\<close>

fun js_int_text :: "js_double \<Rightarrow> string" where
  "js_int_text JsNaN = ''NaN''"
| "js_int_text (JsInf b) = (if b then ''Infinity'' else ''-Infinity'')"
| "js_int_text (JsNum x) = show_int \<lfloor>x\<rfloor>"

subsection \<open>Facts of the rounding\<close>

lemma round_half_even_bounds: "\<lfloor>x\<rfloor> \<le> round_half_even x" "round_half_even x \<le> \<lfloor>x\<rfloor> + 1"
  by (simp_all add: round_half_even_def Let_def)

lemma round_half_even_int [simp]: "round_half_even (of_int n) = n"
  by (simp add: round_half_even_def)

lemma round_half_even_close: "\<bar>of_int (round_half_even x) - x\<bar> \<le> 1 / 2"
proof -
  have "of_int \<lfloor>x\<rfloor> \<le> x" "x < of_int \<lfloor>x\<rfloor> + 1" using floor_correct [of x] by simp_all
  then show ?thesis by (auto simp: round_half_even_def Let_def abs_le_iff)
qed

lemma round_half_even_mono:
  assumes "x \<le> y"
  shows "round_half_even x \<le> round_half_even y"
proof (cases "\<lfloor>x\<rfloor> = \<lfloor>y\<rfloor>")
  case True
  with assms show ?thesis by (auto simp: round_half_even_def Let_def)
next
  case False
  then have "\<lfloor>x\<rfloor> + 1 \<le> \<lfloor>y\<rfloor>" using floor_mono [OF assms] by linarith
  then show ?thesis using round_half_even_bounds [of x] round_half_even_bounds [of y] by linarith
qed

lemma binade_bounds:
  assumes "0 < x"
  shows "2 powi binade x \<le> x" and "x < 2 powi (binade x + 1)"
proof -
  obtain n d where q: "quotient_of x = (n, d)" by (cases "quotient_of x")
  then have x: "x = of_int n / of_int d" and d: "0 < d"
    using quotient_of_div quotient_of_denom_pos by blast+
  with assms have n: "0 < n" by (simp add: zero_less_divide_iff)
  define a where "a = floorlog 2 (nat n)"
  define b where "b = floorlog 2 (nat d)"
  have na: "2 ^ (a - 1) \<le> nat n" "nat n < 2 ^ a" "0 < a"
    using n floorlog_bounds [of "nat n" 2] by (auto simp: a_def floorlog_eq_zero_iff intro!: gr0I)
  have db: "2 ^ (b - 1) \<le> nat d" "nat d < 2 ^ b" "0 < b"
    using d floorlog_bounds [of "nat d" 2] by (auto simp: b_def floorlog_eq_zero_iff intro!: gr0I)
  have pw: "(2 :: rat) ^ k = 2 * 2 ^ (k - 1)" if "0 < k" for k :: nat
    using that by (cases k) simp_all
  have up: "(of_int m :: rat) < 2 ^ k" if "nat m < 2 ^ k" "0 < m" for m k
  proof -
    have "of_nat (nat m) < (of_nat (2 ^ k) :: rat)" using that by (simp only: of_nat_less_iff)
    then show ?thesis using that by simp
  qed
  have low: "2 ^ k \<le> (of_int m :: rat)" if "2 ^ k \<le> nat m" "0 < m" for m k
  proof -
    have "(of_nat (2 ^ k) :: rat) \<le> of_nat (nat m)" using that by (simp only: of_nat_le_iff)
    then show ?thesis using that by simp
  qed
  have r: "(2 :: rat) ^ a \<le> 2 * of_int n" "(of_int n :: rat) < 2 ^ a" "(2 :: rat) ^ b \<le> 2 * of_int d"
    "(of_int d :: rat) < 2 ^ b"
    using low [OF na(1) n] up [OF na(2) n] low [OF db(1) d] up [OF db(2) d] pw [OF na(3)] pw [OF db(3)] by simp_all
  have e: "(2 :: rat) powi (int a - int b) = 2 ^ a / 2 ^ b" by (simp add: power_int_diff)
  have lower: "2 powi (int a - int b) < 2 * x"
  proof -
    have "2 ^ a * of_int d < 2 * of_int n * (2 :: rat) ^ b"
      using r(1,4) n d by (intro mult_le_less_imp_less) simp_all
    then show ?thesis using d by (simp add: e x divide_simps mult.commute)
  qed
  have upper: "x < 2 powi (int a - int b) * 2"
  proof -
    have "of_int n * 2 ^ b < 2 ^ a * (2 * of_int d :: rat)"
      using r(2,3) n d by (intro mult_less_le_imp_less) simp_all
    then show ?thesis using d by (simp add: e x divide_simps mult.commute mult.left_commute)
  qed
  have "binade x = (if 2 powi (int a - int b) \<le> x then int a - int b else int a - int b - 1)"
    using assms by (simp add: binade_def q a_def b_def Let_def)
  then show "2 powi binade x \<le> x" and "x < 2 powi (binade x + 1)"
    using lower upper by (auto simp: power_int_diff power_int_add split: if_splits)
qed

lemma binade_mono:
  assumes "0 < x" and "x \<le> y"
  shows "binade x \<le> binade y"
proof (rule ccontr)
  assume "\<not> binade x \<le> binade y"
  then have "(2 :: rat) powi (binade y + 1) \<le> 2 powi binade x" by (intro power_int_increasing) simp_all
  then show False using binade_bounds(1) [OF assms(1)] binade_bounds(2) [of y] assms by linarith
qed

lemma binade_below:
  assumes "0 < x" and "x < 2 powi e"
  shows "binade x < e"
proof (rule ccontr)
  assume "\<not> binade x < e"
  then have "(2 :: rat) powi e \<le> 2 powi binade x" by (intro power_int_increasing) simp_all
  then show False using binade_bounds(1) [OF assms(1)] assms(2) by linarith
qed

lemma quantum_pos [simp]: "0 < quantum x"
  by (simp add: quantum_def)

lemma fl_zero [simp]: "fl 0 = 0"
  by (simp add: fl_def)

lemma fl_close: "\<bar>fl x - x\<bar> \<le> quantum x / 2"
proof (cases "x = 0")
  case False
  let ?m = "of_int (round_half_even (x / quantum x)) :: rat"
  have "\<bar>?m - x / quantum x\<bar> * quantum x \<le> 1 / 2 * quantum x"
    using round_half_even_close [of "x / quantum x"] by (intro mult_right_mono) (simp_all add: less_imp_le)
  moreover have "\<bar>?m - x / quantum x\<bar> * quantum x = \<bar>(?m - x / quantum x) * quantum x\<bar>"
    by (simp only: abs_mult abs_of_pos [OF quantum_pos])
  moreover have "(?m - x / quantum x) * quantum x = ?m * quantum x - x"
    by (simp add: left_diff_distrib less_imp_neq [OF quantum_pos, symmetric])
  ultimately show ?thesis using False by (simp add: fl_def)
qed (simp add: less_imp_le)

text \<open>Multiples of the quantum are doubles.\<close>

lemma fl_exact: "x \<noteq> 0 \<Longrightarrow> x = of_int k * quantum x \<Longrightarrow> fl x = x"
proof -
  assume x: "x \<noteq> 0" "x = of_int k * quantum x"
  have "x / quantum x = of_int k" using x(2) quantum_pos [of x] by (metis less_irrefl nonzero_mult_div_cancel_right)
  then show ?thesis using x by (simp add: fl_def)
qed

lemma fl_nat:
  assumes "n < 2 ^ 53"
  shows "fl (of_nat n) = of_nat n"
proof (cases "n = 0")
  case False
  then have pos: "0 < (of_nat n :: rat)" by simp
  have "(of_nat n :: rat) < 2 powi 53"
    using assms by (metis of_nat_less_iff of_nat_numeral of_nat_power power_int_numeral)
  then have "binade (of_nat n) < 53" by (rule binade_below [OF pos])
  then have "max (binade (of_nat n) - 52) (- 1074) \<le> 0" by simp
  then obtain j where j: "max (binade (of_nat n) - 52) (- 1074) = - int j"
    by (metis nonpos_int_cases)
  have "quantum (of_nat n) = 1 / 2 ^ j" by (simp add: quantum_def j power_int_minus_divide)
  then have "(of_nat n :: rat) = of_int (int n * 2 ^ j) * quantum (of_nat n)" by simp
  with pos show ?thesis by (intro fl_exact [of _ "int n * 2 ^ j"]) simp
qed simp

lemma fl_upper:
  assumes "0 < x"
  shows "fl x \<le> 2 powi max (binade x + 1) (- 1074)"
proof -
  let ?b = "max (binade x + 1) (- 1074)" and ?q = "max (binade x - 52) (- 1074)"
  have "?q \<le> ?b" by simp
  then obtain j where j: "?b = ?q + int j" by (metis zle_iff_zadd)
  have b: "(2 :: rat) powi ?b = of_int (2 ^ j) * quantum x"
    by (simp add: j quantum_def power_int_add mult.commute)
  have "x \<le> 2 powi ?b"
    using binade_bounds(2) [OF assms] power_int_increasing [of "binade x + 1" ?b "2 :: rat"] by simp
  then have "x / quantum x \<le> of_int (2 ^ j)" by (simp only: b pos_divide_le_eq [OF quantum_pos])
  then have "round_half_even (x / quantum x) \<le> 2 ^ j"
    using round_half_even_mono [of "x / quantum x" "of_int (2 ^ j)"] by (simp only: round_half_even_int)
  then have "of_int (round_half_even (x / quantum x)) \<le> (of_int (2 ^ j) :: rat)" by (simp only: of_int_le_iff)
  then have "of_int (round_half_even (x / quantum x)) * quantum x \<le> of_int (2 ^ j) * quantum x"
    by (intro mult_right_mono) (simp_all add: less_imp_le)
  then show ?thesis using assms by (simp only: b fl_def) simp
qed

lemma fl_lower:
  assumes "0 < x" and "- 1074 \<le> e" and "2 powi e \<le> x"
  shows "2 powi e \<le> fl x"
proof (cases "max (binade x - 52) (- 1074) \<le> e")
  case True
  then obtain j where j: "e = max (binade x - 52) (- 1074) + int j" by (metis zle_iff_zadd)
  have b: "(2 :: rat) powi e = of_int (2 ^ j) * quantum x"
    by (simp add: j quantum_def power_int_add mult.commute)
  have "of_int (2 ^ j) \<le> x / quantum x" using assms(3) by (simp only: b pos_le_divide_eq [OF quantum_pos])
  then have "2 ^ j \<le> round_half_even (x / quantum x)"
    using round_half_even_mono [of "of_int (2 ^ j)" "x / quantum x"] by (simp only: round_half_even_int)
  then have "(of_int (2 ^ j) :: rat) \<le> of_int (round_half_even (x / quantum x))" by (simp only: of_int_le_iff)
  then have "of_int (2 ^ j) * quantum x \<le> of_int (round_half_even (x / quantum x)) * quantum x"
    by (intro mult_right_mono) (simp_all add: less_imp_le)
  then show ?thesis using assms(1) by (simp only: b fl_def) simp
next
  case False
  then have q: "e < binade x - 52" "max (binade x - 52) (- 1074) = binade x - 52" using assms(2) by simp_all
  have b: "(2 :: rat) powi binade x = of_int (2 ^ 52) * quantum x"
    using power_int_add [of "2 :: rat" "binade x - 52" 52] by (simp add: quantum_def q(2) mult.commute)
  have "of_int (2 ^ 52) \<le> x / quantum x"
    using binade_bounds(1) [OF assms(1)] by (simp only: b pos_le_divide_eq [OF quantum_pos])
  then have "2 ^ 52 \<le> round_half_even (x / quantum x)"
    using round_half_even_mono [of "of_int (2 ^ 52)" "x / quantum x"] by (simp only: round_half_even_int)
  then have "(of_int (2 ^ 52) :: rat) \<le> of_int (round_half_even (x / quantum x))" by (simp only: of_int_le_iff)
  then have "of_int (2 ^ 52) * quantum x \<le> of_int (round_half_even (x / quantum x)) * quantum x"
    by (intro mult_right_mono) (simp_all add: less_imp_le)
  then have "2 powi binade x \<le> fl x" using assms(1) by (simp only: b fl_def) simp
  moreover have "(2 :: rat) powi e \<le> 2 powi binade x" using q(1) by (intro power_int_increasing) simp_all
  ultimately show ?thesis by linarith
qed

lemma fl_nonneg: "0 \<le> x \<Longrightarrow> 0 \<le> fl x"
proof (cases "x = 0")
  case False
  assume "0 \<le> x"
  then have "0 \<le> x / quantum x" by (simp add: less_imp_le)
  then have "0 \<le> round_half_even (x / quantum x)"
    using round_half_even_mono [of 0 "x / quantum x"] round_half_even_int [of 0] by simp
  then show ?thesis by (simp add: fl_def less_imp_le)
qed simp

lemma fl_mono:
  assumes "0 \<le> x" and "x \<le> y"
  shows "fl x \<le> fl y"
proof (cases "x = 0")
  case True
  then show ?thesis using fl_nonneg assms by simp
next
  case False
  with assms have pos: "0 < x" "0 < y" by simp_all
  show ?thesis
  proof (cases "quantum x = quantum y")
    case True
    then have "x / quantum x \<le> y / quantum y" using assms(2) by (simp add: divide_right_mono less_imp_le)
    then have "of_int (round_half_even (x / quantum x)) \<le> (of_int (round_half_even (y / quantum y)) :: rat)"
      using round_half_even_mono by (simp only: of_int_le_iff)
    then show ?thesis using pos True by (simp add: fl_def mult_right_mono less_imp_le)
  next
    case False
    then have lt: "binade x < binade y" "- 1074 \<le> max (binade x + 1) (- 1074)" "- 1022 < binade y"
      using binade_mono [OF pos(1) assms(2)] by (auto simp: quantum_def order.order_iff_strict max_def split: if_splits)
    then have "(2 :: rat) powi max (binade x + 1) (- 1074) \<le> 2 powi binade y"
      by (intro power_int_increasing) simp_all
    then have "2 powi max (binade x + 1) (- 1074) \<le> y" using binade_bounds(1) [OF pos(2)] by linarith
    then have "2 powi max (binade x + 1) (- 1074) \<le> fl y" by (rule fl_lower [OF pos(2) lt(2)])
    then show ?thesis using fl_upper [OF pos(1)] by linarith
  qed
qed

lemma quantum_le:
  assumes "0 \<le> x" and "x < 2 powi e" and "- 1021 \<le> e"
  shows "\<bar>fl x - x\<bar> \<le> 2 powi (e - 53) / 2"
proof (cases "x = 0")
  case False
  with assms(1) have "0 < x" by simp
  then have "binade x < e" using assms(2) by (rule binade_below)
  then have "quantum x \<le> 2 powi (e - 53)"
    unfolding quantum_def using assms(3) by (intro power_int_increasing) simp_all
  then show ?thesis using fl_close [of x] by linarith
qed simp

end
