(* ===== verification/Quota.thy ===== *)
theory Quota
  imports JsDouble ResourceService Permission
begin

section \<open>The quota page\<close>

text \<open>
  \<open>pages/resources/quota.tsx\<close>: how quantities are read and the usage is shown, and the
  handlers of the two lists. A handler maps the local state of its component to the new state
  and the effects it has, in order; the result of the mutation is an argument.
\<close>

subsection \<open>Quantities\<close>

definition QUOTA_LABELS :: "(string \<times> string) list" where
  "QUOTA_LABELS =
    [(''cpu'', ''CPU''), (''memory'', [CHR 0xE5, CHR 0x86, CHR 0x85, CHR 0xE5, CHR 0xAD, CHR 0x98]), (''pods'', (''Pod '' @
     [CHR 0xE6, CHR 0x95, CHR 0xB0])),
     (''requests.cpu'', ([CHR 0xE8, CHR 0xAF, CHR 0xB7, CHR 0xE6, CHR 0xB1, CHR 0x82] @
     '' CPU'')), (''requests.memory'', [CHR 0xE8, CHR 0xAF, CHR 0xB7, CHR 0xE6, CHR 0xB1, CHR 0x82, CHR 0xE5, CHR 0x86,
      CHR 0x85, CHR 0xE5, CHR 0xAD, CHR 0x98]),
     (''limits.cpu'', ([CHR 0xE9, CHR 0x99, CHR 0x90, CHR 0xE5, CHR 0x88, CHR 0xB6] @
     '' CPU'')), (''limits.memory'', [CHR 0xE9, CHR 0x99, CHR 0x90, CHR 0xE5, CHR 0x88, CHR 0xB6, CHR 0xE5, CHR 0x86,
      CHR 0x85, CHR 0xE5, CHR 0xAD, CHR 0x98]),
     (''services'', (''Service '' @
     [CHR 0xE6, CHR 0x95, CHR 0xB0])), (''services.nodeports'', (''NodePort '' @
     [CHR 0xE6, CHR 0x95, CHR 0xB0])),
     (''services.loadbalancers'', (''LoadBalancer '' @
     [CHR 0xE6, CHR 0x95, CHR 0xB0])), (''configmaps'', (''ConfigMap '' @
     [CHR 0xE6, CHR 0x95, CHR 0xB0])),
     (''secrets'', (''Secret '' @
     [CHR 0xE6, CHR 0x95, CHR 0xB0])), (''persistentvolumeclaims'', (''PVC '' @
     [CHR 0xE6, CHR 0x95, CHR 0xB0])),
     (''replicationcontrollers'', (''RC '' @
     [CHR 0xE6, CHR 0x95, CHR 0xB0])), (''resourcequotas'', (''ResourceQuota '' @
     [CHR 0xE6, CHR 0x95, CHR 0xB0]))]"

definition parseQuantity :: "string \<Rightarrow> js_double" where
  "parseQuantity v =
     (if v = [] then JsNum 0
      else if ends_with v ''m'' then js_read (map_option of_int (parseInt (butlast v)))
      else js_scale (js_read (parseFloat v)) 1000)"

definition formatQuantity :: "string option \<Rightarrow> string" where
  "formatQuantity v = (if truthy v then the v else ''-'')"

definition calcPercent :: "string \<Rightarrow> string \<Rightarrow> js_double" where
  "calcPercent used hard =
     (let u = parseQuantity used; h = parseQuantity hard
      in if h = JsNum 0 then JsNum 0 else js_min 100 (js_round (js_scale (js_div u h) 100)))"

record usage_row =
  ur_label :: string
  ur_tooltip :: string
  ur_percent :: js_double
  ur_color :: string
  ur_text :: string

definition percent_color :: "js_double \<Rightarrow> string" where
  "percent_color pct =
     (if js_ge pct 90 then ''#ff4d4f'' else if js_ge pct 70 then ''#faad14'' else ''#52c41a'')"

definition usage_row_of :: "(string \<times> string) list \<Rightarrow> (string \<times> string) list \<Rightarrow> string \<Rightarrow> usage_row" where
  "usage_row_of hard used key =
     (let h = or_str (map_of hard key) ''-'';
          u = or_str (map_of used key) ''0'';
          pct = calcPercent u h;
          label = (case map_of QUOTA_LABELS key of Some l \<Rightarrow> l | None \<Rightarrow> key)
      in \<lparr>ur_label = label, ur_tooltip = label @ '': '' @ u @ '' / '' @ h, ur_percent = pct,
          ur_color = percent_color pct, ur_text = u @ '' / '' @ h\<rparr>)"

text \<open>\<open>None\<close> is the tag shown for an object without limits.\<close>

definition usage_rows :: "(string \<times> string) list \<Rightarrow> (string \<times> string) list \<Rightarrow> usage_row list option" where
  "usage_rows hard used = (if hard = [] then None else Some (map (usage_row_of hard used \<circ> fst) hard))"

text \<open>The remainder of JavaScript, which has the sign of the dividend.\<close>

definition js_rem :: "int \<Rightarrow> int \<Rightarrow> int" where
  "js_rem a b = (if 0 \<le> a then a mod b else - ((- a) mod b))"

definition age_text :: "int option \<Rightarrow> string" where
  "age_text age =
     (case age of
        None \<Rightarrow> ''-''
      | Some diff \<Rightarrow>
          (let days = diff div 86400000;
               hours = js_rem diff 86400000 div 3600000;
               mins = js_rem diff 3600000 div 60000
           in if days > 0 then show_int days @ ''d'' @ show_int hours @ ''h''
              else show_int hours @ ''h'' @ show_int mins @ ''m''))"

subsection \<open>Limit ranges\<close>

record limit_rule =
  lim_type :: string
  lim_default :: "(string \<times> string) list"
  lim_defaultRequest :: "(string \<times> string) list"
  lim_max :: "(string \<times> string) list"
  lim_min :: "(string \<times> string) list"

definition rule_tag :: "string \<Rightarrow> string \<Rightarrow> (string \<times> string) list \<Rightarrow> string \<Rightarrow> (string \<times> string) list" where
  "rule_tag color label fs f =
     (if truthy (map_of fs f) then [(color, label @ '': '' @ the (map_of fs f))] else [])"

definition limit_tags :: "limit_rule \<Rightarrow> string \<Rightarrow> (string \<times> string) list" where
  "limit_tags r f =
     rule_tag ''cyan'' [CHR 0xE9, CHR 0xBB, CHR 0x98, CHR 0xE8, CHR 0xAE, CHR 0xA4] (lim_default r) f @
     rule_tag ''blue'' [CHR 0xE8, CHR 0xAF, CHR 0xB7, CHR 0xE6, CHR 0xB1, CHR 0x82] (lim_defaultRequest r) f @
     rule_tag ''red'' [CHR 0xE4, CHR 0xB8, CHR 0x8A, CHR 0xE9, CHR 0x99, CHR 0x90] (lim_max r) f @
     rule_tag ''orange'' [CHR 0xE4, CHR 0xB8, CHR 0x8B, CHR 0xE9, CHR 0x99, CHR 0x90] (lim_min r) f"

definition limit_card :: "limit_rule \<Rightarrow> string \<times> (string \<times> (string \<times> string) list) list" where
  "limit_card r =
     (lim_type r, [(''CPU'', limit_tags r ''cpu''), (''MEMORY'', limit_tags r ''memory'')])"

subsection \<open>The handlers\<close>

datatype quota_kind = ResourceQuotaKind | LimitRangeKind

definition kind_name :: "quota_kind \<Rightarrow> string" where
  "kind_name k = (case k of ResourceQuotaKind \<Rightarrow> ''ResourceQuota'' | LimitRangeKind \<Rightarrow> ''LimitRange'')"

record drawer_state =
  createOpen :: bool
  createYaml :: string

datatype ui_effect =
    ToastError string
  | ToastSuccess string
  | Mutate resource_mutation
  | Refetch

definition list_request :: "quota_kind \<Rightarrow> string \<Rightarrow> string \<Rightarrow> list_resources_params" where
  "list_request k clusterCode ns =
     \<lparr>lr_code = clusterCode, lr_apiVersion = ''v1'', lr_kind = kind_name k, lr_namespace = Some ns,
      lr_page = Some 1, lr_size = Some 100, lr_keyword = None\<rparr>"

definition list_skip :: "bool \<Rightarrow> string \<Rightarrow> string \<Rightarrow> bool" where
  "list_skip canView clusterCode ns \<longleftrightarrow> \<not> canView \<or> clusterCode = [] \<or> ns = []"

definition handleCreate ::
  "quota_kind \<Rightarrow> string \<Rightarrow> bool \<Rightarrow> drawer_state \<Rightarrow> drawer_state \<times> ui_effect list" where
  "handleCreate k clusterCode ok s =
     (if js_trim (createYaml s) = [] then (s, [ToastError (''YAML '' @
     [CHR 0xE4, CHR 0xB8, CHR 0x8D, CHR 0xE8, CHR 0x83, CHR 0xBD, CHR 0xE4, CHR 0xB8,
      CHR 0xBA, CHR 0xE7, CHR 0xA9, CHR 0xBA])])
      else
        let m = Mutate (CreateResource \<lparr>cr_code = clusterCode, cr_apiVersion = ''v1'',
                   cr_kind = kind_name k, cr_yaml = createYaml s\<rparr>)
        in if ok then (s\<lparr>createOpen := False\<rparr>, [m, ToastSuccess [CHR 0xE5, CHR 0x88, CHR 0x9B, CHR 0xE5, CHR 0xBB, CHR 0xBA, CHR 0xE6, CHR 0x88,
      CHR 0x90, CHR 0xE5, CHR 0x8A, CHR 0x9F], Refetch])
           else (s, [m]))"

definition quota_template :: "quota_kind \<Rightarrow> string \<Rightarrow> string" where
  "quota_template k ns =
     (case k of
        ResourceQuotaKind \<Rightarrow>
          (''apiVersion: v1'' @
     [CHR 0x0A] @
     ''kind: ResourceQuota'' @
     [CHR 0x0A] @
     ''metadata:'' @
     [CHR 0x0A] @
     ''  name: quota-'') @ ns @ ([CHR 0x0A] @
     ''  namespace: '') @ ns @ ([CHR 0x0A] @
     ''spec:'' @
     [CHR 0x0A] @
     ''  hard:'' @
     [CHR 0x0A] @
     ''    requests.cpu: '' @
     [CHR 0x22] @
     ''4'' @
     [CHR 0x22, CHR 0x0A] @
     ''    requests.memory: 8Gi'' @
     [CHR 0x0A] @
     ''    limits.cpu: '' @
     [CHR 0x22] @
     ''8'' @
     [CHR 0x22, CHR 0x0A] @
     ''    limits.memory: 16Gi'' @
     [CHR 0x0A] @
     ''    pods: '' @
     [CHR 0x22] @
     ''20'' @
     [CHR 0x22, CHR 0x0A] @
     ''    services: '' @
     [CHR 0x22] @
     ''10'' @
     [CHR 0x22, CHR 0x0A])
      | LimitRangeKind \<Rightarrow>
          (''apiVersion: v1'' @
     [CHR 0x0A] @
     ''kind: LimitRange'' @
     [CHR 0x0A] @
     ''metadata:'' @
     [CHR 0x0A] @
     ''  name: limits-'') @ ns @ ([CHR 0x0A] @
     ''  namespace: '') @ ns @ ([CHR 0x0A] @
     ''spec:'' @
     [CHR 0x0A] @
     ''  limits:'' @
     [CHR 0x0A] @
     ''    - type: Container'' @
     [CHR 0x0A] @
     ''      default:'' @
     [CHR 0x0A] @
     ''        cpu: 500m'' @
     [CHR 0x0A] @
     ''        memory: 512Mi'' @
     [CHR 0x0A] @
     ''      defaultRequest:'' @
     [CHR 0x0A] @
     ''        cpu: 100m'' @
     [CHR 0x0A] @
     ''        memory: 128Mi'' @
     [CHR 0x0A] @
     ''      max:'' @
     [CHR 0x0A] @
     ''        cpu: '' @
     [CHR 0x22] @
     ''2'' @
     [CHR 0x22, CHR 0x0A] @
     ''        memory: 2Gi'' @
     [CHR 0x0A] @
     ''      min:'' @
     [CHR 0x0A] @
     ''        cpu: 50m'' @
     [CHR 0x0A] @
     ''        memory: 64Mi'' @
     [CHR 0x0A]))"

definition openCreate :: "quota_kind \<Rightarrow> string \<Rightarrow> drawer_state \<Rightarrow> drawer_state" where
  "openCreate k ns s = s\<lparr>createYaml := quota_template k ns, createOpen := True\<rparr>"

definition deleteItem ::
  "quota_kind \<Rightarrow> string \<Rightarrow> bool \<Rightarrow> string option \<Rightarrow> string option \<Rightarrow> bool \<Rightarrow> ui_effect list" where
  "deleteItem k clusterCode canDelete item_ns item_name ok =
     (if \<not> canDelete then []
      else
        let m = Mutate (DeleteResource \<lparr>gr_code = clusterCode, gr_apiVersion = ''v1'',
                   gr_kind = kind_name k, gr_namespace = item_ns, gr_name = or_str item_name []\<rparr>)
        in if ok then [m, ToastSuccess [CHR 0xE5, CHR 0x88, CHR 0xA0, CHR 0xE9, CHR 0x99, CHR 0xA4, CHR 0xE6, CHR 0x88,
      CHR 0x90, CHR 0xE5, CHR 0x8A, CHR 0x9F], Refetch] else [m])"

definition list_empty_text :: "quota_kind \<Rightarrow> string \<Rightarrow> string \<Rightarrow> string" where
  "list_empty_text k clusterCode ns =
     (if clusterCode = [] then [CHR 0xE8, CHR 0xAF, CHR 0xB7, CHR 0xE5, CHR 0x85, CHR 0x88, CHR 0xE9, CHR 0x80,
      CHR 0x89, CHR 0xE6, CHR 0x8B, CHR 0xA9, CHR 0xE9, CHR 0x9B, CHR 0x86, CHR 0xE7,
      CHR 0xBE, CHR 0xA4]
      else if ns = [] then [CHR 0xE8, CHR 0xAF, CHR 0xB7, CHR 0xE5, CHR 0x85, CHR 0x88, CHR 0xE9, CHR 0x80,
      CHR 0x89, CHR 0xE6, CHR 0x8B, CHR 0xA9, CHR 0xE5, CHR 0x91, CHR 0xBD, CHR 0xE5,
      CHR 0x90, CHR 0x8D, CHR 0xE7, CHR 0xA9, CHR 0xBA, CHR 0xE9, CHR 0x97, CHR 0xB4]
      else ([CHR 0xE6, CHR 0x9A, CHR 0x82, CHR 0xE6, CHR 0x97, CHR 0xA0] @
     '' '') @ kind_name k)"

text \<open>The page: the permissions it passes down and the effect that keeps the namespace valid.\<close>

definition quota_permissions :: "current_user option \<Rightarrow> bool \<times> bool \<times> bool" where
  "quota_permissions u =
     (hasPerm u ''resource:get'' \<or> hasPerm u ''resource:list'', hasPerm u ''resource:create'',
      hasPerm u ''resource:delete'')"

definition namespace_effect :: "string list \<Rightarrow> string \<Rightarrow> string" where
  "namespace_effect nsData ns = (if nsData \<noteq> [] \<and> ns \<notin> set nsData then hd nsData else ns)"

subsection \<open>Properties\<close>

lemma namespace_effect_valid: "nsData \<noteq> [] \<Longrightarrow> namespace_effect nsData ns \<in> set nsData"
  by (simp add: namespace_effect_def)

lemma namespace_effect_idle: "namespace_effect nsData (namespace_effect nsData ns) = namespace_effect nsData ns"
  by (simp add: namespace_effect_def)

lemma math_round_mono: "x \<le> y \<Longrightarrow> math_round x \<le> math_round y"
  unfolding math_round_def by (intro floor_mono) simp

lemma math_round_int [simp]: "math_round (of_int n) = n"
  unfolding math_round_def by (simp add: floor_unique)

lemma math_round_close: "\<bar>of_int (math_round x) - x\<bar> \<le> 1 / 2"
proof -
  have "of_int \<lfloor>x + 1 / 2\<rfloor> \<le> x + 1 / 2" "x + 1 / 2 < of_int \<lfloor>x + 1 / 2\<rfloor> + 1"
    using floor_correct [of "x + 1 / 2"] by simp_all
  then show ?thesis unfolding math_round_def abs_le_iff by (intro conjI; linarith)
qed

text \<open>
  The percentage of two finite numbers is that of the two roundings, capped at 100; an overflow to an
  infinity is capped as well.
\<close>

lemma percent_value:
  assumes "0 < h" and "0 \<le> v"
  shows "js_min 100 (js_round (js_scale (js_div (JsNum v) (JsNum h)) 100))
    = JsNum (of_int (min 100 (math_round (fl (fl (v / h) * 100)))))"
proof -
  let ?q = "fl (v / h)" and ?s = "fl (fl (v / h) * 100)"
  have q: "0 \<le> ?q" using assms by (intro fl_nonneg) simp
  have full: "math_round ?s \<ge> 100" if "1 \<le> ?q"
  proof -
    have "fl (of_nat 100) \<le> ?s" using that by (intro fl_mono) simp_all
    then have "100 \<le> ?s" using fl_nat [of 100] by simp
    then show ?thesis using math_round_mono [of 100 ?s] math_round_int [of 100] by simp
  qed
  have s: "0 \<le> ?s" using q by (intro fl_nonneg) simp
  consider (over) "2 ^ 1024 \<le> ?q" | (scaled) "?q < 2 ^ 1024" "2 ^ 1024 \<le> ?s" | (finite) "?q < 2 ^ 1024" "?s < 2 ^ 1024"
    by linarith
  then show ?thesis
  proof cases
    case over
    then have "1 \<le> ?q" by (rule order_trans [OF one_le_power, rotated]) simp
    with over full show ?thesis by (simp add: to_double_def Let_def q del: power_numeral)
  next
    case scaled
    have big: "(101 :: rat) \<le> 2 ^ 1024" by (rule order_trans [of _ "2 ^ 7"]) (simp, rule power_increasing, simp_all)
    then have "101 \<le> ?s" using scaled(2) by linarith
    then have "math_round ?s \<ge> 100" using math_round_mono [of 101 ?s] math_round_int [of 101] by simp
    moreover have "0 < ?s" using \<open>101 \<le> ?s\<close> by linarith
    ultimately show ?thesis using scaled q by (simp add: to_double_def Let_def del: power_numeral)
  next
    case finite
    then show ?thesis using q s by (simp add: to_double_def Let_def min_def of_int_min del: power_numeral)
  qed
qed

lemma percent_mono:
  "0 < h \<Longrightarrow> 0 \<le> u \<Longrightarrow> u \<le> v \<Longrightarrow> math_round (fl (fl (u / h) * 100)) \<le> math_round (fl (fl (v / h) * 100))"
  by (intro math_round_mono fl_mono mult_nonneg_nonneg fl_nonneg mult_right_mono)
    (simp_all add: divide_right_mono)

lemma percent_full:
  "0 < h \<Longrightarrow> math_round (fl (fl (h / h) * 100)) = 100"
  using fl_nat [of 1] fl_nat [of 100] math_round_int [of 100] by simp

lemma add_roundings:
  fixes m q r s :: rat
  assumes "\<bar>q - r\<bar> \<le> 1 / 2 ^ 53" and "\<bar>s - q * 100\<bar> \<le> 1 / 2 ^ 47" and "\<bar>m - s\<bar> \<le> 1 / 2"
  shows "\<bar>m - r * 100\<bar> \<le> 1 / 2 + 1 / 2 ^ 44"
proof -
  have "(1 :: rat) / 2 ^ 47 + 100 * (1 / 2 ^ 53) \<le> 1 / 2 ^ 44" by simp
  then show ?thesis using assms unfolding abs_le_iff by linarith
qed

lemma percent_close:
  assumes "0 < h" and "0 \<le> u" and "u \<le> h"
  shows "\<bar>of_int (math_round (fl (fl (u / h) * 100))) - u / h * 100\<bar> \<le> 1 / 2 + 1 / 2 ^ 44"
proof -
  let ?r = "u / h" and ?q = "fl (u / h)"
  have r: "0 \<le> ?r" "?r \<le> 1" using assms by (simp_all add: divide_simps)
  have "\<bar>?q - ?r\<bar> \<le> 2 powi (1 - 53) / 2" using r by (intro quantum_le) simp_all
  then have d1: "\<bar>?q - ?r\<bar> \<le> 1 / 2 ^ 53" by (simp add: power_int_minus_divide)
  have "?q \<le> fl (of_nat 1)" using r by (intro fl_mono) simp_all
  then have q: "0 \<le> ?q" "?q \<le> 1" using fl_nat [of 1] fl_nonneg [OF r(1)] by simp_all
  have "\<bar>fl (?q * 100) - ?q * 100\<bar> \<le> 2 powi (7 - 53) / 2" using q by (intro quantum_le) simp_all
  then have d2: "\<bar>fl (?q * 100) - ?q * 100\<bar> \<le> 1 / 2 ^ 47" by (simp add: power_int_minus_divide)
  have "\<bar>of_int (math_round (fl (?q * 100))) - fl (?q * 100)\<bar> \<le> 1 / 2" by (rule math_round_close)
  with d1 d2 show ?thesis by (rule add_roundings)
qed

text \<open>
  C40. The usage bar is the rounded ratio of the two numbers read from the texts, in the double
  arithmetic of the page; what these numbers mean is not claimed here, and the unit of a quantity is
  not among it. For numbers that are finite, a positive limit and a use that is not
  negative, the percentage is a whole number between 0 and 100; as long as no more than the limit is
  used it differs from the exact ratio of the numbers by no more than one half, but for the two roundings of the
  arithmetic, which are below \<open>2^-44\<close>; it is 100 from the limit on, also where the quotient overflows;
  and it does not shrink when more is used.
\<close>

theorem quota_percent_ratio:
  assumes "parseQuantity used = JsNum u" and "parseQuantity hard = JsNum h" and "0 < h" and "0 \<le> u"
  shows "\<exists>p :: int. calcPercent used hard = JsNum (of_int p) \<and> 0 \<le> p \<and> p \<le> 100
    \<and> (u \<le> h \<longrightarrow> \<bar>of_int p - u / h * 100\<bar> \<le> 1 / 2 + 1 / 2 ^ 44) \<and> (h \<le> u \<longrightarrow> p = 100)
    \<and> (\<forall>used' u'. parseQuantity used' = JsNum u' \<and> u \<le> u' \<longrightarrow>
          (\<exists>p' :: int. calcPercent used' hard = JsNum (of_int p') \<and> p \<le> p'))"
proof -
  define r where "r v = math_round (fl (fl (v / h) * 100))" for v
  have pct: "calcPercent a hard = JsNum (of_int (min 100 (r v)))" if "parseQuantity a = JsNum v" "0 \<le> v" for a v
    using that assms(2,3) percent_value [OF assms(3) that(2)] by (simp add: calcPercent_def r_def)
  have mono: "r v \<le> r v'" if "0 \<le> v" "v \<le> v'" for v v'
    unfolding r_def using assms(3) that by (rule percent_mono)
  have rh: "r h = 100" unfolding r_def by (rule percent_full [OF assms(3)])
  have "0 \<le> r u" using mono [of 0 u] assms(4) math_round_int [of 0] by (simp add: r_def)
  moreover have "r u \<le> 100" if "u \<le> h" using mono [OF assms(4) that] rh by simp
  moreover have "100 \<le> r u" if "h \<le> u" using mono [of h u] that rh assms(3) by simp
  moreover have "\<bar>of_int (r u) - u / h * 100\<bar> \<le> 1 / 2 + 1 / 2 ^ 44" if "u \<le> h"
    unfolding r_def by (rule percent_close [OF assms(3,4) that])
  moreover have "min 100 (r u) \<le> min 100 (r u')" if "u \<le> u'" for u'
    using mono [OF assms(4) that] by simp
  ultimately show ?thesis
    using pct [OF assms(1,4)] pct assms(4) by (intro exI [of _ "min 100 (r u)"]) fastforce
qed

text \<open>Reading a whole number with a unit: the unit is ignored.\<close>

definition binary_units :: "string list" where
  "binary_units = ['''', ''Ki'', ''Mi'', ''Gi'', ''Ti'', ''Pi'']"

lemma unit_head:
  "u \<in> set binary_units \<Longrightarrow>
   u = [] \<or> \<not> is_digit (hd u) \<and> hd u \<noteq> CHR ''.'' \<and> hd u \<noteq> CHR ''e'' \<and> hd u \<noteq> CHR ''E''"
  by (auto simp: binary_units_def is_digit_def)

lemma unit_no_milli: "u \<in> set binary_units \<Longrightarrow> \<not> ends_with (show_nat n @ u) ''m''"
proof -
  have "rev (show_nat n) = c # cs \<Longrightarrow> c \<noteq> CHR ''m''" for c cs
  proof
    assume "rev (show_nat n) = c # cs" and "c = CHR ''m''"
    then have "CHR ''m'' \<in> set (show_nat n)" by (metis list.set_intros(1) set_rev)
    from show_nat_digits [OF this] show False by simp
  qed
  moreover assume "u \<in> set binary_units"
  ultimately show ?thesis
    by (cases "rev (show_nat n)") (auto simp: binary_units_def ends_with_def starts_with_def)
qed

lemma parseQuantity_unit:
  assumes "u \<in> set binary_units"
  shows "parseQuantity (show_nat n @ u) = js_scale (to_double (of_nat n)) 1000"
  using parseFloat_nat [OF unit_head [OF assms], of n] unit_no_milli [OF assms, of n]
  by (simp add: parseQuantity_def js_read_def)

lemma small_double: "n < 2 ^ 53 \<Longrightarrow> to_double (of_nat n) = JsNum (of_nat n)"
proof -
  assume n: "n < 2 ^ 53"
  then have "(of_nat n :: rat) < 2 ^ 53" by (metis of_nat_less_iff of_nat_numeral of_nat_power)
  moreover have "(2 :: rat) ^ 53 \<le> 2 ^ 1024" by (rule power_increasing) simp_all
  ultimately have "(of_nat n :: rat) < 2 ^ 1024" by linarith
  then show ?thesis using fl_nat [OF n] by (simp add: to_double_def del: power_numeral)
qed

lemma parseQuantity_small:
  assumes "u \<in> set binary_units" and "n * 1000 < 2 ^ 53"
  shows "parseQuantity (show_nat n @ u) = JsNum (of_nat (n * 1000))"
proof -
  have "n < 2 ^ 53" using assms(2) by simp
  then show ?thesis
    using parseQuantity_unit [OF assms(1), of n] small_double [of n] small_double [OF assms(2)] by simp
qed

theorem quota_percent_ratio_witness:
  "\<exists>p :: int. calcPercent (show_nat 3) (show_nat 4) = JsNum (of_int p) \<and> 0 \<le> p \<and> p \<le> 100
     \<and> \<bar>of_int p - (75 :: rat)\<bar> \<le> 1 / 2 + 1 / 2 ^ 44"
proof -
  have "parseQuantity (show_nat 3) = JsNum 3000" "parseQuantity (show_nat 4) = JsNum 4000"
    using parseQuantity_small [of "[]" 3] parseQuantity_small [of "[]" 4]
    by (simp_all add: binary_units_def)
  from quota_percent_ratio [OF this] show ?thesis by auto
qed

text \<open>
  The usage bar of a memory quota ignores the units: for whole numbers with any of the
  binary units, the percentage is that of the bare numbers, so 512Mi of 1Gi, one half, is
  shown as 100 percent and 1Gi of 512Mi, twice the limit, as 0 percent.
\<close>

theorem memory_units_ignored:
  assumes "u \<in> set binary_units" and "v \<in> set binary_units"
  shows "calcPercent (show_nat m @ u) (show_nat n @ v) = calcPercent (show_nat m) (show_nat n)
    \<and> calcPercent ''512Mi'' ''1Gi'' = JsNum 100 \<and> calcPercent ''1Gi'' ''512Mi'' = JsNum 0"
proof -
  have plain: "parseQuantity (show_nat k) = js_scale (to_double (of_nat k)) 1000" for k
    using parseQuantity_unit [of "[]" k] by (simp add: binary_units_def)
  have eq: "calcPercent (show_nat m @ u) (show_nat n @ v) = calcPercent (show_nat m) (show_nat n)"
    by (simp add: calcPercent_def parseQuantity_unit [OF assms(1)] parseQuantity_unit [OF assms(2)] plain)
  have texts: "show_nat 512 @ ''Mi'' = ''512Mi''" "show_nat 1 @ ''Gi'' = ''1Gi''" by code_simp+
  have read: "parseQuantity ''512Mi'' = JsNum 512000" "parseQuantity ''1Gi'' = JsNum 1000"
    using parseQuantity_small [of "''Mi''" 512, unfolded texts] parseQuantity_small [of "''Gi''" 1, unfolded texts]
    by (simp_all add: binary_units_def)
  have over: "100 \<le> math_round (fl (fl (512000 / 1000) * 100))"
    using percent_mono [of 1000 1000 512000] percent_full [of 1000] by simp
  have least: "0 \<le> math_round (fl (fl (1000 / 512000) * 100))"
    using percent_mono [of 512000 0 1000] math_round_int [of 0] by simp
  have "\<bar>of_int (math_round (fl (fl (1000 / 512000) * 100))) - (1000 / 512000 * 100 :: rat)\<bar> \<le> 1 / 2 + 1 / 2 ^ 44"
    by (rule percent_close) simp_all
  then have "of_int (math_round (fl (fl (1000 / 512000) * 100))) \<le> 1000 / 512000 * 100 + (1 / 2 + 1 / 2 ^ 44 :: rat)"
    unfolding abs_le_iff by linarith
  moreover have "1000 / 512000 * 100 + (1 / 2 + 1 / 2 ^ 44 :: rat) < of_int 1" by simp
  ultimately have "(of_int (math_round (fl (fl (1000 / 512000) * 100))) :: rat) < of_int 1"
    by (rule order_le_less_trans)
  then have "math_round (fl (fl (1000 / 512000) * 100)) < 1" by (simp only: of_int_less_iff)
  then have "math_round (fl (fl (1000 / 512000) * 100)) = 0" using least by linarith
  then have "calcPercent ''1Gi'' ''512Mi'' = JsNum 0"
    using percent_value [of 512000 1000] by (simp add: calcPercent_def read)
  moreover have "calcPercent ''512Mi'' ''1Gi'' = JsNum 100"
    using percent_value [of 1000 512000] over by (simp add: calcPercent_def read)
  ultimately show ?thesis using eq by simp
qed

theorem memory_units_ignored_witness:
  "calcPercent (show_nat 300 @ ''Mi'') (show_nat 2 @ ''Gi'') = calcPercent (show_nat 300) (show_nat 2)"
  using memory_units_ignored [of "''Mi''" "''Gi''" 300 2] by (simp add: binary_units_def)

end
