(* ===== verification/BackupCreate.thy ===== *)
theory BackupCreate
  imports BackupService Permission
begin

section \<open>The form of a new backup\<close>

text \<open>
  \<open>pages/backups/create.tsx\<close>: the initial values from the query string, which fields the form
  shows, and the submission. The result of the mutation is an argument.
\<close>

datatype form_scope = ScopeObject | ScopeNamespaceOne | ScopeNamespaceBatch

record create_form_values =
  fv_code :: string
  fv_namespace :: "string option"
  fv_namespaces :: "string list option"
  fv_scope :: form_scope
  fv_kind :: string
  fv_kindFilter :: "string list option"
  fv_name :: "string option"
  fv_storageType :: "string option"

definition COMMON_KINDS :: "(string \<times> string \<times> bool) list" where
  "COMMON_KINDS =
    [(''apps/v1'', ''Deployment'', False), (''apps/v1'', ''StatefulSet'', False),
     (''apps/v1'', ''DaemonSet'', False), (''batch/v1'', ''Job'', False),
     (''batch/v1'', ''CronJob'', False), (''v1'', ''ConfigMap'', False), (''v1'', ''Secret'', False),
     (''v1'', ''Service'', False), (''v1'', ''Namespace'', True),
     (''v1'', ''PersistentVolume'', True), (''v1'', ''PersistentVolumeClaim'', False),
     (''storage.k8s.io/v1'', ''StorageClass'', True),
     (''storage.k8s.io/v1'', ''VolumeAttachment'', True),
     (''networking.k8s.io/v1'', ''Ingress'', False),
     (''networking.k8s.io/v1'', ''NetworkPolicy'', False)]"

definition CLUSTER_SCOPED_KINDS :: "string list" where
  "CLUSTER_SCOPED_KINDS = map (fst \<circ> snd) (filter (snd \<circ> snd) COMMON_KINDS)"

definition isClusterScopedKind :: "string option \<Rightarrow> bool" where
  "isClusterScopedKind kd \<longleftrightarrow> truthy kd \<and> the kd \<in> set CLUSTER_SCOPED_KINDS"

text \<open>\<open>get\<close> is the lookup in the query string of the page.\<close>

definition initialValues :: "(string \<Rightarrow> string option) \<Rightarrow> string option \<Rightarrow> create_form_values" where
  "initialValues get selected =
     (let preCode = or_str (get ''code'') (or_str selected []);
          preNamespace = or_str (get ''namespace'') [];
          preKind = or_str (get ''kind'') [];
          preName = or_str (get ''name'') []
      in \<lparr>fv_code = preCode,
          fv_namespace = (if preNamespace = [] then None else Some preNamespace),
          fv_namespaces = (if preNamespace = [] then None else Some [preNamespace]),
          fv_scope = ScopeObject, fv_kind = preKind,
          fv_kindFilter = (if preKind = [] then None else Some [preKind]),
          fv_name = Some preName, fv_storageType = Some ''Local''\<rparr>)"

definition kindOptions :: "(string \<times> string) list" where
  "kindOptions = map (\<lambda>(v, k, _). (k, k @ '' ('' @ v @ '')'')) COMMON_KINDS"

subsection \<open>The fields shown\<close>

definition shows_namespaces :: "form_scope \<Rightarrow> bool" where
  "shows_namespaces sc \<longleftrightarrow> sc = ScopeNamespaceBatch"

text \<open>The single namespace field: shown, disabled, required.\<close>

definition namespace_field :: "form_scope \<Rightarrow> string option \<Rightarrow> string option \<Rightarrow> bool \<times> bool \<times> bool" where
  "namespace_field sc code kd =
     (case sc of
        ScopeNamespaceOne \<Rightarrow> (True, \<not> truthy code \<or> isClusterScopedKind kd, \<not> isClusterScopedKind kd)
      | ScopeObject \<Rightarrow> (\<not> isClusterScopedKind kd, \<not> truthy code, False)
      | ScopeNamespaceBatch \<Rightarrow> (False, False, False))"

subsection \<open>Submission\<close>

datatype submit_effect =
    ErrorToast string
  | SendBackup string create_backup_body
  | SuccessToast string
  | GoTo string

definition lowerStorage :: "string \<Rightarrow> storage_type option" where
  "lowerStorage s =
     (let l = toLowerCase s
      in if l = ''local'' then Some StorageLocal
         else if l = ''nfs'' then Some StorageNfs
         else if l = ''s3'' then Some StorageS3 else None)"

definition empty_body :: "storage_type option \<Rightarrow> create_backup_body" where
  "empty_body st = \<lparr>cb_mode = None, cb_namespace = None, cb_namespaces = None, cb_target_kind = None,
     cb_target_name = None, cb_kind_filter = None, cb_storage_type = st\<rparr>"

definition list_or_empty :: "string list option \<Rightarrow> string list" where
  "list_or_empty v = (case v of None \<Rightarrow> [] | Some xs \<Rightarrow> xs)"

text \<open>The body, or the text of the error toast.\<close>

definition backup_body :: "create_form_values \<Rightarrow> string + create_backup_body" where
  "backup_body v =
     (if fv_code v = [] then Inl [CHR 0xE8, CHR 0xAF, CHR 0xB7, CHR 0xE9, CHR 0x80, CHR 0x89, CHR 0xE6, CHR 0x8B,
      CHR 0xA9, CHR 0xE9, CHR 0x9B, CHR 0x86, CHR 0xE7, CHR 0xBE, CHR 0xA4]
      else
        let body = empty_body (lowerStorage (or_str (fv_storageType v) ''Local'')) in
        if fv_scope v = ScopeNamespaceOne \<or> fv_scope v = ScopeNamespaceBatch then
          (let nsList = (if fv_scope v = ScopeNamespaceBatch then list_or_empty (fv_namespaces v)
                         else if truthy (fv_namespace v) then [the (fv_namespace v)] else []);
               kfList = (if fv_scope v = ScopeNamespaceBatch then list_or_empty (fv_kindFilter v)
                         else if fv_kind v \<noteq> [] then [fv_kind v] else [])
           in if nsList = [] then
                Inl (if fv_scope v = ScopeNamespaceBatch then [CHR 0xE8, CHR 0xAF, CHR 0xB7, CHR 0xE8, CHR 0x87, CHR 0xB3, CHR 0xE5, CHR 0xB0,
      CHR 0x91, CHR 0xE9, CHR 0x80, CHR 0x89, CHR 0xE6, CHR 0x8B, CHR 0xA9, CHR 0xE4,
      CHR 0xB8, CHR 0x80, CHR 0xE4, CHR 0xB8, CHR 0xAA, CHR 0xE5, CHR 0x91, CHR 0xBD,
      CHR 0xE5, CHR 0x90, CHR 0x8D, CHR 0xE7, CHR 0xA9, CHR 0xBA, CHR 0xE9, CHR 0x97,
      CHR 0xB4]
                     else [CHR 0xE8, CHR 0xAF, CHR 0xB7, CHR 0xE9, CHR 0x80, CHR 0x89, CHR 0xE6, CHR 0x8B,
      CHR 0xA9, CHR 0xE5, CHR 0x91, CHR 0xBD, CHR 0xE5, CHR 0x90, CHR 0x8D, CHR 0xE7,
      CHR 0xA9, CHR 0xBA, CHR 0xE9, CHR 0x97, CHR 0xB4])
              else if kfList = [] then
                Inl (if fv_scope v = ScopeNamespaceBatch then [CHR 0xE8, CHR 0xAF, CHR 0xB7, CHR 0xE8, CHR 0x87, CHR 0xB3, CHR 0xE5, CHR 0xB0,
      CHR 0x91, CHR 0xE9, CHR 0x80, CHR 0x89, CHR 0xE6, CHR 0x8B, CHR 0xA9, CHR 0xE4,
      CHR 0xB8, CHR 0x80, CHR 0xE7, CHR 0xA7, CHR 0x8D, CHR 0xE8, CHR 0xB5, CHR 0x84,
      CHR 0xE6, CHR 0xBA, CHR 0x90, CHR 0xE7, CHR 0xB1, CHR 0xBB, CHR 0xE5, CHR 0x9E,
      CHR 0x8B]
                     else [CHR 0xE8, CHR 0xAF, CHR 0xB7, CHR 0xE9, CHR 0x80, CHR 0x89, CHR 0xE6, CHR 0x8B,
      CHR 0xA9, CHR 0xE5, CHR 0xAF, CHR 0xB9, CHR 0xE8, CHR 0xB1, CHR 0xA1, CHR 0xE7,
      CHR 0xB1, CHR 0xBB, CHR 0xE5, CHR 0x88, CHR 0xAB])
              else Inr (body\<lparr>cb_mode := Some BmNamespaceBatch, cb_namespaces := Some nsList,
                             cb_kind_filter := Some kfList\<rparr>))
        else
          (let b = body\<lparr>cb_mode := Some BmSingle, cb_namespace := Some (or_str (fv_namespace v) []),
                        cb_target_kind := Some (fv_kind v),
                        cb_target_name := Some (or_str (fv_name v) [])\<rparr>
           in if \<not> truthy (cb_target_kind b) \<or> \<not> truthy (cb_target_name b)
              then Inl [CHR 0xE5, CHR 0x8D, CHR 0x95, CHR 0xE5, CHR 0xAF, CHR 0xB9, CHR 0xE8, CHR 0xB1,
      CHR 0xA1, CHR 0xE6, CHR 0xA8, CHR 0xA1, CHR 0xE5, CHR 0xBC, CHR 0x8F, CHR 0xE9,
      CHR 0x9C, CHR 0x80, CHR 0xE8, CHR 0xA6, CHR 0x81, CHR 0xE5, CHR 0xA1, CHR 0xAB,
      CHR 0xE5, CHR 0x86, CHR 0x99, CHR 0xE5, CHR 0xAF, CHR 0xB9, CHR 0xE8, CHR 0xB1,
      CHR 0xA1, CHR 0xE7, CHR 0xB1, CHR 0xBB, CHR 0xE5, CHR 0x88, CHR 0xAB, CHR 0xE5,
      CHR 0x92, CHR 0x8C, CHR 0xE5, CHR 0x90, CHR 0x8D, CHR 0xE7, CHR 0xA7, CHR 0xB0]
              else Inr b))"

definition backup_handleSubmit :: "create_form_values \<Rightarrow> bool \<Rightarrow> submit_effect list" where
  "backup_handleSubmit v ok =
     (case backup_body v of
        Inl msg \<Rightarrow> [ErrorToast msg]
      | Inr body \<Rightarrow>
          SendBackup (fv_code v) body #
          (if ok then [SuccessToast [CHR 0xE5, CHR 0xA4, CHR 0x87, CHR 0xE4, CHR 0xBB, CHR 0xBD, CHR 0xE4, CHR 0xBB,
      CHR 0xBB, CHR 0xE5, CHR 0x8A, CHR 0xA1, CHR 0xE5, CHR 0xB7, CHR 0xB2, CHR 0xE6,
      CHR 0x8F, CHR 0x90, CHR 0xE4, CHR 0xBA, CHR 0xA4, CHR 0xEF, CHR 0xBC, CHR 0x8C,
      CHR 0xE5, CHR 0x88, CHR 0xB7, CHR 0xE6, CHR 0x96, CHR 0xB0, CHR 0xE5, CHR 0x88,
      CHR 0x97, CHR 0xE8, CHR 0xA1, CHR 0xA8, CHR 0xE6, CHR 0x9F, CHR 0xA5, CHR 0xE7,
      CHR 0x9C, CHR 0x8B, CHR 0xE7, CHR 0x8A, CHR 0xB6, CHR 0xE6, CHR 0x80, CHR 0x81],
                       GoTo (''/backups/list?code='' @ encodeURIComponent (fv_code v))]
           else []))"

subsection \<open>Properties\<close>

text \<open>A body that the create endpoint can act on.\<close>

definition complete_body :: "create_backup_body \<Rightarrow> bool" where
  "complete_body b \<longleftrightarrow>
     (case cb_mode b of
        Some BmSingle \<Rightarrow> truthy (cb_target_kind b) \<and> truthy (cb_target_name b) \<and> cb_namespace b \<noteq> None
          \<and> cb_namespaces b = None \<and> cb_kind_filter b = None
      | Some BmNamespaceBatch \<Rightarrow> (\<exists>ns. cb_namespaces b = Some ns \<and> ns \<noteq> [])
          \<and> (\<exists>kf. cb_kind_filter b = Some kf \<and> kf \<noteq> [])
          \<and> cb_target_kind b = None \<and> cb_target_name b = None
      | None \<Rightarrow> False)"

text \<open>
  Submitting the form either rejects it or sends one complete request: a rejected form
  gives exactly one error toast and sends nothing; an accepted one sends one body with either
  a kind and a name or non-empty lists of namespaces and kinds, never a mixture, under the
  chosen cluster; and the page moves on to the list only after the server took it.
\<close>

theorem backup_form_outcome:
  "(\<exists>msg. backup_handleSubmit v ok = [ErrorToast msg])
   \<or> fv_code v \<noteq> [] \<and> (\<exists>body rest. backup_handleSubmit v ok = SendBackup (fv_code v) body # rest
        \<and> complete_body body
        \<and> rest = (if ok then [SuccessToast [CHR 0xE5, CHR 0xA4, CHR 0x87, CHR 0xE4, CHR 0xBB, CHR 0xBD, CHR 0xE4, CHR 0xBB,
      CHR 0xBB, CHR 0xE5, CHR 0x8A, CHR 0xA1, CHR 0xE5, CHR 0xB7, CHR 0xB2, CHR 0xE6,
      CHR 0x8F, CHR 0x90, CHR 0xE4, CHR 0xBA, CHR 0xA4, CHR 0xEF, CHR 0xBC, CHR 0x8C,
      CHR 0xE5, CHR 0x88, CHR 0xB7, CHR 0xE6, CHR 0x96, CHR 0xB0, CHR 0xE5, CHR 0x88,
      CHR 0x97, CHR 0xE8, CHR 0xA1, CHR 0xA8, CHR 0xE6, CHR 0x9F, CHR 0xA5, CHR 0xE7,
      CHR 0x9C, CHR 0x8B, CHR 0xE7, CHR 0x8A, CHR 0xB6, CHR 0xE6, CHR 0x80, CHR 0x81],
              GoTo (''/backups/list?code='' @ encodeURIComponent (fv_code v))] else []))"
proof (cases "backup_body v")
  case (Inl msg)
  then show ?thesis by (simp add: backup_handleSubmit_def)
next
  case (Inr b)
  then have "fv_code v \<noteq> []" by (auto simp: backup_body_def)
  moreover have "complete_body b"
    using Inr by (cases "fv_scope v")
      (auto simp: backup_body_def complete_body_def empty_body_def Let_def split: if_splits)
  ultimately show ?thesis using Inr by (simp add: backup_handleSubmit_def)
qed

text \<open>
  The single-namespace scope with a cluster-scoped kind is a dead end: the namespace field is
  disabled and optional, but a submission without a namespace is rejected.
\<close>

lemma cluster_kind_dead_end:
  assumes "fv_scope v = ScopeNamespaceOne" and "\<not> truthy (fv_namespace v)" and "fv_code v \<noteq> []"
    and "isClusterScopedKind (Some (fv_kind v))"
  shows "backup_handleSubmit v ok = [ErrorToast [CHR 0xE8, CHR 0xAF, CHR 0xB7, CHR 0xE9, CHR 0x80, CHR 0x89, CHR 0xE6, CHR 0x8B,
      CHR 0xA9, CHR 0xE5, CHR 0x91, CHR 0xBD, CHR 0xE5, CHR 0x90, CHR 0x8D, CHR 0xE7,
      CHR 0xA9, CHR 0xBA, CHR 0xE9, CHR 0x97, CHR 0xB4]]"
    and "namespace_field (fv_scope v) (Some (fv_code v)) (Some (fv_kind v)) = (True, True, False)"
  using assms by (simp_all add: backup_handleSubmit_def backup_body_def namespace_field_def Let_def)

end
