(* ===== verification/Resources.thy ===== *)
theory Resources
  imports JsNumber "HOL-Library.AList"
begin

section \<open>Kubernetes objects: kinds, status and text\<close>

text \<open>
  \<open>constants/k8sKinds.ts\<close>, \<open>utils/workloadStatus.ts\<close> and \<open>utils/yaml.ts\<close>. A Kubernetes
  object is a JSON value; an object is the list of its fields in insertion order.
\<close>

datatype json =
    JNull
  | JBool bool
  | JNum rat
  | JStr string
  | JArr "json list"
  | JObj "(string \<times> json) list"

subsection \<open>Kinds\<close>

datatype resource_tab = TabWorkload | TabNetwork | TabConfig | TabStorage

record kind_item =
  ki_label :: string
  ki_value :: string
  ki_apiVersion :: string
  ki_clusterScoped :: "bool option"

record kind_group =
  kg_key :: resource_tab
  kg_label :: string
  kg_kinds :: "kind_item list"

definition kind :: "string \<Rightarrow> string \<Rightarrow> kind_item" where
  "kind n v = \<lparr>ki_label = n, ki_value = n, ki_apiVersion = v, ki_clusterScoped = None\<rparr>"

definition scoped_kind :: "string \<Rightarrow> string \<Rightarrow> kind_item" where
  "scoped_kind n v = \<lparr>ki_label = n, ki_value = n, ki_apiVersion = v, ki_clusterScoped = Some True\<rparr>"

definition KIND_GROUPS :: "kind_group list" where
  "KIND_GROUPS =
    [\<lparr>kg_key = TabWorkload, kg_label = [CHR 0xE5, CHR 0xB7, CHR 0xA5, CHR 0xE4, CHR 0xBD, CHR 0x9C, CHR 0xE8, CHR 0xB4,
      CHR 0x9F, CHR 0xE8, CHR 0xBD, CHR 0xBD], kg_kinds =
       [kind ''Deployment'' ''apps/v1'', kind ''StatefulSet'' ''apps/v1'',
        kind ''DaemonSet'' ''apps/v1'', kind ''Job'' ''batch/v1'', kind ''CronJob'' ''batch/v1'',
        kind ''Pod'' ''v1'']\<rparr>,
     \<lparr>kg_key = TabNetwork, kg_label = [CHR 0xE7, CHR 0xBD, CHR 0x91, CHR 0xE7, CHR 0xBB, CHR 0x9C], kg_kinds =
       [kind ''Service'' ''v1'', kind ''Ingress'' ''networking.k8s.io/v1'',
        kind ''NetworkPolicy'' ''networking.k8s.io/v1'', kind ''Endpoints'' ''v1'']\<rparr>,
     \<lparr>kg_key = TabConfig, kg_label = [CHR 0xE9, CHR 0x85, CHR 0x8D, CHR 0xE7, CHR 0xBD, CHR 0xAE], kg_kinds =
       [kind ''ConfigMap'' ''v1'', kind ''Secret'' ''v1'', scoped_kind ''Namespace'' ''v1'',
        kind ''ServiceAccount'' ''v1'', kind ''ResourceQuota'' ''v1'', kind ''LimitRange'' ''v1'']\<rparr>,
     \<lparr>kg_key = TabStorage, kg_label = [CHR 0xE5, CHR 0xAD, CHR 0x98, CHR 0xE5, CHR 0x82, CHR 0xA8], kg_kinds =
       [scoped_kind ''PersistentVolume'' ''v1'', kind ''PersistentVolumeClaim'' ''v1'',
        scoped_kind ''StorageClass'' ''storage.k8s.io/v1'',
        scoped_kind ''VolumeAttachment'' ''storage.k8s.io/v1'']\<rparr>]"

definition ALL_KINDS_MAP :: "(string \<times> string \<times> bool option) list" where
  "ALL_KINDS_MAP =
     fold (\<lambda>g m. fold (\<lambda>k. AList.update (ki_value k) (ki_apiVersion k, ki_clusterScoped k))
       (kg_kinds g) m) KIND_GROUPS []"

record kind_option =
  ko_label :: string
  ko_value :: string
  ko_apiVersion :: string
  ko_clusterScoped :: bool

definition ALL_KIND_OPTIONS :: "kind_option list" where
  "ALL_KIND_OPTIONS =
     concat (map (\<lambda>g. map (\<lambda>k. \<lparr>ko_label = kg_label g @ '' / '' @ ki_label k, ko_value = ki_value k,
        ko_apiVersion = ki_apiVersion k, ko_clusterScoped = (ki_clusterScoped k = Some True)\<rparr>)
        (kg_kinds g)) KIND_GROUPS)"

text \<open>No kind is listed twice, so a kind of the options is found in the map with its version.\<close>

lemma kind_values_distinct: "distinct (map ko_value ALL_KIND_OPTIONS)"
  by code_simp

lemma kind_option_in_map:
  "list_all (\<lambda>k. map_of ALL_KINDS_MAP (ko_value k)
     = Some (ko_apiVersion k, if ko_clusterScoped k then Some True else None)) ALL_KIND_OPTIONS"
  by code_simp

subsection \<open>Status of a workload\<close>

record workload_status =
  wl_text :: string
  wl_color :: string
  wl_extra :: "string option"

text \<open>\<open>None\<close> is \<open>undefined\<close>, the value of a missing field.\<close>

definition num :: "json option \<Rightarrow> rat option" where
  "num v = (case v of
     Some (JNum n) \<Rightarrow> Some n
   | Some (JStr s) \<Rightarrow> if s = [] then None else js_Number s
   | _ \<Rightarrow> None)"

definition asRecord :: "json option \<Rightarrow> (string \<times> json) list option" where
  "asRecord v = (case v of Some (JObj fs) \<Rightarrow> Some fs | _ \<Rightarrow> None)"

definition field :: "(string \<times> json) list option \<Rightarrow> string \<Rightarrow> json option" where
  "field fs k = Option.bind fs (\<lambda>f. map_of f k)"

definition json_truthy :: "json option \<Rightarrow> bool" where
  "json_truthy v = (case v of
     None \<Rightarrow> False | Some JNull \<Rightarrow> False | Some (JBool b) \<Rightarrow> b | Some (JNum n) \<Rightarrow> n \<noteq> 0
   | Some (JStr s) \<Rightarrow> s \<noteq> [] | Some (JArr _) \<Rightarrow> True | Some (JObj _) \<Rightarrow> True)"

text \<open>A non-empty string, \<open>typeof v === 'string' && v\<close>.\<close>

definition text_of :: "json option \<Rightarrow> string option" where
  "text_of v = (case v of Some (JStr s) \<Rightarrow> if s = [] then None else Some s | _ \<Rightarrow> None)"

text \<open>The elements of an array field; the API server sends an array of objects or nothing.\<close>

definition elements :: "json option \<Rightarrow> json list" where
  "elements v = (case v of Some (JArr xs) \<Rightarrow> xs | _ \<Rightarrow> [])"

definition first_waiting :: "json list \<Rightarrow> json option" where
  "first_waiting cs =
     find (\<lambda>c. json_truthy (field (asRecord (Some c)) ''state'')
               \<and> field (asRecord (field (asRecord (Some c)) ''state'')) ''waiting'' \<noteq> None) cs"

definition waiting_reason :: "json option \<Rightarrow> string option" where
  "waiting_reason c =
     text_of (field (asRecord (field (asRecord (field (asRecord c) ''state'')) ''waiting'')) ''reason'')"

definition POD_PHASE_COLOR :: "(string \<times> string) list" where
  "POD_PHASE_COLOR = [(''Pending'', ''warning''), (''Running'', ''success''),
     (''Succeeded'', ''blue''), (''Failed'', ''error''), (''Unknown'', ''default'')]"

definition podWaitingReason :: "(string \<times> json) list \<Rightarrow> string option" where
  "podWaitingReason status =
     (case waiting_reason (first_waiting (elements (field (Some status) ''containerStatuses''))) of
        Some r \<Rightarrow> Some r
      | None \<Rightarrow>
     (case waiting_reason (first_waiting (elements (field (Some status) ''initContainerStatuses''))) of
        Some r \<Rightarrow> Some (''Init: '' @ r)
      | None \<Rightarrow>
     (let scheduled = find (\<lambda>c. field (asRecord (Some c)) ''type'' = Some (JStr ''PodScheduled''))
            (elements (field (Some status) ''conditions''));
          reason = text_of (field (asRecord scheduled) ''reason'')
      in if field (asRecord scheduled) ''status'' = Some (JStr ''False'') \<and> reason \<noteq> None
         then reason
         else text_of (field (Some status) ''reason''))))"

text \<open>Template text of a number: replica counts are whole numbers.\<close>

definition show_num :: "rat \<Rightarrow> string" where
  "show_num q = show_int \<lfloor>q\<rfloor>"

definition replica_color :: "rat \<Rightarrow> rat \<Rightarrow> string" where
  "replica_color desired ready =
     (if desired = 0 then ''default''
      else if ready = desired then ''success''
      else if ready = 0 then ''error''
      else ''warning'')"

definition or_num :: "rat option \<Rightarrow> rat \<Rightarrow> rat" where
  "or_num v d = (case v of None \<Rightarrow> d | Some n \<Rightarrow> n)"

definition contains_any :: "string list \<Rightarrow> string \<Rightarrow> bool" where
  "contains_any ws s \<longleftrightarrow> (\<exists>w \<in> set ws. str_includes (toLowerCase s) w)"

definition phase_color :: "string \<Rightarrow> string" where
  "phase_color phase =
     (if contains_any [''bound'', ''ready'', ''available'', ''active'', ''running'', ''complete''] phase
      then ''success''
      else if contains_any [''pending'', ''wait'', ''progress''] phase then ''warning''
      else if contains_any [''fail'', ''error'', ''lost'', ''term'', ''lost''] phase then ''error''
      else ''default'')"

definition pod_status :: "(string \<times> json) list \<Rightarrow> workload_status" where
  "pod_status status =
     (let phase = (case text_of (field (Some status) ''phase'') of Some p \<Rightarrow> p | None \<Rightarrow> ''Unknown'');
          containers = elements (field (Some status) ''containerStatuses'');
          total = length containers;
          ready = length (filter (\<lambda>c. json_truthy (field (asRecord (Some c)) ''ready'')) containers);
          reason = podWaitingReason status;
          extra = (if total \<noteq> 0 then Some (show_nat ready @ ''/'' @ show_nat total @ '' Ready'')
                   else None)
      in \<lparr>wl_text = phase,
          wl_color = (case map_of POD_PHASE_COLOR phase of Some c \<Rightarrow> c | None \<Rightarrow> ''default''),
          wl_extra = (if phase \<noteq> ''Running'' \<and> reason \<noteq> None then reason else extra)\<rparr>)"

definition replica_status ::
  "(string \<times> json) list \<Rightarrow> (string \<times> json) list \<Rightarrow> workload_status" where
  "replica_status status spec =
     (let desired = or_num (num (field (Some status) ''replicas''))
            (or_num (num (field (Some spec) ''replicas'')) 0);
          ready = or_num (num (field (Some status) ''readyReplicas'')) 0;
          available = num (field (Some status) ''availableReplicas'')
      in \<lparr>wl_text = show_num ready @ ''/'' @ show_num desired,
          wl_color = replica_color desired ready,
          wl_extra = map_option (\<lambda>a. ([CHR 0xE5, CHR 0x8F, CHR 0xAF, CHR 0xE7, CHR 0x94, CHR 0xA8] @
     '' '') @ show_num a) available\<rparr>)"

definition daemonset_status :: "(string \<times> json) list \<Rightarrow> workload_status" where
  "daemonset_status status =
     (let desired = or_num (num (field (Some status) ''desiredNumberScheduled'')) 0;
          ready = or_num (num (field (Some status) ''numberReady'')) 0;
          unavailable = or_num (num (field (Some status) ''numberUnavailable'')) 0
      in \<lparr>wl_text = show_num ready @ ''/'' @ show_num desired,
          wl_color = replica_color desired ready,
          wl_extra = (if unavailable \<noteq> 0 then Some (([CHR 0xE4, CHR 0xB8, CHR 0x8D, CHR 0xE5, CHR 0x8F, CHR 0xAF, CHR 0xE7, CHR 0x94,
      CHR 0xA8] @
     '' '') @ show_num unavailable) else None)\<rparr>)"

definition job_status ::
  "(string \<times> json) list \<Rightarrow> (string \<times> json) list \<Rightarrow> workload_status" where
  "job_status status spec =
     (let succeeded = or_num (num (field (Some status) ''succeeded'')) 0;
          failed = or_num (num (field (Some status) ''failed'')) 0;
          active = or_num (num (field (Some status) ''active'')) 0;
          completions = or_num (num (field (Some spec) ''completions'')) 1
      in if failed > 0 \<and> succeeded < completions then
           \<lparr>wl_text = ''Failed'', wl_color = ''error'', wl_extra = Some (([CHR 0xE5, CHR 0xA4, CHR 0xB1, CHR 0xE8, CHR 0xB4, CHR 0xA5] @
     '' '') @ show_num failed)\<rparr>
         else if succeeded \<ge> completions then
           \<lparr>wl_text = ''Complete'', wl_color = ''success'',
            wl_extra = Some (show_num succeeded @ ''/'' @ show_num completions)\<rparr>
         else if active > 0 then
           \<lparr>wl_text = ''Running'', wl_color = ''processing'',
            wl_extra = Some (([CHR 0xE8, CHR 0xBF, CHR 0x9B, CHR 0xE8, CHR 0xA1, CHR 0x8C, CHR 0xE4, CHR 0xB8,
      CHR 0xAD] @
     '' '') @ show_num active)\<rparr>
         else \<lparr>wl_text = ''Pending'', wl_color = ''warning'', wl_extra = None\<rparr>)"

definition cronjob_status ::
  "(string \<times> json) list \<Rightarrow> (string \<times> json) list \<Rightarrow> workload_status" where
  "cronjob_status status spec =
     (if json_truthy (field (Some spec) ''suspend'') then
        \<lparr>wl_text = ''Suspended'', wl_color = ''default'', wl_extra = None\<rparr>
      else
        let active = elements (field (Some status) ''active'');
            last_run = text_of (field (Some status) ''lastScheduleTime'')
        in if active \<noteq> [] then
             \<lparr>wl_text = ''Active'', wl_color = ''processing'',
              wl_extra = Some (show_nat (length active) @ ('' '' @
     [CHR 0xE4, CHR 0xB8, CHR 0xAA, CHR 0xE4, CHR 0xBB, CHR 0xBB, CHR 0xE5, CHR 0x8A,
      CHR 0xA1]))\<rparr>
           else \<lparr>wl_text = ''Idle'', wl_color = ''success'',
              wl_extra = map_option (\<lambda>l. ([CHR 0xE4, CHR 0xB8, CHR 0x8A, CHR 0xE6, CHR 0xAC, CHR 0xA1, CHR 0xE8, CHR 0xB0,
      CHR 0x83, CHR 0xE5, CHR 0xBA, CHR 0xA6] @
     '' '') @ l) last_run\<rparr>)"

definition getWorkloadStatus :: "string \<Rightarrow> (string \<times> json) list \<Rightarrow> workload_status" where
  "getWorkloadStatus kd resource =
     (let status = (case asRecord (field (Some resource) ''status'') of Some s \<Rightarrow> s | None \<Rightarrow> []);
          spec = (case asRecord (field (Some resource) ''spec'') of Some s \<Rightarrow> s | None \<Rightarrow> [])
      in if kd = ''Pod'' then pod_status status
         else if kd = ''Deployment'' \<or> kd = ''StatefulSet'' \<or> kd = ''ReplicaSet''
           then replica_status status spec
         else if kd = ''DaemonSet'' then daemonset_status status
         else if kd = ''Job'' then job_status status spec
         else if kd = ''CronJob'' then cronjob_status status spec
         else case text_of (field (Some status) ''phase'') of
                Some phase \<Rightarrow> \<lparr>wl_text = phase, wl_color = phase_color phase, wl_extra = None\<rparr>
              | None \<Rightarrow> \<lparr>wl_text = ''-'', wl_color = ''default'', wl_extra = None\<rparr>)"

subsection \<open>Text of an object\<close>

text \<open>
  \<open>resourceToYaml\<close>. \<open>js-yaml\<close> is a library: \<open>yamlDump\<close> is a parameter, \<open>None\<close> where it throws,
  and so is \<open>jsonText\<close> (\<open>JSON.stringify\<close> with indentation 2). Copying a JSON value through
  \<open>JSON.parse(JSON.stringify(obj))\<close> gives the value. \<open>scalarText\<close> is \<open>String(v)\<close> of a scalar.
\<close>

definition unwrap_object :: "(string \<times> json) list \<Rightarrow> (string \<times> json) list" where
  "unwrap_object raw =
     (case asRecord (field (Some raw) ''Object'') of
        Some wrapped \<Rightarrow>
          if \<not> json_truthy (field (Some raw) ''apiVersion'') \<and> \<not> json_truthy (field (Some raw) ''kind'')
          then wrapped else raw
      | None \<Rightarrow> raw)"

definition clean_meta :: "json \<Rightarrow> json" where
  "clean_meta v = (case v of JObj m \<Rightarrow> JObj (AList.delete ''managedFields'' m) | _ \<Rightarrow> v)"

definition drop_managed_fields :: "(string \<times> json) list \<Rightarrow> (string \<times> json) list" where
  "drop_managed_fields obj =
     map (\<lambda>(k, v). (k, if k = ''metadata'' then clean_meta v else v)) obj"

definition resourceToYaml ::
  "(json \<Rightarrow> string option) \<Rightarrow> (json \<Rightarrow> string) \<Rightarrow> (json \<Rightarrow> string) \<Rightarrow> json option \<Rightarrow> string" where
  "resourceToYaml yamlDump jsonText scalarText resource =
     (case resource of
        None \<Rightarrow> []
      | Some JNull \<Rightarrow> []
      | Some (JStr s) \<Rightarrow> s
      | Some (JObj raw) \<Rightarrow>
          (let clone = JObj (drop_managed_fields (unwrap_object raw))
           in case yamlDump clone of Some t \<Rightarrow> t | None \<Rightarrow> jsonText clone)
      | Some (JArr xs) \<Rightarrow> (case yamlDump (JArr xs) of Some t \<Rightarrow> t | None \<Rightarrow> jsonText (JArr xs))
      | Some v \<Rightarrow> scalarText v)"

definition tryParseYaml :: "(string \<Rightarrow> json option) \<Rightarrow> string \<Rightarrow> json option" where
  "tryParseYaml yamlLoad txt = yamlLoad txt"

subsection \<open>Properties\<close>

lemma drop_managed_fields_lookup:
  "map_of (drop_managed_fields obj) k
   = (if k = ''metadata'' then map_option clean_meta (map_of obj k) else map_of obj k)"
  unfolding drop_managed_fields_def by (induction obj) auto

text \<open>
  What the editor gets is the object itself, unwrapped, with every field except
  \<open>metadata.managedFields\<close>, which is gone.
\<close>

lemma resourceToYaml_content:
  assumes "yamlDump (JObj (drop_managed_fields (unwrap_object raw))) = Some t"
  shows "resourceToYaml yamlDump jsonText scalarText (Some (JObj raw)) = t"
    and "field (asRecord (field (Some (drop_managed_fields (unwrap_object raw))) ''metadata''))
           ''managedFields'' = None"
    and "k \<noteq> ''metadata'' \<Longrightarrow> field (Some (drop_managed_fields (unwrap_object raw))) k
           = field (Some (unwrap_object raw)) k"
  using assms
  by (auto simp: resourceToYaml_def Let_def field_def drop_managed_fields_lookup asRecord_def
      clean_meta_def split: option.splits json.splits)

lemma replica_color_cases:
  "replica_color desired ready = ''success'' \<longleftrightarrow> desired \<noteq> 0 \<and> ready = desired"
  "replica_color desired ready = ''error'' \<longleftrightarrow> desired \<noteq> 0 \<and> ready = 0"
  "replica_color desired ready = ''warning'' \<longleftrightarrow> desired \<noteq> 0 \<and> ready \<noteq> desired \<and> ready \<noteq> 0"
  by (auto simp: replica_color_def)

definition status_num :: "(string \<times> json) list \<Rightarrow> string \<Rightarrow> string \<Rightarrow> rat option" where
  "status_num resource part k = num (field (asRecord (field (Some resource) part)) k)"

text \<open>
  The colour of a workload tells its health: a Deployment, StatefulSet or ReplicaSet is
  green exactly when some replicas are wanted and all of them are ready, red exactly when some
  are wanted and none is, and a Job is green exactly when it reached its completions, red
  exactly when it has failures and did not; absent counters count as 0, an absent number of
  completions as 1, and the wanted replicas fall back from the status to the spec.
\<close>

theorem workload_color_sound:
  assumes "kd \<in> {''Deployment'', ''StatefulSet'', ''ReplicaSet''}"
    and "desired = or_num (status_num r ''status'' ''replicas'')
           (or_num (status_num r ''spec'' ''replicas'') 0)"
    and "ready = or_num (status_num r ''status'' ''readyReplicas'') 0"
    and "succeeded = or_num (status_num r ''status'' ''succeeded'') 0"
    and "failed = or_num (status_num r ''status'' ''failed'') 0"
    and "completions = or_num (status_num r ''spec'' ''completions'') 1"
  shows "(wl_color (getWorkloadStatus kd r) = ''success'' \<longleftrightarrow> desired \<noteq> 0 \<and> ready = desired)
    \<and> (wl_color (getWorkloadStatus kd r) = ''error'' \<longleftrightarrow> desired \<noteq> 0 \<and> ready = 0)
    \<and> (wl_color (getWorkloadStatus ''Job'' r) = ''success'' \<longleftrightarrow> succeeded \<ge> completions)
    \<and> (wl_color (getWorkloadStatus ''Job'' r) = ''error'' \<longleftrightarrow> failed > 0 \<and> succeeded < completions)"
proof -
  have num_part: "status_num r part k
      = num (field (Some (case asRecord (field (Some r) part) of Some s \<Rightarrow> s | None \<Rightarrow> [])) k)" for part k
    by (cases "asRecord (field (Some r) part)") (simp_all add: status_num_def field_def)
  have "wl_color (getWorkloadStatus kd r) = replica_color desired ready"
    using assms(1) by (auto simp: getWorkloadStatus_def replica_status_def Let_def assms(2,3) num_part)
  moreover have "wl_color (getWorkloadStatus ''Job'' r)
      = (if failed > 0 \<and> succeeded < completions then ''error''
         else if succeeded \<ge> completions then ''success''
         else if or_num (status_num r ''status'' ''active'') 0 > 0 then ''processing''
         else ''warning'')"
    by (simp add: getWorkloadStatus_def job_status_def Let_def assms(4-6) num_part)
  ultimately show ?thesis by (auto simp: replica_color_cases)
qed

definition demo_deployment :: "(string \<times> json) list" where
  "demo_deployment = [(''spec'', JObj [(''replicas'', JNum 3)]),
     (''status'', JObj [(''replicas'', JNum 3), (''readyReplicas'', JNum 3)])]"

theorem workload_color_sound_witness:
  "wl_color (getWorkloadStatus ''Deployment'' demo_deployment) = ''success''"
proof -
  have "''Deployment'' \<in> {''Deployment'', ''StatefulSet'', ''ReplicaSet''}" by simp
  from workload_color_sound [OF this refl refl refl refl refl, of demo_deployment] show ?thesis
    by (simp add: status_num_def demo_deployment_def field_def asRecord_def num_def or_num_def)
qed

end
