(* ===== verification/JsSort.thy ===== *)
theory JsSort
  imports Prelude "HOL-Library.Multiset"
begin

section \<open>Sorting and object values\<close>

text \<open>
  \<open>Array.prototype.sort\<close> with a comparison, \<open>String(v)\<close> of an optional string, and the order
  in which \<open>Object.values\<close> lists the values of an object.
\<close>

text \<open>\<open>Array.prototype.sort\<close> is stable: an element goes before the first one that is not less.\<close>

fun sort_insert :: "('k \<Rightarrow> 'k \<Rightarrow> bool) \<Rightarrow> ('a \<Rightarrow> 'k) \<Rightarrow> 'a \<Rightarrow> 'a list \<Rightarrow> 'a list" where
  "sort_insert leq key x [] = [x]"
| "sort_insert leq key x (y # ys) =
     (if leq (key x) (key y) then x # y # ys else y # sort_insert leq key x ys)"

definition js_sort :: "('k \<Rightarrow> 'k \<Rightarrow> bool) \<Rightarrow> ('a \<Rightarrow> 'k) \<Rightarrow> 'a list \<Rightarrow> 'a list" where
  "js_sort leq key xs = foldr (sort_insert leq key) xs []"

text \<open>A comparison that JavaScript accepts as consistent.\<close>

definition total_preorder :: "('k \<Rightarrow> 'k \<Rightarrow> bool) \<Rightarrow> bool" where
  "total_preorder leq \<longleftrightarrow> (\<forall>a b. leq a b \<or> leq b a) \<and> (\<forall>a b c. leq a b \<longrightarrow> leq b c \<longrightarrow> leq a c)"

lemma mset_sort_insert [simp]: "mset (sort_insert leq key x ys) = add_mset x (mset ys)"
  by (induction ys) simp_all

lemma mset_js_sort [simp]: "mset (js_sort leq key xs) = mset xs"
  unfolding js_sort_def by (induction xs) simp_all

lemma set_js_sort [simp]: "set (js_sort leq key xs) = set xs"
  by (metis mset_js_sort set_mset_mset)

lemma sorted_sort_insert:
  assumes "total_preorder leq" and "sorted_wrt (\<lambda>a b. leq (key a) (key b)) ys"
  shows "sorted_wrt (\<lambda>a b. leq (key a) (key b)) (sort_insert leq key x ys)"
  using assms(2)
proof (induction ys)
  case Nil
  then show ?case by simp
next
  case (Cons y ys)
  have set_ins: "set (sort_insert leq key x ys) = insert x (set ys)"
    by (metis mset_sort_insert set_mset_add_mset_insert set_mset_mset)
  show ?case
  proof (cases "leq (key x) (key y)")
    case True
    moreover have "leq (key x) (key z)" if "z \<in> set ys" for z
      using that True Cons.prems assms(1) unfolding total_preorder_def by fastforce
    ultimately show ?thesis using Cons.prems by simp
  next
    case False
    then have "leq (key y) (key x)" using assms(1) unfolding total_preorder_def by blast
    with False Cons show ?thesis by (simp add: set_ins)
  qed
qed

lemma sorted_js_sort:
  "total_preorder leq \<Longrightarrow> sorted_wrt (\<lambda>a b. leq (key a) (key b)) (js_sort leq key xs)"
  unfolding js_sort_def by (induction xs) (simp_all add: sorted_sort_insert)

text \<open>\<open>String(v)\<close> of an optional string, and the values of an object in their key order.\<close>

definition js_string :: "string option \<Rightarrow> string" where
  "js_string v = (case v of None \<Rightarrow> ''undefined'' | Some s \<Rightarrow> s)"

definition index_key :: "string \<Rightarrow> bool" where
  "index_key k \<longleftrightarrow> show_nat (read_nat k) = k \<and> read_nat k < 2 ^ 32 - 1"

definition object_values :: "(string \<times> 'a) list \<Rightarrow> 'a list" where
  "object_values al =
     map snd (sort_key (read_nat \<circ> fst) (filter (index_key \<circ> fst) al)
              @ filter (\<lambda>p. \<not> index_key (fst p)) al)"

lemma set_object_values: "set (object_values al) = snd ` set al"
  by (auto simp: object_values_def image_iff)

lemma mset_object_values: "mset (object_values al) = mset (map snd al)"
proof -
  have "mset (sort_key (read_nat \<circ> fst) (filter (index_key \<circ> fst) al)
        @ filter (\<lambda>p. \<not> index_key (fst p)) al) = mset al"
    using multiset_partition [of "mset al" "index_key \<circ> fst"] by simp
  then show ?thesis unfolding object_values_def by (metis mset_map)
qed

end
