(* ===== verification/Compare.thy ===== *)
theory Compare
  imports Resources ResourceService JsSort
begin

section \<open>Comparing a resource across clusters\<close>

text \<open>
  \<open>pages/ops/compare.tsx\<close>: the options of the form, the two requests of a comparison and what
  the page shows of their results, and the exchange of the two sides. \<open>yaml\<close> is
  \<open>resourceToYaml\<close> with its parameters, \<open>leq\<close> is \<open>localeCompare\<close> as a relation.
\<close>

record compare_form =
  leftCluster :: string
  rightCluster :: string
  leftNamespace :: string
  rightNamespace :: string
  cf_kind :: string
  cf_name :: string

subsection \<open>What the form offers\<close>

definition kind_meta :: "string option \<Rightarrow> string \<times> bool" where
  "kind_meta kindWatch =
     (case Option.bind kindWatch (map_of ALL_KINDS_MAP) of
        Some (v, cs) \<Rightarrow> (v, cs = Some True)
      | None \<Rightarrow> (let k = hd ALL_KIND_OPTIONS in (ko_apiVersion k, ko_clusterScoped k)))"

definition list_api_version :: "string option \<Rightarrow> string" where
  "list_api_version kindWatch = or_str (Some (fst (kind_meta kindWatch))) ''apps/v1''"

definition can_list :: "string option \<Rightarrow> string option \<Rightarrow> string option \<Rightarrow> bool" where
  "can_list code kindWatch ns \<longleftrightarrow>
     truthy code \<and> truthy kindWatch \<and> (snd (kind_meta kindWatch) \<or> truthy ns)"

definition side_request :: "string option \<Rightarrow> string option \<Rightarrow> string option \<Rightarrow> list_resources_params" where
  "side_request code kindWatch ns =
     \<lparr>lr_code = or_str code [], lr_apiVersion = list_api_version kindWatch,
      lr_kind = or_str kindWatch ''Deployment'',
      lr_namespace = (if snd (kind_meta kindWatch) then None else ns),
      lr_page = None, lr_size = Some 200, lr_keyword = None\<rparr>"

definition cluster_label :: "string option \<times> string \<Rightarrow> string" where
  "cluster_label c = (if truthy (fst c) then the (fst c) @ '' ('' @ snd c @ '')'' else snd c)"

text \<open>The names found on the left and on the right, with the side flags of each.\<close>

definition name_sides :: "string option list \<Rightarrow> string option list \<Rightarrow> (string \<times> bool \<times> bool) list" where
  "name_sides left right =
     fold (\<lambda>n m. if \<not> truthy n then m
                 else AList.update (the n)
                        (case map_of m (the n) of Some (l, r) \<Rightarrow> (l, True) | None \<Rightarrow> (False, True)) m)
       right
       (fold (\<lambda>n m. if \<not> truthy n then m else AList.update (the n) (True, False) m) left [])"

definition nameOptions ::
  "(string \<Rightarrow> string \<Rightarrow> bool) \<Rightarrow> string option list \<Rightarrow> string option list \<Rightarrow> (string \<times> string) list" where
  "nameOptions leq left right =
     map (\<lambda>(n, l, r). (n, if l \<and> r then n
            else n @ [CHR 0xEF, CHR 0xBC, CHR 0x88, CHR 0xE4, CHR 0xBB, CHR 0x85] @ (if l then [CHR 0xE5, CHR 0xB7, CHR 0xA6, CHR 0xE4, CHR 0xBE, CHR 0xA7] else [CHR 0xE5, CHR 0x8F, CHR 0xB3, CHR 0xE4, CHR 0xBE, CHR 0xA7]) @ [CHR 0xEF, CHR 0xBC, CHR 0x89]))
       (js_sort leq fst (name_sides left right))"

text \<open>The effect that fills the form; \<open>get\<close> looks up the query string.\<close>

definition initial_compare :: "(string \<Rightarrow> string option) \<Rightarrow> string list \<Rightarrow> (string \<times> string option) list" where
  "initial_compare get codes =
     (let c0 = (case codes of [] \<Rightarrow> None | c # _ \<Rightarrow> Some c);
          c1 = (case codes of _ # c # _ \<Rightarrow> Some c | _ \<Rightarrow> None);
          first = (\<lambda>a b. if truthy a then a else b)
      in [(''leftCluster'', first (get ''left'') c0),
          (''rightCluster'', first (get ''right'') (first c1 c0)),
          (''kind'', Some (or_str (get ''kind'') ''Deployment'')),
          (''name'', Some (or_str (get ''name'') [])),
          (''leftNamespace'', Some (or_str (get ''left_ns'') ''default'')),
          (''rightNamespace'', Some (or_str (get ''right_ns'') ''default''))])"

definition side_namespace_effect :: "bool \<Rightarrow> string list \<Rightarrow> string \<Rightarrow> string" where
  "side_namespace_effect full nsData cur =
     (if \<not> full \<and> nsData \<noteq> [] \<and> cur \<notin> set nsData then hd nsData else cur)"

subsection \<open>A comparison\<close>

datatype compare_effect =
    CompareWarning string
  | CompareError string
  | SetSearch "(string \<times> string) list"
  | Fetch get_resource_params

text \<open>
  \<open>handleCompare\<close> up to its \<open>await\<close>, for valid form values: the effects in their order. The
  flag says whether the watched kind is cluster-scoped.
\<close>

definition side_params :: "string \<Rightarrow> string \<Rightarrow> string \<Rightarrow> string \<Rightarrow> string \<Rightarrow> get_resource_params" where
  "side_params code v kd ns n =
     \<lparr>gr_code = code, gr_apiVersion = v, gr_kind = kd, gr_namespace = Some ns, gr_name = js_trim n\<rparr>"

definition compare_start :: "bool \<Rightarrow> compare_form \<Rightarrow> compare_effect list" where
  "compare_start scoped f =
     (if leftCluster f = rightCluster f \<and> \<not> scoped \<and> leftNamespace f = rightNamespace f
      then [CompareWarning [CHR 0xE8, CHR 0xAF, CHR 0xB7, CHR 0xE9, CHR 0x80, CHR 0x89, CHR 0xE6, CHR 0x8B,
      CHR 0xA9, CHR 0xE4, CHR 0xB8, CHR 0xA4, CHR 0xE4, CHR 0xB8, CHR 0xAA, CHR 0xE4,
      CHR 0xB8, CHR 0x8D, CHR 0xE5, CHR 0x90, CHR 0x8C, CHR 0xE7, CHR 0x9A, CHR 0x84,
      CHR 0xE9, CHR 0x9B, CHR 0x86, CHR 0xE7, CHR 0xBE, CHR 0xA4, CHR 0xEF, CHR 0xBC,
      CHR 0x8C, CHR 0xE6, CHR 0x88, CHR 0x96, CHR 0xE5, CHR 0x90, CHR 0x8C, CHR 0xE4,
      CHR 0xB8, CHR 0x80, CHR 0xE9, CHR 0x9B, CHR 0x86, CHR 0xE7, CHR 0xBE, CHR 0xA4,
      CHR 0xE4, CHR 0xB8, CHR 0x8B, CHR 0xE4, CHR 0xB8, CHR 0x8D, CHR 0xE5, CHR 0x90,
      CHR 0x8C, CHR 0xE5, CHR 0x91, CHR 0xBD, CHR 0xE5, CHR 0x90, CHR 0x8D, CHR 0xE7,
      CHR 0xA9, CHR 0xBA, CHR 0xE9, CHR 0x97, CHR 0xB4]] else []) @
     (let v = (case map_of ALL_KINDS_MAP (cf_kind f) of None \<Rightarrow> None | Some (a, _) \<Rightarrow> Some a)
      in if \<not> truthy v then [CompareError [CHR 0xE6, CHR 0x9C, CHR 0xAA, CHR 0xE7, CHR 0x9F, CHR 0xA5, CHR 0xE8, CHR 0xB5,
      CHR 0x84, CHR 0xE6, CHR 0xBA, CHR 0x90, CHR 0xE7, CHR 0xB1, CHR 0xBB, CHR 0xE5,
      CHR 0x9E, CHR 0x8B]]
         else
           [SetSearch ([(''left'', leftCluster f), (''right'', rightCluster f), (''kind'', cf_kind f),
               (''name'', cf_name f)] @
              (if scoped then []
               else [(''left_ns'', leftNamespace f), (''right_ns'', rightNamespace f)])),
            Fetch (side_params (leftCluster f) (the v) (cf_kind f)
              (if scoped then ''_'' else leftNamespace f) (cf_name f)),
            Fetch (side_params (rightCluster f) (the v) (cf_kind f)
              (if scoped then ''_'' else rightNamespace f) (cf_name f))])"

datatype fetch_result = Loaded json | LoadFails "string option"

record compare_view =
  leftYaml :: string
  rightYaml :: string
  leftError :: string
  rightError :: string
  summary :: string
  compared :: bool

definition txt_same :: string where "txt_same = ([CHR 0xE4, CHR 0xB8, CHR 0xA4, CHR 0xE4, CHR 0xBE, CHR 0xA7] @
     '' YAML '' @
     [CHR 0xE5, CHR 0xAE, CHR 0x8C, CHR 0xE5, CHR 0x85, CHR 0xA8, CHR 0xE4, CHR 0xB8,
      CHR 0x80, CHR 0xE8, CHR 0x87, CHR 0xB4])"
definition txt_differ :: string where "txt_differ = ([CHR 0xE4, CHR 0xB8, CHR 0xA4, CHR 0xE4, CHR 0xBE, CHR 0xA7] @
     '' YAML '' @
     [CHR 0xE5, CHR 0xAD, CHR 0x98, CHR 0xE5, CHR 0x9C, CHR 0xA8, CHR 0xE5, CHR 0xB7,
      CHR 0xAE, CHR 0xE5, CHR 0xBC, CHR 0x82])"
definition txt_incomplete :: string where "txt_incomplete = [CHR 0xE6, CHR 0x9C, CHR 0xAA, CHR 0xE8, CHR 0x83, CHR 0xBD, CHR 0xE5, CHR 0xAE,
      CHR 0x8C, CHR 0xE6, CHR 0x95, CHR 0xB4, CHR 0xE5, CHR 0x8A, CHR 0xA0, CHR 0xE8,
      CHR 0xBD, CHR 0xBD, CHR 0xE4, CHR 0xB8, CHR 0xA4, CHR 0xE4, CHR 0xBE, CHR 0xA7,
      CHR 0xE9, CHR 0x85, CHR 0x8D, CHR 0xE7, CHR 0xBD, CHR 0xAE]"

text \<open>One side: the text compared, the text shown and the error.\<close>

definition side_result :: "(json \<Rightarrow> string) \<Rightarrow> string \<Rightarrow> fetch_result \<Rightarrow> string \<times> string \<times> string" where
  "side_result yaml fallback r =
     (case r of
        Loaded j \<Rightarrow> (yaml j, yaml j, [])
      | LoadFails m \<Rightarrow> (let msg = or_str m fallback in ([], ''# '' @ msg @ [CHR 0x0A], msg)))"

definition is_loaded :: "fetch_result \<Rightarrow> bool" where
  "is_loaded r = (case r of Loaded j \<Rightarrow> True | LoadFails m \<Rightarrow> False)"

definition txt_left_failed :: string where "txt_left_failed = [CHR 0xE5, CHR 0xB7, CHR 0xA6, CHR 0xE4, CHR 0xBE, CHR 0xA7, CHR 0xE9, CHR 0x9B,
      CHR 0x86, CHR 0xE7, CHR 0xBE, CHR 0xA4, CHR 0xE5, CHR 0x8A, CHR 0xA0, CHR 0xE8,
      CHR 0xBD, CHR 0xBD, CHR 0xE5, CHR 0xA4, CHR 0xB1, CHR 0xE8, CHR 0xB4, CHR 0xA5]"
definition txt_right_failed :: string where "txt_right_failed = [CHR 0xE5, CHR 0x8F, CHR 0xB3, CHR 0xE4, CHR 0xBE, CHR 0xA7, CHR 0xE9, CHR 0x9B,
      CHR 0x86, CHR 0xE7, CHR 0xBE, CHR 0xA4, CHR 0xE5, CHR 0x8A, CHR 0xA0, CHR 0xE8,
      CHR 0xBD, CHR 0xBD, CHR 0xE5, CHR 0xA4, CHR 0xB1, CHR 0xE8, CHR 0xB4, CHR 0xA5]"

definition compare_finish :: "(json \<Rightarrow> string) \<Rightarrow> fetch_result \<Rightarrow> fetch_result \<Rightarrow> compare_view" where
  "compare_finish yaml leftRes rightRes =
     (let (leftText, ly, le) = side_result yaml txt_left_failed leftRes;
          (rightText, ry, re) = side_result yaml txt_right_failed rightRes;
          same = (leftText \<noteq> [] \<and> leftText = rightText)
      in \<lparr>leftYaml = ly, rightYaml = ry, leftError = le, rightError = re,
          summary = (if same then txt_same
                     else if is_loaded leftRes \<and> is_loaded rightRes then txt_differ
                     else txt_incomplete),
          compared = True\<rparr>)"

definition alert_success :: "compare_view \<Rightarrow> bool" where
  "alert_success v = str_includes (summary v) [CHR 0xE4, CHR 0xB8, CHR 0x80, CHR 0xE8, CHR 0x87, CHR 0xB4]"

definition swapClusters :: "compare_form \<Rightarrow> compare_form" where
  "swapClusters f = f\<lparr>leftCluster := rightCluster f, rightCluster := leftCluster f,
     leftNamespace := rightNamespace f, rightNamespace := leftNamespace f\<rparr>"

subsection \<open>Properties\<close>

lemma swap_involution: "swapClusters (swapClusters f) = f"
  by (simp add: swapClusters_def)

lemma txt_summary_distinct:
  "txt_same \<noteq> txt_differ" "txt_same \<noteq> txt_incomplete" "txt_differ \<noteq> txt_incomplete"
  by (simp_all add: txt_same_def txt_differ_def txt_incomplete_def)

lemma alert_texts:
  "str_includes txt_same [CHR 0xE4, CHR 0xB8, CHR 0x80, CHR 0xE8, CHR 0x87, CHR 0xB4]" "\<not> str_includes txt_differ [CHR 0xE4, CHR 0xB8, CHR 0x80, CHR 0xE8, CHR 0x87, CHR 0xB4]"
  "\<not> str_includes txt_incomplete [CHR 0xE4, CHR 0xB8, CHR 0x80, CHR 0xE8, CHR 0x87, CHR 0xB4]"
  by code_simp+

lemma name_sides_lookup:
  "map_of (name_sides left right) n
   = (let l = n \<noteq> [] \<and> Some n \<in> set left; r = n \<noteq> [] \<and> Some n \<in> set right
      in if l \<or> r then Some (l, r) else None)"
proof -
  have L: "map_of (fold (\<lambda>n m. if \<not> truthy n then m else AList.update (the n) (True, False) m) left acc) n
      = (if n \<noteq> [] \<and> Some n \<in> set left then Some (True, False) else map_of acc n)" for acc
    by (induction left arbitrary: acc) (auto simp: truthy_iff)
  have R: "map_of (fold (\<lambda>n m. if \<not> truthy n then m
          else AList.update (the n)
            (case map_of m (the n) of Some (l, r) \<Rightarrow> (l, True) | None \<Rightarrow> (False, True)) m) right acc) n
      = (if n \<noteq> [] \<and> Some n \<in> set right
         then Some (case map_of acc n of Some (l, r) \<Rightarrow> (l, True) | None \<Rightarrow> (False, True))
         else map_of acc n)" for acc
  proof (induction right arbitrary: acc)
    case Nil
    then show ?case by simp
  next
    case (Cons a right)
    show ?case
    proof (cases "truthy a")
      case True
      then obtain k where "a = Some k" "k \<noteq> []" by (auto simp: truthy_iff)
      then show ?thesis by (auto simp: Cons.IH split: option.splits)
    next
      case False
      then have "n \<noteq> [] \<Longrightarrow> Some n \<noteq> a" by (auto simp: truthy_iff)
      with False show ?thesis by (auto simp: Cons.IH)
    qed
  qed
  show ?thesis
    unfolding name_sides_def Let_def R L by (simp split: option.splits)
qed

text \<open>
  The verdict of a comparison is right: the page says that the sides are identical, and
  shows it as a success, exactly when both resources were loaded with the same non-empty text;
  it says that they differ exactly when both were loaded otherwise, and that the comparison is
  incomplete exactly when one failed; each failed side and no other has a non-empty error.
\<close>

theorem compare_verdict:
  "let v = compare_finish yaml a b;
       same = (\<exists>x y. a = Loaded x \<and> b = Loaded y \<and> yaml x = yaml y \<and> yaml x \<noteq> [])
   in (summary v = txt_same \<longleftrightarrow> same) \<and> (alert_success v \<longleftrightarrow> same)
      \<and> (summary v = txt_differ \<longleftrightarrow> is_loaded a \<and> is_loaded b \<and> \<not> same)
      \<and> (summary v = txt_incomplete \<longleftrightarrow> \<not> (is_loaded a \<and> is_loaded b))
      \<and> (leftError v \<noteq> [] \<longleftrightarrow> \<not> is_loaded a) \<and> (rightError v \<noteq> [] \<longleftrightarrow> \<not> is_loaded b)"
proof -
  have nonempty: "or_str m txt_left_failed \<noteq> []" "or_str m txt_right_failed \<noteq> []" for m
    by (cases m; simp add: or_str_def txt_left_failed_def txt_right_failed_def)+
  note texts = txt_summary_distinct txt_summary_distinct [symmetric] alert_texts
  show ?thesis
    by (cases a; cases b)
      (auto simp: compare_finish_def side_result_def is_loaded_def alert_success_def Let_def
        texts nonempty)
qed

text \<open>
  Exchanging the sides of the form exchanges the two requests, and with them the two halves of
  the page; the verdict stays.
\<close>

lemma compare_symmetric:
  assumes "map_of ALL_KINDS_MAP (cf_kind f) = Some (v, cs)" and "v \<noteq> []"
  shows "\<exists>ws s p q. compare_start scoped f = ws @ [s, Fetch p, Fetch q]
    \<and> (\<exists>ws' s'. compare_start scoped (swapClusters f) = ws' @ [s', Fetch q, Fetch p])"
    and "summary (compare_finish yaml b a) = summary (compare_finish yaml a b)"
proof -
  show "\<exists>ws s p q. compare_start scoped f = ws @ [s, Fetch p, Fetch q]
    \<and> (\<exists>ws' s'. compare_start scoped (swapClusters f) = ws' @ [s', Fetch q, Fetch p])"
    using assms by (simp add: compare_start_def swapClusters_def Let_def)
  show "summary (compare_finish yaml b a) = summary (compare_finish yaml a b)"
    by (cases a; cases b) (auto simp: compare_finish_def side_result_def is_loaded_def Let_def)
qed

end
