(* ===== verification/QueryString.thy ===== *)
theory QueryString
  imports Login
begin

section \<open>Query strings between pages\<close>

text \<open>
  The pages hand each other their parameters in the query string: one page serialises them, with
  \<open>URLSearchParams\<close> or with \<open>encodeURIComponent\<close> in a template literal, the router splits the
  location, and the other page reads them with \<open>searchParams.get\<close>. The contract of a value
  codec is the locale \<open>query_codec\<close>; that a serialised query is read back is proved once inside
  it and interpreted on both encoders.
\<close>

subsection \<open>The serialisers\<close>

text \<open>\<open>application/x-www-form-urlencoded\<close>: letters, digits and \<open>*-._\<close> stay, a space is \<open>+\<close>.\<close>

definition form_safe :: "char \<Rightarrow> bool" where
  "form_safe c \<longleftrightarrow>
     (let n = of_char c :: nat in
      48 \<le> n \<and> n \<le> 57 \<or> 65 \<le> n \<and> n \<le> 90 \<or> 97 \<le> n \<and> n \<le> 122) \<or> c \<in> set ''*-._''"

definition form_char :: "char \<Rightarrow> string" where
  "form_char c =
     (if form_safe c then [c]
      else if c = CHR '' '' then ''+''
      else [CHR ''%'', hex_char (of_char c div 16), hex_char (of_char c mod 16)])"

definition form_encode :: "string \<Rightarrow> string" where
  "form_encode s = concat (map form_char s)"

definition query_pair :: "(string \<Rightarrow> string) \<Rightarrow> string \<times> string \<Rightarrow> string" where
  "query_pair enc kv = enc (fst kv) @ ''='' @ enc (snd kv)"

fun join_query :: "(string \<Rightarrow> string) \<Rightarrow> (string \<times> string) list \<Rightarrow> string" where
  "join_query enc [] = []"
| "join_query enc [kv] = query_pair enc kv"
| "join_query enc (kv # kvs) = query_pair enc kv @ ''&'' @ join_query enc kvs"

text \<open>\<open>URLSearchParams\<close> with its \<open>set\<close> (on names that occur at most once) and \<open>toString\<close>.\<close>

definition usp_set :: "string \<Rightarrow> string \<Rightarrow> (string \<times> string) list \<Rightarrow> (string \<times> string) list" where
  "usp_set = AList.update"

definition usp_toString :: "(string \<times> string) list \<Rightarrow> string" where
  "usp_toString = join_query form_encode"

text \<open>The query of a location: what follows the first \<open>?\<close>, up to a \<open>#\<close>.\<close>

definition location_search :: "string \<Rightarrow> string" where
  "location_search url =
     (let u = takeWhile (\<lambda>c. c \<noteq> CHR ''#'') url
      in case index_of CHR ''?'' u of None \<Rightarrow> [] | Some n \<Rightarrow> drop (Suc n) u)"

subsection \<open>Reading back\<close>

lemma split_on_append:
  "d \<notin> set s \<Longrightarrow> split_on d (s @ d # t) = s # split_on d t"
  by (induction s) auto

lemma split_on_clean: "d \<notin> set s \<Longrightarrow> split_on d s = [s]"
  by (rule split_on_none)

locale query_codec =
  fixes enc :: "string \<Rightarrow> string"
  assumes dec_enc: "form_decode (enc s) = s"
    and no_amp: "CHR ''&'' \<notin> set (enc s)" and no_eq: "CHR ''='' \<notin> set (enc s)"
    and no_hash: "CHR ''#'' \<notin> set (enc s)"
begin

lemma pair_no_amp: "CHR ''&'' \<notin> set (query_pair enc kv)"
  by (simp add: query_pair_def no_amp)

lemma split_pair_query: "split_pair (query_pair enc kv) = kv"
proof -
  have "index_of CHR ''='' (enc (fst kv) @ CHR ''='' # enc (snd kv)) = Some (length (enc (fst kv)))"
    by (rule index_of_append [OF no_eq])
  then show ?thesis by (simp add: split_pair_def query_pair_def dec_enc)
qed

lemma pair_nonempty: "query_pair enc kv \<noteq> []"
  by (simp add: query_pair_def)

lemma search_params_join: "search_params (join_query enc kvs) = kvs"
proof (induction kvs rule: join_query.induct [where ?P = "\<lambda>_. \<lambda>kvs. search_params (join_query enc kvs) = kvs" and ?a0.0 = enc])
  case (1 e)
  then show ?case by (simp add: search_params_def)
next
  case (2 e kv)
  then show ?case
    by (simp add: search_params_def split_on_clean [OF pair_no_amp] pair_nonempty split_pair_query)
next
  case (3 e kv v va)
  then show ?case
    by (simp add: search_params_def split_on_append [OF pair_no_amp] pair_nonempty split_pair_query)
qed

lemma join_no_hash: "CHR ''#'' \<notin> set (join_query enc kvs)"
  by (induction kvs rule: join_query.induct [where ?P = "\<lambda>_. \<lambda>kvs. CHR ''#'' \<notin> set (join_query enc kvs)" and ?a0.0 = enc])
    (simp_all add: query_pair_def no_hash)

text \<open>A link with a plain path is opened with exactly its pairs.\<close>

lemma get_link:
  assumes "CHR ''?'' \<notin> set path" and "CHR ''#'' \<notin> set path"
  shows "searchParams_get (location_search (path @ ''?'' @ join_query enc kvs)) k = map_of kvs k"
proof -
  have hash: "takeWhile (\<lambda>c. c \<noteq> CHR ''#'') (join_query enc kvs) = join_query enc kvs"
    using join_no_hash [of kvs] by (subst takeWhile_eq_all_conv) auto
  have path: "takeWhile (\<lambda>c. c \<noteq> CHR ''#'') (path @ rest)
      = path @ takeWhile (\<lambda>c. c \<noteq> CHR ''#'') rest" for rest
    using assms(2) by (intro takeWhile_append2) auto
  have index: "index_of CHR ''?'' (path @ CHR ''?'' # join_query enc kvs) = Some (length path)"
    by (rule index_of_append [OF assms(1)])
  show ?thesis
    by (simp add: location_search_def searchParams_get_def search_params_join Let_def path hash index
      del: takeWhile_eq_all_conv)
qed

lemma get_query: "searchParams_get (join_query enc kvs) k = map_of kvs k"
  by (simp add: searchParams_get_def search_params_join)

end

lemma form_decode_form_char [codec_simps]: "form_decode (form_char c @ rest) = c # form_decode rest"
proof (cases "form_safe c")
  case True
  then have "c \<noteq> CHR ''%''" and "c \<noteq> CHR ''+''" by (auto simp: form_safe_def Let_def)
  with True show ?thesis by (simp add: form_char_def)
next
  case False
  show ?thesis
  proof (cases "c = CHR '' ''")
    case True
    then show ?thesis by (simp add: form_char_def form_safe_def)
  next
    case space: False
    have "of_char c div 16 < (16 :: nat)" using of_char_less_256 [of c] by linarith
    then show ?thesis
      using False space by (simp add: form_char_def hex_val_char)
  qed
qed

lemma form_char_bytes: "x \<in> set (form_char c) \<Longrightarrow> form_safe x \<or> x = CHR ''%'' \<or> x = CHR ''+''"
proof -
  assume x: "x \<in> set (form_char c)"
  have safe: "form_safe (hex_char d)" if "d < 16" for d
    using that by (auto simp: form_safe_def hex_char_def Let_def)
  have "of_char c div 16 < (16 :: nat)" using of_char_less_256 [of c] by linarith
  then have "form_safe (hex_char (of_char c div 16))" by (rule safe)
  moreover have "form_safe (hex_char (of_char c mod 16))" by (rule safe) simp
  ultimately show ?thesis using x by (auto simp: form_char_def split: if_splits)
qed

lemma form_encode_bytes: "x \<in> set (form_encode s) \<Longrightarrow> form_safe x \<or> x = CHR ''%'' \<or> x = CHR ''+''"
  by (auto simp: form_encode_def dest: form_char_bytes)

interpretation usp: query_codec form_encode
proof
  show "form_decode (form_encode s) = s" for s
    unfolding form_encode_def by (induction s) (simp_all add: codec_simps)
qed (use form_encode_bytes in \<open>force simp: form_safe_def\<close>)+

interpretation template: query_codec encodeURIComponent
proof
  show "CHR ''='' \<notin> set (encodeURIComponent s)" for s
    using encode_bytes [of "CHR ''=''" s] by (auto simp: unreserved_def)
qed (simp_all add: codec_simps encode_no_query_delimiter)

subsection \<open>Decoding path segments\<close>

text \<open>
  \<open>decodeURIComponent\<close>: \<open>None\<close> is the \<open>URIError\<close> thrown for a stray \<open>%\<close>, or for bytes that are
  no UTF-8 text.
\<close>

fun pct_decode :: "string \<Rightarrow> string option" where
  "pct_decode [] = Some []"
| "pct_decode (c # cs) =
     (if c = CHR ''%'' then
        (case cs of
           a # b # rest \<Rightarrow>
             (case (hex_val a, hex_val b) of
                (Some x, Some y) \<Rightarrow> map_option (Cons (char_of (16 * x + y))) (pct_decode rest)
              | _ \<Rightarrow> None)
         | _ \<Rightarrow> None)
      else map_option (Cons c) (pct_decode cs))"

definition utf8_tail :: "char \<Rightarrow> bool" where
  "utf8_tail c \<longleftrightarrow> (let n = of_char c :: nat in 128 \<le> n \<and> n < 192)"

fun utf8_ok :: "string \<Rightarrow> bool" where
  "utf8_ok [] \<longleftrightarrow> True"
| "utf8_ok (c # cs) \<longleftrightarrow>
     (let n = of_char c :: nat in
      if n < 128 then utf8_ok cs
      else if 194 \<le> n \<and> n < 224 then
        (case cs of a # rest \<Rightarrow> utf8_tail a \<and> utf8_ok rest | _ \<Rightarrow> False)
      else if 224 \<le> n \<and> n < 240 then
        (case cs of a # b # rest \<Rightarrow>
           utf8_tail a \<and> utf8_tail b \<and> (n = 224 \<longrightarrow> 160 \<le> (of_char a :: nat))
           \<and> (n = 237 \<longrightarrow> of_char a < (160 :: nat)) \<and> utf8_ok rest
         | _ \<Rightarrow> False)
      else if 240 \<le> n \<and> n < 245 then
        (case cs of a # b # d # rest \<Rightarrow>
           utf8_tail a \<and> utf8_tail b \<and> utf8_tail d \<and> (n = 240 \<longrightarrow> 144 \<le> (of_char a :: nat))
           \<and> (n = 244 \<longrightarrow> of_char a < (144 :: nat)) \<and> utf8_ok rest
         | _ \<Rightarrow> False)
      else False)"

definition decodeURIComponent :: "string \<Rightarrow> string option" where
  "decodeURIComponent s =
     (case pct_decode s of None \<Rightarrow> None | Some t \<Rightarrow> if utf8_ok t then Some t else None)"

lemma pct_decode_enc_char [codec_simps]:
  "pct_decode (enc_char c @ rest) = map_option (Cons c) (pct_decode rest)"
proof (cases "unreserved c")
  case True
  then have "c \<noteq> CHR ''%''" by (auto simp: unreserved_def Let_def)
  with True show ?thesis by (simp add: enc_char_def)
next
  case False
  have "of_char c div 16 < (16 :: nat)" using of_char_less_256 [of c] by linarith
  with False show ?thesis by (simp add: enc_char_def hex_val_char)
qed

lemma decode_encode: "utf8_ok s \<Longrightarrow> decodeURIComponent (encodeURIComponent s) = Some s"
proof -
  have "pct_decode (encodeURIComponent s) = Some s"
    unfolding encodeURIComponent_def by (induction s) (simp_all add: codec_simps)
  then show "utf8_ok s \<Longrightarrow> ?thesis" by (simp add: decodeURIComponent_def)
qed

text \<open>A text without \<open>%\<close> is its own decoding: decoding it once more changes nothing.\<close>

lemma decode_plain: "utf8_ok s \<Longrightarrow> CHR ''%'' \<notin> set s \<Longrightarrow> decodeURIComponent s = Some s"
proof -
  have "CHR ''%'' \<notin> set s \<Longrightarrow> pct_decode s = Some s" by (induction s) auto
  then show "utf8_ok s \<Longrightarrow> CHR ''%'' \<notin> set s \<Longrightarrow> ?thesis" by (simp add: decodeURIComponent_def)
qed

end
