(* ===== verification/PushHooks.thy ===== *)
theory PushHooks
  imports WsInvariant UriCodec JsSort "HOL-Library.List_Lexorder" "HOL-Library.Char_ord"
begin

section \<open>The hooks and panels over the pushed messages\<close>

text \<open>
  The hooks \<open>useSubscribeTaskProgress\<close>, \<open>useBackupProgress\<close>, \<open>usePodLogs\<close>,
  \<open>useSubscribePodLogs\<close> and \<open>useClusterEvents\<close>, and what the components under
  \<open>components/ws\<close> show of them. A hook has an effect that runs when it is mounted, the cleanup
  of the effect, and the value it returns from the slice. String comparison by
  \<open>localeCompare\<close> is the argument \<open>leq\<close> (\<open>a.localeCompare(b) <= 0\<close>).
\<close>

subsection \<open>Task progress\<close>

definition WS_TYPE_TASK_PROGRESS :: string where "WS_TYPE_TASK_PROGRESS = ''task_progress''"
definition WS_TYPE_CLUSTER_EVENT :: string where "WS_TYPE_CLUSTER_EVENT = ''cluster_event''"

definition task_progress_mount :: "ws_world \<Rightarrow> ws_world" where
  "task_progress_mount = subscribeChannel WS_TYPE_TASK_PROGRESS"

definition task_progress_cleanup :: "ws_world \<Rightarrow> ws_world" where
  "task_progress_cleanup = unsubscribeChannel WS_TYPE_TASK_PROGRESS"

text \<open>The events of the buffer, all or those of one backup, and the latest of them.\<close>

definition useSubscribeTaskProgress ::
  "string option \<Rightarrow> task_progress list \<Rightarrow> task_progress list \<times> task_progress option" where
  "useSubscribeTaskProgress filterBackupId buffer =
     (let matched = (case filterBackupId of
          None \<Rightarrow> buffer
        | Some i \<Rightarrow> filter (\<lambda>p. js_string (tp_task_id p) = i \<or> js_string (tp_backup_id p) = i) buffer)
      in (matched, if matched = [] then None else Some (last matched)))"

datatype progress_mode = PerStage | LatestPerTask

definition filter_by_cluster :: "string option \<Rightarrow> task_progress list \<Rightarrow> task_progress list" where
  "filter_by_cluster clusterCode buffer =
     (if \<not> truthy clusterCode then buffer
      else filter (\<lambda>p. \<not> truthy (tp_cluster_code p) \<or> tp_cluster_code p = clusterCode) buffer)"

definition task_key :: "task_progress \<Rightarrow> string" where
  "task_key p = js_string (case tp_task_id p of None \<Rightarrow> tp_backup_id p | Some t \<Rightarrow> Some t)"

definition byTaskId :: "task_progress list \<Rightarrow> (string \<times> task_progress) list" where
  "byTaskId filtered =
     fold (\<lambda>p m. if task_key p = [] then m else AList.update (task_key p) p m) filtered []"

definition stamp :: "task_progress \<Rightarrow> string" where
  "stamp p = or_str (tp_timestamp p) []"

definition useBackupProgress ::
  "(string \<Rightarrow> string \<Rightarrow> bool) \<Rightarrow> string option \<Rightarrow> string option \<Rightarrow> progress_mode \<Rightarrow> task_progress list
    \<Rightarrow> task_progress list \<times> (string \<times> task_progress) list" where
  "useBackupProgress leq clusterCode backupId mode buffer =
     (let all = fst (useSubscribeTaskProgress backupId buffer);
          filtered = filter_by_cluster clusterCode all;
          by_task = byTaskId filtered
      in (case mode of
            LatestPerTask \<Rightarrow> js_sort leq stamp (object_values by_task)
          | PerStage \<Rightarrow> js_sort leq stamp filtered,
          by_task))"

definition backup_progress_mount :: "bool \<Rightarrow> ws_world \<Rightarrow> ws_world" where
  "backup_progress_mount clearOnMount w =
     (let w1 = task_progress_mount w
      in if clearOnMount then dispatch ClearTaskProgress w1 else w1)"

subsection \<open>The panel of the backup progress\<close>

definition stageColor :: "task_stage \<Rightarrow> string" where
  "stageColor s = (case s of StPending \<Rightarrow> ''#8c8c8c'' | StExporting \<Rightarrow> ''#1677ff''
     | StUploading \<Rightarrow> ''#722ed1'' | StRestoring \<Rightarrow> ''#fa8c16'' | StCompleted \<Rightarrow> ''#52c41a''
     | StFailed \<Rightarrow> ''#ff4d4f'')"

definition stageLabel :: "task_stage \<Rightarrow> string" where
  "stageLabel s = (case s of StPending \<Rightarrow> [CHR 0xE7, CHR 0xAD, CHR 0x89, CHR 0xE5, CHR 0xBE, CHR 0x85, CHR 0xE4, CHR 0xB8,
      CHR 0xAD] | StExporting \<Rightarrow> [CHR 0xE5, CHR 0xAF, CHR 0xBC, CHR 0xE5, CHR 0x87, CHR 0xBA, CHR 0xE4, CHR 0xB8,
      CHR 0xAD]
     | StUploading \<Rightarrow> [CHR 0xE4, CHR 0xB8, CHR 0x8A, CHR 0xE4, CHR 0xBC, CHR 0xA0, CHR 0xE4, CHR 0xB8,
      CHR 0xAD] | StRestoring \<Rightarrow> [CHR 0xE6, CHR 0x81, CHR 0xA2, CHR 0xE5, CHR 0xA4, CHR 0x8D, CHR 0xE4, CHR 0xB8,
      CHR 0xAD] | StCompleted \<Rightarrow> [CHR 0xE5, CHR 0xB7, CHR 0xB2, CHR 0xE5, CHR 0xAE, CHR 0x8C, CHR 0xE6, CHR 0x88,
      CHR 0x90]
     | StFailed \<Rightarrow> [CHR 0xE5, CHR 0xA4, CHR 0xB1, CHR 0xE8, CHR 0xB4, CHR 0xA5])"

datatype stage_icon = IconCheck | IconClose | IconClock | IconSync

definition stageIcon :: "task_stage \<Rightarrow> stage_icon" where
  "stageIcon s = (case s of StCompleted \<Rightarrow> IconCheck | StFailed \<Rightarrow> IconClose
     | StPending \<Rightarrow> IconClock | _ \<Rightarrow> IconSync)"

datatype progress_status = ProgressSuccess | ProgressException | ProgressActive

definition progress_bar_status :: "task_stage \<Rightarrow> progress_status" where
  "progress_bar_status s =
     (if s = StCompleted then ProgressSuccess
      else if s = StFailed then ProgressException else ProgressActive)"

definition panel_sorted ::
  "(string \<Rightarrow> string \<Rightarrow> bool) \<Rightarrow> bool \<Rightarrow> task_progress list \<Rightarrow> task_progress list" where
  "panel_sorted leq compact list =
     (let arr = js_sort leq stamp list
      in if compact then (if arr = [] then [] else [last arr]) else rev arr)"

subsection \<open>Pod logs\<close>

definition pod_logs_enabled :: "bool \<Rightarrow> string \<Rightarrow> string \<Rightarrow> string \<Rightarrow> bool" where
  "pod_logs_enabled enabled c n p \<longleftrightarrow> enabled \<and> c \<noteq> [] \<and> n \<noteq> [] \<and> p \<noteq> []"

definition pod_logs_mount ::
  "bool \<Rightarrow> bool \<Rightarrow> string \<Rightarrow> string \<Rightarrow> string \<Rightarrow> ws_world \<Rightarrow> ws_world" where
  "pod_logs_mount enabled clearOnMount c n p w =
     (if \<not> pod_logs_enabled enabled c n p then w
      else let channel = buildPodLogChannel c n p;
               w1 = (if clearOnMount then dispatch (ClearPodLogs (Some channel)) w else w)
           in subscribeChannel channel w1)"

definition pod_logs_cleanup :: "bool \<Rightarrow> string \<Rightarrow> string \<Rightarrow> string \<Rightarrow> ws_world \<Rightarrow> ws_world" where
  "pod_logs_cleanup enabled c n p w =
     (if \<not> pod_logs_enabled enabled c n p then w
      else unsubscribeChannel (buildPodLogChannel c n p) w)"

record pod_logs_result =
  pr_channel :: string
  pr_lines :: "pod_log_line list"
  pr_text :: string
  pr_eof :: bool
  pr_isEmpty :: bool

definition join_lines :: "string list \<Rightarrow> string" where
  "join_lines ls = (case ls of [] \<Rightarrow> [] | x # xs \<Rightarrow> x @ concat (map (\<lambda>l. CHR 0x0A # l) xs))"

definition usePodLogs :: "string \<Rightarrow> string \<Rightarrow> string \<Rightarrow> ws_state \<Rightarrow> pod_logs_result" where
  "usePodLogs c n p s =
     (let channel = buildPodLogChannel c n p;
          lines = selectPodLogs s channel
      in \<lparr>pr_channel = channel, pr_lines = lines, pr_text = join_lines (map pl_line lines),
          pr_eof = (lines \<noteq> [] \<and> pl_eof (last lines) = Some True),
          pr_isEmpty = (lines = [])\<rparr>)"

text \<open>\<open>useSubscribePodLogs\<close> subscribes without checking the names and looks for any end mark.\<close>

definition subscribe_pod_logs_mount ::
  "bool \<Rightarrow> string \<Rightarrow> string \<Rightarrow> string \<Rightarrow> ws_world \<Rightarrow> ws_world" where
  "subscribe_pod_logs_mount clearBefore c n p w =
     (let channel = buildPodLogChannel c n p
      in if channel = [] then w
         else subscribeChannel channel
                (if clearBefore then dispatch (ClearPodLogs (Some channel)) w else w))"

definition useSubscribePodLogs ::
  "string \<Rightarrow> string \<Rightarrow> string \<Rightarrow> ws_state
    \<Rightarrow> string \<times> pod_log_line list \<times> pod_log_line option \<times> bool" where
  "useSubscribePodLogs c n p s =
     (let channel = buildPodLogChannel c n p; lines = selectPodLogs s channel
      in (channel, lines, if lines = [] then None else Some (last lines),
          \<exists>l \<in> set lines. pl_eof l = Some True))"

subsection \<open>The log viewer\<close>

definition trigger_url :: "string \<Rightarrow> string \<Rightarrow> string \<Rightarrow> string" where
  "trigger_url c n p = ''/clusters/'' @ encodeURIComponent c @ ''/pods/'' @ encodeURIComponent n @
     ''/'' @ encodeURIComponent p @ ''/logs''"

definition trigger_params :: "bool \<Rightarrow> int \<Rightarrow> string option \<Rightarrow> (string \<times> string) list" where
  "trigger_params follow tailLines containerName =
     [(''follow'', if follow then ''1'' else ''0''), (''tail'', show_int tailLines)] @
     (if truthy containerName then [(''container'', the containerName)] else [])"

text \<open>The effect sends the trigger, after a delay, only while the connection is open.\<close>

definition should_trigger :: "bool \<Rightarrow> connection_status \<Rightarrow> string \<Rightarrow> string \<Rightarrow> string \<Rightarrow> bool" where
  "should_trigger autoTrigger status c n p \<longleftrightarrow>
     autoTrigger \<and> status = WOpen \<and> c \<noteq> [] \<and> n \<noteq> [] \<and> p \<noteq> []"

definition visibleLines :: "int \<Rightarrow> pod_log_line list \<Rightarrow> pod_log_line list" where
  "visibleLines height lines =
     (let maxVisibleLines = (height - 40) div 18
      in if int (length lines) \<le> maxVisibleLines then lines
         else drop (nat (int (length lines) - maxVisibleLines)) lines)"

datatype log_download = NothingToDownload | LogFile string string

definition handleDownload ::
  "string \<Rightarrow> string \<Rightarrow> string \<Rightarrow> nat \<Rightarrow> pod_logs_result \<Rightarrow> log_download" where
  "handleDownload c n p now r =
     (if pr_text r = [] then NothingToDownload
      else LogFile (p @ ''-'' @ n @ ''-'' @ c @ ''-'' @ show_nat now @ ''.log'') (pr_text r))"

subsection \<open>Cluster events\<close>

definition cluster_events_mount :: "bool \<Rightarrow> bool \<Rightarrow> ws_world \<Rightarrow> ws_world" where
  "cluster_events_mount enabled clearOnMount w =
     (if \<not> enabled then w
      else subscribeChannel WS_TYPE_CLUSTER_EVENT
             (if clearOnMount then dispatch ClearClusterEvents w else w))"

definition cluster_events_cleanup :: "bool \<Rightarrow> ws_world \<Rightarrow> ws_world" where
  "cluster_events_cleanup enabled w =
     (if \<not> enabled then w else unsubscribeChannel WS_TYPE_CLUSTER_EVENT w)"

definition event_matches ::
  "string option \<Rightarrow> string option \<Rightarrow> string option \<Rightarrow> cluster_event \<Rightarrow> bool" where
  "event_matches clusterCode ns kind e \<longleftrightarrow>
     \<not> (truthy clusterCode \<and> Some (ce_cluster_code e) \<noteq> clusterCode) \<and>
     \<not> (truthy ns \<and> ce_namespace e \<noteq> ns) \<and>
     \<not> (truthy kind \<and> Some (ce_kind e) \<noteq> kind)"

record cluster_events_result =
  cer_list :: "cluster_event list"
  cer_latest :: "cluster_event option"
  cer_warnings :: "cluster_event list"
  cer_errors :: "cluster_event list"

definition useClusterEvents ::
  "string option \<Rightarrow> string option \<Rightarrow> string option \<Rightarrow> cluster_event list \<Rightarrow> cluster_events_result" where
  "useClusterEvents clusterCode ns kind all =
     (let filtered = filter (event_matches clusterCode ns kind) all
      in \<lparr>cer_list = filtered,
          cer_latest = (if filtered = [] then None else Some (last filtered)),
          cer_warnings = filter (\<lambda>e. ce_severity e = Some SevWarning) filtered,
          cer_errors = filter (\<lambda>e. ce_severity e = Some SevError) filtered\<rparr>)"

text \<open>\<open>list.slice(-maxItems)\<close>, reversed; \<open>slice(-0)\<close> is the whole list.\<close>

definition events_shown :: "nat \<Rightarrow> cluster_event list \<Rightarrow> cluster_event list" where
  "events_shown maxItems list = rev (if maxItems = 0 then list else last_n maxItems list)"

definition eventTypeColor :: "event_type \<Rightarrow> string" where
  "eventTypeColor t = (case t of EvAdded \<Rightarrow> ''green'' | EvModified \<Rightarrow> ''blue'' | EvDeleted \<Rightarrow> ''red''
     | EvError \<Rightarrow> ''volcano'')"

definition severityBadge :: "event_severity option \<Rightarrow> string" where
  "severityBadge s = (case s of Some SevWarning \<Rightarrow> ''warning'' | Some SevError \<Rightarrow> ''error''
     | _ \<Rightarrow> ''success'')"

definition event_text :: "cluster_event \<Rightarrow> string" where
  "event_text e =
     (if truthy (ce_reason e) then ''['' @ the (ce_reason e) @ ''] '' else []) @
     or_str (ce_message e) []"

subsection \<open>The latest event of each task\<close>

text \<open>The last element of a list that satisfies a predicate is the last of the filtered list.\<close>

lemma byTaskId_map:
  assumes "k \<noteq> []"
  shows "map_of (byTaskId evs) k
    = (let m = filter (\<lambda>p. task_key p = k) evs in if m = [] then None else Some (last m))"
proof -
  have "map_of (fold (\<lambda>p m. if task_key p = [] then m else AList.update (task_key p) p m) evs acc) k
      = (let m = filter (\<lambda>p. task_key p = k) evs in if m = [] then map_of acc k else Some (last m))"
    for acc
    using assms by (induction evs arbitrary: acc) (auto simp: Let_def)
  from this [of "[]"] show ?thesis by (simp add: byTaskId_def Let_def)
qed

lemma byTaskId_keys:
  "distinct (map fst (byTaskId evs)) \<and> fst ` set (byTaskId evs) = task_key ` set evs - {[]}"
proof -
  have "distinct (map fst acc) \<Longrightarrow>
      distinct (map fst (fold (\<lambda>p m. if task_key p = [] then m
        else AList.update (task_key p) p m) evs acc))" for acc
    by (induction evs arbitrary: acc) (auto simp: distinct_update)
  moreover have "fst ` set (fold (\<lambda>p m. if task_key p = [] then m
      else AList.update (task_key p) p m) evs acc) = fst ` set acc \<union> (task_key ` set evs - {[]})" for acc
    by (induction evs arbitrary: acc) auto
  ultimately show ?thesis by (simp add: byTaskId_def)
qed

lemma byTaskId_entry:
  assumes "(k, p) \<in> set (byTaskId evs)"
  shows "k \<noteq> [] \<and> task_key p = k \<and> p \<in> set evs
    \<and> filter (\<lambda>q. task_key q = k) evs \<noteq> [] \<and> p = last (filter (\<lambda>q. task_key q = k) evs)"
proof -
  have "k \<in> fst ` set (byTaskId evs)" using assms by force
  then have keys: "distinct (map fst (byTaskId evs))" "k \<noteq> []"
    using byTaskId_keys [of evs] by auto
  then have "map_of (byTaskId evs) k = Some p" using assms by simp
  then have m: "filter (\<lambda>q. task_key q = k) evs \<noteq> []" "p = last (filter (\<lambda>q. task_key q = k) evs)"
    using byTaskId_map [OF keys(2), of evs] by (auto simp: Let_def split: if_splits)
  then have "p \<in> set (filter (\<lambda>q. task_key q = k) evs)" by (metis last_in_set)
  with m keys show ?thesis by simp
qed

text \<open>
  The task wall shows every task once, at its latest event: in the mode that keeps the
  latest event per task, the list is sorted by time stamp, its events have different task
  keys, each is the last event of its task in the order of arrival, and every task with an
  event among the filtered ones is there.
\<close>

theorem latest_per_task_list:
  assumes "total_preorder leq"
    and "evs = filter_by_cluster clusterCode (fst (useSubscribeTaskProgress backupId buffer))"
    and "wall = fst (useBackupProgress leq clusterCode backupId LatestPerTask buffer)"
  shows "sorted_wrt (\<lambda>a b. leq (stamp a) (stamp b)) wall
    \<and> distinct (map task_key wall) \<and> set (map task_key wall) = task_key ` set evs - {[]}
    \<and> (\<forall>p \<in> set wall. p = last (filter (\<lambda>q. task_key q = task_key p) evs))"
proof -
  have wall: "wall = js_sort leq stamp (object_values (byTaskId evs))"
    by (simp add: assms(2,3) useBackupProgress_def Let_def)
  have entry: "task_key p = k \<and> p = last (filter (\<lambda>q. task_key q = k) evs)"
    if "(k, p) \<in> set (byTaskId evs)" for k p
    using byTaskId_entry [OF that] by blast
  then have keys: "map (task_key \<circ> snd) (byTaskId evs) = map fst (byTaskId evs)"
    by (auto simp: map_eq_conv)
  have "mset (map task_key wall) = mset (map fst (byTaskId evs))"
    unfolding wall using mset_object_values [of "byTaskId evs"] keys
    by (metis list.map_comp mset_js_sort mset_map)
  then have "distinct (map task_key wall) \<and> set (map task_key wall) = task_key ` set evs - {[]}"
    using byTaskId_keys [of evs] by (metis image_set mset_eq_imp_distinct_iff mset_eq_setD)
  moreover have "\<forall>p \<in> set wall. p = last (filter (\<lambda>q. task_key q = task_key p) evs)"
    using entry by (fastforce simp: wall set_object_values)
  ultimately show ?thesis
    using sorted_js_sort [OF assms(1)] by (simp add: wall)
qed

definition demo_event :: "string \<Rightarrow> int \<Rightarrow> string \<Rightarrow> task_progress" where
  "demo_event t n ts = \<lparr>tp_task_id = Some t, tp_backup_id = None, tp_cluster_code = Some ''c1'',
     tp_namespace = None, tp_kind = None, tp_name = None, tp_stage = StExporting, tp_progress = n,
     tp_message = None, tp_error = None, tp_timestamp = Some ts\<rparr>"

theorem latest_per_task_list_witness:
  "distinct (map task_key (fst (useBackupProgress (\<le>) (Some ''c1'') None LatestPerTask
     [demo_event ''8'' 10 ''t1'', demo_event ''7'' 20 ''t2'', demo_event ''8'' 90 ''t3''])))"
proof -
  have "total_preorder ((\<le>) :: string \<Rightarrow> string \<Rightarrow> bool)"
    by (auto simp: total_preorder_def)
  from latest_per_task_list [OF this refl refl] show ?thesis by blast
qed

subsection \<open>Opening and closing a log panel\<close>

lemma channel_not_empty [simp]: "buildPodLogChannel c n p \<noteq> []"
  by (simp add: buildPodLogChannel_def)

lemma subscribe_keeps_logs: "podLogs (w_ws (subscribeChannel ch w)) = podLogs (w_ws w)"
  by (auto simp: subscribeChannel_def client_subscribe_def dispatch_def ws_reduce.simps Let_def
      split: option.splits)

lemma subscribe_refs:
  "ch \<noteq> [] \<Longrightarrow> ref_count (w_refs (subscribeChannel ch w)) k
     = ref_count (w_refs w) k + (if k = ch then 1 else 0)"
  "ch \<noteq> [] \<Longrightarrow> ref_count (w_refs (unsubscribeChannel ch w)) k
     = ref_count (w_refs w) k - (if k = ch then 1 else 0)"
  by (auto simp: subscribeChannel_def unsubscribeChannel_def Let_def split: option.splits)

lemma mount_refs:
  assumes "pod_logs_enabled True c n p"
  shows "ref_count (w_refs (pod_logs_mount True clear c n p w)) k
      = ref_count (w_refs w) k + (if k = buildPodLogChannel c n p then 1 else 0)"
    and "ref_count (w_refs (pod_logs_cleanup True c n p w)) k
      = ref_count (w_refs w) k - (if k = buildPodLogChannel c n p then 1 else 0)"
  using assms by (simp_all add: pod_logs_mount_def pod_logs_cleanup_def subscribe_refs Let_def)

lemma mount_reach:
  "ws_reach w \<Longrightarrow> ws_reach (pod_logs_mount en clear c n p w)"
  "ws_reach w \<Longrightarrow> ws_reach (pod_logs_cleanup en c n p w)"
  by (auto simp: pod_logs_mount_def pod_logs_cleanup_def Let_def
      intro: ws_reach.step ws_step.page_subscribe ws_step.page_unsubscribe ws_step.page_clear_logs)

lemma open_requested:
  assumes "ws_reach w" and "w_instance w = Some i" and "c_open (client i w)"
  shows "requested (c_wire (client i w)) = {ch. 0 < ref_count (w_refs w) ch}"
  using ws_reach_inv [OF assms(1)] assms(2,3) by (simp add: ws_inv_Some synced_def active_def)

text \<open>
  Opening a log panel starts from an empty view on a live stream and closing it gives
  everything back: once mounted, the panel shows no old line and, on an open connection, the
  server has been asked for its channel; the cleanup restores every reference count, and when
  no other panel shows the Pod, the server no longer sends its lines.
\<close>

theorem log_panel_lifecycle:
  assumes "ws_reach w" and "c \<noteq> []" and "n \<noteq> []" and "p \<noteq> []"
    and "w1 = pod_logs_mount True True c n p w" and "w2 = pod_logs_cleanup True c n p w1"
  shows "pr_isEmpty (usePodLogs c n p (w_ws w1))
    \<and> (\<forall>i. w_instance w1 = Some i \<and> c_open (client i w1) \<longrightarrow>
          buildPodLogChannel c n p \<in> requested (c_wire (client i w1)))
    \<and> ref_count (w_refs w2) = ref_count (w_refs w)
    \<and> (\<forall>i. w_instance w2 = Some i \<and> c_open (client i w2)
          \<and> ref_count (w_refs w) (buildPodLogChannel c n p) = 0 \<longrightarrow>
          buildPodLogChannel c n p \<notin> requested (c_wire (client i w2)))"
proof -
  have en: "pod_logs_enabled True c n p" using assms(2-4) by (simp add: pod_logs_enabled_def)
  have w1: "ws_reach w1" and w2: "ws_reach w2"
    using assms(1,5,6) mount_reach by simp_all
  have "podLogs (w_ws w1) (buildPodLogChannel c n p) = None"
    using en by (simp add: assms(5) pod_logs_mount_def Let_def subscribe_keeps_logs)
      (simp add: dispatch_def ws_reduce.simps)
  then have "pr_isEmpty (usePodLogs c n p (w_ws w1))"
    by (simp add: usePodLogs_def selectPodLogs_def Let_def)
  moreover have "ref_count (w_refs w1) (buildPodLogChannel c n p) > 0"
    by (simp add: assms(5) mount_refs(1) [OF en])
  moreover have "ref_count (w_refs w2) = ref_count (w_refs w)"
    by (rule ext) (simp add: assms(5,6) mount_refs [OF en])
  ultimately show ?thesis
    using open_requested [OF w1] open_requested [OF w2] by auto
qed

definition demo_world :: ws_world where
  "demo_world = run_effects (initial_world (Some ''t'') ''now'')"

theorem log_panel_lifecycle_witness:
  "pr_isEmpty (usePodLogs ''c1'' ''web'' ''nginx''
      (w_ws (pod_logs_mount True True ''c1'' ''web'' ''nginx'' (sock_opens 0 demo_world))))
   \<and> (let w = pod_logs_mount True True ''c1'' ''web'' ''nginx'' (sock_opens 0 demo_world)
      in ''pod_logs:c1:web:nginx'' \<in> requested (c_wire (client 0 w)))"
proof -
  let ?w = "sock_opens 0 demo_world"
  have "ws_reach demo_world"
    unfolding demo_world_def
    by (rule ws_reach.step [OF ws_reach.start ws_step.effects_run]) (simp add: initial_world_def)
  moreover have "ws_step demo_world ?w"
    by (rule ws_step.sock_open; code_simp)
  ultimately have r: "ws_reach ?w" by (rule ws_reach.step)
  have "w_instance (pod_logs_mount True True ''c1'' ''web'' ''nginx'' ?w) = Some 0"
    "c_open (client 0 (pod_logs_mount True True ''c1'' ''web'' ''nginx'' ?w))"
    by code_simp+
  then show ?thesis
    using log_panel_lifecycle [OF r _ _ _ refl refl, of "''c1''" "''web''" "''nginx''"]
    by (simp add: Let_def buildPodLogChannel_def)
qed

subsection \<open>What the viewers show\<close>

lemma visibleLines_suffix: "\<exists>k. visibleLines h lines = drop k lines"
  unfolding visibleLines_def Let_def by (metis drop_0)

lemma visibleLines_bound:
  "40 \<le> h \<Longrightarrow> int (length (visibleLines h lines)) = min (int (length lines)) ((h - 40) div 18)"
  by (auto simp: visibleLines_def Let_def pos_imp_zdiv_nonneg_iff)

lemma events_shown_bound: "0 < n \<Longrightarrow> length (events_shown n list) \<le> n"
  by (simp add: events_shown_def)

lemma trigger_url_path:
  "trigger_url c n p = uri.path [''clusters'', c, ''pods'', n, p, ''logs'']"
  by (simp add: trigger_url_def uri.path_Cons uri.path_Nil encode_unreserved unreserved_def)

end
