(* ===== verification/PodLogsPage.thy ===== *)
theory PodLogsPage
  imports QueryString Resources PushHooks ResourceService
begin

section \<open>The page of the Pod logs\<close>

text \<open>
  \<open>pages/pods/logs.tsx\<close>: the selection of cluster, namespace, Pod and container, its mirror in the
  query string, and the state of the log viewer of \<open>components/ws/PodLogsViewer.tsx\<close>. The
  container that the resource list picks for its log drawer is here too, to compare the two.
\<close>

subsection \<open>Containers of a Pod\<close>

definition container_name :: "json \<Rightarrow> string option" where
  "container_name c = text_of (field (asRecord (Some c)) ''name'')"

definition pod_containers :: "json option \<Rightarrow> string \<Rightarrow> json list" where
  "pod_containers spec key = elements (field (asRecord spec) key)"

definition push_name :: "json \<Rightarrow> string list \<Rightarrow> string list" where
  "push_name c names =
     (case container_name c of
        None \<Rightarrow> names
      | Some n \<Rightarrow> if n \<in> set names then names else names @ [n])"

definition extractContainers :: "json option \<Rightarrow> string list" where
  "extractContainers spec =
     fold (\<lambda>key names. fold push_name (pod_containers spec key) names)
       [''initContainers'', ''containers''] []"

fun first_name :: "json list \<Rightarrow> string option" where
  "first_name [] = None"
| "first_name (c # cs) = (case container_name c of None \<Rightarrow> first_name cs | Some n \<Rightarrow> Some n)"

definition firstPodContainer :: "json option \<Rightarrow> string option" where
  "firstPodContainer spec =
     (case first_name (pod_containers spec ''initContainers'') of
        Some n \<Rightarrow> Some n
      | None \<Rightarrow> first_name (pod_containers spec ''containers''))"

subsection \<open>The selection\<close>

record pod_selection =
  ps_cluster :: string
  ps_namespace :: string
  ps_pod :: string
  ps_container :: "string option"

definition pod_logs_init :: "(string \<Rightarrow> string option) \<Rightarrow> string option \<Rightarrow> pod_selection" where
  "pod_logs_init get selected =
     \<lparr>ps_cluster = or_str (get ''code'') (or_str selected []),
      ps_namespace = or_str (get ''namespace'') [],
      ps_pod = or_str (get ''pod'') [],
      ps_container = (if truthy (get ''container'') then get ''container'' else None)\<rparr>"

definition change_cluster :: "string option \<Rightarrow> pod_selection \<Rightarrow> pod_selection" where
  "change_cluster v s =
     s\<lparr>ps_cluster := or_str v [], ps_namespace := [], ps_pod := [], ps_container := None\<rparr>"

definition change_namespace :: "string option \<Rightarrow> pod_selection \<Rightarrow> pod_selection" where
  "change_namespace v s = s\<lparr>ps_namespace := or_str v [], ps_pod := [], ps_container := None\<rparr>"

definition change_pod :: "string option \<Rightarrow> pod_selection \<Rightarrow> pod_selection" where
  "change_pod v s = s\<lparr>ps_pod := or_str v [], ps_container := None\<rparr>"

definition change_container :: "string option \<Rightarrow> pod_selection \<Rightarrow> pod_selection" where
  "change_container v s = s\<lparr>ps_container := (if truthy v then v else None)\<rparr>"

text \<open>The request for the Pods, and whether it is skipped.\<close>

definition pods_request :: "pod_selection \<Rightarrow> list_resources_params" where
  "pods_request s =
     \<lparr>lr_code = ps_cluster s, lr_apiVersion = ''v1'', lr_kind = ''Pod'',
      lr_namespace = Some (ps_namespace s), lr_page = None, lr_size = Some 200, lr_keyword = None\<rparr>"

definition pods_skip :: "pod_selection \<Rightarrow> bool" where
  "pods_skip s \<longleftrightarrow> ps_cluster s = [] \<or> ps_namespace s = []"

text \<open>A Pod is its name and its spec.\<close>

definition container_options :: "(string \<times> json option) list \<Rightarrow> pod_selection \<Rightarrow> string list" where
  "container_options pods s =
     (case find (\<lambda>p. fst p = ps_pod s) pods of
        None \<Rightarrow> [] | Some p \<Rightarrow> extractContainers (snd p))"

definition container_effect :: "string list \<Rightarrow> pod_selection \<Rightarrow> pod_selection" where
  "container_effect opts s =
     (if opts = [] then s
      else if truthy (ps_container s) \<and> the (ps_container s) \<in> set opts then s
      else s\<lparr>ps_container := Some (hd opts)\<rparr>)"

text \<open>The effect that mirrors the selection in the query string.\<close>

definition pod_logs_query :: "pod_selection \<Rightarrow> (string \<times> string) list" where
  "pod_logs_query s =
     (let put = (\<lambda>k v q. if v = [] then q else usp_set k v q)
      in put ''container'' (or_str (ps_container s) [])
           (put ''pod'' (ps_pod s)
             (put ''namespace'' (ps_namespace s) (put ''code'' (ps_cluster s) []))))"

definition shows_viewer :: "pod_selection \<Rightarrow> bool" where
  "shows_viewer s \<longleftrightarrow> ps_cluster s \<noteq> [] \<and> ps_namespace s \<noteq> [] \<and> ps_pod s \<noteq> []"

subsection \<open>The viewer\<close>

datatype trigger_result = TriggerOk | TriggerFails "string option"

record viewer_state =
  vw_paused :: bool
  vw_triggering :: bool
  vw_triggerError :: string

definition viewer_init :: viewer_state where
  "viewer_init = \<lparr>vw_paused = False, vw_triggering = False, vw_triggerError = []\<rparr>"

text \<open>\<open>triggerStream\<close> before and after its \<open>await\<close>.\<close>

definition trigger_start :: "string \<Rightarrow> string \<Rightarrow> string \<Rightarrow> viewer_state \<Rightarrow> viewer_state" where
  "trigger_start c n p v =
     (if c = [] \<or> n = [] \<or> p = [] then v
      else v\<lparr>vw_triggering := True, vw_triggerError := []\<rparr>)"

definition trigger_done :: "trigger_result \<Rightarrow> viewer_state \<Rightarrow> viewer_state" where
  "trigger_done r v =
     (case r of
        TriggerOk \<Rightarrow> v\<lparr>vw_triggering := False\<rparr>
      | TriggerFails m \<Rightarrow>
          v\<lparr>vw_triggering := False, vw_triggerError := or_str m [CHR 0xE8, CHR 0xA7, CHR 0xA6, CHR 0xE5, CHR 0x8F, CHR 0x91, CHR 0xE6, CHR 0x97,
      CHR 0xA5, CHR 0xE5, CHR 0xBF, CHR 0x97, CHR 0xE6, CHR 0xB5, CHR 0x81, CHR 0xE5,
      CHR 0xA4, CHR 0xB1, CHR 0xE8, CHR 0xB4, CHR 0xA5]\<rparr>)"

definition toggle_paused :: "viewer_state \<Rightarrow> viewer_state" where
  "toggle_paused v = v\<lparr>vw_paused := \<not> vw_paused v\<rparr>"

definition scrolls :: "bool \<Rightarrow> viewer_state \<Rightarrow> bool" where
  "scrolls autoScroll v \<longleftrightarrow> autoScroll \<and> \<not> vw_paused v"

definition viewer_clear :: "string \<Rightarrow> string \<Rightarrow> string \<Rightarrow> ws_world \<Rightarrow> ws_world" where
  "viewer_clear c n p = dispatch (ClearPodLogs (Some (buildPodLogChannel c n p)))"

definition viewer_connection_tag :: "connection_status \<Rightarrow> string option" where
  "viewer_connection_tag st =
     (if st = WOpen then None
      else Some (if st = WConnecting \<or> st = WReconnecting then (''WebSocket '' @
     [CHR 0xE8, CHR 0xBF, CHR 0x9E, CHR 0xE6, CHR 0x8E, CHR 0xA5, CHR 0xE4, CHR 0xB8,
      CHR 0xAD])
                 else (''WebSocket '' @
     [CHR 0xE6, CHR 0x9C, CHR 0xAA, CHR 0xE8, CHR 0xBF, CHR 0x9E, CHR 0xE6, CHR 0x8E,
      CHR 0xA5])))"

datatype viewer_body = BodyText string | BodyLines "string list"

definition line_text :: "pod_log_line \<Rightarrow> string" where
  "line_text l =
     (if pl_eof l = Some True then (''=== '' @
     [CHR 0xE6, CHR 0x97, CHR 0xA5, CHR 0xE5, CHR 0xBF, CHR 0x97, CHR 0xE6, CHR 0xB5,
      CHR 0x81, CHR 0xE7, CHR 0xBB, CHR 0x93, CHR 0xE6, CHR 0x9D, CHR 0x9F] @
     '' (EOF) ==='')
      else if pl_line l = [] then '' '' else pl_line l)"

definition viewer_content ::
  "int \<Rightarrow> viewer_state \<Rightarrow> connection_status \<Rightarrow> pod_logs_result \<Rightarrow> viewer_body" where
  "viewer_content height v st r =
     (if pr_isEmpty r then
        BodyText (if vw_triggerError v \<noteq> [] then vw_triggerError v
          else if st \<noteq> WOpen then ([CHR 0xE7, CHR 0xAD, CHR 0x89, CHR 0xE5, CHR 0xBE, CHR 0x85] @
     '' WebSocket '' @
     [CHR 0xE8, CHR 0xBF, CHR 0x9E, CHR 0xE6, CHR 0x8E, CHR 0xA5, CHR 0xE5, CHR 0x90,
      CHR 0x8E, CHR 0xE5, CHR 0xBC, CHR 0x80, CHR 0xE5, CHR 0xA7, CHR 0x8B, CHR 0xE6,
      CHR 0x8B, CHR 0x89, CHR 0xE5, CHR 0x8F, CHR 0x96, CHR 0xE6, CHR 0x97, CHR 0xA5,
      CHR 0xE5, CHR 0xBF, CHR 0x97] @
     ''...'')
          else ([CHR 0xE7, CHR 0xAD, CHR 0x89, CHR 0xE5, CHR 0xBE, CHR 0x85, CHR 0xE6, CHR 0x97,
      CHR 0xA5, CHR 0xE5, CHR 0xBF, CHR 0x97, CHR 0xE8, CHR 0xBE, CHR 0x93, CHR 0xE5,
      CHR 0x87, CHR 0xBA] @
     ''...'' @
     [CHR 0xEF, CHR 0xBC, CHR 0x88, CHR 0xE5, CHR 0xB7, CHR 0xB2, CHR 0xE8, CHR 0x87,
      CHR 0xAA, CHR 0xE5, CHR 0x8A, CHR 0xA8, CHR 0xE8, CHR 0xA7, CHR 0xA6, CHR 0xE5,
      CHR 0x8F, CHR 0x91, CHR 0xE5, CHR 0x90, CHR 0x8E, CHR 0xE7, CHR 0xAB, CHR 0xAF,
      CHR 0xE6, CHR 0x97, CHR 0xA5, CHR 0xE5, CHR 0xBF, CHR 0x97, CHR 0xE6, CHR 0xB5,
      CHR 0x81, CHR 0xEF, CHR 0xBC, CHR 0x9B, CHR 0xE5, CHR 0xA6, CHR 0x82, CHR 0xE9,
      CHR 0x95, CHR 0xBF, CHR 0xE6, CHR 0x97, CHR 0xB6, CHR 0xE9, CHR 0x97, CHR 0xB4,
      CHR 0xE6, CHR 0x97, CHR 0xA0, CHR 0xE8, CHR 0xBE, CHR 0x93, CHR 0xE5, CHR 0x87,
      CHR 0xBA, CHR 0xE5, CHR 0x8F, CHR 0xAF, CHR 0xE7, CHR 0x82, CHR 0xB9, CHR 0xE5,
      CHR 0xB7, CHR 0xA5, CHR 0xE5, CHR 0x85, CHR 0xB7, CHR 0xE6, CHR 0xA0, CHR 0x8F,
      CHR 0xE5, CHR 0x88, CHR 0xB7, CHR 0xE6, CHR 0x96, CHR 0xB0, CHR 0xE6, CHR 0x8C,
      CHR 0x89, CHR 0xE9, CHR 0x92, CHR 0xAE, CHR 0xE9, CHR 0x87, CHR 0x8D, CHR 0xE8,
      CHR 0xAF, CHR 0x95, CHR 0xEF, CHR 0xBC, CHR 0x89]))
      else BodyLines (map line_text (visibleLines height (pr_lines r))))"

subsection \<open>Properties\<close>

lemma push_name_keeps: "names \<noteq> [] \<Longrightarrow> push_name c names \<noteq> [] \<and> hd (push_name c names) = hd names"
  by (auto simp: push_name_def split: option.splits)

lemma fold_push_keeps:
  "names \<noteq> [] \<Longrightarrow> fold push_name cs names \<noteq> [] \<and> hd (fold push_name cs names) = hd names"
  by (induction cs arbitrary: names) (auto simp: push_name_keeps)

lemma fold_push_first:
  "first_name cs = None \<Longrightarrow> fold push_name cs [] = []"
  "first_name cs = Some n \<Longrightarrow> fold push_name cs [] \<noteq> [] \<and> hd (fold push_name cs []) = n"
proof (induction cs)
  case (Cons c cs)
  {
    case 1
    then have none: "container_name c = None" by (simp split: option.splits)
    with 1 have "push_name c [] = []" by (simp add: push_name_def)
    then show ?case using Cons.IH(1) 1 none by simp
  next
    case 2
    show ?case
    proof (cases "container_name c")
      case None
      then have "push_name c [] = []" by (simp add: push_name_def)
      then show ?thesis using Cons.IH(2) 2 None by simp
    next
      case (Some m)
      then have "push_name c [] = [m]" by (simp add: push_name_def)
      then show ?thesis using fold_push_keeps [of "[m]" cs] 2 Some by simp
    qed
  }
qed simp_all

lemma fold_push_distinct: "distinct names \<Longrightarrow> distinct (fold push_name cs names)"
  by (induction cs arbitrary: names) (auto simp: push_name_def split: option.split)

lemma fold_push_set: "set (fold push_name cs names) = set names \<union> {n. \<exists>c \<in> set cs. container_name c = Some n}"
  by (induction cs arbitrary: names) (auto simp: push_name_def split: option.splits)

lemma container_name_nonempty: "container_name c = Some n \<Longrightarrow> n \<noteq> []"
  by (auto simp: container_name_def text_of_def split: option.splits json.splits if_splits)

lemma container_effect_settles:
  assumes "\<forall>n \<in> set opts. n \<noteq> []"
  shows "(opts \<noteq> [] \<longrightarrow> ps_container (container_effect opts s) \<in> Some ` set opts)
    \<and> container_effect opts (container_effect opts s) = container_effect opts s"
proof (cases "opts = [] \<or> truthy (ps_container s) \<and> the (ps_container s) \<in> set opts")
  case True
  then show ?thesis by (cases "ps_container s") (auto simp: container_effect_def)
next
  case False
  then have "hd opts \<in> set opts" by simp
  then show ?thesis using False assms by (auto simp: container_effect_def truthy_iff)
qed

text \<open>
  The log drawer of the resource list and the log page agree on the container they open: for
  every Pod, what the list picks is the first container that the page offers, and it picks none
  exactly when the page offers none; the offer has no duplicates and is exactly the non-empty
  names of init containers and containers, and the container effect of the page then selects a
  container of the offer and has nothing more to do.
\<close>

theorem first_container_agrees:
  "firstPodContainer spec = (case extractContainers spec of [] \<Rightarrow> None | n # _ \<Rightarrow> Some n)
   \<and> distinct (extractContainers spec)
   \<and> set (extractContainers spec) = {n. \<exists>key \<in> {''initContainers'', ''containers''}.
        \<exists>c \<in> set (pod_containers spec key). container_name c = Some n}
   \<and> (let s' = container_effect (extractContainers spec) s
      in (extractContainers spec \<noteq> [] \<longrightarrow> ps_container s' \<in> Some ` set (extractContainers spec))
         \<and> container_effect (extractContainers spec) s' = s')"
proof -
  let ?i = "pod_containers spec ''initContainers''" and ?c = "pod_containers spec ''containers''"
  have ext: "extractContainers spec = fold push_name ?c (fold push_name ?i [])"
    by (simp add: extractContainers_def)
  have "firstPodContainer spec = (case extractContainers spec of [] \<Rightarrow> None | n # _ \<Rightarrow> Some n)"
  proof (cases "first_name ?i")
    case None
    then show ?thesis
      using fold_push_first(1) [of ?i] fold_push_first [of ?c]
      by (cases "first_name ?c") (auto simp: ext firstPodContainer_def neq_Nil_conv split: list.split)
  next
    case (Some n)
    then have "fold push_name ?i [] \<noteq> []" "hd (fold push_name ?i []) = n"
      using fold_push_first(2) [of ?i n] by auto
    from fold_push_keeps [OF this(1), of ?c] this Some show ?thesis
      by (auto simp: ext firstPodContainer_def neq_Nil_conv)
  qed
  moreover have "distinct (extractContainers spec)"
    by (simp add: ext fold_push_distinct)
  moreover have set: "set (extractContainers spec) = {n. \<exists>key \<in> {''initContainers'', ''containers''}.
        \<exists>c \<in> set (pod_containers spec key). container_name c = Some n}"
    by (auto simp: ext fold_push_set)
  moreover have "\<forall>n \<in> set (extractContainers spec). n \<noteq> []"
    unfolding set using container_name_nonempty by blast
  ultimately show ?thesis
    using container_effect_settles [of "extractContainers spec" s] unfolding Let_def by blast
qed

definition clean_selection :: "pod_selection \<Rightarrow> bool" where
  "clean_selection s \<longleftrightarrow> ps_container s \<noteq> Some []"

lemma pod_logs_query_lookup:
  "map_of (pod_logs_query s) k =
     (if k = ''code'' \<and> ps_cluster s \<noteq> [] then Some (ps_cluster s)
      else if k = ''namespace'' \<and> ps_namespace s \<noteq> [] then Some (ps_namespace s)
      else if k = ''pod'' \<and> ps_pod s \<noteq> [] then Some (ps_pod s)
      else if k = ''container'' \<and> truthy (ps_container s) then ps_container s else None)"
  by (cases "ps_container s") (simp_all add: pod_logs_query_def usp_set_def Let_def or_str_def)

text \<open>
  A reload of the log page keeps the selection: the query string that the page writes for a
  selection is read back, by the initial state of the page, as that selection, for every
  character the names may hold, whatever cluster is selected in the header, as long as the page
  has a cluster at all. Changing a level of the selection clears all the levels below it.
\<close>

theorem pod_selection_reload:
  assumes "clean_selection s" and "ps_cluster s \<noteq> []"
  shows "pod_logs_init (searchParams_get (usp_toString (pod_logs_query s))) selected = s
    \<and> \<not> shows_viewer (change_cluster v s) \<and> \<not> shows_viewer (change_namespace v s)
    \<and> ps_container (change_pod v s) = None"
proof -
  have get: "searchParams_get (usp_toString (pod_logs_query s)) k = map_of (pod_logs_query s) k" for k
    by (simp add: usp_toString_def usp.get_query)
  have "ps_container s = Some [] \<or> ps_container s = None \<or> truthy (ps_container s)"
    by (cases "ps_container s") auto
  then have "pod_logs_init (searchParams_get (usp_toString (pod_logs_query s))) selected = s"
    using assms
    by (intro pod_selection.equality)
      (auto simp: pod_logs_init_def get pod_logs_query_lookup clean_selection_def truthy_iff or_str_def)
  then show ?thesis
    by (simp add: shows_viewer_def change_cluster_def change_namespace_def change_pod_def)
qed

theorem pod_selection_reload_witness:
  "pod_logs_init (searchParams_get (usp_toString (pod_logs_query
     \<lparr>ps_cluster = ''a&b'', ps_namespace = ''x y'', ps_pod = ''p=1+2%'', ps_container = Some ''c''\<rparr>)))
     (Some ''other'')
   = \<lparr>ps_cluster = ''a&b'', ps_namespace = ''x y'', ps_pod = ''p=1+2%'', ps_container = Some ''c''\<rparr>"
  by (rule pod_selection_reload [THEN conjunct1]) (simp_all add: clean_selection_def)

lemma viewer_settles: "\<not> vw_triggering (trigger_done r v)"
  by (simp add: trigger_done_def split: trigger_result.split)

end
