(* ===== verification/PushPanels.thy ===== *)
theory PushPanels
  imports PodLogsPage
begin

section \<open>The panels of pushed data\<close>

text \<open>
  What \<open>components/ws/BackupProgressPanel.tsx\<close> and \<open>components/ws/ClusterEventsList.tsx\<close> show for
  the events that their hooks return, the tool bar of \<open>components/ws/PodLogsViewer.tsx\<close>, and the
  state of \<open>components/ErrorBoundary.tsx\<close>. \<open>fmt\<close> is dayjs.
\<close>

subsection \<open>Progress of tasks\<close>

record progress_item =
  pi_icon :: stage_icon
  pi_color :: string
  pi_label :: string
  pi_tags :: "string list"
  pi_namespace :: "string option"
  pi_percent :: int
  pi_status :: progress_status
  pi_message :: "string option"
  pi_error :: "string option"
  pi_time :: "string option"

definition shown :: "string option \<Rightarrow> string option" where
  "shown v = (if truthy v then v else None)"

definition shown_list :: "string option \<Rightarrow> string list" where
  "shown_list v = (if truthy v then [the v] else [])"

definition timeline_item :: "(string \<Rightarrow> string) \<Rightarrow> task_progress \<Rightarrow> progress_item" where
  "timeline_item fmt p =
     \<lparr>pi_icon = stageIcon (tp_stage p), pi_color = stageColor (tp_stage p), pi_label = stageLabel (tp_stage p),
      pi_tags = shown_list (tp_kind p) @ shown_list (tp_name p) @ shown_list (tp_cluster_code p),
      pi_namespace = map_option (\<lambda>n. ''ns: '' @ n) (shown (tp_namespace p)),
      pi_percent = tp_progress p, pi_status = progress_bar_status (tp_stage p),
      pi_message = shown (tp_message p), pi_error = shown (tp_error p),
      pi_time = map_option fmt (shown (tp_timestamp p))\<rparr>"

text \<open>The compact item leaves out cluster, namespace and time.\<close>

definition CompactProgress :: "task_progress \<Rightarrow> progress_item" where
  "CompactProgress p =
     \<lparr>pi_icon = stageIcon (tp_stage p), pi_color = stageColor (tp_stage p), pi_label = stageLabel (tp_stage p),
      pi_tags = shown_list (tp_kind p) @ shown_list (tp_name p), pi_namespace = None,
      pi_percent = tp_progress p, pi_status = progress_bar_status (tp_stage p),
      pi_message = shown (tp_message p), pi_error = shown (tp_error p), pi_time = None\<rparr>"

definition timeline_key :: "task_progress \<Rightarrow> nat \<Rightarrow> string" where
  "timeline_key p idx = js_string (tp_task_id p) @ ''-'' @ show_nat idx"

datatype progress_panel =
    PanelEmpty string
  | PanelCompact progress_item
  | PanelTimeline "(string \<times> progress_item) list"

definition BackupProgressPanel ::
  "(string \<Rightarrow> string \<Rightarrow> bool) \<Rightarrow> (string \<Rightarrow> string) \<Rightarrow> bool \<Rightarrow> task_progress list \<Rightarrow> progress_panel" where
  "BackupProgressPanel leq fmt small list =
     (let ps = panel_sorted leq small list
      in if ps = [] then PanelEmpty [CHR 0xE6, CHR 0x9A, CHR 0x82, CHR 0xE6, CHR 0x97, CHR 0xA0, CHR 0xE5, CHR 0xA4,
      CHR 0x87, CHR 0xE4, CHR 0xBB, CHR 0xBD, CHR 0xE8, CHR 0xBF, CHR 0x9B, CHR 0xE5,
      CHR 0xBA, CHR 0xA6, CHR 0xE6, CHR 0x8E, CHR 0xA8, CHR 0xE9, CHR 0x80, CHR 0x81]
         else if small then PanelCompact (CompactProgress (hd ps))
         else PanelTimeline (map (\<lambda>(idx, p). (timeline_key p idx, timeline_item fmt p))
                (zip [0..<length ps] ps)))"

subsection \<open>Cluster events\<close>

definition event_badge_texts :: "cluster_event list \<Rightarrow> cluster_event list \<Rightarrow> string list" where
  "event_badge_texts ws es =
     [show_nat (length ws) @ '' warning'', show_nat (length es) @ '' error'']"

definition latest_event_text :: "cluster_event \<Rightarrow> string" where
  "latest_event_text e = ([CHR 0xE6, CHR 0x9C, CHR 0x80, CHR 0xE8, CHR 0xBF, CHR 0x91] @
     '': '') @ ce_cluster_code e @ '' '' @ ce_kind e @ '' '' @ ce_name e"

definition latest_event_tip :: "(string \<Rightarrow> string) \<Rightarrow> cluster_event \<Rightarrow> string" where
  "latest_event_tip fmt e = (if truthy (ce_timestamp e) then fmt (the (ce_timestamp e)) else [])"

text \<open>Badge, colour, tags, name, text and time of an event of the list.\<close>

definition event_item ::
  "(string \<Rightarrow> string) \<Rightarrow> cluster_event
    \<Rightarrow> string \<times> string \<times> string list \<times> string \<times> string option \<times> string option" where
  "event_item fmt e =
     (severityBadge (ce_severity e), eventTypeColor (ce_event_type e),
      [ce_kind e, ce_cluster_code e] @ map (\<lambda>n. ''ns: '' @ n) (shown_list (ce_namespace e)), ce_name e,
      if truthy (ce_reason e) \<or> truthy (ce_message e) then Some (event_text e) else None,
      map_option fmt (shown (ce_timestamp e)))"

subsection \<open>The tool bar of the log viewer\<close>

definition viewer_tags :: "string \<Rightarrow> string \<Rightarrow> string \<Rightarrow> string option \<Rightarrow> nat \<Rightarrow> bool \<Rightarrow> connection_status
    \<Rightarrow> viewer_state \<Rightarrow> string list" where
  "viewer_tags c n p cont lines eof st v =
     [c, n @ ''/'' @ p] @ shown_list cont @ [([CHR 0xE5, CHR 0x85, CHR 0xB1] @
     '' '') @ show_nat lines @ ('' '' @
     [CHR 0xE8, CHR 0xA1, CHR 0x8C])] @
     (if eof then [''EOF''] else []) @
     (case viewer_connection_tag st of None \<Rightarrow> [] | Some t \<Rightarrow> [t]) @
     (if vw_triggering v then [([CHR 0xE6, CHR 0xAD, CHR 0xA3, CHR 0xE5, CHR 0x9C, CHR 0xA8, CHR 0xE8, CHR 0xA7,
      CHR 0xA6, CHR 0xE5, CHR 0x8F, CHR 0x91, CHR 0xE6, CHR 0xB5, CHR 0x81] @
     ''...'')] else [])"

definition pause_title :: "viewer_state \<Rightarrow> string" where
  "pause_title v = (if vw_paused v then [CHR 0xE7, CHR 0xBB, CHR 0xA7, CHR 0xE7, CHR 0xBB, CHR 0xAD, CHR 0xE6, CHR 0xBB,
      CHR 0x9A, CHR 0xE5, CHR 0x8A, CHR 0xA8] else [CHR 0xE6, CHR 0x9A, CHR 0x82, CHR 0xE5, CHR 0x81, CHR 0x9C, CHR 0xE6, CHR 0xBB,
      CHR 0x9A, CHR 0xE5, CHR 0x8A, CHR 0xA8])"

subsection \<open>The error boundary\<close>

text \<open>\<open>hasError\<close>; the children are shown, or the title of the error page.\<close>

definition getDerivedStateFromError :: "bool \<Rightarrow> bool" where
  "getDerivedStateFromError hasError = True"

definition boundary_handleReset :: "bool \<Rightarrow> bool" where
  "boundary_handleReset hasError = False"

definition boundary_render :: "bool \<Rightarrow> 'v \<Rightarrow> string + 'v" where
  "boundary_render hasError children = (if hasError then Inl [CHR 0xE9, CHR 0xA1, CHR 0xB5, CHR 0xE9, CHR 0x9D, CHR 0xA2, CHR 0xE5, CHR 0x87,
      CHR 0xBA, CHR 0xE9, CHR 0x94, CHR 0x99, CHR 0xE4, CHR 0xBA, CHR 0x86] else Inr children)"

subsection \<open>Properties\<close>

text \<open>The compact panel shows an event with the greatest time stamp, the other one all events.\<close>

lemma compact_panel_latest:
  assumes "total_preorder leq" and "BackupProgressPanel leq fmt True list = PanelCompact item"
  shows "\<exists>p \<in> set list. item = CompactProgress p \<and> (\<forall>q \<in> set list. leq (stamp q) (stamp p))"
proof -
  let ?s = "js_sort leq stamp list"
  have sorted: "sorted_wrt (\<lambda>a b. leq (stamp a) (stamp b)) ?s" by (rule sorted_js_sort [OF assms(1)])
  have ms: "set ?s = set list" using mset_js_sort [of leq stamp list] by (metis mset_eq_setD)
  have ne: "?s \<noteq> []" and item: "item = CompactProgress (last ?s)"
    using assms(2) by (auto simp: BackupProgressPanel_def panel_sorted_def Let_def split: if_splits)
  obtain xs x where sx: "?s = xs @ [x]" using ne by (metis rev_exhaust)
  have refl: "leq (stamp x) (stamp x)" using assms(1) by (auto simp: total_preorder_def)
  have "\<forall>q \<in> set ?s. leq (stamp q) (stamp x)"
    using sorted refl by (auto simp: sx sorted_wrt_append)
  then show ?thesis using item ms sx by (metis last_in_set last_snoc ne)
qed

lemma timeline_complete:
  "BackupProgressPanel leq fmt False list = PanelTimeline items \<Longrightarrow> length items = length list"
proof -
  assume "BackupProgressPanel leq fmt False list = PanelTimeline items"
  then have "length items = length (js_sort leq stamp list)"
    by (auto simp: BackupProgressPanel_def panel_sorted_def Let_def split: if_splits)
  then show ?thesis using mset_js_sort [of leq stamp list] by (metis size_mset)
qed

lemma boundary_recovers: "boundary_render (boundary_handleReset (getDerivedStateFromError b)) v = Inr v"
  by (simp add: boundary_render_def boundary_handleReset_def)

end
