(* ===== verification/Pages.thy ===== *)
theory Pages
  imports QueryString JsNumber
begin

section \<open>What the pages share\<close>

text \<open>
  The handlers of the pages are functions from the state of the page and the outcome of the
  mutation they send to the list of their effects, in order. A handler of the form
  \<open>try { await m.unwrap(); ... } catch {}\<close> sends \<open>m\<close> and has its other effects only when \<open>m\<close>
  succeeds. The contract of such a handler, that it acts only with its permission, sends at
  most one mutation and reports success only for one that succeeded, is the locale
  \<open>page_handler\<close>; each page interprets it for its own handlers.
\<close>

datatype toast_level = ToastOk | ToastFail | ToastWarn | ToastInfo

datatype 'm page_effect =
    PToast toast_level string
  | PSend 'm
  | PRefetch
  | PNavigate string
  | PSelectCluster "string option"

definition try_send :: "'m \<Rightarrow> bool \<Rightarrow> 'm page_effect list \<Rightarrow> 'm page_effect list" where
  "try_send m ok success = PSend m # (if ok then success else [])"

definition sends :: "'m page_effect list \<Rightarrow> 'm list" where
  "sends es = concat (map (\<lambda>e. case e of PSend m \<Rightarrow> [m] | _ \<Rightarrow> []) es)"

definition success_toasts :: "'m page_effect list \<Rightarrow> string list" where
  "success_toasts es = concat (map (\<lambda>e. case e of PToast ToastOk t \<Rightarrow> [t] | _ \<Rightarrow> []) es)"

definition error_toasts :: "'m page_effect list \<Rightarrow> string list" where
  "error_toasts es = concat (map (\<lambda>e. case e of PToast ToastFail t \<Rightarrow> [t] | _ \<Rightarrow> []) es)"

lemma sends_simps [simp]:
  "sends [] = []"
  "sends (PToast l t # es) = sends es" "sends (PSend m # es) = m # sends es"
  "sends (PRefetch # es) = sends es" "sends (PNavigate u # es) = sends es"
  "sends (PSelectCluster c # es) = sends es" "sends (es @ fs) = sends es @ sends fs"
  by (simp_all add: sends_def)

lemma success_toasts_simps [simp]:
  "success_toasts [] = []"
  "success_toasts (PToast l t # es) = (if l = ToastOk then t # success_toasts es else success_toasts es)"
  "success_toasts (PSend m # es) = success_toasts es" "success_toasts (PRefetch # es) = success_toasts es"
  "success_toasts (PNavigate u # es) = success_toasts es"
  "success_toasts (PSelectCluster c # es) = success_toasts es"
  "success_toasts (es @ fs) = success_toasts es @ success_toasts fs"
  by (simp_all add: success_toasts_def split: toast_level.split)

lemma error_toasts_simps [simp]:
  "error_toasts [] = []"
  "error_toasts (PToast l t # es) = (if l = ToastFail then t # error_toasts es else error_toasts es)"
  "error_toasts (PSend m # es) = error_toasts es" "error_toasts (PRefetch # es) = error_toasts es"
  "error_toasts (PNavigate u # es) = error_toasts es"
  "error_toasts (PSelectCluster c # es) = error_toasts es"
  by (simp_all add: error_toasts_def split: toast_level.split)

lemma try_send_simps [simp]:
  "sends (try_send m ok es) = m # (if ok then sends es else [])"
  "success_toasts (try_send m ok es) = (if ok then success_toasts es else [])"
  "error_toasts (try_send m ok es) = (if ok then error_toasts es else [])"
  by (simp_all add: try_send_def)

locale page_handler =
  fixes may :: "'i \<Rightarrow> bool" and run :: "'i \<Rightarrow> bool \<Rightarrow> 'm page_effect list"
  assumes guard: "sends (run i ok) \<noteq> [] \<Longrightarrow> may i"
    and single: "length (sends (run i ok)) \<le> 1"
    and same_request: "sends (run i True) = sends (run i False)"
    and reported: "success_toasts (run i ok) \<noteq> [] \<Longrightarrow> ok \<and> sends (run i ok) \<noteq> []"
begin

lemma denied: "\<not> may i \<Longrightarrow> sends (run i ok) = [] \<and> success_toasts (run i ok) = []"
  using guard reported by blast

lemma request_fixed: "sends (run i ok) = sends (run i ok')"
  using same_request by (cases ok; cases ok') simp_all

lemma at_most_one: "sends (run i ok) = [] \<or> (\<exists>m. sends (run i ok) = [m])"
  using single [of i ok] by (cases "sends (run i ok)") auto

text \<open>The whole contract as one fact: permission, one request, no false success.\<close>

lemma contract:
  "(sends (run i ok) \<noteq> [] \<longrightarrow> may i \<and> (\<exists>m. \<forall>ok'. sends (run i ok') = [m]))
   \<and> (success_toasts (run i ok) \<noteq> [] \<longrightarrow> ok \<and> may i)"
  using guard reported at_most_one request_fixed by metis

end

text \<open>
  A handler that leaves the report of a failure to the interceptors of the HTTP client, which show
  exactly one toast for it.
\<close>

locale silent_handler = page_handler +
  assumes silent: "sends (run i False) \<noteq> [] \<Longrightarrow> error_toasts (run i False) = []"
begin

lemma failure_unreported:
  "sends (run i False) \<noteq> [] \<Longrightarrow> error_toasts (run i False) = [] \<and> success_toasts (run i False) = []"
  using silent reported by blast

end

subsection \<open>Labels and paging\<close>

text \<open>The label of a cluster in a select: with its name when it has one.\<close>

definition cluster_option_label :: "string \<Rightarrow> string \<Rightarrow> string" where
  "cluster_option_label name code = (if name \<noteq> [] then name @ '' ('' @ code @ '')'' else code)"

definition or_num_str :: "int option \<Rightarrow> string \<Rightarrow> string" where
  "or_num_str v d = (case v of None \<Rightarrow> d | Some n \<Rightarrow> show_int n)"

text \<open>
  \<open>toFixed\<close> of a non-negative number: the integer nearest to \<open>x * 10 ^ f\<close>, the larger one of
  two, with \<open>f\<close> digits after the point.
\<close>

fun pad_zeros :: "nat \<Rightarrow> string \<Rightarrow> string" where
  "pad_zeros 0 s = s"
| "pad_zeros (Suc n) s = (if length s \<le> n then CHR ''0'' # pad_zeros n s else s)"

definition to_fixed :: "nat \<Rightarrow> rat \<Rightarrow> string" where
  "to_fixed f x =
     (let n = nat \<lfloor>x * 10 ^ f + 1 / 2\<rfloor>
      in if f = 0 then show_nat n
         else show_nat (n div 10 ^ f) @ ''.'' @ pad_zeros f (show_nat (n mod 10 ^ f)))"

lemma digit_chars:
  "digit_char 0 = CHR ''0''" "digit_char 1 = CHR ''1''" "digit_char (Suc 0) = CHR ''1''"
  "digit_char 2 = CHR ''2''" "digit_char 3 = CHR ''3''" "digit_char 4 = CHR ''4''"
  "digit_char 5 = CHR ''5''" "digit_char 6 = CHR ''6''" "digit_char 7 = CHR ''7''"
  "digit_char 8 = CHR ''8''" "digit_char 9 = CHR ''9''"
  by code_simp+

lemma to_fixed_examples:
  "to_fixed 1 (1536 / 1024) = ''1.5''" "to_fixed 2 (1 + 5 / 100) = ''1.05''"
  by code_simp+

end
