(* ===== verification/AuditPage.thy ===== *)
theory AuditPage
  imports Pages Permission RbacService Resources
begin

section \<open>The audit log and the dashboard\<close>

text \<open>
  \<open>pages/audit/list.tsx\<close>: the filters, the query built from them, the cells and the detail
  dialog; and the counter of \<open>pages/dashboard/index.tsx\<close>. A range of times is the pair of its
  formatted ends; the body of a request is a JSON value that \<open>stringify\<close> prints. Costs and
  codes are the numbers that the server sends, \<open>None\<close> what is not a number.
\<close>

definition audit_statusColorMap :: "(string \<times> string) list" where
  "audit_statusColorMap =
     [(''success'', ''success''), (''failed'', ''error''), (''error'', ''error''), (''pending'', ''warning'')]"

definition audit_statusLabelMap :: "(string \<times> string) list" where
  "audit_statusLabelMap =
     [(''success'', [CHR 0xE6, CHR 0x88, CHR 0x90, CHR 0xE5, CHR 0x8A, CHR 0x9F]), (''failed'', [CHR 0xE5, CHR 0xA4, CHR 0xB1, CHR 0xE8, CHR 0xB4, CHR 0xA5]), (''error'', [CHR 0xE5, CHR 0xBC, CHR 0x82, CHR 0xE5, CHR 0xB8, CHR 0xB8]), (''pending'', [CHR 0xE8, CHR 0xBF, CHR 0x9B, CHR 0xE8, CHR 0xA1, CHR 0x8C, CHR 0xE4, CHR 0xB8,
      CHR 0xAD])]"

definition methodColorMap :: "(string \<times> string) list" where
  "methodColorMap =
     [(''GET'', ''blue''), (''POST'', ''green''), (''PUT'', ''orange''), (''PATCH'', ''gold''),
      (''DELETE'', ''red'')]"

record audit_log =
  al_id :: "int option"
  al_trace_id :: "string option"
  al_user_id :: "int option"
  al_username :: "string option"
  al_client_ip :: "string option"
  al_user_agent :: "string option"
  al_module :: "string option"
  al_action :: "string option"
  al_target_type :: "string option"
  al_target_id :: "string option"
  al_cluster_code :: "string option"
  al_namespace :: "string option"
  al_status :: "string option"
  al_error_msg :: "string option"
  al_request_method :: "string option"
  al_request_uri :: "string option"
  al_request_body :: "json option"
  al_response_code :: "int option"
  al_cost_ms :: "int option"
  al_created_at :: "string option"

subsection \<open>Filters\<close>

record audit_form =
  au_username :: "string option"
  au_module :: "string option"
  au_action :: "string option"
  au_status :: "string option"
  au_cluster_code :: "string option"
  au_namespace :: "string option"
  au_target_type :: "string option"
  au_target_id :: "string option"
  au_trace_id :: "string option"
  au_time_range :: "(string \<times> string) option"

definition audit_init :: list_audit_logs_params where
  "audit_init =
     \<lparr>la_page = Some 1, la_page_size = Some 10, la_username = None, la_module = None, la_action = None,
      la_status = None, la_cluster_code = None, la_namespace = None, la_target_type = None,
      la_target_id = None, la_trace_id = None, la_start_time = None, la_end_time = None\<rparr>"

definition or_undefined :: "string option \<Rightarrow> string option" where
  "or_undefined v = (if truthy v then v else None)"

definition audit_handleSearch :: "audit_form \<Rightarrow> list_audit_logs_params \<Rightarrow> list_audit_logs_params" where
  "audit_handleSearch v f =
     f\<lparr>la_username := or_undefined (au_username v), la_module := or_undefined (au_module v),
       la_action := or_undefined (au_action v), la_status := or_undefined (au_status v),
       la_cluster_code := or_undefined (au_cluster_code v), la_namespace := or_undefined (au_namespace v),
       la_target_type := or_undefined (au_target_type v), la_target_id := or_undefined (au_target_id v),
       la_trace_id := or_undefined (au_trace_id v),
       la_start_time := map_option fst (au_time_range v), la_end_time := map_option snd (au_time_range v),
       la_page := Some 1\<rparr>"

definition audit_handleReset :: "list_audit_logs_params \<Rightarrow> list_audit_logs_params" where
  "audit_handleReset f = audit_init"

definition audit_handlePageChange :: "int \<Rightarrow> int \<Rightarrow> list_audit_logs_params \<Rightarrow> list_audit_logs_params" where
  "audit_handlePageChange p sz f = f\<lparr>la_page := Some p, la_page_size := Some sz\<rparr>"

definition audit_skip :: "current_user option \<Rightarrow> bool" where
  "audit_skip u \<longleftrightarrow> \<not> hasPerm u ''audit:list''"

subsection \<open>Cells\<close>

definition audit_time :: "(string \<Rightarrow> string) \<Rightarrow> audit_log \<Rightarrow> string" where
  "audit_time fmt r = (if truthy (al_created_at r) then fmt (the (al_created_at r)) else ''-'')"

definition audit_user_cell :: "audit_log \<Rightarrow> string \<times> string" where
  "audit_user_cell r = (''ID: '' @ or_num_str (al_user_id r) ''-'', or_str (al_username r) ''-'')"

definition audit_module_cell :: "audit_log \<Rightarrow> string \<times> string \<times> string option" where
  "audit_module_cell r =
     (or_str (al_module r) ''-'', or_str (al_action r) ''-'',
      if truthy (al_target_type r)
      then Some (the (al_target_type r) @
             (if truthy (al_target_id r) then '': '' @ the (al_target_id r) else []))
      else None)"

definition method_color :: "string option \<Rightarrow> string" where
  "method_color m = or_str (map_of methodColorMap (or_str m [])) ''default''"

text \<open>Method with its colour, URI, and the line with cluster and namespace.\<close>

definition audit_request_cell :: "audit_log \<Rightarrow> (string \<times> string) option \<times> string \<times> string option" where
  "audit_request_cell r =
     ((if truthy (al_request_method r)
       then Some (method_color (al_request_method r), the (al_request_method r)) else None),
      or_str (al_request_uri r) ''-'',
      if truthy (al_cluster_code r) \<or> truthy (al_namespace r)
      then Some (or_str (al_cluster_code r) [] @
             (if truthy (al_namespace r) then '' / '' @ the (al_namespace r) else []))
      else None)"

definition audit_status_tag :: "string option \<Rightarrow> string \<times> string" where
  "audit_status_tag v =
     (let status = or_str v []
      in (or_str (map_of audit_statusColorMap status) ''default'',
          or_str (map_of audit_statusLabelMap status) (if status = [] then ''-'' else status)))"

definition cost_cell :: "int option \<Rightarrow> (string \<times> string) option" where
  "cost_cell v =
     (case v of
        None \<Rightarrow> None
      | Some ms \<Rightarrow>
          Some (if ms > 1000 then ''red'' else if ms > 300 then ''orange'' else ''green'',
                show_int ms @ '' ms''))"

definition code_cell :: "int option \<Rightarrow> (string \<times> string) option" where
  "code_cell v =
     (case v of
        None \<Rightarrow> None
      | Some code \<Rightarrow>
          Some (if code \<ge> 200 \<and> code < 300 then ''success'' else if code \<ge> 400 then ''error'' else ''default'',
                show_int code))"

definition trace_cell :: "string option \<Rightarrow> string" where
  "trace_cell v = (if truthy v then take 12 (the v) else ''-'')"

subsection \<open>The detail dialog\<close>

text \<open>\<open>stringify\<close> is \<open>JSON.stringify\<close>; of a missing body it gives no text.\<close>

definition jsonBody :: "(json \<Rightarrow> string) \<Rightarrow> audit_log \<Rightarrow> string option" where
  "jsonBody stringify r = map_option stringify (al_request_body r)"

definition audit_detail ::
  "(string \<Rightarrow> string) \<Rightarrow> (json \<Rightarrow> string) \<Rightarrow> audit_log \<Rightarrow> (string \<times> string) list" where
  "audit_detail fmt stringify r =
     [([CHR 0xE6, CHR 0x97, CHR 0xB6, CHR 0xE9, CHR 0x97, CHR 0xB4], audit_time fmt r), (''TraceID'', or_str (al_trace_id r) ''-''),
      ([CHR 0xE7, CHR 0x94, CHR 0xA8, CHR 0xE6, CHR 0x88, CHR 0xB7], or_str (al_username r) ''-''), (([CHR 0xE7, CHR 0x94, CHR 0xA8, CHR 0xE6, CHR 0x88, CHR 0xB7] @
     ''ID''), or_num_str (al_user_id r) ''-''),
      (([CHR 0xE5, CHR 0xAE, CHR 0xA2, CHR 0xE6, CHR 0x88, CHR 0xB7, CHR 0xE7, CHR 0xAB,
      CHR 0xAF] @
     ''IP''), or_str (al_client_ip r) ''-''), ([CHR 0xE6, CHR 0xA8, CHR 0xA1, CHR 0xE5, CHR 0x9D, CHR 0x97], or_str (al_module r) ''-''),
      ([CHR 0xE6, CHR 0x93, CHR 0x8D, CHR 0xE4, CHR 0xBD, CHR 0x9C], or_str (al_action r) ''-''), ([CHR 0xE7, CHR 0x9B, CHR 0xAE, CHR 0xE6, CHR 0xA0, CHR 0x87, CHR 0xE7, CHR 0xB1,
      CHR 0xBB, CHR 0xE5, CHR 0x9E, CHR 0x8B], or_str (al_target_type r) ''-''),
      (([CHR 0xE7, CHR 0x9B, CHR 0xAE, CHR 0xE6, CHR 0xA0, CHR 0x87] @
     ''ID''), or_str (al_target_id r) ''-''), ([CHR 0xE9, CHR 0x9B, CHR 0x86, CHR 0xE7, CHR 0xBE, CHR 0xA4], or_str (al_cluster_code r) ''-''),
      ([CHR 0xE5, CHR 0x91, CHR 0xBD, CHR 0xE5, CHR 0x90, CHR 0x8D, CHR 0xE7, CHR 0xA9,
      CHR 0xBA, CHR 0xE9, CHR 0x97, CHR 0xB4], or_str (al_namespace r) ''-''),
      ([CHR 0xE8, CHR 0xAF, CHR 0xB7, CHR 0xE6, CHR 0xB1, CHR 0x82, CHR 0xE6, CHR 0x96,
      CHR 0xB9, CHR 0xE6, CHR 0xB3, CHR 0x95], or_str (al_request_method r) ''-''), (([CHR 0xE8, CHR 0xAF, CHR 0xB7, CHR 0xE6, CHR 0xB1, CHR 0x82] @
     ''URI''), or_str (al_request_uri r) ''-''),
      ([CHR 0xE7, CHR 0x8A, CHR 0xB6, CHR 0xE6, CHR 0x80, CHR 0x81], snd (audit_status_tag (al_status r))),
      ([CHR 0xE5, CHR 0x93, CHR 0x8D, CHR 0xE5, CHR 0xBA, CHR 0x94, CHR 0xE7, CHR 0xA0,
      CHR 0x81], or_num_str (al_response_code r) ''-''),
      ([CHR 0xE8, CHR 0x80, CHR 0x97, CHR 0xE6, CHR 0x97, CHR 0xB6], or_num_str (al_cost_ms r) ''-'' @ '' ms''), (''UserAgent'', or_str (al_user_agent r) ''-''),
      ([CHR 0xE9, CHR 0x94, CHR 0x99, CHR 0xE8, CHR 0xAF, CHR 0xAF, CHR 0xE4, CHR 0xBF,
      CHR 0xA1, CHR 0xE6, CHR 0x81, CHR 0xAF], or_str (al_error_msg r) ''-''),
      ([CHR 0xE8, CHR 0xAF, CHR 0xB7, CHR 0xE6, CHR 0xB1, CHR 0x82, CHR 0xE4, CHR 0xBD,
      CHR 0x93], or_str (jsonBody stringify r) (''('' @
     [CHR 0xE7, CHR 0xA9, CHR 0xBA] @
     '')''))]"

subsection \<open>The dashboard\<close>

definition clusterTotal :: "int option \<Rightarrow> 'c list option \<Rightarrow> int" where
  "clusterTotal count items =
     (case count of
        Some n \<Rightarrow> n
      | None \<Rightarrow> (case items of Some xs \<Rightarrow> int (length xs) | None \<Rightarrow> 0))"

definition dashboard_title :: "string option \<Rightarrow> string" where
  "dashboard_title selected =
     (if truthy selected then [CHR 0xE5, CHR 0xAE, CHR 0x9E, CHR 0xE6, CHR 0x97, CHR 0xB6, CHR 0xE9, CHR 0x9B,
      CHR 0x86, CHR 0xE7, CHR 0xBE, CHR 0xA4, CHR 0xE4, CHR 0xBA, CHR 0x8B, CHR 0xE4,
      CHR 0xBB, CHR 0xB6, CHR 0xEF, CHR 0xBC, CHR 0x88] @ the selected @ [CHR 0xEF, CHR 0xBC, CHR 0x89] else [CHR 0xE5, CHR 0xAE, CHR 0x9E, CHR 0xE6, CHR 0x97, CHR 0xB6, CHR 0xE9, CHR 0x9B,
      CHR 0x86, CHR 0xE7, CHR 0xBE, CHR 0xA4, CHR 0xE4, CHR 0xBA, CHR 0x8B, CHR 0xE4,
      CHR 0xBB, CHR 0xB6])"

subsection \<open>Properties\<close>

lemma opt_param_or_undefined:
  "opt_param k PStr (or_undefined v) = (if truthy v then [(k, PStr (the v))] else [])"
  by (cases v) (simp_all add: or_undefined_def opt_param_def)

lemma audit_query_search:
  "audit_query (audit_handleSearch v f) =
     [(''page'', PNum 1)] @ opt_param ''page_size'' PNum (la_page_size f) @
     concat (map (\<lambda>(k, x). if truthy x then [(k, PStr (the x))] else [])
       [(''username'', au_username v), (''module'', au_module v), (''action'', au_action v),
        (''status'', au_status v), (''cluster_code'', au_cluster_code v), (''namespace'', au_namespace v),
        (''target_type'', au_target_type v), (''target_id'', au_target_id v), (''trace_id'', au_trace_id v)]) @
     (case au_time_range v of None \<Rightarrow> [] | Some (a, b) \<Rightarrow> [(''start_time'', PStr a), (''end_time'', PStr b)])"
  by (cases "au_time_range v")
    (simp_all add: audit_query_def audit_handleSearch_def opt_param_or_undefined opt_param_def [of _ _ "None"]
      opt_param_def [of _ _ "Some x" for x] split_beta)

text \<open>
  The audit query says what the form says and nothing else: whatever was searched before, a
  search sends one parameter for every non-empty field and none for an empty one, both ends of
  the time range or neither, on the first page with the chosen page size; turning the page keeps
  every filter, and a reset drops them all.
\<close>

theorem audit_search_query:
  "rq_params (rbac_query_request (ListAuditLogs (Some (audit_handleSearch v f)))) =
     Some ([(''page'', PNum 1)] @ opt_param ''page_size'' PNum (la_page_size f) @
       concat (map (\<lambda>(k, x). if truthy x then [(k, PStr (the x))] else [])
         [(''username'', au_username v), (''module'', au_module v), (''action'', au_action v),
          (''status'', au_status v), (''cluster_code'', au_cluster_code v), (''namespace'', au_namespace v),
          (''target_type'', au_target_type v), (''target_id'', au_target_id v), (''trace_id'', au_trace_id v)]) @
       (case au_time_range v of None \<Rightarrow> [] | Some (a, b) \<Rightarrow> [(''start_time'', PStr a), (''end_time'', PStr b)]))
   \<and> audit_handleSearch v (audit_handlePageChange p sz (audit_handleSearch v f))
      = (audit_handleSearch v f)\<lparr>la_page_size := Some sz\<rparr>
   \<and> audit_handleReset f = audit_init"
  by (simp add: audit_query_search get_req_def audit_handlePageChange_def audit_handleReset_def)
    (simp add: audit_handleSearch_def)

lemma cost_colours:
  "cost_cell (Some 0) = Some (''green'', ''0 ms'')" "fst (the (cost_cell (Some 300))) = ''green''"
  "fst (the (cost_cell (Some 1000))) = ''orange''" "fst (the (cost_cell (Some 1001))) = ''red''"
  by (simp_all add: cost_cell_def show_int_def show_nat.simps digit_chars)

end
