(* ===== verification/YamlEditor.thy ===== *)
theory YamlEditor
  imports Prelude
begin

text \<open>
  \<open>components/YamlEditor.tsx\<close>: the height that the wrappers compute for the Monaco editor, their
  listeners, and the text that they hand over when the editor is mounted. Monaco and the browser are
  the environment: heights in pixels are whole numbers that the steps below provide. A listener is
  the closure of \<open>syncHeight\<close>, identified by the \<open>height\<close> it was made for.
\<close>

section \<open>State and operations\<close>

datatype css_height = HPixels int | HText string

record editor_view =
  ev_px :: int
  ev_editor :: "string option"
  ev_observed :: "css_height list"
  ev_resize :: "css_height list"
  ev_layouts :: nat

text \<open>The argument is \<open>window.innerHeight\<close>, \<open>None\<close> without a window.\<close>

fun resolveDefaultHeight :: "int option \<Rightarrow> int" where
  "resolveDefaultHeight None = 520"
| "resolveDefaultHeight (Some inner) = max 480 (inner - 280)"

definition initial_view :: "css_height \<Rightarrow> int option \<Rightarrow> editor_view" where
  "initial_view height window =
     \<lparr>ev_px = (case height of HPixels n \<Rightarrow> n | HText _ \<Rightarrow> resolveDefaultHeight window),
      ev_editor = None, ev_observed = [], ev_resize = [], ev_layouts = 0\<rparr>"

text \<open>\<open>el\<close> is the \<open>clientHeight\<close> of the host, \<open>None\<close> without a host.\<close>

definition syncHeight :: "css_height \<Rightarrow> int option \<Rightarrow> int option \<Rightarrow> editor_view \<Rightarrow> editor_view" where
  "syncHeight height window el v =
     (case el of None \<Rightarrow> v
      | Some h \<Rightarrow>
          v\<lparr>ev_px := (if h > 40 then h
                      else case height of HPixels n \<Rightarrow> n | HText _ \<Rightarrow> resolveDefaultHeight window),
            ev_layouts := ev_layouts v + (if ev_editor v = None then 0 else 1)\<rparr>)"

text \<open>
  The effect, run again when \<open>height\<close> changes, and its cleanup. \<open>ro\<close> says whether the browser has
  \<open>ResizeObserver\<close>. Without it only the editor listens to the window, the comparison does not.
\<close>

definition yaml_effect ::
  "bool \<Rightarrow> css_height \<Rightarrow> int option \<Rightarrow> int option \<Rightarrow> editor_view \<Rightarrow> editor_view" where
  "yaml_effect ro height window el v =
     (let v1 = syncHeight height window el v
      in if el = None \<or> \<not> ro then v1\<lparr>ev_resize := height # ev_resize v1\<rparr>
         else v1\<lparr>ev_observed := height # ev_observed v1, ev_resize := height # ev_resize v1\<rparr>)"

definition yaml_cleanup :: "css_height \<Rightarrow> editor_view \<Rightarrow> editor_view" where
  "yaml_cleanup height v =
     v\<lparr>ev_observed := remove1 height (ev_observed v), ev_resize := remove1 height (ev_resize v)\<rparr>"

definition diff_effect ::
  "bool \<Rightarrow> css_height \<Rightarrow> int option \<Rightarrow> int option \<Rightarrow> editor_view \<Rightarrow> editor_view" where
  "diff_effect ro height window el v =
     (let v1 = syncHeight height window el v
      in if el = None \<or> \<not> ro then v1
         else v1\<lparr>ev_observed := height # ev_observed v1, ev_resize := height # ev_resize v1\<rparr>)"

text \<open>
  Mounting the editor stores it; in the next frame it is laid out and given the value of the page
  when it shows another text. A change without a text is the empty text.
\<close>

definition editor_onMount :: "string \<Rightarrow> editor_view \<Rightarrow> editor_view" where
  "editor_onMount shown v = v\<lparr>ev_editor := Some shown\<rparr>"

definition mounted_frame :: "string \<Rightarrow> editor_view \<Rightarrow> editor_view" where
  "mounted_frame text v =
     (case ev_editor v of None \<Rightarrow> v
      | Some shown \<Rightarrow>
          v\<lparr>ev_layouts := ev_layouts v + 1,
            ev_editor := Some (if text \<noteq> [] \<and> shown \<noteq> text then text else shown)\<rparr>)"

definition editor_change :: "string option \<Rightarrow> string" where
  "editor_change text = (case text of None \<Rightarrow> [] | Some t \<Rightarrow> t)"

section \<open>The life of an editor\<close>

text \<open>
  The states of an editor whose host is on the page: the first effect, the events of the listeners,
  a new \<open>height\<close>, the mounting of Monaco and what the user types.
\<close>

inductive editor_reach :: "bool \<Rightarrow> int \<Rightarrow> css_height \<Rightarrow> editor_view \<Rightarrow> bool" for ro window where
  start: "editor_reach ro window h (yaml_effect ro h (Some window) (Some el) (initial_view h (Some window)))"
| resized: "editor_reach ro window h v \<Longrightarrow> g \<in> set (ev_resize v) \<union> set (ev_observed v) \<Longrightarrow>
    editor_reach ro window h (syncHeight g (Some window) (Some el) v)"
| height_changed: "editor_reach ro window h v \<Longrightarrow>
    editor_reach ro window h' (yaml_effect ro h' (Some window) (Some el) (yaml_cleanup h v))"
| mounted: "editor_reach ro window h v \<Longrightarrow> editor_reach ro window h (editor_onMount shown v)"
| frame: "editor_reach ro window h v \<Longrightarrow> editor_reach ro window h (mounted_frame text v)"
| typed: "editor_reach ro window h v \<Longrightarrow> ev_editor v \<noteq> None \<Longrightarrow>
    editor_reach ro window h (v\<lparr>ev_editor := Some text\<rparr>)"

definition editor_ok :: "bool \<Rightarrow> css_height \<Rightarrow> editor_view \<Rightarrow> bool" where
  "editor_ok ro h v \<longleftrightarrow>
     ev_resize v = [h] \<and> ev_observed v = (if ro then [h] else []) \<and> (40 < ev_px v \<or> h = HPixels (ev_px v))"

lemma default_height_large: "480 \<le> resolveDefaultHeight window"
  by (cases window) simp_all

lemma synced_px:
  "40 < ev_px (syncHeight h window (Some el) v) \<or> h = HPixels (ev_px (syncHeight h window (Some el) v))"
  using default_height_large [of window] by (cases h) (auto simp: syncHeight_def)

lemma synced_listeners [simp]:
  "ev_resize (syncHeight h window el v) = ev_resize v"
  "ev_observed (syncHeight h window el v) = ev_observed v"
  by (simp_all add: syncHeight_def split: option.split)

lemma effect_ok:
  assumes "ev_resize v = []" and "ev_observed v = []"
  shows "editor_ok ro h (yaml_effect ro h window (Some el) v)"
  using assms synced_px [of h window el v] by (simp add: editor_ok_def yaml_effect_def Let_def)

text \<open>
  In every state exactly one listener of each sort is registered, that of the current height, and
  the editor is never too flat to see: it is higher than 40 pixels or as high as the page demands.
\<close>

lemma editor_height_visible: "editor_reach ro window h v \<Longrightarrow> editor_ok ro h v"
proof (induction rule: editor_reach.induct)
  case (start h el)
  show ?case by (rule effect_ok) (simp_all add: initial_view_def)
next
  case (resized h v g el)
  then have "g = h" by (auto simp: editor_ok_def split: if_splits)
  then show ?case using resized.IH synced_px [of h "Some window" el v] by (simp add: editor_ok_def)
next
  case (height_changed h v h' el)
  then show ?case by (intro effect_ok) (simp_all add: yaml_cleanup_def editor_ok_def)
qed (auto simp: editor_ok_def editor_onMount_def mounted_frame_def split: option.split)

lemma cleanup_removes_listeners:
  assumes "editor_reach ro window h v"
  shows "ev_resize (yaml_cleanup h v) = [] \<and> ev_observed (yaml_cleanup h v) = []"
  using editor_height_visible [OF assms] by (simp add: editor_ok_def yaml_cleanup_def)

text \<open>After the first frame a mounted editor shows the value of the page, unless that is empty.\<close>

lemma mounted_shows_value:
  "ev_editor (mounted_frame text (editor_onMount shown v)) = Some (if text = [] then shown else text)"
  by (simp add: mounted_frame_def editor_onMount_def)

text \<open>Without \<open>ResizeObserver\<close> the comparison keeps the height of its first effect.\<close>

lemma diff_never_resizes:
  "ev_resize (diff_effect False h window el (initial_view h window)) = []"
  "ev_observed (diff_effect False h window el (initial_view h window)) = []"
  by (simp_all add: diff_effect_def initial_view_def Let_def)

end
