(* ===== verification/ClusterList.thy ===== *)
theory ClusterList
  imports Pages ClusterService
begin

section \<open>The list of clusters\<close>

text \<open>
  \<open>pages/clusters/list.tsx\<close>: the query of the list, the columns, the actions of a row and the
  drawer that edits a cluster. The result of a request is an argument of the handler that awaits
  it; \<open>json_ok\<close> says whether \<open>JSON.parse\<close> accepts a text.
\<close>

record ping_response =
  server_version :: string
  node_count :: "int option"
  cost_ms :: int

subsection \<open>The query\<close>

record cluster_list_query =
  cq_keyword :: string
  cq_page :: int
  cq_size :: int

definition cluster_list_init :: "(string \<Rightarrow> string option) \<Rightarrow> cluster_list_query" where
  "cluster_list_init get =
     \<lparr>cq_keyword = or_str (get ''keyword'') [], cq_page = 1, cq_size = 10\<rparr>"

text \<open>Submitting and resetting the search: the new query string and the new query.\<close>

definition cluster_list_submit ::
  "string option \<Rightarrow> cluster_list_query \<Rightarrow> (string \<times> string) list \<times> cluster_list_query" where
  "cluster_list_submit keyword q =
     (let kw = or_str keyword [] in ([(''keyword'', kw)], q\<lparr>cq_keyword := kw, cq_page := 1\<rparr>))"

definition cluster_list_reset ::
  "cluster_list_query \<Rightarrow> (string \<times> string) list \<times> cluster_list_query" where
  "cluster_list_reset q = ([], q\<lparr>cq_keyword := [], cq_page := 1\<rparr>)"

definition cluster_list_page :: "int \<Rightarrow> int \<Rightarrow> cluster_list_query \<Rightarrow> cluster_list_query" where
  "cluster_list_page p sz q = q\<lparr>cq_page := p, cq_size := sz\<rparr>"

definition cluster_list_request :: "cluster_list_query \<Rightarrow> cluster_query" where
  "cluster_list_request q =
     ListClusters (Some \<lparr>lc_keyword = Some (cq_keyword q), lc_page = Some (cq_page q),
       lc_size = Some (cq_size q)\<rparr>)"

subsection \<open>The rows\<close>

definition cluster_status_tag :: "int \<Rightarrow> string \<times> string" where
  "cluster_status_tag status =
     (if status = CLUSTER_STATUS_ONLINE then (''green'', ''Online'') else (''red'', ''Offline''))"

text \<open>Version, node count, status tag and time of the last synchronisation (\<open>fmt\<close> is dayjs).\<close>

definition cluster_cells ::
  "(string \<Rightarrow> string) \<Rightarrow> 'l cluster \<Rightarrow> string \<times> string \<times> (string \<times> string) \<times> string" where
  "cluster_cells fmt r =
     (or_str (cl_version r) ''-'', or_num_str (cl_node_count r) ''-'',
      cluster_status_tag (cl_status r),
      if truthy (cl_last_sync_at r) then fmt (the (cl_last_sync_at r)) else ''-'')"

definition enter_cluster :: "'l cluster \<Rightarrow> cluster_mutation page_effect list" where
  "enter_cluster r =
     [PSelectCluster (Some (cl_code r)),
      PNavigate (''/resources/list?cluster_code='' @ encodeURIComponent (cl_code r))]"

definition ping_text :: "ping_response \<Rightarrow> string" where
  "ping_text res =
     (''Ping '' @
     [CHR 0xE6, CHR 0x88, CHR 0x90, CHR 0xE5, CHR 0x8A, CHR 0x9F]) @
     (if server_version res \<noteq> [] then '' ('' @ server_version res @ '')'' else []) @
     (case node_count res of None \<Rightarrow> [] | Some n \<Rightarrow> ('' '' @
     [CHR 0xE8, CHR 0x8A, CHR 0x82, CHR 0xE7, CHR 0x82, CHR 0xB9] @
     '':'') @ show_int n) @
     (if cost_ms res \<noteq> 0 then ('' '' @
     [CHR 0xE8, CHR 0x80, CHR 0x97, CHR 0xE6, CHR 0x97, CHR 0xB6] @
     '':'') @ show_int (cost_ms res) @ ''ms'' else [])"

definition txt_ping_failed :: string where "txt_ping_failed = (''Ping '' @
     [CHR 0xE5, CHR 0xA4, CHR 0xB1, CHR 0xE8, CHR 0xB4, CHR 0xA5])"

text \<open>\<open>None\<close> is a rejected promise. The button is disabled while its own ping runs.\<close>

definition ping_disabled :: "current_user option \<Rightarrow> string option \<Rightarrow> string \<Rightarrow> bool" where
  "ping_disabled u pingingCode code \<longleftrightarrow> pingingCode = Some code \<or> \<not> hasPerm u ''cluster:ping''"

definition handlePing :: "string \<Rightarrow> ping_response option \<Rightarrow> cluster_mutation page_effect list" where
  "handlePing code result =
     PSend (PingCluster code) #
     (case result of
        Some res \<Rightarrow> [PToast ToastOk (ping_text res)]
      | None \<Rightarrow> [PToast ToastFail txt_ping_failed]) @ [PRefetch]"

definition press_ping ::
  "current_user option \<Rightarrow> string option \<Rightarrow> string \<Rightarrow> ping_response option
    \<Rightarrow> cluster_mutation page_effect list" where
  "press_ping u pingingCode code result =
     (if ping_disabled u pingingCode code then [] else handlePing code result)"

definition confirm_delete :: "string option \<Rightarrow> string \<Rightarrow> bool \<Rightarrow> cluster_mutation page_effect list" where
  "confirm_delete selected code ok =
     try_send (DeleteCluster code) ok
       (PToast ToastOk [CHR 0xE5, CHR 0x88, CHR 0xA0, CHR 0xE9, CHR 0x99, CHR 0xA4, CHR 0xE6, CHR 0x88,
      CHR 0x90, CHR 0xE5, CHR 0x8A, CHR 0x9F] #
        (if selected = Some code then [PSelectCluster None] else []) @ [PRefetch])"

text \<open>The confirmation hangs on a button that is disabled without the permission.\<close>

definition press_delete ::
  "current_user option \<Rightarrow> string option \<Rightarrow> string \<Rightarrow> bool \<Rightarrow> cluster_mutation page_effect list" where
  "press_delete u selected code ok =
     (if \<not> hasPerm u ''cluster:delete'' then [] else confirm_delete selected code ok)"

subsection \<open>The drawer\<close>

record edit_form =
  ef_name :: string
  ef_description :: "string option"
  ef_labels :: "string option"
  ef_kubeconfig_text :: "string option"

record 'l edit_drawer =
  ed_cluster :: "'l cluster option"
  ed_ping :: "(bool \<times> string) option"
  ed_form :: edit_form

definition open_edit :: "'l cluster \<Rightarrow> 'l edit_drawer \<Rightarrow> 'l edit_drawer" where
  "open_edit r d =
     d\<lparr>ed_cluster := Some r, ed_ping := None,
       ed_form := \<lparr>ef_name = cl_name r, ef_description = cl_description r, ef_labels = Some [],
         ef_kubeconfig_text = Some []\<rparr>\<rparr>"

definition close_edit :: "'l edit_drawer \<Rightarrow> 'l edit_drawer" where
  "close_edit d = d\<lparr>ed_cluster := None\<rparr>"

definition set_kubeconfig :: "string \<Rightarrow> 'l edit_drawer \<Rightarrow> 'l edit_drawer" where
  "set_kubeconfig t d = d\<lparr>ed_form := (ed_form d)\<lparr>ef_kubeconfig_text := Some t\<rparr>\<rparr>"

definition blank :: "string option \<Rightarrow> bool" where
  "blank v \<longleftrightarrow> js_trim (or_str v []) = []"

definition ping_info :: "ping_response \<Rightarrow> string" where
  "ping_info res =
     (if server_version res \<noteq> [] then server_version res else [CHR 0xE6, CHR 0x9C, CHR 0xAA, CHR 0xE7, CHR 0x9F, CHR 0xA5, CHR 0xE7, CHR 0x89,
      CHR 0x88, CHR 0xE6, CHR 0x9C, CHR 0xAC]) @ ('' '' @
     [CHR 0xC2, CHR 0xB7] @
     '' '' @
     [CHR 0xE8, CHR 0x8A, CHR 0x82, CHR 0xE7, CHR 0x82, CHR 0xB9] @
     '' '') @
     or_num_str (node_count res) ''-'' @ ('' '' @
     [CHR 0xC2, CHR 0xB7] @
     '' '') @ show_int (cost_ms res) @ ''ms''"

definition handleEditPing ::
  "'l edit_drawer \<Rightarrow> ping_response option \<Rightarrow> 'l edit_drawer \<times> cluster_mutation page_effect list" where
  "handleEditPing d result =
     (if ed_cluster d = None then (d, [])
      else let kube = ef_kubeconfig_text (ed_form d) in
        if blank kube
        then (d, [PToast ToastWarn ([CHR 0xE8, CHR 0xAF, CHR 0xB7, CHR 0xE5, CHR 0x85, CHR 0x88, CHR 0xE5, CHR 0x9C,
      CHR 0xA8, CHR 0xE3, CHR 0x80, CHR 0x8C, CHR 0xE6, CHR 0x9B, CHR 0xB4, CHR 0xE6,
      CHR 0x96, CHR 0xB0] @
     '' Kubeconfig'' @
     [CHR 0xE3, CHR 0x80, CHR 0x8D, CHR 0xE5, CHR 0xAD, CHR 0x97, CHR 0xE6, CHR 0xAE,
      CHR 0xB5, CHR 0xE7, CHR 0xB2, CHR 0x98, CHR 0xE8, CHR 0xB4, CHR 0xB4, CHR 0xE5,
      CHR 0x86, CHR 0x85, CHR 0xE5, CHR 0xAE, CHR 0xB9, CHR 0xE5, CHR 0x90, CHR 0x8E,
      CHR 0xE5, CHR 0x86, CHR 0x8D, CHR 0xE6, CHR 0xB5, CHR 0x8B, CHR 0xE8, CHR 0xAF,
      CHR 0x95, CHR 0xE8, CHR 0xBF, CHR 0x9E, CHR 0xE6, CHR 0x8E, CHR 0xA5])])
        else (case result of
               Some res \<Rightarrow> (d\<lparr>ed_ping := Some (True, ping_info res)\<rparr>,
                  [PSend (TempPing kube), PToast ToastOk [CHR 0xE8, CHR 0xBF, CHR 0x9E, CHR 0xE6, CHR 0x8E, CHR 0xA5, CHR 0xE6, CHR 0xA0,
      CHR 0xA1, CHR 0xE9, CHR 0xAA, CHR 0x8C, CHR 0xE9, CHR 0x80, CHR 0x9A, CHR 0xE8,
      CHR 0xBF, CHR 0x87]])
             | None \<Rightarrow> (d\<lparr>ed_ping := Some (False, [CHR 0xE8, CHR 0xBF, CHR 0x9E, CHR 0xE6, CHR 0x8E, CHR 0xA5, CHR 0xE6, CHR 0xA0,
      CHR 0xA1, CHR 0xE9, CHR 0xAA, CHR 0x8C, CHR 0xE5, CHR 0xA4, CHR 0xB1, CHR 0xE8,
      CHR 0xB4, CHR 0xA5])\<rparr>, [PSend (TempPing kube)])))"

text \<open>The body: empty labels and an empty Kubeconfig are not sent. \<open>Inl\<close> is the toast of an early return.\<close>

definition edit_payload ::
  "(string \<Rightarrow> bool) \<Rightarrow> 'l edit_drawer \<Rightarrow> (toast_level \<times> string) + update_cluster_data" where
  "edit_payload json_ok d =
     (let f = ed_form d;
          body = \<lparr>uc_name = Some (ef_name f), uc_description = ef_description f,
            uc_kubeconfig_text = None, uc_kubeconfig_base64 = None, uc_labels = None\<rparr>
      in if \<not> blank (ef_labels f) \<and> \<not> json_ok (the (ef_labels f))
         then Inl (ToastFail, (''labels '' @
     [CHR 0xE5, CHR 0xBF, CHR 0x85, CHR 0xE9, CHR 0xA1, CHR 0xBB, CHR 0xE6, CHR 0x98,
      CHR 0xAF, CHR 0xE5, CHR 0x90, CHR 0x88, CHR 0xE6, CHR 0xB3, CHR 0x95] @
     '' JSON''))
         else
           let body1 = (if blank (ef_labels f) then body else body\<lparr>uc_labels := ef_labels f\<rparr>)
           in if blank (ef_kubeconfig_text f) then Inr body1
              else if \<not> (case ed_ping d of Some (s, _) \<Rightarrow> s | None \<Rightarrow> False)
              then Inl (ToastWarn, ([CHR 0xE6, CHR 0x9B, CHR 0xB4, CHR 0xE6, CHR 0x96, CHR 0xB0] @
     '' Kubeconfig '' @
     [CHR 0xE5, CHR 0x90, CHR 0x8E, CHR 0xE5, CHR 0xBB, CHR 0xBA, CHR 0xE8, CHR 0xAE,
      CHR 0xAE, CHR 0xE5, CHR 0x85, CHR 0x88, CHR 0xE7, CHR 0x82, CHR 0xB9, CHR 0xE5,
      CHR 0x87, CHR 0xBB, CHR 0xE3, CHR 0x80, CHR 0x8C, CHR 0xE6, CHR 0xA0, CHR 0xA1,
      CHR 0xE9, CHR 0xAA, CHR 0x8C, CHR 0xE8, CHR 0xBF, CHR 0x9E, CHR 0xE6, CHR 0x8E,
      CHR 0xA5, CHR 0xE3, CHR 0x80, CHR 0x8D, CHR 0xE5, CHR 0xB9, CHR 0xB6, CHR 0xE7,
      CHR 0xA1, CHR 0xAE, CHR 0xE8, CHR 0xAE, CHR 0xA4, CHR 0xE6, CHR 0x88, CHR 0x90,
      CHR 0xE5, CHR 0x8A, CHR 0x9F, CHR 0xE5, CHR 0x90, CHR 0x8E, CHR 0xE5, CHR 0x86,
      CHR 0x8D, CHR 0xE4, CHR 0xBF, CHR 0x9D, CHR 0xE5, CHR 0xAD, CHR 0x98]))
              else Inr (body1\<lparr>uc_kubeconfig_text := ef_kubeconfig_text f\<rparr>))"

text \<open>\<open>valid\<close> says whether \<open>validateFields\<close> accepts the form.\<close>

definition handleSave ::
  "(string \<Rightarrow> bool) \<Rightarrow> current_user option \<Rightarrow> bool \<Rightarrow> 'l edit_drawer \<Rightarrow> bool
    \<Rightarrow> 'l edit_drawer \<times> cluster_mutation page_effect list" where
  "handleSave json_ok u valid d ok =
     (if \<not> hasPerm u ''cluster:update'' then (d, [PToast ToastFail [CHR 0xE6, CHR 0x97, CHR 0xA0, CHR 0xE9, CHR 0x9B, CHR 0x86, CHR 0xE7, CHR 0xBE,
      CHR 0xA4, CHR 0xE7, CHR 0xBC, CHR 0x96, CHR 0xE8, CHR 0xBE, CHR 0x91, CHR 0xE6,
      CHR 0x9D, CHR 0x83, CHR 0xE9, CHR 0x99, CHR 0x90]])
      else if \<not> valid then (d, [])
      else case ed_cluster d of
             None \<Rightarrow> (d, [])
           | Some r \<Rightarrow>
               (case edit_payload json_ok d of
                  Inl (l, t) \<Rightarrow> (d, [PToast l t])
                | Inr body \<Rightarrow>
                    (if ok then close_edit d else d,
                     try_send (UpdateCluster (cl_code r) body) ok
                       [PToast ToastOk [CHR 0xE6, CHR 0x9B, CHR 0xB4, CHR 0xE6, CHR 0x96, CHR 0xB0, CHR 0xE6, CHR 0x88,
      CHR 0x90, CHR 0xE5, CHR 0x8A, CHR 0x9F], PRefetch])))"

subsection \<open>Properties\<close>

interpretation cluster_ping: page_handler "\<lambda>(u, p, code, res). hasPerm u ''cluster:ping''"
  "\<lambda>(u, p, code, res) ok. press_ping u p code (if ok then Some res else None)"
  by unfold_locales (auto simp: press_ping_def ping_disabled_def handlePing_def split: if_splits)

interpretation cluster_delete: silent_handler "\<lambda>(u, sel, code). hasPerm u ''cluster:delete''"
  "\<lambda>(u, sel, code) ok. press_delete u sel code ok"
  by unfold_locales (auto simp: press_delete_def confirm_delete_def split: if_splits)

lemma payload_toast: "edit_payload j d = Inl (l, t) \<Longrightarrow> l \<noteq> ToastOk"
  by (simp add: edit_payload_def Let_def split: if_splits)

interpretation cluster_save: silent_handler "\<lambda>(j, u, valid, d). hasPerm u ''cluster:update''"
  "\<lambda>(j, u, valid, d :: 'l edit_drawer) ok. snd (handleSave j u valid d ok)"
  by unfold_locales (auto simp: handleSave_def dest: payload_toast split: if_splits option.splits sum.splits prod.splits)

text \<open>
  A saved Kubeconfig was not necessarily tested: the result of the connection test survives an
  edit of the text.
\<close>

lemma edit_test_outlives_text:
  assumes "ed_cluster d = Some r" and "hasPerm u ''cluster:update''" and "blank (ef_labels (ed_form d))"
    and "\<not> blank (ef_kubeconfig_text (ed_form d))" and "js_trim t \<noteq> []"
  shows "\<exists>body. sends (snd (handleSave j u True
             (set_kubeconfig t (fst (handleEditPing d (Some res)))) ok)) = [UpdateCluster (cl_code r) body]
           \<and> uc_kubeconfig_text body = Some t"
proof -
  have "t \<noteq> []" using assms(5) by (auto simp: js_trim_def)
  then show ?thesis
    using assms
    by (simp add: handleEditPing_def set_kubeconfig_def handleSave_def edit_payload_def blank_def Let_def)
qed

text \<open>Removing the selected cluster clears the selection, and removing another one keeps it.\<close>

lemma delete_clears_selection:
  "PSelectCluster c \<in> set (confirm_delete selected code ok) \<longleftrightarrow>
     ok \<and> selected = Some code \<and> c = None"
  by (auto simp: confirm_delete_def try_send_def)

end
