(* ===== verification/ClusterImport.thy ===== *)
theory ClusterImport
  imports ClusterList
begin

section \<open>Importing a cluster\<close>

text \<open>
  \<open>pages/clusters/import.tsx\<close> as a state machine: the Kubeconfig comes from a text field or a
  file, a connection test asks the server about it, and the import is refused before a test
  succeeded. A test is cut at its \<open>await\<close>, so other events may happen while it is in flight.
\<close>

datatype kubeconfig_mode = KText | KFile

record import_state =
  im_mode :: kubeconfig_mode
  im_kubeconfig :: string
  im_file :: string
  im_ping :: "(bool \<times> string) option"

definition import_init :: import_state where
  "import_init = \<lparr>im_mode = KText, im_kubeconfig = [], im_file = [], im_ping = None\<rparr>"

record import_values =
  iv_name :: string
  iv_code :: string
  iv_description :: "string option"
  iv_labels :: "string option"

subsection \<open>The rules of the form\<close>

definition is_alnum :: "char \<Rightarrow> bool" where
  "is_alnum c \<longleftrightarrow>
     (let n = of_char c :: nat in
      48 \<le> n \<and> n \<le> 57 \<or> 65 \<le> n \<and> n \<le> 90 \<or> 97 \<le> n \<and> n \<le> 122)"

text \<open>The pattern \<open>^[a-zA-Z0-9][a-zA-Z0-9_-]*$\<close> and the length limit of the code.\<close>

definition valid_code :: "string \<Rightarrow> bool" where
  "valid_code s \<longleftrightarrow>
     (case s of [] \<Rightarrow> False
      | c # cs \<Rightarrow> is_alnum c \<and> list_all (\<lambda>x. is_alnum x \<or> x = CHR ''_'' \<or> x = CHR ''-'') cs)
     \<and> length s \<le> 64"

definition valid_labels :: "(string \<Rightarrow> bool) \<Rightarrow> string option \<Rightarrow> bool" where
  "valid_labels json_ok v \<longleftrightarrow> \<not> truthy v \<or> json_ok (the v)"

subsection \<open>The Kubeconfig\<close>

definition extractKubeconfig :: "import_state \<Rightarrow> string option" where
  "extractKubeconfig s =
     (case im_mode s of
        KText \<Rightarrow> if js_trim (im_kubeconfig s) \<noteq> [] then Some (im_kubeconfig s) else None
      | KFile \<Rightarrow> if im_file s \<noteq> [] then Some (im_file s) else None)"

text \<open>The byte order mark is dropped from the text of a file.\<close>

definition file_text :: "string \<Rightarrow> string" where
  "file_text s = (if starts_with s [CHR 0xEF, CHR 0xBB, CHR 0xBF] then drop 3 s else s)"

definition allowed_file :: "string \<Rightarrow> bool" where
  "allowed_file name \<longleftrightarrow>
     list_ex (\<lambda>ext. ends_with (toLowerCase name) ext) [''.yaml'', ''.yml'', ''.kubeconfig'']"

text \<open>\<open>None\<close> is a file that cannot be read.\<close>

definition beforeUpload ::
  "string \<Rightarrow> string option \<Rightarrow> import_state \<Rightarrow> import_state \<times> cluster_mutation page_effect list" where
  "beforeUpload name content s =
     (if \<not> allowed_file name then (s, [PToast ToastFail ([CHR 0xE4, CHR 0xBB, CHR 0x85, CHR 0xE6, CHR 0x94, CHR 0xAF, CHR 0xE6, CHR 0x8C,
      CHR 0x81] @
     '' .yaml/.yml/.kubeconfig '' @
     [CHR 0xE6, CHR 0x96, CHR 0x87, CHR 0xE4, CHR 0xBB, CHR 0xB6])])
      else case content of
             None \<Rightarrow> (s, [PToast ToastFail [CHR 0xE8, CHR 0xAF, CHR 0xBB, CHR 0xE5, CHR 0x8F, CHR 0x96, CHR 0xE6, CHR 0x96,
      CHR 0x87, CHR 0xE4, CHR 0xBB, CHR 0xB6, CHR 0xE5, CHR 0xA4, CHR 0xB1, CHR 0xE8,
      CHR 0xB4, CHR 0xA5]])
           | Some raw \<Rightarrow> (s\<lparr>im_file := file_text raw, im_kubeconfig := file_text raw\<rparr>, []))"

definition removeFile :: "import_state \<Rightarrow> import_state" where
  "removeFile s = s\<lparr>im_file := [], im_kubeconfig := [], im_ping := None\<rparr>"

definition typeKubeconfig :: "string \<Rightarrow> import_state \<Rightarrow> import_state" where
  "typeKubeconfig t s = s\<lparr>im_kubeconfig := t, im_ping := None\<rparr>"

definition setMode :: "kubeconfig_mode \<Rightarrow> import_state \<Rightarrow> import_state" where
  "setMode m s = s\<lparr>im_mode := m\<rparr>"

subsection \<open>Testing and importing\<close>

record request_error =
  re_data_message :: "string option"
  re_data_msg :: "string option"
  re_message :: "string option"

definition extractErrorMessage :: "request_error \<Rightarrow> string" where
  "extractErrorMessage e =
     or_str (re_data_message e) (or_str (re_data_msg e) (or_str (re_message e) [CHR 0xE8, CHR 0xBF, CHR 0x9E, CHR 0xE6, CHR 0x8E, CHR 0xA5, CHR 0xE8, CHR 0xAF,
      CHR 0xB7, CHR 0xE6, CHR 0xB1, CHR 0x82, CHR 0xE5, CHR 0xA4, CHR 0xB1, CHR 0xE8,
      CHR 0xB4, CHR 0xA5]))"

text \<open>
  \<open>handleTestConnection\<close> up to its \<open>await\<close>: \<open>valid\<close> is the outcome of \<open>validateFields\<close>. A
  rejected validation ends in the same \<open>catch\<close> as a failed request.
\<close>

definition test_invalid :: "import_state \<Rightarrow> import_state" where
  "test_invalid s = s\<lparr>im_ping := Some (False, extractErrorMessage
     \<lparr>re_data_message = None, re_data_msg = None, re_message = None\<rparr>)\<rparr>"

definition test_start :: "bool \<Rightarrow> import_state \<Rightarrow> import_state \<times> cluster_mutation page_effect list" where
  "test_start valid s =
     (if \<not> valid then (test_invalid s, [])
      else case extractKubeconfig s of
             None \<Rightarrow> (s, [PToast ToastFail ([CHR 0xE8, CHR 0xAF, CHR 0xB7, CHR 0xE6, CHR 0x8F, CHR 0x90, CHR 0xE4, CHR 0xBE,
      CHR 0x9B] @
     '' Kubeconfig '' @
     [CHR 0xE5, CHR 0x86, CHR 0x85, CHR 0xE5, CHR 0xAE, CHR 0xB9])])
           | Some kc \<Rightarrow> (s\<lparr>im_ping := None\<rparr>, [PSend (TempPing (Some kc))]))"

definition test_done ::
  "ping_response + request_error \<Rightarrow> import_state \<Rightarrow> import_state \<times> cluster_mutation page_effect list" where
  "test_done result s =
     (case result of
        Inl res \<Rightarrow> (s\<lparr>im_ping := Some (True, ping_info res)\<rparr>, [PToast ToastOk [CHR 0xE8, CHR 0xBF, CHR 0x9E, CHR 0xE6, CHR 0x8E, CHR 0xA5, CHR 0xE6, CHR 0x88,
      CHR 0x90, CHR 0xE5, CHR 0x8A, CHR 0x9F]])
      | Inr e \<Rightarrow> (s\<lparr>im_ping := Some (False, extractErrorMessage e)\<rparr>, []))"

definition import_handleSubmit ::
  "import_values \<Rightarrow> import_state \<Rightarrow> bool \<Rightarrow> cluster_mutation page_effect list" where
  "import_handleSubmit v s ok =
     (case extractKubeconfig s of
        None \<Rightarrow> [PToast ToastFail ([CHR 0xE8, CHR 0xAF, CHR 0xB7, CHR 0xE6, CHR 0x8F, CHR 0x90, CHR 0xE4, CHR 0xBE,
      CHR 0x9B] @
     '' Kubeconfig '' @
     [CHR 0xE5, CHR 0x86, CHR 0x85, CHR 0xE5, CHR 0xAE, CHR 0xB9])]
      | Some kc \<Rightarrow>
          if \<not> (case im_ping s of Some (b, _) \<Rightarrow> b | None \<Rightarrow> False)
          then [PToast ToastFail [CHR 0xE8, CHR 0xAF, CHR 0xB7, CHR 0xE5, CHR 0x85, CHR 0x88, CHR 0xE7, CHR 0x82,
      CHR 0xB9, CHR 0xE5, CHR 0x87, CHR 0xBB, CHR 0xE3, CHR 0x80, CHR 0x8C, CHR 0xE6,
      CHR 0xB5, CHR 0x8B, CHR 0xE8, CHR 0xAF, CHR 0x95, CHR 0xE8, CHR 0xBF, CHR 0x9E,
      CHR 0xE6, CHR 0x8E, CHR 0xA5, CHR 0xE3, CHR 0x80, CHR 0x8D, CHR 0xE5, CHR 0xB9,
      CHR 0xB6, CHR 0xE7, CHR 0xA1, CHR 0xAE, CHR 0xE4, CHR 0xBF, CHR 0x9D, CHR 0xE8,
      CHR 0xBF, CHR 0x9E, CHR 0xE6, CHR 0x8E, CHR 0xA5, CHR 0xE6, CHR 0x88, CHR 0x90,
      CHR 0xE5, CHR 0x8A, CHR 0x9F, CHR 0xE5, CHR 0x90, CHR 0x8E, CHR 0xE5, CHR 0x86,
      CHR 0x8D, CHR 0xE5, CHR 0xAF, CHR 0xBC, CHR 0xE5, CHR 0x85, CHR 0xA5]]
          else try_send (ImportCluster \<lparr>ic_name = iv_name v, ic_code = iv_code v,
                   ic_description = iv_description v, ic_kubeconfig_text = Some kc,
                   ic_kubeconfig_base64 = None, ic_labels = iv_labels v\<rparr>) ok
                 [PToast ToastOk [CHR 0xE9, CHR 0x9B, CHR 0x86, CHR 0xE7, CHR 0xBE, CHR 0xA4, CHR 0xE5, CHR 0xAF,
      CHR 0xBC, CHR 0xE5, CHR 0x85, CHR 0xA5, CHR 0xE6, CHR 0x88, CHR 0x90, CHR 0xE5,
      CHR 0x8A, CHR 0x9F], PNavigate ''/clusters/list''])"

subsection \<open>The runs of the page\<close>

text \<open>
  A run carries the Kubeconfigs under test and those a test accepted. In a \<open>careful\<close> run the
  user stays with the text field and leaves it alone while a test is in flight.
\<close>

inductive import_reach :: "bool \<Rightarrow> import_state \<Rightarrow> string list \<Rightarrow> string set \<Rightarrow> bool" for careful where
  reach_init: "import_reach careful import_init [] {}"
| reach_type: "import_reach careful s fl acc \<Longrightarrow> im_mode s = KText \<Longrightarrow> careful \<longrightarrow> fl = [] \<Longrightarrow>
    import_reach careful (typeKubeconfig t s) fl acc"
| reach_mode: "import_reach careful s fl acc \<Longrightarrow> \<not> careful \<Longrightarrow> import_reach careful (setMode m s) fl acc"
| reach_upload: "import_reach careful s fl acc \<Longrightarrow> \<not> careful \<Longrightarrow> im_mode s = KFile \<Longrightarrow>
    import_reach careful (fst (beforeUpload name content s)) fl acc"
| reach_remove: "import_reach careful s fl acc \<Longrightarrow> \<not> careful \<Longrightarrow> im_mode s = KFile \<Longrightarrow>
    import_reach careful (removeFile s) fl acc"
| reach_test: "import_reach careful s fl acc \<Longrightarrow> extractKubeconfig s = Some kc \<Longrightarrow>
    import_reach careful (fst (test_start True s)) (fl @ [kc]) acc"
| reach_invalid: "import_reach careful s fl acc \<Longrightarrow>
    import_reach careful (fst (test_start False s)) fl acc"
| reach_done: "import_reach careful s fl acc \<Longrightarrow> kc \<in> set fl \<Longrightarrow>
    import_reach careful (fst (test_done result s)) (remove1 kc fl)
      (case result of Inl _ \<Rightarrow> insert kc acc | Inr _ \<Rightarrow> acc)"

definition ping_passed :: "import_state \<Rightarrow> bool" where
  "ping_passed s \<longleftrightarrow> (case im_ping s of Some (b, _) \<Rightarrow> b | None \<Rightarrow> False)"

lemma ping_passed_simps [simp]:
  "ping_passed (typeKubeconfig t s) = False" "ping_passed (setMode m s) = ping_passed s"
  "ping_passed (removeFile s) = False" "ping_passed (fst (test_start False s)) = False"
  "ping_passed (fst (beforeUpload n c s)) = ping_passed s"
  "ping_passed (fst (test_done result s)) = (case result of Inl _ \<Rightarrow> True | Inr _ \<Rightarrow> False)"
proof -
  have "im_ping (fst (beforeUpload n c s)) = im_ping s"
    by (simp add: beforeUpload_def split: option.split)
  then show "ping_passed (fst (beforeUpload n c s)) = ping_passed s" by (simp add: ping_passed_def)
qed (simp_all add: ping_passed_def typeKubeconfig_def setMode_def removeFile_def test_start_def
      test_invalid_def test_done_def split: sum.splits)

lemma import_sends:
  "sends (import_handleSubmit v s ok) =
     (case extractKubeconfig s of
        Some kc \<Rightarrow> if ping_passed s then
          [ImportCluster \<lparr>ic_name = iv_name v, ic_code = iv_code v,
             ic_description = iv_description v, ic_kubeconfig_text = Some kc,
             ic_kubeconfig_base64 = None, ic_labels = iv_labels v\<rparr>] else []
      | None \<Rightarrow> [])"
  by (auto simp: import_handleSubmit_def ping_passed_def split: option.splits)

lemma some_test_passed: "import_reach careful s fl acc \<Longrightarrow> ping_passed s \<Longrightarrow> acc \<noteq> {}"
proof (induction rule: import_reach.induct)
  case reach_init
  then show ?case by (simp add: ping_passed_def import_init_def)
next
  case (reach_test s fl acc kc)
  then show ?case by (simp add: ping_passed_def test_start_def)
next
  case (reach_done s fl acc kc result)
  then show ?case by (cases result) auto
qed auto

lemma careful_invariant:
  "import_reach True s fl acc \<Longrightarrow>
   im_mode s = KText \<and> (\<forall>kc \<in> set fl. extractKubeconfig s = Some kc)
   \<and> (ping_passed s \<longrightarrow> (\<exists>kc \<in> acc. extractKubeconfig s = Some kc))"
proof (induction rule: import_reach.induct)
  case reach_init
  then show ?case by (simp add: ping_passed_def import_init_def)
next
  case (reach_test s fl acc kc)
  then show ?case by (auto simp: ping_passed_def test_start_def extractKubeconfig_def)
next
  case (reach_done s fl acc kc result)
  then have "im_mode (fst (test_done result s)) = KText"
    "extractKubeconfig (fst (test_done result s)) = extractKubeconfig s"
    by (simp_all add: test_done_def extractKubeconfig_def split: sum.splits)
  moreover have "\<forall>x \<in> set (remove1 kc fl). extractKubeconfig s = Some x"
    using reach_done.IH set_remove1_subset [of kc fl] by blast
  moreover have "extractKubeconfig s = Some kc" using reach_done by blast
  ultimately show ?case
    using reach_done.IH by (cases result) simp_all
qed (auto simp: typeKubeconfig_def test_start_def test_invalid_def extractKubeconfig_def ping_passed_def)

text \<open>
  An import comes after a successful connection test: in every run of the page, a
  submission that sends an import sends one non-empty Kubeconfig after some test succeeded;
  and when the user stays with the text field and leaves it alone during a test, the imported
  Kubeconfig is one that a test accepted.
\<close>

theorem import_after_test:
  assumes "import_reach careful s fl accepted"
    and "sends (import_handleSubmit v s ok) = [ImportCluster d]"
  shows "accepted \<noteq> {} \<and> truthy (ic_kubeconfig_text d) \<and> ic_code d = iv_code v
    \<and> (careful \<longrightarrow> the (ic_kubeconfig_text d) \<in> accepted)"
proof -
  from assms(2) obtain kc where kc: "extractKubeconfig s = Some kc" "ping_passed s"
    "ic_kubeconfig_text d = Some kc" "ic_code d = iv_code v"
    unfolding import_sends by (auto split: option.splits if_splits)
  have "kc \<noteq> []"
    using kc(1) by (auto simp: extractKubeconfig_def js_trim_def split: kubeconfig_mode.splits if_splits)
  with kc show ?thesis
    using some_test_passed [OF assms(1) kc(2)] careful_invariant [of s fl accepted] assms(1)
    by auto
qed

definition demo_pong :: ping_response where
  "demo_pong = \<lparr>server_version = ''v1.30'', node_count = Some 3, cost_ms = 12\<rparr>"

definition demo_values :: import_values where
  "demo_values = \<lparr>iv_name = ''prod'', iv_code = ''prod-1'', iv_description = None, iv_labels = None\<rparr>"

definition demo_tested :: import_state where
  "demo_tested = \<lparr>im_mode = KText, im_kubeconfig = ''a'', im_file = [],
     im_ping = Some (True, ping_info demo_pong)\<rparr>"

lemma demo_extract: "extractKubeconfig demo_tested = Some ''a''"
  by (simp add: extractKubeconfig_def demo_tested_def js_trim_def js_space_def)

lemma demo_tested_reach: "import_reach careful demo_tested [] {''a''}"
proof -
  let ?s1 = "typeKubeconfig ''a'' import_init"
  have kc: "extractKubeconfig ?s1 = Some ''a''"
    by (simp add: extractKubeconfig_def typeKubeconfig_def import_init_def js_trim_def js_space_def)
  have "import_reach careful ?s1 [] {}"
    by (rule reach_type [OF reach_init]) (simp_all add: import_init_def)
  from reach_done [OF reach_test [OF this kc], of "''a''" "Inl demo_pong"]
  show ?thesis
    using kc by (simp add: test_done_def test_start_def demo_tested_def typeKubeconfig_def import_init_def)
qed

theorem import_after_test_witness:
  "\<exists>d. sends (import_handleSubmit demo_values demo_tested True) = [ImportCluster d]
     \<and> the (ic_kubeconfig_text d) \<in> {''a''}"
proof -
  obtain d where d: "sends (import_handleSubmit demo_values demo_tested True) = [ImportCluster d]"
    using demo_extract by (simp add: import_sends ping_passed_def demo_tested_def)
  from import_after_test [OF demo_tested_reach [of True] d] d show ?thesis by blast
qed

text \<open>
  The test can be bypassed: after a successful test of one Kubeconfig, switching to the
  upload and choosing a file keeps the result of the test, and the import then sends the file,
  which no test has seen.
\<close>

theorem import_untested_file:
  "\<exists>s d. import_reach False s [] {''a''}
     \<and> sends (import_handleSubmit demo_values s ok) = [ImportCluster d]
     \<and> ic_kubeconfig_text d = Some ''b''"
proof -
  let ?s = "fst (beforeUpload ''b.yaml'' (Some ''b'') (setMode KFile demo_tested))"
  have allowed: "allowed_file ''b.yaml''" by code_simp
  have "import_reach False ?s [] {''a''}"
    by (rule reach_upload [OF reach_mode [OF demo_tested_reach]]) (simp_all add: setMode_def)
  moreover have kc: "extractKubeconfig ?s = Some ''b''"
    by (simp add: beforeUpload_def allowed setMode_def extractKubeconfig_def file_text_def
        starts_with_def)
  moreover have "ping_passed demo_tested" by (simp add: ping_passed_def demo_tested_def)
  then have "ping_passed ?s" by simp
  ultimately show ?thesis by (intro exI [of _ ?s]) (simp add: import_sends)
qed

subsection \<open>The codes the form accepts\<close>

lemma valid_code_unreserved: "valid_code s \<Longrightarrow> list_all unreserved s"
  by (cases s) (auto simp: valid_code_def is_alnum_def unreserved_def Let_def list_all_iff)

lemma valid_code_head: "valid_code s \<Longrightarrow> \<exists>c cs. s = c # cs \<and> is_alnum c"
  by (cases s) (auto simp: valid_code_def)

lemma valid_code_no_slash: "valid_code s \<Longrightarrow> CHR ''/'' \<notin> set s"
  using valid_code_unreserved [of s] by (auto simp: list_all_iff unreserved_def Let_def)

lemma append_slash_inject:
  assumes "CHR ''/'' \<notin> set s" and "CHR ''/'' \<notin> set t"
  shows "s @ CHR ''/'' # x = t @ CHR ''/'' # y \<longleftrightarrow> s = t \<and> x = y"
proof
  assume eq: "s @ CHR ''/'' # x = t @ CHR ''/'' # y"
  have "takeWhile (\<lambda>c. c \<noteq> CHR ''/'') (u @ CHR ''/'' # z) = u" if "CHR ''/'' \<notin> set u" for u z
    using that by (induction u) auto
  with assms eq have "s = t" by metis
  with eq show "s = t \<and> x = y" by simp
qed simp

text \<open>
  A code that the form accepts needs no encoding: it is its own percent encoding, so the
  paths that \<open>cluster.ts\<close> builds without encoding are those it would build with it; different
  codes give different paths for reading, changing and pinging a cluster, and none of them is
  the path of the temporary test.
\<close>

theorem imported_code_url_safe:
  assumes "valid_code c" and "valid_code d"
  shows "encodeURIComponent c = c
    \<and> (rq_url (cluster_query_request (GetCluster c)) = rq_url (cluster_query_request (GetCluster d))
         \<longleftrightarrow> c = d)
    \<and> (rq_url (cluster_mutation_request (PingCluster c)) = rq_url (cluster_mutation_request (PingCluster d))
         \<longleftrightarrow> c = d)
    \<and> rq_url (cluster_mutation_request (PingCluster c)) \<noteq> rq_url (cluster_mutation_request (TempPing kc))
    \<and> rq_url (cluster_mutation_request (DeleteCluster c)) \<noteq> rq_url (cluster_mutation_request (PingCluster d))"
proof -
  have "CHR ''/'' \<notin> set c" "CHR ''/'' \<notin> set d" using assms valid_code_no_slash by auto
  moreover obtain x xs where "c = x # xs" "is_alnum x" using valid_code_head [OF assms(1)] by blast
  moreover from this have "x \<noteq> CHR ''_''" by (auto simp: is_alnum_def Let_def)
  moreover have "encodeURIComponent c = c"
    using assms(1) by (intro encode_unreserved valid_code_unreserved)
  moreover have "c \<noteq> d @ CHR ''/'' # t" for t using calculation(1) by auto
  ultimately show ?thesis
    by (auto simp: send_req_def get_req_def append_slash_inject)
qed

theorem imported_code_url_safe_witness:
  "rq_url (cluster_mutation_request (PingCluster ''prod-cluster-01'')) \<noteq>
   rq_url (cluster_mutation_request (TempPing None))"
proof -
  have "valid_code ''prod-cluster-01''" by code_simp
  from imported_code_url_safe [OF this this] show ?thesis by blast
qed

end
