(* ===== verification/ResourceList.thy ===== *)
theory ResourceList
  imports PodLogsPage Pages Permission BackupCreate "HOL-Library.While_Combinator"
begin

section \<open>The list of resources\<close>

text \<open>
  \<open>pages/resources/list.tsx\<close>: the state of the page, its effects on the cluster and the namespace,
  the query it sends, the drawer that creates a resource and the actions of a row. A resource is
  the list of its fields; the kinds are not names of \<open>Object.prototype\<close>. The two effects on the
  namespace run in one commit, where the last \<open>setNamespace\<close> wins; \<open>None\<close> is the \<open>undefined\<close> that
  clearing the select stores.
\<close>

definition CLUSTER_SCOPED_NS :: string where "CLUSTER_SCOPED_NS = ''__cluster__''"

type_synonym resource = "(string \<times> json) list"

text \<open>A text field of the metadata.\<close>

definition meta_text :: "resource \<Rightarrow> string \<Rightarrow> string option" where
  "meta_text item key =
     (case field (asRecord (field (Some item) ''metadata'')) key of Some (JStr s) \<Rightarrow> Some s | _ \<Rightarrow> None)"

definition tab_key :: "resource_tab \<Rightarrow> string" where
  "tab_key t = (case t of TabWorkload \<Rightarrow> ''workload'' | TabNetwork \<Rightarrow> ''network''
     | TabConfig \<Rightarrow> ''config'' | TabStorage \<Rightarrow> ''storage'')"

subsection \<open>The template of a new resource\<close>

definition unlines :: "string list \<Rightarrow> string" where
  "unlines ls = concat (map (\<lambda>l. l @ [CHR 0x0A]) ls)"

definition kind_scoped :: "string \<Rightarrow> bool" where
  "kind_scoped kd \<longleftrightarrow> (case map_of ALL_KINDS_MAP kd of Some (_, Some b) \<Rightarrow> b | _ \<Rightarrow> False)"

definition kind_template :: "string \<Rightarrow> string list" where
  "kind_template kd =
     (if kd = ''Deployment'' then
        [''spec:'', ''  replicas: 1'', ''  selector:'', ''    matchLabels:'', ''      app: example'',
         ''  template:'', ''    metadata:'', ''      labels:'', ''        app: example'', ''    spec:'',
         ''      containers:'', ''        - name: main'', ''          image: nginx:alpine'',
         ''          ports:'', ''            - containerPort: 80'']
      else if kd = ''Service'' then
        [''spec:'', ''  type: ClusterIP'', ''  selector:'', ''    app: example'', ''  ports:'',
         ''    - port: 80'', ''      targetPort: 80'']
      else if kd = ''ConfigMap'' then [''data:'', ''  key1: value1'', ''  key2: value2'']
      else if kd = ''Secret'' then
        [''type: Opaque'', ''data:'', (''  # '' @
     [CHR 0xE6, CHR 0xB3, CHR 0xA8, CHR 0xE6, CHR 0x84, CHR 0x8F, CHR 0xEF, CHR 0xBC,
      CHR 0x9A] @
     ''Secret data '' @
     [CHR 0xE9, CHR 0x9C, CHR 0x80, CHR 0xE8, CHR 0xA6, CHR 0x81] @
     '' base64 '' @
     [CHR 0xE7, CHR 0xBC, CHR 0x96, CHR 0xE7, CHR 0xA0, CHR 0x81]),
         ''  password: cGFzc3dvcmQ='']
      else [''spec: {}''])"

definition defaultYamlTemplate ::
  "string \<Rightarrow> string \<Rightarrow> string option \<Rightarrow> string option \<Rightarrow> string" where
  "defaultYamlTemplate apiVersion kd ns name =
     (if kd = ''Namespace''
      then unlines [''apiVersion: v1'', ''kind: Namespace'', ''metadata:'',
             ''  name: '' @ or_str name ''example-namespace'']
      else unlines
        ([''apiVersion: '' @ apiVersion, ''kind: '' @ kd, ''metadata:'',
          if truthy name then ''  name: '' @ the name else ''  name: example-'' @ toLowerCase kd] @
         (if \<not> kind_scoped kd \<and> truthy ns \<and> ns \<noteq> Some CLUSTER_SCOPED_NS
          then [''  namespace: '' @ the ns] else []) @
         [''  labels:'', ''    app: example''] @ kind_template kd))"

subsection \<open>The state of the page\<close>

record res_page =
  rl_clusterCode :: "string option"
  rl_tab :: string
  rl_kind :: string
  rl_namespace :: "string option"
  rl_keyword :: string
  rl_page :: int
  rl_size :: int

record res_perms =
  rp_view :: bool
  rp_create :: bool
  rp_update :: bool
  rp_delete :: bool
  rp_backup :: bool

definition res_list_perms :: "current_user option \<Rightarrow> res_perms" where
  "res_list_perms u =
     \<lparr>rp_view = (hasPerm u ''resource:view'' \<or> hasPerm u ''resource:get'' \<or> hasPerm u ''resource:list''),
      rp_create = hasPerm u ''resource:create'',
      rp_update = (hasPerm u ''resource:update'' \<or> hasPerm u ''resource:edit''),
      rp_delete = hasPerm u ''resource:delete'', rp_backup = hasPerm u ''backup:create''\<rparr>"

definition first_kind :: string where
  "first_kind = ki_value (hd (kg_kinds (hd KIND_GROUPS)))"

definition pinned_cluster :: "string option \<Rightarrow> string option \<Rightarrow> string option" where
  "pinned_cluster param selected = (if truthy param then param else selected)"

definition res_list_init :: "(string \<Rightarrow> string option) \<Rightarrow> string option \<Rightarrow> res_page" where
  "res_list_init get selected =
     \<lparr>rl_clusterCode = pinned_cluster (get ''cluster_code'') selected,
      rl_tab = or_str (get ''tab'') ''workload'', rl_kind = or_str (get ''kind'') first_kind,
      rl_namespace = Some (or_str (get ''namespace'') []), rl_keyword = [], rl_page = 1, rl_size = 10\<rparr>"

text \<open>The effect on the cluster: the new state and the cluster it selects in the header, if any.\<close>

definition cluster_pin_effect ::
  "string option \<Rightarrow> string option \<Rightarrow> res_page \<Rightarrow> res_page \<times> string option" where
  "cluster_pin_effect param selected s =
     (let newCode = pinned_cluster param selected
      in if truthy newCode \<and> newCode \<noteq> rl_clusterCode s
         then (s\<lparr>rl_clusterCode := newCode\<rparr>, if selected \<noteq> newCode then newCode else None)
         else (s, None))"

definition res_list_query :: "res_page \<Rightarrow> (string \<times> string) list" where
  "res_list_query s =
     [(''tab'', rl_tab s), (''kind'', rl_kind s)] @
     (if truthy (rl_clusterCode s) then [(''cluster_code'', the (rl_clusterCode s))] else []) @
     (if truthy (rl_namespace s) then [(''namespace'', the (rl_namespace s))] else [])"

text \<open>The group and the kind that the page works on: API version and scope.\<close>

definition currentGroup :: "string \<Rightarrow> kind_group" where
  "currentGroup tab =
     (case find (\<lambda>g. tab_key (kg_key g) = tab) KIND_GROUPS of Some g \<Rightarrow> g | None \<Rightarrow> hd KIND_GROUPS)"

definition kindMeta :: "res_page \<Rightarrow> string \<times> bool" where
  "kindMeta s =
     (case map_of ALL_KINDS_MAP (rl_kind s) of
        Some (v, c) \<Rightarrow> (v, c = Some True)
      | None \<Rightarrow> let k = hd (kg_kinds (currentGroup (rl_tab s)))
                in (ki_apiVersion k, ki_clusterScoped k = Some True))"

text \<open>The options of the namespace select, as label and value.\<close>

definition res_namespaceOptions :: "bool \<Rightarrow> bool \<Rightarrow> string list \<Rightarrow> (string \<times> string) list" where
  "res_namespaceOptions scoped full nsData =
     (if scoped then [(([CHR 0xEF, CHR 0xBC, CHR 0x88, CHR 0xE9, CHR 0x9B, CHR 0x86, CHR 0xE7, CHR 0xBE,
      CHR 0xA4, CHR 0xE7, CHR 0xBA, CHR 0xA7, CHR 0xE8, CHR 0xB5, CHR 0x84, CHR 0xE6,
      CHR 0xBA, CHR 0x90, CHR 0xEF, CHR 0xBC, CHR 0x8C, CHR 0xE6, CHR 0x97, CHR 0xA0] @
     '' Namespace'' @
     [CHR 0xEF, CHR 0xBC, CHR 0x89]), CLUSTER_SCOPED_NS)]
      else
        let base = (if nsData \<noteq> [] then nsData else if full then [''default''] else []);
            opts = map (\<lambda>n. (n, n)) base
        in if full then ([CHR 0xEF, CHR 0xBC, CHR 0x88, CHR 0xE5, CHR 0x85, CHR 0xA8, CHR 0xE9, CHR 0x83,
      CHR 0xA8, CHR 0xE5, CHR 0x91, CHR 0xBD, CHR 0xE5, CHR 0x90, CHR 0x8D, CHR 0xE7,
      CHR 0xA9, CHR 0xBA, CHR 0xE9, CHR 0x97, CHR 0xB4, CHR 0xEF, CHR 0xBC, CHR 0x89], []) # opts else opts)"

text \<open>One commit of the two effects on the namespace.\<close>

definition scope_effect :: "bool \<Rightarrow> bool \<Rightarrow> string list \<Rightarrow> string option \<Rightarrow> string option" where
  "scope_effect scoped full nsData ns =
     (if scoped \<and> ns \<noteq> Some CLUSTER_SCOPED_NS then Some CLUSTER_SCOPED_NS
      else if \<not> scoped \<and> ns = Some CLUSTER_SCOPED_NS
      then Some (if full \<or> nsData = [] then [] else hd nsData)
      else ns)"

definition allowed_effect :: "bool \<Rightarrow> bool \<Rightarrow> string list \<Rightarrow> string option \<Rightarrow> string option" where
  "allowed_effect scoped full nsData ns =
     (if \<not> scoped \<and> \<not> full \<and> nsData \<noteq> [] \<and> ns \<notin> Some ` set nsData then Some (hd nsData)
      else ns)"

definition namespace_commit :: "bool \<Rightarrow> bool \<Rightarrow> string list \<Rightarrow> string option \<Rightarrow> string option" where
  "namespace_commit scoped full nsData ns =
     (let ns2 = allowed_effect scoped full nsData ns
      in if ns2 \<noteq> ns then ns2 else scope_effect scoped full nsData ns)"

text \<open>React renders and runs the effects again as long as a commit changed the namespace.\<close>

definition settle_namespace ::
  "bool \<Rightarrow> bool \<Rightarrow> string list \<Rightarrow> string option \<Rightarrow> string option option" where
  "settle_namespace scoped full nsData =
     while_option (\<lambda>ns. namespace_commit scoped full nsData ns \<noteq> ns) (namespace_commit scoped full nsData)"

definition effectiveNs :: "bool \<Rightarrow> string option \<Rightarrow> string option" where
  "effectiveNs scoped ns = (if scoped \<or> \<not> truthy ns then None else ns)"

definition res_list_request :: "res_page \<Rightarrow> list_resources_params" where
  "res_list_request s =
     (let (v, scoped) = kindMeta s
      in \<lparr>lr_code = or_str (rl_clusterCode s) [], lr_apiVersion = v, lr_kind = rl_kind s,
          lr_namespace = effectiveNs scoped (rl_namespace s), lr_page = Some (rl_page s),
          lr_size = Some (rl_size s),
          lr_keyword = (if rl_keyword s = [] then None else Some (rl_keyword s))\<rparr>)"

definition res_list_skip :: "bool \<Rightarrow> bool \<Rightarrow> bool \<Rightarrow> res_page \<Rightarrow> bool" where
  "res_list_skip canView scoped full s \<longleftrightarrow>
     \<not> canView \<or> \<not> truthy (rl_clusterCode s) \<or> \<not> scoped \<and> \<not> full \<and> \<not> truthy (rl_namespace s)"

text \<open>The controls of the tool bar.\<close>

definition change_tab :: "string \<Rightarrow> res_page \<Rightarrow> res_page" where
  "change_tab t s =
     s\<lparr>rl_tab := t,
       rl_kind := (case find (\<lambda>g. tab_key (kg_key g) = t) KIND_GROUPS of
                     Some g \<Rightarrow> ki_value (hd (kg_kinds g)) | None \<Rightarrow> first_kind),
       rl_page := 1\<rparr>"

definition select_namespace :: "string option \<Rightarrow> res_page \<Rightarrow> res_page" where
  "select_namespace ns s = s\<lparr>rl_namespace := ns, rl_page := 1\<rparr>"

definition change_kind :: "string \<Rightarrow> res_page \<Rightarrow> res_page" where
  "change_kind kd s = s\<lparr>rl_kind := kd, rl_page := 1\<rparr>"

definition search_keyword :: "string \<Rightarrow> res_page \<Rightarrow> res_page" where
  "search_keyword v s = s\<lparr>rl_keyword := v, rl_page := 1\<rparr>"

definition res_list_page :: "int \<Rightarrow> int \<Rightarrow> res_page \<Rightarrow> res_page" where
  "res_list_page p sz s = s\<lparr>rl_page := p, rl_size := sz\<rparr>"

subsection \<open>Creating a resource\<close>

record create_drawer =
  cd_open :: bool
  cd_yaml :: string

definition openCreateDrawer ::
  "res_perms \<Rightarrow> res_page \<Rightarrow> create_drawer \<Rightarrow> create_drawer \<times> resource_mutation page_effect list" where
  "openCreateDrawer p s d =
     (if \<not> truthy (rl_clusterCode s) then (d, [PToast ToastWarn [CHR 0xE8, CHR 0xAF, CHR 0xB7, CHR 0xE5, CHR 0x85, CHR 0x88, CHR 0xE9, CHR 0x80,
      CHR 0x89, CHR 0xE6, CHR 0x8B, CHR 0xA9, CHR 0xE4, CHR 0xB8, CHR 0x80, CHR 0xE4,
      CHR 0xB8, CHR 0xAA, CHR 0xE9, CHR 0x9B, CHR 0x86, CHR 0xE7, CHR 0xBE, CHR 0xA4]])
      else if \<not> rp_create p then (d, [PToast ToastFail [CHR 0xE6, CHR 0x97, CHR 0xA0, CHR 0xE5, CHR 0x88, CHR 0x9B, CHR 0xE5, CHR 0xBB,
      CHR 0xBA, CHR 0xE8, CHR 0xB5, CHR 0x84, CHR 0xE6, CHR 0xBA, CHR 0x90, CHR 0xE6,
      CHR 0x9D, CHR 0x83, CHR 0xE9, CHR 0x99, CHR 0x90]])
      else let (v, scoped) = kindMeta s in
        (d\<lparr>cd_yaml := defaultYamlTemplate v (rl_kind s)
              (if scoped then None else Some (or_str (rl_namespace s) ''default'')) None,
           cd_open := True\<rparr>, []))"

definition handleCreateConfirm ::
  "res_page \<Rightarrow> create_drawer \<Rightarrow> bool \<Rightarrow> create_drawer \<times> resource_mutation page_effect list" where
  "handleCreateConfirm s d ok =
     (if \<not> truthy (rl_clusterCode s) then (d, [])
      else if js_trim (cd_yaml d) = [] then (d, [PToast ToastFail (''YAML '' @
     [CHR 0xE5, CHR 0x86, CHR 0x85, CHR 0xE5, CHR 0xAE, CHR 0xB9, CHR 0xE4, CHR 0xB8,
      CHR 0x8D, CHR 0xE8, CHR 0x83, CHR 0xBD, CHR 0xE4, CHR 0xB8, CHR 0xBA, CHR 0xE7,
      CHR 0xA9, CHR 0xBA])])
      else
        (if ok then d\<lparr>cd_open := False\<rparr> else d,
         try_send (CreateResource \<lparr>cr_code = the (rl_clusterCode s), cr_apiVersion = fst (kindMeta s),
             cr_kind = rl_kind s, cr_yaml = cd_yaml d\<rparr>) ok
           [PToast ToastOk [CHR 0xE5, CHR 0x88, CHR 0x9B, CHR 0xE5, CHR 0xBB, CHR 0xBA, CHR 0xE6, CHR 0x88,
      CHR 0x90, CHR 0xE5, CHR 0x8A, CHR 0x9F], PRefetch]))"

subsection \<open>The rows\<close>

text \<open>\<open>clusterCode\<close> goes into the path as it is; \<open>null\<close> prints as its name.\<close>

definition editUrl :: "res_page \<Rightarrow> resource \<Rightarrow> string" where
  "editUrl s item =
     (let ns = (if truthy (meta_text item ''namespace'') then the (meta_text item ''namespace'') else ''_'')
      in ''/resources/'' @ (case rl_clusterCode s of None \<Rightarrow> ''null'' | Some c \<Rightarrow> c) @ ''/'' @
         encodeURIComponent (fst (kindMeta s)) @ ''/'' @ encodeURIComponent (rl_kind s) @ ''/'' @
         encodeURIComponent ns @ ''/'' @ encodeURIComponent (or_str (meta_text item ''name'') []) @ ''/edit'')"

definition backupUrl :: "res_page \<Rightarrow> resource \<Rightarrow> string" where
  "backupUrl s item =
     (let ns = or_str (meta_text item ''namespace'') [];
          params = [(''code'', or_str (rl_clusterCode s) []), (''kind'', rl_kind s),
            (''apiVersion'', fst (kindMeta s)), (''name'', or_str (meta_text item ''name'') [])]
      in ''/backups/create?'' @ usp_toString (if ns \<noteq> [] then usp_set ''namespace'' ns params else params))"

definition label_tags :: "resource \<Rightarrow> string list" where
  "label_tags item =
     (case field (asRecord (field (Some item) ''metadata'')) ''labels'' of
        Some (JObj kvs) \<Rightarrow>
          map (\<lambda>(k, v). k @ ''='' @ (case v of JStr t \<Rightarrow> t | _ \<Rightarrow> [])) (take 3 kvs)
      | _ \<Rightarrow> [])"

text \<open>Name, namespace, status and age (\<open>ago\<close> and \<open>fmt\<close> are dayjs).\<close>

definition res_cells ::
  "(string \<Rightarrow> string) \<Rightarrow> (string \<Rightarrow> string) \<Rightarrow> string \<Rightarrow> resource
    \<Rightarrow> string \<times> string \<times> workload_status \<times> string list" where
  "res_cells ago fmt kd item =
     (or_str (meta_text item ''name'') ''-'',
      or_str (meta_text item ''namespace'') [CHR 0xEF, CHR 0xBC, CHR 0x88, CHR 0xE9, CHR 0x9B, CHR 0x86, CHR 0xE7, CHR 0xBE,
      CHR 0xA4, CHR 0xE7, CHR 0xBA, CHR 0xA7, CHR 0xEF, CHR 0xBC, CHR 0x89],
      getWorkloadStatus kd item,
      (let v = meta_text item ''creationTimestamp''
       in if truthy v then [ago (the v), fmt (the v)] else [''-'']))"

definition row_key :: "resource \<Rightarrow> string" where
  "row_key item =
     or_str (meta_text item ''namespace'') [] @ ''/'' @ or_str (meta_text item ''name'') [] @ ''/'' @
     or_str (meta_text item ''uid'') []"

record pod_drawer =
  pd_clusterCode :: string
  pd_namespace :: string
  pd_name :: string
  pd_containerName :: "string option"

definition openYaml :: "res_perms \<Rightarrow> res_page \<Rightarrow> resource \<Rightarrow> string \<Rightarrow> resource_mutation page_effect list" where
  "openYaml p s item suffix =
     (if \<not> rp_view p \<and> \<not> rp_update p then [PToast ToastFail [CHR 0xE6, CHR 0x97, CHR 0xA0, CHR 0xE6, CHR 0x9F, CHR 0xA5, CHR 0xE7, CHR 0x9C,
      CHR 0x8B, CHR 0xE8, CHR 0xB5, CHR 0x84, CHR 0xE6, CHR 0xBA, CHR 0x90, CHR 0xE6,
      CHR 0x9D, CHR 0x83, CHR 0xE9, CHR 0x99, CHR 0x90]]
      else [PNavigate (editUrl s item @ suffix)])"

definition open_logs ::
  "res_perms \<Rightarrow> res_page \<Rightarrow> resource \<Rightarrow> pod_drawer option
    \<Rightarrow> pod_drawer option \<times> resource_mutation page_effect list" where
  "open_logs p s item d =
     (if \<not> rp_view p \<and> \<not> rp_update p then (d, [PToast ToastFail [CHR 0xE6, CHR 0x97, CHR 0xA0, CHR 0xE6, CHR 0x9F, CHR 0xA5, CHR 0xE7, CHR 0x9C,
      CHR 0x8B, CHR 0xE8, CHR 0xB5, CHR 0x84, CHR 0xE6, CHR 0xBA, CHR 0x90, CHR 0xE6,
      CHR 0x9D, CHR 0x83, CHR 0xE9, CHR 0x99, CHR 0x90]])
      else if \<not> truthy (rl_clusterCode s) then (d, [PToast ToastWarn [CHR 0xE8, CHR 0xAF, CHR 0xB7, CHR 0xE5, CHR 0x85, CHR 0x88, CHR 0xE9, CHR 0x80,
      CHR 0x89, CHR 0xE6, CHR 0x8B, CHR 0xA9, CHR 0xE9, CHR 0x9B, CHR 0x86, CHR 0xE7,
      CHR 0xBE, CHR 0xA4]])
      else (Some \<lparr>pd_clusterCode = the (rl_clusterCode s),
              pd_namespace = or_str (meta_text item ''namespace'') [],
              pd_name = or_str (meta_text item ''name'') [],
              pd_containerName = firstPodContainer (field (Some item) ''spec'')\<rparr>, []))"

definition open_backup :: "res_perms \<Rightarrow> res_page \<Rightarrow> resource \<Rightarrow> resource_mutation page_effect list" where
  "open_backup p s item =
     (if \<not> rp_backup p then [PToast ToastFail [CHR 0xE6, CHR 0x97, CHR 0xA0, CHR 0xE5, CHR 0x88, CHR 0x9B, CHR 0xE5, CHR 0xBB,
      CHR 0xBA, CHR 0xE5, CHR 0xA4, CHR 0x87, CHR 0xE4, CHR 0xBB, CHR 0xBD, CHR 0xE6,
      CHR 0x9D, CHR 0x83, CHR 0xE9, CHR 0x99, CHR 0x90]] else [PNavigate (backupUrl s item)])"

definition delete_target :: "res_page \<Rightarrow> resource \<Rightarrow> get_resource_params" where
  "delete_target s item =
     \<lparr>gr_code = or_str (rl_clusterCode s) [], gr_apiVersion = fst (kindMeta s), gr_kind = rl_kind s,
      gr_namespace = meta_text item ''namespace'', gr_name = or_str (meta_text item ''name'') []\<rparr>"

definition res_delete ::
  "res_perms \<Rightarrow> res_page \<Rightarrow> resource \<Rightarrow> bool \<Rightarrow> resource_mutation page_effect list" where
  "res_delete p s item ok =
     (if \<not> rp_delete p then [PToast ToastFail [CHR 0xE6, CHR 0x97, CHR 0xA0, CHR 0xE5, CHR 0x88, CHR 0xA0, CHR 0xE9, CHR 0x99,
      CHR 0xA4, CHR 0xE8, CHR 0xB5, CHR 0x84, CHR 0xE6, CHR 0xBA, CHR 0x90, CHR 0xE6,
      CHR 0x9D, CHR 0x83, CHR 0xE9, CHR 0x99, CHR 0x90]]
      else try_send (DeleteResource (delete_target s item)) ok [PToast ToastOk [CHR 0xE5, CHR 0x88, CHR 0xA0, CHR 0xE9, CHR 0x99, CHR 0xA4, CHR 0xE6, CHR 0x88,
      CHR 0x90, CHR 0xE5, CHR 0x8A, CHR 0x9F], PRefetch])"

text \<open>The entries of the menu of a row, with whether they are disabled.\<close>

definition row_menu :: "res_perms \<Rightarrow> resource \<Rightarrow> (string \<times> bool) list" where
  "row_menu p item =
     (let canViewItem = (rp_view p \<or> rp_update p)
      in [(''yaml'', \<not> canViewItem), (''versions'', \<not> canViewItem)] @
         (if field (Some item) ''kind'' = Some (JStr ''Pod'') then [(''logs'', \<not> canViewItem)] else []) @
         [(''backup'', \<not> rp_backup p), (''delete'', \<not> rp_delete p)])"

definition edit_button :: "res_perms \<Rightarrow> string \<times> bool" where
  "edit_button p = (if rp_update p then [CHR 0xE7, CHR 0xBC, CHR 0x96, CHR 0xE8, CHR 0xBE, CHR 0x91] else [CHR 0xE6, CHR 0x9F, CHR 0xA5, CHR 0xE7, CHR 0x9C, CHR 0x8B], \<not> (rp_view p \<or> rp_update p))"

subsection \<open>The table\<close>

record 'i list_reply =
  rr_items :: "'i list"
  rr_page :: int
  rr_size :: int
  rr_total :: int

text \<open>\<open>n || d\<close> on numbers.\<close>

definition or_int :: "int option \<Rightarrow> int \<Rightarrow> int" where
  "or_int v d = (case v of None \<Rightarrow> d | Some n \<Rightarrow> if n = 0 then d else n)"

text \<open>The rows, the pagination (page, size, total) and the text of an empty table.\<close>

definition res_table ::
  "res_page \<Rightarrow> 'i list_reply option \<Rightarrow> 'i list \<times> (int \<times> int \<times> int) \<times> string" where
  "res_table s reply =
     (let empty = \<not> truthy (rl_clusterCode s)
      in (if empty then [] else (case reply of None \<Rightarrow> [] | Some r \<Rightarrow> rr_items r),
          (or_int (map_option rr_page reply) (rl_page s), or_int (map_option rr_size reply) (rl_size s),
           or_int (map_option rr_total reply) 0),
          if empty then [CHR 0xE8, CHR 0xAF, CHR 0xB7, CHR 0xE5, CHR 0x85, CHR 0x88, CHR 0xE5, CHR 0x9C,
      CHR 0xA8, CHR 0xE9, CHR 0xA1, CHR 0xB6, CHR 0xE9, CHR 0x83, CHR 0xA8, CHR 0xE9,
      CHR 0x80, CHR 0x89, CHR 0xE6, CHR 0x8B, CHR 0xA9, CHR 0xE4, CHR 0xB8, CHR 0x80,
      CHR 0xE4, CHR 0xB8, CHR 0xAA, CHR 0xE9, CHR 0x9B, CHR 0x86, CHR 0xE7, CHR 0xBE,
      CHR 0xA4] else [CHR 0xE6, CHR 0x9A, CHR 0x82, CHR 0xE6, CHR 0x97, CHR 0xA0, CHR 0xE6, CHR 0x95,
      CHR 0xB0, CHR 0xE6, CHR 0x8D, CHR 0xAE]))"

subsection \<open>Properties\<close>

interpretation res_create: silent_handler "\<lambda>_. True"
  "\<lambda>(s, d) ok. snd (handleCreateConfirm s d ok)"
  by unfold_locales (auto simp: handleCreateConfirm_def split: if_splits)

interpretation res_remove: silent_handler "\<lambda>(p, s, item). rp_delete p"
  "\<lambda>(p, s, item) ok. res_delete p s item ok"
  by unfold_locales (auto simp: res_delete_def split: if_splits)

text \<open>A further commit changes nothing: one rendering after the first is enough.\<close>

lemma namespace_commit_idem:
  "namespace_commit scoped full nsData (namespace_commit scoped full nsData ns)
   = namespace_commit scoped full nsData ns"
  by (cases nsData) (auto simp: namespace_commit_def allowed_effect_def scope_effect_def Let_def)

lemma settle_namespace_commit:
  "settle_namespace scoped full nsData ns = Some (namespace_commit scoped full nsData ns)"
proof -
  let ?b = "\<lambda>m. namespace_commit scoped full nsData m \<noteq> m" and ?c = "namespace_commit scoped full nsData"
  have "while_option ?b ?c (?c ns) = Some (?c ns)"
    by (subst while_option_unfold) (simp add: namespace_commit_idem)
  then have "while_option ?b ?c ns = Some (?c ns)"
    by (subst while_option_unfold) simp
  then show ?thesis by (simp add: settle_namespace_def)
qed

lemma namespace_commit_cases:
  "scoped \<Longrightarrow> namespace_commit scoped full nsData ns = Some CLUSTER_SCOPED_NS"
  "\<not> scoped \<Longrightarrow> full \<Longrightarrow>
     namespace_commit scoped full nsData ns = (if ns = Some CLUSTER_SCOPED_NS then Some [] else ns)"
  "\<not> scoped \<Longrightarrow> \<not> full \<Longrightarrow> nsData \<noteq> [] \<Longrightarrow> namespace_commit scoped full nsData ns \<in> Some ` set nsData"
  by (auto simp: namespace_commit_def allowed_effect_def scope_effect_def Let_def)



text \<open>
  The URL pins the page: once the page has written its query string, a reload restores its
  cluster, tab, kind and namespace, and as long as it shows a cluster no selection in the header
  moves it or is corrected by it: the cluster switcher, which the header shows on this page, has
  no effect, and the header may name another cluster than the table.
\<close>

theorem url_pins_page:
  assumes "truthy (rl_clusterCode s)" and "rl_tab s \<noteq> []" and "rl_kind s \<noteq> []"
    and "get = searchParams_get (usp_toString (res_list_query s))"
  shows "cluster_pin_effect (get ''cluster_code'') selected s = (s, None)
    \<and> (let s' = res_list_init get selected
       in rl_clusterCode s' = rl_clusterCode s \<and> rl_tab s' = rl_tab s \<and> rl_kind s' = rl_kind s
          \<and> rl_namespace s' = Some (or_str (rl_namespace s) []))
    \<and> showClusterSwitcher (''/resources/list'')"
proof -
  have get: "get k = map_of (res_list_query s) k" for k
    by (simp add: assms(4) usp_toString_def usp.get_query)
  obtain c where c: "rl_clusterCode s = Some c" "c \<noteq> []" using assms(1) by (auto simp: truthy_iff)
  have "or_str (get ''namespace'') [] = or_str (rl_namespace s) []"
    by (cases "rl_namespace s") (simp_all add: get res_list_query_def or_str_def)
  moreover have "get ''cluster_code'' = Some c" "get ''tab'' = Some (rl_tab s)" "get ''kind'' = Some (rl_kind s)"
    using c by (simp_all add: get res_list_query_def)
  ultimately show ?thesis
    using c assms(2,3)
    by (simp add: cluster_pin_effect_def pinned_cluster_def res_list_init_def showClusterSwitcher_def
        starts_with_def)
qed

definition demo_res_page :: res_page where
  "demo_res_page = \<lparr>rl_clusterCode = Some ''prod'', rl_tab = ''config'', rl_kind = ''ConfigMap'',
     rl_namespace = Some ''web'', rl_keyword = [], rl_page = 1, rl_size = 10\<rparr>"

theorem url_pins_page_witness:
  "cluster_pin_effect (searchParams_get (usp_toString (res_list_query demo_res_page)) ''cluster_code'')
     (Some ''test'') demo_res_page = (demo_res_page, None)"
  by (rule url_pins_page [THEN conjunct1, OF _ _ _ refl]) (simp_all add: demo_res_page_def)

text \<open>
  C31. The backup link of a row opens the backup form on that row: the link is read back, for every
  name, as the initial values of a single-object backup, and submitting the form unchanged sends
  one request, under the cluster of the page, that names the kind, the name and the namespace of
  the row.
\<close>

theorem backup_link_prefills:
  assumes "rl_clusterCode s = Some c" and "c \<noteq> []" and "rl_kind s \<noteq> []"
    and "meta_text item ''name'' = Some n" and "n \<noteq> []"
    and "v = initialValues (searchParams_get (location_search (backupUrl s item))) selected"
  shows "fv_code v = c \<and> fv_kind v = rl_kind s \<and> fv_name v = Some n
    \<and> or_str (fv_namespace v) [] = or_str (meta_text item ''namespace'') []
    \<and> backup_body v = Inr \<lparr>cb_mode = Some BmSingle,
        cb_namespace = Some (or_str (meta_text item ''namespace'') []), cb_namespaces = None,
        cb_target_kind = Some (rl_kind s), cb_target_name = Some n, cb_kind_filter = None,
        cb_storage_type = Some StorageLocal\<rparr>"
proof -
  let ?ns = "or_str (meta_text item ''namespace'') []"
  let ?params = "[(''code'', c), (''kind'', rl_kind s), (''apiVersion'', fst (kindMeta s)), (''name'', n)]"
  let ?kvs = "if ?ns \<noteq> [] then usp_set ''namespace'' ?ns ?params else ?params"
  have url: "backupUrl s item = ''/backups/create'' @ ''?'' @ join_query form_encode ?kvs"
    using assms(1-5) by (simp add: backupUrl_def usp_toString_def Let_def)
  have get: "searchParams_get (location_search (backupUrl s item)) k = map_of ?kvs k" for k
    unfolding url by (rule usp.get_link) simp_all
  have storage: "lowerStorage ''Local'' = Some StorageLocal" by code_simp
  have v: "v = \<lparr>fv_code = c, fv_namespace = (if ?ns = [] then None else Some ?ns),
      fv_namespaces = (if ?ns = [] then None else Some [?ns]), fv_scope = ScopeObject,
      fv_kind = rl_kind s, fv_kindFilter = Some [rl_kind s], fv_name = Some n,
      fv_storageType = Some ''Local''\<rparr>"
    using assms(2,3,5) by (simp add: assms(6) initialValues_def get usp_set_def Let_def)
  show ?thesis
    using assms(2,3,5) by (auto simp: v backup_body_def empty_body_def storage Let_def)
qed

definition demo_item :: resource where
  "demo_item = [(''kind'', JStr ''ConfigMap''),
     (''metadata'', JObj [(''name'', JStr ''a&b=c''), (''namespace'', JStr ''web'')])]"

theorem backup_link_prefills_witness:
  "fv_name (initialValues (searchParams_get (location_search (backupUrl demo_res_page demo_item)))
     (Some ''test'')) = Some ''a&b=c''"
proof -
  have "meta_text demo_item ''name'' = Some ''a&b=c''" by code_simp
  from backup_link_prefills [of demo_res_page "''prod''" demo_item, OF _ _ _ this _ refl]
  show ?thesis by (simp add: demo_res_page_def)
qed

end
