(* ===== verification/ResourceEdit.thy ===== *)
theory ResourceEdit
  imports ResourceList ClusterImport
begin

section \<open>The page of one resource\<close>

text \<open>
  \<open>pages/resources/[code]/[apiVersion]/[kind]/[namespace]/[name]/edit.tsx\<close>: the resource that the
  path names, the editor with saving and deletion, the history of versions with comparison and
  rollback, and the summary. The path parameters are those of React Router; \<open>None\<close> as the target
  is the \<open>URIError\<close> of \<open>decodeURIComponent\<close>. The comparison is a step relation over the clicks of
  the user and the replies of the server, which may arrive in any order.
\<close>

subsection \<open>The resource named by the path\<close>

definition edit_target :: "(string \<Rightarrow> string option) \<Rightarrow> get_resource_params option" where
  "edit_target params =
     (case (decodeURIComponent (or_str (params ''code'') []),
            decodeURIComponent (or_str (params ''apiVersion'') ''apps%2Fv1''),
            decodeURIComponent (or_str (params ''kind'') []),
            decodeURIComponent (or_str (params ''namespace'') ''_''),
            decodeURIComponent (or_str (params ''name'') [])) of
        (Some c, Some v, Some k, Some ns, Some n) \<Rightarrow>
          Some \<lparr>gr_code = c, gr_apiVersion = v, gr_kind = k,
                gr_namespace = Some (if ns = ''_'' then [] else ns), gr_name = n\<rparr>
      | _ \<Rightarrow> None)"

definition edit_skip :: "get_resource_params \<Rightarrow> bool" where
  "edit_skip t \<longleftrightarrow> gr_code t = [] \<or> gr_kind t = [] \<or> gr_name t = []"

definition edit_init_tab :: "(string \<Rightarrow> string option) \<Rightarrow> string" where
  "edit_init_tab get = or_str (get ''tab'') ''yaml''"

definition edit_tab_query :: "string \<Rightarrow> (string \<times> string) list" where
  "edit_tab_query activeTab = [(''tab'', activeTab)]"

definition edit_cluster_effect :: "get_resource_params \<Rightarrow> string option" where
  "edit_cluster_effect t = (if gr_code t \<noteq> [] then Some (gr_code t) else None)"

record edit_perms =
  ep_update :: bool
  ep_delete :: bool
  ep_rollback :: bool

definition edit_page_perms :: "current_user option \<Rightarrow> edit_perms" where
  "edit_page_perms u =
     \<lparr>ep_update = hasPerm u ''resource:update'', ep_delete = hasPerm u ''resource:delete'',
      ep_rollback = (hasPerm u ''version:rollback'' \<or> hasPerm u ''resource:update'')\<rparr>"

subsection \<open>The editor\<close>

record editor =
  yamlValue :: string
  originalYaml :: string

definition load_effect :: "(json option \<Rightarrow> string) \<Rightarrow> json option \<Rightarrow> editor \<Rightarrow> editor" where
  "load_effect stringify res e =
     (if json_truthy res then \<lparr>yamlValue = stringify res, originalYaml = stringify res\<rparr> else e)"

definition isDirty :: "editor \<Rightarrow> bool" where
  "isDirty e \<longleftrightarrow> yamlValue e \<noteq> originalYaml e"

text \<open>What is sent: a text that parses to an object is written anew, any other is sent as it is.\<close>

definition yamlToSend :: "(json option \<Rightarrow> string) \<Rightarrow> (string \<Rightarrow> json option) \<Rightarrow> string \<Rightarrow> string" where
  "yamlToSend stringify yamlLoad txt =
     (case tryParseYaml yamlLoad txt of
        Some (JObj o1) \<Rightarrow> stringify (Some (JObj o1))
      | Some (JArr xs) \<Rightarrow> stringify (Some (JArr xs))
      | _ \<Rightarrow> txt)"

definition edit_handleSave ::
  "(json option \<Rightarrow> string) \<Rightarrow> (string \<Rightarrow> json option) \<Rightarrow> edit_perms \<Rightarrow> get_resource_params \<Rightarrow> editor \<Rightarrow> bool
    \<Rightarrow> resource_mutation page_effect list" where
  "edit_handleSave stringify yamlLoad p t e ok =
     (if \<not> ep_update p then [PToast ToastFail [CHR 0xE6, CHR 0x97, CHR 0xA0, CHR 0xE7, CHR 0xBC, CHR 0x96, CHR 0xE8, CHR 0xBE,
      CHR 0x91, CHR 0xE6, CHR 0x9D, CHR 0x83, CHR 0xE9, CHR 0x99, CHR 0x90]]
      else if js_trim (yamlValue e) = [] then [PToast ToastFail (''YAML '' @
     [CHR 0xE5, CHR 0x86, CHR 0x85, CHR 0xE5, CHR 0xAE, CHR 0xB9, CHR 0xE4, CHR 0xB8,
      CHR 0x8D, CHR 0xE8, CHR 0x83, CHR 0xBD, CHR 0xE4, CHR 0xB8, CHR 0xBA, CHR 0xE7,
      CHR 0xA9, CHR 0xBA])]
      else try_send (UpdateResource t (yamlToSend stringify yamlLoad (yamlValue e))) ok
             [PToast ToastOk [CHR 0xE4, CHR 0xBF, CHR 0x9D, CHR 0xE5, CHR 0xAD, CHR 0x98, CHR 0xE6, CHR 0x88,
      CHR 0x90, CHR 0xE5, CHR 0x8A, CHR 0x9F], PRefetch, PRefetch])"

definition edit_handleDelete ::
  "edit_perms \<Rightarrow> get_resource_params \<Rightarrow> bool \<Rightarrow> resource_mutation page_effect list" where
  "edit_handleDelete p t ok =
     (if \<not> ep_delete p then [PToast ToastFail [CHR 0xE6, CHR 0x97, CHR 0xA0, CHR 0xE5, CHR 0x88, CHR 0xA0, CHR 0xE9, CHR 0x99,
      CHR 0xA4, CHR 0xE6, CHR 0x9D, CHR 0x83, CHR 0xE9, CHR 0x99, CHR 0x90]]
      else try_send (DeleteResource t) ok
             [PToast ToastOk [CHR 0xE5, CHR 0x88, CHR 0xA0, CHR 0xE9, CHR 0x99, CHR 0xA4, CHR 0xE6, CHR 0x88,
      CHR 0x90, CHR 0xE5, CHR 0x8A, CHR 0x9F],
              PNavigate (''/resources/list?cluster_code='' @ encodeURIComponent (gr_code t))])"

definition save_button :: "edit_perms \<Rightarrow> editor \<Rightarrow> (string \<times> bool) option" where
  "save_button p e =
     (if ep_update p
      then Some ([CHR 0xE4, CHR 0xBF, CHR 0x9D, CHR 0xE5, CHR 0xAD, CHR 0x98] @ (if isDirty e then [CHR 0xEF, CHR 0xBC, CHR 0x88, CHR 0xE6, CHR 0x9C, CHR 0x89, CHR 0xE6, CHR 0x9C,
      CHR 0xAA, CHR 0xE4, CHR 0xBF, CHR 0x9D, CHR 0xE5, CHR 0xAD, CHR 0x98, CHR 0xE4,
      CHR 0xBF, CHR 0xAE, CHR 0xE6, CHR 0x94, CHR 0xB9, CHR 0xEF, CHR 0xBC, CHR 0x89] else []), \<not> isDirty e) else None)"

definition dirty_tag :: "editor \<Rightarrow> string \<times> string" where
  "dirty_tag e = (if isDirty e then (''warning'', [CHR 0xE6, CHR 0x9C, CHR 0xAA, CHR 0xE4, CHR 0xBF, CHR 0x9D, CHR 0xE5, CHR 0xAD,
      CHR 0x98]) else (''green'', [CHR 0xE5, CHR 0xB7, CHR 0xB2, CHR 0xE5, CHR 0x90, CHR 0x8C, CHR 0xE6, CHR 0xAD,
      CHR 0xA5]))"

datatype editor_body = EditorEmpty string | EditorText string bool

definition editor_content ::
  "bool \<Rightarrow> json option \<Rightarrow> bool \<Rightarrow> string option \<Rightarrow> edit_perms \<Rightarrow> editor \<Rightarrow> editor_body" where
  "editor_content loading res isError msg p e =
     (if loading \<and> \<not> json_truthy res then EditorEmpty ([CHR 0xE5, CHR 0x8A, CHR 0xA0, CHR 0xE8, CHR 0xBD, CHR 0xBD, CHR 0xE4, CHR 0xB8,
      CHR 0xAD] @
     ''...'')
      else if isError then EditorEmpty (or_str msg ([CHR 0xE5, CHR 0x8A, CHR 0xA0, CHR 0xE8, CHR 0xBD, CHR 0xBD, CHR 0xE8, CHR 0xB5,
      CHR 0x84, CHR 0xE6, CHR 0xBA, CHR 0x90] @
     '' YAML '' @
     [CHR 0xE5, CHR 0xA4, CHR 0xB1, CHR 0xE8, CHR 0xB4, CHR 0xA5]))
      else EditorText (yamlValue e) (\<not> ep_update p))"

subsection \<open>Versions\<close>

definition version_of :: "get_resource_params \<Rightarrow> version_target" where
  "version_of t = \<lparr>vt_code = gr_code t, vt_apiVersion = gr_apiVersion t, vt_kind = gr_kind t,
     vt_namespace = gr_namespace t, vt_name = gr_name t\<rparr>"

definition versionItems :: "'v list option \<Rightarrow> 'v list" where
  "versionItems items = (case items of None \<Rightarrow> [] | Some vs \<Rightarrow> take 5 vs)"

definition version_color :: "string \<Rightarrow> string" where
  "version_color source =
     (if source = ''rollback'' then ''orange'' else if source = ''backup'' then ''purple'' else ''blue'')"

definition version_tag :: "string option \<Rightarrow> string option \<Rightarrow> string" where
  "version_tag change_summary source = or_str change_summary (or_str source ''snapshot'')"

definition rollback_text :: "bool \<Rightarrow> int \<Rightarrow> string" where
  "rollback_text rolled_back seq =
     (if rolled_back then ([CHR 0xE5, CHR 0xB7, CHR 0xB2, CHR 0xE5, CHR 0x9B, CHR 0x9E, CHR 0xE6, CHR 0xBB,
      CHR 0x9A, CHR 0xE5, CHR 0x88, CHR 0xB0, CHR 0xE7, CHR 0x89, CHR 0x88, CHR 0xE6,
      CHR 0x9C, CHR 0xAC] @
     '' #'') @ show_int seq else [CHR 0xE5, CHR 0x9B, CHR 0x9E, CHR 0xE6, CHR 0xBB, CHR 0x9A, CHR 0xE6, CHR 0x88,
      CHR 0x90, CHR 0xE5, CHR 0x8A, CHR 0x9F])"

text \<open>\<open>Some (rolled_back, seq)\<close> is the reply of the server, \<open>None\<close> a rejected promise.\<close>

definition edit_handleRollback ::
  "edit_perms \<Rightarrow> get_resource_params \<Rightarrow> int \<Rightarrow> (bool \<times> int) option \<Rightarrow> version_mutation page_effect list" where
  "edit_handleRollback p t seq result =
     (if \<not> ep_rollback p then [PToast ToastFail [CHR 0xE6, CHR 0x97, CHR 0xA0, CHR 0xE5, CHR 0x9B, CHR 0x9E, CHR 0xE6, CHR 0xBB,
      CHR 0x9A, CHR 0xE6, CHR 0x9D, CHR 0x83, CHR 0xE9, CHR 0x99, CHR 0x90]]
      else PSend (RollbackVersion (version_of t) seq) #
        (case result of
           Some (rolled, s) \<Rightarrow> [PToast ToastOk (rollback_text rolled s), PRefetch, PRefetch]
         | None \<Rightarrow> []))"

subsection \<open>Comparing versions\<close>

record compare_state =
  vc_open :: bool
  vc_checked :: "int list"
  vc_left :: string
  vc_right :: string
  vc_loaded :: bool
  vc_pair :: "(int \<times> int) option"

definition compare_init :: compare_state where
  "compare_init = \<lparr>vc_open = False, vc_checked = [], vc_left = [], vc_right = [], vc_loaded = False,
     vc_pair = None\<rparr>"

definition toggle_seq :: "int \<Rightarrow> int list \<Rightarrow> int list" where
  "toggle_seq seq prev =
     (if seq \<in> set prev then filter (\<lambda>x. x \<noteq> seq) prev
      else let seqs = prev @ [seq] in if length seqs > 2 then drop (length seqs - 2) seqs else seqs)"

definition toggleSeq :: "int \<Rightarrow> compare_state \<Rightarrow> compare_state" where
  "toggleSeq seq s = s\<lparr>vc_checked := toggle_seq seq (vc_checked s), vc_loaded := False\<rparr>"

definition orderedCompareSeqs :: "int \<Rightarrow> int \<Rightarrow> int \<times> int" where
  "orderedCompareSeqs a b =
     (if a = CURRENT_VERSION_SEQ \<or> b = CURRENT_VERSION_SEQ
      then (if a = CURRENT_VERSION_SEQ then b else a, CURRENT_VERSION_SEQ)
      else if a < b then (a, b) else (b, a))"

text \<open>Before the request: the new state, and the pair that is asked for or the warning.\<close>

definition runCompare :: "int \<Rightarrow> int \<Rightarrow> compare_state \<Rightarrow> compare_state \<times> (string + int \<times> int)" where
  "runCompare seqA seqB s =
     (if seqA = seqB then (s, Inl [CHR 0xE8, CHR 0xAF, CHR 0xB7, CHR 0xE9, CHR 0x80, CHR 0x89, CHR 0xE6, CHR 0x8B,
      CHR 0xA9, CHR 0xE4, CHR 0xB8, CHR 0xA4, CHR 0xE4, CHR 0xB8, CHR 0xAA, CHR 0xE4,
      CHR 0xB8, CHR 0x8D, CHR 0xE5, CHR 0x90, CHR 0x8C, CHR 0xE7, CHR 0x9A, CHR 0x84,
      CHR 0xE7, CHR 0x89, CHR 0x88, CHR 0xE6, CHR 0x9C, CHR 0xAC, CHR 0xE8, CHR 0xBF,
      CHR 0x9B, CHR 0xE8, CHR 0xA1, CHR 0x8C, CHR 0xE5, CHR 0xAF, CHR 0xB9, CHR 0xE6,
      CHR 0xAF, CHR 0x94])
      else let pair = orderedCompareSeqs seqA seqB
        in (s\<lparr>vc_checked := [seqA, seqB], vc_pair := Some pair, vc_open := True, vc_loaded := False,
              vc_left := [], vc_right := []\<rparr>, Inr pair))"

definition diff_query :: "get_resource_params \<Rightarrow> int \<times> int \<Rightarrow> version_query" where
  "diff_query t pair = GetVersionDiff (version_of t) (fst pair) (snd pair)"

text \<open>The reply to the request for a pair: both texts, or a failure.\<close>

definition compare_reply ::
  "int \<times> int \<Rightarrow> (string option \<times> string option) option \<Rightarrow> compare_state \<Rightarrow> compare_state" where
  "compare_reply pair reply s =
     (case reply of
        Some (ya, yb) \<Rightarrow> s\<lparr>vc_left := or_str ya [], vc_right := or_str yb [], vc_loaded := True\<rparr>
      | None \<Rightarrow>
          s\<lparr>vc_left := (''# '' @
     [CHR 0xE6, CHR 0x97, CHR 0xA0, CHR 0xE6, CHR 0xB3, CHR 0x95, CHR 0xE5, CHR 0x8A,
      CHR 0xA0, CHR 0xE8, CHR 0xBD, CHR 0xBD] @
     '' '') @ versionSeqLabel (fst pair) @ ('' '' @
     [CHR 0xE7, CHR 0x9A, CHR 0x84] @
     '' YAML''),
            vc_right := (''# '' @
     [CHR 0xE6, CHR 0x97, CHR 0xA0, CHR 0xE6, CHR 0xB3, CHR 0x95, CHR 0xE5, CHR 0x8A,
      CHR 0xA0, CHR 0xE8, CHR 0xBD, CHR 0xBD] @
     '' '') @ versionSeqLabel (snd pair) @ ('' '' @
     [CHR 0xE7, CHR 0x9A, CHR 0x84] @
     '' YAML''),
            vc_loaded := True\<rparr>)"

definition selectedHistoryOnly :: "compare_state \<Rightarrow> bool" where
  "selectedHistoryOnly s \<longleftrightarrow> (\<exists>x \<in> set (vc_checked s). vc_checked s = [x] \<and> x \<noteq> CURRENT_VERSION_SEQ)"

definition canOpenCompare :: "compare_state \<Rightarrow> bool" where
  "canOpenCompare s \<longleftrightarrow> selectedHistoryOnly s \<or> length (vc_checked s) = 2"

definition openCompare :: "compare_state \<Rightarrow> compare_state \<times> (string + int \<times> int)" where
  "openCompare s =
     (if selectedHistoryOnly s then runCompare (hd (vc_checked s)) CURRENT_VERSION_SEQ s
      else if length (vc_checked s) = 2 then runCompare (vc_checked s ! 0) (vc_checked s ! 1) s
      else (s, Inl [CHR 0xE8, CHR 0xAF, CHR 0xB7, CHR 0xE9, CHR 0x80, CHR 0x89, CHR 0xE6, CHR 0x8B,
      CHR 0xA9, CHR 0xE4, CHR 0xB8, CHR 0x80, CHR 0xE4, CHR 0xB8, CHR 0xAA, CHR 0xE5,
      CHR 0x8E, CHR 0x86, CHR 0xE5, CHR 0x8F, CHR 0xB2, CHR 0xE7, CHR 0x89, CHR 0x88,
      CHR 0xE6, CHR 0x9C, CHR 0xAC, CHR 0xE4, CHR 0xB8, CHR 0x8E, CHR 0xE5, CHR 0xBD,
      CHR 0x93, CHR 0xE5, CHR 0x89, CHR 0x8D, CHR 0xE5, CHR 0xAF, CHR 0xB9, CHR 0xE6,
      CHR 0xAF, CHR 0x94, CHR 0xEF, CHR 0xBC, CHR 0x8C, CHR 0xE6, CHR 0x88, CHR 0x96,
      CHR 0xE5, CHR 0x8B, CHR 0xBE, CHR 0xE9, CHR 0x80, CHR 0x89, CHR 0xE4, CHR 0xB8,
      CHR 0xA4, CHR 0xE4, CHR 0xB8, CHR 0xAA, CHR 0xE7, CHR 0x89, CHR 0x88, CHR 0xE6,
      CHR 0x9C, CHR 0xAC, CHR 0xE4, CHR 0xBA, CHR 0x92, CHR 0xE7, CHR 0x9B, CHR 0xB8,
      CHR 0xE5, CHR 0xAF, CHR 0xB9, CHR 0xE6, CHR 0xAF, CHR 0x94]))"

definition close_compare :: "compare_state \<Rightarrow> compare_state" where
  "close_compare s = s\<lparr>vc_open := False\<rparr>"

definition compare_button :: "compare_state \<Rightarrow> string \<times> bool" where
  "compare_button s =
     (if selectedHistoryOnly s then [CHR 0xE4, CHR 0xB8, CHR 0x8E, CHR 0xE5, CHR 0xBD, CHR 0x93, CHR 0xE5, CHR 0x89,
      CHR 0x8D, CHR 0xE7, CHR 0x89, CHR 0x88, CHR 0xE6, CHR 0x9C, CHR 0xAC, CHR 0xE5,
      CHR 0xAF, CHR 0xB9, CHR 0xE6, CHR 0xAF, CHR 0x94]
      else ([CHR 0xE5, CHR 0xAF, CHR 0xB9, CHR 0xE6, CHR 0xAF, CHR 0x94, CHR 0xE5, CHR 0xB7,
      CHR 0xB2, CHR 0xE9, CHR 0x80, CHR 0x89] @
     '' '') @ show_nat (length (vc_checked s)) @ ''/2'', \<not> canOpenCompare s)"

definition compare_title :: "compare_state \<Rightarrow> string" where
  "compare_title s =
     ([CHR 0xE7, CHR 0x89, CHR 0x88, CHR 0xE6, CHR 0x9C, CHR 0xAC, CHR 0xE5, CHR 0xAF,
      CHR 0xB9, CHR 0xE6, CHR 0xAF, CHR 0x94] @
     '' '') @
     (case vc_pair s of
        Some (l, r) \<Rightarrow> versionSeqLabel l @ ('' '' @
     [CHR 0xE2, CHR 0x86, CHR 0x92] @
     '' '') @ versionSeqLabel r
      | None \<Rightarrow> [])"

text \<open>What the drawer shows: nothing yet, or both labels and both texts.\<close>

definition compare_body :: "bool \<Rightarrow> compare_state \<Rightarrow> ((string \<times> string) \<times> string \<times> string) option" where
  "compare_body diffLoading s =
     (if \<not> vc_loaded s \<or> diffLoading then None
      else Some ((case vc_pair s of
                    Some (l, r) \<Rightarrow> (versionSeqLabel l, versionSeqLabel r)
                  | None \<Rightarrow> ([CHR 0xE5, CHR 0xB7, CHR 0xA6, CHR 0xE4, CHR 0xBE, CHR 0xA7], [CHR 0xE5, CHR 0x8F, CHR 0xB3, CHR 0xE4, CHR 0xBE, CHR 0xA7])),
                 vc_left s, vc_right s))"

text \<open>
  The page with the requests that are in flight. \<open>diffLoading\<close> follows the request that was sent
  last, which is the first of the list.
\<close>

inductive compare_reach :: "compare_state \<Rightarrow> (int \<times> int) list \<Rightarrow> bool" where
  start: "compare_reach compare_init []"
| toggle: "compare_reach s flying \<Longrightarrow> compare_reach (toggleSeq seq s) flying"
| run_ok: "compare_reach s flying \<Longrightarrow> runCompare a b s = (s', Inr pair) \<Longrightarrow>
     compare_reach s' (pair # flying)"
| button: "compare_reach s flying \<Longrightarrow> openCompare s = (s', Inr pair) \<Longrightarrow>
     compare_reach s' (pair # flying)"
| close: "compare_reach s flying \<Longrightarrow> compare_reach (close_compare s) flying"
| reply: "compare_reach s flying \<Longrightarrow> pair \<in> set flying \<Longrightarrow>
     compare_reach (compare_reply pair r s) (remove1 pair flying)"

subsection \<open>The summary\<close>

definition summary_label :: "string \<times> string \<Rightarrow> string" where
  "summary_label kv = fst kv @ ''='' @ (if snd kv \<noteq> [] then ''='' @ snd kv else [])"

definition summary_annotation :: "string \<times> string \<Rightarrow> string \<times> string" where
  "summary_annotation kv =
     (fst kv, take 120 (snd kv) @ (if length (snd kv) > 120 then ''...'' else []))"

definition meta_map :: "resource \<Rightarrow> string \<Rightarrow> (string \<times> string) list" where
  "meta_map item key =
     (case field (asRecord (field (Some item) ''metadata'')) key of
        Some (JObj kvs) \<Rightarrow> map (\<lambda>(k, v). (k, case v of JStr t \<Rightarrow> t | _ \<Rightarrow> [])) kvs
      | _ \<Rightarrow> [])"

text \<open>Labels and annotations of the summary (ASCII values); an empty list is shown as a dash.\<close>

definition summary_labels :: "resource \<Rightarrow> string list" where
  "summary_labels item = map summary_label (meta_map item ''labels'')"

definition summary_annotations :: "resource \<Rightarrow> (string \<times> string) list" where
  "summary_annotations item = map summary_annotation (take 5 (meta_map item ''annotations''))"

definition summary_texts ::
  "(string \<Rightarrow> string) \<Rightarrow> (string \<Rightarrow> string) \<Rightarrow> get_resource_params \<Rightarrow> resource \<Rightarrow> string list" where
  "summary_texts ago fmt t item =
     [or_str (meta_text item ''name'') ''-'',
      if gr_namespace t = Some [] then [CHR 0xE9, CHR 0x9B, CHR 0x86, CHR 0xE7, CHR 0xBE, CHR 0xA4, CHR 0xE7, CHR 0xBA,
      CHR 0xA7] else or_str (gr_namespace t) [],
      or_str (meta_text item ''uid'') ''-'', or_str (meta_text item ''resourceVersion'') ''-'',
      (let c = meta_text item ''creationTimestamp''
       in if truthy c then ago (the c) @ '' ('' @ fmt (the c) @ '')'' else ''-'')]"

subsection \<open>Properties\<close>

interpretation edit_save: silent_handler "\<lambda>(f, l, p, t, e). ep_update p"
  "\<lambda>(f, l, p, t, e) ok. edit_handleSave f l p t e ok"
  by unfold_locales (auto simp: edit_handleSave_def split: if_splits)

interpretation edit_delete: silent_handler "\<lambda>(p, t). ep_delete p"
  "\<lambda>(p, t) ok. edit_handleDelete p t ok"
  by unfold_locales (auto simp: edit_handleDelete_def split: if_splits)

interpretation edit_rollback: silent_handler "\<lambda>(p, t, n, r). ep_rollback p"
  "\<lambda>(p, t, n, r) ok. edit_handleRollback p t n (if ok then Some r else None)"
  by unfold_locales (auto simp: edit_handleRollback_def split: if_splits prod.splits)

text \<open>The API versions of the kinds are plain texts.\<close>

definition plain_segment :: "string \<Rightarrow> bool" where
  "plain_segment s \<longleftrightarrow> s \<noteq> [] \<and> utf8_ok s \<and> CHR ''%'' \<notin> set s"

lemma group_versions_plain:
  "list_all (\<lambda>g. kg_kinds g \<noteq> [] \<and> list_all (\<lambda>k. plain_segment (ki_apiVersion k)) (kg_kinds g)) KIND_GROUPS"
  by code_simp

lemma map_versions_plain: "list_all (\<lambda>(k, v, c). plain_segment v) ALL_KINDS_MAP"
  by code_simp

lemma kind_version_plain: "plain_segment (fst (kindMeta s))"
proof (cases "map_of ALL_KINDS_MAP (rl_kind s)")
  case None
  have "currentGroup (rl_tab s) \<in> set KIND_GROUPS"
    by (auto simp: currentGroup_def find_Some_iff KIND_GROUPS_def split: option.split)
  then have "kg_kinds (currentGroup (rl_tab s)) \<noteq> []"
    and "list_all (\<lambda>k. plain_segment (ki_apiVersion k)) (kg_kinds (currentGroup (rl_tab s)))"
    using group_versions_plain by (auto simp: list_all_iff)
  then have "plain_segment (ki_apiVersion (hd (kg_kinds (currentGroup (rl_tab s)))))"
    by (auto simp: list_all_iff)
  with None show ?thesis by (simp add: kindMeta_def Let_def)
next
  case (Some vc)
  then have "(rl_kind s, fst vc, snd vc) \<in> set ALL_KINDS_MAP" by (simp add: map_of_SomeD)
  then have "plain_segment (fst vc)" using map_versions_plain by (auto simp: list_all_iff)
  with Some show ?thesis by (simp add: kindMeta_def split_beta)
qed

text \<open>
  C11. The edit link of a row opens the resource of the row: for an accepted cluster code and for
  names of the kind, the namespace and the resource that hold no percent sign, the path that the
  list writes is split by the router and decoded once more by the page, and what the page reads,
  updates and deletes is the resource of the row, under the same URL of the server. React
  Router is a parameter: it hands the page the decoded segments of a path that matches its route.
\<close>

theorem edit_link_opens_resource:
  assumes useParams_decodes: "\<forall>c v k ns n. list_all (\<lambda>x. x \<noteq> [] \<and> utf8_ok x) [c, v, k, ns, n] \<longrightarrow>
      useParams (uri.path [''resources'', c, v, k, ns, n, ''edit''])
      = map_of [(''code'', c), (''apiVersion'', v), (''kind'', k), (''namespace'', ns), (''name'', n)]"
    and "rl_clusterCode s = Some c" and "valid_code c" and "utf8_ok c" and "plain_segment (rl_kind s)"
    and "meta_text item ''name'' = Some n" and "plain_segment n"
    and "\<forall>ns. meta_text item ''namespace'' = Some ns \<longrightarrow> ns = [] \<or> plain_segment ns \<and> ns \<noteq> ''_''"
  shows "\<exists>t. edit_target (useParams (editUrl s item)) = Some t \<and> same_resource t (delete_target s item)
    \<and> resource_url t = resource_url (delete_target s item) \<and> \<not> edit_skip t"
proof -
  let ?v = "fst (kindMeta s)" and ?k = "rl_kind s"
  let ?ns = "or_str (meta_text item ''namespace'') ''_''"
  have plain: "plain_segment ?v" by (rule kind_version_plain)
  have code: "list_all unreserved c" by (rule valid_code_unreserved [OF assms(3)])
  then have c: "plain_segment c"
    using assms(3,4) valid_code_head [OF assms(3)]
    by (auto simp: plain_segment_def list_all_iff unreserved_def Let_def)
  have ns: "plain_segment ?ns"
    using assms(8) by (cases "meta_text item ''namespace''") (auto simp: or_str_def plain_segment_def)
  have under: "plain_segment ''resources''" "encodeURIComponent ''edit'' = ''edit''" by code_simp+
  have "editUrl s item = uri.path [''resources'', c, ?v, ?k, ?ns, n, ''edit'']"
    using assms(2,6,7) encode_unreserved [OF code] under(2)
    by (auto simp: editUrl_def Let_def uri.path_Cons uri.path_Nil plain_segment_def truthy_iff or_str_def
        split: option.splits)
  then have params: "useParams (editUrl s item)
      = map_of [(''code'', c), (''apiVersion'', ?v), (''kind'', ?k), (''namespace'', ?ns), (''name'', n)]"
    using useParams_decodes c plain assms(5,7) ns by (simp add: plain_segment_def)
  have dec: "decodeURIComponent x = Some x" if "plain_segment x" for x
    using that by (simp add: decode_plain plain_segment_def)
  have ne: "c \<noteq> []" "?v \<noteq> []" "?k \<noteq> []" "?ns \<noteq> []" "n \<noteq> []"
    using c plain assms(5,7) ns by (simp_all add: plain_segment_def)
  let ?t = "\<lparr>gr_code = c, gr_apiVersion = ?v, gr_kind = ?k,
      gr_namespace = Some (if ?ns = ''_'' then [] else ?ns), gr_name = n\<rparr>"
  have t: "edit_target (useParams (editUrl s item)) = Some ?t"
    by (simp add: edit_target_def params ne dec c plain assms(5,7) ns)
  have "same_resource ?t (delete_target s item)"
    using assms(2,6,8) ne by (auto simp: same_resource_def delete_target_def or_str_def split: option.splits)
  moreover from this have "resource_url ?t = resource_url (delete_target s item)"
    by (simp only: resource_url_path segments_same uri.path_inject)
  ultimately show ?thesis using t ne by (simp add: edit_skip_def)
qed

text \<open>A router for one example: it splits at the slashes and decodes.\<close>

definition demo_router :: "string \<Rightarrow> string \<Rightarrow> string option" where
  "demo_router u =
     map_of (zip [''code'', ''apiVersion'', ''kind'', ''namespace'', ''name'']
       (map (\<lambda>x. the (decodeURIComponent x)) (drop 2 (split_on CHR ''/'' u))))"

lemma demo_router_decodes:
  "list_all (\<lambda>x. x \<noteq> [] \<and> utf8_ok x) [c, v, k, ns, n] \<Longrightarrow>
     demo_router (uri.path [''resources'', c, v, k, ns, n, ''edit''])
     = map_of [(''code'', c), (''apiVersion'', v), (''kind'', k), (''namespace'', ns), (''name'', n)]"
  by (simp add: demo_router_def uri.path_Cons uri.path_Nil split_on_append encode_no_slash
      split_on_clean decode_encode)

theorem edit_link_opens_resource_witness:
  "\<exists>t. edit_target (demo_router (editUrl demo_res_page demo_item)) = Some t
     \<and> same_resource t (delete_target demo_res_page demo_item)
     \<and> resource_url t = resource_url (delete_target demo_res_page demo_item) \<and> \<not> edit_skip t"
proof (rule edit_link_opens_resource [of demo_router demo_res_page "''prod''" demo_item "''a&b=c''"])
  show "\<forall>c v k ns n. list_all (\<lambda>x. x \<noteq> [] \<and> utf8_ok x) [c, v, k, ns, n] \<longrightarrow>
      demo_router (uri.path [''resources'', c, v, k, ns, n, ''edit''])
      = map_of [(''code'', c), (''apiVersion'', v), (''kind'', k), (''namespace'', ns), (''name'', n)]"
    using demo_router_decodes by blast
  have ns: "meta_text demo_item ''namespace'' = Some ''web''" by code_simp
  show "\<forall>ns. meta_text demo_item ''namespace'' = Some ns \<longrightarrow> ns = [] \<or> plain_segment ns \<and> ns \<noteq> ''_''"
    using ns by (auto simp: plain_segment_def)
qed code_simp+

text \<open>
  A name with a percent sign, which Kubernetes does not accept, would be decoded twice: the page
  throws on a path that the router already decoded.
\<close>

lemma double_decoding:
  "edit_target (map_of [(''code'', ''c''), (''kind'', ''Pod''), (''name'', ''a%'')]) = None"
  by code_simp

lemma toggle_seq_bound: "length prev \<le> 2 \<Longrightarrow> length (toggle_seq seq prev) \<le> 2"
  by (auto simp: toggle_seq_def Let_def intro: order_trans [OF length_filter_le])

lemma toggle_seq_distinct: "distinct prev \<Longrightarrow> distinct (toggle_seq seq prev)"
  by (auto simp: toggle_seq_def Let_def distinct_drop dest: in_set_dropD)

definition ordered_pair :: "int \<times> int \<Rightarrow> bool" where
  "ordered_pair p \<longleftrightarrow> fst p \<noteq> CURRENT_VERSION_SEQ
     \<and> (snd p = CURRENT_VERSION_SEQ \<or> fst p < snd p)"

lemma ordered_compare: "a \<noteq> b \<Longrightarrow> ordered_pair (orderedCompareSeqs a b)"
  by (auto simp: ordered_pair_def orderedCompareSeqs_def CURRENT_VERSION_SEQ_def)

lemma runCompare_Inr:
  "runCompare a b s = (s', Inr pair) \<longleftrightarrow>
     a \<noteq> b \<and> pair = orderedCompareSeqs a b
     \<and> s' = s\<lparr>vc_checked := [a, b], vc_pair := Some pair, vc_open := True, vc_loaded := False,
              vc_left := [], vc_right := []\<rparr>"
  by (auto simp: runCompare_def Let_def)

lemma openCompare_Inr:
  "openCompare s = (s', Inr pair) \<Longrightarrow>
     \<exists>a b. runCompare a b s = (s', Inr pair)"
  by (auto simp: openCompare_def split: if_splits)

definition compare_inv :: "compare_state \<Rightarrow> (int \<times> int) list \<Rightarrow> bool" where
  "compare_inv s flying \<longleftrightarrow>
     length (vc_checked s) \<le> 2 \<and> distinct (vc_checked s)
     \<and> list_all ordered_pair flying \<and> (\<forall>p. vc_pair s = Some p \<longrightarrow> ordered_pair p)"

lemma compare_inv_run:
  "compare_inv s flying \<Longrightarrow> runCompare a b s = (s', Inr pair) \<Longrightarrow> compare_inv s' (pair # flying)"
  using ordered_compare [of a b] by (auto simp: compare_inv_def runCompare_Inr)

lemma compare_inv_reach: "compare_reach s flying \<Longrightarrow> compare_inv s flying"
proof (induction rule: compare_reach.induct)
  case start
  then show ?case by (simp add: compare_inv_def compare_init_def)
next
  case (toggle s flying seq)
  then show ?case
    by (simp add: compare_inv_def toggleSeq_def toggle_seq_bound toggle_seq_distinct)
next
  case (run_ok s flying a b s' pair)
  then show ?case using compare_inv_run by blast
next
  case (button s flying s' pair)
  then show ?case using compare_inv_run openCompare_Inr by blast
next
  case (close s flying)
  then show ?case by (simp add: compare_inv_def close_compare_def)
next
  case (reply s flying pair r)
  then have "list_all ordered_pair (remove1 pair flying)"
    by (auto simp: compare_inv_def list_all_iff dest: notin_set_remove1)
  then show ?case using reply
    by (auto simp: compare_inv_def compare_reply_def split: option.splits)
qed

text \<open>
  The comparison of versions is always well posed: after any sequence of clicks, and with the
  replies in any order, at most two different versions are ticked; every request and every title
  has a history version on the left and, on the right, the live object or a newer version; and
  the button is enabled exactly when pressing it sends a request.
\<close>

theorem compare_selection_sound:
  assumes "compare_reach s flying"
  shows "length (vc_checked s) \<le> 2 \<and> distinct (vc_checked s)
    \<and> list_all ordered_pair flying \<and> (\<forall>p. vc_pair s = Some p \<longrightarrow> ordered_pair p)
    \<and> (canOpenCompare s \<longleftrightarrow> (\<exists>s' pair. openCompare s = (s', Inr pair)))"
proof -
  have inv: "compare_inv s flying" using assms by (rule compare_inv_reach)
  have two: "\<exists>a b. vc_checked s = [a, b] \<and> a \<noteq> b" if "length (vc_checked s) = 2"
    using that inv by (auto simp: compare_inv_def numeral_2_eq_2 length_Suc_conv)
  have "canOpenCompare s \<longleftrightarrow> (\<exists>s' pair. openCompare s = (s', Inr pair))"
  proof (cases "selectedHistoryOnly s")
    case True
    then show ?thesis by (auto simp: canOpenCompare_def openCompare_def selectedHistoryOnly_def runCompare_Inr)
  next
    case False
    have "\<exists>s' pair. runCompare a b s = (s', Inr pair)" if "a \<noteq> b" for a b
      using that by (simp add: runCompare_def Let_def)
    then show ?thesis using False two by (auto simp: canOpenCompare_def openCompare_def)
  qed
  then show ?thesis using inv by (simp add: compare_inv_def)
qed

theorem compare_selection_sound_witness:
  "length (vc_checked (toggleSeq 3 (toggleSeq 0 (toggleSeq 2 compare_init)))) \<le> 2
   \<and> vc_checked (toggleSeq 3 (toggleSeq 0 (toggleSeq 2 compare_init))) = [0, 3]"
proof -
  have "compare_reach (toggleSeq 3 (toggleSeq 0 (toggleSeq 2 compare_init))) []"
    by (intro compare_reach.toggle compare_reach.start)
  from compare_selection_sound [OF this] show ?thesis
    by (simp add: toggleSeq_def toggle_seq_def compare_init_def Let_def)
qed

text \<open>A reply that arrives while its pair is the last one asked for is shown under its own title.\<close>

lemma fresh_diff_matches:
  assumes "runCompare a b s = (s', Inr (l, r))"
  shows "compare_body False (compare_reply (l, r) (Some (Some y1, Some y2)) s')
    = Some ((versionSeqLabel l, versionSeqLabel r), or_str (Some y1) [], or_str (Some y2) [])"
  using assms by (auto simp: runCompare_Inr compare_body_def compare_reply_def split: prod.splits)

text \<open>
  A reply that arrives late is not: two comparisons with the live object, answered in the other
  order, leave the text of the first version under the title of the second.
\<close>

lemma stale_diff_under_new_title:
  assumes "runCompare a 0 compare_init = (s1, Inr p1)"
    and "runCompare b 0 (close_compare s1) = (s2, Inr p2)"
    and "y1 \<noteq> []" and "y0 \<noteq> []"
    and "s3 = compare_reply p2 (Some (Some y2, Some y0)) s2"
    and "s4 = compare_reply p1 (Some (Some y1, Some y0)) s3"
  shows "compare_reach s4 [] \<and>
    compare_body False s4 = Some ((versionSeqLabel b, versionSeqLabel 0), y1, y0)"
proof -
  have "compare_reach s1 [p1]"
    using compare_reach.run_ok [OF compare_reach.start assms(1)] .
  then have "compare_reach s2 [p2, p1]"
    using compare_reach.run_ok [OF compare_reach.close assms(2)] by blast
  then have "compare_reach s3 [p1]"
    unfolding assms(5) using compare_reach.reply [of s2 "[p2, p1]" p2] by simp
  then have "compare_reach s4 []"
    unfolding assms(6) using compare_reach.reply [of s3 "[p1]" p1] by simp
  moreover have "vc_pair s2 = Some (b, 0)"
    using assms(2) by (auto simp: runCompare_Inr orderedCompareSeqs_def CURRENT_VERSION_SEQ_def)
  ultimately show ?thesis
    using assms(3,4) by (simp add: assms(5,6) compare_body_def compare_reply_def)
qed

text \<open>
  Saving sends the document that was edited: with a YAML library that reads back what it wrote, the
  text sent for a text that parses to an object parses to that object, unwrapped and without
  \<open>managedFields\<close>.
\<close>

lemma save_sends_document:
  assumes "\<And>d t. yamlDump d = Some t \<Longrightarrow> yamlLoad t = Some d"
    and "yamlLoad (yamlValue e) = Some (JObj o1)"
    and "yamlDump (JObj (drop_managed_fields (unwrap_object o1))) = Some t"
    and "ep_update p" and "js_trim (yamlValue e) \<noteq> []"
  shows "sends (edit_handleSave (resourceToYaml yamlDump j sc) yamlLoad p tgt e ok) = [UpdateResource tgt t]
    \<and> tryParseYaml yamlLoad t = Some (JObj (drop_managed_fields (unwrap_object o1)))"
  using assms(2-5) assms(1) [OF assms(3)]
  by (simp add: edit_handleSave_def yamlToSend_def tryParseYaml_def resourceToYaml_content(1))

text \<open>A label of the summary is shown with two equals signs.\<close>

lemma summary_label_doubled: "v \<noteq> [] \<Longrightarrow> summary_label (k, v) = k @ ''=='' @ v"
  by (simp add: summary_label_def)

end
