(* ===== verification/BackupList.thy ===== *)
theory BackupList
  imports ResourceList BackupService PushHooks
begin

section \<open>The list of backups\<close>

text \<open>
  \<open>pages/backups/list.tsx\<close>: filters, cells, the status of a row with its live progress, and the
  handlers that restore, download, delete and follow a backup. Sizes are the whole numbers that the
  server sends; \<open>fmt\<close> is dayjs.
\<close>

subsection \<open>Labels\<close>

definition storageColorMap :: "(string \<times> string) list" where
  "storageColorMap = [(''local'', ''geekblue''), (''s3'', ''orange''), (''nfs'', ''purple'')]"

definition statusColorMap :: "backup_status \<Rightarrow> string" where
  "statusColorMap s = (case s of BsRunning \<Rightarrow> ''processing'' | BsSuccess \<Rightarrow> ''success''
     | BsFailed \<Rightarrow> ''error'' | BsPending \<Rightarrow> ''warning'' | BsCancelled \<Rightarrow> ''default'')"

definition statusLabelMap :: "backup_status \<Rightarrow> string" where
  "statusLabelMap s = (case s of BsRunning \<Rightarrow> [CHR 0xE8, CHR 0xBF, CHR 0x90, CHR 0xE8, CHR 0xA1, CHR 0x8C, CHR 0xE4, CHR 0xB8,
      CHR 0xAD] | BsSuccess \<Rightarrow> [CHR 0xE6, CHR 0x88, CHR 0x90, CHR 0xE5, CHR 0x8A, CHR 0x9F]
     | BsFailed \<Rightarrow> [CHR 0xE5, CHR 0xA4, CHR 0xB1, CHR 0xE8, CHR 0xB4, CHR 0xA5] | BsPending \<Rightarrow> [CHR 0xE7, CHR 0xAD, CHR 0x89, CHR 0xE5, CHR 0xBE, CHR 0x85, CHR 0xE4, CHR 0xB8,
      CHR 0xAD] | BsCancelled \<Rightarrow> [CHR 0xE5, CHR 0xB7, CHR 0xB2, CHR 0xE5, CHR 0x8F, CHR 0x96, CHR 0xE6, CHR 0xB6,
      CHR 0x88])"

definition modeLabelMap :: "(string \<times> string) list" where
  "modeLabelMap = [(''single'', [CHR 0xE5, CHR 0x8D, CHR 0x95, CHR 0xE5, CHR 0xAF, CHR 0xB9, CHR 0xE8, CHR 0xB1,
      CHR 0xA1]), (''namespace_batch'', [CHR 0xE5, CHR 0x91, CHR 0xBD, CHR 0xE5, CHR 0x90, CHR 0x8D, CHR 0xE7, CHR 0xA9,
      CHR 0xBA, CHR 0xE9, CHR 0x97, CHR 0xB4, CHR 0xE6, CHR 0x89, CHR 0xB9, CHR 0xE9,
      CHR 0x87, CHR 0x8F]),
     (''restore'', [CHR 0xE6, CHR 0x81, CHR 0xA2, CHR 0xE5, CHR 0xA4, CHR 0x8D, CHR 0xE4, CHR 0xBB,
      CHR 0xBB, CHR 0xE5, CHR 0x8A, CHR 0xA1])]"

subsection \<open>Filters\<close>

definition backup_list_init :: "(string \<Rightarrow> string option) \<Rightarrow> list_backups_params" where
  "backup_list_init get =
     \<lparr>lb_keyword = Some [], lb_cluster_code = (if truthy (get ''code'') then get ''code'' else None),
      lb_status = None, lb_backup_type = None, lb_page = Some 1, lb_size = Some 10\<rparr>"

definition none_if_empty :: "string option \<Rightarrow> string option" where
  "none_if_empty v = (if truthy v then v else None)"

definition backup_list_submit ::
  "string option \<Rightarrow> string option \<Rightarrow> string option \<Rightarrow> backup_status option
    \<Rightarrow> list_backups_params \<Rightarrow> list_backups_params" where
  "backup_list_submit keyword code bt status f =
     f\<lparr>lb_keyword := Some (or_str keyword []), lb_cluster_code := none_if_empty code,
       lb_backup_type := none_if_empty bt, lb_status := status, lb_page := Some 1\<rparr>"

definition backup_list_reset :: "list_backups_params \<Rightarrow> list_backups_params" where
  "backup_list_reset f =
     f\<lparr>lb_keyword := Some [], lb_cluster_code := None, lb_backup_type := None, lb_status := None,
       lb_page := Some 1\<rparr>"

definition backup_list_page :: "int \<Rightarrow> int \<Rightarrow> list_backups_params \<Rightarrow> list_backups_params" where
  "backup_list_page p sz f = f\<lparr>lb_page := Some p, lb_size := Some sz\<rparr>"

record backup_perms =
  bp_view :: bool
  bp_create :: bool
  bp_restore :: bool
  bp_download :: bool
  bp_delete :: bool

definition backup_list_perms :: "current_user option \<Rightarrow> backup_perms" where
  "backup_list_perms u =
     \<lparr>bp_view = hasPerm u ''backup:list'', bp_create = hasPerm u ''backup:create'',
      bp_restore = hasPerm u ''backup:restore'', bp_download = hasPerm u ''backup:list'',
      bp_delete = hasPerm u ''backup:delete''\<rparr>"

subsection \<open>Restoring\<close>

record restore_form =
  rf_targetCluster :: "string option"
  rf_targetNamespace :: "string option"
  rf_mode :: "restore_mode option"

record restore_dialog =
  rd_open :: bool
  rd_record :: "backup option"
  rd_form :: restore_form

definition handleOpenRestore :: "backup_perms \<Rightarrow> backup \<Rightarrow> restore_dialog \<Rightarrow> restore_dialog" where
  "handleOpenRestore p r d =
     (if \<not> bp_restore p then d
      else \<lparr>rd_open = True, rd_record = Some r,
            rd_form = \<lparr>rf_targetCluster = Some (bk_cluster_code r),
              rf_targetNamespace = none_if_empty (bk_namespace r), rf_mode = Some RmCreateNew\<rparr>\<rparr>)"

text \<open>The two required fields of the form.\<close>

definition restore_form_valid :: "restore_form \<Rightarrow> bool" where
  "restore_form_valid f \<longleftrightarrow> truthy (rf_targetCluster f) \<and> rf_mode f \<noteq> None"

definition restore_body :: "restore_form \<Rightarrow> restore_backup_body" where
  "restore_body f =
     \<lparr>rs_target_cluster_code = rf_targetCluster f,
      rs_target_namespace = none_if_empty (rf_targetNamespace f), rs_mode = rf_mode f\<rparr>"

text \<open>\<open>Some i\<close> is the task that the server created, \<open>None\<close> a rejected promise.\<close>

definition handleConfirmRestore ::
  "backup_perms \<Rightarrow> restore_dialog \<Rightarrow> int option \<Rightarrow> restore_dialog \<times> backup_mutation page_effect list" where
  "handleConfirmRestore p d result =
     (case rd_record d of
        None \<Rightarrow> (d, [])
      | Some r \<Rightarrow>
          if \<not> bp_restore p \<or> \<not> restore_form_valid (rd_form d) then (d, [])
          else
            let send = PSend (RestoreBackup (bk_id r) (Some (restore_body (rd_form d))))
            in (case result of
                  None \<Rightarrow> (d, [send])
                | Some i \<Rightarrow>
                    (d\<lparr>rd_open := False\<rparr>,
                     [send, PToast ToastOk (([CHR 0xE6, CHR 0x81, CHR 0xA2, CHR 0xE5, CHR 0xA4, CHR 0x8D, CHR 0xE4, CHR 0xBB,
      CHR 0xBB, CHR 0xE5, CHR 0x8A, CHR 0xA1] @
     '' #'') @ show_int i @ ('' '' @
     [CHR 0xE5, CHR 0xB7, CHR 0xB2, CHR 0xE6, CHR 0x8F, CHR 0x90, CHR 0xE4, CHR 0xBA,
      CHR 0xA4, CHR 0xEF, CHR 0xBC, CHR 0x8C, CHR 0xE5, CHR 0x88, CHR 0x87, CHR 0xE5,
      CHR 0x88, CHR 0xB0, CHR 0xE9, CHR 0x9B, CHR 0x86, CHR 0xE7, CHR 0xBE, CHR 0xA4] @
     '' '') @
                        or_str (rf_targetCluster (rd_form d)) (bk_cluster_code r) @ ('' '' @
     [CHR 0xE6, CHR 0x9F, CHR 0xA5, CHR 0xE7, CHR 0x9C, CHR 0x8B, CHR 0xE8, CHR 0xBF,
      CHR 0x9B, CHR 0xE5, CHR 0xBA, CHR 0xA6])),
                      PRefetch])))"

definition restore_details :: "backup \<Rightarrow> string list" where
  "restore_details r =
     [bk_cluster_code r, or_str (bk_namespace r) [CHR 0xEF, CHR 0xBC, CHR 0x88, CHR 0xE9, CHR 0x9B, CHR 0x86, CHR 0xE7, CHR 0xBE,
      CHR 0xA4, CHR 0xE7, CHR 0xBA, CHR 0xA7, CHR 0xEF, CHR 0xBC, CHR 0x89], or_str (bk_target_kind r) ''-'',
      or_str (bk_target_name r) ''-'', bk_storage_type r]"

subsection \<open>The other actions of a row\<close>

definition backup_handleDownload :: "backup_perms \<Rightarrow> backup \<Rightarrow> bool \<Rightarrow> download_call page_effect list" where
  "backup_handleDownload p r ok =
     (if \<not> bp_download p then [PToast ToastFail [CHR 0xE6, CHR 0x97, CHR 0xA0, CHR 0xE5, CHR 0xA4, CHR 0x87, CHR 0xE4, CHR 0xBB,
      CHR 0xBD, CHR 0xE4, CHR 0xB8, CHR 0x8B, CHR 0xE8, CHR 0xBD, CHR 0xBD, CHR 0xE6,
      CHR 0x9D, CHR 0x83, CHR 0xE9, CHR 0x99, CHR 0x90]]
      else if bk_backup_type r = ''namespace_batch''
      then [PToast ToastWarn [CHR 0xE6, CHR 0x89, CHR 0xB9, CHR 0xE9, CHR 0x87, CHR 0x8F, CHR 0xE5, CHR 0xA4,
      CHR 0x87, CHR 0xE4, CHR 0xBB, CHR 0xBD, CHR 0xE6, CHR 0x9A, CHR 0x82, CHR 0xE4,
      CHR 0xB8, CHR 0x8D, CHR 0xE6, CHR 0x94, CHR 0xAF, CHR 0xE6, CHR 0x8C, CHR 0x81,
      CHR 0xE4, CHR 0xB8, CHR 0x8B, CHR 0xE8, CHR 0xBD, CHR 0xBD, CHR 0xEF, CHR 0xBC,
      CHR 0x88, CHR 0xE5, CHR 0xB0, CHR 0x9A, CHR 0xE6, CHR 0x9C, CHR 0xAA, CHR 0xE6,
      CHR 0x89, CHR 0x93, CHR 0xE5, CHR 0x8C, CHR 0x85, CHR 0xE4, CHR 0xB8, CHR 0xBA,
      CHR 0xE5, CHR 0x8D, CHR 0x95, CHR 0xE4, CHR 0xB8, CHR 0xAA, CHR 0xE6, CHR 0x96,
      CHR 0x87, CHR 0xE4, CHR 0xBB, CHR 0xB6, CHR 0xEF, CHR 0xBC, CHR 0x89]]
      else try_send (downloadBackupById r) ok [PToast ToastOk [CHR 0xE5, CHR 0xBC, CHR 0x80, CHR 0xE5, CHR 0xA7, CHR 0x8B, CHR 0xE4, CHR 0xB8,
      CHR 0x8B, CHR 0xE8, CHR 0xBD, CHR 0xBD]])"

definition backup_confirm_delete :: "backup_perms \<Rightarrow> backup \<Rightarrow> bool \<Rightarrow> backup_mutation page_effect list" where
  "backup_confirm_delete p r ok =
     (if \<not> bp_delete p then []
      else try_send (DeleteBackup (bk_id r)) ok [PToast ToastOk [CHR 0xE5, CHR 0x88, CHR 0xA0, CHR 0xE9, CHR 0x99, CHR 0xA4, CHR 0xE6, CHR 0x88,
      CHR 0x90, CHR 0xE5, CHR 0x8A, CHR 0x9F], PRefetch])"

definition versions_params :: "backup \<Rightarrow> (string \<times> string) list" where
  "versions_params r =
     [(''cluster_code'', bk_cluster_code r)] @
     (if truthy (bk_target_kind r) then [(''kind'', the (bk_target_kind r))] else []) @
     (if truthy (bk_namespace r) then [(''namespace'', the (bk_namespace r))] else [])"

definition versions_url :: "backup \<Rightarrow> string" where
  "versions_url r =
     ''/resources/list?cluster_code='' @ encodeURIComponent (bk_cluster_code r) @
     (if truthy (bk_target_kind r) then ''&kind='' @ encodeURIComponent (the (bk_target_kind r)) else []) @
     (if truthy (bk_namespace r) then ''&namespace='' @ encodeURIComponent (the (bk_namespace r)) else [])"

definition is_batch_row :: "backup \<Rightarrow> bool" where
  "is_batch_row r \<longleftrightarrow> bk_backup_type r = ''namespace_batch'' \<or> bk_backup_type r = ''restore''"

text \<open>Whether the buttons restore, download, versions and delete are disabled.\<close>

definition row_disabled :: "backup_perms \<Rightarrow> backup \<Rightarrow> bool \<times> bool \<times> bool \<times> bool" where
  "row_disabled p r =
     (bk_status r \<noteq> BsSuccess \<or> is_batch_row r \<or> \<not> bp_restore p,
      bk_status r \<noteq> BsSuccess \<or> is_batch_row r \<or> \<not> bp_download p,
      is_batch_row r \<or> \<not> truthy (bk_target_name r),
      \<not> bp_delete p)"

definition delete_title :: "backup \<Rightarrow> string" where
  "delete_title r =
     [CHR 0xE7, CHR 0xA1, CHR 0xAE, CHR 0xE8, CHR 0xAE, CHR 0xA4, CHR 0xE5, CHR 0x88,
      CHR 0xA0, CHR 0xE9, CHR 0x99, CHR 0xA4, CHR 0xE5, CHR 0xA4, CHR 0x87, CHR 0xE4,
      CHR 0xBB, CHR 0xBD, CHR 0xE3, CHR 0x80, CHR 0x8C] @ or_str (bk_target_name r) (''#'' @ show_int (bk_id r)) @ [CHR 0xE3, CHR 0x80, CHR 0x8D, CHR 0xEF, CHR 0xBC, CHR 0x9F]"

subsection \<open>The cells\<close>

definition time_cell :: "(string \<Rightarrow> string) \<Rightarrow> (string \<Rightarrow> string) \<Rightarrow> backup \<Rightarrow> string list" where
  "time_cell fmt fmt_short r =
     (if truthy (bk_created_at r) then fmt (the (bk_created_at r)) else ''-'') #
     (if truthy (bk_completed_at r) then [([CHR 0xE5, CHR 0xAE, CHR 0x8C, CHR 0xE6, CHR 0x88, CHR 0x90] @
     '': '') @ fmt_short (the (bk_completed_at r))] else [])"

definition task_type_cell :: "backup \<Rightarrow> string \<times> string" where
  "task_type_cell r =
     (if bk_backup_type r = ''restore'' then (''orange'', [CHR 0xE6, CHR 0x81, CHR 0xA2, CHR 0xE5, CHR 0xA4, CHR 0x8D]) else (''blue'', [CHR 0xE5, CHR 0xA4, CHR 0x87, CHR 0xE4, CHR 0xBB, CHR 0xBD]))"

definition mode_cell :: "backup \<Rightarrow> string \<times> string" where
  "mode_cell r =
     (let mode = (if bk_backup_type r = [] then ''single'' else bk_backup_type r)
      in (if mode = ''namespace_batch'' then ''magenta'' else ''cyan'', or_str (map_of modeLabelMap mode) mode))"

definition namespace_cell :: "backup \<Rightarrow> string" where
  "namespace_cell r =
     (if truthy (bk_namespace r) \<and> starts_with (the (bk_namespace r)) ''multi:''
      then ([CHR 0xE5, CHR 0xA4, CHR 0x9A, CHR 0xE5, CHR 0x91, CHR 0xBD, CHR 0xE5, CHR 0x90,
      CHR 0x8D, CHR 0xE7, CHR 0xA9, CHR 0xBA, CHR 0xE9, CHR 0x97, CHR 0xB4] @
     '' '' @
     [CHR 0xC3, CHR 0x97]) @ drop (length ''multi:'') (the (bk_namespace r))
      else or_str (bk_namespace r) [CHR 0xEF, CHR 0xBC, CHR 0x88, CHR 0xE9, CHR 0x9B, CHR 0x86, CHR 0xE7, CHR 0xBE,
      CHR 0xA4, CHR 0xE7, CHR 0xBA, CHR 0xA7, CHR 0xEF, CHR 0xBC, CHR 0x89])"

definition object_cell :: "backup \<Rightarrow> string list" where
  "object_cell r =
     (if truthy (bk_target_kind r) then [the (bk_target_kind r)] else []) @
     (if truthy (bk_target_name r) then [the (bk_target_name r)] else [])"

definition storage_color :: "backup \<Rightarrow> string" where
  "storage_color r = or_str (map_of storageColorMap (bk_storage_type r)) ''default''"

definition size_text :: "int option \<Rightarrow> string" where
  "size_text v =
     (case v of
        None \<Rightarrow> ''-''
      | Some n \<Rightarrow>
          if n = 0 then ''-''
          else if n < 1024 then show_int n @ '' B''
          else if n < 1024 * 1024 then to_fixed 1 (of_int n / 1024) @ '' KB''
          else if n < 1024 * 1024 * 1024 then to_fixed 2 (of_int n / 1024 / 1024) @ '' MB''
          else to_fixed 2 (of_int n / 1024 / 1024 / 1024) @ '' GB'')"

text \<open>The status cell: tag with its colour, progress bar, message and error line.\<close>

record status_cell =
  st_color :: string
  st_label :: string
  st_percent :: "int option"
  st_message :: "string option"
  st_error :: "string option"

definition live_stage_tag :: "task_stage \<Rightarrow> string \<times> string" where
  "live_stage_tag s = (case s of StPending \<Rightarrow> (''warning'', [CHR 0xE7, CHR 0xAD, CHR 0x89, CHR 0xE5, CHR 0xBE, CHR 0x85, CHR 0xE4, CHR 0xB8,
      CHR 0xAD])
     | StExporting \<Rightarrow> (''processing'', [CHR 0xE5, CHR 0xAF, CHR 0xBC, CHR 0xE5, CHR 0x87, CHR 0xBA, CHR 0xE4, CHR 0xB8,
      CHR 0xAD]) | StUploading \<Rightarrow> (''purple'', [CHR 0xE4, CHR 0xB8, CHR 0x8A, CHR 0xE4, CHR 0xBC, CHR 0xA0, CHR 0xE4, CHR 0xB8,
      CHR 0xAD])
     | StRestoring \<Rightarrow> (''orange'', [CHR 0xE6, CHR 0x81, CHR 0xA2, CHR 0xE5, CHR 0xA4, CHR 0x8D, CHR 0xE4, CHR 0xB8,
      CHR 0xAD]) | StCompleted \<Rightarrow> (''processing'', ''completed'')
     | StFailed \<Rightarrow> (''processing'', ''failed''))"

definition clamp_percent :: "int \<Rightarrow> int" where
  "clamp_percent n = min 100 (max 0 n)"

definition final_tag :: "task_progress option \<Rightarrow> backup \<Rightarrow> string \<times> string" where
  "final_tag live r =
     (case map_option tp_stage live of
        Some StCompleted \<Rightarrow> (''success'', [CHR 0xE5, CHR 0xB7, CHR 0xB2, CHR 0xE5, CHR 0xAE, CHR 0x8C, CHR 0xE6, CHR 0x88,
      CHR 0x90])
      | Some StFailed \<Rightarrow> (''error'', [CHR 0xE5, CHR 0xA4, CHR 0xB1, CHR 0xE8, CHR 0xB4, CHR 0xA5])
      | _ \<Rightarrow> (statusColorMap (bk_status r), statusLabelMap (bk_status r)))"

definition terminal :: "task_stage \<Rightarrow> bool" where
  "terminal s \<longleftrightarrow> s = StCompleted \<or> s = StFailed"

definition status_cell_of :: "task_progress option \<Rightarrow> backup \<Rightarrow> status_cell" where
  "status_cell_of live r =
     (case live of
        Some l \<Rightarrow>
          if \<not> terminal (tp_stage l)
          then \<lparr>st_color = fst (live_stage_tag (tp_stage l)), st_label = snd (live_stage_tag (tp_stage l)),
                st_percent = Some (clamp_percent (tp_progress l)),
                st_message = none_if_empty (tp_message l), st_error = none_if_empty (tp_error l)\<rparr>
          else \<lparr>st_color = fst (final_tag live r), st_label = snd (final_tag live r), st_percent = None,
                st_message = none_if_empty (tp_message l), st_error = none_if_empty (tp_error l)\<rparr>
      | None \<Rightarrow> \<lparr>st_color = fst (final_tag live r), st_label = snd (final_tag live r),
                st_percent = None, st_message = None, st_error = None\<rparr>)"

definition row_status :: "(string \<times> task_progress) list \<Rightarrow> backup \<Rightarrow> status_cell" where
  "row_status by_task r = status_cell_of (map_of by_task (show_int (bk_id r))) r"

subsection \<open>Properties\<close>

interpretation backup_restore: silent_handler "\<lambda>(p, d, i). bp_restore p"
  "\<lambda>(p, d, i) ok. snd (handleConfirmRestore p d (if ok then Some i else None))"
  by unfold_locales (auto simp: handleConfirmRestore_def Let_def split: if_splits option.splits)

interpretation backup_download: silent_handler "\<lambda>(p, r). bp_download p"
  "\<lambda>(p, r) ok. backup_handleDownload p r ok"
  by unfold_locales (auto simp: backup_handleDownload_def split: if_splits)

interpretation backup_delete: silent_handler "\<lambda>(p, r). bp_delete p"
  "\<lambda>(p, r) ok. backup_confirm_delete p r ok"
  by unfold_locales (auto simp: backup_confirm_delete_def split: if_splits)

text \<open>The download that the page asks for never is the one that the service refuses.\<close>

lemma download_not_refused: "m \<in> set (sends (backup_handleDownload p r ok)) \<Longrightarrow> \<exists>u f. m = Download u f"
  by (auto simp: backup_handleDownload_def downloadBackupById_def Let_def split: if_splits)

text \<open>One byte below a megabyte is shown as 1024.0 KB.\<close>

lemma size_boundary:
  "size_text (Some 1023) = ''1023 B''" "size_text (Some 1024) = ''1.0 KB''"
  "size_text (Some 1048575) = ''1024.0 KB''"
proof -
  have "\<lfloor>1048575 / 1024 * 10 ^ 1 + 1 / 2 :: rat\<rfloor> = 10240" by (simp add: floor_unique)
  then show "size_text (Some 1048575) = ''1024.0 KB''"
    by (simp add: size_text_def to_fixed_def Let_def digit_chars show_nat.simps)
qed code_simp+

text \<open>The link to the versions of a backup opens the resource list on its cluster, kind and namespace.\<close>

lemma versions_link_opens_list:
  assumes "bk_cluster_code r \<noteq> []" and "truthy (bk_target_kind r)"
  shows "res_list_init (searchParams_get (location_search (versions_url r))) selected
    = \<lparr>rl_clusterCode = Some (bk_cluster_code r), rl_tab = ''workload'', rl_kind = the (bk_target_kind r),
       rl_namespace = Some (or_str (bk_namespace r) []), rl_keyword = [], rl_page = 1, rl_size = 10\<rparr>"
proof -
  obtain k where k: "bk_target_kind r = Some k" "k \<noteq> []" using assms(2) by (auto simp: truthy_iff)
  have plain: "encodeURIComponent ''cluster_code'' = ''cluster_code''"
    "encodeURIComponent ''kind'' = ''kind''" "encodeURIComponent ''namespace'' = ''namespace''"
    by code_simp+
  have url: "versions_url r = ''/resources/list'' @ ''?'' @ join_query encodeURIComponent (versions_params r)"
    by (simp add: versions_url_def versions_params_def query_pair_def plain k)
  have get: "searchParams_get (location_search (versions_url r)) x = map_of (versions_params r) x" for x
    unfolding url by (rule template.get_link) simp_all
  show ?thesis
    using assms(1) k
    by (cases "bk_namespace r") (simp_all add: res_list_init_def get versions_params_def pinned_cluster_def or_str_def)
qed

lemma show_int_nonempty: "show_int n \<noteq> []"
  by (simp add: show_int_def)

text \<open>
  C32. A row follows its own task, live: whatever events arrived for whatever tasks, the status cell
  of a backup is determined by the last event of its own id among those of the cluster in the
  URL; it shows a progress bar exactly when that event is not terminal, and then with a
  percentage between 0 and 100; and without such an event, or after a terminal one, it shows the
  final stage or the stored status.
\<close>

theorem row_follows_own_task:
  assumes "evs = filter (\<lambda>p. task_key p = show_int (bk_id r))
      (filter_by_cluster code (fst (useSubscribeTaskProgress backupId buffer)))"
    and "cell = row_status (snd (useBackupProgress leq code backupId mode buffer)) r"
  shows "cell = status_cell_of (if evs = [] then None else Some (last evs)) r
    \<and> ((\<exists>n. st_percent cell = Some n) \<longleftrightarrow> evs \<noteq> [] \<and> \<not> terminal (tp_stage (last evs)))
    \<and> (\<forall>n. st_percent cell = Some n \<longrightarrow> 0 \<le> n \<and> n \<le> 100
          \<and> (0 \<le> tp_progress (last evs) \<and> tp_progress (last evs) \<le> 100 \<longrightarrow> n = tp_progress (last evs)))
    \<and> (evs = [] \<longrightarrow> st_label cell = statusLabelMap (bk_status r) \<and> st_error cell = None)"
proof -
  have "cell = status_cell_of (if evs = [] then None else Some (last evs)) r"
    by (simp add: assms row_status_def useBackupProgress_def Let_def
        byTaskId_map [OF show_int_nonempty])
  then show ?thesis
    by (auto simp: status_cell_of_def clamp_percent_def final_tag_def)
qed

definition demo_backup :: backup where
  "demo_backup = \<lparr>bk_id = 8, bk_cluster_code = ''c1'', bk_namespace = Some ''web'',
     bk_target_kind = Some ''ConfigMap'', bk_target_name = Some ''app'', bk_backup_type = ''single'',
     bk_storage_type = ''local'', bk_storage_path = None, bk_status = BsRunning, bk_size_bytes = None,
     bk_operator = None, bk_operator_id = None, bk_started_at = None, bk_completed_at = None,
     bk_error_message = None, bk_object_count = None, bk_created_at = None, bk_updated_at = None\<rparr>"

theorem row_follows_own_task_witness:
  "st_percent (row_status (snd (useBackupProgress (\<le>) (Some ''c1'') None LatestPerTask
     [demo_event ''8'' 10 ''t1'', demo_event ''7'' 20 ''t2'', demo_event ''8'' 120 ''t3''])) demo_backup)
   = Some 100"
proof -
  let ?b = "[demo_event ''8'' 10 ''t1'', demo_event ''7'' 20 ''t2'', demo_event ''8'' 120 ''t3'']"
  have "filter (\<lambda>p. task_key p = show_int (bk_id demo_backup))
      (filter_by_cluster (Some ''c1'') (fst (useSubscribeTaskProgress None ?b)))
      = [demo_event ''8'' 10 ''t1'', demo_event ''8'' 120 ''t3'']"
    by (simp add: demo_event_def demo_backup_def task_key_def js_string_def filter_by_cluster_def
        useSubscribeTaskProgress_def show_int_def show_nat.simps digit_chars)
  from row_follows_own_task [of _ demo_backup "Some ''c1''" None ?b, OF this [symmetric] refl,
      of "(\<le>)" LatestPerTask]
  show ?thesis
    by (simp add: status_cell_of_def demo_event_def terminal_def clamp_percent_def)
qed

text \<open>
  The live events are those of the cluster in the URL, whatever cluster the table is filtered by:
  after a search for another cluster its rows have no live progress.
\<close>

lemma live_ignores_filter:
  assumes "truthy code" and "\<forall>p \<in> set buffer. truthy (tp_cluster_code p) \<and> tp_cluster_code p \<noteq> code"
  shows "st_percent (row_status (snd (useBackupProgress leq code None mode buffer)) r) = None"
proof -
  have "filter_by_cluster code (fst (useSubscribeTaskProgress None buffer)) = []"
    using assms by (auto simp: filter_by_cluster_def useSubscribeTaskProgress_def Let_def filter_empty_conv)
  then show ?thesis
    by (simp add: row_status_def useBackupProgress_def byTaskId_def status_cell_of_def Let_def)
qed

end
