(* ===== verification/HelmPages.thy ===== *)
theory HelmPages
  imports Pages Permission HelmService ClusterImport
begin

section \<open>Helm releases and repositories\<close>

text \<open>
  \<open>pages/helm/list.tsx\<close> and \<open>pages/helm/repos.tsx\<close>: the selection of cluster and namespace, the
  form that installs a release, removal and rollback, the history panel, the repositories and the
  search for charts. \<open>date\<close> is dayjs, \<open>None\<close> an invalid date.
\<close>

subsection \<open>Labels\<close>

definition helm_statusColorMap :: "(string \<times> string) list" where
  "helm_statusColorMap =
     [(''deployed'', ''success''), (''failed'', ''error''), (''pending'', ''warning''),
      (''superseded'', ''default''), (''uninstalled'', ''default''), (''uninstalling'', ''processing''),
      (''pending_install'', ''warning''), (''pending_upgrade'', ''warning''),
      (''pending_rollback'', ''warning'')]"

definition helm_statusLabelMap :: "(string \<times> string) list" where
  "helm_statusLabelMap =
     [(''deployed'', [CHR 0xE5, CHR 0xB7, CHR 0xB2, CHR 0xE9, CHR 0x83, CHR 0xA8, CHR 0xE7, CHR 0xBD,
      CHR 0xB2]), (''failed'', [CHR 0xE5, CHR 0xA4, CHR 0xB1, CHR 0xE8, CHR 0xB4, CHR 0xA5]), (''pending'', [CHR 0xE7, CHR 0xAD, CHR 0x89, CHR 0xE5, CHR 0xBE, CHR 0x85, CHR 0xE4, CHR 0xB8,
      CHR 0xAD]),
      (''superseded'', [CHR 0xE5, CHR 0xB7, CHR 0xB2, CHR 0xE5, CHR 0xBA, CHR 0x9F, CHR 0xE5, CHR 0xBC,
      CHR 0x83]), (''uninstalled'', [CHR 0xE5, CHR 0xB7, CHR 0xB2, CHR 0xE5, CHR 0x8D, CHR 0xB8, CHR 0xE8, CHR 0xBD,
      CHR 0xBD]), (''uninstalling'', [CHR 0xE5, CHR 0x8D, CHR 0xB8, CHR 0xE8, CHR 0xBD, CHR 0xBD, CHR 0xE4, CHR 0xB8,
      CHR 0xAD]),
      (''pending_install'', [CHR 0xE5, CHR 0xAE, CHR 0x89, CHR 0xE8, CHR 0xA3, CHR 0x85, CHR 0xE4, CHR 0xB8,
      CHR 0xAD]), (''pending_upgrade'', [CHR 0xE5, CHR 0x8D, CHR 0x87, CHR 0xE7, CHR 0xBA, CHR 0xA7, CHR 0xE4, CHR 0xB8,
      CHR 0xAD]),
      (''pending_rollback'', [CHR 0xE5, CHR 0x9B, CHR 0x9E, CHR 0xE6, CHR 0xBB, CHR 0x9A, CHR 0xE4, CHR 0xB8,
      CHR 0xAD])]"

definition helm_status_tag :: "string \<Rightarrow> string \<times> string" where
  "helm_status_tag s =
     (let status = toLowerCase s
      in (or_str (map_of helm_statusColorMap status) ''default'',
          or_str (map_of helm_statusLabelMap status) (if s = [] then ''-'' else s)))"

definition DEFAULT_VALUES_YAML :: string where
  "DEFAULT_VALUES_YAML = (''# Helm values.yaml'' @
     [CHR 0x0A] @
     ''# '' @
     [CHR 0xE7, CHR 0xA4, CHR 0xBA, CHR 0xE4, CHR 0xBE, CHR 0x8B, CHR 0xEF, CHR 0xBC,
      CHR 0x9A, CHR 0x0A] @
     ''# replicaCount: 1'' @
     [CHR 0x0A] @
     ''# image:'' @
     [CHR 0x0A] @
     ''#   repository: nginx'' @
     [CHR 0x0A] @
     ''#   tag: alpine'' @
     [CHR 0x0A] @
     ''# service:'' @
     [CHR 0x0A] @
     ''#   type: ClusterIP'' @
     [CHR 0x0A] @
     ''#   port: 80'' @
     [CHR 0x0A])"

definition or_dash :: "string \<Rightarrow> string" where
  "or_dash s = (if s = [] then ''-'' else s)"

text \<open>Revision, status, chart with its application version, and the time of the last update.\<close>

definition helm_cells ::
  "(string \<Rightarrow> string option) \<Rightarrow> helm_release \<Rightarrow> string \<times> (string \<times> string) \<times> string list \<times> string" where
  "helm_cells date r =
     (''rev '' @ or_dash (hr_revision r), helm_status_tag (hr_status r),
      or_dash (hr_chart r) # (if hr_appVersion r \<noteq> [] then [''app: '' @ hr_appVersion r] else []),
      if hr_updated r = [] then ''-''
      else case date (hr_updated r) of None \<Rightarrow> hr_updated r | Some t \<Rightarrow> t)"

subsection \<open>Cluster and namespace\<close>

record helm_page =
  hl_clusterCode :: "string option"
  hl_namespace :: string

record helm_perms =
  hp_view :: bool
  hp_install :: bool
  hp_uninstall :: bool
  hp_rollback :: bool

definition helm_list_perms :: "current_user option \<Rightarrow> helm_perms" where
  "helm_list_perms u =
     \<lparr>hp_view = hasPerm u ''helm:view'', hp_install = hasPerm u ''helm:install'',
      hp_uninstall = hasPerm u ''helm:uninstall'', hp_rollback = hasPerm u ''helm:rollback''\<rparr>"

definition helm_init :: "string option \<Rightarrow> helm_page" where
  "helm_init selected = \<lparr>hl_clusterCode = selected, hl_namespace = []\<rparr>"

definition helm_cluster_effect :: "string option \<Rightarrow> helm_page \<Rightarrow> helm_page" where
  "helm_cluster_effect selected s =
     (if truthy selected \<and> \<not> truthy (hl_clusterCode s) then s\<lparr>hl_clusterCode := selected\<rparr> else s)"

definition helm_namespaceOptions :: "bool \<Rightarrow> string list \<Rightarrow> (string \<times> string) list" where
  "helm_namespaceOptions full nsData =
     (let opts = map (\<lambda>n. (n, n)) nsData
      in if full then ([CHR 0xEF, CHR 0xBC, CHR 0x88, CHR 0xE5, CHR 0x85, CHR 0xA8, CHR 0xE9, CHR 0x83,
      CHR 0xA8, CHR 0xE5, CHR 0x91, CHR 0xBD, CHR 0xE5, CHR 0x90, CHR 0x8D, CHR 0xE7,
      CHR 0xA9, CHR 0xBA, CHR 0xE9, CHR 0x97, CHR 0xB4, CHR 0xEF, CHR 0xBC, CHR 0x89], []) # opts else opts)"

definition helm_namespace_effect :: "bool \<Rightarrow> string list \<Rightarrow> helm_page \<Rightarrow> helm_page" where
  "helm_namespace_effect full nsData s =
     (if \<not> full \<and> nsData \<noteq> [] \<and> hl_namespace s \<notin> set nsData
      then s\<lparr>hl_namespace := hd nsData\<rparr> else s)"

definition helm_list_query :: "helm_page \<Rightarrow> helm_query" where
  "helm_list_query s =
     ListReleases (or_str (hl_clusterCode s) []) (if hl_namespace s = [] then None else Some (hl_namespace s))"

definition helm_list_skip :: "helm_perms \<Rightarrow> bool \<Rightarrow> helm_page \<Rightarrow> bool" where
  "helm_list_skip p full s \<longleftrightarrow>
     \<not> hp_view p \<or> \<not> truthy (hl_clusterCode s) \<or> \<not> full \<and> hl_namespace s = []"

text \<open>The two selects: the new state and the cluster selected in the header.\<close>

definition helm_change_cluster :: "string option \<Rightarrow> helm_page \<Rightarrow> helm_page \<times> string option" where
  "helm_change_cluster v s =
     (s\<lparr>hl_clusterCode := (if truthy v then v else None), hl_namespace := []\<rparr>,
      if truthy v then v else None)"

definition helm_change_namespace :: "string option \<Rightarrow> helm_page \<Rightarrow> helm_page" where
  "helm_change_namespace v s = s\<lparr>hl_namespace := or_str v []\<rparr>"

definition helm_table :: "helm_page \<Rightarrow> 'i list option \<Rightarrow> 'i list \<times> string" where
  "helm_table s items =
     (if \<not> truthy (hl_clusterCode s) then ([], [CHR 0xE8, CHR 0xAF, CHR 0xB7, CHR 0xE5, CHR 0x85, CHR 0x88, CHR 0xE9, CHR 0x80,
      CHR 0x89, CHR 0xE6, CHR 0x8B, CHR 0xA9, CHR 0xE9, CHR 0x9B, CHR 0x86, CHR 0xE7,
      CHR 0xBE, CHR 0xA4])
      else (case items of None \<Rightarrow> [] | Some xs \<Rightarrow> xs, ([CHR 0xE8, CHR 0xAF, CHR 0xA5, CHR 0xE9, CHR 0x9B, CHR 0x86, CHR 0xE7, CHR 0xBE,
      CHR 0xA4, CHR 0xE4, CHR 0xB8, CHR 0x8B, CHR 0xE6, CHR 0x9A, CHR 0x82, CHR 0xE6,
      CHR 0x97, CHR 0xA0] @
     '' Helm Release'')))"

subsection \<open>Installing a release\<close>

record install_form =
  if_release_name :: "string option"
  if_namespace :: "string option"
  if_chart_ref :: "string option"
  if_repo_url :: "string option"
  if_version :: "string option"
  if_values :: "string option"
  if_wait :: bool
  if_dry_run :: bool

record install_drawer =
  id_open :: bool
  id_form :: install_form

text \<open>\<open>get\<close> is the lookup in the query string of the page.\<close>

definition openInstallDrawer ::
  "helm_perms \<Rightarrow> (string \<Rightarrow> string option) \<Rightarrow> helm_page \<Rightarrow> install_drawer
    \<Rightarrow> install_drawer \<times> helm_mutation page_effect list" where
  "openInstallDrawer p get s d =
     (if \<not> truthy (hl_clusterCode s) then (d, [PToast ToastWarn [CHR 0xE8, CHR 0xAF, CHR 0xB7, CHR 0xE5, CHR 0x85, CHR 0x88, CHR 0xE9, CHR 0x80,
      CHR 0x89, CHR 0xE6, CHR 0x8B, CHR 0xA9, CHR 0xE9, CHR 0x9B, CHR 0x86, CHR 0xE7,
      CHR 0xBE, CHR 0xA4]])
      else if \<not> hp_install p then (d, [PToast ToastFail ([CHR 0xE6, CHR 0x97, CHR 0xA0] @
     '' Helm '' @
     [CHR 0xE5, CHR 0xAE, CHR 0x89, CHR 0xE8, CHR 0xA3, CHR 0x85, CHR 0xE6, CHR 0x9D,
      CHR 0x83, CHR 0xE9, CHR 0x99, CHR 0x90])])
      else (\<lparr>id_open = True,
             id_form = \<lparr>if_release_name = Some [],
               if_namespace = Some (if hl_namespace s = [] then ''default'' else hl_namespace s),
               if_chart_ref = Some (or_str (get ''chart_ref'') []), if_repo_url = Some [],
               if_version = Some (or_str (get ''version'') []), if_values = Some DEFAULT_VALUES_YAML,
               if_wait = False, if_dry_run = False\<rparr>\<rparr>, []))"

text \<open>The effect that runs whenever the cluster of the page changes.\<close>

definition auto_open_effect ::
  "helm_perms \<Rightarrow> (string \<Rightarrow> string option) \<Rightarrow> helm_page \<Rightarrow> install_drawer
    \<Rightarrow> install_drawer \<times> helm_mutation page_effect list" where
  "auto_open_effect p get s d =
     (if truthy (get ''chart_ref'') \<and> truthy (hl_clusterCode s) \<and> hp_install p
      then openInstallDrawer p get s d else (d, []))"

text \<open>The three required fields; a blank text is not empty.\<close>

definition install_valid :: "install_form \<Rightarrow> bool" where
  "install_valid f \<longleftrightarrow> truthy (if_release_name f) \<and> truthy (if_namespace f) \<and> truthy (if_chart_ref f)"

definition trim_or_none :: "string option \<Rightarrow> string option" where
  "trim_or_none v =
     (case v of None \<Rightarrow> None | Some t \<Rightarrow> if js_trim t = [] then None else Some (js_trim t))"

definition install_body :: "install_form \<Rightarrow> install_release_body" where
  "install_body f =
     \<lparr>ir_release_name = js_trim (the (if_release_name f)), ir_namespace = js_trim (the (if_namespace f)),
      ir_chart_ref = js_trim (the (if_chart_ref f)), ir_repo_url = trim_or_none (if_repo_url f),
      ir_values = trim_or_none (if_values f), ir_version = trim_or_none (if_version f),
      ir_wait = Some (if_wait f), ir_dry_run = Some (if_dry_run f)\<rparr>"

definition handleInstallConfirm ::
  "helm_page \<Rightarrow> install_drawer \<Rightarrow> bool \<Rightarrow> install_drawer \<times> helm_mutation page_effect list" where
  "handleInstallConfirm s d ok =
     (let f = id_form d; body = install_body f
      in if \<not> truthy (hl_clusterCode s) \<or> \<not> install_valid f then (d, [])
         else (if ok \<and> \<not> if_dry_run f then d\<lparr>id_open := False\<rparr> else d,
               try_send (InstallRelease (the (hl_clusterCode s)) body) ok
                 (if if_dry_run f then [PToast ToastOk (''Dry-run '' @
     [CHR 0xE9, CHR 0xAA, CHR 0x8C, CHR 0xE8, CHR 0xAF, CHR 0x81, CHR 0xE5, CHR 0xAE,
      CHR 0x8C, CHR 0xE6, CHR 0x88, CHR 0x90])]
                  else [PToast ToastOk ((''Release'' @
     [CHR 0xE3, CHR 0x80, CHR 0x8C]) @ ir_release_name body @ ([CHR 0xE3, CHR 0x80, CHR 0x8D, CHR 0xE5, CHR 0xAE, CHR 0x89, CHR 0xE8, CHR 0xA3,
      CHR 0x85] @
     ''/'' @
     [CHR 0xE5, CHR 0x8D, CHR 0x87, CHR 0xE7, CHR 0xBA, CHR 0xA7, CHR 0xE5, CHR 0xB7,
      CHR 0xB2, CHR 0xE6, CHR 0x8F, CHR 0x90, CHR 0xE4, CHR 0xBA, CHR 0xA4])),
                        PRefetch])))"

subsection \<open>Removal, rollback and history\<close>

definition handleUninstall ::
  "helm_perms \<Rightarrow> helm_page \<Rightarrow> helm_release \<Rightarrow> bool \<Rightarrow> helm_mutation page_effect list" where
  "handleUninstall p s r ok =
     (if \<not> truthy (hl_clusterCode s) \<or> \<not> hp_uninstall p then []
      else try_send (UninstallRelease (the (hl_clusterCode s)) (hr_namespace r) (hr_name r)) ok
             [PToast ToastOk ((''Release'' @
     [CHR 0xE3, CHR 0x80, CHR 0x8C]) @ hr_name r @ [CHR 0xE3, CHR 0x80, CHR 0x8D, CHR 0xE5, CHR 0xB7, CHR 0xB2, CHR 0xE5, CHR 0x8D,
      CHR 0xB8, CHR 0xE8, CHR 0xBD, CHR 0xBD]), PRefetch])"

definition helm_rollback_text :: "helm_release \<Rightarrow> int option \<Rightarrow> string" where
  "helm_rollback_text r revision =
     (case revision of
        Some n \<Rightarrow> if n \<noteq> 0 then ([CHR 0xE5, CHR 0xB7, CHR 0xB2, CHR 0xE5, CHR 0x9B, CHR 0x9E, CHR 0xE6, CHR 0xBB,
      CHR 0x9A] @
     '' Release'' @
     [CHR 0xE3, CHR 0x80, CHR 0x8C]) @ hr_name r @ ([CHR 0xE3, CHR 0x80, CHR 0x8D, CHR 0xE5, CHR 0x88, CHR 0xB0] @
     '' revision '') @ show_int n
                 else (''Release'' @
     [CHR 0xE3, CHR 0x80, CHR 0x8C]) @ hr_name r @ [CHR 0xE3, CHR 0x80, CHR 0x8D, CHR 0xE5, CHR 0xB7, CHR 0xB2, CHR 0xE5, CHR 0x9B,
      CHR 0x9E, CHR 0xE6, CHR 0xBB, CHR 0x9A, CHR 0xE5, CHR 0x88, CHR 0xB0, CHR 0xE4,
      CHR 0xB8, CHR 0x8A, CHR 0xE4, CHR 0xB8, CHR 0x80, CHR 0xE7, CHR 0x89, CHR 0x88,
      CHR 0xE6, CHR 0x9C, CHR 0xAC]
      | None \<Rightarrow> (''Release'' @
     [CHR 0xE3, CHR 0x80, CHR 0x8C]) @ hr_name r @ [CHR 0xE3, CHR 0x80, CHR 0x8D, CHR 0xE5, CHR 0xB7, CHR 0xB2, CHR 0xE5, CHR 0x9B,
      CHR 0x9E, CHR 0xE6, CHR 0xBB, CHR 0x9A, CHR 0xE5, CHR 0x88, CHR 0xB0, CHR 0xE4,
      CHR 0xB8, CHR 0x8A, CHR 0xE4, CHR 0xB8, CHR 0x80, CHR 0xE7, CHR 0x89, CHR 0x88,
      CHR 0xE6, CHR 0x9C, CHR 0xAC])"

definition helm_handleRollback ::
  "helm_perms \<Rightarrow> helm_page \<Rightarrow> helm_release \<Rightarrow> int option \<Rightarrow> bool \<Rightarrow> helm_mutation page_effect list" where
  "helm_handleRollback p s r revision ok =
     (if \<not> truthy (hl_clusterCode s) \<or> \<not> hp_rollback p then []
      else try_send (RollbackRelease (the (hl_clusterCode s)) (hr_namespace r) (hr_name r) revision) ok
             [PToast ToastOk (helm_rollback_text r revision), PRefetch])"

definition openHistoryDrawer ::
  "helm_perms \<Rightarrow> helm_release \<Rightarrow> helm_release option
    \<Rightarrow> helm_release option \<times> helm_mutation page_effect list" where
  "openHistoryDrawer p r d =
     (if \<not> hp_view p then (d, [PToast ToastFail ([CHR 0xE6, CHR 0x97, CHR 0xA0] @
     '' Helm '' @
     [CHR 0xE6, CHR 0x9F, CHR 0xA5, CHR 0xE7, CHR 0x9C, CHR 0x8B, CHR 0xE6, CHR 0x9D,
      CHR 0x83, CHR 0xE9, CHR 0x99, CHR 0x90])]) else (Some r, []))"

definition history_query :: "string \<Rightarrow> helm_release option \<Rightarrow> helm_query option" where
  "history_query clusterCode rec =
     (case rec of
        None \<Rightarrow> None
      | Some r \<Rightarrow> if clusterCode = [] then None else Some (ListHistory clusterCode (hr_namespace r) (hr_name r)))"

text \<open>The action of a row of the history: its label and whether it is disabled.\<close>

definition history_action :: "bool \<Rightarrow> helm_release \<Rightarrow> helm_history_item \<Rightarrow> string \<times> bool" where
  "history_action canRollback r item =
     (let current = (hr_revision r = show_int (hh_revision item))
      in (if current then [CHR 0xE5, CHR 0xBD, CHR 0x93, CHR 0xE5, CHR 0x89, CHR 0x8D, CHR 0xE7, CHR 0x89,
      CHR 0x88, CHR 0xE6, CHR 0x9C, CHR 0xAC] else [CHR 0xE5, CHR 0x9B, CHR 0x9E, CHR 0xE6, CHR 0xBB, CHR 0x9A, CHR 0xE5, CHR 0x88,
      CHR 0xB0, CHR 0xE6, CHR 0xAD, CHR 0xA4], \<not> canRollback \<or> current))"

definition history_cells :: "(string \<Rightarrow> string option) \<Rightarrow> helm_history_item
    \<Rightarrow> string \<times> (string \<times> string) \<times> string \<times> string" where
  "history_cells date item =
     (''rev '' @ show_int (hh_revision item), helm_status_tag (hh_status item),
      or_dash (hh_description item),
      if hh_updated item = [] then ''-''
      else case date (hh_updated item) of None \<Rightarrow> hh_updated item | Some t \<Rightarrow> t)"

definition release_summary :: "string \<Rightarrow> helm_release \<Rightarrow> (string \<times> string) list" where
  "release_summary clusterCode r =
     [([CHR 0xE9, CHR 0x9B, CHR 0x86, CHR 0xE7, CHR 0xBE, CHR 0xA4], clusterCode), ([CHR 0xE5, CHR 0x91, CHR 0xBD, CHR 0xE5, CHR 0x90, CHR 0x8D, CHR 0xE7, CHR 0xA9,
      CHR 0xBA, CHR 0xE9, CHR 0x97, CHR 0xB4], hr_namespace r), (''Release'', hr_name r),
      (([CHR 0xE5, CHR 0xBD, CHR 0x93, CHR 0xE5, CHR 0x89, CHR 0x8D] @
     '' Revision''), hr_revision r), ([CHR 0xE7, CHR 0x8A, CHR 0xB6, CHR 0xE6, CHR 0x80, CHR 0x81], hr_status r), (''Chart'', hr_chart r),
      (''App Version'', or_dash (hr_appVersion r)), ([CHR 0xE6, CHR 0x9C, CHR 0x80, CHR 0xE8, CHR 0xBF, CHR 0x91, CHR 0xE6, CHR 0x9B,
      CHR 0xB4, CHR 0xE6, CHR 0x96, CHR 0xB0], or_dash (hr_updated r))]"

subsection \<open>Repositories and charts\<close>

record add_repo_form =
  af_name :: string
  af_url :: string
  af_username :: "string option"
  af_password :: "string option"

text \<open>The pattern \<open>^[A-Za-z0-9][A-Za-z0-9._-]{0,63}$\<close>; \<open>is_url\<close> is the rule of the form library.\<close>

definition valid_repo_name :: "string \<Rightarrow> bool" where
  "valid_repo_name s \<longleftrightarrow>
     (case s of [] \<Rightarrow> False
      | c # cs \<Rightarrow> is_alnum c \<and> list_all (\<lambda>x. is_alnum x \<or> x \<in> set ''._-'') cs \<and> length cs \<le> 63)"

definition add_repo_valid :: "(string \<Rightarrow> bool) \<Rightarrow> add_repo_form \<Rightarrow> bool" where
  "add_repo_valid is_url f \<longleftrightarrow> valid_repo_name (af_name f) \<and> af_url f \<noteq> [] \<and> is_url (af_url f)"

text \<open>The drawer is left open (\<open>True\<close>) unless the repository was added.\<close>

definition handleAdd ::
  "(string \<Rightarrow> bool) \<Rightarrow> add_repo_form \<Rightarrow> bool \<Rightarrow> bool \<times> helm_mutation page_effect list" where
  "handleAdd is_url f ok =
     (if \<not> add_repo_valid is_url f then (True, [])
      else (\<not> ok, try_send (AddRepo \<lparr>ar_name = js_trim (af_name f), ar_url = js_trim (af_url f),
               ar_username = trim_or_none (af_username f),
               ar_password = (if truthy (af_password f) then af_password f else None)\<rparr>) ok
             [PToast ToastOk ([CHR 0xE4, CHR 0xBB, CHR 0x93, CHR 0xE5, CHR 0xBA, CHR 0x93, CHR 0xE3, CHR 0x80,
      CHR 0x8C] @ js_trim (af_name f) @ [CHR 0xE3, CHR 0x80, CHR 0x8D, CHR 0xE5, CHR 0xB7, CHR 0xB2, CHR 0xE6, CHR 0xB7,
      CHR 0xBB, CHR 0xE5, CHR 0x8A, CHR 0xA0])]))"

definition press_add :: "current_user option \<Rightarrow> (string \<Rightarrow> bool) \<Rightarrow> add_repo_form \<Rightarrow> bool
    \<Rightarrow> helm_mutation page_effect list" where
  "press_add u is_url f ok = (if \<not> hasPerm u ''helm:install'' then [] else snd (handleAdd is_url f ok))"

definition handleUpdate :: "string option \<Rightarrow> bool \<Rightarrow> helm_mutation page_effect list" where
  "handleUpdate name ok =
     try_send (UpdateRepos (if truthy name then name else None)) ok
       [PToast ToastOk (if truthy name then [CHR 0xE4, CHR 0xBB, CHR 0x93, CHR 0xE5, CHR 0xBA, CHR 0x93, CHR 0xE3, CHR 0x80,
      CHR 0x8C] @ the name @ [CHR 0xE3, CHR 0x80, CHR 0x8D, CHR 0xE7, CHR 0xB4, CHR 0xA2, CHR 0xE5, CHR 0xBC,
      CHR 0x95, CHR 0xE5, CHR 0xB7, CHR 0xB2, CHR 0xE6, CHR 0x9B, CHR 0xB4, CHR 0xE6,
      CHR 0x96, CHR 0xB0]
          else [CHR 0xE5, CHR 0x85, CHR 0xA8, CHR 0xE9, CHR 0x83, CHR 0xA8, CHR 0xE4, CHR 0xBB,
      CHR 0x93, CHR 0xE5, CHR 0xBA, CHR 0x93, CHR 0xE7, CHR 0xB4, CHR 0xA2, CHR 0xE5,
      CHR 0xBC, CHR 0x95, CHR 0xE5, CHR 0xB7, CHR 0xB2, CHR 0xE6, CHR 0x9B, CHR 0xB4,
      CHR 0xE6, CHR 0x96, CHR 0xB0]), PRefetch]"

definition press_update :: "current_user option \<Rightarrow> string option \<Rightarrow> bool \<Rightarrow> helm_mutation page_effect list" where
  "press_update u name ok = (if \<not> hasPerm u ''helm:install'' then [] else handleUpdate name ok)"

definition confirm_remove :: "current_user option \<Rightarrow> string \<Rightarrow> bool \<Rightarrow> helm_mutation page_effect list" where
  "confirm_remove u name ok =
     (if \<not> hasPerm u ''helm:install'' then []
      else try_send (RemoveRepo name) ok [PToast ToastOk ([CHR 0xE5, CHR 0xB7, CHR 0xB2, CHR 0xE7, CHR 0xA7, CHR 0xBB, CHR 0xE9, CHR 0x99,
      CHR 0xA4, CHR 0xE4, CHR 0xBB, CHR 0x93, CHR 0xE5, CHR 0xBA, CHR 0x93, CHR 0xE3,
      CHR 0x80, CHR 0x8C] @ name @ [CHR 0xE3, CHR 0x80, CHR 0x8D])])"

definition repos_skip :: "current_user option \<Rightarrow> bool" where
  "repos_skip u \<longleftrightarrow> \<not> hasPerm u ''helm:view''"

definition charts_skip :: "current_user option \<Rightarrow> helm_repo list \<Rightarrow> bool" where
  "charts_skip u repos \<longleftrightarrow> \<not> hasPerm u ''helm:view'' \<or> repos = []"

definition repoOptions :: "helm_repo list \<Rightarrow> (string \<times> string) list" where
  "repoOptions repos = ([CHR 0xE5, CHR 0x85, CHR 0xA8, CHR 0xE9, CHR 0x83, CHR 0xA8, CHR 0xE4, CHR 0xBB,
      CHR 0x93, CHR 0xE5, CHR 0xBA, CHR 0x93], []) # map (\<lambda>r. (rp_name r, rp_name r)) repos"

definition chart_query :: "string \<Rightarrow> string \<Rightarrow> helm_query" where
  "chart_query repo keyword =
     SearchCharts (if repo = [] then None else Some repo) (if keyword = [] then None else Some keyword)"

definition chart_link :: "helm_chart \<Rightarrow> string" where
  "chart_link r = ''/helm/list?'' @ usp_toString [(''chart_ref'', hc_name r), (''version'', hc_version r)]"

definition repos_error_text :: "string \<Rightarrow> string" where
  "repos_error_text errMsg =
     errMsg @ ([CHR 0xE3, CHR 0x80, CHR 0x82, CHR 0xE8, CHR 0xAF, CHR 0xB7, CHR 0xE7, CHR 0xA1,
      CHR 0xAE, CHR 0xE8, CHR 0xAE, CHR 0xA4, CHR 0xE5, CHR 0xB9, CHR 0xB3, CHR 0xE5,
      CHR 0x8F, CHR 0xB0, CHR 0xE6, CHR 0x89, CHR 0x80, CHR 0xE5, CHR 0x9C, CHR 0xA8,
      CHR 0xE8, CHR 0x8A, CHR 0x82, CHR 0xE7, CHR 0x82, CHR 0xB9, CHR 0xE5, CHR 0xB7,
      CHR 0xB2, CHR 0xE5, CHR 0xAE, CHR 0x89, CHR 0xE8, CHR 0xA3, CHR 0x85] @
     '' helm CLI'' @
     [CHR 0xEF, CHR 0xBC, CHR 0x8C, CHR 0xE4, CHR 0xB8, CHR 0x94, CHR 0xE5, CHR 0xBD,
      CHR 0x93, CHR 0xE5, CHR 0x89, CHR 0x8D, CHR 0xE8, CHR 0xB4, CHR 0xA6, CHR 0xE5,
      CHR 0x8F, CHR 0xB7, CHR 0xE5, CHR 0x85, CHR 0xB7, CHR 0xE5, CHR 0xA4, CHR 0x87] @
     '' helm:view '' @
     [CHR 0xE6, CHR 0x9D, CHR 0x83, CHR 0xE9, CHR 0x99, CHR 0x90, CHR 0xE3, CHR 0x80,
      CHR 0x82])"

subsection \<open>Properties\<close>

interpretation helm_uninstall: silent_handler "\<lambda>(p, s, r). hp_uninstall p"
  "\<lambda>(p, s, r) ok. handleUninstall p s r ok"
  by unfold_locales (auto simp: handleUninstall_def split: if_splits)

interpretation helm_rollback: silent_handler "\<lambda>(p, s, r, n). hp_rollback p"
  "\<lambda>(p, s, r, n) ok. helm_handleRollback p s r n ok"
  by unfold_locales (auto simp: helm_handleRollback_def split: if_splits)

interpretation repo_add: silent_handler "\<lambda>(u, is_url, f). hasPerm u ''helm:install''"
  "\<lambda>(u, is_url, f) ok. press_add u is_url f ok"
  by unfold_locales (auto simp: press_add_def handleAdd_def split: if_splits)

interpretation repo_update: silent_handler "\<lambda>(u, n). hasPerm u ''helm:install''"
  "\<lambda>(u, n) ok. press_update u n ok"
  by unfold_locales (auto simp: press_update_def handleUpdate_def split: if_splits)

interpretation repo_remove: silent_handler "\<lambda>(u, n). hasPerm u ''helm:install''"
  "\<lambda>(u, n) ok. confirm_remove u n ok"
  by unfold_locales (auto simp: confirm_remove_def split: if_splits)

interpretation helm_install: silent_handler "\<lambda>(s, d). install_valid (id_form d)"
  "\<lambda>(s, d) ok. snd (handleInstallConfirm s d ok)"
  by unfold_locales (auto simp: handleInstallConfirm_def Let_def split: if_splits)

lemma js_trim_clean: "list_all (\<lambda>c. \<not> js_space c) s \<Longrightarrow> js_trim s = s"
proof -
  assume "list_all (\<lambda>c. \<not> js_space c) s"
  then have "dropWhile js_space t = t" if "set t = set s" for t
    using that by (cases t) (auto simp: list_all_iff)
  then show ?thesis by (simp add: js_trim_def)
qed

text \<open>The name of a repository is sent as it was accepted.\<close>

lemma valid_repo_name_trim: "valid_repo_name s \<Longrightarrow> js_trim s = s"
  by (rule js_trim_clean)
    (auto simp: valid_repo_name_def is_alnum_def js_space_def list_all_iff Let_def split: list.splits)

text \<open>
  A chart is installed as it was found: the link of a search result opens the release page with
  a form that names exactly that chart and version, and submitting it with a release name sends
  one request to the cluster of the page with that chart reference and version, trimmed, an
  empty version left out, and the drawer closes only when the server took a real installation.
\<close>

theorem chart_link_installs:
  assumes "truthy (hl_clusterCode s)" and "hp_install p" and "hc_name r \<noteq> []" and "name \<noteq> []"
    and "d = fst (auto_open_effect p (searchParams_get (location_search (chart_link r))) s d0)"
    and "d' = d\<lparr>id_form := (id_form d)\<lparr>if_release_name := Some name\<rparr>\<rparr>"
  shows "id_open d \<and> if_chart_ref (id_form d) = Some (hc_name r)
    \<and> if_version (id_form d) = Some (hc_version r)
    \<and> sends (snd (handleInstallConfirm s d' ok)) =
        [InstallRelease (the (hl_clusterCode s))
          \<lparr>ir_release_name = js_trim name,
           ir_namespace = js_trim (if hl_namespace s = [] then ''default'' else hl_namespace s),
           ir_chart_ref = js_trim (hc_name r), ir_repo_url = None,
           ir_values = Some (js_trim DEFAULT_VALUES_YAML),
           ir_version = (if js_trim (hc_version r) = [] then None else Some (js_trim (hc_version r))),
           ir_wait = Some False, ir_dry_run = Some False\<rparr>]
    \<and> id_open (fst (handleInstallConfirm s d' ok)) = (\<not> ok)"
proof -
  let ?kvs = "[(''chart_ref'', hc_name r), (''version'', hc_version r)]"
  have url: "chart_link r = ''/helm/list'' @ ''?'' @ join_query form_encode ?kvs"
    by (simp add: chart_link_def usp_toString_def)
  have get: "searchParams_get (location_search (chart_link r)) k = map_of ?kvs k" for k
    unfolding url by (rule usp.get_link) simp_all
  have version: "or_str (Some (hc_version r)) [] = hc_version r"
    by (simp add: or_str_def)
  have d: "d = \<lparr>id_open = True,
      id_form = \<lparr>if_release_name = Some [],
        if_namespace = Some (if hl_namespace s = [] then ''default'' else hl_namespace s),
        if_chart_ref = Some (hc_name r), if_repo_url = Some [], if_version = Some (hc_version r),
        if_values = Some DEFAULT_VALUES_YAML, if_wait = False, if_dry_run = False\<rparr>\<rparr>"
    using assms(1-3) by (simp add: assms(5) auto_open_effect_def openInstallDrawer_def get version)
  have "js_trim DEFAULT_VALUES_YAML \<noteq> []" by code_simp
  moreover have "js_trim [] = []" by code_simp
  ultimately show ?thesis
    using assms(1-4) by (simp add: assms(6) d handleInstallConfirm_def install_valid_def
        install_body_def trim_or_none_def Let_def)
qed

definition demo_helm_perms :: helm_perms where
  "demo_helm_perms = \<lparr>hp_view = True, hp_install = True, hp_uninstall = False, hp_rollback = False\<rparr>"

definition demo_drawer :: install_drawer where
  "demo_drawer = \<lparr>id_open = False, id_form = \<lparr>if_release_name = None, if_namespace = None,
     if_chart_ref = None, if_repo_url = None, if_version = None, if_values = None, if_wait = False,
     if_dry_run = False\<rparr>\<rparr>"

theorem chart_link_installs_witness:
  "if_chart_ref (id_form (fst (auto_open_effect demo_helm_perms
     (searchParams_get (location_search (chart_link
        \<lparr>hc_name = ''bitnami/redis'', hc_version = ''18.1.0+a'', hc_app_version = [], hc_description = []\<rparr>)))
     \<lparr>hl_clusterCode = Some ''c1'', hl_namespace = []\<rparr> demo_drawer))) = Some ''bitnami/redis''"
  using chart_link_installs [of "\<lparr>hl_clusterCode = Some ''c1'', hl_namespace = []\<rparr>" demo_helm_perms
      "\<lparr>hc_name = ''bitnami/redis'', hc_version = ''18.1.0+a'', hc_app_version = [], hc_description = []\<rparr>"
      "''r''", OF _ _ _ _ refl refl]
  by (simp add: demo_helm_perms_def)

text \<open>
  The form opens again, emptied, at every change of the cluster as long as the link is in the
  URL, although it is meant to open once.
\<close>

lemma auto_open_again:
  assumes "truthy (get ''chart_ref'')" and "hp_install p" and "truthy c"
  shows "id_open (fst (auto_open_effect p get (fst (helm_change_cluster c s)) d))
    \<and> if_release_name (id_form (fst (auto_open_effect p get (fst (helm_change_cluster c s)) d))) = Some []"
  using assms by (simp add: auto_open_effect_def openInstallDrawer_def helm_change_cluster_def)

text \<open>A blank release name passes the form and is sent as an empty one.\<close>

lemma blank_release_name_sent:
  assumes "truthy (hl_clusterCode s)" and "if_release_name (id_form d) = Some '' ''"
    and "truthy (if_namespace (id_form d))" and "truthy (if_chart_ref (id_form d))"
  shows "\<exists>b. sends (snd (handleInstallConfirm s d ok)) = [InstallRelease (the (hl_clusterCode s)) b]
    \<and> ir_release_name b = []"
proof -
  have "js_trim '' '' = []" by code_simp
  then show ?thesis
    using assms by (simp add: handleInstallConfirm_def install_valid_def install_body_def Let_def)
qed

text \<open>
  The history panel keeps the release as it was when it was opened: after a rollback the old
  revision is still marked as the current one and cannot be rolled back to, and the new one can.
\<close>

lemma history_marks_old_revision:
  assumes "hr_revision r = show_int old" and "hh_revision a = old" and "hh_revision b = new"
    and "show_int new \<noteq> show_int old"
  shows "history_action True r a = ([CHR 0xE5, CHR 0xBD, CHR 0x93, CHR 0xE5, CHR 0x89, CHR 0x8D, CHR 0xE7, CHR 0x89,
      CHR 0x88, CHR 0xE6, CHR 0x9C, CHR 0xAC], True) \<and> history_action True r b = ([CHR 0xE5, CHR 0x9B, CHR 0x9E, CHR 0xE6, CHR 0xBB, CHR 0x9A, CHR 0xE5, CHR 0x88,
      CHR 0xB0, CHR 0xE6, CHR 0xAD, CHR 0xA4], False)
    \<and> helm_provides (ListHistory c (hr_namespace r) (hr_name r)) = []"
  using assms by (simp add: history_action_def Let_def)

text \<open>The states that Helm spells with a hyphen are not in the table of labels.\<close>

lemma helm_hyphen_status:
  "helm_status_tag ''pending-install'' = (''default'', ''pending-install'')"
  "helm_status_tag ''DEPLOYED'' = (''success'', [CHR 0xE5, CHR 0xB7, CHR 0xB2, CHR 0xE9, CHR 0x83, CHR 0xA8, CHR 0xE7, CHR 0xBD,
      CHR 0xB2])"
  by code_simp+

end
