(* ===== verification/UsersPage.thy ===== *)
theory UsersPage
  imports Pages Permission RbacService
begin

section \<open>Users and their roles\<close>

text \<open>
  \<open>pages/users/list.tsx\<close>: the list with its filters and cells, the forms that create and edit a
  user, the status switch, the reset of a password, and the drawer that binds roles. A text that
  the table hands to a cell is its argument; lengths are those of ASCII texts; \<open>is_email\<close> is the
  rule of the form library. The reply of a request is \<open>Some\<close> message, \<open>None\<close> a rejection.
\<close>

definition user_statusLabelMap :: "(int \<times> string) list" where
  "user_statusLabelMap = [(1, [CHR 0xE5, CHR 0x90, CHR 0xAF, CHR 0xE7, CHR 0x94, CHR 0xA8]), (2, [CHR 0xE7, CHR 0xA6, CHR 0x81, CHR 0xE7, CHR 0x94, CHR 0xA8]), (3, [CHR 0xE9, CHR 0x94, CHR 0x81, CHR 0xE5, CHR 0xAE, CHR 0x9A])]"

definition user_statusColorMap :: "(int \<times> string) list" where
  "user_statusColorMap = [(1, ''success''), (2, ''error''), (3, ''warning'')]"

definition scopeLabelMap :: "rbac_scope \<Rightarrow> string" where
  "scopeLabelMap s = (case s of RScopePlatform \<Rightarrow> [CHR 0xE5, CHR 0xB9, CHR 0xB3, CHR 0xE5, CHR 0x8F, CHR 0xB0] | RScopeCluster \<Rightarrow> [CHR 0xE9, CHR 0x9B, CHR 0x86, CHR 0xE7, CHR 0xBE, CHR 0xA4]
     | RScopeNamespace \<Rightarrow> [CHR 0xE5, CHR 0x91, CHR 0xBD, CHR 0xE5, CHR 0x90, CHR 0x8D, CHR 0xE7, CHR 0xA9,
      CHR 0xBA, CHR 0xE9, CHR 0x97, CHR 0xB4])"

subsection \<open>The list\<close>

definition can_manage_users :: "current_user option \<Rightarrow> bool" where
  "can_manage_users u \<longleftrightarrow> hasPerm u ''user:manage''"

text \<open>The filters, which the pages of users and of roles share in shape.\<close>

definition users_init :: list_params where
  "users_init = \<lparr>lp_page = Some 1, lp_page_size = Some 10, lp_keyword = None, lp_status = None\<rparr>"

definition users_handleSearch :: "string \<Rightarrow> list_params \<Rightarrow> list_params" where
  "users_handleSearch keyword f =
     f\<lparr>lp_keyword := (if keyword = [] then None else Some keyword), lp_page := Some 1\<rparr>"

definition users_handlePageChange :: "int \<Rightarrow> int \<Rightarrow> list_params \<Rightarrow> list_params" where
  "users_handlePageChange p sz f = f\<lparr>lp_page := Some p, lp_page_size := Some sz\<rparr>"

definition count_tag :: "int \<Rightarrow> string" where
  "count_tag n = (if n \<noteq> 0 then show_int n else ''0'')"

datatype status_control =
    StatusTag string string
  | StatusSwitch bool string

definition user_status_cell :: "bool \<Rightarrow> int \<Rightarrow> status_control" where
  "user_status_cell canUpdate st =
     (if \<not> canUpdate
      then StatusTag (or_str (map_of user_statusColorMap st) ''default'')
             (or_str (map_of user_statusLabelMap st) ''-'')
      else StatusSwitch (st = 1)
             (if st = 1 then [CHR 0xE7, CHR 0xA1, CHR 0xAE, CHR 0xE8, CHR 0xAE, CHR 0xA4, CHR 0xE7, CHR 0xA6,
      CHR 0x81, CHR 0xE7, CHR 0x94, CHR 0xA8, CHR 0xE8, CHR 0xAF, CHR 0xA5, CHR 0xE7,
      CHR 0x94, CHR 0xA8, CHR 0xE6, CHR 0x88, CHR 0xB7, CHR 0xEF, CHR 0xBC, CHR 0x9F] else [CHR 0xE7, CHR 0xA1, CHR 0xAE, CHR 0xE8, CHR 0xAE, CHR 0xA4, CHR 0xE5, CHR 0x90,
      CHR 0xAF, CHR 0xE7, CHR 0x94, CHR 0xA8, CHR 0xE8, CHR 0xAF, CHR 0xA5, CHR 0xE7,
      CHR 0x94, CHR 0xA8, CHR 0xE6, CHR 0x88, CHR 0xB7, CHR 0xEF, CHR 0xBC, CHR 0x9F]))"

text \<open>Display name, telephone, source, last login and creation.\<close>

definition user_cells :: "(string \<Rightarrow> string) \<Rightarrow> user \<Rightarrow> string list" where
  "user_cells fmt r =
     [or_str (us_display_name r) ''-'', or_str (us_phone r) ''-'', or_str (us_auth_source r) ''local'',
      (if truthy (us_last_login_at r) then fmt (the (us_last_login_at r)) else [CHR 0xE6, CHR 0x9C, CHR 0xAA, CHR 0xE7, CHR 0x99, CHR 0xBB, CHR 0xE5, CHR 0xBD,
      CHR 0x95]),
      (if truthy (us_created_at r) then fmt (the (us_created_at r)) else ''-'')]"

subsection \<open>Creating and editing\<close>

text \<open>The rules of the form: 3 to 64 and 8 to 128 characters, an optional address.\<close>

definition email_ok :: "(string \<Rightarrow> bool) \<Rightarrow> string option \<Rightarrow> bool" where
  "email_ok is_email v \<longleftrightarrow> \<not> truthy v \<or> is_email (the v)"

definition create_user_valid :: "(string \<Rightarrow> bool) \<Rightarrow> create_user_body \<Rightarrow> bool" where
  "create_user_valid is_email b \<longleftrightarrow>
     3 \<le> length (cub_username b) \<and> length (cub_username b) \<le> 64
     \<and> 8 \<le> length (cub_password b) \<and> length (cub_password b) \<le> 128
     \<and> email_ok is_email (cub_email b)"

definition user_handleCreate ::
  "(string \<Rightarrow> bool) \<Rightarrow> create_user_body \<Rightarrow> string option option \<Rightarrow> rbac_mutation page_effect list" where
  "user_handleCreate is_email b result =
     (if \<not> create_user_valid is_email b then []
      else try_send (CreateUser b) (result \<noteq> None)
             [PToast ToastOk (or_str (the result) (([CHR 0xE7, CHR 0x94, CHR 0xA8, CHR 0xE6, CHR 0x88, CHR 0xB7] @
     '' '') @ cub_username b @ ('' '' @
     [CHR 0xE5, CHR 0x88, CHR 0x9B, CHR 0xE5, CHR 0xBB, CHR 0xBA, CHR 0xE6, CHR 0x88,
      CHR 0x90, CHR 0xE5, CHR 0x8A, CHR 0x9F]))), PRefetch])"

definition press_create_user ::
  "current_user option \<Rightarrow> (string \<Rightarrow> bool) \<Rightarrow> create_user_body \<Rightarrow> string option option
    \<Rightarrow> rbac_mutation page_effect list" where
  "press_create_user u is_email b result =
     (if \<not> can_manage_users u then [] else user_handleCreate is_email b result)"

definition user_edit_form :: "user \<Rightarrow> update_user_body" where
  "user_edit_form r =
     \<lparr>uub_display_name = us_display_name r, uub_email = us_email r, uub_phone = us_phone r,
      uub_status = None\<rparr>"

text \<open>The drawer is the user being edited and the form.\<close>

definition handleOpenEdit ::
  "user \<Rightarrow> (user option \<times> update_user_body) \<Rightarrow> user option \<times> update_user_body" where
  "handleOpenEdit r d = (Some r, user_edit_form r)"

definition handleEdit ::
  "(string \<Rightarrow> bool) \<Rightarrow> user option \<times> update_user_body \<Rightarrow> bool
    \<Rightarrow> (user option \<times> update_user_body) \<times> rbac_mutation page_effect list" where
  "handleEdit is_email d ok =
     (case fst d of
        None \<Rightarrow> (d, [])
      | Some r \<Rightarrow>
          if \<not> email_ok is_email (uub_email (snd d)) then (d, [])
          else (if ok then (None, snd d) else d,
                try_send (UpdateUser (us_id r) (snd d)) ok
                  [PToast ToastOk [CHR 0xE7, CHR 0x94, CHR 0xA8, CHR 0xE6, CHR 0x88, CHR 0xB7, CHR 0xE4, CHR 0xBF,
      CHR 0xA1, CHR 0xE6, CHR 0x81, CHR 0xAF, CHR 0xE5, CHR 0xB7, CHR 0xB2, CHR 0xE6,
      CHR 0x9B, CHR 0xB4, CHR 0xE6, CHR 0x96, CHR 0xB0], PRefetch]))"

definition press_edit_user ::
  "current_user option \<Rightarrow> (string \<Rightarrow> bool) \<Rightarrow> user \<Rightarrow> update_user_body \<Rightarrow> bool
    \<Rightarrow> rbac_mutation page_effect list" where
  "press_edit_user u is_email r b ok =
     (if \<not> can_manage_users u then [] else snd (handleEdit is_email (Some r, b) ok))"

definition next_user_status :: "int \<Rightarrow> int" where
  "next_user_status st = (if st = 1 then 2 else 1)"

definition handleToggleStatus :: "user \<Rightarrow> bool \<Rightarrow> rbac_mutation page_effect list" where
  "handleToggleStatus r ok =
     (let st = next_user_status (us_status r)
      in try_send (UpdateUserStatus (us_id r) st) ok
           [PToast ToastOk ([CHR 0xE5, CHR 0xB7, CHR 0xB2] @ (if st = 1 then [CHR 0xE5, CHR 0x90, CHR 0xAF, CHR 0xE7, CHR 0x94, CHR 0xA8] else [CHR 0xE7, CHR 0xA6, CHR 0x81, CHR 0xE7, CHR 0x94, CHR 0xA8]) @ ([CHR 0xE7, CHR 0x94, CHR 0xA8, CHR 0xE6, CHR 0x88, CHR 0xB7] @
     '' '') @ us_username r),
            PRefetch])"

definition press_toggle_user :: "current_user option \<Rightarrow> user \<Rightarrow> bool \<Rightarrow> rbac_mutation page_effect list" where
  "press_toggle_user u r ok = (if \<not> can_manage_users u then [] else handleToggleStatus r ok)"

text \<open>\<open>onOk\<close> of the dialog: it stays open (\<open>True\<close>) when the password is too short.\<close>

definition reset_confirm :: "user \<Rightarrow> string \<Rightarrow> bool \<Rightarrow> bool \<times> rbac_mutation page_effect list" where
  "reset_confirm r pwd ok =
     (if length pwd < 8 then (True, [PToast ToastFail ([CHR 0xE5, CHR 0xAF, CHR 0x86, CHR 0xE7, CHR 0xA0, CHR 0x81, CHR 0xE8, CHR 0x87,
      CHR 0xB3, CHR 0xE5, CHR 0xB0, CHR 0x91] @
     '' 8 '' @
     [CHR 0xE4, CHR 0xBD, CHR 0x8D])])
      else (False, try_send (ResetPassword (us_id r) pwd) ok [PToast ToastOk [CHR 0xE5, CHR 0xAF, CHR 0x86, CHR 0xE7, CHR 0xA0, CHR 0x81, CHR 0xE5, CHR 0xB7,
      CHR 0xB2, CHR 0xE9, CHR 0x87, CHR 0x8D, CHR 0xE7, CHR 0xBD, CHR 0xAE]]))"

definition press_reset ::
  "current_user option \<Rightarrow> user \<Rightarrow> string \<Rightarrow> bool \<Rightarrow> rbac_mutation page_effect list" where
  "press_reset u r pwd ok = (if \<not> can_manage_users u then [] else snd (reset_confirm r pwd ok))"

subsection \<open>Binding roles\<close>

record bind_form =
  bf_role_id :: "int option"
  bf_scope_type :: rbac_scope
  bf_cluster_code :: "string option"
  bf_namespace :: "string option"

definition bind_init :: bind_form where
  "bind_init = \<lparr>bf_role_id = None, bf_scope_type = RScopePlatform, bf_cluster_code = None,
     bf_namespace = None\<rparr>"

definition needCluster :: "rbac_scope \<Rightarrow> bool" where
  "needCluster s \<longleftrightarrow> s = RScopeCluster \<or> s = RScopeNamespace"

definition needNs :: "rbac_scope \<Rightarrow> bool" where
  "needNs s \<longleftrightarrow> s = RScopeNamespace"

text \<open>
  \<open>validateFields\<close>: the fields that are shown are checked and returned; a field that the scope
  hides keeps its value in the form but is not in the result.
\<close>

definition bind_validate :: "bind_form \<Rightarrow> bind_user_role_body option" where
  "bind_validate f =
     (let s = bf_scope_type f
      in if bf_role_id f = None \<or> (needCluster s \<and> \<not> truthy (bf_cluster_code f))
            \<or> (needNs s \<and> \<not> truthy (bf_namespace f))
         then None
         else Some \<lparr>bur_role_id = the (bf_role_id f), bur_scope_type = s,
                bur_cluster_code = (if needCluster s then bf_cluster_code f else None),
                bur_namespace = (if needNs s then bf_namespace f else None)\<rparr>)"

definition handleBind ::
  "int \<Rightarrow> bind_form \<Rightarrow> bool \<Rightarrow> bind_form \<times> rbac_mutation page_effect list" where
  "handleBind user_id f ok =
     (case bind_validate f of
        None \<Rightarrow> (f, [])
      | Some b \<Rightarrow>
          if bur_scope_type b = RScopeNamespace
             \<and> (\<not> truthy (bur_cluster_code b) \<or> \<not> truthy (bur_namespace b))
          then (f, [PToast ToastFail [CHR 0xE5, CHR 0x91, CHR 0xBD, CHR 0xE5, CHR 0x90, CHR 0x8D, CHR 0xE7, CHR 0xA9,
      CHR 0xBA, CHR 0xE9, CHR 0x97, CHR 0xB4, CHR 0xE7, CHR 0xBA, CHR 0xA7, CHR 0xE6,
      CHR 0x9D, CHR 0x83, CHR 0xE9, CHR 0x99, CHR 0x90, CHR 0xE9, CHR 0x9C, CHR 0x80,
      CHR 0xE5, CHR 0xA1, CHR 0xAB, CHR 0xE5, CHR 0x86, CHR 0x99, CHR 0xE9, CHR 0x9B,
      CHR 0x86, CHR 0xE7, CHR 0xBE, CHR 0xA4, CHR 0xE4, CHR 0xB8, CHR 0x8E, CHR 0xE5,
      CHR 0x91, CHR 0xBD, CHR 0xE5, CHR 0x90, CHR 0x8D, CHR 0xE7, CHR 0xA9, CHR 0xBA,
      CHR 0xE9, CHR 0x97, CHR 0xB4]])
          else if bur_scope_type b = RScopeCluster \<and> \<not> truthy (bur_cluster_code b)
          then (f, [PToast ToastFail [CHR 0xE9, CHR 0x9B, CHR 0x86, CHR 0xE7, CHR 0xBE, CHR 0xA4, CHR 0xE7, CHR 0xBA,
      CHR 0xA7, CHR 0xE6, CHR 0x9D, CHR 0x83, CHR 0xE9, CHR 0x99, CHR 0x90, CHR 0xE9,
      CHR 0x9C, CHR 0x80, CHR 0xE5, CHR 0xA1, CHR 0xAB, CHR 0xE5, CHR 0x86, CHR 0x99,
      CHR 0xE9, CHR 0x9B, CHR 0x86, CHR 0xE7, CHR 0xBE, CHR 0xA4]])
          else (if ok then bind_init else f,
                try_send (BindUserRole user_id b) ok [PToast ToastOk [CHR 0xE8, CHR 0xA7, CHR 0x92, CHR 0xE8, CHR 0x89, CHR 0xB2, CHR 0xE7, CHR 0xBB,
      CHR 0x91, CHR 0xE5, CHR 0xAE, CHR 0x9A, CHR 0xE6, CHR 0x88, CHR 0x90, CHR 0xE5,
      CHR 0x8A, CHR 0x9F]]))"

definition press_bind :: "current_user option \<Rightarrow> int \<Rightarrow> bind_form \<Rightarrow> bool \<Rightarrow> rbac_mutation page_effect list" where
  "press_bind u user_id f ok =
     (if \<not> can_manage_users u then [] else snd (handleBind user_id f ok))"

record user_role =
  ur_id :: int
  ur_user_id :: int
  ur_role_id :: int
  ur_role_code :: string
  ur_role_name :: string
  ur_scope_type :: rbac_scope
  ur_cluster_code :: "string option"
  ur_namespace :: "string option"
  ur_created_at :: "string option"

definition unbind_body :: "user_role \<Rightarrow> bind_user_role_body" where
  "unbind_body r = \<lparr>bur_role_id = ur_role_id r, bur_scope_type = ur_scope_type r,
     bur_cluster_code = ur_cluster_code r, bur_namespace = ur_namespace r\<rparr>"

definition handleUnbind :: "int \<Rightarrow> user_role \<Rightarrow> bool \<Rightarrow> rbac_mutation page_effect list" where
  "handleUnbind user_id r ok =
     try_send (UnbindUserRole user_id (unbind_body r)) ok [PToast ToastOk [CHR 0xE5, CHR 0xB7, CHR 0xB2, CHR 0xE8, CHR 0xA7, CHR 0xA3, CHR 0xE7, CHR 0xBB,
      CHR 0x91, CHR 0xE8, CHR 0xA7, CHR 0x92, CHR 0xE8, CHR 0x89, CHR 0xB2]]"

definition press_unbind ::
  "current_user option \<Rightarrow> int \<Rightarrow> user_role \<Rightarrow> bool \<Rightarrow> rbac_mutation page_effect list" where
  "press_unbind u user_id r ok = (if \<not> can_manage_users u then [] else handleUnbind user_id r ok)"

definition scope_text :: "user_role \<Rightarrow> string" where
  "scope_text r =
     (if truthy (ur_cluster_code r) then ([CHR 0xE9, CHR 0x9B, CHR 0x86, CHR 0xE7, CHR 0xBE, CHR 0xA4] @
     '': '') @ the (ur_cluster_code r) else []) @
     (if truthy (ur_namespace r) then ('' / '' @
     [CHR 0xE5, CHR 0x91, CHR 0xBD, CHR 0xE5, CHR 0x90, CHR 0x8D, CHR 0xE7, CHR 0xA9,
      CHR 0xBA, CHR 0xE9, CHR 0x97, CHR 0xB4] @
     '': '') @ the (ur_namespace r) else [])"

definition roleOptions :: "role list \<Rightarrow> (int \<times> string) list" where
  "roleOptions rs = map (\<lambda>r. (ro_id r, ro_name r @ '' ('' @ ro_code r @ '')'')) rs"

subsection \<open>Properties\<close>

interpretation user_create: silent_handler "\<lambda>(u, e, b, m). can_manage_users u"
  "\<lambda>(u, e, b, m) ok. press_create_user u e b (if ok then Some m else None)"
  by unfold_locales (auto simp: press_create_user_def user_handleCreate_def split: if_splits)

interpretation user_edit: silent_handler "\<lambda>(u, e, r, b). can_manage_users u"
  "\<lambda>(u, e, r, b) ok. press_edit_user u e r b ok"
  by unfold_locales (auto simp: press_edit_user_def handleEdit_def split: if_splits)

interpretation user_toggle: silent_handler "\<lambda>(u, r). can_manage_users u"
  "\<lambda>(u, r) ok. press_toggle_user u r ok"
  by unfold_locales (auto simp: press_toggle_user_def handleToggleStatus_def Let_def split: if_splits)

interpretation user_reset: silent_handler "\<lambda>(u, r, pwd). can_manage_users u"
  "\<lambda>(u, r, pwd) ok. press_reset u r pwd ok"
  by unfold_locales (auto simp: press_reset_def reset_confirm_def split: if_splits)

interpretation role_bind: silent_handler "\<lambda>(u, i, f). can_manage_users u"
  "\<lambda>(u, i, f) ok. press_bind u i f ok"
  by unfold_locales (auto simp: press_bind_def handleBind_def split: if_splits option.splits)

interpretation role_unbind: silent_handler "\<lambda>(u, i, r). can_manage_users u"
  "\<lambda>(u, i, r) ok. press_unbind u i r ok"
  by unfold_locales (auto simp: press_unbind_def handleUnbind_def split: if_splits)

text \<open>The type of a binding: a cluster and a namespace exactly where the scope has them.\<close>

definition well_scoped :: "bind_user_role_body \<Rightarrow> bool" where
  "well_scoped b \<longleftrightarrow>
     (case bur_scope_type b of
        RScopePlatform \<Rightarrow> bur_cluster_code b = None \<and> bur_namespace b = None
      | RScopeCluster \<Rightarrow> truthy (bur_cluster_code b) \<and> bur_namespace b = None
      | RScopeNamespace \<Rightarrow> truthy (bur_cluster_code b) \<and> truthy (bur_namespace b))"

definition role_granted :: "role \<Rightarrow> bind_user_role_body \<Rightarrow> current_user_role" where
  "role_granted r b =
     \<lparr>role_id = bur_role_id b, role_code = ro_code r, role_name = ro_name r,
      scope_type = (case bur_scope_type b of RScopePlatform \<Rightarrow> ScopePlatform
        | RScopeCluster \<Rightarrow> ScopeCluster | RScopeNamespace \<Rightarrow> ScopeNamespace),
      role_cluster_code = bur_cluster_code b, role_namespace = bur_namespace b\<rparr>"

text \<open>
  C13. The drawer binds well-typed roles only: whatever values an earlier scope left in the form,
  each request it sends carries a cluster and a namespace exactly where the scope has them, and
  the field checks behind the form library never fire; the role it grants opens, in the
  namespace scope of the user, that namespace of that cluster and nothing else, and in the
  other scopes the cluster or every cluster.
\<close>

theorem bound_role_well_scoped:
  assumes "BindUserRole i b \<in> set (sends (press_bind u user_id f ok))"
  shows "i = user_id \<and> well_scoped b \<and> bur_scope_type b = bf_scope_type f
    \<and> error_toasts (press_bind u user_id f ok) = []
    \<and> (\<forall>c. grants_cluster c (role_granted r b) \<longleftrightarrow>
          bur_scope_type b = RScopePlatform
          \<or> bur_scope_type b = RScopeCluster \<and> bf_cluster_code f = Some c)
    \<and> (\<forall>c n. grants_namespace c n (role_granted r b) \<longleftrightarrow>
          bur_scope_type b = RScopeNamespace \<and> bf_cluster_code f = Some c \<and> bf_namespace f = Some n)"
proof -
  obtain v where v: "bind_validate f = Some v"
    and "BindUserRole i b \<in> set (sends (snd (handleBind user_id f ok)))"
    using assms by (auto simp: press_bind_def handleBind_def split: if_splits option.splits)
  then have b: "b = v" "i = user_id" by (auto simp: handleBind_def split: if_splits)
  have scope: "bur_scope_type v = bf_scope_type f" and ws: "well_scoped v"
    using v by (auto simp: bind_validate_def well_scoped_def needCluster_def needNs_def Let_def
        split: if_splits rbac_scope.splits)
  have fields: "bur_cluster_code v = (if needCluster (bf_scope_type f) then bf_cluster_code f else None)"
    "bur_namespace v = (if needNs (bf_scope_type f) then bf_namespace f else None)"
    using v by (auto simp: bind_validate_def Let_def split: if_splits)
  have "error_toasts (press_bind u user_id f ok) = []"
    using v ws by (auto simp: press_bind_def handleBind_def well_scoped_def split: rbac_scope.splits)
  then show ?thesis
    using ws unfolding b
    by (cases "bf_scope_type f")
      (auto simp: scope fields well_scoped_def grants_cluster_def grants_namespace_def role_granted_def
        needCluster_def needNs_def truthy_iff)
qed

definition demo_bind_form :: bind_form where
  "demo_bind_form = \<lparr>bf_role_id = Some 3, bf_scope_type = RScopeCluster, bf_cluster_code = Some ''prod'',
     bf_namespace = Some ''left over''\<rparr>"

theorem bound_role_well_scoped_witness:
  "well_scoped \<lparr>bur_role_id = 3, bur_scope_type = RScopeCluster, bur_cluster_code = Some ''prod'',
     bur_namespace = None\<rparr>"
proof -
  have "BindUserRole 7 \<lparr>bur_role_id = 3, bur_scope_type = RScopeCluster, bur_cluster_code = Some ''prod'',
      bur_namespace = None\<rparr>
    \<in> set (sends (press_bind (Some (demo_user [''user:manage''])) 7 demo_bind_form True))"
    by (simp add: press_bind_def can_manage_users_def handleBind_def bind_validate_def demo_bind_form_def
        needCluster_def needNs_def hasPerm_def demo_user_def user_perms_def isPlatformAdmin_def)
  from bound_role_well_scoped [OF this] show ?thesis by blast
qed

text \<open>The switch is its own inverse on enabled and disabled users, and enables a locked one.\<close>

lemma toggle_status_inverse:
  "st = 1 \<or> st = 2 \<Longrightarrow> next_user_status (next_user_status st) = st" "next_user_status 3 = 1"
  by (auto simp: next_user_status_def)

end
