(* ===== verification/RolesPage.thy ===== *)
theory RolesPage
  imports UsersPage "HOL-Library.Multiset"
begin

section \<open>Roles and their permissions\<close>

text \<open>
  \<open>pages/roles/list.tsx\<close>: the list of roles, the forms, and the drawer with the tree of
  permissions. A \<open>Map\<close> is an association list in insertion order. The drawer is a step relation
  over the two listings that load and the clicks on the tree.
\<close>

subsection \<open>The list\<close>

definition can_manage_roles :: "current_user option \<Rightarrow> bool" where
  "can_manage_roles u \<longleftrightarrow> hasPerm u ''role:manage''"

definition role_status_cell :: "bool \<Rightarrow> int \<Rightarrow> status_control" where
  "role_status_cell canUpdate st =
     (if \<not> canUpdate
      then StatusTag (if st = 1 then ''success'' else ''error'') (if st = 1 then [CHR 0xE5, CHR 0x90, CHR 0xAF, CHR 0xE7, CHR 0x94, CHR 0xA8] else [CHR 0xE7, CHR 0xA6, CHR 0x81, CHR 0xE7, CHR 0x94, CHR 0xA8])
      else StatusSwitch (st = 1)
             (if st = 1 then [CHR 0xE7, CHR 0xA1, CHR 0xAE, CHR 0xE8, CHR 0xAE, CHR 0xA4, CHR 0xE7, CHR 0xA6,
      CHR 0x81, CHR 0xE7, CHR 0x94, CHR 0xA8, CHR 0xE8, CHR 0xAF, CHR 0xA5, CHR 0xE8,
      CHR 0xA7, CHR 0x92, CHR 0xE8, CHR 0x89, CHR 0xB2, CHR 0xEF, CHR 0xBC, CHR 0x9F] else [CHR 0xE7, CHR 0xA1, CHR 0xAE, CHR 0xE8, CHR 0xAE, CHR 0xA4, CHR 0xE5, CHR 0x90,
      CHR 0xAF, CHR 0xE7, CHR 0x94, CHR 0xA8, CHR 0xE8, CHR 0xAF, CHR 0xA5, CHR 0xE8,
      CHR 0xA7, CHR 0x92, CHR 0xE8, CHR 0x89, CHR 0xB2, CHR 0xEF, CHR 0xBC, CHR 0x9F]))"

definition role_name_cell :: "role \<Rightarrow> string list" where
  "role_name_cell r = ro_code r # (if ro_builtin r = 1 then [[CHR 0xE5, CHR 0x86, CHR 0x85, CHR 0xE7, CHR 0xBD, CHR 0xAE]] else []) @ [ro_name r]"

text \<open>Whether the buttons for permissions, editing and deletion are disabled.\<close>

definition role_actions_disabled :: "current_user option \<Rightarrow> role \<Rightarrow> bool \<times> bool \<times> bool" where
  "role_actions_disabled u r =
     (\<not> can_manage_roles u, \<not> can_manage_roles u \<or> ro_builtin r = 1,
      ro_builtin r = 1 \<or> \<not> can_manage_roles u)"

definition roles_init :: list_params where
  "roles_init = \<lparr>lp_page = Some 1, lp_page_size = Some 10, lp_keyword = None, lp_status = None\<rparr>"

definition roles_handleSearch :: "string \<Rightarrow> list_params \<Rightarrow> list_params" where
  "roles_handleSearch keyword f =
     f\<lparr>lp_keyword := (if keyword = [] then None else Some keyword), lp_page := Some 1\<rparr>"

definition roles_handlePageChange :: "int \<Rightarrow> int \<Rightarrow> list_params \<Rightarrow> list_params" where
  "roles_handlePageChange p sz f = f\<lparr>lp_page := Some p, lp_page_size := Some sz\<rparr>"

text \<open>The rules of the form: 2 to 64 characters of \<open>a-z0-9_:\<close> and a name.\<close>

definition role_code_char :: "char \<Rightarrow> bool" where
  "role_code_char c \<longleftrightarrow>
     (let n = of_char c :: nat in 48 \<le> n \<and> n \<le> 57 \<or> 97 \<le> n \<and> n \<le> 122)
     \<or> c = CHR ''_'' \<or> c = CHR '':''"

definition create_role_valid :: "create_role_body \<Rightarrow> bool" where
  "create_role_valid b \<longleftrightarrow>
     2 \<le> length (crb_code b) \<and> length (crb_code b) \<le> 64 \<and> list_all role_code_char (crb_code b)
     \<and> crb_name b \<noteq> []"

definition role_handleCreate :: "create_role_body \<Rightarrow> string option option \<Rightarrow> rbac_mutation page_effect list" where
  "role_handleCreate b result =
     (if \<not> create_role_valid b then []
      else try_send (CreateRole b) (result \<noteq> None)
             [PToast ToastOk (or_str (the result) (([CHR 0xE8, CHR 0xA7, CHR 0x92, CHR 0xE8, CHR 0x89, CHR 0xB2] @
     '' '') @ crb_code b @ ('' '' @
     [CHR 0xE5, CHR 0x88, CHR 0x9B, CHR 0xE5, CHR 0xBB, CHR 0xBA, CHR 0xE6, CHR 0x88,
      CHR 0x90, CHR 0xE5, CHR 0x8A, CHR 0x9F]))), PRefetch])"

definition press_create_role ::
  "current_user option \<Rightarrow> create_role_body \<Rightarrow> string option option \<Rightarrow> rbac_mutation page_effect list" where
  "press_create_role u b result = (if \<not> can_manage_roles u then [] else role_handleCreate b result)"

definition role_edit_form :: "role \<Rightarrow> update_role_body" where
  "role_edit_form r =
     \<lparr>urb_name = Some (ro_name r), urb_description = ro_description r, urb_status = None\<rparr>"

definition role_handleEdit ::
  "role option \<times> update_role_body \<Rightarrow> bool \<Rightarrow> (role option \<times> update_role_body) \<times> rbac_mutation page_effect list" where
  "role_handleEdit d ok =
     (case fst d of
        None \<Rightarrow> (d, [])
      | Some r \<Rightarrow>
          if \<not> truthy (urb_name (snd d)) then (d, [])
          else (if ok then (None, snd d) else d,
                try_send (UpdateRole (ro_id r) (snd d)) ok [PToast ToastOk [CHR 0xE8, CHR 0xA7, CHR 0x92, CHR 0xE8, CHR 0x89, CHR 0xB2, CHR 0xE5, CHR 0xB7,
      CHR 0xB2, CHR 0xE6, CHR 0x9B, CHR 0xB4, CHR 0xE6, CHR 0x96, CHR 0xB0], PRefetch]))"

definition press_edit_role ::
  "current_user option \<Rightarrow> role \<Rightarrow> update_role_body \<Rightarrow> bool \<Rightarrow> rbac_mutation page_effect list" where
  "press_edit_role u r b ok =
     (if fst (snd (role_actions_disabled u r)) then [] else snd (role_handleEdit (Some r, b) ok))"

definition role_handleToggleStatus :: "role \<Rightarrow> bool \<Rightarrow> rbac_mutation page_effect list" where
  "role_handleToggleStatus r ok =
     (let st = (if ro_status r = 1 then 0 else 1)
      in try_send (UpdateRole (ro_id r) \<lparr>urb_name = None, urb_description = None, urb_status = Some st\<rparr>) ok
           [PToast ToastOk ([CHR 0xE5, CHR 0xB7, CHR 0xB2] @ (if st = 1 then [CHR 0xE5, CHR 0x90, CHR 0xAF, CHR 0xE7, CHR 0x94, CHR 0xA8] else [CHR 0xE7, CHR 0xA6, CHR 0x81, CHR 0xE7, CHR 0x94, CHR 0xA8]) @ ([CHR 0xE8, CHR 0xA7, CHR 0x92, CHR 0xE8, CHR 0x89, CHR 0xB2] @
     '' '') @ ro_name r),
            PRefetch])"

definition press_toggle_role :: "current_user option \<Rightarrow> role \<Rightarrow> bool \<Rightarrow> rbac_mutation page_effect list" where
  "press_toggle_role u r ok = (if \<not> can_manage_roles u then [] else role_handleToggleStatus r ok)"

definition role_handleDelete :: "role \<Rightarrow> bool \<Rightarrow> rbac_mutation page_effect list" where
  "role_handleDelete r ok =
     (if ro_builtin r = 1 then [PToast ToastFail [CHR 0xE5, CHR 0x86, CHR 0x85, CHR 0xE7, CHR 0xBD, CHR 0xAE, CHR 0xE8, CHR 0xA7,
      CHR 0x92, CHR 0xE8, CHR 0x89, CHR 0xB2, CHR 0xE4, CHR 0xB8, CHR 0x8D, CHR 0xE5,
      CHR 0x8F, CHR 0xAF, CHR 0xE5, CHR 0x88, CHR 0xA0, CHR 0xE9, CHR 0x99, CHR 0xA4]]
      else try_send (DeleteRole (ro_id r)) ok
             [PToast ToastOk (([CHR 0xE8, CHR 0xA7, CHR 0x92, CHR 0xE8, CHR 0x89, CHR 0xB2] @
     '' '') @ ro_name r @ ('' '' @
     [CHR 0xE5, CHR 0xB7, CHR 0xB2, CHR 0xE5, CHR 0x88, CHR 0xA0, CHR 0xE9, CHR 0x99,
      CHR 0xA4])), PRefetch])"

definition press_delete_role :: "current_user option \<Rightarrow> role \<Rightarrow> bool \<Rightarrow> rbac_mutation page_effect list" where
  "press_delete_role u r ok =
     (if snd (snd (role_actions_disabled u r)) then [] else role_handleDelete r ok)"

subsection \<open>The tree of permissions\<close>

definition module_of :: "permission \<Rightarrow> string" where
  "module_of p = (if pm_module p = [] then ''other'' else pm_module p)"

text \<open>One step of \<open>forEach\<close>: the missing group is added, then the permission is pushed.\<close>

definition group_push ::
  "permission \<Rightarrow> (string \<times> permission list) list \<Rightarrow> (string \<times> permission list) list" where
  "group_push p grouped =
     (let g = (if map_of grouped (module_of p) = None then AList.update (module_of p) [] grouped else grouped)
      in AList.update (module_of p) (the (map_of g (module_of p)) @ [p]) g)"

record tree_node =
  tn_key :: string
  tn_title :: "string \<times> nat"
  tn_children :: "(string \<times> string) list"

definition treeData :: "permission list option \<Rightarrow> tree_node list" where
  "treeData allPerms =
     map (\<lambda>(m, ps). \<lparr>tn_key = ''module:'' @ m, tn_title = (m, length ps),
            tn_children = map (\<lambda>p. (pm_code p, pm_name p)) ps\<rparr>)
       (fold group_push (case allPerms of None \<Rightarrow> [] | Some ps \<Rightarrow> ps) [])"

definition leafCodes :: "permission list option \<Rightarrow> string list" where
  "leafCodes allPerms = map pm_code (case allPerms of None \<Rightarrow> [] | Some ps \<Rightarrow> ps)"

definition expandedKeys :: "permission list option \<Rightarrow> string list" where
  "expandedKeys allPerms = map tn_key (treeData allPerms)"

subsection \<open>The drawer\<close>

text \<open>\<open>rolePerms\<close> is the reply with its field \<open>perms\<close>, which may be missing.\<close>

record perms_drawer =
  dr_allPerms :: "permission list option"
  dr_rolePerms :: "string list option option"
  dr_checked :: "string list"

definition perms_drawer_init :: perms_drawer where
  "perms_drawer_init = \<lparr>dr_allPerms = None, dr_rolePerms = None, dr_checked = []\<rparr>"

definition checked_effect :: "perms_drawer \<Rightarrow> perms_drawer" where
  "checked_effect d =
     (case dr_rolePerms d of
        None \<Rightarrow> d
      | Some codes \<Rightarrow>
          d\<lparr>dr_checked := filter (\<lambda>c. c \<in> set (leafCodes (dr_allPerms d)))
             (case codes of None \<Rightarrow> [] | Some ps \<Rightarrow> ps)\<rparr>)"

definition handleCheck :: "string list \<Rightarrow> perms_drawer \<Rightarrow> perms_drawer" where
  "handleCheck keys d = d\<lparr>dr_checked := filter (\<lambda>k. \<not> starts_with k ''module:'') keys\<rparr>"

text \<open>
  The tree is a component of antd: \<open>tree key checked\<close> are the keys it hands over for a click on a
  node. In its mode \<open>checkStrictly\<close> the click changes the key of that node and no other.
\<close>

definition check_strictly :: "(string \<Rightarrow> string list \<Rightarrow> string list) \<Rightarrow> bool" where
  "check_strictly tree \<longleftrightarrow>
     (\<forall>key checked. set (tree key checked)
        = (if key \<in> set checked then set checked - {key} else insert key (set checked)))"

definition perms_handleSave :: "int \<Rightarrow> perms_drawer \<Rightarrow> bool \<Rightarrow> rbac_mutation page_effect list" where
  "perms_handleSave i d ok =
     try_send (SetRolePermissions i (dr_checked d)) ok
       [PToast ToastOk (([CHR 0xE5, CHR 0xB7, CHR 0xB2, CHR 0xE4, CHR 0xBF, CHR 0x9D, CHR 0xE5, CHR 0xAD,
      CHR 0x98] @
     '' '') @ show_nat (length (dr_checked d)) @ ('' '' @
     [CHR 0xE4, CHR 0xB8, CHR 0xAA, CHR 0xE6, CHR 0x9D, CHR 0x83, CHR 0xE9, CHR 0x99,
      CHR 0x90, CHR 0xE7, CHR 0x82, CHR 0xB9]))]"

definition press_save_perms ::
  "current_user option \<Rightarrow> int \<Rightarrow> perms_drawer \<Rightarrow> bool \<Rightarrow> rbac_mutation page_effect list" where
  "press_save_perms u i d ok = (if \<not> can_manage_roles u then [] else perms_handleSave i d ok)"

text \<open>The keys that the tree has: those of the groups and those of the permissions.\<close>

definition tree_keys :: "tree_node list \<Rightarrow> string set" where
  "tree_keys t = tn_key ` set t \<union> (\<Union>n \<in> set t. fst ` set (tn_children n))"

inductive drawer_reach :: "(string \<Rightarrow> string list \<Rightarrow> string list) \<Rightarrow> perms_drawer \<Rightarrow> bool"
  for tree where
  start: "drawer_reach tree perms_drawer_init"
| perms_loaded: "drawer_reach tree d \<Longrightarrow> dr_allPerms d = None \<Longrightarrow>
     drawer_reach tree (checked_effect (d\<lparr>dr_allPerms := Some ps\<rparr>))"
| role_loaded: "drawer_reach tree d \<Longrightarrow> drawer_reach tree (checked_effect (d\<lparr>dr_rolePerms := Some rs\<rparr>))"
| click: "drawer_reach tree d \<Longrightarrow> key \<in> tree_keys (treeData (dr_allPerms d)) \<Longrightarrow>
     drawer_reach tree (handleCheck (tree key (dr_checked d)) d)"

subsection \<open>Properties\<close>

interpretation role_create: silent_handler "\<lambda>(u, b, m). can_manage_roles u"
  "\<lambda>(u, b, m) ok. press_create_role u b (if ok then Some m else None)"
  by unfold_locales (auto simp: press_create_role_def role_handleCreate_def split: if_splits)

interpretation role_edit: silent_handler "\<lambda>(u, r, b). can_manage_roles u"
  "\<lambda>(u, r, b) ok. press_edit_role u r b ok"
  by unfold_locales
    (auto simp: press_edit_role_def role_handleEdit_def role_actions_disabled_def split: if_splits)

interpretation role_toggle: silent_handler "\<lambda>(u, r). can_manage_roles u"
  "\<lambda>(u, r) ok. press_toggle_role u r ok"
  by unfold_locales (auto simp: press_toggle_role_def role_handleToggleStatus_def Let_def split: if_splits)

interpretation role_delete: silent_handler "\<lambda>(u, r). can_manage_roles u"
  "\<lambda>(u, r) ok. press_delete_role u r ok"
  by unfold_locales
    (auto simp: press_delete_role_def role_handleDelete_def role_actions_disabled_def split: if_splits)

interpretation perms_save: silent_handler "\<lambda>(u, i, d). can_manage_roles u"
  "\<lambda>(u, i, d) ok. press_save_perms u i d ok"
  by unfold_locales (auto simp: press_save_perms_def perms_handleSave_def split: if_splits)

text \<open>A built-in role is neither edited nor deleted.\<close>

lemma builtin_role_kept:
  "ro_builtin r = 1 \<Longrightarrow> press_edit_role u r b ok = [] \<and> press_delete_role u r ok = []
     \<and> sends (role_handleDelete r ok) = []"
  by (simp add: press_edit_role_def press_delete_role_def role_handleDelete_def role_actions_disabled_def)

text \<open>The reference: the modules in the order of their first permission, each with its own.\<close>

definition grouped_by_module :: "permission list \<Rightarrow> (string \<times> permission list) list" where
  "grouped_by_module ps =
     map (\<lambda>m. (m, filter (\<lambda>p. module_of p = m) ps)) (fold set_add (map module_of ps) [])"

lemma fold_set_add_distinct: "distinct acc \<Longrightarrow> distinct (fold set_add xs acc)"
  by (induction xs arbitrary: acc) (auto simp: set_add_def)

lemma fold_set_add_set: "set (fold set_add xs acc) = set acc \<union> set xs"
  by (induction xs arbitrary: acc) (auto simp: set_add_def)

lemma update_map_pairs:
  "distinct ms \<Longrightarrow> m \<in> set ms \<Longrightarrow>
     AList.update m v (map (\<lambda>k. (k, f k)) ms) = map (\<lambda>k. (k, if k = m then v else f k)) ms"
  by (induction ms) auto

lemma update_map_new:
  "m \<notin> set ms \<Longrightarrow> AList.update m v (map (\<lambda>k. (k, f k)) ms) = map (\<lambda>k. (k, f k)) ms @ [(m, v)]"
  by (induction ms) auto

lemma update_map_last:
  "m \<notin> set ms \<Longrightarrow>
     AList.update m w (map (\<lambda>k. (k, f k)) ms @ [(m, v)]) = map (\<lambda>k. (k, f k)) ms @ [(m, w)]"
  by (induction ms) auto

lemma mset_filter_insert:
  "m \<notin> set ms \<Longrightarrow> mset (filter (\<lambda>p. f p \<in> set (m # ms)) ps)
     = mset (filter (\<lambda>p. f p = m) ps) + mset (filter (\<lambda>p. f p \<in> set ms) ps)"
  by (induction ps) auto

lemma map_of_pairs: "map_of (map (\<lambda>k. (k, f k)) ms) m = (if m \<in> set ms then Some (f m) else None)"
  by (induction ms) auto

lemma group_push_snoc: "group_push p (grouped_by_module ps) = grouped_by_module (ps @ [p])"
proof -
  let ?ms = "fold set_add (map module_of ps) []" and ?m = "module_of p"
  let ?f = "\<lambda>m. filter (\<lambda>q. module_of q = m) ps" and ?g = "\<lambda>m. filter (\<lambda>q. module_of q = m) (ps @ [p])"
  have ms: "distinct ?ms" "set ?ms = module_of ` set ps"
    by (simp_all add: fold_set_add_distinct fold_set_add_set)
  have ref: "grouped_by_module (ps @ [p]) = map (\<lambda>m. (m, ?g m)) (set_add ?m ?ms)"
    by (simp add: grouped_by_module_def)
  show ?thesis
  proof (cases "?m \<in> set ?ms")
    case True
    have "group_push p (grouped_by_module ps) = map (\<lambda>k. (k, if k = ?m then ?f ?m @ [p] else ?f k)) ?ms"
      using ms(1) True
      by (simp add: group_push_def grouped_by_module_def map_of_pairs update_map_pairs Let_def)
    also have "\<dots> = map (\<lambda>m. (m, ?g m)) ?ms" by (intro map_cong refl) auto
    finally show ?thesis using True by (simp add: ref set_add_def)
  next
    case False
    then have old: "map (\<lambda>k. (k, ?f k)) ?ms = map (\<lambda>k. (k, ?g k)) ?ms"
      by (intro map_cong refl) auto
    have "\<forall>q \<in> set ps. module_of q \<noteq> ?m" using False unfolding ms(2) by (metis imageI)
    then have "?f ?m = []" by (simp add: filter_empty_conv)
    moreover have "group_push p (grouped_by_module ps) = map (\<lambda>k. (k, ?f k)) ?ms @ [(?m, [p])]"
      using False ms(1)
      by (simp add: group_push_def grouped_by_module_def map_of_pairs update_map_new update_map_last map_add_def Let_def)
    ultimately show ?thesis using False old by (simp add: ref set_add_def)
  qed
qed

lemma fold_group_push: "fold group_push ps [] = grouped_by_module ps"
proof (induction ps rule: rev_induct)
  case Nil
  then show ?case by (simp add: grouped_by_module_def)
next
  case (snoc p ps)
  then show ?case by (simp add: group_push_snoc)
qed

lemma module_key_inject: "''module:'' @ a = ''module:'' @ b \<longleftrightarrow> a = b"
  by simp

text \<open>
  C30. The tree shows every permission exactly once, under its module: its nodes are the modules in
  the order of their first permission, all different, each titled with the number of its
  permissions and holding those of that module in their order, and the leaves of the whole tree
  are the permissions of the listing.
\<close>

theorem permission_tree_complete:
  "map tn_title (treeData (Some ps))
     = map (\<lambda>m. (m, length (filter (\<lambda>p. module_of p = m) ps))) (fold set_add (map module_of ps) [])
   \<and> distinct (expandedKeys (Some ps))
   \<and> (\<forall>n \<in> set (treeData (Some ps)). tn_key n = ''module:'' @ fst (tn_title n)
        \<and> tn_children n \<noteq> []
        \<and> tn_children n = map (\<lambda>p. (pm_code p, pm_name p)) (filter (\<lambda>p. module_of p = fst (tn_title n)) ps))
   \<and> mset (concat (map tn_children (treeData (Some ps)))) = mset (map (\<lambda>p. (pm_code p, pm_name p)) ps)"
proof -
  let ?ms = "fold set_add (map module_of ps) []" and ?leaf = "\<lambda>p. (pm_code p, pm_name p)"
  let ?of = "\<lambda>m. filter (\<lambda>p. module_of p = m) ps"
  have ms: "distinct ?ms" "set ?ms = module_of ` set ps"
    by (simp_all add: fold_set_add_distinct fold_set_add_set)
  have tree: "treeData (Some ps) = map (\<lambda>m. \<lparr>tn_key = ''module:'' @ m, tn_title = (m, length (?of m)),
      tn_children = map ?leaf (?of m)\<rparr>) ?ms"
    by (simp add: treeData_def fold_group_push grouped_by_module_def)
  have "mset (concat (map ?of ms)) = mset (filter (\<lambda>p. module_of p \<in> set ms) ps)" if "distinct ms" for ms
    using that
  proof (induction ms)
    case (Cons m ms)
    then have "mset (filter (\<lambda>p. module_of p \<in> set (m # ms)) ps)
        = mset (?of m) + mset (filter (\<lambda>p. module_of p \<in> set ms) ps)"
      by (intro mset_filter_insert) simp
    with Cons.IH Cons.prems show ?case by simp
  qed simp
  from this [OF ms(1)] have "mset (concat (map ?of ?ms)) = mset ps"
    using ms(2) by (simp add: filter_id_conv [THEN iffD2])
  then have "image_mset ?leaf (mset (concat (map ?of ?ms))) = image_mset ?leaf (mset ps)" by simp
  moreover have "concat (map (\<lambda>m. map ?leaf (?of m)) ?ms) = map ?leaf (concat (map ?of ?ms))"
    by (simp add: map_concat comp_def)
  ultimately have "mset (concat (map (\<lambda>m. map ?leaf (?of m)) ?ms)) = mset (map ?leaf ps)"
    by (simp only: mset_map)
  moreover have "?of m \<noteq> []" if "m \<in> set ?ms" for m
    using that ms(2) by (auto simp: filter_empty_conv)
  moreover have "distinct (expandedKeys (Some ps))"
    using ms(1) by (simp add: expandedKeys_def tree distinct_map inj_on_def comp_def)
  ultimately show ?thesis by (auto simp: tree comp_def)
qed

definition demo_listing :: "permission list" where
  "demo_listing = map (\<lambda>(c, m). \<lparr>pm_code = c, pm_name = c, pm_module = m, pm_description = None, pm_action = None\<rparr>)
     [(''cluster:view'', ''cluster''), (''audit:view'', []), (''cluster:ping'', ''cluster'')]"

theorem permission_tree_complete_witness:
  "map tn_title (treeData (Some demo_listing)) = [(''cluster'', 2), (''other'', 1)]
   \<and> distinct (expandedKeys (Some demo_listing))
   \<and> tn_children (hd (treeData (Some demo_listing)))
       = [(''cluster:view'', ''cluster:view''), (''cluster:ping'', ''cluster:ping'')]"
proof -
  note all = permission_tree_complete [of demo_listing]
  have titles: "map tn_title (treeData (Some demo_listing)) = [(''cluster'', 2), (''other'', 1)]"
    using all [THEN conjunct1] by (simp add: demo_listing_def module_of_def set_add_def)
  then obtain n ns where tree: "treeData (Some demo_listing) = n # ns" and n: "fst (tn_title n) = ''cluster''"
    by auto
  have "tn_children n = map (\<lambda>p. (pm_code p, pm_name p)) (filter (\<lambda>p. module_of p = fst (tn_title n)) demo_listing)"
    using all [THEN conjunct2, THEN conjunct2, THEN conjunct1] tree by simp
  then show ?thesis
    using titles tree n all [THEN conjunct2, THEN conjunct1] by (simp add: demo_listing_def module_of_def)
qed

lemma tree_keys_leaves:
  "k \<in> tree_keys (treeData allPerms) \<Longrightarrow> starts_with k ''module:'' \<or> k \<in> set (leafCodes allPerms)"
  by (cases allPerms)
    (auto simp: tree_keys_def treeData_def leafCodes_def fold_group_push grouped_by_module_def starts_with_iff)

lemma drawer_checked_listed:
  assumes "check_strictly tree" and "drawer_reach tree d"
  shows "set (dr_checked d) \<subseteq> set (leafCodes (dr_allPerms d))"
  using assms(2)
proof (induction rule: drawer_reach.induct)
  case start
  then show ?case by (simp add: perms_drawer_init_def)
next
  case (perms_loaded d ps)
  then show ?case by (auto simp: checked_effect_def leafCodes_def split: option.splits)
next
  case (role_loaded d rs)
  then show ?case by (auto simp: checked_effect_def split: option.splits)
next
  case (click d key)
  have "set (tree key (dr_checked d)) \<subseteq> insert key (set (dr_checked d))"
    using assms(1) by (auto simp: check_strictly_def)
  then show ?case
    using click.IH tree_keys_leaves [OF click.hyps(2)] by (auto simp: handleCheck_def)
qed

text \<open>
  C12. What the drawer saves is what it shows: after the listings arrived in either order, once or
  again, and after any clicks, the codes that a save sends are ticked permissions of the listing;
  a click on a permission changes that code and no other, and a click on a module changes
  nothing, as long as no code looks like the key of a module and the tree of antd changes only
  the key that was clicked.
\<close>

theorem saved_permissions_listed:
  assumes "check_strictly tree" and "drawer_reach tree d" and "dr_allPerms d = Some ps"
    and "\<forall>p \<in> set ps. \<not> starts_with (pm_code p) ''module:''"
  shows "sends (perms_handleSave i d ok) = [SetRolePermissions i (dr_checked d)]
    \<and> set (dr_checked d) \<subseteq> pm_code ` set ps
    \<and> (\<forall>m. set (dr_checked (handleCheck (tree (''module:'' @ m) (dr_checked d)) d)) = set (dr_checked d))
    \<and> (\<forall>c \<in> pm_code ` set ps. set (dr_checked (handleCheck (tree c (dr_checked d)) d))
          = (if c \<in> set (dr_checked d) then set (dr_checked d) - {c} else insert c (set (dr_checked d))))"
proof -
  have sub: "set (dr_checked d) \<subseteq> pm_code ` set ps"
    using drawer_checked_listed [OF assms(1,2)] by (simp add: assms(3) leafCodes_def)
  then have clean: "\<forall>c \<in> set (dr_checked d). \<not> starts_with c ''module:''"
    using assms(4) by blast
  have tree: "set (tree key (dr_checked d))
      = (if key \<in> set (dr_checked d) then set (dr_checked d) - {key} else insert key (set (dr_checked d)))" for key
    using assms(1) by (simp add: check_strictly_def)
  have check: "set (dr_checked (handleCheck keys d)) = {k \<in> set keys. \<not> starts_with k ''module:''}" for keys
    by (simp add: handleCheck_def)
  have "set (dr_checked (handleCheck (tree (''module:'' @ m) (dr_checked d)) d)) = set (dr_checked d)" for m
  proof -
    have key: "starts_with (''module:'' @ m) ''module:''" by (rule starts_with_append)
    then have "''module:'' @ m \<notin> set (dr_checked d)" using clean by blast
    then show ?thesis unfolding check tree using clean key by auto
  qed
  moreover have "set (dr_checked (handleCheck (tree c (dr_checked d)) d))
      = (if c \<in> set (dr_checked d) then set (dr_checked d) - {c} else insert c (set (dr_checked d)))"
    if "c \<in> pm_code ` set ps" for c
  proof -
    have "\<not> starts_with c ''module:''" using that assms(4) by blast
    then show ?thesis unfolding check tree using clean by auto
  qed
  ultimately show ?thesis using sub by (simp add: perms_handleSave_def)
qed

definition demo_tree :: "string \<Rightarrow> string list \<Rightarrow> string list" where
  "demo_tree key checked =
     (if key \<in> set checked then filter (\<lambda>k. k \<noteq> key) checked else checked @ [key])"

definition demo_perm :: "string \<Rightarrow> permission" where
  "demo_perm c = \<lparr>pm_code = c, pm_name = c, pm_module = ''cluster'', pm_description = None, pm_action = None\<rparr>"

theorem saved_permissions_listed_witness:
  "sends (perms_handleSave 4 (checked_effect ((checked_effect (perms_drawer_init
       \<lparr>dr_rolePerms := Some (Some [''cluster:view'', ''gone''])\<rparr>))
       \<lparr>dr_allPerms := Some [demo_perm ''cluster:view'', demo_perm ''cluster:ping'']\<rparr>)) True)
   = [SetRolePermissions 4 [''cluster:view'']]"
proof -
  let ?ps = "[demo_perm ''cluster:view'', demo_perm ''cluster:ping'']"
  let ?d1 = "checked_effect (perms_drawer_init\<lparr>dr_rolePerms := Some (Some [''cluster:view'', ''gone''])\<rparr>)"
  let ?d = "checked_effect (?d1\<lparr>dr_allPerms := Some ?ps\<rparr>)"
  have "drawer_reach demo_tree ?d1" by (intro drawer_reach.role_loaded drawer_reach.start)
  moreover have "dr_allPerms ?d1 = None" by (simp add: checked_effect_def perms_drawer_init_def)
  ultimately have "drawer_reach demo_tree ?d" by (rule drawer_reach.perms_loaded)
  moreover have "dr_allPerms ?d = Some ?ps" and "dr_checked ?d = [''cluster:view'']"
    by (simp_all add: checked_effect_def perms_drawer_init_def leafCodes_def demo_perm_def)
  moreover have "\<forall>p \<in> set ?ps. \<not> starts_with (pm_code p) ''module:''"
    by (simp add: demo_perm_def starts_with_def)
  moreover have "check_strictly demo_tree" by (auto simp: check_strictly_def demo_tree_def)
  ultimately show ?thesis using saved_permissions_listed [of demo_tree ?d ?ps 4 True] by simp
qed

text \<open>
  The save button is enabled before the permissions of the role arrived, and when they never
  arrive: saving then takes every permission from the role.
\<close>

lemma early_save_clears_role:
  assumes "can_manage_roles u" and "dr_allPerms d = None \<or> dr_rolePerms d = None" and "drawer_reach tree d"
    and "dr_checked d = []"
  shows "sends (press_save_perms u i d ok) = [SetRolePermissions i []]"
  using assms by (simp add: press_save_perms_def perms_handleSave_def)

lemma early_save_reachable: "drawer_reach tree perms_drawer_init" "dr_checked perms_drawer_init = []"
  by (rule drawer_reach.start) (simp add: perms_drawer_init_def)

end
