(* ===== verification/PageTheorems.thy ===== *)
theory PageTheorems
  imports ClusterImport ResourceEdit BackupList HelmPages RolesPage
begin

section \<open>What holds on every page\<close>

text \<open>
  The handlers of all pages together: none sends a mutation without its permission, and none but
  the connection test of the cluster list reports a failure itself. Each conjunct is a law of the
  locales \<open>page_handler\<close> and \<open>silent_handler\<close> at one of their interpretations.
\<close>

lemma cluster_guards:
  "sends (press_ping u pinging code res) \<noteq> [] \<Longrightarrow> hasPerm u ''cluster:ping''"
  "sends (press_delete u selected code ok) \<noteq> [] \<Longrightarrow> hasPerm u ''cluster:delete''"
  "sends (snd (handleSave j u valid d ok)) \<noteq> [] \<Longrightarrow> hasPerm u ''cluster:update''"
  using cluster_ping.guard [of "(u, pinging, code, the res)" "res \<noteq> None"]
    cluster_delete.guard [of "(u, selected, code)" ok] cluster_save.guard [of "(j, u, valid, d)" ok]
  by (cases res; simp)+

lemma resource_guards:
  "sends (res_delete (res_list_perms u) s item ok) \<noteq> [] \<Longrightarrow> hasPerm u ''resource:delete''"
  "sends (edit_handleSave f l (edit_page_perms u) t e ok) \<noteq> [] \<Longrightarrow> hasPerm u ''resource:update''"
  "sends (edit_handleDelete (edit_page_perms u) t ok) \<noteq> [] \<Longrightarrow> hasPerm u ''resource:delete''"
  "sends (edit_handleRollback (edit_page_perms u) t n r) \<noteq> [] \<Longrightarrow>
     hasPerm u ''version:rollback'' \<or> hasPerm u ''resource:update''"
  using res_remove.guard [of "(res_list_perms u, s, item)" ok]
    edit_save.guard [of "(f, l, edit_page_perms u, t, e)" ok]
    edit_delete.guard [of "(edit_page_perms u, t)" ok]
    edit_rollback.guard [of "(edit_page_perms u, t, n, the r)" "r \<noteq> None"]
  by (cases r; simp add: res_list_perms_def edit_page_perms_def)+

lemma backup_guards:
  "sends (snd (handleConfirmRestore (backup_list_perms u) d i)) \<noteq> [] \<Longrightarrow> hasPerm u ''backup:restore''"
  "sends (backup_handleDownload (backup_list_perms u) r ok) \<noteq> [] \<Longrightarrow> hasPerm u ''backup:list''"
  "sends (backup_confirm_delete (backup_list_perms u) r ok) \<noteq> [] \<Longrightarrow> hasPerm u ''backup:delete''"
  using backup_restore.guard [of "(backup_list_perms u, d, the i)" "i \<noteq> None"]
    backup_download.guard [of "(backup_list_perms u, r)" ok] backup_delete.guard [of "(backup_list_perms u, r)" ok]
  by (cases i; simp add: backup_list_perms_def)+

lemma helm_guards:
  "sends (handleUninstall (helm_list_perms u) s r ok) \<noteq> [] \<Longrightarrow> hasPerm u ''helm:uninstall''"
  "sends (helm_handleRollback (helm_list_perms u) s r n ok) \<noteq> [] \<Longrightarrow> hasPerm u ''helm:rollback''"
  "sends (press_add u is_url f ok) \<noteq> [] \<Longrightarrow> hasPerm u ''helm:install''"
  "sends (press_update u name ok) \<noteq> [] \<Longrightarrow> hasPerm u ''helm:install''"
  "sends (confirm_remove u repo ok) \<noteq> [] \<Longrightarrow> hasPerm u ''helm:install''"
  using helm_uninstall.guard [of "(helm_list_perms u, s, r)" ok]
    helm_rollback.guard [of "(helm_list_perms u, s, r, n)" ok] repo_add.guard [of "(u, is_url, f)" ok]
    repo_update.guard [of "(u, name)" ok] repo_remove.guard [of "(u, repo)" ok]
  by (simp_all add: helm_list_perms_def)

lemma user_guards:
  "sends (press_create_user u is_email b m) \<noteq> [] \<Longrightarrow> hasPerm u ''user:manage''"
  "sends (press_edit_user u is_email r eb ok) \<noteq> [] \<Longrightarrow> hasPerm u ''user:manage''"
  "sends (press_toggle_user u r ok) \<noteq> [] \<Longrightarrow> hasPerm u ''user:manage''"
  "sends (press_reset u r pwd ok) \<noteq> [] \<Longrightarrow> hasPerm u ''user:manage''"
  "sends (press_bind u i bf ok) \<noteq> [] \<Longrightarrow> hasPerm u ''user:manage''"
  "sends (press_unbind u i ur ok) \<noteq> [] \<Longrightarrow> hasPerm u ''user:manage''"
  using user_create.guard [of "(u, is_email, b, the m)" "m \<noteq> None"]
    user_edit.guard [of "(u, is_email, r, eb)" ok] user_toggle.guard [of "(u, r)" ok]
    user_reset.guard [of "(u, r, pwd)" ok] role_bind.guard [of "(u, i, bf)" ok]
    role_unbind.guard [of "(u, i, ur)" ok]
  by (cases m; simp add: can_manage_users_def)+

lemma role_guards:
  "sends (press_create_role u rb m) \<noteq> [] \<Longrightarrow> hasPerm u ''role:manage''"
  "sends (press_edit_role u ro reb ok) \<noteq> [] \<Longrightarrow> hasPerm u ''role:manage'' \<and> ro_builtin ro \<noteq> 1"
  "sends (press_toggle_role u ro ok) \<noteq> [] \<Longrightarrow> hasPerm u ''role:manage''"
  "sends (press_delete_role u ro ok) \<noteq> [] \<Longrightarrow> hasPerm u ''role:manage'' \<and> ro_builtin ro \<noteq> 1"
  "sends (press_save_perms u i pd ok) \<noteq> [] \<Longrightarrow> hasPerm u ''role:manage''"
  by (auto simp: press_create_role_def press_edit_role_def press_toggle_role_def press_delete_role_def
      press_save_perms_def role_actions_disabled_def can_manage_roles_def split: if_splits)

text \<open>The two handlers without a check of their own sit in drawers that open with the permission.\<close>

lemma drawer_guards:
  "cd_open (fst (openCreateDrawer (res_list_perms u) s cd)) \<Longrightarrow> cd_open cd \<or> hasPerm u ''resource:create''"
  "id_open (fst (openInstallDrawer (helm_list_perms u) get hs ind)) \<Longrightarrow> id_open ind \<or> hasPerm u ''helm:install''"
  "id_open (fst (auto_open_effect (helm_list_perms u) get hs ind)) \<Longrightarrow> id_open ind \<or> hasPerm u ''helm:install''"
  by (auto simp: openCreateDrawer_def openInstallDrawer_def auto_open_effect_def res_list_perms_def
      helm_list_perms_def split: if_splits prod.splits)

lemmas page_guards = cluster_guards resource_guards backup_guards helm_guards user_guards role_guards
  drawer_guards

text \<open>
  No page acts without the permission: whatever a user clicks, in whatever state the page is
  and whatever the server answers, a request that changes a cluster, a resource, a backup, a release,
  a user or a role leaves the page only for a user who holds the permission point of that action,
  a built-in role is neither edited nor deleted, and the drawers for a new resource and a
  new release open for their permission only.
\<close>

theorem handlers_guarded:
  "(sends (press_ping u pinging code res) \<noteq> [] \<longrightarrow> hasPerm u ''cluster:ping'')
   \<and> (sends (press_delete u selected code ok) \<noteq> [] \<longrightarrow> hasPerm u ''cluster:delete'')
   \<and> (sends (snd (handleSave j u valid d ok)) \<noteq> [] \<longrightarrow> hasPerm u ''cluster:update'')
   \<and> (sends (res_delete (res_list_perms u) s item ok) \<noteq> [] \<longrightarrow> hasPerm u ''resource:delete'')
   \<and> (sends (edit_handleSave f l (edit_page_perms u) t e ok) \<noteq> [] \<longrightarrow> hasPerm u ''resource:update'')
   \<and> (sends (edit_handleDelete (edit_page_perms u) t ok) \<noteq> [] \<longrightarrow> hasPerm u ''resource:delete'')
   \<and> (sends (edit_handleRollback (edit_page_perms u) t n vr) \<noteq> [] \<longrightarrow>
        hasPerm u ''version:rollback'' \<or> hasPerm u ''resource:update'')
   \<and> (sends (snd (handleConfirmRestore (backup_list_perms u) rd i)) \<noteq> [] \<longrightarrow> hasPerm u ''backup:restore'')
   \<and> (sends (backup_handleDownload (backup_list_perms u) bk ok) \<noteq> [] \<longrightarrow> hasPerm u ''backup:list'')
   \<and> (sends (backup_confirm_delete (backup_list_perms u) bk ok) \<noteq> [] \<longrightarrow> hasPerm u ''backup:delete'')
   \<and> (sends (handleUninstall (helm_list_perms u) hs hr ok) \<noteq> [] \<longrightarrow> hasPerm u ''helm:uninstall'')
   \<and> (sends (helm_handleRollback (helm_list_perms u) hs hr hn ok) \<noteq> [] \<longrightarrow> hasPerm u ''helm:rollback'')
   \<and> (sends (press_add u is_url af ok) \<noteq> [] \<or> sends (press_update u name ok) \<noteq> []
        \<or> sends (confirm_remove u repo ok) \<noteq> [] \<longrightarrow> hasPerm u ''helm:install'')
   \<and> (sends (press_create_user u is_email cb m) \<noteq> [] \<or> sends (press_edit_user u is_email us eb ok) \<noteq> []
        \<or> sends (press_toggle_user u us ok) \<noteq> [] \<or> sends (press_reset u us pwd ok) \<noteq> []
        \<or> sends (press_bind u ui bf ok) \<noteq> [] \<or> sends (press_unbind u ui ur ok) \<noteq> [] \<longrightarrow>
        hasPerm u ''user:manage'')
   \<and> (sends (press_create_role u rb m) \<noteq> [] \<or> sends (press_toggle_role u ro ok) \<noteq> []
        \<or> sends (press_save_perms u ri pd ok) \<noteq> [] \<longrightarrow> hasPerm u ''role:manage'')
   \<and> (sends (press_edit_role u ro reb ok) \<noteq> [] \<or> sends (press_delete_role u ro ok) \<noteq> [] \<longrightarrow>
        hasPerm u ''role:manage'' \<and> ro_builtin ro \<noteq> 1)
   \<and> (cd_open (fst (openCreateDrawer (res_list_perms u) s cd)) \<longrightarrow> cd_open cd \<or> hasPerm u ''resource:create'')
   \<and> (id_open (fst (auto_open_effect (helm_list_perms u) get hs ind)) \<longrightarrow> id_open ind \<or> hasPerm u ''helm:install'')"
  by (intro conjI impI) (auto dest: page_guards)

theorem handlers_guarded_witness:
  "sends (press_delete (Some (demo_user [''cluster:ping''])) None ''c1'' True) = []
   \<and> sends (press_delete (Some (demo_user [''cluster:delete''])) None ''c1'' True) = [DeleteCluster ''c1'']"
proof
  have no: "\<not> hasPerm (Some (demo_user [''cluster:ping''])) ''cluster:delete''"
    by (simp add: hasPerm_def demo_user_def user_perms_def isPlatformAdmin_def)
  have "sends (press_delete (Some (demo_user [''cluster:ping''])) None ''c1'' True) \<noteq> [] \<longrightarrow>
      hasPerm (Some (demo_user [''cluster:ping''])) ''cluster:delete''"
    by (rule handlers_guarded [THEN conjunct2, THEN conjunct1])
  with no show "sends (press_delete (Some (demo_user [''cluster:ping''])) None ''c1'' True) = []"
    by blast
  show "sends (press_delete (Some (demo_user [''cluster:delete''])) None ''c1'' True) = [DeleteCluster ''c1'']"
    by (simp add: press_delete_def confirm_delete_def hasPerm_def demo_user_def user_perms_def isPlatformAdmin_def)
qed

text \<open>
  A failure is reported once: every handler but one leaves it to the interceptors; the connection
  test of the cluster list adds a second toast of its own.
\<close>

lemma failures_reported_once:
  "error_toasts (confirm_delete selected code False) = []"
  "sends (res_delete p s item False) \<noteq> [] \<Longrightarrow> error_toasts (res_delete p s item False) = []"
  "sends (edit_handleSave f l ep t e False) \<noteq> [] \<Longrightarrow> error_toasts (edit_handleSave f l ep t e False) = []"
  "sends (snd (handleConfirmRestore bp rd None)) \<noteq> [] \<Longrightarrow> error_toasts (snd (handleConfirmRestore bp rd None)) = []"
  "sends (handleUninstall hp hs hr False) \<noteq> [] \<Longrightarrow> error_toasts (handleUninstall hp hs hr False) = []"
  "sends (press_bind u i bf False) \<noteq> [] \<Longrightarrow> error_toasts (press_bind u i bf False) = []"
  "sends (press_delete_role u ro False) \<noteq> [] \<Longrightarrow> error_toasts (press_delete_role u ro False) = []"
  "error_toasts (handlePing code None) = [txt_ping_failed]"
  using res_remove.silent [of "(p, s, item)"] edit_save.silent [of "(f, l, ep, t, e)"]
    backup_restore.silent [of "(bp, rd, i)"] helm_uninstall.silent [of "(hp, hs, hr)"]
    role_bind.silent [of "(u, i, bf)"] role_delete.silent [of "(u, ro)"]
  by (simp_all add: confirm_delete_def handlePing_def)

end
