(* ===== verification/View.thy ===== *)
theory View
  imports Pages
begin

section \<open>Rendered pages and their runs\<close>

text \<open>
  A component renders a tree of elements. An element has a tag, attributes and children; what the
  source passes as an attribute of elements (\<open>extra\<close>, \<open>headerTitle\<close>, the columns of a table) is a
  child with the name of the attribute as its tag. Attributes that only style an element are left
  out. An event handler is an \<^emph>\<open>action\<close>, a value of the type that the page declares for the
  handlers of its markup; the argument of the event comes with the step that performs the action.
\<close>

text \<open>A rule of a form field; the fields of the rule that the source leaves out are as in \<open>no_rule\<close>.\<close>

record form_rule =
  fr_required :: bool
  fr_min :: "nat option"
  fr_max :: "nat option"
  fr_email :: bool
  fr_pattern :: "(string \<Rightarrow> bool) option"

definition no_rule :: form_rule where
  "no_rule = \<lparr>fr_required = False, fr_min = None, fr_max = None, fr_email = False, fr_pattern = None\<rparr>"

definition required :: form_rule where
  "required = no_rule\<lparr>fr_required := True\<rparr>"

datatype 'a attr =
    Attr string string
  | Flag string bool
  | On string 'a
  | Options "(string \<times> string) list"
  | Rules "form_rule list"

datatype 'a node =
    Txt string
  | El string "'a attr list" "'a node list"

text \<open>What one can write as a child in JSX: a conditional, and a mapped list.\<close>

definition shown_if :: "bool \<Rightarrow> 'a node list \<Rightarrow> 'a node list" where
  "shown_if b vs = (if b then vs else [])"

text \<open>A table: one row for each item, in it one cell for each column, with the title of the column.\<close>

definition table_rows :: "(string \<times> ('r \<Rightarrow> 'a node list)) list \<Rightarrow> 'r list \<Rightarrow> 'a node list" where
  "table_rows columns rows =
     map (\<lambda>r. El ''row'' [] (map (\<lambda>(title, render). El ''cell'' [Attr ''title'' title] (render r)) columns)) rows"

subsection \<open>Actions of a view\<close>

text \<open>
  The actions that the markup offers: the handlers of all its elements, without those of a disabled
  or loading control and of what is inside it, and without those of a drawer or a dialog that is not
  open. The component library calls no others.
\<close>

definition switched_off :: "string \<Rightarrow> 'a attr list \<Rightarrow> bool" where
  "switched_off tag attrs \<longleftrightarrow>
     list_ex (\<lambda>a. case a of
         Flag n b \<Rightarrow> (n = ''disabled'' \<and> b) \<or> (n = ''open'' \<and> \<not> b)
           \<or> (n = ''loading'' \<and> b \<and> (tag = ''Button'' \<or> tag = ''Card''))
       | _ \<Rightarrow> False) attrs"

definition handlers :: "'a attr list \<Rightarrow> 'a list" where
  "handlers attrs = concat (map (\<lambda>a. case a of On n h \<Rightarrow> [h] | _ \<Rightarrow> []) attrs)"

primrec acts :: "'a node \<Rightarrow> 'a list" where
  "acts (Txt s) = []"
| "acts (El tag attrs vs) = (if switched_off tag attrs then [] else handlers attrs @ concat (map acts vs))"

text \<open>The fields of the forms that are shown, with their rules.\<close>

definition field_of :: "'a attr list \<Rightarrow> (string \<times> form_rule list) list" where
  "field_of attrs =
     (let names = concat (map (\<lambda>a. case a of Attr n v \<Rightarrow> if n = ''name'' then [v] else [] | _ \<Rightarrow> []) attrs);
          rs = concat (map (\<lambda>a. case a of Rules rs \<Rightarrow> rs | _ \<Rightarrow> []) attrs)
      in map (\<lambda>n. (n, rs)) names)"

primrec form_fields :: "'a node \<Rightarrow> (string \<times> form_rule list) list" where
  "form_fields (Txt s) = []"
| "form_fields (El tag attrs vs) =
     (if tag = ''Form.Item'' then field_of attrs else []) @ concat (map form_fields vs)"

text \<open>
  The rules as the form library documents them: an empty or missing value fails a required field
  and passes any other; lengths and patterns are checked on the other values.
\<close>

definition rule_ok :: "(string \<Rightarrow> bool) \<Rightarrow> form_rule \<Rightarrow> string option \<Rightarrow> bool" where
  "rule_ok is_email r v \<longleftrightarrow>
     (if \<not> truthy v then \<not> fr_required r
      else (case fr_min r of None \<Rightarrow> True | Some n \<Rightarrow> n \<le> length (the v))
         \<and> (case fr_max r of None \<Rightarrow> True | Some n \<Rightarrow> length (the v) \<le> n)
         \<and> (fr_email r \<longrightarrow> is_email (the v))
         \<and> (case fr_pattern r of None \<Rightarrow> True | Some p \<Rightarrow> p (the v)))"

definition form_accepts :: "(string \<Rightarrow> bool) \<Rightarrow> 'a node \<Rightarrow> (string \<Rightarrow> string option) \<Rightarrow> bool" where
  "form_accepts is_email v get \<longleftrightarrow> list_all (\<lambda>(n, rs). list_all (\<lambda>r. rule_ok is_email r (get n)) rs) (form_fields v)"

named_theorems view_simps
named_theorems form_simps

lemma switched_off_simps [view_simps]:
  "switched_off tag [] = False"
  "switched_off tag (Attr n v # as) = switched_off tag as"
  "switched_off tag (On n h # as) = switched_off tag as"
  "switched_off tag (Options os # as) = switched_off tag as"
  "switched_off tag (Rules rs # as) = switched_off tag as"
  "switched_off tag (Flag n b # as) =
     ((n = ''disabled'' \<and> b \<or> n = ''open'' \<and> \<not> b \<or> n = ''loading'' \<and> b \<and> (tag = ''Button'' \<or> tag = ''Card''))
       \<or> switched_off tag as)"
  by (simp_all add: switched_off_def)

lemma handlers_simps [view_simps]:
  "handlers [] = []" "handlers (Attr n v # as) = handlers as" "handlers (Flag n b # as) = handlers as"
  "handlers (Options os # as) = handlers as" "handlers (Rules rs # as) = handlers as"
  "handlers (On n h # as) = h # handlers as"
  by (simp_all add: handlers_def)

lemma acts_Txt [view_simps]: "set (acts (Txt s)) = {}"
  by simp

lemma acts_El [view_simps]:
  "set (acts (El tag attrs vs))
     = (if switched_off tag attrs then {} else set (handlers attrs) \<union> (\<Union>v \<in> set vs. set (acts v)))"
  by simp

lemma shown_if_set [view_simps]: "set (shown_if b vs) = (if b then set vs else {})"
  by (simp add: shown_if_def)

lemma acts_table [view_simps]:
  "(\<Union>v \<in> set (table_rows columns rows). set (acts v))
     = (\<Union>r \<in> set rows. \<Union>c \<in> set columns. \<Union>v \<in> set (snd c r). set (acts v))"
  by (simp add: table_rows_def view_simps case_prod_unfold)

lemma form_fields_table: "concat (map form_fields (table_rows columns rows)) =
    concat (map (\<lambda>r. concat (map (\<lambda>c. concat (map form_fields (snd c r))) columns)) rows)"
  by (simp add: table_rows_def case_prod_unfold comp_def)

text \<open>
  All actions that a view offers satisfy a predicate; the rules push it to the handlers, so that a
  page is checked by rewriting.
\<close>

definition offers_only :: "('a \<Rightarrow> bool) \<Rightarrow> 'a node \<Rightarrow> bool" where
  "offers_only P v \<longleftrightarrow> list_all P (acts v)"

named_theorems offer_simps

lemma offers_only_simps [offer_simps]:
  "offers_only P (Txt s) = True"
  "offers_only P (El tag attrs vs)
     = (switched_off tag attrs \<or> list_all P (handlers attrs) \<and> list_all (offers_only P) vs)"
  by (auto simp: offers_only_def list_all_iff)

lemma offers_only_lists [offer_simps]:
  "list_all (offers_only P) (shown_if b vs) = (b \<longrightarrow> list_all (offers_only P) vs)"
  "list_all (offers_only P) (table_rows columns rows)
     = list_all (\<lambda>r. list_all (\<lambda>c. list_all (offers_only P) (snd c r)) columns) rows"
  by (auto simp: shown_if_def table_rows_def list_all_iff offers_only_simps switched_off_simps handlers_simps
      case_prod_unfold)

lemma list_all_rules [offer_simps]:
  "list_all P (map f zs) = list_all (\<lambda>x. P (f x)) zs" "list_all (\<lambda>x. True) ws = True"
  "list_all P (if b then xs else ys) = (if b then list_all P xs else list_all P ys)"
  by (simp_all add: list_all_iff)

declare switched_off_simps [offer_simps] handlers_simps [offer_simps]

lemma not_list_ex_filter: "\<not> list_ex P xs \<Longrightarrow> filter P xs = []"
  by (induction xs) auto

lemma offers_onlyD: "offers_only P v \<Longrightarrow> a \<in> set (acts v) \<Longrightarrow> P a"
  by (simp add: offers_only_def list_all_iff)

subsection \<open>Runs of a page\<close>

text \<open>
  A page: what it renders from the results of its queries, the mutations in flight and its state;
  what an action does; what happens when a mutation returns; its effects on a render; and how the
  user may change the fields of its forms. The argument of an event is one of \<open>event\<close>.
\<close>

datatype event = NoArg | TextArg string | PageArg int int | FormArg "(string \<times> string) list"

definition text_arg :: "event \<Rightarrow> string option" where
  "text_arg x = (case x of TextArg t \<Rightarrow> Some t | _ \<Rightarrow> None)"

definition text_or :: "event \<Rightarrow> string \<Rightarrow> string" where
  "text_or x t = (case x of TextArg v \<Rightarrow> v | _ \<Rightarrow> t)"

record ('d, 's, 'a, 'm, 'r) machine =
  pg_start :: 's
  pg_view :: "'d \<Rightarrow> 'm list \<Rightarrow> 's \<Rightarrow> 'a node"
  pg_act :: "'a \<Rightarrow> event \<Rightarrow> 'd \<Rightarrow> 's \<Rightarrow> 's \<times> 'm page_effect list"
  pg_reply :: "'m \<Rightarrow> 'r \<Rightarrow> 's \<Rightarrow> 's \<times> 'm page_effect list"
  pg_commit :: "'d \<Rightarrow> 's \<Rightarrow> 's \<times> 'm page_effect list"
  pg_typed :: "'s \<Rightarrow> 's \<Rightarrow> bool"

text \<open>The configurations that a page reaches: its state, the mutations in flight, all its effects.\<close>

inductive page_reach ::
  "('d, 's, 'a, 'm, 'r) machine \<Rightarrow> 's \<Rightarrow> 'm list \<Rightarrow> 'm page_effect list \<Rightarrow> bool" for p where
  start: "page_reach p (pg_start p) [] []"
| act: "page_reach p s flight tr \<Longrightarrow> a \<in> set (acts (pg_view p d flight s)) \<Longrightarrow> pg_act p a x d s = (s', es)
    \<Longrightarrow> page_reach p s' (flight @ sends es) (tr @ es)"
| reply: "page_reach p s flight tr \<Longrightarrow> m \<in> set flight \<Longrightarrow> pg_reply p m r s = (s', es)
    \<Longrightarrow> page_reach p s' (remove1 m flight @ sends es) (tr @ es)"
| commit: "page_reach p s flight tr \<Longrightarrow> pg_commit p d s = (s', es)
    \<Longrightarrow> page_reach p s' (flight @ sends es) (tr @ es)"
| typed: "page_reach p s flight tr \<Longrightarrow> pg_typed p s s' \<Longrightarrow> page_reach p s' flight tr"

text \<open>
  A page awaits the outcome of a mutation in the middle of a handler. \<open>start_call c es\<close> are the effects
  of the handler up to the \<open>await\<close>, with the call \<open>c\<close> for its request, when \<open>es\<close> are its effects if
  the request fails; \<open>reported es\<close> are those after it, when \<open>es\<close> are all its effects.
\<close>

definition start_call :: "'c \<Rightarrow> 'm page_effect list \<Rightarrow> 'c page_effect list" where
  "start_call c es = map (map_page_effect (\<lambda>_. c)) es"

primrec after_call :: "'m page_effect \<Rightarrow> 'c page_effect list" where
  "after_call (PSend m) = []"
| "after_call (PToast l t) = [PToast l t]"
| "after_call PRefetch = [PRefetch]"
| "after_call (PNavigate u) = [PNavigate u]"
| "after_call (PSelectCluster c) = [PSelectCluster c]"

definition reported :: "'m page_effect list \<Rightarrow> 'c page_effect list" where
  "reported es = concat (map after_call es)"

lemma sends_start_call [simp]: "sends (start_call c es) = map (\<lambda>_. c) (sends es)"
proof (induction es)
  case (Cons e es)
  then show ?case by (cases e) (simp_all add: start_call_def)
qed (simp add: start_call_def)

lemma sends_reported [simp]: "sends (reported es) = []"
proof (induction es)
  case (Cons e es)
  then show ?case by (cases e) (simp_all add: reported_def)
qed (simp add: reported_def)

lemma flight_was_sent: "page_reach p s flight tr \<Longrightarrow> set flight \<subseteq> set (sends tr)"
proof (induction rule: page_reach.induct)
  case (reply s flight tr m r s' es)
  then show ?case using set_remove1_subset [of m flight] by auto
qed auto

text \<open>
  The contract of a page: an invariant of its state, which every step keeps, such that an offered
  action sends permitted requests only, and replies and effects send none.
\<close>

locale guarded_page =
  fixes p :: "('d, 's, 'a, 'm, 'r) machine" and inv :: "'s \<Rightarrow> bool" and may :: "'m \<Rightarrow> bool"
  assumes inv_start: "inv (pg_start p)"
    and inv_act: "inv s \<Longrightarrow> a \<in> set (acts (pg_view p d flight s)) \<Longrightarrow> inv (fst (pg_act p a x d s))"
    and inv_reply: "inv s \<Longrightarrow> inv (fst (pg_reply p m r s))"
    and inv_commit: "inv s \<Longrightarrow> inv (fst (pg_commit p d s))"
    and inv_typed: "inv s \<Longrightarrow> pg_typed p s s' \<Longrightarrow> inv s'"
    and act_permitted: "inv s \<Longrightarrow> a \<in> set (acts (pg_view p d flight s))
        \<Longrightarrow> m \<in> set (sends (snd (pg_act p a x d s))) \<Longrightarrow> may m"
    and reply_quiet: "sends (snd (pg_reply p m r s)) = []"
    and commit_quiet: "sends (snd (pg_commit p d s)) = []"
begin

lemma reach_inv: "page_reach p s flight tr \<Longrightarrow> inv s"
proof (induction rule: page_reach.induct)
  case (act s flight tr a d x s' es)
  then show ?case using inv_act [of s a d flight x] by simp
next
  case (reply s flight tr m r s' es)
  then show ?case using inv_reply [of s m r] by simp
next
  case (commit s flight tr d s' es)
  then show ?case using inv_commit [of s d] by simp
qed (auto intro: inv_start inv_typed)

lemma sent_permitted: "page_reach p s flight tr \<Longrightarrow> m \<in> set (sends tr) \<Longrightarrow> may m"
proof (induction rule: page_reach.induct)
  case (act s flight tr a d x s' es)
  then show ?case using act_permitted [of s a d flight m x] reach_inv [OF act.hyps(1)] by auto
next
  case (reply s flight tr m' r s' es)
  then show ?case using reply_quiet [of m' r s] by auto
next
  case (commit s flight tr d s' es)
  then show ?case using commit_quiet [of d s] by auto
qed auto

end

text \<open>
  A page that does not submit twice: a request of the kind \<open>busy\<close> starts only when none of the kind
  is in flight, since its button is then loading.
\<close>

locale single_submit = guarded_page p inv may
  for p :: "('d, 's, 'a, 'm, 'r) machine" and inv :: "'s \<Rightarrow> bool" and may :: "'m \<Rightarrow> bool" +
  fixes busy :: "'m \<Rightarrow> bool"
  assumes one_call: "length (sends (snd (pg_act p a x d s))) \<le> 1"
    and starts_idle: "inv s \<Longrightarrow> a \<in> set (acts (pg_view p d flight s))
        \<Longrightarrow> filter busy (sends (snd (pg_act p a x d s))) \<noteq> [] \<Longrightarrow> filter busy flight = []"
begin

lemma at_most_one_in_flight: "page_reach p s flight tr \<Longrightarrow> length (filter busy flight) \<le> 1"
proof (induction rule: page_reach.induct)
  case (act s flight tr a d x s' es)
  show ?case
  proof (cases "filter busy (sends es) = []")
    case False
    then have "filter busy flight = []"
      using starts_idle [OF reach_inv [OF act.hyps(1)] act.hyps(2), of x] act.hyps(3) by simp
    moreover have "length (filter busy (sends es)) \<le> 1"
      using one_call [of a x d s] act.hyps(3) by (simp add: order_trans [OF length_filter_le])
    ultimately show ?thesis by simp
  qed (use act.IH in simp)
next
  case (reply s flight tr m r s' es)
  have "length (filter busy (remove1 m flight)) \<le> length (filter busy flight)"
    by (induction flight) auto
  moreover have "sends es = []" using reply_quiet [of m r s] reply.hyps(3) by simp
  ultimately show ?case using reply.IH by simp
next
  case (commit s flight tr d s' es)
  moreover have "sends es = []" using commit_quiet [of d s] commit.hyps(2) by simp
  ultimately show ?case by simp
qed auto

end

text \<open>
  A page whose state has a loading flag for the requests of the kind \<open>busy\<close>: an offered action that
  starts one finds it down and raises it, the reply lowers it, and nothing else moves it. Then it tells
  how many are in flight.
\<close>

locale loading_flag = guarded_page p inv may
  for p :: "('d, 's, 'a, 'm, 'r) machine" and inv :: "'s \<Rightarrow> bool" and may :: "'m \<Rightarrow> bool" +
  fixes busy :: "'m \<Rightarrow> bool" and flag :: "'s \<Rightarrow> bool"
  assumes flag_start: "\<not> flag (pg_start p)"
    and one_request: "length (sends (snd (pg_act p a x d s))) \<le> 1"
    and raises: "inv s \<Longrightarrow> a \<in> set (acts (pg_view p d flight s)) \<Longrightarrow> filter busy (sends (snd (pg_act p a x d s))) \<noteq> []
        \<Longrightarrow> \<not> flag s \<and> flag (fst (pg_act p a x d s))"
    and keeps: "filter busy (sends (snd (pg_act p a x d s))) = [] \<Longrightarrow> flag (fst (pg_act p a x d s)) = flag s"
    and lowers: "flag (fst (pg_reply p m r s)) = (flag s \<and> \<not> busy m)"
    and commit_keeps: "flag (fst (pg_commit p d s)) = flag s"
    and typed_keeps: "pg_typed p s s' \<Longrightarrow> flag s' = flag s"
begin

lemma flag_counts: "page_reach p s flight tr \<Longrightarrow> length (filter busy flight) = (if flag s then 1 else 0)"
proof (induction rule: page_reach.induct)
  case (act s flight tr a d x s' es)
  show ?case
  proof (cases "filter busy (sends es) = []")
    case True
    then show ?thesis using act.IH keeps [of a x d s] act.hyps(3) by simp
  next
    case False
    then have "\<not> flag s" "flag s'"
      using raises [OF reach_inv [OF act.hyps(1)] act.hyps(2), of x] act.hyps(3) by simp_all
    moreover have "length (filter busy (sends es)) \<le> 1"
      using one_request [of a x d s] act.hyps(3) by (simp add: order_trans [OF length_filter_le])
    then have "length (filter busy (sends es)) = 1" using False by (simp add: le_Suc_eq)
    ultimately show ?thesis using act.IH by simp
  qed
next
  case (reply s flight tr m r s' es)
  have len: "length (filter busy (remove1 m flight)) = length (filter busy flight) - (if busy m then 1 else 0)"
    using reply.hyps(2)
  proof (induction flight)
    case (Cons c cs)
    then show ?case
      by (cases "filter busy cs") (auto simp: filter_empty_conv)
  qed simp
  have quiet: "sends es = []" "flag s' = (flag s \<and> \<not> busy m)"
    using reply_quiet [of m r s] lowers [of m r s] reply.hyps(3) by simp_all
  show ?case using len quiet reply.IH by simp
next
  case (commit s flight tr d s' es)
  then show ?case using commit_quiet [of d s] commit_keeps [of d s] by simp
qed (simp_all add: flag_start typed_keeps)

end

end
