(* ===== verification/UsersView.thy ===== *)
theory UsersView
  imports View UsersPage
begin

section \<open>The page of users as a machine\<close>

text \<open>
  What \<open>pages/users/list.tsx\<close> renders and the runs of the page: every handler of the markup is an
  action, a handler that awaits a mutation is cut there, and the reply is a step of its own. A call
  holds what the handler still knows when the reply arrives. The data are the results of the queries;
  clusters are pairs of code and name.
\<close>

record users_data =
  ud_users :: "(user list \<times> int) option"
  ud_fetching :: bool
  ud_userRoles :: "user_role list option"
  ud_rolesFetching :: bool
  ud_roles :: "role list"
  ud_clusters :: "(string \<times> string) list"

datatype users_call =
    is_CallCreate: CallCreate create_user_body
  | is_CallUpdate: CallUpdate user update_user_body
  | CallStatus user
  | CallReset user string
  | CallBind nat user bind_form
  | CallUnbind user user_role

text \<open>The dialog that asks for a new password is a user, the text and whether it awaits the reply.\<close>

record users_state =
  uz_filters :: list_params
  uz_createOpen :: bool
  uz_create :: create_user_body
  uz_editing :: "user option"
  uz_edit :: update_user_body
  uz_rolesUser :: "user option"
  uz_bind :: bind_form
  uz_bindLoading :: bool
  uz_mounts :: nat
  uz_reset :: "(user \<times> string \<times> bool) option"

datatype users_action =
    OpenCreate | CloseCreate | SubmitCreate | Reload | SearchUsers | ChangePage
  | ToggleStatus user | OpenRoles user | OpenEdit user | OpenReset user
  | CloseEdit | SubmitEdit | ConfirmReset | CancelReset
  | CloseRoles | SubmitBind | Unbind user_role

definition create_user_init :: create_user_body where
  "create_user_init =
     \<lparr>cub_username = [], cub_display_name = None, cub_email = None, cub_phone = None, cub_password = [],
      cub_auth_source = Some ''local'', cub_status = None\<rparr>"

definition users_start :: users_state where
  "users_start =
     \<lparr>uz_filters = users_init, uz_createOpen = False, uz_create = create_user_init, uz_editing = None,
      uz_edit = \<lparr>uub_display_name = None, uub_email = None, uub_phone = None, uub_status = None\<rparr>,
      uz_rolesUser = None, uz_bind = bind_init, uz_bindLoading = False, uz_mounts = 0, uz_reset = None\<rparr>"

subsection \<open>What is rendered\<close>

definition user_status_view :: "bool \<Rightarrow> user \<Rightarrow> users_action node list" where
  "user_status_view canUpdate r =
     (case user_status_cell canUpdate (us_status r) of
        StatusTag color label \<Rightarrow> [El ''Tag'' [Attr ''color'' color] [Txt label]]
      | StatusSwitch checked title \<Rightarrow>
          [El ''Popconfirm'' [Attr ''title'' title, On ''onConfirm'' (ToggleStatus r)]
             [El ''Switch'' [Flag ''checked'' checked, Attr ''checkedChildren'' [CHR 0xE5, CHR 0x90, CHR 0xAF, CHR 0xE7, CHR 0x94, CHR 0xA8],
                Attr ''unCheckedChildren'' [CHR 0xE7, CHR 0xA6, CHR 0x81, CHR 0xE7, CHR 0x94, CHR 0xA8]] []]])"

definition role_count_view :: "user \<Rightarrow> users_action node list" where
  "role_count_view r =
     (case us_role_count r of
        Some n \<Rightarrow> if n \<noteq> 0 then [El ''Tag'' [Attr ''color'' ''blue''] [Txt (count_tag n)]]
                  else [El ''Text'' [Attr ''type'' ''secondary''] [Txt ''0'']]
      | None \<Rightarrow> [El ''Text'' [Attr ''type'' ''secondary''] [Txt ''0'']])"

definition user_actions_view :: "bool \<Rightarrow> user \<Rightarrow> users_action node list" where
  "user_actions_view canUpdate r =
     [El ''Space'' []
        [El ''Tooltip'' [Attr ''title'' [CHR 0xE7, CHR 0xBB, CHR 0x91, CHR 0xE5, CHR 0xAE, CHR 0x9A, CHR 0xE8, CHR 0xA7,
      CHR 0x92, CHR 0xE8, CHR 0x89, CHR 0xB2]]
           [El ''Button'' [Flag ''disabled'' (\<not> canUpdate), On ''onClick'' (OpenRoles r)] [Txt [CHR 0xE8, CHR 0xA7, CHR 0x92, CHR 0xE8, CHR 0x89, CHR 0xB2]]],
         El ''Tooltip'' [Attr ''title'' [CHR 0xE7, CHR 0xBC, CHR 0x96, CHR 0xE8, CHR 0xBE, CHR 0x91]]
           [El ''Button'' [Flag ''disabled'' (\<not> canUpdate), On ''onClick'' (OpenEdit r)] []],
         El ''Tooltip'' [Attr ''title'' [CHR 0xE9, CHR 0x87, CHR 0x8D, CHR 0xE7, CHR 0xBD, CHR 0xAE, CHR 0xE5, CHR 0xAF,
      CHR 0x86, CHR 0xE7, CHR 0xA0, CHR 0x81]]
           [El ''Button'' [Flag ''disabled'' (\<not> canUpdate), On ''onClick'' (OpenReset r)] []]]]"

text \<open>The columns, each with its title and the cell that it renders for a row.\<close>

definition user_columns :: "(string \<Rightarrow> string) \<Rightarrow> bool \<Rightarrow> (string \<times> (user \<Rightarrow> users_action node list)) list" where
  "user_columns fmt canUpdate =
     [([CHR 0xE7, CHR 0x94, CHR 0xA8, CHR 0xE6, CHR 0x88, CHR 0xB7, CHR 0xE5, CHR 0x90,
      CHR 0x8D], \<lambda>r. [El ''Text'' [Flag ''strong'' True] [Txt (us_username r)]]),
      ([CHR 0xE6, CHR 0x98, CHR 0xBE, CHR 0xE7, CHR 0xA4, CHR 0xBA, CHR 0xE5, CHR 0x90,
      CHR 0x8D], \<lambda>r. [Txt (user_cells fmt r ! 0)]),
      ([CHR 0xE9, CHR 0x82, CHR 0xAE, CHR 0xE7, CHR 0xAE, CHR 0xB1], \<lambda>r. if truthy (us_email r) then [El ''Text'' [Flag ''copyable'' True] [Txt (the (us_email r))]]
                     else [Txt ''-'']),
      ([CHR 0xE6, CHR 0x89, CHR 0x8B, CHR 0xE6, CHR 0x9C, CHR 0xBA], \<lambda>r. [Txt (user_cells fmt r ! 1)]),
      ([CHR 0xE6, CHR 0x9D, CHR 0xA5, CHR 0xE6, CHR 0xBA, CHR 0x90], \<lambda>r. [El ''Tag'' [] [Txt (user_cells fmt r ! 2)]]),
      ([CHR 0xE8, CHR 0xA7, CHR 0x92, CHR 0xE8, CHR 0x89, CHR 0xB2, CHR 0xE6, CHR 0x95,
      CHR 0xB0], role_count_view),
      ([CHR 0xE7, CHR 0x8A, CHR 0xB6, CHR 0xE6, CHR 0x80, CHR 0x81], user_status_view canUpdate),
      ([CHR 0xE6, CHR 0x9C, CHR 0x80, CHR 0xE5, CHR 0x90, CHR 0x8E, CHR 0xE7, CHR 0x99,
      CHR 0xBB, CHR 0xE5, CHR 0xBD, CHR 0x95], \<lambda>r. if truthy (us_last_login_at r) then [Txt (user_cells fmt r ! 3)]
                     else [El ''Text'' [Attr ''type'' ''secondary''] [Txt (user_cells fmt r ! 3)]]),
      ([CHR 0xE5, CHR 0x88, CHR 0x9B, CHR 0xE5, CHR 0xBB, CHR 0xBA, CHR 0xE6, CHR 0x97,
      CHR 0xB6, CHR 0xE9, CHR 0x97, CHR 0xB4], \<lambda>r. [Txt (user_cells fmt r ! 4)]),
      ([CHR 0xE6, CHR 0x93, CHR 0x8D, CHR 0xE4, CHR 0xBD, CHR 0x9C], user_actions_view canUpdate)]"

definition users_table :: "(string \<Rightarrow> string) \<Rightarrow> bool \<Rightarrow> users_data \<Rightarrow> list_params \<Rightarrow> users_action node" where
  "users_table fmt canUpdate d f =
     El ''ProTable'' [Flag ''loading'' (ud_fetching d)]
       ([El ''headerTitle'' []
           [El ''Input.Search'' [Attr ''placeholder'' ([CHR 0xE6, CHR 0x90, CHR 0x9C, CHR 0xE7, CHR 0xB4, CHR 0xA2, CHR 0xE7, CHR 0x94,
      CHR 0xA8, CHR 0xE6, CHR 0x88, CHR 0xB7, CHR 0xE5, CHR 0x90, CHR 0x8D] @
     ''/'' @
     [CHR 0xE9, CHR 0x82, CHR 0xAE, CHR 0xE7, CHR 0xAE, CHR 0xB1]), On ''onSearch'' SearchUsers] []],
         El ''pagination''
           [Attr ''current'' (or_num_str (lp_page f) ''1''), Attr ''pageSize'' (or_num_str (lp_page_size f) ''10''),
            Attr ''total'' (case ud_users d of None \<Rightarrow> ''0'' | Some (_, n) \<Rightarrow> show_int n),
            Attr ''showTotal'' (([CHR 0xE5, CHR 0x85, CHR 0xB1] @
     '' '') @ (case ud_users d of None \<Rightarrow> ''0'' | Some (_, n) \<Rightarrow> show_int n) @ ('' '' @
     [CHR 0xE6, CHR 0x9D, CHR 0xA1])),
            On ''onChange'' ChangePage] []] @
        table_rows (user_columns fmt canUpdate) (case ud_users d of None \<Rightarrow> [] | Some (us, _) \<Rightarrow> us))"

definition create_user_form :: "users_action node" where
  "create_user_form =
     El ''Form'' []
       [El ''Form.Item'' [Attr ''name'' ''username'', Attr ''label'' [CHR 0xE7, CHR 0x94, CHR 0xA8, CHR 0xE6, CHR 0x88, CHR 0xB7, CHR 0xE5, CHR 0x90,
      CHR 0x8D],
          Rules [required\<lparr>fr_min := Some 3, fr_max := Some 64\<rparr>]]
          [El ''Input'' [Attr ''placeholder'' [CHR 0xE7, CHR 0x99, CHR 0xBB, CHR 0xE5, CHR 0xBD, CHR 0x95, CHR 0xE7, CHR 0x94,
      CHR 0xA8, CHR 0xE6, CHR 0x88, CHR 0xB7, CHR 0xE5, CHR 0x90, CHR 0x8D]] []],
        El ''Form.Item'' [Attr ''name'' ''password'', Attr ''label'' [CHR 0xE5, CHR 0x88, CHR 0x9D, CHR 0xE5, CHR 0xA7, CHR 0x8B, CHR 0xE5, CHR 0xAF,
      CHR 0x86, CHR 0xE7, CHR 0xA0, CHR 0x81],
          Rules [required\<lparr>fr_min := Some 8, fr_max := Some 128\<rparr>]]
          [El ''Input.Password'' [Attr ''placeholder'' ([CHR 0xE8, CHR 0x87, CHR 0xB3, CHR 0xE5, CHR 0xB0, CHR 0x91] @
     '' 8 '' @
     [CHR 0xE4, CHR 0xBD, CHR 0x8D])] []],
        El ''Form.Item'' [Attr ''name'' ''display_name'', Attr ''label'' [CHR 0xE6, CHR 0x98, CHR 0xBE, CHR 0xE7, CHR 0xA4, CHR 0xBA, CHR 0xE5, CHR 0x90,
      CHR 0x8D]]
          [El ''Input'' [Attr ''placeholder'' [CHR 0xE5, CHR 0x8F, CHR 0xAF, CHR 0xE9, CHR 0x80, CHR 0x89]] []],
        El ''Form.Item'' [Attr ''name'' ''email'', Attr ''label'' [CHR 0xE9, CHR 0x82, CHR 0xAE, CHR 0xE7, CHR 0xAE, CHR 0xB1], Rules [no_rule\<lparr>fr_email := True\<rparr>]]
          [El ''Input'' [Attr ''placeholder'' [CHR 0xE5, CHR 0x8F, CHR 0xAF, CHR 0xE9, CHR 0x80, CHR 0x89]] []],
        El ''Form.Item'' [Attr ''name'' ''phone'', Attr ''label'' [CHR 0xE6, CHR 0x89, CHR 0x8B, CHR 0xE6, CHR 0x9C, CHR 0xBA]]
          [El ''Input'' [Attr ''placeholder'' [CHR 0xE5, CHR 0x8F, CHR 0xAF, CHR 0xE9, CHR 0x80, CHR 0x89]] []],
        El ''Form.Item'' [Attr ''name'' ''auth_source'', Attr ''label'' [CHR 0xE8, CHR 0xAE, CHR 0xA4, CHR 0xE8, CHR 0xAF, CHR 0x81, CHR 0xE6, CHR 0x9D,
      CHR 0xA5, CHR 0xE6, CHR 0xBA, CHR 0x90]]
          [El ''Select'' [Options [(''local'', ([CHR 0xE6, CHR 0x9C, CHR 0xAC, CHR 0xE5, CHR 0x9C, CHR 0xB0] @
     '' (local)'')), (''ldap'', ''LDAP''), (''oidc'', ''OIDC'')]] []]]"

definition create_user_drawer :: "users_call list \<Rightarrow> users_state \<Rightarrow> users_action node" where
  "create_user_drawer flight s =
     El ''Drawer'' [Attr ''title'' [CHR 0xE6, CHR 0x96, CHR 0xB0, CHR 0xE5, CHR 0xBB, CHR 0xBA, CHR 0xE7, CHR 0x94,
      CHR 0xA8, CHR 0xE6, CHR 0x88, CHR 0xB7], Flag ''open'' (uz_createOpen s), On ''onClose'' CloseCreate]
       [El ''extra'' []
          [El ''Button'' [On ''onClick'' CloseCreate] [Txt [CHR 0xE5, CHR 0x8F, CHR 0x96, CHR 0xE6, CHR 0xB6, CHR 0x88]],
           El ''Button'' [Flag ''loading'' (list_ex is_CallCreate flight),
             On ''onClick'' SubmitCreate] [Txt [CHR 0xE5, CHR 0x88, CHR 0x9B, CHR 0xE5, CHR 0xBB, CHR 0xBA]]],
        create_user_form]"

definition edit_user_form :: "users_action node" where
  "edit_user_form =
     El ''Form'' []
       [El ''Form.Item'' [Attr ''name'' ''display_name'', Attr ''label'' [CHR 0xE6, CHR 0x98, CHR 0xBE, CHR 0xE7, CHR 0xA4, CHR 0xBA, CHR 0xE5, CHR 0x90,
      CHR 0x8D]] [El ''Input'' [] []],
        El ''Form.Item'' [Attr ''name'' ''email'', Attr ''label'' [CHR 0xE9, CHR 0x82, CHR 0xAE, CHR 0xE7, CHR 0xAE, CHR 0xB1], Rules [no_rule\<lparr>fr_email := True\<rparr>]]
          [El ''Input'' [] []],
        El ''Form.Item'' [Attr ''name'' ''phone'', Attr ''label'' [CHR 0xE6, CHR 0x89, CHR 0x8B, CHR 0xE6, CHR 0x9C, CHR 0xBA]] [El ''Input'' [] []]]"

definition edit_user_drawer :: "users_call list \<Rightarrow> users_state \<Rightarrow> users_action node" where
  "edit_user_drawer flight s =
     El ''Drawer''
       [Attr ''title'' (([CHR 0xE7, CHR 0xBC, CHR 0x96, CHR 0xE8, CHR 0xBE, CHR 0x91, CHR 0xE7, CHR 0x94,
      CHR 0xA8, CHR 0xE6, CHR 0x88, CHR 0xB7] @
     '' - '') @ (case uz_editing s of None \<Rightarrow> [] | Some r \<Rightarrow> us_username r)),
        Flag ''open'' (uz_editing s \<noteq> None), On ''onClose'' CloseEdit]
       [El ''extra'' []
          [El ''Button'' [On ''onClick'' CloseEdit] [Txt [CHR 0xE5, CHR 0x8F, CHR 0x96, CHR 0xE6, CHR 0xB6, CHR 0x88]],
           El ''Button'' [Flag ''loading'' (list_ex is_CallUpdate flight),
             On ''onClick'' SubmitEdit] [Txt [CHR 0xE4, CHR 0xBF, CHR 0x9D, CHR 0xE5, CHR 0xAD, CHR 0x98]]],
        edit_user_form]"

text \<open>The dialog of \<open>Modal.confirm\<close>; its button waits for the promise of \<open>onOk\<close>.\<close>

definition reset_dialog :: "users_state \<Rightarrow> users_action node list" where
  "reset_dialog s =
     (case uz_reset s of
        None \<Rightarrow> []
      | Some (r, pwd, waiting) \<Rightarrow>
          [El ''Modal'' [Attr ''title'' (([CHR 0xE9, CHR 0x87, CHR 0x8D, CHR 0xE7, CHR 0xBD, CHR 0xAE, CHR 0xE7, CHR 0x94,
      CHR 0xA8, CHR 0xE6, CHR 0x88, CHR 0xB7] @
     '' '') @ us_username r @ ('' '' @
     [CHR 0xE7, CHR 0x9A, CHR 0x84, CHR 0xE5, CHR 0xAF, CHR 0x86, CHR 0xE7, CHR 0xA0,
      CHR 0x81])), On ''onCancel'' CancelReset]
             [El ''Input.Password'' [Attr ''placeholder'' ([CHR 0xE8, CHR 0xAF, CHR 0xB7, CHR 0xE8, CHR 0xBE, CHR 0x93, CHR 0xE5, CHR 0x85,
      CHR 0xA5, CHR 0xE6, CHR 0x96, CHR 0xB0, CHR 0xE5, CHR 0xAF, CHR 0x86, CHR 0xE7,
      CHR 0xA0, CHR 0x81, CHR 0xEF, CHR 0xBC, CHR 0x88, CHR 0xE8, CHR 0x87, CHR 0xB3,
      CHR 0xE5, CHR 0xB0, CHR 0x91] @
     '' 8 '' @
     [CHR 0xE4, CHR 0xBD, CHR 0x8D, CHR 0xEF, CHR 0xBC, CHR 0x89])] [],
              El ''Button'' [Flag ''loading'' waiting, On ''onOk'' ConfirmReset] []]])"

text \<open>The fields of a binding that the chosen scope shows.\<close>

definition bind_scope_fields :: "users_data \<Rightarrow> rbac_scope \<Rightarrow> users_action node list" where
  "bind_scope_fields d scope =
     shown_if (needCluster scope)
       [El ''Form.Item'' [Attr ''name'' ''cluster_code'', Attr ''label'' [CHR 0xE9, CHR 0x9B, CHR 0x86, CHR 0xE7, CHR 0xBE, CHR 0xA4],
          Rules (if needCluster scope then [required] else [])]
          [El ''Select'' [Options (map (\<lambda>(code, name). (code, name @ '' ('' @ code @ '')'')) (ud_clusters d)),
             Attr ''placeholder'' [CHR 0xE9, CHR 0x80, CHR 0x89, CHR 0xE6, CHR 0x8B, CHR 0xA9, CHR 0xE9, CHR 0x9B,
      CHR 0x86, CHR 0xE7, CHR 0xBE, CHR 0xA4]] []]] @
     shown_if (needNs scope)
       [El ''Form.Item'' [Attr ''name'' ''namespace'', Attr ''label'' [CHR 0xE5, CHR 0x91, CHR 0xBD, CHR 0xE5, CHR 0x90, CHR 0x8D, CHR 0xE7, CHR 0xA9,
      CHR 0xBA, CHR 0xE9, CHR 0x97, CHR 0xB4],
          Rules (if needNs scope then [required] else [])]
          [El ''Input'' [Attr ''placeholder'' ([CHR 0xE5, CHR 0xA6, CHR 0x82] @
     '' default / kube-system'')] []]]"

definition bind_form_view :: "users_data \<Rightarrow> users_state \<Rightarrow> users_action node" where
  "bind_form_view d s =
     El ''Card'' [Attr ''title'' [CHR 0xE6, CHR 0x96, CHR 0xB0, CHR 0xE5, CHR 0xA2, CHR 0x9E, CHR 0xE8, CHR 0xA7,
      CHR 0x92, CHR 0xE8, CHR 0x89, CHR 0xB2, CHR 0xE7, CHR 0xBB, CHR 0x91, CHR 0xE5,
      CHR 0xAE, CHR 0x9A]]
       [El ''Form'' []
          ([El ''Form.Item'' [Attr ''name'' ''role_id'', Attr ''label'' [CHR 0xE8, CHR 0xA7, CHR 0x92, CHR 0xE8, CHR 0x89, CHR 0xB2], Rules [required]]
              [El ''Select'' [Options (map (\<lambda>(i, l). (show_int i, l)) (roleOptions (ud_roles d))),
                 Attr ''placeholder'' [CHR 0xE9, CHR 0x80, CHR 0x89, CHR 0xE6, CHR 0x8B, CHR 0xA9, CHR 0xE8, CHR 0xA7,
      CHR 0x92, CHR 0xE8, CHR 0x89, CHR 0xB2]] []],
            El ''Form.Item'' [Attr ''name'' ''scope_type'', Attr ''label'' [CHR 0xE6, CHR 0x95, CHR 0xB0, CHR 0xE6, CHR 0x8D, CHR 0xAE, CHR 0xE8, CHR 0x8C,
      CHR 0x83, CHR 0xE5, CHR 0x9B, CHR 0xB4], Rules [required]]
              [El ''Select'' [Options [(''platform'', [CHR 0xE5, CHR 0xB9, CHR 0xB3, CHR 0xE5, CHR 0x8F, CHR 0xB0, CHR 0xE7, CHR 0xBA,
      CHR 0xA7]), (''cluster'', [CHR 0xE9, CHR 0x9B, CHR 0x86, CHR 0xE7, CHR 0xBE, CHR 0xA4, CHR 0xE7, CHR 0xBA,
      CHR 0xA7]),
                 (''namespace'', [CHR 0xE5, CHR 0x91, CHR 0xBD, CHR 0xE5, CHR 0x90, CHR 0x8D, CHR 0xE7, CHR 0xA9,
      CHR 0xBA, CHR 0xE9, CHR 0x97, CHR 0xB4, CHR 0xE7, CHR 0xBA, CHR 0xA7])]] []]] @
           bind_scope_fields d (bf_scope_type (uz_bind s)) @
           [El ''Button'' [Flag ''loading'' (uz_bindLoading s), On ''onClick'' SubmitBind] [Txt [CHR 0xE7, CHR 0xBB, CHR 0x91, CHR 0xE5, CHR 0xAE, CHR 0x9A]]])]"

definition bound_role_view :: "bool \<Rightarrow> user_role \<Rightarrow> users_action node" where
  "bound_role_view canBind ur =
     El ''Card'' []
       [El ''Space'' []
          ([El ''Space'' []
              [El ''Space'' []
                 [El ''Text'' [Flag ''strong'' True] [Txt (ur_role_name ur)],
                  El ''Tag'' [Attr ''color'' ''geekblue''] [Txt (ur_role_code ur)],
                  El ''Tag'' [Attr ''color'' ''purple''] [Txt (scopeLabelMap (ur_scope_type ur))]],
               El ''Text'' [Attr ''type'' ''secondary''] [Txt (scope_text ur)]]] @
           shown_if canBind
             [El ''Popconfirm'' [Attr ''title'' [CHR 0xE7, CHR 0xA1, CHR 0xAE, CHR 0xE8, CHR 0xAE, CHR 0xA4, CHR 0xE8, CHR 0xA7,
      CHR 0xA3, CHR 0xE7, CHR 0xBB, CHR 0x91, CHR 0xE8, CHR 0xAF, CHR 0xA5, CHR 0xE8,
      CHR 0xA7, CHR 0x92, CHR 0xE8, CHR 0x89, CHR 0xB2, CHR 0xEF, CHR 0xBC, CHR 0x9F], On ''onConfirm'' (Unbind ur)]
                [El ''Button'' [] [Txt [CHR 0xE8, CHR 0xA7, CHR 0xA3, CHR 0xE7, CHR 0xBB, CHR 0x91]]]])]"

definition bound_roles_card :: "bool \<Rightarrow> users_data \<Rightarrow> users_action node" where
  "bound_roles_card canBind d =
     (let urs = (case ud_userRoles d of None \<Rightarrow> [] | Some urs \<Rightarrow> urs)
      in El ''Card'' [Attr ''title'' (([CHR 0xE5, CHR 0xB7, CHR 0xB2, CHR 0xE7, CHR 0xBB, CHR 0x91, CHR 0xE5, CHR 0xAE,
      CHR 0x9A, CHR 0xE8, CHR 0xA7, CHR 0x92, CHR 0xE8, CHR 0x89, CHR 0xB2] @
     '' ('') @ show_nat (length urs) @ '')''),
           Flag ''loading'' (ud_rolesFetching d)]
           (if urs = [] then [El ''Text'' [Attr ''type'' ''secondary''] [Txt [CHR 0xE6, CHR 0x9A, CHR 0x82, CHR 0xE6, CHR 0x97, CHR 0xA0, CHR 0xE7, CHR 0xBB,
      CHR 0x91, CHR 0xE5, CHR 0xAE, CHR 0x9A, CHR 0xE8, CHR 0xA7, CHR 0x92, CHR 0xE8,
      CHR 0x89, CHR 0xB2]]]
            else [El ''Space'' [] (map (bound_role_view canBind) urs)]))"

definition UserRolesDrawer :: "bool \<Rightarrow> users_data \<Rightarrow> users_state \<Rightarrow> user \<Rightarrow> users_action node" where
  "UserRolesDrawer canBind d s r =
     El ''Drawer'' [Attr ''title'' (([CHR 0xE8, CHR 0xA7, CHR 0x92, CHR 0xE8, CHR 0x89, CHR 0xB2, CHR 0xE7, CHR 0xBB,
      CHR 0x91, CHR 0xE5, CHR 0xAE, CHR 0x9A] @
     '' - '') @ us_username r), Flag ''open'' True, On ''onClose'' CloseRoles]
       (shown_if canBind [bind_form_view d s] @
        [bound_roles_card canBind d,
         El ''div'' [] [El ''Button'' [On ''onClick'' CloseRoles] [Txt [CHR 0xE5, CHR 0x85, CHR 0xB3, CHR 0xE9, CHR 0x97, CHR 0xAD]]]])"

definition users_forbidden :: "users_action node" where
  "users_forbidden =
     El ''PageContainer'' []
       [El ''Card'' []
          [El ''Text'' [Attr ''type'' ''warning''] [Txt ([CHR 0xE6, CHR 0x82, CHR 0xA8, CHR 0xE6, CHR 0xB2, CHR 0xA1, CHR 0xE6, CHR 0x9C,
      CHR 0x89, CHR 0xE6, CHR 0x9F, CHR 0xA5, CHR 0xE7, CHR 0x9C, CHR 0x8B, CHR 0xE7,
      CHR 0x94, CHR 0xA8, CHR 0xE6, CHR 0x88, CHR 0xB7, CHR 0xE5, CHR 0x88, CHR 0x97,
      CHR 0xE8, CHR 0xA1, CHR 0xA8, CHR 0xE7, CHR 0x9A, CHR 0x84, CHR 0xE6, CHR 0x9D,
      CHR 0x83, CHR 0xE9, CHR 0x99, CHR 0x90, CHR 0xEF, CHR 0xBC, CHR 0x88] @
     ''user:manage'' @
     [CHR 0xEF, CHR 0xBC, CHR 0x89, CHR 0xE3, CHR 0x80, CHR 0x82])]]]"

definition users_view ::
  "(string \<Rightarrow> string) \<Rightarrow> current_user option \<Rightarrow> users_data \<Rightarrow> users_call list \<Rightarrow> users_state \<Rightarrow> users_action node" where
  "users_view fmt u d flight s =
     (let can = can_manage_users u
      in if \<not> can then users_forbidden
         else El ''PageContainer'' []
           ([El ''extra'' []
               [El ''Button'' [Flag ''disabled'' (\<not> can), On ''onClick'' OpenCreate] [Txt [CHR 0xE6, CHR 0x96, CHR 0xB0, CHR 0xE5, CHR 0xBB, CHR 0xBA, CHR 0xE7, CHR 0x94,
      CHR 0xA8, CHR 0xE6, CHR 0x88, CHR 0xB7]],
                El ''Button'' [Flag ''loading'' (ud_fetching d), On ''onClick'' Reload] [Txt [CHR 0xE5, CHR 0x88, CHR 0xB7, CHR 0xE6, CHR 0x96, CHR 0xB0]]],
             users_table fmt can d (uz_filters s),
             create_user_drawer flight s,
             edit_user_drawer flight s] @
            (case uz_rolesUser s of None \<Rightarrow> [] | Some r \<Rightarrow> [UserRolesDrawer can d s r]) @
            reset_dialog s))"

subsection \<open>What the actions and the replies do\<close>

definition users_act ::
  "(string \<Rightarrow> bool) \<Rightarrow> users_action \<Rightarrow> event \<Rightarrow> users_data \<Rightarrow> users_state
    \<Rightarrow> users_state \<times> users_call page_effect list" where
  "users_act is_email a x d s =
     (case a of
        OpenCreate \<Rightarrow> (s\<lparr>uz_createOpen := True\<rparr>, [])
      | CloseCreate \<Rightarrow> (s\<lparr>uz_createOpen := False\<rparr>, [])
      | SubmitCreate \<Rightarrow>
          (s, start_call (CallCreate (uz_create s)) (user_handleCreate is_email (uz_create s) None))
      | Reload \<Rightarrow> (s, [PRefetch])
      | SearchUsers \<Rightarrow>
          (case x of TextArg keyword \<Rightarrow> (s\<lparr>uz_filters := users_handleSearch keyword (uz_filters s)\<rparr>, [])
           | _ \<Rightarrow> (s, []))
      | ChangePage \<Rightarrow>
          (case x of PageArg p sz \<Rightarrow> (s\<lparr>uz_filters := users_handlePageChange p sz (uz_filters s)\<rparr>, [])
           | _ \<Rightarrow> (s, []))
      | ToggleStatus r \<Rightarrow> (s, start_call (CallStatus r) (handleToggleStatus r False))
      | OpenRoles r \<Rightarrow>
          (if uz_rolesUser s = None
           then (s\<lparr>uz_rolesUser := Some r, uz_bind := bind_init, uz_bindLoading := False,
                   uz_mounts := uz_mounts s + 1\<rparr>, [])
           else (s\<lparr>uz_rolesUser := Some r\<rparr>, []))
      | OpenEdit r \<Rightarrow>
          (case handleOpenEdit r (uz_editing s, uz_edit s) of (e, f) \<Rightarrow> (s\<lparr>uz_editing := e, uz_edit := f\<rparr>, []))
      | OpenReset r \<Rightarrow> (s\<lparr>uz_reset := Some (r, [], False)\<rparr>, [])
      | CloseEdit \<Rightarrow> (s\<lparr>uz_editing := None\<rparr>, [])
      | SubmitEdit \<Rightarrow>
          (case uz_editing s of
             None \<Rightarrow> (s, [])
           | Some r \<Rightarrow>
               (s, start_call (CallUpdate r (uz_edit s)) (snd (handleEdit is_email (Some r, uz_edit s) False))))
      | ConfirmReset \<Rightarrow>
          (case uz_reset s of
             None \<Rightarrow> (s, [])
           | Some (r, pwd, waiting) \<Rightarrow>
               (s\<lparr>uz_reset := Some (r, pwd, \<not> fst (reset_confirm r pwd False))\<rparr>,
                start_call (CallReset r pwd) (snd (reset_confirm r pwd False))))
      | CancelReset \<Rightarrow> (s\<lparr>uz_reset := None\<rparr>, [])
      | CloseRoles \<Rightarrow> (s\<lparr>uz_rolesUser := None\<rparr>, [])
      | SubmitBind \<Rightarrow>
          (case uz_rolesUser s of
             None \<Rightarrow> (s, [])
           | Some r \<Rightarrow>
               let es = snd (handleBind (us_id r) (uz_bind s) False)
               in (s\<lparr>uz_bindLoading := sends es \<noteq> []\<rparr>, start_call (CallBind (uz_mounts s) r (uz_bind s)) es))
      | Unbind ur \<Rightarrow>
          (case uz_rolesUser s of
             None \<Rightarrow> (s, [])
           | Some r \<Rightarrow> (s, start_call (CallUnbind r ur) (handleUnbind (us_id r) ur False))))"

text \<open>
  The drawer for roles is a component of its own: opened anew it starts with a new form, and a reply
  to a request of an earlier drawer does not reach it; \<open>uz_mounts\<close> counts the drawers. A reply is
  \<open>Some\<close> message or \<open>None\<close>, a rejection.
\<close>

definition users_reply ::
  "(string \<Rightarrow> bool) \<Rightarrow> users_call \<Rightarrow> string option option \<Rightarrow> users_state
    \<Rightarrow> users_state \<times> users_call page_effect list" where
  "users_reply is_email c result s =
     (let ok = result \<noteq> None
      in case c of
        CallCreate b \<Rightarrow>
          (if ok then s\<lparr>uz_createOpen := False, uz_create := create_user_init\<rparr> else s,
           reported (user_handleCreate is_email b result))
      | CallUpdate r b \<Rightarrow>
          (if ok then s\<lparr>uz_editing := None\<rparr> else s, reported (snd (handleEdit is_email (Some r, b) ok)))
      | CallStatus r \<Rightarrow> (s, reported (handleToggleStatus r ok))
      | CallReset r pwd \<Rightarrow>
          (s\<lparr>uz_reset := (case uz_reset s of
               Some (r', pwd', waiting) \<Rightarrow> if r' = r \<and> waiting then None else uz_reset s
             | None \<Rightarrow> None)\<rparr>,
           reported (snd (reset_confirm r pwd ok)))
      | CallBind n r f \<Rightarrow>
          (if uz_rolesUser s \<noteq> None \<and> uz_mounts s = n
           then s\<lparr>uz_bind := (if ok then bind_init else uz_bind s), uz_bindLoading := False\<rparr> else s,
           reported (snd (handleBind (us_id r) f ok)))
      | CallUnbind r ur \<Rightarrow> (s, reported (handleUnbind (us_id r) ur ok)))"

text \<open>The user types into the forms that are open, and into the field of the dialog.\<close>

definition users_typed :: "users_state \<Rightarrow> users_state \<Rightarrow> bool" where
  "users_typed s s' \<longleftrightarrow>
     s' = s\<lparr>uz_create := uz_create s', uz_edit := uz_edit s', uz_bind := uz_bind s', uz_reset := uz_reset s'\<rparr>
     \<and> (uz_createOpen s \<or> uz_create s' = uz_create s)
     \<and> (uz_editing s \<noteq> None \<or> uz_edit s' = uz_edit s)
     \<and> (uz_rolesUser s \<noteq> None \<or> uz_bind s' = uz_bind s)
     \<and> map_option (\<lambda>(r, pwd, w). (r, w)) (uz_reset s') = map_option (\<lambda>(r, pwd, w). (r, w)) (uz_reset s)"

definition users_page ::
  "(string \<Rightarrow> string) \<Rightarrow> (string \<Rightarrow> bool) \<Rightarrow> current_user option
    \<Rightarrow> (users_data, users_state, users_action, users_call, string option option) machine" where
  "users_page fmt is_email u =
     \<lparr>pg_start = users_start, pg_view = users_view fmt u, pg_act = users_act is_email,
      pg_reply = users_reply is_email, pg_commit = (\<lambda>d s. (s, [])), pg_typed = users_typed\<rparr>"

subsection \<open>What the page offers\<close>

lemmas users_view_defs = users_table_def user_columns_def user_actions_view_def user_status_view_def
  role_count_view_def create_user_drawer_def create_user_form_def edit_user_drawer_def edit_user_form_def
  UserRolesDrawer_def bind_form_view_def bind_scope_fields_def bound_roles_card_def bound_role_view_def
  reset_dialog_def

lemma users_table_acts:
  "set (acts (users_table fmt can d f)) \<subseteq> {SearchUsers, ChangePage} \<union>
     (if can then range ToggleStatus \<union> range OpenRoles \<union> range OpenEdit \<union> range OpenReset else {})"
  by (auto simp: users_table_def user_columns_def user_actions_view_def user_status_view_def role_count_view_def
      user_status_cell_def view_simps split: option.splits if_splits)

lemma create_drawer_acts:
  "set (acts (create_user_drawer flight s)) =
     (if uz_createOpen s then {CloseCreate} \<union> (if list_ex is_CallCreate flight then {} else {SubmitCreate}) else {})"
  by (auto simp: create_user_drawer_def create_user_form_def view_simps)

lemma edit_drawer_acts:
  "set (acts (edit_user_drawer flight s)) =
     (if uz_editing s \<noteq> None then {CloseEdit} \<union> (if list_ex is_CallUpdate flight then {} else {SubmitEdit}) else {})"
  by (auto simp: edit_user_drawer_def edit_user_form_def view_simps)

lemma roles_drawer_acts:
  "set (acts (UserRolesDrawer can d s r)) \<subseteq> {CloseRoles} \<union>
     (if can then (if uz_bindLoading s then {} else {SubmitBind}) \<union> range Unbind else {})"
  by (auto simp: UserRolesDrawer_def bind_form_view_def bind_scope_fields_def bound_roles_card_def
      bound_role_view_def view_simps Let_def split: option.splits if_splits)

lemma reset_dialog_acts:
  "v \<in> set (reset_dialog s) \<Longrightarrow> set (acts v) \<subseteq> {CancelReset, ConfirmReset}"
  by (auto simp: reset_dialog_def view_simps split: option.splits if_splits)

lemma users_offered:
  assumes "a \<in> set (acts (users_view fmt u d flight s))"
  shows "can_manage_users u"
    and "a = SubmitCreate \<Longrightarrow> filter is_CallCreate flight = []"
    and "a = SubmitEdit \<Longrightarrow> filter is_CallUpdate flight = []"
proof -
  show can: "can_manage_users u"
    using assms by (auto simp: users_view_def users_forbidden_def view_simps Let_def split: if_splits)
  let ?extra = "{OpenCreate, Reload}"
  have a: "a \<in> ?extra \<union> set (acts (users_table fmt True d (uz_filters s))) \<union> set (acts (create_user_drawer flight s))
      \<union> set (acts (edit_user_drawer flight s)) \<union> (\<Union>r. set (acts (UserRolesDrawer True d s r)))
      \<union> (\<Union>v \<in> set (reset_dialog s). set (acts v))"
    using assms can by (auto simp: users_view_def view_simps Let_def split: option.splits if_splits)
  have none: "list_ex P xs \<or> filter P xs = []" for P :: "users_call \<Rightarrow> bool" and xs
    by (induction xs) auto
  have other: "a \<in> set (acts (create_user_drawer flight s)) \<union> set (acts (edit_user_drawer flight s))"
    if "a = SubmitCreate \<or> a = SubmitEdit"
    using a that
    by (auto dest: users_table_acts [THEN subsetD] roles_drawer_acts [THEN subsetD]
        reset_dialog_acts [THEN subsetD] split: if_splits)
  show "filter is_CallCreate flight = []" if "a = SubmitCreate"
    using other that none [of is_CallCreate flight]
    by (auto simp: create_drawer_acts edit_drawer_acts split: if_splits)
  show "filter is_CallUpdate flight = []" if "a = SubmitEdit"
    using other that none [of is_CallUpdate flight]
    by (auto simp: create_drawer_acts edit_drawer_acts split: if_splits)
qed

subsection \<open>Properties of the runs\<close>

definition users_request :: "users_call \<Rightarrow> rbac_mutation" where
  "users_request c =
     (case c of
        CallCreate b \<Rightarrow> CreateUser b
      | CallUpdate r b \<Rightarrow> UpdateUser (us_id r) b
      | CallStatus r \<Rightarrow> UpdateUserStatus (us_id r) (next_user_status (us_status r))
      | CallReset r pwd \<Rightarrow> ResetPassword (us_id r) pwd
      | CallBind n r f \<Rightarrow> BindUserRole (us_id r) (the (bind_validate f))
      | CallUnbind r ur \<Rightarrow> UnbindUserRole (us_id r) (unbind_body ur))"

definition users_call_ok :: "(string \<Rightarrow> bool) \<Rightarrow> users_call \<Rightarrow> bool" where
  "users_call_ok is_email c \<longleftrightarrow>
     (case c of
        CallCreate b \<Rightarrow> create_user_valid is_email b
      | CallUpdate r b \<Rightarrow> email_ok is_email (uub_email b)
      | CallReset r pwd \<Rightarrow> 8 \<le> length pwd
      | CallBind n r f \<Rightarrow> (\<exists>b. bind_validate f = Some b \<and> well_scoped b)
      | _ \<Rightarrow> True)"

lemma bind_validate_scoped: "bind_validate f = Some b \<Longrightarrow> well_scoped b"
  by (auto simp: bind_validate_def well_scoped_def needCluster_def needNs_def Let_def
      split: if_splits rbac_scope.splits)

lemma users_act_sends:
  "c \<in> set (sends (snd (users_act is_email a x d s))) \<Longrightarrow> users_call_ok is_email c"
  by (cases a)
    (auto simp: users_act_def users_call_ok_def user_handleCreate_def handleEdit_def reset_confirm_def
      handleBind_def handleOpenEdit_def bind_validate_scoped split: event.splits option.splits if_splits)

lemma users_act_one:
  "length (sends (snd (users_act is_email a x d s))) \<le> 1"
  "filter is_CallCreate (sends (snd (users_act is_email a x d s))) \<noteq> [] \<Longrightarrow> a = SubmitCreate"
  "filter is_CallUpdate (sends (snd (users_act is_email a x d s))) \<noteq> [] \<Longrightarrow> a = SubmitEdit"
  by (cases a; auto simp: users_act_def user_handleCreate_def handleEdit_def reset_confirm_def handleBind_def
      handleOpenEdit_def handleToggleStatus_def handleUnbind_def Let_def
      split: event.splits option.splits if_splits)+

lemma users_reply_quiet: "sends (snd (users_reply is_email c r s)) = []"
  by (cases c) (simp_all add: users_reply_def Let_def)

interpretation users_machine: guarded_page "users_page fmt is_email u" "\<lambda>s. True"
  "\<lambda>c. can_manage_users u \<and> users_call_ok is_email c"
  by unfold_locales
    (auto simp: users_page_def users_reply_quiet dest: users_offered users_act_sends)

interpretation users_create_once: single_submit "users_page fmt is_email u" "\<lambda>s. True"
  "\<lambda>c. can_manage_users u \<and> users_call_ok is_email c" is_CallCreate
  by unfold_locales
    (auto simp: users_page_def users_act_one(1) [simplified] dest: users_offered users_act_one(2,3))

interpretation users_edit_once: single_submit "users_page fmt is_email u" "\<lambda>s. True"
  "\<lambda>c. can_manage_users u \<and> users_call_ok is_email c" is_CallUpdate
  by unfold_locales
    (auto simp: users_page_def users_act_one(1) [simplified] dest: users_offered users_act_one(2,3))

text \<open>The form in the markup accepts exactly what the handler takes for valid.\<close>

definition create_user_field :: "create_user_body \<Rightarrow> string \<Rightarrow> string option" where
  "create_user_field b n =
     (if n = ''username'' then Some (cub_username b) else if n = ''password'' then Some (cub_password b)
      else if n = ''display_name'' then cub_display_name b else if n = ''email'' then cub_email b
      else if n = ''phone'' then cub_phone b else if n = ''auth_source'' then cub_auth_source b else None)"

lemma create_form_rules:
  "form_accepts is_email create_user_form (create_user_field b) \<longleftrightarrow> create_user_valid is_email b"
  by (auto simp: form_accepts_def create_user_form_def field_of_def rule_ok_def required_def no_rule_def
      create_user_field_def create_user_valid_def email_ok_def truthy_iff)

text \<open>
  C16. Whatever happens on the page of users, in any order: every request it ever sends comes from a
  user who may manage users, and is well formed (a valid account, a password of eight characters, a
  well-typed binding); and no account is submitted twice, neither for creation nor for editing,
  because the buttons wait for the reply.
\<close>

theorem users_run_safe:
  assumes "page_reach (users_page fmt is_email u) s flight tr"
  shows "(\<forall>c \<in> set (sends tr). can_manage_users u \<and> users_call_ok is_email c)
    \<and> length (filter is_CallCreate flight) \<le> 1 \<and> length (filter is_CallUpdate flight) \<le> 1"
  using users_machine.sent_permitted [OF assms] users_create_once.at_most_one_in_flight [OF assms]
    users_edit_once.at_most_one_in_flight [OF assms] by blast

definition demo_account :: create_user_body where
  "demo_account = create_user_init\<lparr>cub_username := ''alice'', cub_password := ''long enough''\<rparr>"

definition demo_manager :: "current_user option" where
  "demo_manager = Some (demo_user [''user:manage''])"

definition demo_users_data :: users_data where
  "demo_users_data = \<lparr>ud_users = None, ud_fetching = False, ud_userRoles = None, ud_rolesFetching = False,
     ud_roles = [], ud_clusters = []\<rparr>"

lemma demo_manager_can: "can_manage_users demo_manager"
  by (simp add: can_manage_users_def demo_manager_def hasPerm_def demo_user_def user_perms_def
      isPlatformAdmin_def)

lemma demo_submit_reach:
  "page_reach (users_page fmt is_email demo_manager)
     (users_start\<lparr>uz_createOpen := True, uz_create := demo_account\<rparr>) [CallCreate demo_account]
     [PSend (CallCreate demo_account)]"
proof -
  let ?p = "users_page fmt is_email demo_manager"
  let ?s1 = "users_start\<lparr>uz_createOpen := True\<rparr>" and ?s2 = "users_start\<lparr>uz_createOpen := True, uz_create := demo_account\<rparr>"
  have start: "page_reach ?p users_start [] []"
    using page_reach.start [of ?p] by (simp add: users_page_def)
  have "page_reach ?p ?s1 ([] @ sends []) ([] @ [])"
    by (rule page_reach.act [OF start, of OpenCreate demo_users_data NoArg])
      (simp_all add: users_page_def users_act_def users_view_def demo_manager_can view_simps)
  then have "page_reach ?p ?s1 [] []" by simp
  then have open': "page_reach ?p ?s2 [] []"
    by (rule page_reach.typed) (simp add: users_page_def users_typed_def users_start_def)
  have "page_reach ?p ?s2 ([] @ sends [PSend (CallCreate demo_account)]) ([] @ [PSend (CallCreate demo_account)])"
  proof (rule page_reach.act [OF open', of SubmitCreate demo_users_data NoArg])
    show "SubmitCreate \<in> set (acts (pg_view ?p demo_users_data [] ?s2))"
      by (simp add: users_page_def users_view_def demo_manager_can view_simps create_drawer_acts)
    show "pg_act ?p SubmitCreate NoArg demo_users_data ?s2 = (?s2, [PSend (CallCreate demo_account)])"
      by (simp add: users_page_def users_act_def user_handleCreate_def create_user_valid_def demo_account_def
          create_user_init_def email_ok_def start_call_def try_send_def)
  qed
  then show ?thesis by simp
qed

theorem users_run_safe_witness:
  "can_manage_users demo_manager \<and> users_call_ok (\<lambda>_. False) (CallCreate demo_account)"
  using users_run_safe [OF demo_submit_reach [of "\<lambda>t. t" "\<lambda>_. False"]] by simp

text \<open>
  A late reply closes the drawer of another user: the success of an edit closes whatever drawer is
  open, and with it what was typed there.
\<close>

lemma late_edit_reply:
  assumes "page_reach (users_page fmt is_email u) s flight tr"
    and "CallUpdate r b \<in> set flight" and "uz_editing s = Some r'"
  shows "\<exists>tr'. page_reach (users_page fmt is_email u) (s\<lparr>uz_editing := None\<rparr>) (remove1 (CallUpdate r b) flight) tr'"
  using page_reach.reply [OF assms(1,2), of "Some None" "s\<lparr>uz_editing := None\<rparr>"
      "reported (snd (handleEdit is_email (Some r, b) True))"]
  by (auto simp: users_page_def users_reply_def)

end
