(* ===== verification/RolesView.thy ===== *)
theory RolesView
  imports View RolesPage
begin

section \<open>The page of roles as a machine\<close>

text \<open>
  What \<open>pages/roles/list.tsx\<close> renders and the runs of the page. Editing and switching a role share one
  mutation hook, whose \<open>isLoading\<close> follows the latest of their calls only; calls have serial numbers
  for that. The drawer of permissions is a component of its own, \<open>rz_mounts\<close> counts them.
\<close>

record roles_data =
  rd_roles :: "(role list \<times> int) option"
  rd_fetching :: bool
  rd_perms :: "permission list option"
  rd_permsFetching :: bool
  rd_rolePerms :: "string list option option"
  rd_rolePermsFetching :: bool

datatype roles_call =
    is_CreateRole: CallCreateRole create_role_body
  | CallEditRole nat role update_role_body
  | CallRoleStatus nat role
  | CallDeleteRole role
  | CallSavePerms nat role perms_drawer

record roles_state =
  rz_filters :: list_params
  rz_createOpen :: bool
  rz_create :: create_role_body
  rz_editing :: "role option"
  rz_edit :: update_role_body
  rz_serial :: nat
  rz_updating :: "nat option"
  rz_permsRole :: "role option"
  rz_drawer :: perms_drawer
  rz_saving :: bool
  rz_mounts :: nat

datatype roles_action =
    OpenCreateRole | CloseCreateRole | SubmitCreateRole | ReloadRoles | SearchRoles | ChangeRolesPage
  | SwitchRole role | OpenPerms role | EditRole role | RemoveRole role
  | CloseEditRole | SubmitEditRole | ClosePerms | SavePerms | CheckKey string

definition create_role_init :: create_role_body where
  "create_role_init = \<lparr>crb_code = [], crb_name = [], crb_description = None, crb_perms = None\<rparr>"

definition roles_start :: roles_state where
  "roles_start =
     \<lparr>rz_filters = roles_init, rz_createOpen = False, rz_create = create_role_init, rz_editing = None,
      rz_edit = \<lparr>urb_name = None, urb_description = None, urb_status = None\<rparr>, rz_serial = 0,
      rz_updating = None, rz_permsRole = None, rz_drawer = perms_drawer_init, rz_saving = False,
      rz_mounts = 0\<rparr>"

subsection \<open>What is rendered\<close>

definition role_status_view :: "bool \<Rightarrow> role \<Rightarrow> roles_action node list" where
  "role_status_view canUpdate r =
     (case role_status_cell canUpdate (ro_status r) of
        StatusTag color label \<Rightarrow> [El ''Tag'' [Attr ''color'' color] [Txt label]]
      | StatusSwitch checked title \<Rightarrow>
          [El ''Popconfirm'' [Attr ''title'' title, On ''onConfirm'' (SwitchRole r)]
             [El ''Switch'' [Flag ''checked'' checked, Attr ''checkedChildren'' [CHR 0xE5, CHR 0x90, CHR 0xAF, CHR 0xE7, CHR 0x94, CHR 0xA8],
                Attr ''unCheckedChildren'' [CHR 0xE7, CHR 0xA6, CHR 0x81, CHR 0xE7, CHR 0x94, CHR 0xA8]] []]])"

definition count_view :: "string \<Rightarrow> int option \<Rightarrow> roles_action node list" where
  "count_view color n =
     (case n of
        Some k \<Rightarrow> if k \<noteq> 0 then [El ''Tag'' [Attr ''color'' color] [Txt (count_tag k)]]
                  else [El ''Text'' [Attr ''type'' ''secondary''] [Txt ''0'']]
      | None \<Rightarrow> [El ''Text'' [Attr ''type'' ''secondary''] [Txt ''0'']])"

definition role_actions_view :: "current_user option \<Rightarrow> role \<Rightarrow> roles_action node list" where
  "role_actions_view u r =
     (case role_actions_disabled u r of (noPerms, noEdit, noDelete) \<Rightarrow>
        [El ''Space'' []
           [El ''Tooltip'' [Attr ''title'' [CHR 0xE6, CHR 0x9D, CHR 0x83, CHR 0xE9, CHR 0x99, CHR 0x90, CHR 0xE8, CHR 0xAE,
      CHR 0xBE, CHR 0xE7, CHR 0xBD, CHR 0xAE]]
              [El ''Button'' [Flag ''disabled'' noPerms, On ''onClick'' (OpenPerms r)] [Txt [CHR 0xE6, CHR 0x9D, CHR 0x83, CHR 0xE9, CHR 0x99, CHR 0x90]]],
            El ''Tooltip'' [Attr ''title'' [CHR 0xE7, CHR 0xBC, CHR 0x96, CHR 0xE8, CHR 0xBE, CHR 0x91]]
              [El ''Button'' [Flag ''disabled'' noEdit, On ''onClick'' (EditRole r)] []],
            El ''Tooltip'' [Attr ''title'' [CHR 0xE5, CHR 0x88, CHR 0xA0, CHR 0xE9, CHR 0x99, CHR 0xA4]]
              [El ''Popconfirm'' [Attr ''title'' [CHR 0xE7, CHR 0xA1, CHR 0xAE, CHR 0xE8, CHR 0xAE, CHR 0xA4, CHR 0xE5, CHR 0x88,
      CHR 0xA0, CHR 0xE9, CHR 0x99, CHR 0xA4, CHR 0xE8, CHR 0xAF, CHR 0xA5, CHR 0xE8,
      CHR 0xA7, CHR 0x92, CHR 0xE8, CHR 0x89, CHR 0xB2, CHR 0xEF, CHR 0xBC, CHR 0x9F], On ''onConfirm'' (RemoveRole r),
                 Flag ''disabled'' noDelete]
                 [El ''Button'' [Flag ''disabled'' noDelete] []]]]])"

definition role_columns ::
  "(string \<Rightarrow> string) \<Rightarrow> current_user option \<Rightarrow> (string \<times> (role \<Rightarrow> roles_action node list)) list" where
  "role_columns fmt u =
     [([CHR 0xE8, CHR 0xA7, CHR 0x92, CHR 0xE8, CHR 0x89, CHR 0xB2, CHR 0xE7, CHR 0xBC,
      CHR 0x96, CHR 0xE7, CHR 0xA0, CHR 0x81], \<lambda>r.
         [El ''Space'' []
            [El ''Space'' [] (El ''Text'' [Flag ''strong'' True] [Txt (ro_code r)] #
               shown_if (ro_builtin r = 1) [El ''Tag'' [Attr ''color'' ''gold''] [Txt [CHR 0xE5, CHR 0x86, CHR 0x85, CHR 0xE7, CHR 0xBD, CHR 0xAE]]]),
             El ''Text'' [Attr ''type'' ''secondary''] [Txt (ro_name r)]]]),
      ([CHR 0xE6, CHR 0x8F, CHR 0x8F, CHR 0xE8, CHR 0xBF, CHR 0xB0], \<lambda>r. if truthy (ro_description r)
         then [El ''Text'' [Attr ''type'' ''secondary''] [Txt (the (ro_description r))]] else [Txt ''-'']),
      ([CHR 0xE6, CHR 0x9D, CHR 0x83, CHR 0xE9, CHR 0x99, CHR 0x90, CHR 0xE6, CHR 0x95,
      CHR 0xB0], \<lambda>r. count_view ''blue'' (ro_perm_count r)),
      ([CHR 0xE7, CHR 0x94, CHR 0xA8, CHR 0xE6, CHR 0x88, CHR 0xB7, CHR 0xE6, CHR 0x95,
      CHR 0xB0], \<lambda>r. count_view ''green'' (ro_user_count r)),
      ([CHR 0xE7, CHR 0x8A, CHR 0xB6, CHR 0xE6, CHR 0x80, CHR 0x81], role_status_view (can_manage_roles u)),
      ([CHR 0xE5, CHR 0x88, CHR 0x9B, CHR 0xE5, CHR 0xBB, CHR 0xBA, CHR 0xE6, CHR 0x97,
      CHR 0xB6, CHR 0xE9, CHR 0x97, CHR 0xB4], \<lambda>r. [Txt (if truthy (ro_created_at r) then fmt (the (ro_created_at r)) else ''-'')]),
      ([CHR 0xE6, CHR 0x93, CHR 0x8D, CHR 0xE4, CHR 0xBD, CHR 0x9C], role_actions_view u)]"

definition roles_table ::
  "(string \<Rightarrow> string) \<Rightarrow> current_user option \<Rightarrow> roles_data \<Rightarrow> list_params \<Rightarrow> roles_action node" where
  "roles_table fmt u d f =
     El ''ProTable'' [Flag ''loading'' (rd_fetching d)]
       ([El ''headerTitle'' []
           [El ''Input.Search'' [Attr ''placeholder'' ([CHR 0xE6, CHR 0x90, CHR 0x9C, CHR 0xE7, CHR 0xB4, CHR 0xA2, CHR 0xE8, CHR 0xA7,
      CHR 0x92, CHR 0xE8, CHR 0x89, CHR 0xB2, CHR 0xE7, CHR 0xBC, CHR 0x96, CHR 0xE7,
      CHR 0xA0, CHR 0x81] @
     ''/'' @
     [CHR 0xE5, CHR 0x90, CHR 0x8D, CHR 0xE7, CHR 0xA7, CHR 0xB0]), On ''onSearch'' SearchRoles] []],
         El ''pagination''
           [Attr ''current'' (or_num_str (lp_page f) ''1''), Attr ''pageSize'' (or_num_str (lp_page_size f) ''10''),
            Attr ''total'' (case rd_roles d of None \<Rightarrow> ''0'' | Some (_, n) \<Rightarrow> show_int n),
            Attr ''showTotal'' (([CHR 0xE5, CHR 0x85, CHR 0xB1] @
     '' '') @ (case rd_roles d of None \<Rightarrow> ''0'' | Some (_, n) \<Rightarrow> show_int n) @ ('' '' @
     [CHR 0xE6, CHR 0x9D, CHR 0xA1])),
            On ''onChange'' ChangeRolesPage] []] @
        table_rows (role_columns fmt u) (case rd_roles d of None \<Rightarrow> [] | Some (rs, _) \<Rightarrow> rs))"

definition create_role_form :: "roles_action node" where
  "create_role_form =
     El ''Form'' []
       [El ''Form.Item'' [Attr ''name'' ''code'', Attr ''label'' [CHR 0xE8, CHR 0xA7, CHR 0x92, CHR 0xE8, CHR 0x89, CHR 0xB2, CHR 0xE7, CHR 0xBC,
      CHR 0x96, CHR 0xE7, CHR 0xA0, CHR 0x81],
          Rules [required\<lparr>fr_min := Some 2, fr_max := Some 64\<rparr>,
                 no_rule\<lparr>fr_pattern := Some (\<lambda>s. s \<noteq> [] \<and> list_all role_code_char s)\<rparr>],
          Attr ''tooltip'' ([CHR 0xE7, CHR 0x94, CHR 0xA8, CHR 0xE4, CHR 0xBA, CHR 0x8E, CHR 0xE6, CHR 0x9D,
      CHR 0x83, CHR 0xE9, CHR 0x99, CHR 0x90, CHR 0xE7, CHR 0x82, CHR 0xB9, CHR 0xE5,
      CHR 0x85, CHR 0xB3, CHR 0xE8, CHR 0x81, CHR 0x94, CHR 0xEF, CHR 0xBC, CHR 0x8C,
      CHR 0xE5, CHR 0xA6, CHR 0x82] @
     '' platform_admin / cluster_viewer'')]
          [El ''Input'' [Attr ''placeholder'' ([CHR 0xE5, CHR 0xA6, CHR 0x82] @
     '' cluster_viewer'')] []],
        El ''Form.Item'' [Attr ''name'' ''name'', Attr ''label'' [CHR 0xE8, CHR 0xA7, CHR 0x92, CHR 0xE8, CHR 0x89, CHR 0xB2, CHR 0xE5, CHR 0x90,
      CHR 0x8D, CHR 0xE7, CHR 0xA7, CHR 0xB0], Rules [required]]
          [El ''Input'' [Attr ''placeholder'' ([CHR 0xE5, CHR 0xA6, CHR 0x82] @
     '' '' @
     [CHR 0xE9, CHR 0x9B, CHR 0x86, CHR 0xE7, CHR 0xBE, CHR 0xA4, CHR 0xE8, CHR 0xA7,
      CHR 0x82, CHR 0xE5, CHR 0xAF, CHR 0x9F, CHR 0xE8, CHR 0x80, CHR 0x85])] []],
        El ''Form.Item'' [Attr ''name'' ''description'', Attr ''label'' [CHR 0xE6, CHR 0x8F, CHR 0x8F, CHR 0xE8, CHR 0xBF, CHR 0xB0]]
          [El ''Input.TextArea'' [Attr ''placeholder'' [CHR 0xE5, CHR 0x8F, CHR 0xAF, CHR 0xE9, CHR 0x80, CHR 0x89]] []]]"

definition create_role_drawer :: "roles_call list \<Rightarrow> roles_state \<Rightarrow> roles_action node" where
  "create_role_drawer flight s =
     El ''Drawer'' [Attr ''title'' [CHR 0xE6, CHR 0x96, CHR 0xB0, CHR 0xE5, CHR 0xBB, CHR 0xBA, CHR 0xE8, CHR 0xA7,
      CHR 0x92, CHR 0xE8, CHR 0x89, CHR 0xB2], Flag ''open'' (rz_createOpen s), On ''onClose'' CloseCreateRole]
       [El ''extra'' []
          [El ''Button'' [On ''onClick'' CloseCreateRole] [Txt [CHR 0xE5, CHR 0x8F, CHR 0x96, CHR 0xE6, CHR 0xB6, CHR 0x88]],
           El ''Button'' [Flag ''loading'' (list_ex is_CreateRole flight), On ''onClick'' SubmitCreateRole]
             [Txt [CHR 0xE5, CHR 0x88, CHR 0x9B, CHR 0xE5, CHR 0xBB, CHR 0xBA]]],
        create_role_form]"

definition edit_role_form_view :: "roles_action node" where
  "edit_role_form_view =
     El ''Form'' []
       [El ''Form.Item'' [Attr ''name'' ''name'', Attr ''label'' [CHR 0xE8, CHR 0xA7, CHR 0x92, CHR 0xE8, CHR 0x89, CHR 0xB2, CHR 0xE5, CHR 0x90,
      CHR 0x8D, CHR 0xE7, CHR 0xA7, CHR 0xB0], Rules [required]] [El ''Input'' [] []],
        El ''Form.Item'' [Attr ''name'' ''description'', Attr ''label'' [CHR 0xE6, CHR 0x8F, CHR 0x8F, CHR 0xE8, CHR 0xBF, CHR 0xB0]] [El ''Input.TextArea'' [] []]]"

definition edit_role_drawer :: "roles_state \<Rightarrow> roles_action node" where
  "edit_role_drawer s =
     El ''Drawer''
       [Attr ''title'' (([CHR 0xE7, CHR 0xBC, CHR 0x96, CHR 0xE8, CHR 0xBE, CHR 0x91, CHR 0xE8, CHR 0xA7,
      CHR 0x92, CHR 0xE8, CHR 0x89, CHR 0xB2] @
     '' - '') @ (case rz_editing s of None \<Rightarrow> [] | Some r \<Rightarrow> ro_code r)),
        Flag ''open'' (rz_editing s \<noteq> None), On ''onClose'' CloseEditRole]
       [El ''extra'' []
          [El ''Button'' [On ''onClick'' CloseEditRole] [Txt [CHR 0xE5, CHR 0x8F, CHR 0x96, CHR 0xE6, CHR 0xB6, CHR 0x88]],
           El ''Button'' [Flag ''loading'' (rz_updating s \<noteq> None), On ''onClick'' SubmitEditRole] [Txt [CHR 0xE4, CHR 0xBF, CHR 0x9D, CHR 0xE5, CHR 0xAD, CHR 0x98]]],
        edit_role_form_view]"

text \<open>The tree: a node for each module and in it one for each permission, all with a check box.\<close>

definition tree_leaf_view :: "string \<times> string \<Rightarrow> roles_action node" where
  "tree_leaf_view leaf =
     (case leaf of (code, name) \<Rightarrow>
        El ''TreeNode'' [Attr ''key'' code, On ''onCheck'' (CheckKey code)]
          [El ''Space'' [] [El ''Text'' [] [Txt name],
             El ''Text'' [Attr ''type'' ''secondary'', Flag ''code'' True] [Txt code]]])"

definition tree_node_view :: "tree_node \<Rightarrow> roles_action node" where
  "tree_node_view n =
     (case tn_title n of (m, k) \<Rightarrow>
        El ''TreeNode'' [Attr ''key'' (tn_key n), On ''onCheck'' (CheckKey (tn_key n))]
          (El ''Space'' [] [El ''Text'' [Flag ''strong'' True] [Txt m], El ''Tag'' [] [Txt (show_nat k)]] #
           map tree_leaf_view (tn_children n)))"

definition perms_card :: "roles_data \<Rightarrow> roles_action node" where
  "perms_card d =
     El ''Card'' [Flag ''loading'' (rd_permsFetching d \<or> rd_rolePermsFetching d)]
       (if treeData (rd_perms d) = [] \<and> \<not> rd_permsFetching d
        then [El ''Text'' [Attr ''type'' ''secondary''] [Txt [CHR 0xE6, CHR 0x9A, CHR 0x82, CHR 0xE6, CHR 0x97, CHR 0xA0, CHR 0xE6, CHR 0x9D,
      CHR 0x83, CHR 0xE9, CHR 0x99, CHR 0x90, CHR 0xE7, CHR 0x82, CHR 0xB9, CHR 0xE6,
      CHR 0x95, CHR 0xB0, CHR 0xE6, CHR 0x8D, CHR 0xAE]]]
        else [El ''Tree'' [Flag ''checkable'' True, Flag ''checkStrictly'' True, Flag ''selectable'' False]
                (map tree_node_view (treeData (rd_perms d)))])"

definition RolePermissionsDrawer :: "bool \<Rightarrow> roles_data \<Rightarrow> roles_state \<Rightarrow> role \<Rightarrow> roles_action node" where
  "RolePermissionsDrawer canSet d s r =
     El ''Drawer'' [Attr ''title'' (([CHR 0xE6, CHR 0x9D, CHR 0x83, CHR 0xE9, CHR 0x99, CHR 0x90, CHR 0xE8, CHR 0xAE,
      CHR 0xBE, CHR 0xE7, CHR 0xBD, CHR 0xAE] @
     '' - '') @ ro_name r @ '' ('' @ ro_code r @ '')''), Flag ''open'' True,
        On ''onClose'' ClosePerms]
       [El ''extra'' []
          [El ''Button'' [On ''onClick'' ClosePerms] [Txt [CHR 0xE5, CHR 0x8F, CHR 0x96, CHR 0xE6, CHR 0xB6, CHR 0x88]],
           El ''Button'' [Flag ''loading'' (rz_saving s), Flag ''disabled'' (\<not> canSet), On ''onClick'' SavePerms]
             [Txt [CHR 0xE4, CHR 0xBF, CHR 0x9D, CHR 0xE5, CHR 0xAD, CHR 0x98]]],
        El ''Card'' []
          [El ''Space'' []
             [El ''Text'' [] [Txt [CHR 0xE5, CHR 0xB7, CHR 0xB2, CHR 0xE5, CHR 0x8B, CHR 0xBE, CHR 0xE9, CHR 0x80,
      CHR 0x89, CHR 0xE6, CHR 0x9D, CHR 0x83, CHR 0xE9, CHR 0x99, CHR 0x90, CHR 0xEF,
      CHR 0xBC, CHR 0x9A]],
              El ''Tag'' [Attr ''color'' ''blue''] [Txt (show_nat (length (dr_checked (rz_drawer s))))],
              El ''Text'' [Attr ''type'' ''secondary'']
                [Txt ((''/ '' @
     [CHR 0xE5, CHR 0x85, CHR 0xB1] @
     '' '') @ show_nat (length (leafCodes (rd_perms d))) @ ('' '' @
     [CHR 0xE4, CHR 0xB8, CHR 0xAA, CHR 0xE6, CHR 0x9D, CHR 0x83, CHR 0xE9, CHR 0x99,
      CHR 0x90, CHR 0xE7, CHR 0x82, CHR 0xB9]))]]],
        perms_card d,
        El ''div'' [] [El ''Button'' [On ''onClick'' ClosePerms] [Txt [CHR 0xE5, CHR 0x85, CHR 0xB3, CHR 0xE9, CHR 0x97, CHR 0xAD]]]]"

definition roles_forbidden :: "roles_action node" where
  "roles_forbidden =
     El ''PageContainer'' []
       [El ''Card'' []
          [El ''Text'' [Attr ''type'' ''warning''] [Txt ([CHR 0xE6, CHR 0x82, CHR 0xA8, CHR 0xE6, CHR 0xB2, CHR 0xA1, CHR 0xE6, CHR 0x9C,
      CHR 0x89, CHR 0xE6, CHR 0x9F, CHR 0xA5, CHR 0xE7, CHR 0x9C, CHR 0x8B, CHR 0xE8,
      CHR 0xA7, CHR 0x92, CHR 0xE8, CHR 0x89, CHR 0xB2, CHR 0xE5, CHR 0x88, CHR 0x97,
      CHR 0xE8, CHR 0xA1, CHR 0xA8, CHR 0xE7, CHR 0x9A, CHR 0x84, CHR 0xE6, CHR 0x9D,
      CHR 0x83, CHR 0xE9, CHR 0x99, CHR 0x90, CHR 0xEF, CHR 0xBC, CHR 0x88] @
     ''role:manage'' @
     [CHR 0xEF, CHR 0xBC, CHR 0x89, CHR 0xE3, CHR 0x80, CHR 0x82])]]]"

definition roles_view ::
  "(string \<Rightarrow> string) \<Rightarrow> current_user option \<Rightarrow> roles_data \<Rightarrow> roles_call list \<Rightarrow> roles_state \<Rightarrow> roles_action node" where
  "roles_view fmt u d flight s =
     (let can = can_manage_roles u
      in if \<not> can then roles_forbidden
         else El ''PageContainer'' []
           ([El ''extra'' []
               [El ''Button'' [Flag ''disabled'' (\<not> can), On ''onClick'' OpenCreateRole] [Txt [CHR 0xE6, CHR 0x96, CHR 0xB0, CHR 0xE5, CHR 0xBB, CHR 0xBA, CHR 0xE8, CHR 0xA7,
      CHR 0x92, CHR 0xE8, CHR 0x89, CHR 0xB2]],
                El ''Button'' [Flag ''loading'' (rd_fetching d), On ''onClick'' ReloadRoles] [Txt [CHR 0xE5, CHR 0x88, CHR 0xB7, CHR 0xE6, CHR 0x96, CHR 0xB0]]],
             roles_table fmt u d (rz_filters s),
             create_role_drawer flight s,
             edit_role_drawer s] @
            (case rz_permsRole s of None \<Rightarrow> [] | Some r \<Rightarrow> [RolePermissionsDrawer can d s r])))"

subsection \<open>What the actions and the replies do\<close>

definition roles_act ::
  "(string \<Rightarrow> string list \<Rightarrow> string list) \<Rightarrow> roles_action \<Rightarrow> event \<Rightarrow> roles_data \<Rightarrow> roles_state
    \<Rightarrow> roles_state \<times> roles_call page_effect list" where
  "roles_act tree a x d s =
     (case a of
        OpenCreateRole \<Rightarrow> (s\<lparr>rz_createOpen := True\<rparr>, [])
      | CloseCreateRole \<Rightarrow> (s\<lparr>rz_createOpen := False\<rparr>, [])
      | SubmitCreateRole \<Rightarrow>
          (s, start_call (CallCreateRole (rz_create s)) (role_handleCreate (rz_create s) None))
      | ReloadRoles \<Rightarrow> (s, [PRefetch])
      | SearchRoles \<Rightarrow>
          (case x of TextArg keyword \<Rightarrow> (s\<lparr>rz_filters := roles_handleSearch keyword (rz_filters s)\<rparr>, [])
           | _ \<Rightarrow> (s, []))
      | ChangeRolesPage \<Rightarrow>
          (case x of PageArg p sz \<Rightarrow> (s\<lparr>rz_filters := roles_handlePageChange p sz (rz_filters s)\<rparr>, [])
           | _ \<Rightarrow> (s, []))
      | SwitchRole r \<Rightarrow>
          (s\<lparr>rz_serial := rz_serial s + 1, rz_updating := Some (rz_serial s)\<rparr>,
           start_call (CallRoleStatus (rz_serial s) r) (role_handleToggleStatus r False))
      | OpenPerms r \<Rightarrow>
          (if rz_permsRole s = None
           then (s\<lparr>rz_permsRole := Some r, rz_drawer := perms_drawer_init, rz_saving := False,
                   rz_mounts := rz_mounts s + 1\<rparr>, [])
           else (s\<lparr>rz_permsRole := Some r\<rparr>, []))
      | EditRole r \<Rightarrow> (s\<lparr>rz_editing := Some r, rz_edit := role_edit_form r\<rparr>, [])
      | RemoveRole r \<Rightarrow> (s, start_call (CallDeleteRole r) (role_handleDelete r False))
      | CloseEditRole \<Rightarrow> (s\<lparr>rz_editing := None\<rparr>, [])
      | SubmitEditRole \<Rightarrow>
          (case rz_editing s of
             None \<Rightarrow> (s, [])
           | Some r \<Rightarrow>
               let es = snd (role_handleEdit (Some r, rz_edit s) False)
               in (if sends es = [] then s else s\<lparr>rz_serial := rz_serial s + 1, rz_updating := Some (rz_serial s)\<rparr>,
                   start_call (CallEditRole (rz_serial s) r (rz_edit s)) es))
      | ClosePerms \<Rightarrow> (s\<lparr>rz_permsRole := None\<rparr>, [])
      | SavePerms \<Rightarrow>
          (case rz_permsRole s of
             None \<Rightarrow> (s, [])
           | Some r \<Rightarrow>
               (s\<lparr>rz_saving := True\<rparr>,
                start_call (CallSavePerms (rz_mounts s) r (rz_drawer s)) (perms_handleSave (ro_id r) (rz_drawer s) False)))
      | CheckKey key \<Rightarrow> (s\<lparr>rz_drawer := handleCheck (tree key (dr_checked (rz_drawer s))) (rz_drawer s)\<rparr>, []))"

text \<open>The hook stops loading when the reply to its latest call arrives.\<close>

definition update_replied :: "nat \<Rightarrow> roles_state \<Rightarrow> roles_state" where
  "update_replied n s = (if rz_updating s = Some n then s\<lparr>rz_updating := None\<rparr> else s)"

definition roles_reply ::
  "roles_call \<Rightarrow> string option option \<Rightarrow> roles_state \<Rightarrow> roles_state \<times> roles_call page_effect list" where
  "roles_reply c result s =
     (let ok = result \<noteq> None
      in case c of
        CallCreateRole b \<Rightarrow>
          (if ok then s\<lparr>rz_createOpen := False, rz_create := create_role_init\<rparr> else s,
           reported (role_handleCreate b result))
      | CallEditRole n r b \<Rightarrow>
          ((update_replied n s)\<lparr>rz_editing := (if ok then None else rz_editing s)\<rparr>,
           reported (snd (role_handleEdit (Some r, b) ok)))
      | CallRoleStatus n r \<Rightarrow> (update_replied n s, reported (role_handleToggleStatus r ok))
      | CallDeleteRole r \<Rightarrow> (s, reported (role_handleDelete r ok))
      | CallSavePerms n r dr \<Rightarrow>
          (s\<lparr>rz_saving := (if rz_mounts s = n then False else rz_saving s),
             rz_permsRole := (if ok then None else rz_permsRole s)\<rparr>,
           reported (perms_handleSave (ro_id r) dr ok)))"

text \<open>A render of the drawer with new listings runs its effect.\<close>

definition roles_commit :: "roles_data \<Rightarrow> roles_state \<Rightarrow> roles_state \<times> roles_call page_effect list" where
  "roles_commit d s =
     (let dr = rz_drawer s
      in if rz_permsRole s = None \<or> dr_allPerms dr = rd_perms d \<and> dr_rolePerms dr = rd_rolePerms d then (s, [])
         else (s\<lparr>rz_drawer := checked_effect (dr\<lparr>dr_allPerms := rd_perms d, dr_rolePerms := rd_rolePerms d\<rparr>)\<rparr>, []))"

definition roles_typed :: "roles_state \<Rightarrow> roles_state \<Rightarrow> bool" where
  "roles_typed s s' \<longleftrightarrow>
     s' = s\<lparr>rz_create := rz_create s', rz_edit := rz_edit s'\<rparr>
     \<and> (rz_createOpen s \<or> rz_create s' = rz_create s) \<and> (rz_editing s \<noteq> None \<or> rz_edit s' = rz_edit s)"

definition roles_page ::
  "(string \<Rightarrow> string) \<Rightarrow> (string \<Rightarrow> string list \<Rightarrow> string list) \<Rightarrow> current_user option
    \<Rightarrow> (roles_data, roles_state, roles_action, roles_call, string option option) machine" where
  "roles_page fmt tree u =
     \<lparr>pg_start = roles_start, pg_view = roles_view fmt u, pg_act = roles_act tree,
      pg_reply = roles_reply, pg_commit = roles_commit, pg_typed = roles_typed\<rparr>"

subsection \<open>What the page offers\<close>

definition offered_ok :: "roles_action \<Rightarrow> bool" where
  "offered_ok a \<longleftrightarrow>
     (case a of
        EditRole r \<Rightarrow> ro_builtin r \<noteq> 1
      | RemoveRole r \<Rightarrow> ro_builtin r \<noteq> 1
      | SubmitCreateRole \<Rightarrow> False
      | _ \<Rightarrow> True)"

lemma roles_table_acts:
  "a \<in> set (acts (roles_table fmt u d f)) \<Longrightarrow> offered_ok a"
  by (auto simp: roles_table_def role_columns_def role_actions_view_def role_actions_disabled_def
      role_status_view_def role_status_cell_def count_view_def offered_ok_def view_simps
      split: option.splits if_splits)

lemma create_role_drawer_acts:
  "set (acts (create_role_drawer flight s)) =
     (if rz_createOpen s then {CloseCreateRole} \<union> (if list_ex is_CreateRole flight then {} else {SubmitCreateRole})
      else {})"
  by (auto simp: create_role_drawer_def create_role_form_def view_simps)

lemma edit_role_drawer_acts: "a \<in> set (acts (edit_role_drawer s)) \<Longrightarrow> offered_ok a"
  by (auto simp: edit_role_drawer_def edit_role_form_view_def offered_ok_def view_simps split: if_splits)

lemma perms_drawer_acts: "a \<in> set (acts (RolePermissionsDrawer can d s r)) \<Longrightarrow> offered_ok a"
  by (auto simp: RolePermissionsDrawer_def perms_card_def tree_node_view_def tree_leaf_view_def
      offered_ok_def view_simps split: if_splits prod.splits)

lemma roles_offered:
  assumes "a \<in> set (acts (roles_view fmt u d flight s))"
  shows "can_manage_roles u" and "a = SubmitCreateRole \<and> filter is_CreateRole flight = [] \<or> offered_ok a"
proof -
  show can: "can_manage_roles u"
    using assms by (auto simp: roles_view_def roles_forbidden_def view_simps Let_def split: if_splits)
  have none: "list_ex P xs \<or> filter P xs = []" for P :: "roles_call \<Rightarrow> bool" and xs
    by (induction xs) auto
  have "a \<in> {OpenCreateRole, ReloadRoles} \<union> set (acts (roles_table fmt u d (rz_filters s)))
      \<union> set (acts (create_role_drawer flight s)) \<union> set (acts (edit_role_drawer s))
      \<union> (\<Union>r. set (acts (RolePermissionsDrawer True d s r)))"
    using assms can by (auto simp: roles_view_def view_simps Let_def split: option.splits if_splits)
  then show "a = SubmitCreateRole \<and> filter is_CreateRole flight = [] \<or> offered_ok a"
    using none [of is_CreateRole flight]
    by (auto simp: create_role_drawer_acts offered_ok_def
        dest: roles_table_acts edit_role_drawer_acts perms_drawer_acts
        split: if_splits)
qed

subsection \<open>Properties of the runs\<close>

definition roles_call_ok :: "roles_call \<Rightarrow> bool" where
  "roles_call_ok c \<longleftrightarrow>
     (case c of
        CallCreateRole b \<Rightarrow> create_role_valid b
      | CallEditRole n r b \<Rightarrow> ro_builtin r \<noteq> 1 \<and> truthy (urb_name b)
      | CallDeleteRole r \<Rightarrow> ro_builtin r \<noteq> 1
      | _ \<Rightarrow> True)"

definition editing_ok :: "roles_state \<Rightarrow> bool" where
  "editing_ok s \<longleftrightarrow> (case rz_editing s of None \<Rightarrow> True | Some r \<Rightarrow> ro_builtin r \<noteq> 1)"

lemma roles_act_sends:
  "editing_ok s \<Longrightarrow> c \<in> set (sends (snd (roles_act tree a x d s))) \<Longrightarrow> roles_call_ok c"
  by (cases a)
    (auto simp: roles_act_def roles_call_ok_def editing_ok_def role_handleCreate_def role_handleEdit_def
      role_handleToggleStatus_def role_handleDelete_def perms_handleSave_def Let_def
      split: event.splits option.splits if_splits)

lemma roles_act_one:
  "length (sends (snd (roles_act tree a x d s))) \<le> 1"
  "filter is_CreateRole (sends (snd (roles_act tree a x d s))) \<noteq> [] \<Longrightarrow> a = SubmitCreateRole"
  by (cases a; auto simp: roles_act_def role_handleCreate_def role_handleEdit_def role_handleToggleStatus_def
      role_handleDelete_def perms_handleSave_def Let_def split: event.splits option.splits if_splits)+

lemma roles_act_editing:
  "editing_ok s \<Longrightarrow> offered_ok a \<or> a = SubmitCreateRole \<Longrightarrow> editing_ok (fst (roles_act tree a x d s))"
  by (cases a) (auto simp: roles_act_def editing_ok_def offered_ok_def Let_def split: event.splits option.splits)

lemma roles_reply_editing: "editing_ok s \<Longrightarrow> editing_ok (fst (roles_reply c r s))"
  by (cases c) (auto simp: roles_reply_def editing_ok_def update_replied_def Let_def split: option.splits)

lemma roles_reply_quiet: "sends (snd (roles_reply c r s)) = []"
  by (cases c) (simp_all add: roles_reply_def Let_def)

lemma roles_commit_frame: "editing_ok (fst (roles_commit d s)) = editing_ok s" "snd (roles_commit d s) = []"
  by (simp_all add: roles_commit_def editing_ok_def Let_def)

lemma roles_typed_editing: "roles_typed s s' \<Longrightarrow> editing_ok s' = editing_ok s"
  unfolding roles_typed_def editing_ok_def by (elim conjE, drule arg_cong [where f = rz_editing]) simp

lemma roles_start_editing: "editing_ok roles_start"
  by (simp add: roles_start_def editing_ok_def)

lemmas roles_steps = roles_start_editing roles_act_editing roles_reply_editing roles_commit_frame roles_reply_quiet

interpretation roles_machine: guarded_page "roles_page fmt tree u" editing_ok
  "\<lambda>c. can_manage_roles u \<and> roles_call_ok c"
  by unfold_locales
    (auto simp: roles_page_def roles_steps dest: roles_offered roles_act_sends roles_typed_editing)

interpretation roles_create_once: single_submit "roles_page fmt tree u" editing_ok
  "\<lambda>c. can_manage_roles u \<and> roles_call_ok c" is_CreateRole
  by unfold_locales
    (auto simp: roles_page_def roles_act_one(1) [simplified] offered_ok_def dest!: roles_act_one(2) roles_offered(2))

lemma create_role_form_rules:
  "form_accepts is_email create_role_form
     (\<lambda>n. if n = ''code'' then Some (crb_code b) else if n = ''name'' then Some (crb_name b) else crb_description b)
   \<longleftrightarrow> create_role_valid b"
  by (auto simp: form_accepts_def create_role_form_def field_of_def rule_ok_def required_def no_rule_def
      create_role_valid_def truthy_iff)

text \<open>
  C17. Whatever happens on the page of roles, in any order: only a user who may manage roles sends
  requests; a built-in role is neither edited nor deleted, also not through a drawer that was
  opened earlier; a new role has a valid code and a name and is submitted once.
\<close>

theorem roles_run_safe:
  assumes "page_reach (roles_page fmt tree u) s flight tr"
  shows "(\<forall>c \<in> set (sends tr). can_manage_roles u \<and> roles_call_ok c)
    \<and> (\<forall>r. rz_editing s = Some r \<longrightarrow> ro_builtin r \<noteq> 1)
    \<and> length (filter is_CreateRole flight) \<le> 1"
  using roles_machine.sent_permitted [OF assms] roles_machine.reach_inv [OF assms]
    roles_create_once.at_most_one_in_flight [OF assms]
  by (auto simp: editing_ok_def)

definition demo_role :: role where
  "demo_role = \<lparr>ro_id = 5, ro_code = ''viewer'', ro_name = ''Viewer'', ro_description = None, ro_builtin = 0,
     ro_status = 1, ro_perm_count = None, ro_user_count = None, ro_created_at = None\<rparr>"

definition demo_roles_data :: roles_data where
  "demo_roles_data = \<lparr>rd_roles = Some ([demo_role], 1), rd_fetching = False, rd_perms = None,
     rd_permsFetching = False, rd_rolePerms = None, rd_rolePermsFetching = False\<rparr>"

definition demo_role_manager :: "current_user option" where
  "demo_role_manager = Some (demo_user [''role:manage''])"

lemma demo_role_manager_can: "can_manage_roles demo_role_manager"
  by (simp add: can_manage_roles_def demo_role_manager_def hasPerm_def demo_user_def user_perms_def
      isPlatformAdmin_def)

lemma demo_role_delete_reach:
  "page_reach (roles_page fmt tree demo_role_manager) roles_start [CallDeleteRole demo_role]
     [PSend (CallDeleteRole demo_role)]"
proof -
  let ?p = "roles_page fmt tree demo_role_manager"
  have start: "page_reach ?p roles_start [] []"
    using page_reach.start [of ?p] by (simp add: roles_page_def)
  have "page_reach ?p roles_start ([] @ sends [PSend (CallDeleteRole demo_role)]) ([] @ [PSend (CallDeleteRole demo_role)])"
  proof (rule page_reach.act [OF start, of "RemoveRole demo_role" demo_roles_data NoArg])
    show "RemoveRole demo_role \<in> set (acts (pg_view ?p demo_roles_data [] roles_start))"
      by (simp add: roles_page_def roles_view_def demo_role_manager_can roles_table_def demo_roles_data_def
          role_columns_def role_actions_view_def role_actions_disabled_def demo_role_def view_simps)
    show "pg_act ?p (RemoveRole demo_role) NoArg demo_roles_data roles_start = (roles_start, [PSend (CallDeleteRole demo_role)])"
      by (simp add: roles_page_def roles_act_def role_handleDelete_def demo_role_def start_call_def try_send_def)
  qed
  then show ?thesis by simp
qed

theorem roles_run_safe_witness:
  "can_manage_roles demo_role_manager \<and> roles_call_ok (CallDeleteRole demo_role)"
  using roles_run_safe [OF demo_role_delete_reach [of "\<lambda>t. t" "\<lambda>_ cs. cs"]] by simp

text \<open>
  The shared hook forgets an edit: when a role is switched while an edit is in flight, the reply of
  the switch stops the loading, and the edit can be submitted again before its own reply.
\<close>

lemma edit_submitted_again:
  assumes "rz_editing s = Some r" and "truthy (urb_name (rz_edit s))" and "rz_updating s = Some n"
    and "s1 = fst (roles_reply (CallRoleStatus n r') result s)"
  shows "SubmitEditRole \<in> set (acts (edit_role_drawer s1))"
    and "sends (snd (roles_act tree SubmitEditRole x d s1)) = [CallEditRole (rz_serial s) r (rz_edit s)]"
  using assms
  by (simp_all add: edit_role_drawer_def view_simps roles_reply_def update_replied_def roles_act_def
      role_handleEdit_def Let_def)

end
