(* ===== verification/HelmView.thy ===== *)
theory HelmView
  imports View HelmPages
begin

section \<open>The page of Helm releases as a machine\<close>

text \<open>
  What \<open>pages/helm/list.tsx\<close> renders and the runs of the page. The drawer that installs a release does
  not ask for the permission again when it submits; that it opens only with the permission is an
  invariant of the runs. \<open>date\<close>, \<open>date_s\<close> and \<open>ago\<close> are formats of dayjs, \<open>None\<close> an invalid date;
  \<open>get\<close> reads the query string. Clusters are pairs of code and name.
\<close>

record hlist_data =
  hd_clusters :: "(string \<times> string) list option"
  hd_selected :: "string option"
  hd_namespaces :: "string list"
  hd_full :: bool
  hd_releases :: "(helm_release list \<times> int) option"
  hd_fetching :: bool
  hd_history :: "helm_history_item list option"
  hd_historyLoading :: bool

datatype helm_call =
    is_CallInstall: CallInstall helm_page install_drawer
  | CallUninstall helm_page helm_release
  | CallRollback helm_page helm_release "int option"

text \<open>\<open>hz_seen\<close> is the cluster at the latest run of the effect that opens the drawer.\<close>

record helm_state =
  hz_page :: helm_page
  hz_install :: install_drawer
  hz_historyOpen :: bool
  hz_historyRecord :: "helm_release option"
  hz_tab :: string
  hz_seen :: "string option option"

datatype helm_action =
    ChooseCluster | ChooseNamespace | ReloadReleases | OpenInstall | CloseInstall | SubmitInstall
  | EditValues | OpenHistory helm_release | CloseHistory | ChooseTab | RefreshHistory
  | Rollback helm_release "int option" | Uninstall helm_release

definition helm_start :: "string option \<Rightarrow> helm_state" where
  "helm_start selected =
     \<lparr>hz_page = helm_init selected,
      hz_install = \<lparr>id_open = False, id_form = \<lparr>if_release_name = None, if_namespace = None, if_chart_ref = None,
        if_repo_url = None, if_version = None, if_values = None, if_wait = False, if_dry_run = False\<rparr>\<rparr>,
      hz_historyOpen = False, hz_historyRecord = None, hz_tab = ''history'', hz_seen = None\<rparr>"

subsection \<open>What is rendered\<close>

definition helm_status_view :: "string \<Rightarrow> helm_action node list" where
  "helm_status_view st = (case helm_status_tag st of (color, label) \<Rightarrow> [El ''Tag'' [Attr ''color'' color] [Txt label]])"

definition chart_view :: "string \<Rightarrow> string \<Rightarrow> helm_action node list" where
  "chart_view chart app =
     [El ''Space'' [] (El ''span'' [] [Txt (or_dash chart)] #
        shown_if (app \<noteq> []) [El ''span'' [] [Txt (''app: '' @ app)]])]"

text \<open>A button that asks for confirmation; its dialog has a disabled button when it is disabled.\<close>

definition confirm_button :: "string \<Rightarrow> string \<Rightarrow> string \<Rightarrow> bool \<Rightarrow> helm_action \<Rightarrow> helm_action node" where
  "confirm_button title description label off a =
     El ''Popconfirm'' [Attr ''title'' title, Attr ''description'' description]
       [El ''okButton'' [Flag ''disabled'' off, On ''onConfirm'' a] [],
        El ''Button'' [Flag ''disabled'' off] [Txt label]]"

definition release_actions_view :: "helm_perms \<Rightarrow> helm_release \<Rightarrow> helm_action node list" where
  "release_actions_view p r =
     [El ''Space'' []
        [El ''Button'' [On ''onClick'' (OpenHistory r), Flag ''disabled'' (\<not> hp_view p)] [Txt ([CHR 0xE5, CHR 0x8E, CHR 0x86, CHR 0xE5, CHR 0x8F, CHR 0xB2] @
     ''/'' @
     [CHR 0xE5, CHR 0x9B, CHR 0x9E, CHR 0xE6, CHR 0xBB, CHR 0x9A])],
         confirm_button (([CHR 0xE7, CHR 0xA1, CHR 0xAE, CHR 0xE8, CHR 0xAE, CHR 0xA4, CHR 0xE5, CHR 0x9B,
      CHR 0x9E, CHR 0xE6, CHR 0xBB, CHR 0x9A] @
     '' Release'' @
     [CHR 0xE3, CHR 0x80, CHR 0x8C]) @ hr_name r @ [CHR 0xE3, CHR 0x80, CHR 0x8D, CHR 0xE5, CHR 0x88, CHR 0xB0, CHR 0xE4, CHR 0xB8,
      CHR 0x8A, CHR 0xE4, CHR 0xB8, CHR 0x80, CHR 0xE7, CHR 0x89, CHR 0x88, CHR 0xE6,
      CHR 0x9C, CHR 0xAC, CHR 0xEF, CHR 0xBC, CHR 0x9F])
           ([CHR 0xE5, CHR 0xB0, CHR 0x86, CHR 0xE5, CHR 0x88, CHR 0x9B, CHR 0xE5, CHR 0xBB,
      CHR 0xBA, CHR 0xE6, CHR 0x96, CHR 0xB0, CHR 0xE7, CHR 0x9A, CHR 0x84] @
     '' revision '' @
     [CHR 0xE5, CHR 0xB9, CHR 0xB6, CHR 0xE6, CHR 0x81, CHR 0xA2, CHR 0xE5, CHR 0xA4,
      CHR 0x8D, CHR 0xE8, CHR 0x87, CHR 0xB3, CHR 0xE4, CHR 0xB8, CHR 0x8A, CHR 0xE4,
      CHR 0xB8, CHR 0x80, CHR 0xE7, CHR 0x89, CHR 0x88, CHR 0xE6, CHR 0x9C, CHR 0xAC]) [CHR 0xE5, CHR 0xBF, CHR 0xAB, CHR 0xE9, CHR 0x80, CHR 0x9F, CHR 0xE5, CHR 0x9B,
      CHR 0x9E, CHR 0xE6, CHR 0xBB, CHR 0x9A] (\<not> hp_rollback p) (Rollback r None),
         confirm_button (([CHR 0xE7, CHR 0xA1, CHR 0xAE, CHR 0xE8, CHR 0xAE, CHR 0xA4, CHR 0xE5, CHR 0x8D,
      CHR 0xB8, CHR 0xE8, CHR 0xBD, CHR 0xBD] @
     '' Release'' @
     [CHR 0xE3, CHR 0x80, CHR 0x8C]) @ hr_name r @ [CHR 0xE3, CHR 0x80, CHR 0x8D, CHR 0xEF, CHR 0xBC, CHR 0x9F])
           ([CHR 0xE5, CHR 0x8D, CHR 0xB8, CHR 0xE8, CHR 0xBD, CHR 0xBD, CHR 0xE5, CHR 0xB0,
      CHR 0x86, CHR 0xE5, CHR 0x88, CHR 0xA0, CHR 0xE9, CHR 0x99, CHR 0xA4, CHR 0xE8,
      CHR 0xAF, CHR 0xA5] @
     '' Release '' @
     [CHR 0xE5, CHR 0x85, CHR 0xB3, CHR 0xE8, CHR 0x81, CHR 0x94, CHR 0xE7, CHR 0x9A,
      CHR 0x84, CHR 0xE6, CHR 0x89, CHR 0x80, CHR 0xE6, CHR 0x9C, CHR 0x89, CHR 0xE8,
      CHR 0xB5, CHR 0x84, CHR 0xE6, CHR 0xBA, CHR 0x90]) [CHR 0xE5, CHR 0x8D, CHR 0xB8, CHR 0xE8, CHR 0xBD, CHR 0xBD] (\<not> hp_uninstall p) (Uninstall r)]]"

definition updated_view :: "(string \<Rightarrow> string option) \<Rightarrow> (string \<Rightarrow> string) \<Rightarrow> helm_release \<Rightarrow> helm_action node list" where
  "updated_view date ago r =
     (if hr_updated r = [] then [Txt ''-'']
      else case date (hr_updated r) of
             None \<Rightarrow> [Txt (hr_updated r)]
           | Some t \<Rightarrow> [El ''Space'' [] [El ''span'' [] [Txt t], El ''span'' [] [Txt (ago (hr_updated r))]]])"

definition release_columns ::
  "(string \<Rightarrow> string option) \<Rightarrow> (string \<Rightarrow> string) \<Rightarrow> helm_perms
    \<Rightarrow> (string \<times> (helm_release \<Rightarrow> helm_action node list)) list" where
  "release_columns date ago p =
     [(''Release'', \<lambda>r. [El ''Space'' [] [El ''span'' [] [Txt (hr_name r)]]]),
      ([CHR 0xE5, CHR 0x91, CHR 0xBD, CHR 0xE5, CHR 0x90, CHR 0x8D, CHR 0xE7, CHR 0xA9,
      CHR 0xBA, CHR 0xE9, CHR 0x97, CHR 0xB4], \<lambda>r. [El ''Tag'' [Attr ''color'' ''blue''] [Txt (hr_namespace r)]]),
      ([CHR 0xE7, CHR 0x89, CHR 0x88, CHR 0xE6, CHR 0x9C, CHR 0xAC], \<lambda>r. [El ''Tag'' [Attr ''color'' ''purple''] [Txt (''rev '' @ or_dash (hr_revision r))]]),
      ([CHR 0xE7, CHR 0x8A, CHR 0xB6, CHR 0xE6, CHR 0x80, CHR 0x81], \<lambda>r. helm_status_view (hr_status r)),
      (''Chart'', \<lambda>r. chart_view (hr_chart r) (hr_appVersion r)),
      ([CHR 0xE6, CHR 0x9B, CHR 0xB4, CHR 0xE6, CHR 0x96, CHR 0xB0, CHR 0xE6, CHR 0x97,
      CHR 0xB6, CHR 0xE9, CHR 0x97, CHR 0xB4], updated_view date ago),
      ([CHR 0xE6, CHR 0x93, CHR 0x8D, CHR 0xE4, CHR 0xBD, CHR 0x9C], release_actions_view p)]"

definition cluster_tag :: "string option \<Rightarrow> helm_action node list" where
  "cluster_tag c = shown_if (truthy c) [El ''Tag'' [Attr ''color'' ''blue''] [Txt (([CHR 0xE9, CHR 0x9B, CHR 0x86, CHR 0xE7, CHR 0xBE, CHR 0xA4] @
     '': '') @ the c)]]"

definition helm_toolbar :: "helm_perms \<Rightarrow> hlist_data \<Rightarrow> helm_page \<Rightarrow> helm_action node" where
  "helm_toolbar p d pg =
     El ''Space'' []
       [El ''Select'' [Attr ''placeholder'' [CHR 0xE9, CHR 0x80, CHR 0x89, CHR 0xE6, CHR 0x8B, CHR 0xA9, CHR 0xE9, CHR 0x9B,
      CHR 0x86, CHR 0xE7, CHR 0xBE, CHR 0xA4], Attr ''value'' (or_str (hl_clusterCode pg) []),
          Flag ''loading'' (hd_clusters d = None), On ''onChange'' ChooseCluster,
          Options (map (\<lambda>(c, n). (c, cluster_option_label n c)) (case hd_clusters d of None \<Rightarrow> [] | Some cs \<Rightarrow> cs))] [],
        El ''Select'' [Attr ''placeholder'' [CHR 0xE5, CHR 0x91, CHR 0xBD, CHR 0xE5, CHR 0x90, CHR 0x8D, CHR 0xE7, CHR 0xA9,
      CHR 0xBA, CHR 0xE9, CHR 0x97, CHR 0xB4], Attr ''value'' (hl_namespace pg), On ''onChange'' ChooseNamespace,
          Options (map (\<lambda>(l, v). (v, l)) (helm_namespaceOptions (hd_full d) (hd_namespaces d)))] [],
        El ''Button'' [On ''onClick'' ReloadReleases, Flag ''loading'' (hd_fetching d)] [Txt [CHR 0xE5, CHR 0x88, CHR 0xB7, CHR 0xE6, CHR 0x96, CHR 0xB0]],
        El ''Button'' [On ''onClick'' OpenInstall,
          Flag ''disabled'' (\<not> truthy (hl_clusterCode pg) \<or> \<not> hp_install p)] [Txt ([CHR 0xE5, CHR 0xAE, CHR 0x89, CHR 0xE8, CHR 0xA3, CHR 0x85] @
     '' / '' @
     [CHR 0xE5, CHR 0x8D, CHR 0x87, CHR 0xE7, CHR 0xBA, CHR 0xA7] @
     '' Release'')]]"

definition releases_table ::
  "(string \<Rightarrow> string option) \<Rightarrow> (string \<Rightarrow> string) \<Rightarrow> helm_perms \<Rightarrow> hlist_data \<Rightarrow> helm_page \<Rightarrow> helm_action node" where
  "releases_table date ago p d pg =
     (case helm_table pg (map_option fst (hd_releases d)) of (rows, emptyText) \<Rightarrow>
        El ''ProTable'' [Flag ''loading'' (hd_fetching d \<or> \<not> truthy (hl_clusterCode pg)),
          On ''reload'' ReloadReleases, Attr ''emptyText'' emptyText]
          ([El ''headerTitle'' []
              [El ''Space'' [] (El ''span'' [] [Txt ''Helm Releases''] # cluster_tag (hl_clusterCode pg))],
            El ''pagination'' [Attr ''current'' ''1'', Attr ''pageSize'' ''50'',
              Attr ''total'' (case hd_releases d of None \<Rightarrow> ''0'' | Some (_, n) \<Rightarrow> show_int n)] []] @
           table_rows (release_columns date ago p) rows))"

definition install_form_view :: "hlist_data \<Rightarrow> install_form \<Rightarrow> helm_action node" where
  "install_form_view d f =
     El ''Form'' []
       [El ''Space'' []
          [El ''Form.Item'' [Attr ''name'' ''release_name'', Attr ''label'' (''Release '' @
     [CHR 0xE5, CHR 0x90, CHR 0x8D, CHR 0xE7, CHR 0xA7, CHR 0xB0]), Rules [required]]
             [El ''Input'' [Attr ''placeholder'' ([CHR 0xE5, CHR 0xA6, CHR 0x82] @
     '' my-app'')] []],
           El ''Form.Item'' [Attr ''name'' ''namespace'', Attr ''label'' [CHR 0xE5, CHR 0x91, CHR 0xBD, CHR 0xE5, CHR 0x90, CHR 0x8D, CHR 0xE7, CHR 0xA9,
      CHR 0xBA, CHR 0xE9, CHR 0x97, CHR 0xB4], Rules [required]]
             [El ''Select'' [Attr ''placeholder'' [CHR 0xE9, CHR 0x80, CHR 0x89, CHR 0xE6, CHR 0x8B, CHR 0xA9, CHR 0xE6, CHR 0x88,
      CHR 0x96, CHR 0xE8, CHR 0xBE, CHR 0x93, CHR 0xE5, CHR 0x85, CHR 0xA5, CHR 0xE5,
      CHR 0x91, CHR 0xBD, CHR 0xE5, CHR 0x90, CHR 0x8D, CHR 0xE7, CHR 0xA9, CHR 0xBA,
      CHR 0xE9, CHR 0x97, CHR 0xB4],
                Options (map (\<lambda>(l, v). (v, l))
                  (filter (\<lambda>(l, v). v \<noteq> []) (helm_namespaceOptions (hd_full d) (hd_namespaces d))))] []]],
        El ''Form.Item'' [Attr ''name'' ''chart_ref'', Attr ''label'' (''Chart '' @
     [CHR 0xE5, CHR 0xBC, CHR 0x95, CHR 0xE7, CHR 0x94, CHR 0xA8]), Rules [required],
          Attr ''help'' ([CHR 0xE5, CHR 0xA6, CHR 0x82] @
     '' stable/nginx-ingress'' @
     [CHR 0xE3, CHR 0x80, CHR 0x81] @
     ''bitnami/redis'' @
     [CHR 0xE3, CHR 0x80, CHR 0x81] @
     ''oci://registry/chart'' @
     [CHR 0xE3, CHR 0x80, CHR 0x81, CHR 0xE6, CHR 0x88, CHR 0x96, CHR 0xE6, CHR 0x9C,
      CHR 0xAC, CHR 0xE5, CHR 0x9C, CHR 0xB0, CHR 0xE8, CHR 0xB7, CHR 0xAF, CHR 0xE5,
      CHR 0xBE, CHR 0x84] @
     '' ./charts/my-app'')]
          [El ''Input'' [Attr ''placeholder'' ([CHR 0xE5, CHR 0xA6, CHR 0x82] @
     '' bitnami/redis '' @
     [CHR 0xE6, CHR 0x88, CHR 0x96] @
     '' oci://registry/charts/app'')] []],
        El ''Space'' []
          [El ''Form.Item'' [Attr ''name'' ''repo_url'', Attr ''label'' (''Repo URL'' @
     [CHR 0xEF, CHR 0xBC, CHR 0x88, CHR 0xE5, CHR 0x8F, CHR 0xAF, CHR 0xE9, CHR 0x80,
      CHR 0x89, CHR 0xEF, CHR 0xBC, CHR 0x89]),
             Attr ''help'' ([CHR 0xE9, CHR 0xA6, CHR 0x96, CHR 0xE6, CHR 0xAC, CHR 0xA1, CHR 0xE5, CHR 0xBC,
      CHR 0x95, CHR 0xE7, CHR 0x94, CHR 0xA8, CHR 0xE4, CHR 0xBB, CHR 0x93, CHR 0xE5,
      CHR 0xBA, CHR 0x93, CHR 0xE6, CHR 0x97, CHR 0xB6, CHR 0xE9, CHR 0x9C, CHR 0x80,
      CHR 0xE8, CHR 0xA6, CHR 0x81, CHR 0xEF, CHR 0xBC, CHR 0x8C, CHR 0xE5, CHR 0xA6,
      CHR 0x82] @
     '' https://charts.bitnami.com/bitnami'')]
             [El ''Input'' [Attr ''placeholder'' ''https://charts.bitnami.com/bitnami''] []],
           El ''Form.Item'' [Attr ''name'' ''version'', Attr ''label'' (''Chart Version'' @
     [CHR 0xEF, CHR 0xBC, CHR 0x88, CHR 0xE5, CHR 0x8F, CHR 0xAF, CHR 0xE9, CHR 0x80,
      CHR 0x89, CHR 0xEF, CHR 0xBC, CHR 0x89]),
             Attr ''help'' ([CHR 0xE6, CHR 0x8C, CHR 0x87, CHR 0xE5, CHR 0xAE, CHR 0x9A] @
     '' chart '' @
     [CHR 0xE7, CHR 0x89, CHR 0x88, CHR 0xE6, CHR 0x9C, CHR 0xAC, CHR 0xEF, CHR 0xBC,
      CHR 0x8C, CHR 0xE7, CHR 0x95, CHR 0x99, CHR 0xE7, CHR 0xA9, CHR 0xBA, CHR 0xE5,
      CHR 0x88, CHR 0x99, CHR 0xE7, CHR 0x94, CHR 0xA8, CHR 0xE6, CHR 0x9C, CHR 0x80,
      CHR 0xE6, CHR 0x96, CHR 0xB0])]
             [El ''Input'' [Attr ''placeholder'' ([CHR 0xE5, CHR 0xA6, CHR 0x82] @
     '' 18.1.0'')] []]],
        El ''Form.Item'' [Attr ''name'' ''values'', Attr ''label'' ''Values (YAML)'']
          [El ''div'' []
             [El ''Editor'' [Attr ''value'' (case if_values f of None \<Rightarrow> DEFAULT_VALUES_YAML | Some v \<Rightarrow> v),
                On ''onChange'' EditValues] []]],
        El ''Form.Item'' [Attr ''name'' ''wait'']
          [El ''Checkbox'' [] [Txt ([CHR 0xE7, CHR 0xAD, CHR 0x89, CHR 0xE5, CHR 0xBE, CHR 0x85, CHR 0xE5, CHR 0xB0,
      CHR 0xB1, CHR 0xE7, CHR 0xBB, CHR 0xAA] @
     '' (--wait)'' @
     [CHR 0xEF, CHR 0xBC, CHR 0x9A, CHR 0xE9, CHR 0x98, CHR 0xBB, CHR 0xE5, CHR 0xA1,
      CHR 0x9E, CHR 0xE8, CHR 0x87, CHR 0xB3, CHR 0xE6, CHR 0x89, CHR 0x80, CHR 0xE6,
      CHR 0x9C, CHR 0x89, CHR 0xE8, CHR 0xB5, CHR 0x84, CHR 0xE6, CHR 0xBA, CHR 0x90,
      CHR 0xE5, CHR 0xB0, CHR 0xB1, CHR 0xE7, CHR 0xBB, CHR 0xAA, CHR 0xE6, CHR 0x89,
      CHR 0x8D, CHR 0xE7, CHR 0xAE, CHR 0x97, CHR 0xE6, CHR 0x88, CHR 0x90, CHR 0xE5,
      CHR 0x8A, CHR 0x9F])]],
        El ''Form.Item'' [Attr ''name'' ''dry_run'']
          [El ''Checkbox'' [] [Txt (''Dry-run (--dry-run)'' @
     [CHR 0xEF, CHR 0xBC, CHR 0x9A, CHR 0xE4, CHR 0xBB, CHR 0x85, CHR 0xE6, CHR 0xA8,
      CHR 0xA1, CHR 0xE6, CHR 0x8B, CHR 0x9F, CHR 0xEF, CHR 0xBC, CHR 0x8C, CHR 0xE4,
      CHR 0xB8, CHR 0x8D, CHR 0xE5, CHR 0xAE, CHR 0x9E, CHR 0xE9, CHR 0x99, CHR 0x85,
      CHR 0xE5, CHR 0x8F, CHR 0x98, CHR 0xE6, CHR 0x9B, CHR 0xB4, CHR 0xE9, CHR 0x9B,
      CHR 0x86, CHR 0xE7, CHR 0xBE, CHR 0xA4])]]]"

definition install_drawer_view :: "hlist_data \<Rightarrow> helm_call list \<Rightarrow> helm_state \<Rightarrow> helm_action node" where
  "install_drawer_view d flight s =
     El ''Drawer'' [Flag ''open'' (id_open (hz_install s)), On ''onClose'' CloseInstall]
       [El ''title'' []
          [El ''Space'' [] (El ''span'' [] [Txt ([CHR 0xE5, CHR 0xAE, CHR 0x89, CHR 0xE8, CHR 0xA3, CHR 0x85] @
     '' / '' @
     [CHR 0xE5, CHR 0x8D, CHR 0x87, CHR 0xE7, CHR 0xBA, CHR 0xA7] @
     '' Helm Release'')] # cluster_tag (hl_clusterCode (hz_page s)))],
        El ''extra'' []
          [El ''Button'' [On ''onClick'' CloseInstall] [Txt [CHR 0xE5, CHR 0x8F, CHR 0x96, CHR 0xE6, CHR 0xB6, CHR 0x88]],
           El ''Button'' [Flag ''loading'' (list_ex is_CallInstall flight), On ''onClick'' SubmitInstall] [Txt [CHR 0xE6, CHR 0x8F, CHR 0x90, CHR 0xE4, CHR 0xBA, CHR 0xA4]]],
        install_form_view d (id_form (hz_install s))]"

subsection \<open>The history panel\<close>

definition history_columns ::
  "(string \<Rightarrow> string option) \<Rightarrow> bool \<Rightarrow> helm_release \<Rightarrow> (string \<times> (helm_history_item \<Rightarrow> helm_action node list)) list" where
  "history_columns date_s canRollback r =
     [(''Revision'', \<lambda>i. [El ''Tag'' [Attr ''color'' ''purple''] [Txt (fst (history_cells date_s i))]]),
      ([CHR 0xE7, CHR 0x8A, CHR 0xB6, CHR 0xE6, CHR 0x80, CHR 0x81], \<lambda>i. helm_status_view (hh_status i)),
      (''Chart'', \<lambda>i. chart_view (hh_chart i) (hh_app_version i)),
      ([CHR 0xE6, CHR 0x8F, CHR 0x8F, CHR 0xE8, CHR 0xBF, CHR 0xB0], \<lambda>i. [Txt (fst (snd (snd (history_cells date_s i))))]),
      ([CHR 0xE6, CHR 0x9B, CHR 0xB4, CHR 0xE6, CHR 0x96, CHR 0xB0, CHR 0xE6, CHR 0x97,
      CHR 0xB6, CHR 0xE9, CHR 0x97, CHR 0xB4], \<lambda>i. [Txt (snd (snd (snd (history_cells date_s i))))]),
      ([CHR 0xE6, CHR 0x93, CHR 0x8D, CHR 0xE4, CHR 0xBD, CHR 0x9C], \<lambda>i. case history_action canRollback r i of (label, off) \<Rightarrow>
         [confirm_button (([CHR 0xE5, CHR 0x9B, CHR 0x9E, CHR 0xE6, CHR 0xBB, CHR 0x9A, CHR 0xE5, CHR 0x88,
      CHR 0xB0] @
     '' revision '') @ show_int (hh_revision i) @ [CHR 0xEF, CHR 0xBC, CHR 0x9F])
            ([CHR 0xE5, CHR 0xB0, CHR 0x86, CHR 0xE5, CHR 0x88, CHR 0x9B, CHR 0xE5, CHR 0xBB,
      CHR 0xBA, CHR 0xE6, CHR 0x96, CHR 0xB0, CHR 0xE7, CHR 0x9A, CHR 0x84] @
     '' revision '' @
     [CHR 0xE5, CHR 0xB9, CHR 0xB6, CHR 0xE6, CHR 0x81, CHR 0xA2, CHR 0xE5, CHR 0xA4,
      CHR 0x8D, CHR 0xE8, CHR 0x87, CHR 0xB3, CHR 0xE6, CHR 0xAD, CHR 0xA4, CHR 0xE7,
      CHR 0x89, CHR 0x88, CHR 0xE6, CHR 0x9C, CHR 0xAC]) label off (Rollback r (Some (hh_revision i)))])]"

definition DescriptionsCompact :: "(string \<times> string) list \<Rightarrow> helm_action node" where
  "DescriptionsCompact items =
     El ''div'' [] (map (\<lambda>(label, value). El ''div'' [] [El ''div'' [] [Txt label], El ''div'' [] [Txt value]]) items)"

definition HistoryRollbackPanel ::
  "(string \<Rightarrow> string option) \<Rightarrow> hlist_data \<Rightarrow> string \<Rightarrow> helm_release option \<Rightarrow> bool \<Rightarrow> string \<Rightarrow> helm_action node" where
  "HistoryRollbackPanel date_s d clusterCode rec canRollback tab =
     (case rec of
        None \<Rightarrow> El ''div'' [] [Txt ([CHR 0xE8, CHR 0xAF, CHR 0xB7, CHR 0xE9, CHR 0x80, CHR 0x89, CHR 0xE6, CHR 0x8B,
      CHR 0xA9, CHR 0xE4, CHR 0xB8, CHR 0x80, CHR 0xE4, CHR 0xB8, CHR 0xAA] @
     '' Release'')]
      | Some r \<Rightarrow>
          El ''Tabs'' [Attr ''activeKey'' tab, On ''onChange'' ChooseTab]
            (shown_if (tab = ''history'')
               [El ''TabPane'' [Attr ''label'' [CHR 0xE4, CHR 0xBF, CHR 0xAE, CHR 0xE8, CHR 0xAE, CHR 0xA2, CHR 0xE5, CHR 0x8E,
      CHR 0x86, CHR 0xE5, CHR 0x8F, CHR 0xB2]]
                  [El ''ProTable'' [Flag ''loading'' (hd_historyLoading d)]
                     (El ''toolBar'' [] [El ''Button'' [On ''onClick'' RefreshHistory, Flag ''loading'' (hd_historyLoading d)]
                         [Txt [CHR 0xE5, CHR 0x88, CHR 0xB7, CHR 0xE6, CHR 0x96, CHR 0xB0]]] #
                      table_rows (history_columns date_s canRollback r)
                        (case hd_history d of None \<Rightarrow> [] | Some items \<Rightarrow> items))]] @
             shown_if (tab = ''output'')
               [El ''TabPane'' [Attr ''label'' (''Release '' @
     [CHR 0xE6, CHR 0xA6, CHR 0x82, CHR 0xE8, CHR 0xA6, CHR 0x81])]
                  [El ''Space'' []
                     [DescriptionsCompact (release_summary clusterCode r),
                      confirm_button (([CHR 0xE5, CHR 0x9B, CHR 0x9E, CHR 0xE6, CHR 0xBB, CHR 0x9A] @
     '' Release'' @
     [CHR 0xE3, CHR 0x80, CHR 0x8C]) @ hr_name r @ [CHR 0xE3, CHR 0x80, CHR 0x8D, CHR 0xE5, CHR 0x88, CHR 0xB0, CHR 0xE4, CHR 0xB8,
      CHR 0x8A, CHR 0xE4, CHR 0xB8, CHR 0x80, CHR 0xE7, CHR 0x89, CHR 0x88, CHR 0xE6,
      CHR 0x9C, CHR 0xAC, CHR 0xEF, CHR 0xBC, CHR 0x9F])
                        ([CHR 0xE5, CHR 0xB0, CHR 0x86, CHR 0xE5, CHR 0x88, CHR 0x9B, CHR 0xE5, CHR 0xBB,
      CHR 0xBA, CHR 0xE6, CHR 0x96, CHR 0xB0, CHR 0xE7, CHR 0x9A, CHR 0x84] @
     '' revision '' @
     [CHR 0xE5, CHR 0xB9, CHR 0xB6, CHR 0xE6, CHR 0x81, CHR 0xA2, CHR 0xE5, CHR 0xA4,
      CHR 0x8D, CHR 0xE8, CHR 0x87, CHR 0xB3, CHR 0xE4, CHR 0xB8, CHR 0x8A, CHR 0xE4,
      CHR 0xB8, CHR 0x80, CHR 0xE7, CHR 0x89, CHR 0x88, CHR 0xE6, CHR 0x9C, CHR 0xAC]) [CHR 0xE5, CHR 0x9B, CHR 0x9E, CHR 0xE6, CHR 0xBB, CHR 0x9A, CHR 0xE5, CHR 0x88,
      CHR 0xB0, CHR 0xE4, CHR 0xB8, CHR 0x8A, CHR 0xE4, CHR 0xB8, CHR 0x80, CHR 0xE7,
      CHR 0x89, CHR 0x88, CHR 0xE6, CHR 0x9C, CHR 0xAC] (\<not> canRollback) (Rollback r None)]]]))"

definition history_drawer ::
  "(string \<Rightarrow> string option) \<Rightarrow> helm_perms \<Rightarrow> hlist_data \<Rightarrow> helm_state \<Rightarrow> helm_action node" where
  "history_drawer date_s p d s =
     El ''Drawer'' [Flag ''open'' (hz_historyOpen s), On ''onClose'' CloseHistory]
       [El ''title'' []
          [El ''Space'' []
             (El ''span'' [] [Txt (''Release '' @
     [CHR 0xE5, CHR 0x8E, CHR 0x86, CHR 0xE5, CHR 0x8F, CHR 0xB2] @
     '' / '' @
     [CHR 0xE5, CHR 0x9B, CHR 0x9E, CHR 0xE6, CHR 0xBB, CHR 0x9A])] #
              (case hz_historyRecord s of
                 None \<Rightarrow> []
               | Some r \<Rightarrow> [El ''Tag'' [Attr ''color'' ''blue''] [Txt (''ns: '' @ hr_namespace r)],
                            El ''Tag'' [Attr ''color'' ''purple''] [Txt (hr_name r)]]))],
        HistoryRollbackPanel date_s d (or_str (hl_clusterCode (hz_page s)) []) (hz_historyRecord s)
          (hp_rollback p) (hz_tab s)]"

record helm_formats =
  hf_date :: "string \<Rightarrow> string option"
  hf_date_s :: "string \<Rightarrow> string option"
  hf_ago :: "string \<Rightarrow> string"

definition helm_view :: "helm_formats \<Rightarrow> helm_perms \<Rightarrow> hlist_data \<Rightarrow> helm_call list \<Rightarrow> helm_state \<Rightarrow> helm_action node" where
  "helm_view F p d flight s =
     El ''PageContainer'' []
       [El ''Space'' [] [helm_toolbar p d (hz_page s), releases_table (hf_date F) (hf_ago F) p d (hz_page s)],
        install_drawer_view d flight s,
        history_drawer (hf_date_s F) p d s]"

subsection \<open>What the actions and the replies do\<close>

definition helm_act ::
  "helm_perms \<Rightarrow> (string \<Rightarrow> string option) \<Rightarrow> helm_action \<Rightarrow> event \<Rightarrow> hlist_data \<Rightarrow> helm_state
    \<Rightarrow> helm_state \<times> helm_call page_effect list" where
  "helm_act p get a x d s =
     (case a of
        ChooseCluster \<Rightarrow>
          (case helm_change_cluster (text_arg x) (hz_page s) of (pg, sel) \<Rightarrow>
             (s\<lparr>hz_page := pg\<rparr>, case sel of None \<Rightarrow> [] | Some c \<Rightarrow> [PSelectCluster (Some c)]))
      | ChooseNamespace \<Rightarrow> (s\<lparr>hz_page := helm_change_namespace (text_arg x) (hz_page s)\<rparr>, [])
      | ReloadReleases \<Rightarrow> (s, [PRefetch])
      | OpenInstall \<Rightarrow>
          (case openInstallDrawer p get (hz_page s) (hz_install s) of (dr, es) \<Rightarrow> (s\<lparr>hz_install := dr\<rparr>, reported es))
      | CloseInstall \<Rightarrow> (s\<lparr>hz_install := (hz_install s)\<lparr>id_open := False\<rparr>\<rparr>, [])
      | SubmitInstall \<Rightarrow>
          (s, start_call (CallInstall (hz_page s) (hz_install s)) (snd (handleInstallConfirm (hz_page s) (hz_install s) False)))
      | EditValues \<Rightarrow>
          (s\<lparr>hz_install := (hz_install s)\<lparr>id_form := (id_form (hz_install s))\<lparr>if_values :=
               Some (case text_arg x of None \<Rightarrow> [] | Some t \<Rightarrow> t)\<rparr>\<rparr>\<rparr>, [])
      | OpenHistory r \<Rightarrow>
          (case openHistoryDrawer p r (hz_historyRecord s) of (rec, es) \<Rightarrow>
             (if hp_view p then s\<lparr>hz_historyRecord := rec, hz_historyOpen := True, hz_tab := (if hz_historyOpen s then hz_tab s else ''history'')\<rparr>
              else s, reported es))
      | CloseHistory \<Rightarrow> (s\<lparr>hz_historyOpen := False, hz_historyRecord := None\<rparr>, [])
      | ChooseTab \<Rightarrow> (s\<lparr>hz_tab := or_str (text_arg x) ''history''\<rparr>, [])
      | RefreshHistory \<Rightarrow> (s, [PRefetch])
      | Rollback r n \<Rightarrow>
          (s, start_call (CallRollback (hz_page s) r n) (helm_handleRollback p (hz_page s) r n False))
      | Uninstall r \<Rightarrow> (s, start_call (CallUninstall (hz_page s) r) (handleUninstall p (hz_page s) r False)))"

definition helm_reply :: "helm_perms \<Rightarrow> helm_call \<Rightarrow> bool \<Rightarrow> helm_state \<Rightarrow> helm_state \<times> helm_call page_effect list" where
  "helm_reply p c ok s =
     (case c of
        CallInstall pg dr \<Rightarrow>
          (if ok \<and> \<not> if_dry_run (id_form dr) then s\<lparr>hz_install := (hz_install s)\<lparr>id_open := False\<rparr>\<rparr> else s,
           reported (snd (handleInstallConfirm pg dr ok)))
      | CallUninstall pg r \<Rightarrow> (s, reported (handleUninstall p pg r ok))
      | CallRollback pg r n \<Rightarrow> (s, reported (helm_handleRollback p pg r n ok)))"

text \<open>
  The three effects after a render: two correct the selection, the third opens the drawer when the
  cluster of the render is a new one. All of them see the values of the render.
\<close>

definition helm_commit ::
  "helm_perms \<Rightarrow> (string \<Rightarrow> string option) \<Rightarrow> hlist_data \<Rightarrow> helm_state \<Rightarrow> helm_state \<times> helm_call page_effect list" where
  "helm_commit p get d s =
     (let pg = hz_page s;
          dr = (if hz_seen s = Some (hl_clusterCode pg) then (hz_install s, [])
                else auto_open_effect p get pg (hz_install s))
      in (s\<lparr>hz_page := helm_namespace_effect (hd_full d) (hd_namespaces d) (helm_cluster_effect (hd_selected d) pg),
            hz_install := fst dr, hz_seen := Some (hl_clusterCode pg)\<rparr>, reported (snd dr)))"

definition helm_typed :: "helm_state \<Rightarrow> helm_state \<Rightarrow> bool" where
  "helm_typed s s' \<longleftrightarrow>
     id_open (hz_install s) \<and> s' = s\<lparr>hz_install := (hz_install s)\<lparr>id_form := id_form (hz_install s')\<rparr>\<rparr>"

definition helm_releases_page ::
  "helm_formats \<Rightarrow> (string \<Rightarrow> string option) \<Rightarrow> string option \<Rightarrow> current_user option
    \<Rightarrow> (hlist_data, helm_state, helm_action, helm_call, bool) machine" where
  "helm_releases_page F get selected u =
     (let p = helm_list_perms u
      in \<lparr>pg_start = helm_start selected, pg_view = helm_view F p, pg_act = helm_act p get,
          pg_reply = helm_reply p, pg_commit = helm_commit p get, pg_typed = helm_typed\<rparr>)"

subsection \<open>What the page offers\<close>

definition helm_offer_ok :: "helm_perms \<Rightarrow> helm_call list \<Rightarrow> helm_state \<Rightarrow> helm_action \<Rightarrow> bool" where
  "helm_offer_ok p flight s a \<longleftrightarrow>
     (case a of
        Rollback r n \<Rightarrow> hp_rollback p \<and> (\<forall>k. n = Some k \<longrightarrow> hr_revision r \<noteq> show_int k)
      | Uninstall r \<Rightarrow> hp_uninstall p
      | SubmitInstall \<Rightarrow> id_open (hz_install s) \<and> filter is_CallInstall flight = []
      | _ \<Rightarrow> True)"

lemma confirm_button_offers [offer_simps]: "offers_only P (confirm_button t ds l off a) = (off \<or> P a)"
  by (auto simp: confirm_button_def offer_simps)

lemma plain_cells_offer [offer_simps]:
  "list_all (offers_only P) (helm_status_view st)" "list_all (offers_only P) (chart_view c v)"
  "list_all (offers_only P) (cluster_tag cl)" "list_all (offers_only P) (updated_view date ago r)"
  "offers_only P (DescriptionsCompact items)"
  by (simp_all add: helm_status_view_def chart_view_def cluster_tag_def updated_view_def DescriptionsCompact_def
      offer_simps case_prod_unfold split: option.split)

lemma releases_table_offers: "offers_only (helm_offer_ok p flight s) (releases_table date ago p d pg)"
  by (simp add: releases_table_def release_columns_def release_actions_view_def helm_offer_ok_def offer_simps
      split: prod.split)

lemma helm_toolbar_offers: "offers_only (helm_offer_ok p flight s) (helm_toolbar p d pg)"
  by (simp add: helm_toolbar_def helm_offer_ok_def offer_simps)

lemma install_drawer_offers: "offers_only (helm_offer_ok p flight s) (install_drawer_view d flight s)"
  by (auto simp: install_drawer_view_def install_form_view_def helm_offer_ok_def offer_simps
      intro: not_list_ex_filter)

lemma history_columns_offer [offer_simps]:
  "list_all (\<lambda>c. list_all (offers_only (helm_offer_ok p flight s)) (snd c i)) (history_columns date_s (hp_rollback p) r)"
  by (auto simp: history_columns_def history_action_def helm_offer_ok_def offer_simps case_prod_unfold Let_def)

lemma history_drawer_offers: "offers_only (helm_offer_ok p flight s) (history_drawer date_s p d s)"
  by (simp add: history_drawer_def HistoryRollbackPanel_def offer_simps split: option.split)
    (simp add: helm_offer_ok_def)

lemma helm_offered: "a \<in> set (acts (helm_view F p d flight s)) \<Longrightarrow> helm_offer_ok p flight s a"
  by (rule offers_onlyD [rotated], assumption)
    (simp add: helm_view_def offer_simps releases_table_offers helm_toolbar_offers install_drawer_offers
      history_drawer_offers)

subsection \<open>Properties of the runs\<close>

definition helm_call_ok :: "helm_perms \<Rightarrow> helm_call \<Rightarrow> bool" where
  "helm_call_ok p c \<longleftrightarrow>
     (case c of
        CallInstall pg dr \<Rightarrow> hp_install p \<and> truthy (hl_clusterCode pg) \<and> install_valid (id_form dr)
      | CallUninstall pg r \<Rightarrow> hp_uninstall p \<and> truthy (hl_clusterCode pg)
      | CallRollback pg r n \<Rightarrow>
          hp_rollback p \<and> truthy (hl_clusterCode pg) \<and> (\<forall>k. n = Some k \<longrightarrow> hr_revision r \<noteq> show_int k))"

definition drawer_granted :: "helm_perms \<Rightarrow> helm_state \<Rightarrow> bool" where
  "drawer_granted p s \<longleftrightarrow> (id_open (hz_install s) \<longrightarrow> hp_install p)"

lemma openInstallDrawer_granted:
  "id_open (fst (openInstallDrawer p get pg dr)) \<Longrightarrow> id_open dr \<or> hp_install p"
  by (auto simp: openInstallDrawer_def split: if_splits)

lemma helm_act_sends:
  "drawer_granted p s \<Longrightarrow> helm_offer_ok p flight s a \<Longrightarrow> c \<in> set (sends (snd (helm_act p get a x d s)))
    \<Longrightarrow> helm_call_ok p c"
  by (cases a)
    (auto simp: helm_act_def helm_call_ok_def helm_offer_ok_def drawer_granted_def handleInstallConfirm_def
      handleUninstall_def helm_handleRollback_def Let_def split: option.splits if_splits prod.splits)

lemma helm_act_one:
  "length (sends (snd (helm_act p get a x d s))) \<le> 1"
  "filter is_CallInstall (sends (snd (helm_act p get a x d s))) \<noteq> [] \<Longrightarrow> a = SubmitInstall"
  by (cases a; auto simp: helm_act_def handleInstallConfirm_def handleUninstall_def helm_handleRollback_def
      Let_def split: option.splits if_splits prod.splits)+

lemma helm_act_granted: "drawer_granted p s \<Longrightarrow> drawer_granted p (fst (helm_act p get a x d s))"
proof (cases a)
  case OpenInstall
  then show "drawer_granted p s \<Longrightarrow> ?thesis"
    using openInstallDrawer_granted [of p get "hz_page s" "hz_install s"]
    by (auto simp: helm_act_def drawer_granted_def split: prod.split)
qed (auto simp: helm_act_def drawer_granted_def split: prod.split)

lemma helm_reply_granted: "drawer_granted p s \<Longrightarrow> drawer_granted p (fst (helm_reply p c ok s))"
  by (cases c) (auto simp: helm_reply_def drawer_granted_def)

lemma helm_reply_quiet: "sends (snd (helm_reply p c ok s)) = []"
  by (cases c) (simp_all add: helm_reply_def)

lemma helm_commit_granted:
  "drawer_granted p s \<Longrightarrow> drawer_granted p (fst (helm_commit p get d s))" "sends (snd (helm_commit p get d s)) = []"
  by (auto simp: helm_commit_def drawer_granted_def auto_open_effect_def Let_def
      dest: openInstallDrawer_granted split: if_splits)

lemma helm_typed_granted: "drawer_granted p s \<Longrightarrow> helm_typed s s' \<Longrightarrow> drawer_granted p s'"
  unfolding helm_typed_def drawer_granted_def by (elim conjE, drule arg_cong [where f = hz_install]) simp

lemma helm_start_granted: "drawer_granted p (helm_start selected)"
  by (simp add: helm_start_def drawer_granted_def)

lemmas helm_steps = helm_start_granted helm_act_granted helm_reply_granted helm_reply_quiet helm_commit_granted

interpretation helm_machine: guarded_page "helm_releases_page F get selected u" "drawer_granted (helm_list_perms u)"
  "helm_call_ok (helm_list_perms u)"
  by unfold_locales
    (auto simp: helm_releases_page_def Let_def helm_steps intro: helm_typed_granted
      dest: helm_offered helm_act_sends)

interpretation helm_install_once: single_submit "helm_releases_page F get selected u"
  "drawer_granted (helm_list_perms u)" "helm_call_ok (helm_list_perms u)" is_CallInstall
  by unfold_locales
    (auto simp: helm_releases_page_def Let_def helm_act_one(1) [simplified] helm_offer_ok_def
      dest!: helm_act_one(2) helm_offered)

text \<open>
  C21. Whatever happens on the Helm page, in any order: releases are installed, removed and rolled back
  only by users with the permission of that action and on a chosen cluster. The installation is
  guarded although its submission does not ask again, because the drawer opens, by button or by
  link, for users with the permission only; it is sent with its required fields and not twice at a
  time. A rollback to a revision is never sent for the revision that the release is at, as the page
  shows it.
\<close>

theorem helm_run_safe:
  assumes "page_reach (helm_releases_page F get selected u) s flight tr"
  shows "(\<forall>c \<in> set (sends tr). helm_call_ok (helm_list_perms u) c)
    \<and> (id_open (hz_install s) \<longrightarrow> hasPerm u ''helm:install'')
    \<and> length (filter is_CallInstall flight) \<le> 1"
  using helm_machine.sent_permitted [OF assms] helm_machine.reach_inv [OF assms]
    helm_install_once.at_most_one_in_flight [OF assms]
  by (auto simp: drawer_granted_def helm_list_perms_def)

definition demo_helm_data :: hlist_data where
  "demo_helm_data = \<lparr>hd_clusters = None, hd_selected = None, hd_namespaces = [], hd_full = True, hd_releases = None,
     hd_fetching = False, hd_history = None, hd_historyLoading = False\<rparr>"

definition demo_installer :: "current_user option" where
  "demo_installer = Some (demo_user [''helm:install''])"

lemma demo_installer_can: "hp_install (helm_list_perms demo_installer)"
  by (simp add: helm_list_perms_def demo_installer_def hasPerm_def demo_user_def user_perms_def isPlatformAdmin_def)

definition demo_helm_formats :: helm_formats where
  "demo_helm_formats = \<lparr>hf_date = (\<lambda>_. None), hf_date_s = (\<lambda>_. None), hf_ago = (\<lambda>t. t)\<rparr>"

text \<open>A run: the link opens the drawer, the user enters a name and submits.\<close>

definition demo_link :: "string \<Rightarrow> string option" where
  "demo_link k = (if k = ''chart_ref'' then Some ''bitnami/redis'' else None)"

definition demo_opened :: helm_state where
  "demo_opened = fst (helm_commit (helm_list_perms demo_installer) demo_link demo_helm_data (helm_start (Some ''prod'')))"

definition demo_named :: helm_state where
  "demo_named = demo_opened\<lparr>hz_install := (hz_install demo_opened)\<lparr>id_form :=
     (id_form (hz_install demo_opened))\<lparr>if_release_name := Some ''cache''\<rparr>\<rparr>\<rparr>"

lemma demo_opened_fields:
  "id_open (hz_install demo_opened)" "hz_page demo_opened = helm_init (Some ''prod'')"
  "if_namespace (id_form (hz_install demo_opened)) = Some ''default''"
  "if_chart_ref (id_form (hz_install demo_opened)) = Some ''bitnami/redis''"
  by (simp_all add: demo_opened_def helm_commit_def helm_start_def helm_init_def auto_open_effect_def
      openInstallDrawer_def demo_installer_can demo_link_def demo_helm_data_def helm_cluster_effect_def
      helm_namespace_effect_def Let_def)

lemma demo_install_reach:
  "page_reach (helm_releases_page demo_helm_formats demo_link (Some ''prod'') demo_installer) demo_named
     [CallInstall (hz_page demo_named) (hz_install demo_named)]
     [PSend (CallInstall (hz_page demo_named) (hz_install demo_named))]"
proof -
  let ?p = "helm_releases_page demo_helm_formats demo_link (Some ''prod'') demo_installer"
  let ?call = "CallInstall (hz_page demo_named) (hz_install demo_named)"
  have start: "page_reach ?p (helm_start (Some ''prod'')) [] []"
    using page_reach.start [of ?p] by (simp add: helm_releases_page_def Let_def)
  have "snd (helm_commit (helm_list_perms demo_installer) demo_link demo_helm_data (helm_start (Some ''prod''))) = []"
    by (simp add: helm_commit_def helm_start_def auto_open_effect_def openInstallDrawer_def helm_init_def
        demo_installer_can demo_link_def reported_def Let_def)
  then have "page_reach ?p demo_opened ([] @ sends []) ([] @ [])"
    using page_reach.commit [OF start, of demo_helm_data demo_opened "[]"]
    by (simp add: helm_releases_page_def demo_opened_def Let_def prod_eq_iff)
  then have opened: "page_reach ?p demo_opened [] []" by simp
  then have named: "page_reach ?p demo_named [] []"
    by (rule page_reach.typed) (simp add: helm_releases_page_def helm_typed_def demo_named_def demo_opened_fields Let_def)
  have "page_reach ?p demo_named ([] @ sends [PSend ?call]) ([] @ [PSend ?call])"
  proof (rule page_reach.act [OF named, of SubmitInstall demo_helm_data NoArg])
    show "SubmitInstall \<in> set (acts (pg_view ?p demo_helm_data [] demo_named))"
      by (simp add: helm_releases_page_def helm_view_def install_drawer_view_def demo_named_def demo_opened_fields
          view_simps Let_def)
    show "pg_act ?p SubmitInstall NoArg demo_helm_data demo_named = (demo_named, [PSend ?call])"
      by (simp add: helm_releases_page_def helm_act_def handleInstallConfirm_def install_valid_def demo_named_def
          demo_opened_fields helm_init_def start_call_def try_send_def Let_def)
  qed
  then show ?thesis by simp
qed

theorem helm_run_safe_witness:
  "helm_call_ok (helm_list_perms demo_installer) (CallInstall (hz_page demo_named) (hz_install demo_named))"
  using helm_run_safe [OF demo_install_reach] by simp

end
