(* ===== verification/BackupView.thy ===== *)
theory BackupView
  imports View BackupList
begin

section \<open>The page of backups as a machine\<close>

text \<open>
  What \<open>pages/backups/list.tsx\<close> renders and the runs of the page. A backup is restored in a dialog
  that stays on the backup it was opened for; that this backup was complete and a single object is
  an invariant. The data hold the live progress by task; the texts of the search form are those of
  its fields, the status one of its type. \<open>fmt\<close> and \<open>fmt_short\<close> are formats of dayjs.
\<close>

record backups_data =
  bd_backups :: "(backup list \<times> int) option"
  bd_fetching :: bool
  bd_clusters :: "(string \<times> string) list"
  bd_live :: "(string \<times> task_progress) list"

datatype backups_call =
    is_CallRestore: CallRestore restore_dialog
  | CallDownload backup
  | CallDelete backup

record backups_state =
  bz_filters :: list_backups_params
  bz_restore :: restore_dialog

datatype backups_action =
    OpenRestore backup | DownloadBackup backup | OpenVersions backup | RemoveBackup backup
  | SubmitSearch | ResetSearch | ReloadBackups | NewBackup | ChangeBackupPage
  | CancelRestore | ConfirmRestore

definition backups_start :: "(string \<Rightarrow> string option) \<Rightarrow> backups_state" where
  "backups_start get =
     \<lparr>bz_filters = backup_list_init get,
      bz_restore = \<lparr>rd_open = False, rd_record = None,
        rd_form = \<lparr>rf_targetCluster = None, rf_targetNamespace = None, rf_mode = None\<rparr>\<rparr>\<rparr>"

subsection \<open>What is rendered\<close>

definition tag_view :: "string \<times> string \<Rightarrow> 'a node" where
  "tag_view t = El ''Tag'' [Attr ''color'' (fst t)] [Txt (snd t)]"

definition status_view :: "status_cell \<Rightarrow> backups_action node list" where
  "status_view c =
     [El ''Space'' []
        (tag_view (st_color c, st_label c) #
         (case st_percent c of
            None \<Rightarrow> []
          | Some n \<Rightarrow> [El ''Progress'' [Attr ''percent'' (show_int n), Attr ''status'' ''active''] []]) @
         (case st_message c of None \<Rightarrow> [] | Some m \<Rightarrow> [El ''div'' [] [Txt m]]) @
         (case st_error c of None \<Rightarrow> [] | Some e \<Rightarrow> [El ''div'' [] [Txt e]]))]"

definition backup_actions_view :: "backup_perms \<Rightarrow> backup \<Rightarrow> backups_action node list" where
  "backup_actions_view p r =
     (case row_disabled p r of (noRestore, noDownload, noVersions, noDelete) \<Rightarrow>
        [El ''Space'' []
           [El ''Button'' [On ''onClick'' (OpenRestore r), Flag ''disabled'' noRestore] [Txt [CHR 0xE6, CHR 0x81, CHR 0xA2, CHR 0xE5, CHR 0xA4, CHR 0x8D]],
            El ''Button'' [On ''onClick'' (DownloadBackup r), Flag ''disabled'' noDownload] [Txt [CHR 0xE4, CHR 0xB8, CHR 0x8B, CHR 0xE8, CHR 0xBD, CHR 0xBD]],
            El ''Button'' [On ''onClick'' (OpenVersions r), Flag ''disabled'' noVersions] [Txt [CHR 0xE8, CHR 0xB5, CHR 0x84, CHR 0xE6, CHR 0xBA, CHR 0x90, CHR 0xE7, CHR 0x89,
      CHR 0x88, CHR 0xE6, CHR 0x9C, CHR 0xAC]],
            El ''Popconfirm'' [Attr ''title'' (delete_title r), Attr ''description'' [CHR 0xE5, CHR 0x88, CHR 0xA0, CHR 0xE9, CHR 0x99, CHR 0xA4, CHR 0xE5, CHR 0x90,
      CHR 0x8E, CHR 0xE5, CHR 0xA4, CHR 0x87, CHR 0xE4, CHR 0xBB, CHR 0xBD, CHR 0xE6,
      CHR 0x96, CHR 0x87, CHR 0xE4, CHR 0xBB, CHR 0xB6, CHR 0xE4, CHR 0xB9, CHR 0x9F,
      CHR 0xE5, CHR 0xB0, CHR 0x86, CHR 0xE8, CHR 0xA2, CHR 0xAB, CHR 0xE6, CHR 0xB8,
      CHR 0x85, CHR 0xE7, CHR 0x90, CHR 0x86]]
              [El ''okButton'' [Flag ''disabled'' noDelete, On ''onConfirm'' (RemoveBackup r)] [],
               El ''Button'' [Flag ''disabled'' noDelete] [Txt [CHR 0xE5, CHR 0x88, CHR 0xA0, CHR 0xE9, CHR 0x99, CHR 0xA4]]]]])"

definition backup_columns ::
  "(string \<Rightarrow> string) \<Rightarrow> (string \<Rightarrow> string) \<Rightarrow> backup_perms \<Rightarrow> (string \<times> task_progress) list
    \<Rightarrow> (string \<times> (backup \<Rightarrow> backups_action node list)) list" where
  "backup_columns fmt fmt_short p by_task =
     [([CHR 0xE5, CHR 0xA4, CHR 0x87, CHR 0xE4, CHR 0xBB, CHR 0xBD, CHR 0xE6, CHR 0x97,
      CHR 0xB6, CHR 0xE9, CHR 0x97, CHR 0xB4], \<lambda>r. [El ''Space'' [] (map (\<lambda>t. El ''span'' [] [Txt t]) (time_cell fmt fmt_short r))]),
      ([CHR 0xE6, CHR 0x93, CHR 0x8D, CHR 0xE4, CHR 0xBD, CHR 0x9C, CHR 0xE4, CHR 0xBA,
      CHR 0xBA], \<lambda>r. [Txt (or_str (bk_operator r) ''-'')]),
      ([CHR 0xE9, CHR 0x9B, CHR 0x86, CHR 0xE7, CHR 0xBE, CHR 0xA4], \<lambda>r. [tag_view (''blue'', bk_cluster_code r)]),
      ([CHR 0xE7, CHR 0xB1, CHR 0xBB, CHR 0xE5, CHR 0x9E, CHR 0x8B], \<lambda>r. [tag_view (task_type_cell r)]),
      ([CHR 0xE5, CHR 0xA4, CHR 0x87, CHR 0xE4, CHR 0xBB, CHR 0xBD, CHR 0xE6, CHR 0xA8,
      CHR 0xA1, CHR 0xE5, CHR 0xBC, CHR 0x8F], \<lambda>r. [tag_view (mode_cell r)]),
      ([CHR 0xE5, CHR 0x91, CHR 0xBD, CHR 0xE5, CHR 0x90, CHR 0x8D, CHR 0xE7, CHR 0xA9,
      CHR 0xBA, CHR 0xE9, CHR 0x97, CHR 0xB4], \<lambda>r.
         if truthy (bk_namespace r) \<and> starts_with (the (bk_namespace r)) ''multi:''
         then [tag_view (''geekblue'', namespace_cell r)]
         else if truthy (bk_namespace r) then [Txt (namespace_cell r)]
         else [El ''Tag'' [] [Txt (namespace_cell r)]]),
      (([CHR 0xE5, CHR 0xAF, CHR 0xB9, CHR 0xE8, CHR 0xB1, CHR 0xA1, CHR 0xE7, CHR 0xB1,
      CHR 0xBB, CHR 0xE5, CHR 0x9E, CHR 0x8B] @
     '' / '' @
     [CHR 0xE5, CHR 0x90, CHR 0x8D, CHR 0xE7, CHR 0xA7, CHR 0xB0]), \<lambda>r.
         [El ''Space'' [] (map (\<lambda>t. El ''span'' [] [Txt t]) (object_cell r))]),
      ([CHR 0xE5, CHR 0xAD, CHR 0x98, CHR 0xE5, CHR 0x82, CHR 0xA8, CHR 0xE7, CHR 0xB1,
      CHR 0xBB, CHR 0xE5, CHR 0x9E, CHR 0x8B], \<lambda>r. [tag_view (storage_color r, bk_storage_type r)]),
      ([CHR 0xE5, CHR 0xA4, CHR 0xA7, CHR 0xE5, CHR 0xB0, CHR 0x8F], \<lambda>r. [Txt (size_text (bk_size_bytes r))]),
      (([CHR 0xE7, CHR 0x8A, CHR 0xB6, CHR 0xE6, CHR 0x80, CHR 0x81] @
     ''/'' @
     [CHR 0xE8, CHR 0xBF, CHR 0x9B, CHR 0xE5, CHR 0xBA, CHR 0xA6]), \<lambda>r. status_view (row_status by_task r)),
      ([CHR 0xE6, CHR 0x93, CHR 0x8D, CHR 0xE4, CHR 0xBD, CHR 0x9C], backup_actions_view p)]"

definition backups_table ::
  "(string \<Rightarrow> string) \<Rightarrow> (string \<Rightarrow> string) \<Rightarrow> backup_perms \<Rightarrow> backups_data \<Rightarrow> list_backups_params
    \<Rightarrow> backups_action node" where
  "backups_table fmt fmt_short p d f =
     El ''ProTable'' [Flag ''loading'' (bd_fetching d), On ''onSubmit'' SubmitSearch, On ''onReset'' ResetSearch,
        On ''reload'' ReloadBackups]
       ([El ''headerTitle'' [] [El ''Space'' [] [El ''span'' [] [Txt [CHR 0xE5, CHR 0xA4, CHR 0x87, CHR 0xE4, CHR 0xBB, CHR 0xBD, CHR 0xE5, CHR 0x88,
      CHR 0x97, CHR 0xE8, CHR 0xA1, CHR 0xA8]]]],
         El ''search'' [Attr ''searchText'' [CHR 0xE6, CHR 0x90, CHR 0x9C, CHR 0xE7, CHR 0xB4, CHR 0xA2], Attr ''resetText'' [CHR 0xE9, CHR 0x87, CHR 0x8D, CHR 0xE7, CHR 0xBD, CHR 0xAE]] [],
         El ''toolBar'' []
           (El ''Button'' [On ''onClick'' ReloadBackups] [Txt [CHR 0xE5, CHR 0x88, CHR 0xB7, CHR 0xE6, CHR 0x96, CHR 0xB0]] #
            shown_if (bp_create p) [El ''Button'' [On ''onClick'' NewBackup] [Txt [CHR 0xE6, CHR 0x96, CHR 0xB0, CHR 0xE5, CHR 0xBB, CHR 0xBA, CHR 0xE5, CHR 0xA4,
      CHR 0x87, CHR 0xE4, CHR 0xBB, CHR 0xBD]]]),
         El ''pagination''
           [Attr ''current'' (or_num_str (lb_page f) ''1''), Attr ''pageSize'' (or_num_str (lb_size f) ''10''),
            Attr ''total'' (case bd_backups d of None \<Rightarrow> ''0'' | Some (_, n) \<Rightarrow> show_int n),
            On ''onChange'' ChangeBackupPage] []] @
        table_rows (backup_columns fmt fmt_short p (bd_live d)) (case bd_backups d of None \<Rightarrow> [] | Some (bs, _) \<Rightarrow> bs))"

definition restore_form_view :: "backups_data \<Rightarrow> backups_action node" where
  "restore_form_view d =
     El ''Form'' []
       [El ''Form.Item'' [Attr ''label'' [CHR 0xE7, CHR 0x9B, CHR 0xAE, CHR 0xE6, CHR 0xA0, CHR 0x87, CHR 0xE9, CHR 0x9B,
      CHR 0x86, CHR 0xE7, CHR 0xBE, CHR 0xA4], Attr ''name'' ''targetCluster'', Rules [required],
          Attr ''help'' [CHR 0xE5, CHR 0x8F, CHR 0xAF, CHR 0xE4, CHR 0xBB, CHR 0xA5, CHR 0xE6, CHR 0x81,
      CHR 0xA2, CHR 0xE5, CHR 0xA4, CHR 0x8D, CHR 0xE5, CHR 0x88, CHR 0xB0, CHR 0xE5,
      CHR 0xBD, CHR 0x93, CHR 0xE5, CHR 0x89, CHR 0x8D, CHR 0xE9, CHR 0x9B, CHR 0x86,
      CHR 0xE7, CHR 0xBE, CHR 0xA4, CHR 0xE6, CHR 0x88, CHR 0x96, CHR 0xE5, CHR 0x85,
      CHR 0xB6, CHR 0xE5, CHR 0xAE, CHR 0x83, CHR 0xE5, CHR 0xB7, CHR 0xB2, CHR 0xE5,
      CHR 0xAF, CHR 0xBC, CHR 0xE5, CHR 0x85, CHR 0xA5, CHR 0xE7, CHR 0x9A, CHR 0x84,
      CHR 0xE9, CHR 0x9B, CHR 0x86, CHR 0xE7, CHR 0xBE, CHR 0xA4]]
          [El ''Select'' [Attr ''placeholder'' [CHR 0xE8, CHR 0xAF, CHR 0xB7, CHR 0xE9, CHR 0x80, CHR 0x89, CHR 0xE6, CHR 0x8B,
      CHR 0xA9, CHR 0xE7, CHR 0x9B, CHR 0xAE, CHR 0xE6, CHR 0xA0, CHR 0x87, CHR 0xE9,
      CHR 0x9B, CHR 0x86, CHR 0xE7, CHR 0xBE, CHR 0xA4],
             Options (map (\<lambda>(c, n). (c, cluster_option_label n c)) (bd_clusters d))] []],
        El ''Form.Item'' [Attr ''label'' [CHR 0xE7, CHR 0x9B, CHR 0xAE, CHR 0xE6, CHR 0xA0, CHR 0x87, CHR 0xE5, CHR 0x91,
      CHR 0xBD, CHR 0xE5, CHR 0x90, CHR 0x8D, CHR 0xE7, CHR 0xA9, CHR 0xBA, CHR 0xE9,
      CHR 0x97, CHR 0xB4], Attr ''name'' ''targetNamespace'',
          Attr ''help'' [CHR 0xE7, CHR 0x95, CHR 0x99, CHR 0xE7, CHR 0xA9, CHR 0xBA, CHR 0xE5, CHR 0x88,
      CHR 0x99, CHR 0xE4, CHR 0xBD, CHR 0xBF, CHR 0xE7, CHR 0x94, CHR 0xA8, CHR 0xE5,
      CHR 0xA4, CHR 0x87, CHR 0xE4, CHR 0xBB, CHR 0xBD, CHR 0xE6, CHR 0x97, CHR 0xB6,
      CHR 0xE7, CHR 0x9A, CHR 0x84, CHR 0xE5, CHR 0x91, CHR 0xBD, CHR 0xE5, CHR 0x90,
      CHR 0x8D, CHR 0xE7, CHR 0xA9, CHR 0xBA, CHR 0xE9, CHR 0x97, CHR 0xB4, CHR 0xEF,
      CHR 0xBC, CHR 0x9B, CHR 0xE9, CHR 0x9B, CHR 0x86, CHR 0xE7, CHR 0xBE, CHR 0xA4,
      CHR 0xE7, CHR 0xBA, CHR 0xA7, CHR 0xE8, CHR 0xB5, CHR 0x84, CHR 0xE6, CHR 0xBA,
      CHR 0x90, CHR 0xE6, CHR 0x97, CHR 0xA0, CHR 0xE9, CHR 0x9C, CHR 0x80, CHR 0xE5,
      CHR 0xA1, CHR 0xAB, CHR 0xE5, CHR 0x86, CHR 0x99]]
          [El ''Input'' [Attr ''placeholder'' [CHR 0xE5, CHR 0x91, CHR 0xBD, CHR 0xE5, CHR 0x90, CHR 0x8D, CHR 0xE7, CHR 0xA9,
      CHR 0xBA, CHR 0xE9, CHR 0x97, CHR 0xB4, CHR 0xEF, CHR 0xBC, CHR 0x88, CHR 0xE5,
      CHR 0x8F, CHR 0xAF, CHR 0xE7, CHR 0x95, CHR 0x99, CHR 0xE7, CHR 0xA9, CHR 0xBA,
      CHR 0xEF, CHR 0xBC, CHR 0x89]] []],
        El ''Form.Item'' [Attr ''label'' [CHR 0xE6, CHR 0x81, CHR 0xA2, CHR 0xE5, CHR 0xA4, CHR 0x8D, CHR 0xE6, CHR 0xA8,
      CHR 0xA1, CHR 0xE5, CHR 0xBC, CHR 0x8F], Attr ''name'' ''mode'', Rules [required]]
          [El ''Select'' [Attr ''placeholder'' [CHR 0xE8, CHR 0xAF, CHR 0xB7, CHR 0xE9, CHR 0x80, CHR 0x89, CHR 0xE6, CHR 0x8B,
      CHR 0xA9, CHR 0xE6, CHR 0x81, CHR 0xA2, CHR 0xE5, CHR 0xA4, CHR 0x8D, CHR 0xE6,
      CHR 0xA8, CHR 0xA1, CHR 0xE5, CHR 0xBC, CHR 0x8F],
             Options [(''create-new'', ([CHR 0xE6, CHR 0x96, CHR 0xB0, CHR 0xE5, CHR 0xBB, CHR 0xBA, CHR 0xEF, CHR 0xBC,
      CHR 0x88] @
     ''create-new'' @
     [CHR 0xEF, CHR 0xBC, CHR 0x89])), (''overwrite'', ([CHR 0xE8, CHR 0xA6, CHR 0x86, CHR 0xE7, CHR 0x9B, CHR 0x96, CHR 0xEF, CHR 0xBC,
      CHR 0x88] @
     ''overwrite'' @
     [CHR 0xEF, CHR 0xBC, CHR 0x89]))]] []]]"

definition restore_dialog_view ::
  "backups_data \<Rightarrow> backups_call list \<Rightarrow> restore_dialog \<Rightarrow> backups_action node" where
  "restore_dialog_view d flight rd =
     El ''Modal'' [Flag ''open'' (rd_open rd), On ''onCancel'' CancelRestore]
       (El ''title'' []
          [El ''Space'' [] (El ''span'' [] [Txt [CHR 0xE6, CHR 0x81, CHR 0xA2, CHR 0xE5, CHR 0xA4, CHR 0x8D, CHR 0xE5, CHR 0xA4,
      CHR 0x87, CHR 0xE4, CHR 0xBB, CHR 0xBD]] #
             (case rd_record rd of None \<Rightarrow> [] | Some r \<Rightarrow> [tag_view (''blue'', ''#'' @ show_int (bk_id r))]))] #
        El ''Button'' [Flag ''loading'' (list_ex is_CallRestore flight), On ''onOk'' ConfirmRestore] [Txt [CHR 0xE7, CHR 0xA1, CHR 0xAE, CHR 0xE8, CHR 0xAE, CHR 0xA4, CHR 0xE6, CHR 0x81,
      CHR 0xA2, CHR 0xE5, CHR 0xA4, CHR 0x8D]] #
        (case rd_record rd of
           None \<Rightarrow> []
         | Some r \<Rightarrow>
             [El ''Space'' []
                [El ''Descriptions'' []
                   (map (\<lambda>(label, t). El ''Descriptions.Item'' [Attr ''label'' label] [Txt t])
                      (zip [[CHR 0xE9, CHR 0x9B, CHR 0x86, CHR 0xE7, CHR 0xBE, CHR 0xA4], [CHR 0xE5, CHR 0x91, CHR 0xBD, CHR 0xE5, CHR 0x90, CHR 0x8D, CHR 0xE7, CHR 0xA9,
      CHR 0xBA, CHR 0xE9, CHR 0x97, CHR 0xB4], ''Kind'', [CHR 0xE5, CHR 0xAF, CHR 0xB9, CHR 0xE8, CHR 0xB1, CHR 0xA1, CHR 0xE5, CHR 0x90,
      CHR 0x8D, CHR 0xE7, CHR 0xA7, CHR 0xB0], [CHR 0xE5, CHR 0xAD, CHR 0x98, CHR 0xE5, CHR 0x82, CHR 0xA8, CHR 0xE7, CHR 0xB1,
      CHR 0xBB, CHR 0xE5, CHR 0x9E, CHR 0x8B]] (restore_details r))),
                 restore_form_view d]]))"

definition backups_view ::
  "(string \<Rightarrow> string) \<Rightarrow> (string \<Rightarrow> string) \<Rightarrow> backup_perms \<Rightarrow> backups_data \<Rightarrow> backups_call list \<Rightarrow> backups_state
    \<Rightarrow> backups_action node" where
  "backups_view fmt fmt_short p d flight s =
     El ''PageContainer'' []
       [El ''Row'' []
          [El ''Col'' []
             [El ''Card'' []
                [El ''title'' [] [El ''Space'' [] [El ''span'' [] [Txt ([CHR 0xE5, CHR 0xA4, CHR 0x87, CHR 0xE4, CHR 0xBB, CHR 0xBD] @
     ''/'' @
     [CHR 0xE6, CHR 0x81, CHR 0xA2, CHR 0xE5, CHR 0xA4, CHR 0x8D, CHR 0xE5, CHR 0xAE,
      CHR 0x9E, CHR 0xE6, CHR 0x97, CHR 0xB6, CHR 0xE8, CHR 0xBF, CHR 0x9B, CHR 0xE5,
      CHR 0xBA, CHR 0xA6])]]],
                 El ''BackupProgressPanel'' [Flag ''compact'' True, Flag ''clearOnMount'' False] []]]],
        backups_table fmt fmt_short p d (bz_filters s),
        restore_dialog_view d flight (bz_restore s)]"

subsection \<open>What the actions and the replies do\<close>

definition read_status :: "string option \<Rightarrow> backup_status option" where
  "read_status v =
     (case v of None \<Rightarrow> None
      | Some t \<Rightarrow> find (\<lambda>st. show_backup_status st = t) [BsPending, BsRunning, BsSuccess, BsFailed, BsCancelled])"

definition backups_act ::
  "backup_perms \<Rightarrow> backups_action \<Rightarrow> event \<Rightarrow> backups_data \<Rightarrow> backups_state
    \<Rightarrow> backups_state \<times> backups_call page_effect list" where
  "backups_act p a x d s =
     (case a of
        OpenRestore r \<Rightarrow> (s\<lparr>bz_restore := handleOpenRestore p r (bz_restore s)\<rparr>, [])
      | DownloadBackup r \<Rightarrow> (s, start_call (CallDownload r) (backup_handleDownload p r False))
      | OpenVersions r \<Rightarrow> (s, [PNavigate (versions_url r)])
      | RemoveBackup r \<Rightarrow> (s, start_call (CallDelete r) (backup_confirm_delete p r False))
      | SubmitSearch \<Rightarrow>
          (case x of
             FormArg vs \<Rightarrow>
               (s\<lparr>bz_filters := backup_list_submit (map_of vs ''keyword'') (map_of vs ''cluster_code'')
                    (map_of vs ''backup_type'') (read_status (map_of vs ''status'')) (bz_filters s)\<rparr>, [])
           | _ \<Rightarrow> (s, []))
      | ResetSearch \<Rightarrow> (s\<lparr>bz_filters := backup_list_reset (bz_filters s)\<rparr>, [])
      | ReloadBackups \<Rightarrow> (s, [PRefetch])
      | NewBackup \<Rightarrow> (s, [PNavigate ''/backups/create''])
      | ChangeBackupPage \<Rightarrow>
          (case x of PageArg n sz \<Rightarrow> (s\<lparr>bz_filters := backup_list_page n sz (bz_filters s)\<rparr>, []) | _ \<Rightarrow> (s, []))
      | CancelRestore \<Rightarrow> (s\<lparr>bz_restore := (bz_restore s)\<lparr>rd_open := False\<rparr>\<rparr>, [])
      | ConfirmRestore \<Rightarrow>
          (s, start_call (CallRestore (bz_restore s)) (snd (handleConfirmRestore p (bz_restore s) None))))"

text \<open>The reply to a restoration is the number of its task; for the other calls only success counts.\<close>

definition backups_reply ::
  "backup_perms \<Rightarrow> backups_call \<Rightarrow> int option \<Rightarrow> backups_state \<Rightarrow> backups_state \<times> backups_call page_effect list" where
  "backups_reply p c result s =
     (case c of
        CallRestore rd \<Rightarrow>
          (if result \<noteq> None then s\<lparr>bz_restore := (bz_restore s)\<lparr>rd_open := False\<rparr>\<rparr> else s,
           reported (snd (handleConfirmRestore p rd result)))
      | CallDownload r \<Rightarrow> (s, reported (backup_handleDownload p r (result \<noteq> None)))
      | CallDelete r \<Rightarrow> (s, reported (backup_confirm_delete p r (result \<noteq> None))))"

definition backups_typed :: "backups_state \<Rightarrow> backups_state \<Rightarrow> bool" where
  "backups_typed s s' \<longleftrightarrow>
     rd_open (bz_restore s) \<and> s' = s\<lparr>bz_restore := (bz_restore s)\<lparr>rd_form := rd_form (bz_restore s')\<rparr>\<rparr>"

definition backups_page ::
  "(string \<Rightarrow> string) \<Rightarrow> (string \<Rightarrow> string) \<Rightarrow> (string \<Rightarrow> string option) \<Rightarrow> current_user option
    \<Rightarrow> (backups_data, backups_state, backups_action, backups_call, int option) machine" where
  "backups_page fmt fmt_short get u =
     (let p = backup_list_perms u
      in \<lparr>pg_start = backups_start get, pg_view = backups_view fmt fmt_short p, pg_act = backups_act p,
          pg_reply = backups_reply p, pg_commit = (\<lambda>d s. (s, [])), pg_typed = backups_typed\<rparr>)"

subsection \<open>What the page offers\<close>

definition backups_offer_ok :: "backup_perms \<Rightarrow> backups_call list \<Rightarrow> backups_action \<Rightarrow> bool" where
  "backups_offer_ok p flight a \<longleftrightarrow>
     (case a of
        OpenRestore r \<Rightarrow> bk_status r = BsSuccess \<and> \<not> is_batch_row r
      | DownloadBackup r \<Rightarrow> bk_status r = BsSuccess \<and> \<not> is_batch_row r
      | ConfirmRestore \<Rightarrow> filter is_CallRestore flight = []
      | _ \<Rightarrow> True)"

lemma tag_offers [offer_simps]: "offers_only P (tag_view t)"
  by (simp add: tag_view_def offer_simps)

lemma status_offers [offer_simps]: "list_all (offers_only P) (status_view c)"
  by (simp add: status_view_def offer_simps split: option.split)

lemma backup_actions_offer [offer_simps]:
  "list_all (offers_only (backups_offer_ok p flight)) (backup_actions_view p r)"
  by (simp add: backup_actions_view_def row_disabled_def backups_offer_ok_def offer_simps)

lemma backups_table_offers: "offers_only (backups_offer_ok p flight) (backups_table fmt fmt_short p d f)"
  by (simp add: backups_table_def backup_columns_def offer_simps)
    (simp add: backups_offer_ok_def)

lemma restore_dialog_offers: "offers_only (backups_offer_ok p flight) (restore_dialog_view d flight rd)"
  by (auto simp: restore_dialog_view_def restore_form_view_def backups_offer_ok_def offer_simps case_prod_unfold
      intro: not_list_ex_filter split: option.split)

lemma backups_offered: "a \<in> set (acts (backups_view fmt fmt_short p d flight s)) \<Longrightarrow> backups_offer_ok p flight a"
  by (rule offers_onlyD [rotated], assumption)
    (simp add: backups_view_def offer_simps backups_table_offers restore_dialog_offers)

subsection \<open>Properties of the runs\<close>

definition restorable :: "backup_perms \<Rightarrow> restore_dialog \<Rightarrow> bool" where
  "restorable p rd \<longleftrightarrow>
     (\<forall>r. rd_record rd = Some r \<longrightarrow> bp_restore p \<and> bk_status r = BsSuccess \<and> \<not> is_batch_row r)"

definition backups_call_ok :: "backup_perms \<Rightarrow> backups_call \<Rightarrow> bool" where
  "backups_call_ok p c \<longleftrightarrow>
     (case c of
        CallRestore rd \<Rightarrow>
          (\<exists>r. rd_record rd = Some r \<and> bp_restore p \<and> bk_status r = BsSuccess \<and> \<not> is_batch_row r)
          \<and> restore_form_valid (rd_form rd)
      | CallDownload r \<Rightarrow> bp_download p \<and> bk_status r = BsSuccess \<and> \<not> is_batch_row r
      | CallDelete r \<Rightarrow> bp_delete p)"

lemma backups_act_sends:
  "restorable p (bz_restore s) \<Longrightarrow> backups_offer_ok p flight a \<Longrightarrow> c \<in> set (sends (snd (backups_act p a x d s)))
    \<Longrightarrow> backups_call_ok p c"
  by (cases a)
    (auto simp: backups_act_def backups_call_ok_def backups_offer_ok_def restorable_def handleConfirmRestore_def
      backup_handleDownload_def backup_confirm_delete_def Let_def split: event.splits option.splits if_splits)

lemma backups_act_one:
  "length (sends (snd (backups_act p a x d s))) \<le> 1"
  "filter is_CallRestore (sends (snd (backups_act p a x d s))) \<noteq> [] \<Longrightarrow> a = ConfirmRestore"
  by (cases a; auto simp: backups_act_def handleConfirmRestore_def backup_handleDownload_def
      backup_confirm_delete_def Let_def split: event.splits option.splits if_splits)+

lemma backups_act_restorable:
  "restorable p (bz_restore s) \<Longrightarrow> backups_offer_ok p flight a \<Longrightarrow> restorable p (bz_restore (fst (backups_act p a x d s)))"
  by (cases a) (auto simp: backups_act_def backups_offer_ok_def restorable_def handleOpenRestore_def
      split: event.splits)

lemma backups_reply_restorable: "restorable p (bz_restore s) \<Longrightarrow> restorable p (bz_restore (fst (backups_reply p c r s)))"
  by (cases c) (auto simp: backups_reply_def restorable_def)

lemma backups_reply_quiet: "sends (snd (backups_reply p c r s)) = []"
  by (cases c) (simp_all add: backups_reply_def)

lemma backups_typed_restorable: "restorable p (bz_restore s) \<Longrightarrow> backups_typed s s' \<Longrightarrow> restorable p (bz_restore s')"
  unfolding backups_typed_def restorable_def by (elim conjE, drule arg_cong [where f = "\<lambda>s. rd_record (bz_restore s)"]) simp

lemma backups_start_restorable: "restorable p (bz_restore (backups_start get))"
  by (simp add: backups_start_def restorable_def)

lemmas backups_steps = backups_start_restorable backups_act_restorable backups_reply_restorable backups_reply_quiet

interpretation backups_machine: guarded_page "backups_page fmt fmt_short get u"
  "\<lambda>s. restorable (backup_list_perms u) (bz_restore s)" "backups_call_ok (backup_list_perms u)"
  by unfold_locales
    (auto simp: backups_page_def Let_def backups_steps intro: backups_typed_restorable
      dest: backups_offered backups_act_sends)

interpretation backups_restore_once: single_submit "backups_page fmt fmt_short get u"
  "\<lambda>s. restorable (backup_list_perms u) (bz_restore s)" "backups_call_ok (backup_list_perms u)" is_CallRestore
  by unfold_locales
    (auto simp: backups_page_def Let_def backups_act_one(1) [simplified] backups_offer_ok_def
      dest!: backups_act_one(2) backups_offered)

text \<open>
  C20. Whatever happens on the page of backups, in any order: a restoration is requested only of a
  successful backup of a single object, by a user who may restore, with a target cluster and a mode,
  and not twice at a time, although the dialog keeps its backup while the list changes under it; and
  only such backups are downloaded; deletions need their own permission.
\<close>

theorem backups_run_safe:
  assumes "page_reach (backups_page fmt fmt_short get u) s flight tr"
  shows "(\<forall>c \<in> set (sends tr). backups_call_ok (backup_list_perms u) c)
    \<and> length (filter is_CallRestore flight) \<le> 1"
  using backups_machine.sent_permitted [OF assms] backups_restore_once.at_most_one_in_flight [OF assms]
  by blast

definition demo_backup :: backup where
  "demo_backup = \<lparr>bk_id = 9, bk_cluster_code = ''prod'', bk_namespace = Some ''web'', bk_target_kind = Some ''ConfigMap'',
     bk_target_name = Some ''cfg'', bk_backup_type = ''single'', bk_storage_type = ''local'', bk_storage_path = None,
     bk_status = BsSuccess, bk_size_bytes = None, bk_operator = None, bk_operator_id = None, bk_started_at = None,
     bk_completed_at = None, bk_error_message = None, bk_object_count = None, bk_created_at = None,
     bk_updated_at = None\<rparr>"

definition demo_backups_data :: backups_data where
  "demo_backups_data = \<lparr>bd_backups = Some ([demo_backup], 1), bd_fetching = False, bd_clusters = [], bd_live = []\<rparr>"

definition demo_restorer :: "current_user option" where
  "demo_restorer = Some (demo_user [''backup:restore''])"

definition demo_restoring :: backups_state where
  "demo_restoring = (backups_start (\<lambda>_. None))\<lparr>bz_restore := handleOpenRestore (backup_list_perms demo_restorer)
     demo_backup (bz_restore (backups_start (\<lambda>_. None)))\<rparr>"

lemma demo_restorer_can: "bp_restore (backup_list_perms demo_restorer)"
  by (simp add: backup_list_perms_def demo_restorer_def hasPerm_def demo_user_def user_perms_def isPlatformAdmin_def)

lemma demo_restore_reach:
  "page_reach (backups_page fmt fmt_short (\<lambda>_. None) demo_restorer) demo_restoring
     [CallRestore (bz_restore demo_restoring)] [PSend (CallRestore (bz_restore demo_restoring))]"
proof -
  let ?p = "backups_page fmt fmt_short (\<lambda>_. None) demo_restorer"
  let ?call = "CallRestore (bz_restore demo_restoring)"
  have start: "page_reach ?p (backups_start (\<lambda>_. None)) [] []"
    using page_reach.start [of ?p] by (simp add: backups_page_def Let_def)
  have "page_reach ?p demo_restoring ([] @ sends []) ([] @ [])"
  proof (rule page_reach.act [OF start, of "OpenRestore demo_backup" demo_backups_data NoArg])
    show "OpenRestore demo_backup \<in> set (acts (pg_view ?p demo_backups_data [] (backups_start (\<lambda>_. None))))"
      by (simp add: backups_page_def backups_view_def backups_table_def backup_columns_def backup_actions_view_def
          row_disabled_def is_batch_row_def demo_backups_data_def demo_restorer_can demo_backup_def view_simps Let_def)
    show "pg_act ?p (OpenRestore demo_backup) NoArg demo_backups_data (backups_start (\<lambda>_. None)) = (demo_restoring, [])"
      by (simp add: backups_page_def backups_act_def demo_restoring_def Let_def)
  qed
  then have opened: "page_reach ?p demo_restoring [] []" by simp
  have "page_reach ?p demo_restoring ([] @ sends [PSend ?call]) ([] @ [PSend ?call])"
  proof (rule page_reach.act [OF opened, of ConfirmRestore demo_backups_data NoArg])
    show "ConfirmRestore \<in> set (acts (pg_view ?p demo_backups_data [] demo_restoring))"
      by (simp add: backups_page_def backups_view_def restore_dialog_view_def demo_restoring_def handleOpenRestore_def
          demo_restorer_can view_simps Let_def)
    show "pg_act ?p ConfirmRestore NoArg demo_backups_data demo_restoring = (demo_restoring, [PSend ?call])"
      by (simp add: backups_page_def backups_act_def handleConfirmRestore_def demo_restoring_def handleOpenRestore_def
          demo_restorer_can restore_form_valid_def demo_backup_def start_call_def Let_def)
  qed
  then show ?thesis by simp
qed

theorem backups_run_safe_witness:
  "backups_call_ok (backup_list_perms demo_restorer) (CallRestore (bz_restore demo_restoring))"
  using backups_run_safe [OF demo_restore_reach [of "\<lambda>t. t" "\<lambda>t. t"]] by simp

end
