(* ===== verification/AuditView.thy ===== *)
theory AuditView
  imports View AuditPage
begin

section \<open>The page of the audit log as a machine\<close>

text \<open>
  What \<open>pages/audit/list.tsx\<close> renders and the runs of the page. The page reads only; the form keeps
  what is typed apart from the filters of the query until it is submitted. \<open>fmt\<close> is dayjs,
  \<open>stringify\<close> is \<open>JSON.stringify\<close>.
\<close>

record audit_data =
  ad_logs :: "(audit_log list \<times> int) option"
  ad_fetching :: bool

record audit_state =
  az_filters :: list_audit_logs_params
  az_form :: audit_form
  az_detail :: "audit_log option"

datatype audit_action =
    ReloadAudit | SearchAudit | ResetAudit | ChangeAuditPage | ShowDetail audit_log | CloseDetail

definition audit_form_empty :: audit_form where
  "audit_form_empty =
     \<lparr>au_username = None, au_module = None, au_action = None, au_status = None, au_cluster_code = None,
      au_namespace = None, au_target_type = None, au_target_id = None, au_trace_id = None, au_time_range = None\<rparr>"

definition audit_start :: audit_state where
  "audit_start = \<lparr>az_filters = audit_init, az_form = audit_form_empty, az_detail = None\<rparr>"

subsection \<open>What is rendered\<close>

definition audit_user_view :: "audit_log \<Rightarrow> audit_action node list" where
  "audit_user_view r =
     (case audit_user_cell r of (tip, name) \<Rightarrow>
        [El ''Tooltip'' [Attr ''title'' tip] [El ''span'' [] [Txt name]]])"

definition audit_module_view :: "audit_log \<Rightarrow> audit_action node list" where
  "audit_module_view r =
     (case audit_module_cell r of (m, a, target) \<Rightarrow>
        [El ''Space'' []
           (El ''Space'' []
              [El ''Tag'' [Attr ''color'' ''geekblue''] [Txt m], El ''Tag'' [Attr ''color'' ''purple''] [Txt a]] #
            (case target of None \<Rightarrow> [] | Some t \<Rightarrow> [El ''Text'' [Attr ''type'' ''secondary''] [Txt t]]))])"

definition audit_request_view :: "audit_log \<Rightarrow> audit_action node list" where
  "audit_request_view r =
     (case audit_request_cell r of (verb, uri, place) \<Rightarrow>
        [El ''Space'' []
           (El ''Space'' []
              ((case verb of None \<Rightarrow> [] | Some (color, m) \<Rightarrow> [El ''Tag'' [Attr ''color'' color] [Txt m]]) @
               [El ''Text'' [Flag ''ellipsis'' True] [Txt uri]]) #
            (case place of None \<Rightarrow> [] | Some t \<Rightarrow> [El ''Text'' [Attr ''type'' ''secondary''] [Txt t]]))])"

definition tag_or_dash :: "(string \<times> string) option \<Rightarrow> audit_action node list" where
  "tag_or_dash v =
     (case v of None \<Rightarrow> [Txt ''-''] | Some (color, t) \<Rightarrow> [El ''Tag'' [Attr ''color'' color] [Txt t]])"

definition tip_text_view :: "audit_action attr list \<Rightarrow> string option \<Rightarrow> string \<Rightarrow> audit_action node list" where
  "tip_text_view attrs v t =
     (if truthy v then [El ''Tooltip'' [Attr ''title'' (the v)] [El ''Text'' attrs [Txt t]]] else [Txt ''-''])"

definition audit_columns :: "(string \<Rightarrow> string) \<Rightarrow> (string \<times> (audit_log \<Rightarrow> audit_action node list)) list" where
  "audit_columns fmt =
     [([CHR 0xE6, CHR 0x97, CHR 0xB6, CHR 0xE9, CHR 0x97, CHR 0xB4], \<lambda>r. [Txt (audit_time fmt r)]),
      ([CHR 0xE7, CHR 0x94, CHR 0xA8, CHR 0xE6, CHR 0x88, CHR 0xB7], audit_user_view),
      (([CHR 0xE6, CHR 0xA8, CHR 0xA1, CHR 0xE5, CHR 0x9D, CHR 0x97] @
     ''/'' @
     [CHR 0xE6, CHR 0x93, CHR 0x8D, CHR 0xE4, CHR 0xBD, CHR 0x9C]), audit_module_view),
      ([CHR 0xE8, CHR 0xAF, CHR 0xB7, CHR 0xE6, CHR 0xB1, CHR 0x82], audit_request_view),
      (([CHR 0xE5, CHR 0xAE, CHR 0xA2, CHR 0xE6, CHR 0x88, CHR 0xB7, CHR 0xE7, CHR 0xAB,
      CHR 0xAF] @
     '' IP''), \<lambda>r. [Txt (or_str (al_client_ip r) ''-'')]),
      ([CHR 0xE7, CHR 0x8A, CHR 0xB6, CHR 0xE6, CHR 0x80, CHR 0x81], \<lambda>r. tag_or_dash (Some (audit_status_tag (al_status r)))),
      ([CHR 0xE8, CHR 0x80, CHR 0x97, CHR 0xE6, CHR 0x97, CHR 0xB6], \<lambda>r. tag_or_dash (cost_cell (al_cost_ms r))),
      ([CHR 0xE5, CHR 0x93, CHR 0x8D, CHR 0xE5, CHR 0xBA, CHR 0x94, CHR 0xE7, CHR 0xA0,
      CHR 0x81], \<lambda>r. tag_or_dash (code_cell (al_response_code r))),
      ([CHR 0xE9, CHR 0x94, CHR 0x99, CHR 0xE8, CHR 0xAF, CHR 0xAF, CHR 0xE4, CHR 0xBF,
      CHR 0xA1, CHR 0xE6, CHR 0x81, CHR 0xAF], \<lambda>r. tip_text_view [Attr ''type'' ''danger'', Flag ''ellipsis'' True] (al_error_msg r)
         (or_str (al_error_msg r) [])),
      (''TraceID'', \<lambda>r. tip_text_view [Flag ''code'' True] (al_trace_id r) (trace_cell (al_trace_id r))),
      ([CHR 0xE6, CHR 0x93, CHR 0x8D, CHR 0xE4, CHR 0xBD, CHR 0x9C], \<lambda>r. [El ''Button'' [On ''onClick'' (ShowDetail r)] [Txt [CHR 0xE8, CHR 0xAF, CHR 0xA6, CHR 0xE6, CHR 0x83, CHR 0x85]]])]"

definition audit_field :: "string \<Rightarrow> string \<Rightarrow> string \<Rightarrow> audit_action node" where
  "audit_field name label placeholder =
     El ''Col'' []
       [El ''Form.Item'' [Attr ''name'' name, Attr ''label'' label]
          [El ''Input'' [Attr ''placeholder'' placeholder] []]]"

definition audit_filter_bar :: "audit_action node" where
  "audit_filter_bar =
     El ''Card'' []
       [El ''Form'' [On ''onFinish'' SearchAudit]
          [El ''Row'' []
             [audit_field ''username'' [CHR 0xE7, CHR 0x94, CHR 0xA8, CHR 0xE6, CHR 0x88, CHR 0xB7] [CHR 0xE7, CHR 0x94, CHR 0xA8, CHR 0xE6, CHR 0x88, CHR 0xB7, CHR 0xE5, CHR 0x90,
      CHR 0x8D],
              audit_field ''module'' [CHR 0xE6, CHR 0xA8, CHR 0xA1, CHR 0xE5, CHR 0x9D, CHR 0x97] ([CHR 0xE5, CHR 0xA6, CHR 0x82] @
     '' cluster/backup/resource''),
              audit_field ''action'' [CHR 0xE6, CHR 0x93, CHR 0x8D, CHR 0xE4, CHR 0xBD, CHR 0x9C] ([CHR 0xE5, CHR 0xA6, CHR 0x82] @
     '' create/update/delete''),
              audit_field ''status'' [CHR 0xE7, CHR 0x8A, CHR 0xB6, CHR 0xE6, CHR 0x80, CHR 0x81] ''success/failed/error'',
              audit_field ''cluster_code'' [CHR 0xE9, CHR 0x9B, CHR 0x86, CHR 0xE7, CHR 0xBE, CHR 0xA4] [CHR 0xE9, CHR 0x9B, CHR 0x86, CHR 0xE7, CHR 0xBE, CHR 0xA4, CHR 0xE7, CHR 0xBC,
      CHR 0x96, CHR 0xE7, CHR 0xA0, CHR 0x81],
              audit_field ''namespace'' [CHR 0xE5, CHR 0x91, CHR 0xBD, CHR 0xE5, CHR 0x90, CHR 0x8D, CHR 0xE7, CHR 0xA9,
      CHR 0xBA, CHR 0xE9, CHR 0x97, CHR 0xB4] ''namespace'',
              audit_field ''target_type'' [CHR 0xE7, CHR 0x9B, CHR 0xAE, CHR 0xE6, CHR 0xA0, CHR 0x87, CHR 0xE7, CHR 0xB1,
      CHR 0xBB, CHR 0xE5, CHR 0x9E, CHR 0x8B] ([CHR 0xE5, CHR 0xA6, CHR 0x82] @
     '' Cluster/Backup''),
              audit_field ''target_id'' ([CHR 0xE7, CHR 0x9B, CHR 0xAE, CHR 0xE6, CHR 0xA0, CHR 0x87] @
     ''ID'') ([CHR 0xE7, CHR 0x9B, CHR 0xAE, CHR 0xE6, CHR 0xA0, CHR 0x87, CHR 0xE5, CHR 0xAF,
      CHR 0xB9, CHR 0xE8, CHR 0xB1, CHR 0xA1] @
     '' ID''),
              audit_field ''trace_id'' ''TraceID'' ([CHR 0xE9, CHR 0x93, CHR 0xBE, CHR 0xE8, CHR 0xB7, CHR 0xAF, CHR 0xE8, CHR 0xBF,
      CHR 0xBD, CHR 0xE8, CHR 0xB8, CHR 0xAA] @
     '' ID''),
              El ''Col'' []
                [El ''Form.Item'' [Attr ''name'' ''time_range'', Attr ''label'' [CHR 0xE6, CHR 0x97, CHR 0xB6, CHR 0xE9, CHR 0x97, CHR 0xB4, CHR 0xE8, CHR 0x8C,
      CHR 0x83, CHR 0xE5, CHR 0x9B, CHR 0xB4]]
                   [El ''RangePicker'' [Flag ''showTime'' True, Attr ''format'' ''YYYY-MM-DD HH:mm:ss''] []]],
              El ''Col'' []
                [El ''Space'' []
                   [El ''Button'' [Attr ''htmlType'' ''submit''] [Txt [CHR 0xE6, CHR 0x9F, CHR 0xA5, CHR 0xE8, CHR 0xAF, CHR 0xA2]],
                    El ''Button'' [On ''onClick'' ResetAudit] [Txt [CHR 0xE9, CHR 0x87, CHR 0x8D, CHR 0xE7, CHR 0xBD, CHR 0xAE]]]]]]]"

definition audit_table :: "(string \<Rightarrow> string) \<Rightarrow> audit_data \<Rightarrow> list_audit_logs_params \<Rightarrow> audit_action node" where
  "audit_table fmt d f =
     El ''ProTable'' [Flag ''loading'' (ad_fetching d)]
       (El ''pagination''
          [Attr ''current'' (or_num_str (la_page f) ''1''), Attr ''pageSize'' (or_num_str (la_page_size f) ''10''),
           Attr ''total'' (case ad_logs d of None \<Rightarrow> ''0'' | Some (_, n) \<Rightarrow> show_int n),
           Attr ''showTotal'' (([CHR 0xE5, CHR 0x85, CHR 0xB1] @
     '' '') @ (case ad_logs d of None \<Rightarrow> ''0'' | Some (_, n) \<Rightarrow> show_int n) @ ('' '' @
     [CHR 0xE6, CHR 0x9D, CHR 0xA1])),
           On ''onChange'' ChangeAuditPage] [] #
        table_rows (audit_columns fmt) (case ad_logs d of None \<Rightarrow> [] | Some (ls, _) \<Rightarrow> ls))"

definition AuditDetailModal :: "(string \<Rightarrow> string) \<Rightarrow> (json \<Rightarrow> string) \<Rightarrow> audit_log \<Rightarrow> audit_action node" where
  "AuditDetailModal fmt stringify r =
     El ''Modal'' [Attr ''title'' [CHR 0xE5, CHR 0xAE, CHR 0xA1, CHR 0xE8, CHR 0xAE, CHR 0xA1, CHR 0xE6, CHR 0x97,
      CHR 0xA5, CHR 0xE5, CHR 0xBF, CHR 0x97, CHR 0xE8, CHR 0xAF, CHR 0xA6, CHR 0xE6,
      CHR 0x83, CHR 0x85], Flag ''open'' True, On ''onCancel'' CloseDetail,
        On ''onOk'' CloseDetail]
       [El ''Descriptions'' []
          (map (\<lambda>(label, t). El ''Descriptions.Item'' [Attr ''label'' label] [Txt t]) (audit_detail fmt stringify r))]"

definition audit_forbidden :: "audit_action node" where
  "audit_forbidden =
     El ''PageContainer'' []
       [El ''Card'' []
          [El ''Text'' [Attr ''type'' ''warning''] [Txt ([CHR 0xE6, CHR 0x82, CHR 0xA8, CHR 0xE6, CHR 0xB2, CHR 0xA1, CHR 0xE6, CHR 0x9C,
      CHR 0x89, CHR 0xE6, CHR 0x9F, CHR 0xA5, CHR 0xE7, CHR 0x9C, CHR 0x8B, CHR 0xE5,
      CHR 0xAE, CHR 0xA1, CHR 0xE8, CHR 0xAE, CHR 0xA1, CHR 0xE6, CHR 0x97, CHR 0xA5,
      CHR 0xE5, CHR 0xBF, CHR 0x97, CHR 0xE7, CHR 0x9A, CHR 0x84, CHR 0xE6, CHR 0x9D,
      CHR 0x83, CHR 0xE9, CHR 0x99, CHR 0x90, CHR 0xEF, CHR 0xBC, CHR 0x88] @
     ''audit:list'' @
     [CHR 0xEF, CHR 0xBC, CHR 0x89, CHR 0xE3, CHR 0x80, CHR 0x82])]]]"

definition audit_view ::
  "(string \<Rightarrow> string) \<Rightarrow> (json \<Rightarrow> string) \<Rightarrow> current_user option \<Rightarrow> audit_data \<Rightarrow> audit_state \<Rightarrow> audit_action node" where
  "audit_view fmt stringify u d s =
     (if \<not> hasPerm u ''audit:list'' then audit_forbidden
      else El ''PageContainer'' []
        ([El ''extra'' [] [El ''Button'' [Flag ''loading'' (ad_fetching d), On ''onClick'' ReloadAudit] [Txt [CHR 0xE5, CHR 0x88, CHR 0xB7, CHR 0xE6, CHR 0x96, CHR 0xB0]]],
          audit_filter_bar,
          audit_table fmt d (az_filters s)] @
         (case az_detail s of None \<Rightarrow> [] | Some r \<Rightarrow> [AuditDetailModal fmt stringify r])))"

subsection \<open>What the actions do\<close>

definition audit_act :: "audit_action \<Rightarrow> event \<Rightarrow> audit_data \<Rightarrow> audit_state \<Rightarrow> audit_state \<times> unit page_effect list" where
  "audit_act a x d s =
     (case a of
        ReloadAudit \<Rightarrow> (s, [PRefetch])
      | SearchAudit \<Rightarrow> (s\<lparr>az_filters := audit_handleSearch (az_form s) (az_filters s)\<rparr>, [])
      | ResetAudit \<Rightarrow> (s\<lparr>az_form := audit_form_empty, az_filters := audit_handleReset (az_filters s)\<rparr>, [])
      | ChangeAuditPage \<Rightarrow>
          (case x of PageArg p sz \<Rightarrow> (s\<lparr>az_filters := audit_handlePageChange p sz (az_filters s)\<rparr>, []) | _ \<Rightarrow> (s, []))
      | ShowDetail r \<Rightarrow> (s\<lparr>az_detail := Some r\<rparr>, [])
      | CloseDetail \<Rightarrow> (s\<lparr>az_detail := None\<rparr>, []))"

definition audit_page ::
  "(string \<Rightarrow> string) \<Rightarrow> (json \<Rightarrow> string) \<Rightarrow> current_user option
    \<Rightarrow> (audit_data, audit_state, audit_action, unit, unit) machine" where
  "audit_page fmt stringify u =
     \<lparr>pg_start = audit_start, pg_view = (\<lambda>d flight. audit_view fmt stringify u d), pg_act = audit_act,
      pg_reply = (\<lambda>c r s. (s, [])), pg_commit = (\<lambda>d s. (s, [])),
      pg_typed = (\<lambda>s s'. hasPerm u ''audit:list'' \<and> s' = s\<lparr>az_form := az_form s'\<rparr>)\<rparr>"

subsection \<open>Properties\<close>

text \<open>The dialog shows the log that was clicked, and the filters stay within the last search.\<close>

lemma audit_forbidden_acts: "acts audit_forbidden = []"
  by (simp add: audit_forbidden_def switched_off_def handlers_def)

lemma audit_offered: "a \<in> set (acts (audit_view fmt stringify u d s)) \<Longrightarrow> hasPerm u ''audit:list''"
  by (auto simp: audit_view_def audit_forbidden_acts split: if_splits)

lemma audit_act_quiet: "sends (snd (audit_act a x d s)) = []"
  by (simp add: audit_act_def split: audit_action.split event.split)

interpretation audit_machine: guarded_page "audit_page fmt stringify u"
  "\<lambda>s. hasPerm u ''audit:list'' \<or> s = audit_start" "\<lambda>c. False"
  by unfold_locales (auto simp: audit_page_def audit_act_quiet dest: audit_offered)

text \<open>The page sends no mutation, and without the permission nothing on it can be done.\<close>

lemma audit_reads_only:
  assumes "page_reach (audit_page fmt stringify u) s flight tr"
  shows "sends tr = [] \<and> (hasPerm u ''audit:list'' \<or> s = audit_start)"
  using audit_machine.sent_permitted [OF assms] audit_machine.reach_inv [OF assms]
  by (cases "sends tr") auto

text \<open>What is typed has no effect on the query before it is submitted; a reset clears both.\<close>

lemma typed_not_queried:
  "pg_typed (audit_page fmt stringify u) s s' \<Longrightarrow> az_filters s' = az_filters s"
  "fst (audit_act ResetAudit x d s) = audit_start\<lparr>az_detail := az_detail s\<rparr>"
  by (simp_all add: audit_page_def audit_act_def audit_start_def audit_handleReset_def)
    (elim conjE, drule arg_cong [where f = az_filters], simp)

end
