(* ===== verification/QuotaView.thy ===== *)
theory QuotaView
  imports View Quota JsSort
begin

section \<open>The quota page as a machine\<close>

text \<open>
  What \<open>pages/resources/quota.tsx\<close> renders and the runs of the page: the two lists, each with its
  drawer for a creation, and the page around them. The lists are mounted while a cluster is selected;
  when none is, they go with their state, and a reply to a request of an earlier mount finds no list
  to change. The cluster comes from the slice, with the namespaces and the items from the queries.
  A pane that was shown stays mounted behind the other one; the model offers the controls of both.
  \<open>ago\<close> is the time since a time stamp, in milliseconds.
\<close>

record quota_item =
  qi_name :: "string option"
  qi_namespace :: "string option"
  qi_created :: "string option"
  qi_hard :: "(string \<times> string) list"
  qi_used :: "(string \<times> string) list"
  qi_limits :: "limit_rule list"

record quota_data =
  qd_cluster :: "string option"
  qd_namespaces :: "string list"
  qd_items :: "quota_kind \<Rightarrow> quota_item list option"
  qd_fetching :: "quota_kind \<Rightarrow> bool"

datatype quota_call =
    CallCreate quota_kind nat string string
  | CallDelete quota_kind string "string option" "string option"

definition is_create_of :: "quota_kind \<Rightarrow> nat \<Rightarrow> quota_call \<Rightarrow> bool" where
  "is_create_of k n c \<longleftrightarrow> (case c of CallCreate k' n' cc y \<Rightarrow> k' = k \<and> n' = n | _ \<Rightarrow> False)"

record quota_state =
  qz_namespace :: string
  qz_tab :: string
  qz_mount :: nat
  qz_drawer :: "quota_kind \<Rightarrow> drawer_state"

datatype quota_action =
    ReloadList quota_kind | OpenCreate quota_kind | CloseCreate quota_kind | SubmitCreate quota_kind
  | RemoveItem quota_kind quota_item | PickNamespace | PickTab

definition lists_start :: "quota_kind \<Rightarrow> drawer_state" where
  "lists_start k = \<lparr>createOpen = False, createYaml = []\<rparr>"

definition quota_start :: quota_state where
  "quota_start = \<lparr>qz_namespace = ''default'', qz_tab = ''resourcequota'', qz_mount = 0, qz_drawer = lists_start\<rparr>"

subsection \<open>What is rendered\<close>

definition usage_view :: "quota_item \<Rightarrow> 'a node list" where
  "usage_view item =
     (case usage_rows (qi_hard item) (qi_used item) of
        None \<Rightarrow> [El ''Tag'' [] [Txt [CHR 0xE6, CHR 0x97, CHR 0xA0, CHR 0xE9, CHR 0x85, CHR 0x8D, CHR 0xE9, CHR 0xA2,
      CHR 0x9D, CHR 0xE9, CHR 0x99, CHR 0x90, CHR 0xE5, CHR 0x88, CHR 0xB6]]]
      | Some rows \<Rightarrow>
          [El ''Space'' []
             (map (\<lambda>r. El ''div'' []
                [El ''Tooltip'' [Attr ''title'' (ur_tooltip r)] [El ''span'' [] [Txt (ur_label r)]],
                 El ''Progress''
                   [Attr ''percent'' (js_int_text (ur_percent r)),
                    Attr ''strokeColor'' (ur_color r), Attr ''format'' (ur_text r)] []]) rows)])"

definition limits_view :: "quota_item \<Rightarrow> 'a node list" where
  "limits_view item =
     (if qi_limits item = [] then [El ''Tag'' [] [Txt [CHR 0xE6, CHR 0x97, CHR 0xA0, CHR 0xE9, CHR 0x99, CHR 0x90, CHR 0xE5, CHR 0x88,
      CHR 0xB6]]]
      else
        [El ''Space'' []
           (map (\<lambda>rule.
              case limit_card rule of (type, cols) \<Rightarrow>
                El ''Card'' []
                  [El ''title'' [] [El ''Tag'' [Attr ''color'' ''blue''] [Txt type]],
                   El ''Row'' []
                     (map (\<lambda>(f, tags). El ''Col'' []
                        [El ''span'' [] [Txt f],
                         El ''div'' [] (map (\<lambda>(color, t). El ''Tag'' [Attr ''color'' color] [Txt t]) tags)])
                      cols)])
            (qi_limits item))])"

definition quota_age :: "(string \<Rightarrow> int) \<Rightarrow> quota_item \<Rightarrow> string" where
  "quota_age ago item =
     age_text (if truthy (qi_created item) then Some (ago (the (qi_created item))) else None)"

definition delete_view :: "bool \<Rightarrow> quota_kind \<Rightarrow> quota_item \<Rightarrow> quota_action node list" where
  "delete_view canDelete k item =
     [El ''Popconfirm'' [Attr ''title'' (([CHR 0xE5, CHR 0x88, CHR 0xA0, CHR 0xE9, CHR 0x99, CHR 0xA4] @
     '' '') @ js_string (qi_name item) @ ''?''), On ''onConfirm'' (RemoveItem k item)]
        [El ''Button'' [Flag ''disabled'' (\<not> canDelete)] [Txt [CHR 0xE5, CHR 0x88, CHR 0xA0, CHR 0xE9, CHR 0x99, CHR 0xA4]]]]"

definition name_columns :: "(string \<times> (quota_item \<Rightarrow> quota_action node list)) list" where
  "name_columns =
     [([CHR 0xE5, CHR 0x90, CHR 0x8D, CHR 0xE7, CHR 0xA7, CHR 0xB0], \<lambda>item. [El ''span'' [] [Txt (or_str (qi_name item) ''-'')]]),
      ([CHR 0xE5, CHR 0x91, CHR 0xBD, CHR 0xE5, CHR 0x90, CHR 0x8D, CHR 0xE7, CHR 0xA9,
      CHR 0xBA, CHR 0xE9, CHR 0x97, CHR 0xB4], \<lambda>item. [Txt (or_str (qi_namespace item) ''-'')])]"

definition resource_quota_columns ::
  "(string \<Rightarrow> int) \<Rightarrow> bool \<Rightarrow> (string \<times> (quota_item \<Rightarrow> quota_action node list)) list" where
  "resource_quota_columns ago canDelete =
     name_columns @
     [([CHR 0xE8, CHR 0xB5, CHR 0x84, CHR 0xE6, CHR 0xBA, CHR 0x90, CHR 0xE4, CHR 0xBD,
      CHR 0xBF, CHR 0xE7, CHR 0x94, CHR 0xA8, CHR 0xE6, CHR 0x83, CHR 0x85, CHR 0xE5,
      CHR 0x86, CHR 0xB5], usage_view),
      (''Age'', \<lambda>item. [Txt (quota_age ago item)]),
      ([CHR 0xE6, CHR 0x93, CHR 0x8D, CHR 0xE4, CHR 0xBD, CHR 0x9C], delete_view canDelete ResourceQuotaKind)]"

definition limit_range_columns :: "bool \<Rightarrow> (string \<times> (quota_item \<Rightarrow> quota_action node list)) list" where
  "limit_range_columns canDelete =
     name_columns @
     [([CHR 0xE9, CHR 0x99, CHR 0x90, CHR 0xE5, CHR 0x88, CHR 0xB6, CHR 0xE8, CHR 0xA7,
      CHR 0x84, CHR 0xE5, CHR 0x88, CHR 0x99], limits_view),
      ([CHR 0xE6, CHR 0x93, CHR 0x8D, CHR 0xE4, CHR 0xBD, CHR 0x9C], delete_view canDelete LimitRangeKind)]"

definition list_table ::
  "quota_kind \<Rightarrow> string \<Rightarrow> bool \<Rightarrow> (string \<times> (quota_item \<Rightarrow> quota_action node list)) list \<Rightarrow> string \<Rightarrow> quota_data
    \<Rightarrow> string \<Rightarrow> quota_action node" where
  "list_table k create_text canCreate columns cc d ns =
     El ''ProTable'' [Flag ''loading'' (qd_fetching d k), Attr ''emptyText'' (list_empty_text k cc ns)]
       ([El ''headerTitle'' [] [Txt (kind_name k)],
         El ''toolBar'' []
           [El ''Button'' [On ''onClick'' (ReloadList k)] [Txt [CHR 0xE5, CHR 0x88, CHR 0xB7, CHR 0xE6, CHR 0x96, CHR 0xB0]],
            El ''Button'' [On ''onClick'' (OpenCreate k), Flag ''disabled'' (\<not> canCreate)] [Txt create_text]]] @
        table_rows columns (case qd_items d k of None \<Rightarrow> [] | Some items \<Rightarrow> items))"

definition quota_drawer :: "quota_kind \<Rightarrow> bool \<Rightarrow> drawer_state \<Rightarrow> quota_action node" where
  "quota_drawer k creating s =
     El ''Drawer'' [Attr ''title'' (([CHR 0xE5, CHR 0x88, CHR 0x9B, CHR 0xE5, CHR 0xBB, CHR 0xBA] @
     '' '') @ kind_name k), Flag ''open'' (createOpen s), On ''onClose'' (CloseCreate k)]
       [El ''extra'' []
          [El ''Space'' []
             [El ''Button'' [On ''onClick'' (CloseCreate k)] [Txt [CHR 0xE5, CHR 0x8F, CHR 0x96, CHR 0xE6, CHR 0xB6, CHR 0x88]],
              El ''Button'' [Flag ''loading'' creating, On ''onClick'' (SubmitCreate k)] [Txt [CHR 0xE6, CHR 0x8F, CHR 0x90, CHR 0xE4, CHR 0xBA, CHR 0xA4]]]],
        El ''div'' [] [El ''Editor'' [Attr ''defaultLanguage'' ''yaml'', Attr ''value'' (createYaml s)] []]]"

definition list_creating :: "quota_kind \<Rightarrow> quota_call list \<Rightarrow> quota_state \<Rightarrow> bool" where
  "list_creating k flight s = list_ex (is_create_of k (qz_mount s)) flight"

definition ResourceQuotaList ::
  "(string \<Rightarrow> int) \<Rightarrow> bool \<Rightarrow> bool \<Rightarrow> string \<Rightarrow> quota_data \<Rightarrow> quota_call list \<Rightarrow> quota_state \<Rightarrow> quota_action node list" where
  "ResourceQuotaList ago canCreate canDelete cc d flight s =
     [list_table ResourceQuotaKind [CHR 0xE5, CHR 0x88, CHR 0x9B, CHR 0xE5, CHR 0xBB, CHR 0xBA, CHR 0xE9, CHR 0x85,
      CHR 0x8D, CHR 0xE9, CHR 0xA2, CHR 0x9D] canCreate (resource_quota_columns ago canDelete) cc d (qz_namespace s),
      quota_drawer ResourceQuotaKind (list_creating ResourceQuotaKind flight s) (qz_drawer s ResourceQuotaKind)]"

definition LimitRangeList ::
  "bool \<Rightarrow> bool \<Rightarrow> string \<Rightarrow> quota_data \<Rightarrow> quota_call list \<Rightarrow> quota_state \<Rightarrow> quota_action node list" where
  "LimitRangeList canCreate canDelete cc d flight s =
     [list_table LimitRangeKind [CHR 0xE5, CHR 0x88, CHR 0x9B, CHR 0xE5, CHR 0xBB, CHR 0xBA, CHR 0xE9, CHR 0x99,
      CHR 0x90, CHR 0xE5, CHR 0x88, CHR 0xB6, CHR 0xE8, CHR 0xA7, CHR 0x84, CHR 0xE5,
      CHR 0x88, CHR 0x99] canCreate (limit_range_columns canDelete) cc d (qz_namespace s),
      quota_drawer LimitRangeKind (list_creating LimitRangeKind flight s) (qz_drawer s LimitRangeKind)]"

definition quota_view ::
  "(string \<Rightarrow> int) \<Rightarrow> bool \<times> bool \<times> bool \<Rightarrow> quota_data \<Rightarrow> quota_call list \<Rightarrow> quota_state \<Rightarrow> quota_action node" where
  "quota_view ago ps d flight s =
     (case ps of (canView, canCreate, canDelete) \<Rightarrow>
        El ''PageContainer'' []
          [El ''Space'' []
             [El ''Space'' []
                [El ''Select'' [Attr ''placeholder'' [CHR 0xE9, CHR 0x80, CHR 0x89, CHR 0xE6, CHR 0x8B, CHR 0xA9, CHR 0xE5, CHR 0x91,
      CHR 0xBD, CHR 0xE5, CHR 0x90, CHR 0x8D, CHR 0xE7, CHR 0xA9, CHR 0xBA, CHR 0xE9,
      CHR 0x97, CHR 0xB4], Attr ''value'' (qz_namespace s),
                   On ''onChange'' PickNamespace, Options (map (\<lambda>n. (n, n)) (qd_namespaces d))] [],
                 El ''Tag'' [Attr ''color'' ''blue''] [Txt (([CHR 0xE9, CHR 0x9B, CHR 0x86, CHR 0xE7, CHR 0xBE, CHR 0xA4] @
     '': '') @ or_str (qd_cluster d) [CHR 0xE6, CHR 0x9C, CHR 0xAA, CHR 0xE9, CHR 0x80, CHR 0x89, CHR 0xE6, CHR 0x8B,
      CHR 0xA9])]],
              if \<not> truthy (qd_cluster d) then El ''Empty'' [Attr ''description'' [CHR 0xE8, CHR 0xAF, CHR 0xB7, CHR 0xE5, CHR 0x85, CHR 0x88, CHR 0xE5, CHR 0x9C,
      CHR 0xA8, CHR 0xE9, CHR 0xA1, CHR 0xB6, CHR 0xE9, CHR 0x83, CHR 0xA8, CHR 0xE9,
      CHR 0x80, CHR 0x89, CHR 0xE6, CHR 0x8B, CHR 0xA9, CHR 0xE4, CHR 0xB8, CHR 0x80,
      CHR 0xE4, CHR 0xB8, CHR 0xAA, CHR 0xE9, CHR 0x9B, CHR 0x86, CHR 0xE7, CHR 0xBE,
      CHR 0xA4]] []
              else El ''Tabs'' [Attr ''activeKey'' (qz_tab s), On ''onChange'' PickTab]
                [El ''item'' [Attr ''key'' ''resourcequota'', Attr ''label'' ([CHR 0xE8, CHR 0xB5, CHR 0x84, CHR 0xE6, CHR 0xBA, CHR 0x90, CHR 0xE9, CHR 0x85,
      CHR 0x8D, CHR 0xE9, CHR 0xA2, CHR 0x9D] @
     '' (ResourceQuota)'')]
                   (ResourceQuotaList ago canCreate canDelete (the (qd_cluster d)) d flight s),
                 El ''item'' [Attr ''key'' ''limitrange'', Attr ''label'' ([CHR 0xE9, CHR 0x99, CHR 0x90, CHR 0xE5, CHR 0x88, CHR 0xB6, CHR 0xE8, CHR 0x8C,
      CHR 0x83, CHR 0xE5, CHR 0x9B, CHR 0xB4] @
     '' (LimitRange)'')]
                   (LimitRangeList canCreate canDelete (the (qd_cluster d)) d flight s)]]])"

subsection \<open>What the actions and the replies do\<close>

definition quota_effect :: "ui_effect \<Rightarrow> resource_mutation page_effect" where
  "quota_effect e =
     (case e of
        ToastError t \<Rightarrow> PToast ToastFail t
      | ToastSuccess t \<Rightarrow> PToast ToastOk t
      | Mutate m \<Rightarrow> PSend m
      | Refetch \<Rightarrow> PRefetch)"

definition put_drawer :: "quota_kind \<Rightarrow> drawer_state \<Rightarrow> quota_state \<Rightarrow> quota_state" where
  "put_drawer k dr s = s\<lparr>qz_drawer := (qz_drawer s)(k := dr)\<rparr>"

definition quota_act ::
  "bool \<times> bool \<times> bool \<Rightarrow> quota_action \<Rightarrow> event \<Rightarrow> quota_data \<Rightarrow> quota_state \<Rightarrow> quota_state \<times> quota_call page_effect list" where
  "quota_act ps a x d s =
     (let cc = or_str (qd_cluster d) []
      in case a of
        ReloadList k \<Rightarrow> (s, [PRefetch])
      | OpenCreate k \<Rightarrow> (put_drawer k (openCreate k (qz_namespace s) (qz_drawer s k)) s, [])
      | CloseCreate k \<Rightarrow> (put_drawer k ((qz_drawer s k)\<lparr>createOpen := False\<rparr>) s, [])
      | SubmitCreate k \<Rightarrow>
          (s, start_call (CallCreate k (qz_mount s) cc (createYaml (qz_drawer s k)))
                (map quota_effect (snd (handleCreate k cc False (qz_drawer s k)))))
      | RemoveItem k item \<Rightarrow>
          (s, start_call (CallDelete k cc (qi_namespace item) (qi_name item))
                (map quota_effect (deleteItem k cc (snd (snd ps)) (qi_namespace item) (qi_name item) False)))
      | PickNamespace \<Rightarrow> (s\<lparr>qz_namespace := text_or x (qz_namespace s)\<rparr>, [])
      | PickTab \<Rightarrow> (s\<lparr>qz_tab := text_or x (qz_tab s)\<rparr>, []))"

text \<open>A reply closes the drawer of its own list, whatever is open there by then.\<close>

definition quota_reply ::
  "bool \<times> bool \<times> bool \<Rightarrow> quota_call \<Rightarrow> bool \<Rightarrow> quota_state \<Rightarrow> quota_state \<times> quota_call page_effect list" where
  "quota_reply ps c ok s =
     (case c of
        CallCreate k n cc yaml \<Rightarrow>
          (case handleCreate k cc ok \<lparr>createOpen = createOpen (qz_drawer s k), createYaml = yaml\<rparr> of (dr, es) \<Rightarrow>
             (if n = qz_mount s then put_drawer k ((qz_drawer s k)\<lparr>createOpen := createOpen dr\<rparr>) s else s,
              reported (map quota_effect es)))
      | CallDelete k cc ns name \<Rightarrow>
          (s, reported (map quota_effect (deleteItem k cc (snd (snd ps)) ns name ok))))"

text \<open>The effect of the page, and the lists that unmount while no cluster is selected.\<close>

definition quota_commit :: "quota_data \<Rightarrow> quota_state \<Rightarrow> quota_state \<times> quota_call page_effect list" where
  "quota_commit d s =
     (let s1 = s\<lparr>qz_namespace := namespace_effect (qd_namespaces d) (qz_namespace s)\<rparr>
      in (if truthy (qd_cluster d) then s1 else s1\<lparr>qz_mount := Suc (qz_mount s), qz_drawer := lists_start\<rparr>, []))"

definition quota_typed :: "quota_state \<Rightarrow> quota_state \<Rightarrow> bool" where
  "quota_typed s s' \<longleftrightarrow>
     list_ex (\<lambda>k. createOpen (qz_drawer s k)
       \<and> s' = put_drawer k ((qz_drawer s k)\<lparr>createYaml := createYaml (qz_drawer s' k)\<rparr>) s)
       [ResourceQuotaKind, LimitRangeKind]"

definition quota_page ::
  "(string \<Rightarrow> int) \<Rightarrow> current_user option \<Rightarrow> (quota_data, quota_state, quota_action, quota_call, bool) machine" where
  "quota_page ago u =
     (let ps = quota_permissions u
      in \<lparr>pg_start = quota_start, pg_view = quota_view ago ps, pg_act = quota_act ps, pg_reply = quota_reply ps,
          pg_commit = quota_commit, pg_typed = quota_typed\<rparr>)"

subsection \<open>What the page offers\<close>

definition quota_offer_ok ::
  "bool \<times> bool \<times> bool \<Rightarrow> quota_data \<Rightarrow> quota_call list \<Rightarrow> quota_state \<Rightarrow> quota_action \<Rightarrow> bool" where
  "quota_offer_ok ps d flight s a \<longleftrightarrow>
     (case a of
        OpenCreate k \<Rightarrow> fst (snd ps) \<and> truthy (qd_cluster d)
      | SubmitCreate k \<Rightarrow>
          createOpen (qz_drawer s k) \<and> \<not> list_creating k flight s \<and> truthy (qd_cluster d)
      | RemoveItem k item \<Rightarrow> truthy (qd_cluster d)
      | _ \<Rightarrow> True)"

lemma usage_offers [offer_simps]: "list_all (offers_only P) (usage_view item)"
  by (simp add: usage_view_def offer_simps split: option.split)

lemma limits_offers [offer_simps]: "list_all (offers_only P) (limits_view item)"
  by (simp add: limits_view_def offer_simps case_prod_unfold)

lemma list_table_offers:
  assumes "truthy (qd_cluster d)" and "columns = resource_quota_columns ago (snd (snd ps)) \<or> columns = limit_range_columns (snd (snd ps))"
  shows "offers_only (quota_offer_ok ps d flight s) (list_table k t (fst (snd ps)) columns cc d ns)"
  using assms
  by (auto simp: list_table_def resource_quota_columns_def limit_range_columns_def name_columns_def delete_view_def
      quota_offer_ok_def offer_simps)

lemma quota_drawer_offers:
  "truthy (qd_cluster d) \<Longrightarrow>
   offers_only (quota_offer_ok ps d flight s) (quota_drawer k (list_creating k flight s) (qz_drawer s k))"
  by (auto simp: quota_drawer_def quota_offer_ok_def offer_simps)

lemma picks_offered: "quota_offer_ok ps d flight s PickNamespace" "quota_offer_ok ps d flight s PickTab"
  by (simp_all add: quota_offer_ok_def)

lemma quota_view_offers: "offers_only (quota_offer_ok (v, c, r) d flight s) (quota_view ago (v, c, r) d flight s)"
  using list_table_offers [of d _ ago "(v, c, r)" flight s] quota_drawer_offers [of d "(v, c, r)" flight s]
  by (auto simp: quota_view_def ResourceQuotaList_def LimitRangeList_def picks_offered offer_simps)

lemma quota_offered: "a \<in> set (acts (quota_view ago ps d flight s)) \<Longrightarrow> quota_offer_ok ps d flight s a"
  by (cases ps) (auto intro: offers_onlyD [OF quota_view_offers])

subsection \<open>Properties of the runs\<close>

text \<open>An open drawer is one that the permission opened.\<close>

definition drawers_permitted :: "bool \<times> bool \<times> bool \<Rightarrow> quota_state \<Rightarrow> bool" where
  "drawers_permitted ps s \<longleftrightarrow> (fst (snd ps) \<or> \<not> createOpen (qz_drawer s ResourceQuotaKind) \<and> \<not> createOpen (qz_drawer s LimitRangeKind))"

definition quota_call_ok :: "bool \<times> bool \<times> bool \<Rightarrow> quota_call \<Rightarrow> bool" where
  "quota_call_ok ps c \<longleftrightarrow>
     (case c of
        CallCreate k n cc yaml \<Rightarrow> fst (snd ps) \<and> cc \<noteq> [] \<and> js_trim yaml \<noteq> []
      | CallDelete k cc ns name \<Rightarrow> snd (snd ps) \<and> cc \<noteq> [])"

lemma drawers_permittedD: "drawers_permitted ps s \<Longrightarrow> createOpen (qz_drawer s k) \<Longrightarrow> fst (snd ps)"
  by (cases k) (auto simp: drawers_permitted_def)

lemma put_drawer_permitted:
  "drawers_permitted ps s \<Longrightarrow> (createOpen dr \<Longrightarrow> createOpen (qz_drawer s k) \<or> fst (snd ps))
    \<Longrightarrow> drawers_permitted ps (put_drawer k dr s)"
  by (cases k) (auto simp: drawers_permitted_def put_drawer_def)

lemma quota_act_sends:
  "drawers_permitted ps s \<Longrightarrow> quota_offer_ok ps d flight s a \<Longrightarrow> c \<in> set (sends (snd (quota_act ps a x d s)))
    \<Longrightarrow> quota_call_ok ps c"
  by (cases a)
    (auto simp: quota_act_def quota_offer_ok_def quota_call_ok_def handleCreate_def deleteItem_def quota_effect_def
      truthy_def or_str_def dest: drawers_permittedD split: if_splits option.splits)

lemma quota_act_one:
  "length (sends (snd (quota_act ps a x d s))) \<le> 1"
  "quota_offer_ok ps d flight s a \<Longrightarrow> filter (is_create_of k n) (sends (snd (quota_act ps a x d s))) \<noteq> []
    \<Longrightarrow> filter (is_create_of k n) flight = []"
  by (cases a; auto simp: quota_act_def handleCreate_def deleteItem_def quota_effect_def is_create_of_def
      quota_offer_ok_def list_creating_def list_ex_iff filter_empty_conv Let_def split: if_splits)+

lemma quota_act_permitted:
  "drawers_permitted ps s \<Longrightarrow> quota_offer_ok ps d flight s a \<Longrightarrow> drawers_permitted ps (fst (quota_act ps a x d s))"
  by (cases a)
    (auto simp: quota_act_def quota_offer_ok_def openCreate_def Let_def intro: put_drawer_permitted,
     auto simp: drawers_permitted_def)

lemma quota_reply_permitted: "drawers_permitted ps s \<Longrightarrow> drawers_permitted ps (fst (quota_reply ps c ok s))"
  by (cases c) (auto simp: quota_reply_def handleCreate_def Let_def intro!: put_drawer_permitted)

lemma quota_reply_quiet: "sends (snd (quota_reply ps c ok s)) = []"
  by (cases c) (simp_all add: quota_reply_def case_prod_unfold)

lemma quota_commit_permitted: "drawers_permitted ps s \<Longrightarrow> drawers_permitted ps (fst (quota_commit d s))"
  by (auto simp: quota_commit_def drawers_permitted_def lists_start_def Let_def)

lemma quota_commit_quiet: "sends (snd (quota_commit d s)) = []"
  by (simp add: quota_commit_def Let_def)

lemma quota_start_permitted: "drawers_permitted ps quota_start"
  by (simp add: drawers_permitted_def quota_start_def lists_start_def)

lemma quota_typed_permitted: "drawers_permitted ps s \<Longrightarrow> quota_typed s s' \<Longrightarrow> drawers_permitted ps s'"
  unfolding quota_typed_def by (simp, elim disjE conjE; erule ssubst; intro put_drawer_permitted) simp_all

lemmas quota_steps =
  quota_act_permitted quota_reply_permitted quota_reply_quiet quota_commit_permitted quota_typed_permitted
  quota_commit_quiet quota_start_permitted

interpretation quota_machine: guarded_page "quota_page ago u"
  "drawers_permitted (quota_permissions u)" "quota_call_ok (quota_permissions u)"
  by unfold_locales
    (auto simp: quota_page_def Let_def quota_steps dest: quota_offered quota_act_sends)

interpretation quota_create_once: single_submit "quota_page ago u"
  "drawers_permitted (quota_permissions u)" "quota_call_ok (quota_permissions u)" "is_create_of k n"
  by unfold_locales
    (auto simp: quota_page_def Let_def quota_act_one(1) [simplified] dest!: quota_offered dest: quota_act_one(2))

text \<open>
  C23. Whatever happens on the quota page, in any order, with the cluster changed under it: an object
  is created only by a user who may create, in a selected cluster, from a text that is not blank, and
  each mounted list has at most one creation in flight; deletions need their own permission.
\<close>

theorem quota_run_safe:
  assumes "page_reach (quota_page ago u) s flight tr"
  shows "(\<forall>c \<in> set (sends tr). quota_call_ok (quota_permissions u) c)
    \<and> length (filter (is_create_of k n) flight) \<le> 1"
  using quota_machine.sent_permitted [OF assms] quota_create_once.at_most_one_in_flight [OF assms]
  by blast

definition demo_quota_data :: quota_data where
  "demo_quota_data = \<lparr>qd_cluster = Some ''prod'', qd_namespaces = [''default''], qd_items = (\<lambda>_. None), qd_fetching = (\<lambda>_. False)\<rparr>"

definition demo_creator :: "current_user option" where
  "demo_creator = Some (demo_user [''resource:create''])"

definition demo_yaml_state :: quota_state where
  "demo_yaml_state = put_drawer LimitRangeKind \<lparr>createOpen = True, createYaml = ''kind: LimitRange''\<rparr> quota_start"

lemma demo_creator_can: "quota_permissions demo_creator = (False, True, False)"
  by (simp add: quota_permissions_def demo_creator_def hasPerm_def demo_user_def user_perms_def isPlatformAdmin_def)

lemma demo_create_reach:
  defines "call \<equiv> CallCreate LimitRangeKind 0 ''prod'' ''kind: LimitRange''"
  shows "page_reach (quota_page ago demo_creator) demo_yaml_state [call] [PSend call]"
proof -
  let ?p = "quota_page ago demo_creator"
  let ?opened = "put_drawer LimitRangeKind (openCreate LimitRangeKind ''default'' (lists_start LimitRangeKind)) quota_start"
  have start: "page_reach ?p quota_start [] []"
    using page_reach.start [of ?p] by (simp add: quota_page_def Let_def)
  have "page_reach ?p ?opened ([] @ sends []) ([] @ [])"
  proof (rule page_reach.act [OF start, of "OpenCreate LimitRangeKind" demo_quota_data NoArg])
    show "OpenCreate LimitRangeKind \<in> set (acts (pg_view ?p demo_quota_data [] quota_start))"
      by (simp add: quota_page_def quota_view_def LimitRangeList_def list_table_def demo_quota_data_def
          demo_creator_can view_simps Let_def)
    show "pg_act ?p (OpenCreate LimitRangeKind) NoArg demo_quota_data quota_start = (?opened, [])"
      by (simp add: quota_page_def quota_act_def quota_start_def Let_def)
  qed
  moreover have "pg_typed ?p ?opened demo_yaml_state"
    by (simp add: quota_page_def quota_typed_def demo_yaml_state_def put_drawer_def openCreate_def
        lists_start_def Let_def)
  ultimately have "page_reach ?p demo_yaml_state [] []"
    by (simp add: page_reach.typed)
  from page_reach.act [OF this, of "SubmitCreate LimitRangeKind" demo_quota_data NoArg]
  have "page_reach ?p demo_yaml_state ([] @ sends [PSend call]) ([] @ [PSend call])"
    if "SubmitCreate LimitRangeKind \<in> set (acts (pg_view ?p demo_quota_data [] demo_yaml_state))"
      "pg_act ?p (SubmitCreate LimitRangeKind) NoArg demo_quota_data demo_yaml_state = (demo_yaml_state, [PSend call])"
    using that by simp
  moreover have "SubmitCreate LimitRangeKind \<in> set (acts (pg_view ?p demo_quota_data [] demo_yaml_state))"
    by (simp add: quota_page_def quota_view_def LimitRangeList_def quota_drawer_def demo_quota_data_def list_creating_def
        demo_yaml_state_def put_drawer_def view_simps demo_creator_can Let_def)
  moreover have "js_trim ''kind: LimitRange'' \<noteq> []" by code_simp
  then have "pg_act ?p (SubmitCreate LimitRangeKind) NoArg demo_quota_data demo_yaml_state = (demo_yaml_state, [PSend call])"
    by (simp add: quota_page_def quota_act_def handleCreate_def demo_yaml_state_def put_drawer_def quota_start_def
        demo_quota_data_def quota_effect_def start_call_def call_def or_str_def Let_def)
  ultimately show ?thesis by simp
qed

theorem quota_run_safe_witness:
  "quota_call_ok (quota_permissions demo_creator) (CallCreate LimitRangeKind 0 ''prod'' ''kind: LimitRange'')"
  using quota_run_safe [OF demo_create_reach [of "\<lambda>_. 0"]] by simp

text \<open>
  A creation that succeeds late closes the drawer, even when it was opened again, with another text,
  since the request was sent; the namespace effect ends on a namespace of the listing.
\<close>

lemma late_create_reply:
  "createOpen (qz_drawer (fst (quota_reply ps (CallCreate k (qz_mount s) cc yaml) True s)) k) = (js_trim yaml = [] \<and> createOpen (qz_drawer s k))"
  by (auto simp: quota_reply_def handleCreate_def put_drawer_def Let_def)

lemma quota_namespace_listed:
  "qd_namespaces d \<noteq> [] \<Longrightarrow> qz_namespace (fst (quota_commit d s)) \<in> set (qd_namespaces d)"
  by (simp add: quota_commit_def namespace_effect_valid Let_def)

end
