(* ===== verification/ResourceView.thy ===== *)
theory ResourceView
  imports View ResourceList
begin

section \<open>The list of resources as a machine\<close>

text \<open>
  What \<open>pages/resources/list.tsx\<close> renders and the runs of the page. A confirmation dialog is a value
  of its own (\<open>Modal.confirm\<close>): it keeps the row, the kind and the cluster of the click and outlives
  a change of the page; its button leaves it while the deletion runs. The data are the query string
  and the slice, the namespaces of the cluster and the reply to the list query. \<open>ago\<close> and \<open>fmt\<close> are
  dayjs.
\<close>

record resources_data =
  sd_param :: "string option"
  sd_selected :: "string option"
  sd_namespaces :: "string list option"
  sd_reply :: "resource list_reply option"
  sd_fetching :: bool

datatype resources_call =
    is_CallCreateResource: CallCreateResource res_page string
  | CallDeleteResource res_page resource

record resources_state =
  sz_page :: res_page
  sz_create :: create_drawer
  sz_pod :: "pod_drawer option"
  sz_confirms :: "(res_page \<times> resource) list"

datatype resources_action =
    ChangeTab | SelectNamespace | ChangeKind | SearchKeyword | ReloadResources | OpenCreateResource
  | CancelCreateResource | SubmitResource | OpenYaml resource string | OpenLogs resource | CloseLogs
  | BackupRow resource | AskDelete resource | ConfirmDelete "res_page \<times> resource"
  | CancelDelete "res_page \<times> resource" | ChangeResourcePage

definition resources_start :: "(string \<Rightarrow> string option) \<Rightarrow> string option \<Rightarrow> resources_state" where
  "resources_start get selected =
     \<lparr>sz_page = res_list_init get selected, sz_create = \<lparr>cd_open = False, cd_yaml = []\<rparr>,
      sz_pod = None, sz_confirms = []\<rparr>"

definition page_scoped :: "res_page \<Rightarrow> bool" where
  "page_scoped s = snd (kindMeta s)"

definition page_namespaces :: "current_user option \<Rightarrow> resources_data \<Rightarrow> res_page \<Rightarrow> allowed_namespaces" where
  "page_namespaces u d s =
     useAllowedNamespaces (if page_scoped s then None else rl_clusterCode s) u (sd_namespaces d) (sd_fetching d)"

subsection \<open>What is rendered\<close>

definition resource_name_view ::
  "(string \<Rightarrow> string) \<Rightarrow> (string \<Rightarrow> string) \<Rightarrow> res_page \<Rightarrow> resource \<Rightarrow> resources_action node list" where
  "resource_name_view ago fmt s item =
     [El ''Space'' []
        (El ''a'' [On ''onClick'' (OpenYaml item [])] [Txt (fst (res_cells ago fmt (rl_kind s) item))] #
         shown_if (label_tags item \<noteq> [])
           [El ''Space'' [] (map (\<lambda>t. El ''Tag'' [] [Txt t]) (label_tags item))])]"

definition resource_namespace_view :: "resource \<Rightarrow> resources_action node list" where
  "resource_namespace_view item =
     (if truthy (meta_text item ''namespace'') then [Txt (the (meta_text item ''namespace''))]
      else [El ''Tag'' [] [Txt [CHR 0xEF, CHR 0xBC, CHR 0x88, CHR 0xE9, CHR 0x9B, CHR 0x86, CHR 0xE7, CHR 0xBE,
      CHR 0xA4, CHR 0xE7, CHR 0xBA, CHR 0xA7, CHR 0xEF, CHR 0xBC, CHR 0x89]]])"

definition workload_view :: "res_page \<Rightarrow> resource \<Rightarrow> resources_action node list" where
  "workload_view s item =
     (let st = getWorkloadStatus (rl_kind s) item
      in [El ''Space'' []
            (El ''Tag'' [Attr ''color'' (wl_color st)] [Txt (wl_text st)] #
             shown_if (truthy (wl_extra st)) [El ''span'' [] [Txt (the (wl_extra st))]])])"

definition resource_age_view :: "(string \<Rightarrow> string) \<Rightarrow> (string \<Rightarrow> string) \<Rightarrow> resource \<Rightarrow> resources_action node list" where
  "resource_age_view ago fmt item =
     (let v = meta_text item ''creationTimestamp''
      in if \<not> truthy v then [Txt ''-'']
         else [El ''Space'' [] [El ''span'' [] [Txt (ago (the v))], El ''span'' [] [Txt (fmt (the v))]]])"

definition menu_entry :: "resource \<Rightarrow> string \<Rightarrow> string \<times> resources_action" where
  "menu_entry item key =
     (if key = ''yaml'' then (([CHR 0xE6, CHR 0x9F, CHR 0xA5, CHR 0xE7, CHR 0x9C, CHR 0x8B] @
     '' YAML''), OpenYaml item [])
      else if key = ''versions'' then ([CHR 0xE7, CHR 0x89, CHR 0x88, CHR 0xE6, CHR 0x9C, CHR 0xAC, CHR 0xE5, CHR 0x8E,
      CHR 0x86, CHR 0xE5, CHR 0x8F, CHR 0xB2], OpenYaml item ''?tab=versions'')
      else if key = ''logs'' then ([CHR 0xE6, CHR 0x9F, CHR 0xA5, CHR 0xE7, CHR 0x9C, CHR 0x8B, CHR 0xE6, CHR 0x97,
      CHR 0xA5, CHR 0xE5, CHR 0xBF, CHR 0x97], OpenLogs item)
      else if key = ''backup'' then ([CHR 0xE5, CHR 0xA4, CHR 0x87, CHR 0xE4, CHR 0xBB, CHR 0xBD], BackupRow item)
      else ([CHR 0xE5, CHR 0x88, CHR 0xA0, CHR 0xE9, CHR 0x99, CHR 0xA4], AskDelete item))"

definition row_menu_view :: "res_perms \<Rightarrow> resource \<Rightarrow> resources_action node" where
  "row_menu_view p item =
     El ''Dropdown'' []
       (map (\<lambda>(key, dis). El ''item''
          [Attr ''key'' key, Attr ''label'' (fst (menu_entry item key)), Flag ''disabled'' dis,
           On ''onClick'' (snd (menu_entry item key))] [])
         (row_menu p item) @
        [El ''Button'' [] [Txt [CHR 0xE6, CHR 0x9B, CHR 0xB4, CHR 0xE5, CHR 0xA4, CHR 0x9A]]])"

definition resource_actions_view :: "res_perms \<Rightarrow> resource \<Rightarrow> resources_action node list" where
  "resource_actions_view p item =
     [El ''Space'' []
        [El ''Button'' [On ''onClick'' (OpenYaml item []), Flag ''disabled'' (snd (edit_button p))]
           [Txt (fst (edit_button p))],
         row_menu_view p item]]"

definition resource_columns ::
  "(string \<Rightarrow> string) \<Rightarrow> (string \<Rightarrow> string) \<Rightarrow> res_perms \<Rightarrow> res_page
    \<Rightarrow> (string \<times> (resource \<Rightarrow> resources_action node list)) list" where
  "resource_columns ago fmt p s =
     [([CHR 0xE5, CHR 0x90, CHR 0x8D, CHR 0xE7, CHR 0xA7, CHR 0xB0], resource_name_view ago fmt s),
      ([CHR 0xE5, CHR 0x91, CHR 0xBD, CHR 0xE5, CHR 0x90, CHR 0x8D, CHR 0xE7, CHR 0xA9,
      CHR 0xBA, CHR 0xE9, CHR 0x97, CHR 0xB4], resource_namespace_view),
      ([CHR 0xE7, CHR 0x8A, CHR 0xB6, CHR 0xE6, CHR 0x80, CHR 0x81], workload_view s),
      (''Age'', resource_age_view ago fmt),
      ([CHR 0xE6, CHR 0x93, CHR 0x8D, CHR 0xE4, CHR 0xBD, CHR 0x9C], resource_actions_view p)]"

definition kind_tabs :: "res_page \<Rightarrow> resources_action node" where
  "kind_tabs s =
     El ''Tabs'' [Attr ''activeKey'' (rl_tab s), On ''onChange'' ChangeTab]
       (map (\<lambda>g. El ''item'' [Attr ''key'' (tab_key (kg_key g)), Attr ''label'' (kg_label g)] []) KIND_GROUPS)"

definition resource_toolbar :: "current_user option \<Rightarrow> res_perms \<Rightarrow> resources_data \<Rightarrow> res_page \<Rightarrow> resources_action node" where
  "resource_toolbar u p d s =
     (let a = page_namespaces u d s
      in El ''Space'' []
       [El ''Select''
          [Attr ''placeholder'' [CHR 0xE5, CHR 0x91, CHR 0xBD, CHR 0xE5, CHR 0x90, CHR 0x8D, CHR 0xE7, CHR 0xA9,
      CHR 0xBA, CHR 0xE9, CHR 0x97, CHR 0xB4],
           Attr ''value'' (if page_scoped s then CLUSTER_SCOPED_NS else or_str (rl_namespace s) []),
           Flag ''disabled'' (page_scoped s), On ''onChange'' SelectNamespace,
           Options (map (\<lambda>(l, v). (v, l)) (res_namespaceOptions (page_scoped s) (an_isFullCluster a) (an_namespaces a))),
           Flag ''allowClear'' (\<not> page_scoped s)] [],
        El ''Radio.Group'' [Attr ''value'' (rl_kind s), On ''onChange'' ChangeKind,
           Options (map (\<lambda>k. (ki_value k, ki_label k)) (kg_kinds (currentGroup (rl_tab s))))] [],
        El ''Input.Search'' [Attr ''placeholder'' [CHR 0xE6, CHR 0x8C, CHR 0x89, CHR 0xE5, CHR 0x90, CHR 0x8D, CHR 0xE7, CHR 0xA7,
      CHR 0xB0, CHR 0xE5, CHR 0x85, CHR 0xB3, CHR 0xE9, CHR 0x94, CHR 0xAE, CHR 0xE5,
      CHR 0xAD, CHR 0x97, CHR 0xE6, CHR 0x90, CHR 0x9C, CHR 0xE7, CHR 0xB4, CHR 0xA2], On ''onSearch'' SearchKeyword,
           On ''onPressEnter'' SearchKeyword] [],
        El ''Button'' [On ''onClick'' ReloadResources] [Txt [CHR 0xE5, CHR 0x88, CHR 0xB7, CHR 0xE6, CHR 0x96, CHR 0xB0]],
        El ''Button'' [On ''onClick'' OpenCreateResource, Flag ''disabled'' (\<not> truthy (rl_clusterCode s) \<or> \<not> rp_create p)]
          [Txt (([CHR 0xE5, CHR 0x88, CHR 0x9B, CHR 0xE5, CHR 0xBB, CHR 0xBA] @
     '' '') @ rl_kind s)]])"

definition page_cluster_tag :: "string option \<Rightarrow> 'a node list" where
  "page_cluster_tag c = (if truthy c then [El ''Tag'' [Attr ''color'' ''blue''] [Txt (([CHR 0xE9, CHR 0x9B, CHR 0x86, CHR 0xE7, CHR 0xBE, CHR 0xA4] @
     '': '') @ the c)]] else [])"

definition resources_table ::
  "(string \<Rightarrow> string) \<Rightarrow> (string \<Rightarrow> string) \<Rightarrow> res_perms \<Rightarrow> resources_data \<Rightarrow> res_page \<Rightarrow> resources_action node" where
  "resources_table ago fmt p d s =
     (case res_table s (sd_reply d) of (rows, (pg, sz, n), empty_text) \<Rightarrow>
        El ''ProTable''
          [Flag ''loading'' (sd_fetching d \<or> \<not> truthy (rl_clusterCode s)), On ''reload'' ReloadResources,
           Attr ''emptyText'' empty_text]
          ([El ''headerTitle'' []
              [El ''Space'' []
                 (El ''span'' [] [Txt (kg_label (currentGroup (rl_tab s)) @ '' / '' @ rl_kind s)] #
                  shown_if (page_scoped s) [El ''Tag'' [Attr ''color'' ''orange''] [Txt [CHR 0xE9, CHR 0x9B, CHR 0x86, CHR 0xE7, CHR 0xBE, CHR 0xA4, CHR 0xE7, CHR 0xBA,
      CHR 0xA7]]] @
                  page_cluster_tag (rl_clusterCode s))],
            El ''pagination'' [Attr ''current'' (show_int pg), Attr ''pageSize'' (show_int sz),
              Attr ''total'' (show_int n), On ''onChange'' ChangeResourcePage] []] @
           table_rows (resource_columns ago fmt p s) rows))"

definition create_resource_drawer :: "resources_call list \<Rightarrow> res_page \<Rightarrow> create_drawer \<Rightarrow> resources_action node" where
  "create_resource_drawer flight s dr =
     El ''Drawer'' [Flag ''open'' (cd_open dr), On ''onClose'' CancelCreateResource]
       [El ''title'' []
          [El ''Space'' []
             (El ''span'' [] [Txt (([CHR 0xE5, CHR 0x88, CHR 0x9B, CHR 0xE5, CHR 0xBB, CHR 0xBA] @
     '' '') @ rl_kind s)] # page_cluster_tag (rl_clusterCode s) @
              shown_if (\<not> page_scoped s \<and> truthy (rl_namespace s))
                [El ''Tag'' [] [Txt (''ns: '' @ the (rl_namespace s))]])],
        El ''extra'' []
          [El ''Space'' []
             [El ''Button'' [On ''onClick'' CancelCreateResource] [Txt [CHR 0xE5, CHR 0x8F, CHR 0x96, CHR 0xE6, CHR 0xB6, CHR 0x88]],
              El ''Button'' [Flag ''loading'' (list_ex is_CallCreateResource flight), On ''onClick'' SubmitResource]
                [Txt [CHR 0xE6, CHR 0x8F, CHR 0x90, CHR 0xE4, CHR 0xBA, CHR 0xA4, CHR 0xE5, CHR 0x88,
      CHR 0x9B, CHR 0xE5, CHR 0xBB, CHR 0xBA]]]],
        El ''YamlEditor'' [Attr ''value'' (cd_yaml dr), Attr ''editorKey'' (''create-'' @ rl_kind s)] []]"

definition pod_log_drawer :: "pod_drawer option \<Rightarrow> resources_action node" where
  "pod_log_drawer pod =
     El ''Drawer'' [Flag ''open'' (pod \<noteq> None), On ''onClose'' CloseLogs]
       (case pod of
          None \<Rightarrow> [El ''title'' [] [El ''Space'' [] [El ''span'' [] [Txt (''Pod '' @
     [CHR 0xE6, CHR 0x97, CHR 0xA5, CHR 0xE5, CHR 0xBF, CHR 0x97])]]]]
        | Some d \<Rightarrow>
            [El ''title'' []
               [El ''Space'' []
                  [El ''span'' [] [Txt (''Pod '' @
     [CHR 0xE6, CHR 0x97, CHR 0xA5, CHR 0xE5, CHR 0xBF, CHR 0x97])],
                   El ''Tag'' [Attr ''color'' ''blue''] [Txt (([CHR 0xE9, CHR 0x9B, CHR 0x86, CHR 0xE7, CHR 0xBE, CHR 0xA4] @
     '': '') @ pd_clusterCode d)],
                   El ''Tag'' [] [Txt (''ns: '' @ pd_namespace d)],
                   El ''Tag'' [Attr ''color'' ''purple''] [Txt (''Pod: '' @ pd_name d)]]],
             El ''PodLogsViewer''
               ([Attr ''clusterCode'' (pd_clusterCode d), Attr ''namespace'' (pd_namespace d),
                 Attr ''podName'' (pd_name d)] @
                (case pd_containerName d of None \<Rightarrow> [] | Some c \<Rightarrow> [Attr ''containerName'' c]) @
                [Flag ''autoScroll'' True, Flag ''autoTrigger'' True, Flag ''follow'' True,
                 Attr ''tailLines'' ''500'']) []])"

definition confirm_view :: "res_page \<times> resource \<Rightarrow> resources_action node" where
  "confirm_view c =
     El ''Modal.confirm''
       [Attr ''title'' (([CHR 0xE7, CHR 0xA1, CHR 0xAE, CHR 0xE5, CHR 0xAE, CHR 0x9A, CHR 0xE5, CHR 0x88,
      CHR 0xA0, CHR 0xE9, CHR 0x99, CHR 0xA4] @
     '' '') @ rl_kind (fst c) @ [CHR 0xE3, CHR 0x80, CHR 0x8C] @ or_str (meta_text (snd c) ''name'') [] @ ([CHR 0xE3, CHR 0x80, CHR 0x8D] @
     ''?'')),
        Attr ''content'' [CHR 0xE5, CHR 0x88, CHR 0xA0, CHR 0xE9, CHR 0x99, CHR 0xA4, CHR 0xE5, CHR 0x90,
      CHR 0x8E, CHR 0xE8, CHR 0xAF, CHR 0xA5, CHR 0xE8, CHR 0xB5, CHR 0x84, CHR 0xE6,
      CHR 0xBA, CHR 0x90, CHR 0xE5, CHR 0xB0, CHR 0x86, CHR 0xE4, CHR 0xBB, CHR 0x8E,
      CHR 0xE9, CHR 0x9B, CHR 0x86, CHR 0xE7, CHR 0xBE, CHR 0xA4, CHR 0xE4, CHR 0xB8,
      CHR 0xAD, CHR 0xE7, CHR 0xA7, CHR 0xBB, CHR 0xE9, CHR 0x99, CHR 0xA4], Attr ''okText'' [CHR 0xE5, CHR 0x88, CHR 0xA0, CHR 0xE9, CHR 0x99, CHR 0xA4],
        On ''onOk'' (ConfirmDelete c), On ''onCancel'' (CancelDelete c)] []"

definition resources_view ::
  "(string \<Rightarrow> string) \<Rightarrow> (string \<Rightarrow> string) \<Rightarrow> current_user option \<Rightarrow> resources_data \<Rightarrow> resources_call list
    \<Rightarrow> resources_state \<Rightarrow> resources_action node" where
  "resources_view ago fmt u d flight s =
     (let p = res_list_perms u
      in El ''PageContainer'' []
           ([El ''Space'' []
               [kind_tabs (sz_page s), resource_toolbar u p d (sz_page s), resources_table ago fmt p d (sz_page s)],
             create_resource_drawer flight (sz_page s) (sz_create s),
             pod_log_drawer (sz_pod s)] @
            map confirm_view (sz_confirms s)))"

subsection \<open>What the actions, the replies and the effects do\<close>

definition resources_act ::
  "res_perms \<Rightarrow> resources_action \<Rightarrow> event \<Rightarrow> resources_data \<Rightarrow> resources_state
    \<Rightarrow> resources_state \<times> resources_call page_effect list" where
  "resources_act p a x d s =
     (let pg = sz_page s
      in case a of
        ChangeTab \<Rightarrow> (s\<lparr>sz_page := change_tab (text_or x (rl_tab pg)) pg\<rparr>, [])
      | SelectNamespace \<Rightarrow> (s\<lparr>sz_page := select_namespace (text_arg x) pg\<rparr>, [])
      | ChangeKind \<Rightarrow> (s\<lparr>sz_page := change_kind (text_or x (rl_kind pg)) pg\<rparr>, [])
      | SearchKeyword \<Rightarrow> (s\<lparr>sz_page := search_keyword (text_or x []) pg\<rparr>, [])
      | ReloadResources \<Rightarrow> (s, [PRefetch])
      | OpenCreateResource \<Rightarrow>
          (case ResourceList.openCreateDrawer p pg (sz_create s) of (dr, es) \<Rightarrow> (s\<lparr>sz_create := dr\<rparr>, reported es))
      | CancelCreateResource \<Rightarrow> (s\<lparr>sz_create := (sz_create s)\<lparr>cd_open := False\<rparr>\<rparr>, [])
      | SubmitResource \<Rightarrow>
          (s, start_call (CallCreateResource pg (cd_yaml (sz_create s)))
                (snd (handleCreateConfirm pg (sz_create s) False)))
      | OpenYaml item suffix \<Rightarrow> (s, reported (openYaml p pg item suffix))
      | OpenLogs item \<Rightarrow> (case open_logs p pg item (sz_pod s) of (pod, es) \<Rightarrow> (s\<lparr>sz_pod := pod\<rparr>, reported es))
      | CloseLogs \<Rightarrow> (s\<lparr>sz_pod := None\<rparr>, [])
      | BackupRow item \<Rightarrow> (s, reported (open_backup p pg item))
      | AskDelete item \<Rightarrow>
          (if \<not> rp_delete p then (s, reported (res_delete p pg item False))
           else (s\<lparr>sz_confirms := (pg, item) # sz_confirms s\<rparr>, []))
      | ConfirmDelete c \<Rightarrow>
          (s\<lparr>sz_confirms := remove1 c (sz_confirms s)\<rparr>,
           start_call (CallDeleteResource (fst c) (snd c)) (res_delete p (fst c) (snd c) False))
      | CancelDelete c \<Rightarrow> (s\<lparr>sz_confirms := remove1 c (sz_confirms s)\<rparr>, [])
      | ChangeResourcePage \<Rightarrow>
          (case x of PageArg n sz \<Rightarrow> (s\<lparr>sz_page := res_list_page n sz pg\<rparr>, []) | _ \<Rightarrow> (s, [])))"

definition resources_reply ::
  "res_perms \<Rightarrow> resources_call \<Rightarrow> bool \<Rightarrow> resources_state \<Rightarrow> resources_state \<times> resources_call page_effect list" where
  "resources_reply p c ok s =
     (case c of
        CallCreateResource pg yaml \<Rightarrow>
          (case handleCreateConfirm pg \<lparr>cd_open = cd_open (sz_create s), cd_yaml = yaml\<rparr> ok of (dr, es) \<Rightarrow>
             (s\<lparr>sz_create := (sz_create s)\<lparr>cd_open := cd_open dr\<rparr>\<rparr>, reported es))
      | CallDeleteResource pg item \<Rightarrow> (s, reported (res_delete p pg item ok)))"

text \<open>
  A commit: the effect on the cluster, the effects on the namespace, and the one that writes the
  query string, all from the rendered state.
\<close>

definition resources_commit ::
  "current_user option \<Rightarrow> resources_data \<Rightarrow> resources_state \<Rightarrow> resources_state \<times> resources_call page_effect list" where
  "resources_commit u d s =
     (let pg = sz_page s; a = page_namespaces u d pg
      in case cluster_pin_effect (sd_param d) (sd_selected d) pg of (pg', sel) \<Rightarrow>
           (s\<lparr>sz_page := pg'\<lparr>rl_namespace :=
                namespace_commit (page_scoped pg) (an_isFullCluster a) (an_namespaces a) (rl_namespace pg)\<rparr>\<rparr>,
            (if sel = None then [] else [PSelectCluster sel]) @ [PNavigate (''?'' @ usp_toString (res_list_query pg))]))"

definition resources_typed :: "resources_state \<Rightarrow> resources_state \<Rightarrow> bool" where
  "resources_typed s s' \<longleftrightarrow>
     cd_open (sz_create s) \<and> s' = s\<lparr>sz_create := (sz_create s)\<lparr>cd_yaml := cd_yaml (sz_create s')\<rparr>\<rparr>"

definition resources_page ::
  "(string \<Rightarrow> string) \<Rightarrow> (string \<Rightarrow> string) \<Rightarrow> (string \<Rightarrow> string option) \<Rightarrow> string option \<Rightarrow> current_user option
    \<Rightarrow> (resources_data, resources_state, resources_action, resources_call, bool) machine" where
  "resources_page ago fmt get selected u =
     (let p = res_list_perms u
      in \<lparr>pg_start = resources_start get selected, pg_view = resources_view ago fmt u, pg_act = resources_act p,
          pg_reply = resources_reply p, pg_commit = resources_commit u, pg_typed = resources_typed\<rparr>)"

subsection \<open>What the page offers\<close>

definition is_pod :: "resource \<Rightarrow> bool" where
  "is_pod item \<longleftrightarrow> field (Some item) ''kind'' = Some (JStr ''Pod'')"

definition resources_offer_ok ::
  "res_perms \<Rightarrow> resources_call list \<Rightarrow> resources_state \<Rightarrow> resources_action \<Rightarrow> bool" where
  "resources_offer_ok p flight s a \<longleftrightarrow>
     (case a of
        OpenCreateResource \<Rightarrow> rp_create p \<and> truthy (rl_clusterCode (sz_page s))
      | SubmitResource \<Rightarrow> cd_open (sz_create s) \<and> filter is_CallCreateResource flight = []
      | AskDelete item \<Rightarrow> rp_delete p \<and> truthy (rl_clusterCode (sz_page s))
      | ConfirmDelete c \<Rightarrow> c \<in> set (sz_confirms s)
      | OpenLogs item \<Rightarrow> is_pod item
      | _ \<Rightarrow> True)"

lemma resource_cells_offer [offer_simps]:
  "list_all (offers_only P) (resource_namespace_view item)"
  "list_all (offers_only P) (workload_view pg item)"
  "list_all (offers_only P) (resource_age_view ago fmt item)"
  "list_all (offers_only P) (page_cluster_tag c)"
  by (simp_all add: resource_namespace_view_def workload_view_def resource_age_view_def page_cluster_tag_def Let_def
      offer_simps)

lemma row_actions_offer:
  "truthy (rl_clusterCode (sz_page s)) \<Longrightarrow>
   list_all (offers_only (resources_offer_ok p flight s)) (resource_actions_view p item)"
  by (simp add: resource_actions_view_def row_menu_view_def row_menu_def menu_entry_def resources_offer_ok_def
      is_pod_def Let_def offer_simps)

lemma resources_table_offers:
  "offers_only (resources_offer_ok p flight s) (resources_table ago fmt p d (sz_page s))"
proof (cases "truthy (rl_clusterCode (sz_page s))")
  case True
  then show ?thesis
    by (simp add: resources_table_def resource_columns_def resource_name_view_def row_actions_offer
        resources_offer_ok_def [of _ _ _ "OpenYaml _ _"] resources_offer_ok_def [of _ _ _ ReloadResources]
        resources_offer_ok_def [of _ _ _ ChangeResourcePage] offer_simps split: prod.split)
next
  case False
  then show ?thesis
    by (simp add: resources_table_def res_table_def resources_offer_ok_def table_rows_def Let_def offer_simps)
qed

lemma resources_controls_offer:
  "offers_only (resources_offer_ok p flight s) (kind_tabs (sz_page s))"
  "offers_only (resources_offer_ok p flight s) (resource_toolbar u p d (sz_page s))"
  "offers_only (resources_offer_ok p flight s) (pod_log_drawer pod)"
  "list_all (\<lambda>c. offers_only (resources_offer_ok p flight s) (confirm_view c)) (sz_confirms s)"
  by (auto simp: kind_tabs_def resource_toolbar_def pod_log_drawer_def confirm_view_def resources_offer_ok_def
      Let_def list_all_iff offer_simps split: option.split)

lemma create_resource_offer:
  "offers_only (resources_offer_ok p flight s) (create_resource_drawer flight (sz_page s) (sz_create s))"
  by (auto simp: create_resource_drawer_def resources_offer_ok_def offer_simps intro: not_list_ex_filter)

lemma resources_offered:
  "a \<in> set (acts (resources_view ago fmt u d flight s)) \<Longrightarrow> resources_offer_ok (res_list_perms u) flight s a"
  by (rule offers_onlyD [rotated], assumption)
    (simp add: resources_view_def resources_table_offers resources_controls_offer create_resource_offer
      Let_def offer_simps)

subsection \<open>Properties of the runs\<close>

text \<open>What is open was opened with its permission, and over a selected cluster.\<close>

definition resources_inv :: "res_perms \<Rightarrow> resources_state \<Rightarrow> bool" where
  "resources_inv p s \<longleftrightarrow>
     (cd_open (sz_create s) \<longrightarrow> rp_create p \<and> truthy (rl_clusterCode (sz_page s)))
     \<and> list_all (\<lambda>c. rp_delete p \<and> truthy (rl_clusterCode (fst c))) (sz_confirms s)
     \<and> (case sz_pod s of None \<Rightarrow> True
        | Some d \<Rightarrow> (rp_view p \<or> rp_update p) \<and> pd_clusterCode d \<noteq> []
            \<and> (\<exists>pg item. is_pod item \<and> open_logs p pg item None = (Some d, [])))"

definition resources_call_ok :: "res_perms \<Rightarrow> resources_call \<Rightarrow> bool" where
  "resources_call_ok p c \<longleftrightarrow>
     (case c of
        CallCreateResource pg yaml \<Rightarrow> rp_create p \<and> truthy (rl_clusterCode pg) \<and> js_trim yaml \<noteq> []
      | CallDeleteResource pg item \<Rightarrow> rp_delete p \<and> truthy (rl_clusterCode pg))"

lemma page_change_cluster [simp]:
  "rl_clusterCode (change_tab t pg) = rl_clusterCode pg" "rl_clusterCode (select_namespace ns pg) = rl_clusterCode pg"
  "rl_clusterCode (change_kind k pg) = rl_clusterCode pg" "rl_clusterCode (search_keyword w pg) = rl_clusterCode pg"
  "rl_clusterCode (res_list_page n sz pg) = rl_clusterCode pg"
  by (simp_all add: change_tab_def select_namespace_def change_kind_def search_keyword_def res_list_page_def)

lemma pin_keeps_cluster: "truthy (rl_clusterCode pg) \<Longrightarrow> truthy (rl_clusterCode (fst (cluster_pin_effect param sel pg)))"
  by (simp add: cluster_pin_effect_def Let_def)

lemma resources_act_sends:
  "resources_inv p s \<Longrightarrow> resources_offer_ok p flight s a \<Longrightarrow> c \<in> set (sends (snd (resources_act p a x d s)))
    \<Longrightarrow> resources_call_ok p c"
  by (cases a)
    (auto simp: resources_act_def resources_inv_def resources_offer_ok_def resources_call_ok_def handleCreateConfirm_def
      res_delete_def list_all_iff Let_def case_prod_unfold split: event.splits if_splits)

lemma resources_act_one:
  "length (sends (snd (resources_act p a x d s))) \<le> 1"
  "filter is_CallCreateResource (sends (snd (resources_act p a x d s))) \<noteq> [] \<Longrightarrow> a = SubmitResource"
  by (cases a; auto simp: resources_act_def handleCreateConfirm_def res_delete_def Let_def case_prod_unfold
      split: event.splits if_splits)+

text \<open>Opening the logs of a row.\<close>

lemma open_logs_cases:
  assumes "is_pod item"
  obtains (unchanged) es where "open_logs p pg item d = (d, es)"
  | (opened) pod where "open_logs p pg item d = (Some pod, [])" "rp_view p \<or> rp_update p" "pd_clusterCode pod \<noteq> []"
      "\<exists>pg item. is_pod item \<and> open_logs p pg item None = (Some pod, [])"
proof (cases "(rp_view p \<or> rp_update p) \<and> truthy (rl_clusterCode pg)")
  case True
  then obtain pod where pod: "open_logs p pg item e = (Some pod, [])" "pd_clusterCode pod \<noteq> []" for e
    by (auto simp: open_logs_def truthy_iff)
  with assms True opened show thesis by blast
next
  case False
  then have "\<exists>es. open_logs p pg item d = (d, es)" by (auto simp: open_logs_def)
  then show thesis using unchanged by blast
qed

lemma resources_act_inv:
  "resources_inv p s \<Longrightarrow> resources_offer_ok p flight s a \<Longrightarrow> resources_inv p (fst (resources_act p a x d s))"
proof (cases "\<exists>item. a = OpenLogs item")
  case True
  moreover assume inv: "resources_inv p s" and "resources_offer_ok p flight s a"
  ultimately obtain item where a: "a = OpenLogs item" "is_pod item" by (auto simp: resources_offer_ok_def)
  show ?thesis
    by (rule open_logs_cases [OF a(2), of p "sz_page s" "sz_pod s"])
      (use inv in \<open>simp_all add: a resources_act_def resources_inv_def Let_def\<close>)
next
  case False
  moreover assume "resources_inv p s" and "resources_offer_ok p flight s a"
  ultimately show ?thesis
    by (cases a)
      (auto simp: resources_act_def resources_inv_def resources_offer_ok_def ResourceList.openCreateDrawer_def
        list_all_iff Let_def case_prod_unfold dest: notin_set_remove1 split: event.splits if_splits)
qed

lemma resources_reply_inv: "resources_inv p s \<Longrightarrow> resources_inv p (fst (resources_reply p c ok s))"
  by (cases c) (auto simp: resources_reply_def resources_inv_def handleCreateConfirm_def)

lemma resources_reply_quiet: "sends (snd (resources_reply p c ok s)) = []"
  by (cases c) (simp_all add: resources_reply_def case_prod_unfold)

lemma resources_commit_inv: "resources_inv p s \<Longrightarrow> resources_inv p (fst (resources_commit u d s))"
  by (auto simp: resources_commit_def resources_inv_def Let_def case_prod_unfold dest: pin_keeps_cluster)

lemma resources_commit_quiet: "sends (snd (resources_commit u d s)) = []"
  by (simp add: resources_commit_def Let_def case_prod_unfold)

lemma resources_typed_inv: "resources_inv p s \<Longrightarrow> resources_typed s s' \<Longrightarrow> resources_inv p s'"
  unfolding resources_typed_def by (elim conjE, erule ssubst) (simp add: resources_inv_def)

lemma resources_start_inv: "resources_inv p (resources_start get selected)"
  by (simp add: resources_inv_def resources_start_def)

lemmas resources_steps = resources_act_inv resources_reply_inv resources_reply_quiet resources_commit_inv
  resources_commit_quiet resources_typed_inv resources_start_inv

interpretation resources_machine: guarded_page "resources_page ago fmt get selected u"
  "resources_inv (res_list_perms u)" "resources_call_ok (res_list_perms u)"
  by unfold_locales (auto simp: resources_page_def Let_def resources_steps dest: resources_offered resources_act_sends)

interpretation resources_create_once: single_submit "resources_page ago fmt get selected u"
  "resources_inv (res_list_perms u)" "resources_call_ok (res_list_perms u)" is_CallCreateResource
  by unfold_locales
    (auto simp: resources_page_def Let_def resources_act_one(1) [simplified] resources_offer_ok_def
      dest!: resources_act_one(2) resources_offered)


definition demo_remover :: "current_user option" where
  "demo_remover = Some (demo_user [''resource:delete''])"

definition demo_resources_data :: resources_data where
  "demo_resources_data = \<lparr>sd_param = None, sd_selected = Some ''prod'', sd_namespaces = None,
     sd_reply = Some \<lparr>rr_items = [demo_item], rr_page = 1, rr_size = 10, rr_total = 1\<rparr>, sd_fetching = False\<rparr>"

lemma demo_remover_can: "rp_delete (res_list_perms demo_remover)"
  by (simp add: res_list_perms_def demo_remover_def hasPerm_def demo_user_def user_perms_def isPlatformAdmin_def)

lemma demo_delete_reach:
  defines "s \<equiv> resources_start (\<lambda>_. None) (Some ''prod'')"
  shows "page_reach (resources_page ago fmt (\<lambda>_. None) (Some ''prod'') demo_remover) s
     [CallDeleteResource (sz_page s) demo_item] [PSend (CallDeleteResource (sz_page s) demo_item)]"
proof -
  let ?p = "resources_page ago fmt (\<lambda>_. None) (Some ''prod'') demo_remover"
  let ?c = "(sz_page s, demo_item)" and ?call = "CallDeleteResource (sz_page s) demo_item"
  have start: "page_reach ?p s [] []"
    using page_reach.start [of ?p] by (simp add: resources_page_def s_def Let_def)
  have cluster: "rl_clusterCode (sz_page s) = Some ''prod''" "sz_confirms s = []"
    by (simp_all add: s_def resources_start_def res_list_init_def pinned_cluster_def)
  have "page_reach ?p (s\<lparr>sz_confirms := [?c]\<rparr>) ([] @ sends []) ([] @ [])"
  proof (rule page_reach.act [OF start, of "AskDelete demo_item" demo_resources_data NoArg])
    show "AskDelete demo_item \<in> set (acts (pg_view ?p demo_resources_data [] s))"
      by (simp add: resources_page_def resources_view_def resources_table_def res_table_def resource_columns_def cluster
          resource_actions_view_def row_menu_view_def row_menu_def menu_entry_def demo_resources_data_def
          demo_remover_can view_simps Let_def)
    show "pg_act ?p (AskDelete demo_item) NoArg demo_resources_data s = (s\<lparr>sz_confirms := [?c]\<rparr>, [])"
      by (simp add: resources_page_def resources_act_def demo_remover_can cluster Let_def)
  qed
  then have asked: "page_reach ?p (s\<lparr>sz_confirms := [?c]\<rparr>) [] []" by simp
  have "page_reach ?p s ([] @ sends [PSend ?call]) ([] @ [PSend ?call])"
  proof (rule page_reach.act [OF asked, of "ConfirmDelete ?c" demo_resources_data NoArg])
    show "ConfirmDelete ?c \<in> set (acts (pg_view ?p demo_resources_data [] (s\<lparr>sz_confirms := [?c]\<rparr>)))"
      by (simp add: resources_page_def resources_view_def confirm_view_def view_simps Let_def)
    show "pg_act ?p (ConfirmDelete ?c) NoArg demo_resources_data (s\<lparr>sz_confirms := [?c]\<rparr>) = (s, [PSend ?call])"
      by (simp add: resources_page_def resources_act_def res_delete_def try_send_def start_call_def demo_remover_can
          cluster Let_def)
  qed
  then show ?thesis by simp
qed


text \<open>
  A confirmed deletion is that of the dialog: the row, the kind and the cluster of the click, whatever
  the page shows by then.
\<close>

lemma confirmed_delete_target:
  "rp_delete p \<Longrightarrow> sends (snd (resources_act p (ConfirmDelete c) x d s)) = [CallDeleteResource (fst c) (snd c)]"
  "sends (res_delete p pg item ok) \<noteq> [] \<Longrightarrow> sends (res_delete p pg item ok) = [DeleteResource (delete_target pg item)]"
  by (auto simp: resources_act_def res_delete_def Let_def split: if_splits)

text \<open>
  The logs of the menu are offered for Pods only, and one who may only see resources is offered
  neither a creation nor a deletion.
\<close>

lemma logs_for_pods_only:
  "OpenLogs r \<in> set (acts (row_menu_view p item)) \<Longrightarrow>
     r = item \<and> field (Some item) ''kind'' = Some (JStr ''Pod'') \<and> (rp_view p \<or> rp_update p)"
  by (auto simp: row_menu_view_def row_menu_def menu_entry_def view_simps Let_def split: if_splits)

lemma reader_offered_no_change:
  assumes "\<not> rp_create (res_list_perms u)" and "\<not> rp_delete (res_list_perms u)"
    and "page_reach (resources_page ago fmt get selected u) s flight tr"
  shows "sends tr = []"
proof -
  have "\<not> resources_call_ok (res_list_perms u) c" for c
    using assms(1,2) by (cases c) (simp_all add: resources_call_ok_def)
  then show ?thesis
    using resources_machine.sent_permitted [OF assms(3)] by (cases "sends tr") auto
qed

end
