(* ===== verification/ResourceEditView.thy ===== *)
theory ResourceEditView
  imports View ResourceEdit
begin

section \<open>The page of one resource as a machine\<close>

text \<open>
  What \<open>edit.tsx\<close> renders and the runs of the page: the editor, the history of versions with its
  comparison and its confirmation dialogs, and the summary. \<open>env\<close> holds the resource of the path,
  the YAML library and dayjs; the data are the results of the queries. The effect on the loaded
  resource runs when the resource changed since it ran last. Both tabs are offered, since the one
  that is not shown stays mounted. \<open>navigate(-1)\<close> is the navigation to \<open>-1\<close>.
\<close>

record edit_env =
  ee_target :: get_resource_params
  ee_stringify :: "json option \<Rightarrow> string"
  ee_load :: "string \<Rightarrow> json option"
  ee_ago :: "string \<Rightarrow> string"
  ee_fmt :: "string \<Rightarrow> string"

record version_item =
  ve_seq :: int
  ve_summary :: "string option"
  ve_source :: "string option"
  ve_operator :: "string option"
  ve_created :: "string option"

record edit_data =
  ed_resource :: "json option"
  ed_loading :: bool
  ed_error :: "string option option"
  ed_versions :: "version_item list option"
  ed_diffLoading :: bool

datatype edit_call =
    is_CallSave: CallSave string
  | CallRemove
  | CallRollbackTo int
  | CallDiff "int \<times> int"

datatype edit_answer = Refused | Done | RolledBack bool int | DiffTexts "string option" "string option"

record edit_state =
  ez_tab :: string
  ez_seen :: "json option"
  ez_editor :: editor
  ez_compare :: compare_state
  ez_confirms :: "int list"

datatype edit_action =
    GoBack | SaveYaml | RemoveResource | ChooseEditTab | OpenCompare | ToggleVersion int | CompareWithCurrent int
  | AskRollback int | ConfirmRollback int | CancelRollback int | CloseCompare

definition edit_start :: "(string \<Rightarrow> string option) \<Rightarrow> edit_state" where
  "edit_start get =
     \<lparr>ez_tab = edit_init_tab get, ez_seen = None, ez_editor = \<lparr>yamlValue = [], originalYaml = []\<rparr>,
      ez_compare = compare_init, ez_confirms = []\<rparr>"

definition loaded_item :: "edit_data \<Rightarrow> resource" where
  "loaded_item d = (case ed_resource d of Some (JObj kvs) \<Rightarrow> kvs | _ \<Rightarrow> [])"

definition statusView :: "edit_env \<Rightarrow> edit_data \<Rightarrow> workload_status option" where
  "statusView env d =
     (if json_truthy (ed_resource d) then Some (getWorkloadStatus (gr_kind (ee_target env)) (loaded_item d)) else None)"

subsection \<open>What is rendered\<close>

definition edit_title_view :: "edit_env \<Rightarrow> edit_data \<Rightarrow> edit_action node" where
  "edit_title_view env d =
     (let t = ee_target env
      in El ''title'' []
        [El ''Space'' []
           (El ''span'' [] [Txt (gr_kind t @ '' / '' @ gr_name t)] #
            (case statusView env d of None \<Rightarrow> [] | Some st \<Rightarrow> [El ''Tag'' [Attr ''color'' (wl_color st)] [Txt (wl_text st)]]) @
            El ''Tag'' [Attr ''color'' ''blue''] [Txt (([CHR 0xE9, CHR 0x9B, CHR 0x86, CHR 0xE7, CHR 0xBE, CHR 0xA4] @
     '' '') @ gr_code t)] #
            shown_if (truthy (gr_namespace t)) [El ''Tag'' [] [Txt (the (gr_namespace t))]])])"

definition edit_buttons_view :: "edit_env \<Rightarrow> edit_perms \<Rightarrow> edit_call list \<Rightarrow> editor \<Rightarrow> edit_action node" where
  "edit_buttons_view env p flight e =
     El ''extra'' []
       [El ''Space'' []
          ((case save_button p e of
              None \<Rightarrow> []
            | Some (label, dis) \<Rightarrow>
                [El ''Button'' [On ''onClick'' SaveYaml, Flag ''loading'' (list_ex is_CallSave flight), Flag ''disabled'' dis]
                   [Txt label]]) @
           shown_if (ep_delete p)
             [El ''Popconfirm''
                [Attr ''title'' (([CHR 0xE7, CHR 0xA1, CHR 0xAE, CHR 0xE8, CHR 0xAE, CHR 0xA4, CHR 0xE5, CHR 0x88,
      CHR 0xA0, CHR 0xE9, CHR 0x99, CHR 0xA4, CHR 0xE5, CHR 0xBD, CHR 0x93, CHR 0xE5,
      CHR 0x89, CHR 0x8D] @
     '' '') @ gr_kind (ee_target env) @ [CHR 0xE3, CHR 0x80, CHR 0x8C] @ gr_name (ee_target env) @ [CHR 0xE3, CHR 0x80, CHR 0x8D, CHR 0xEF, CHR 0xBC, CHR 0x9F]),
                 Attr ''description'' [CHR 0xE8, CHR 0xAF, CHR 0xA5, CHR 0xE6, CHR 0x93, CHR 0x8D, CHR 0xE4, CHR 0xBD,
      CHR 0x9C, CHR 0xE4, CHR 0xBC, CHR 0x9A, CHR 0xE4, CHR 0xBB, CHR 0x8E, CHR 0xE9,
      CHR 0x9B, CHR 0x86, CHR 0xE7, CHR 0xBE, CHR 0xA4, CHR 0xE4, CHR 0xB8, CHR 0xAD,
      CHR 0xE7, CHR 0xA7, CHR 0xBB, CHR 0xE9, CHR 0x99, CHR 0xA4, CHR 0xE8, CHR 0xAF,
      CHR 0xA5, CHR 0xE5, CHR 0xAF, CHR 0xB9, CHR 0xE8, CHR 0xB1, CHR 0xA1], On ''onConfirm'' RemoveResource]
                [El ''Button'' [] [Txt [CHR 0xE5, CHR 0x88, CHR 0xA0, CHR 0xE9, CHR 0x99, CHR 0xA4]]]])]"

definition yaml_pane :: "edit_env \<Rightarrow> edit_perms \<Rightarrow> edit_data \<Rightarrow> editor \<Rightarrow> edit_action node" where
  "yaml_pane env p d e =
     El ''item'' [Attr ''key'' ''yaml'', Attr ''label'' ''YAML'']
       [case editor_content (ed_loading d) (ed_resource d) (ed_error d \<noteq> None)
               (case ed_error d of None \<Rightarrow> None | Some m \<Rightarrow> m) p e of
          EditorEmpty t \<Rightarrow> El ''Empty'' [Attr ''description'' t] []
        | EditorText v ro \<Rightarrow>
            El ''YamlEditor''
              [Attr ''value'' v, Flag ''readOnly'' ro,
               Attr ''editorKey'' (or_str (meta_text (loaded_item d) ''uid'')
                 (gr_kind (ee_target env) @ ''/'' @ gr_name (ee_target env)))] []]"

definition compare_bar :: "compare_state \<Rightarrow> edit_action node" where
  "compare_bar c =
     El ''Space'' []
       [El ''Tooltip''
          [Attr ''title'' (if selectedHistoryOnly c then ([CHR 0xE5, CHR 0xB0, CHR 0x86, CHR 0xE5, CHR 0xB7, CHR 0xB2, CHR 0xE9, CHR 0x80,
      CHR 0x89, CHR 0xE5, CHR 0x8E, CHR 0x86, CHR 0xE5, CHR 0x8F, CHR 0xB2, CHR 0xE7,
      CHR 0x89, CHR 0x88, CHR 0xE6, CHR 0x9C, CHR 0xAC, CHR 0xE4, CHR 0xB8, CHR 0x8E,
      CHR 0xE9, CHR 0x9B, CHR 0x86, CHR 0xE7, CHR 0xBE, CHR 0xA4, CHR 0xE5, CHR 0xBD,
      CHR 0x93, CHR 0xE5, CHR 0x89, CHR 0x8D] @
     '' YAML '' @
     [CHR 0xE5, CHR 0xAF, CHR 0xB9, CHR 0xE6, CHR 0xAF, CHR 0x94])
             else [CHR 0xE5, CHR 0x8B, CHR 0xBE, CHR 0xE9, CHR 0x80, CHR 0x89, CHR 0xE4, CHR 0xB8,
      CHR 0x80, CHR 0xE4, CHR 0xB8, CHR 0xAA, CHR 0xE5, CHR 0x8E, CHR 0x86, CHR 0xE5,
      CHR 0x8F, CHR 0xB2, CHR 0xE7, CHR 0x89, CHR 0x88, CHR 0xE6, CHR 0x9C, CHR 0xAC,
      CHR 0xE5, CHR 0x8D, CHR 0xB3, CHR 0xE5, CHR 0x8F, CHR 0xAF, CHR 0xE4, CHR 0xB8,
      CHR 0x8E, CHR 0xE5, CHR 0xBD, CHR 0x93, CHR 0xE5, CHR 0x89, CHR 0x8D, CHR 0xE5,
      CHR 0xAF, CHR 0xB9, CHR 0xE6, CHR 0xAF, CHR 0x94, CHR 0xEF, CHR 0xBC, CHR 0x9B,
      CHR 0xE4, CHR 0xB9, CHR 0x9F, CHR 0xE5, CHR 0x8F, CHR 0xAF, CHR 0xE5, CHR 0x8B,
      CHR 0xBE, CHR 0xE9, CHR 0x80, CHR 0x89, CHR 0xE4, CHR 0xB8, CHR 0xA4, CHR 0xE4,
      CHR 0xB8, CHR 0xAA, CHR 0xE7, CHR 0x89, CHR 0x88, CHR 0xE6, CHR 0x9C, CHR 0xAC,
      CHR 0xE4, CHR 0xBA, CHR 0x92, CHR 0xE7, CHR 0x9B, CHR 0xB8, CHR 0xE5, CHR 0xAF,
      CHR 0xB9, CHR 0xE6, CHR 0xAF, CHR 0x94])]
          [El ''Button'' [Flag ''disabled'' (snd (compare_button c)), On ''onClick'' OpenCompare]
             [Txt (fst (compare_button c))]],
        El ''span'' [] [Txt [CHR 0xE5, CHR 0x8F, CHR 0xAF, CHR 0xE5, CHR 0x8B, CHR 0xBE, CHR 0xE9, CHR 0x80,
      CHR 0x89, CHR 0xE3, CHR 0x80, CHR 0x8C, CHR 0xE5, CHR 0xBD, CHR 0x93, CHR 0xE5,
      CHR 0x89, CHR 0x8D, CHR 0xE7, CHR 0x89, CHR 0x88, CHR 0xE6, CHR 0x9C, CHR 0xAC,
      CHR 0xE3, CHR 0x80, CHR 0x8D, CHR 0xE4, CHR 0xB8, CHR 0x8E, CHR 0xE4, CHR 0xBB,
      CHR 0xBB, CHR 0xE4, CHR 0xB8, CHR 0x80, CHR 0xE5, CHR 0x8E, CHR 0x86, CHR 0xE5,
      CHR 0x8F, CHR 0xB2, CHR 0xE5, CHR 0xBF, CHR 0xAB, CHR 0xE7, CHR 0x85, CHR 0xA7,
      CHR 0xEF, CHR 0xBC, CHR 0x8C, CHR 0xE6, CHR 0x88, CHR 0x96, CHR 0xE7, CHR 0x9B,
      CHR 0xB4, CHR 0xE6, CHR 0x8E, CHR 0xA5, CHR 0xE7, CHR 0x82, CHR 0xB9, CHR 0xE5,
      CHR 0x87, CHR 0xBB, CHR 0xE3, CHR 0x80, CHR 0x8C, CHR 0xE4, CHR 0xB8, CHR 0x8E,
      CHR 0xE5, CHR 0xBD, CHR 0x93, CHR 0xE5, CHR 0x89, CHR 0x8D, CHR 0xE5, CHR 0xAF,
      CHR 0xB9, CHR 0xE6, CHR 0xAF, CHR 0x94, CHR 0xE3, CHR 0x80, CHR 0x8D]]]"

definition live_card :: "edit_data \<Rightarrow> compare_state \<Rightarrow> edit_action node" where
  "live_card d c =
     El ''Card'' []
       [El ''title'' []
          [El ''Checkbox''
             [Flag ''checked'' (CURRENT_VERSION_SEQ \<in> set (vc_checked c)),
              Flag ''disabled'' (\<not> json_truthy (ed_resource d)), On ''onChange'' (ToggleVersion CURRENT_VERSION_SEQ)]
             [El ''strong'' [] [Txt [CHR 0xE5, CHR 0xBD, CHR 0x93, CHR 0xE5, CHR 0x89, CHR 0x8D, CHR 0xE7, CHR 0x89,
      CHR 0x88, CHR 0xE6, CHR 0x9C, CHR 0xAC]]],
           El ''Tag'' [Attr ''color'' ''green''] [Txt ''live'']],
        El ''Descriptions'' []
          [El ''Descriptions.Item'' [Attr ''label'' [CHR 0xE6, CHR 0x9D, CHR 0xA5, CHR 0xE6, CHR 0xBA, CHR 0x90]] [Txt ([CHR 0xE9, CHR 0x9B, CHR 0x86, CHR 0xE7, CHR 0xBE, CHR 0xA4, CHR 0xE4, CHR 0xB8,
      CHR 0xAD, CHR 0xE7, CHR 0x9A, CHR 0x84, CHR 0xE5, CHR 0xAE, CHR 0x9E, CHR 0xE6,
      CHR 0x97, CHR 0xB6, CHR 0xE5, CHR 0xAF, CHR 0xB9, CHR 0xE8, CHR 0xB1, CHR 0xA1] @
     '' YAML'')],
           El ''Descriptions.Item'' [Attr ''label'' ''ResourceVersion'']
             [Txt (or_str (meta_text (loaded_item d) ''resourceVersion'') ''-'')]]]"

definition is_CallRollback :: "edit_call \<Rightarrow> bool" where
  "is_CallRollback c \<longleftrightarrow> (case c of CallRollbackTo _ \<Rightarrow> True | _ \<Rightarrow> False)"

definition version_card ::
  "edit_env \<Rightarrow> edit_perms \<Rightarrow> edit_data \<Rightarrow> edit_call list \<Rightarrow> compare_state \<Rightarrow> version_item \<Rightarrow> edit_action node" where
  "version_card env p d flight c v =
     El ''Card'' []
       [El ''title'' []
          [El ''Checkbox'' [Flag ''checked'' (ve_seq v \<in> set (vc_checked c)), On ''onChange'' (ToggleVersion (ve_seq v))]
             [El ''strong'' [] [Txt (''# '' @ show_int (ve_seq v))]],
           El ''Tag'' [] [Txt (version_tag (ve_summary v) (ve_source v))]],
        El ''extra'' []
          [El ''Space'' []
             ([El ''span'' [] [Txt (if truthy (ve_created v) then ee_fmt env (the (ve_created v)) else [])],
               El ''Button'' [Flag ''disabled'' (\<not> json_truthy (ed_resource d)), On ''onClick'' (CompareWithCurrent (ve_seq v))]
                 [Txt [CHR 0xE4, CHR 0xB8, CHR 0x8E, CHR 0xE5, CHR 0xBD, CHR 0x93, CHR 0xE5, CHR 0x89,
      CHR 0x8D, CHR 0xE5, CHR 0xAF, CHR 0xB9, CHR 0xE6, CHR 0xAF, CHR 0x94]]] @
              shown_if (ep_rollback p)
                [El ''Button'' [Flag ''loading'' (list_ex is_CallRollback flight), On ''onClick'' (AskRollback (ve_seq v))]
                   [Txt [CHR 0xE5, CHR 0x9B, CHR 0x9E, CHR 0xE6, CHR 0xBB, CHR 0x9A, CHR 0xE5, CHR 0x88,
      CHR 0xB0, CHR 0xE6, CHR 0xAD, CHR 0xA4, CHR 0xE7, CHR 0x89, CHR 0x88, CHR 0xE6,
      CHR 0x9C, CHR 0xAC]]])],
        El ''Descriptions'' [] [El ''Descriptions.Item'' [Attr ''label'' [CHR 0xE6, CHR 0x93, CHR 0x8D, CHR 0xE4, CHR 0xBD, CHR 0x9C, CHR 0xE4, CHR 0xBA,
      CHR 0xBA]] [Txt (or_str (ve_operator v) ''-'')]]]"

definition versions_pane ::
  "edit_env \<Rightarrow> edit_perms \<Rightarrow> edit_data \<Rightarrow> edit_call list \<Rightarrow> compare_state \<Rightarrow> edit_action node" where
  "versions_pane env p d flight c =
     El ''item'' [Attr ''key'' ''versions'', Attr ''label'' [CHR 0xE7, CHR 0x89, CHR 0x88, CHR 0xE6, CHR 0x9C, CHR 0xAC, CHR 0xE5, CHR 0x8E,
      CHR 0x86, CHR 0xE5, CHR 0x8F, CHR 0xB2]]
       [El ''Space'' []
          [compare_bar c,
           El ''Timeline'' []
             (El ''item'' [Attr ''color'' ''green''] [live_card d c] #
              (if versionItems (ed_versions d) = []
               then [El ''item'' [Attr ''color'' ''gray''] [El ''Empty'' [Attr ''description'' [CHR 0xE6, CHR 0x9A, CHR 0x82, CHR 0xE6, CHR 0x97, CHR 0xA0, CHR 0xE5, CHR 0x8E,
      CHR 0x86, CHR 0xE5, CHR 0x8F, CHR 0xB2, CHR 0xE5, CHR 0xBF, CHR 0xAB, CHR 0xE7,
      CHR 0x85, CHR 0xA7]] []]]
               else map (\<lambda>v. El ''item'' [Attr ''color'' (version_color (or_str (ve_source v) []))]
                      [version_card env p d flight c v]) (versionItems (ed_versions d))))]]"

definition summary_items :: "edit_env \<Rightarrow> edit_data \<Rightarrow> (string \<times> edit_action node list) list" where
  "summary_items env d =
     (let item = loaded_item d; t = ee_target env; texts = summary_texts (ee_ago env) (ee_fmt env) t item
      in [(''Kind'', [El ''Tag'' [Attr ''color'' ''blue''] [Txt (gr_kind t)]]),
          ([CHR 0xE7, CHR 0x8A, CHR 0xB6, CHR 0xE6, CHR 0x80, CHR 0x81],
           (case statusView env d of
              None \<Rightarrow> [Txt ''-'']
            | Some st \<Rightarrow>
                [El ''Space'' []
                   (El ''Tag'' [Attr ''color'' (wl_color st)] [Txt (wl_text st)] #
                    shown_if (truthy (wl_extra st)) [El ''span'' [] [Txt (the (wl_extra st))]])])),
          (''Name'', [Txt (texts ! 0)]),
          (''Namespace'', [if truthy (gr_namespace t) then Txt (texts ! 1) else El ''Tag'' [] [Txt (texts ! 1)]]),
          (''UID'', [El ''span'' [] [Txt (texts ! 2)]]),
          (''ResourceVersion'', [Txt (texts ! 3)]),
          ([CHR 0xE5, CHR 0x88, CHR 0x9B, CHR 0xE5, CHR 0xBB, CHR 0xBA, CHR 0xE6, CHR 0x97,
      CHR 0xB6, CHR 0xE9, CHR 0x97, CHR 0xB4], [Txt (texts ! 4)]),
          (''Labels'',
           if summary_labels item = [] then [Txt ''-'']
           else [El ''List'' [] (map (\<lambda>l. El ''List.Item'' [] [El ''Tag'' [] [Txt l]]) (summary_labels item))]),
          (''Annotations'',
           if summary_annotations item = [] then [Txt ''-'']
           else [El ''List'' []
                   (map (\<lambda>(k, v). El ''List.Item'' [] [El ''code'' [] [Txt k], El ''span'' [] [Txt v]])
                     (summary_annotations item))])])"

definition summary_card :: "edit_env \<Rightarrow> edit_data \<Rightarrow> edit_action node" where
  "summary_card env d =
     El ''Card'' [Attr ''title'' [CHR 0xE6, CHR 0x91, CHR 0x98, CHR 0xE8, CHR 0xA6, CHR 0x81], Flag ''loading'' (ed_loading d \<and> \<not> json_truthy (ed_resource d))]
       [El ''Descriptions'' []
          (map (\<lambda>(label, vs). El ''Descriptions.Item'' [Attr ''label'' label] vs) (summary_items env d))]"

definition compare_drawer :: "edit_data \<Rightarrow> compare_state \<Rightarrow> edit_action node" where
  "compare_drawer d c =
     El ''Drawer'' [Attr ''title'' (compare_title c), Flag ''open'' (vc_open c), On ''onClose'' CloseCompare]
       (case compare_body (ed_diffLoading d) c of
          None \<Rightarrow> [El ''Empty'' [Attr ''description'' ([CHR 0xE5, CHR 0x8A, CHR 0xA0, CHR 0xE8, CHR 0xBD, CHR 0xBD] @
     '' Diff '' @
     [CHR 0xE4, CHR 0xB8, CHR 0xAD] @
     ''...'')] []]
        | Some ((l, r), left, right) \<Rightarrow>
            [El ''Space'' []
               [El ''Space'' []
                  [El ''Tag'' [] [Txt l], El ''span'' [] [Txt [CHR 0xE5, CHR 0xAF, CHR 0xB9, CHR 0xE6, CHR 0xAF, CHR 0x94, CHR 0xE5, CHR 0x88,
      CHR 0xB0]], El ''Tag'' [Attr ''color'' ''blue''] [Txt r]],
                El ''YamlDiffEditor'' [Attr ''original'' left, Attr ''modified'' right] []]])"

definition rollback_dialog :: "int \<Rightarrow> edit_action node" where
  "rollback_dialog seq =
     El ''Modal.confirm''
       [Attr ''title'' (([CHR 0xE5, CHR 0x9B, CHR 0x9E, CHR 0xE6, CHR 0xBB, CHR 0x9A, CHR 0xE5, CHR 0x88,
      CHR 0xB0, CHR 0xE7, CHR 0x89, CHR 0x88, CHR 0xE6, CHR 0x9C, CHR 0xAC] @
     '' #'') @ show_int seq),
        Attr ''content'' ([CHR 0xE5, CHR 0xB0, CHR 0x86, CHR 0xE7, CHR 0x94, CHR 0xA8, CHR 0xE8, CHR 0xAF,
      CHR 0xA5, CHR 0xE5, CHR 0x8E, CHR 0x86, CHR 0xE5, CHR 0x8F, CHR 0xB2, CHR 0xE7,
      CHR 0x89, CHR 0x88, CHR 0xE6, CHR 0x9C, CHR 0xAC, CHR 0xE7, CHR 0x9A, CHR 0x84] @
     '' YAML '' @
     [CHR 0xE8, CHR 0xA6, CHR 0x86, CHR 0xE7, CHR 0x9B, CHR 0x96, CHR 0xE5, CHR 0xBD,
      CHR 0x93, CHR 0xE5, CHR 0x89, CHR 0x8D, CHR 0xE9, CHR 0x9B, CHR 0x86, CHR 0xE7,
      CHR 0xBE, CHR 0xA4, CHR 0xE4, CHR 0xB8, CHR 0xAD, CHR 0xE7, CHR 0x9A, CHR 0x84,
      CHR 0xE5, CHR 0xAF, CHR 0xB9, CHR 0xE8, CHR 0xB1, CHR 0xA1, CHR 0xEF, CHR 0xBC,
      CHR 0x8C, CHR 0xE6, CHR 0x98, CHR 0xAF, CHR 0xE5, CHR 0x90, CHR 0xA6, CHR 0xE7,
      CHR 0xBB, CHR 0xA7, CHR 0xE7, CHR 0xBB, CHR 0xAD, CHR 0xEF, CHR 0xBC, CHR 0x9F]),
        Attr ''okText'' [CHR 0xE7, CHR 0xA1, CHR 0xAE, CHR 0xE8, CHR 0xAE, CHR 0xA4, CHR 0xE5, CHR 0x9B,
      CHR 0x9E, CHR 0xE6, CHR 0xBB, CHR 0x9A], On ''onOk'' (ConfirmRollback seq), On ''onCancel'' (CancelRollback seq)] []"

definition editor_card ::
  "edit_env \<Rightarrow> edit_perms \<Rightarrow> edit_data \<Rightarrow> edit_call list \<Rightarrow> edit_state \<Rightarrow> edit_action node" where
  "editor_card env p d flight s =
     El ''Card'' [Attr ''title'' (''YAML '' @
     [CHR 0xE7, CHR 0xBC, CHR 0x96, CHR 0xE8, CHR 0xBE, CHR 0x91, CHR 0xE5, CHR 0x99,
      CHR 0xA8])]
       [El ''extra'' []
          [El ''Tag'' [Attr ''color'' (fst (dirty_tag (ez_editor s)))] [Txt (snd (dirty_tag (ez_editor s)))]],
        El ''Tabs'' [Attr ''activeKey'' (ez_tab s), On ''onChange'' ChooseEditTab]
          [yaml_pane env p d (ez_editor s), versions_pane env p d flight (ez_compare s)]]"

definition edit_view ::
  "edit_env \<Rightarrow> edit_perms \<Rightarrow> edit_data \<Rightarrow> edit_call list \<Rightarrow> edit_state \<Rightarrow> edit_action node" where
  "edit_view env p d flight s =
     El ''PageContainer'' [On ''onBack'' GoBack]
       ([edit_title_view env d,
         edit_buttons_view env p flight (ez_editor s),
         El ''Space'' []
           (shown_if (isDirty (ez_editor s))
              [El ''Alert'' [Attr ''type'' ''warning'',
                 Attr ''message'' (''YAML '' @
     [CHR 0xE5, CHR 0xB7, CHR 0xB2, CHR 0xE8, CHR 0xA2, CHR 0xAB, CHR 0xE4, CHR 0xBF,
      CHR 0xAE, CHR 0xE6, CHR 0x94, CHR 0xB9, CHR 0xE4, CHR 0xBD, CHR 0x86, CHR 0xE5,
      CHR 0xB0, CHR 0x9A, CHR 0xE6, CHR 0x9C, CHR 0xAA, CHR 0xE4, CHR 0xBF, CHR 0x9D,
      CHR 0xE5, CHR 0xAD, CHR 0x98, CHR 0xEF, CHR 0xBC, CHR 0x8C, CHR 0xE7, CHR 0x82,
      CHR 0xB9, CHR 0xE5, CHR 0x87, CHR 0xBB, CHR 0xE5, CHR 0x8F, CHR 0xB3, CHR 0xE4,
      CHR 0xB8, CHR 0x8A, CHR 0xE8, CHR 0xA7, CHR 0x92, CHR 0xE3, CHR 0x80, CHR 0x90,
      CHR 0xE4, CHR 0xBF, CHR 0x9D, CHR 0xE5, CHR 0xAD, CHR 0x98, CHR 0xE3, CHR 0x80,
      CHR 0x91, CHR 0xE5, CHR 0xB0, CHR 0x86, CHR 0xE6, CHR 0x9B, CHR 0xB4, CHR 0xE6,
      CHR 0x96, CHR 0xB0, CHR 0xE5, CHR 0x86, CHR 0x99, CHR 0xE5, CHR 0x85, CHR 0xA5,
      CHR 0xE9, CHR 0x9B, CHR 0x86, CHR 0xE7, CHR 0xBE, CHR 0xA4, CHR 0xE3, CHR 0x80,
      CHR 0x82])] []] @
            [El ''Row'' []
               [El ''Col'' [] [editor_card env p d flight s],
                El ''Col'' [] [summary_card env d]]]),
         compare_drawer d (ez_compare s)] @
        map rollback_dialog (ez_confirms s))"

subsection \<open>What the actions, the replies and the effects do\<close>

definition ask_diff ::
  "compare_state \<times> (string + int \<times> int) \<Rightarrow> edit_state \<Rightarrow> edit_state \<times> edit_call page_effect list" where
  "ask_diff outcome s =
     (case outcome of
        (c, Inl w) \<Rightarrow> (s\<lparr>ez_compare := c\<rparr>, [PToast ToastWarn w])
      | (c, Inr pair) \<Rightarrow> (s\<lparr>ez_compare := c\<rparr>, [PSend (CallDiff pair)]))"

definition edit_act ::
  "edit_env \<Rightarrow> edit_perms \<Rightarrow> edit_action \<Rightarrow> event \<Rightarrow> edit_data \<Rightarrow> edit_state \<Rightarrow> edit_state \<times> edit_call page_effect list" where
  "edit_act env p a x d s =
     (let t = ee_target env
      in case a of
        GoBack \<Rightarrow> (s, [PNavigate ''-1''])
      | SaveYaml \<Rightarrow>
          (s, start_call (CallSave (yamlValue (ez_editor s)))
                (edit_handleSave (ee_stringify env) (ee_load env) p t (ez_editor s) False))
      | RemoveResource \<Rightarrow> (s, start_call CallRemove (edit_handleDelete p t False))
      | ChooseEditTab \<Rightarrow> (s\<lparr>ez_tab := text_or x (ez_tab s)\<rparr>, [])
      | OpenCompare \<Rightarrow> ask_diff (openCompare (ez_compare s)) s
      | ToggleVersion seq \<Rightarrow> (s\<lparr>ez_compare := toggleSeq seq (ez_compare s)\<rparr>, [])
      | CompareWithCurrent seq \<Rightarrow> ask_diff (runCompare seq CURRENT_VERSION_SEQ (ez_compare s)) s
      | AskRollback seq \<Rightarrow>
          (if \<not> ep_rollback p then (s, reported (edit_handleRollback p t seq None))
           else (s\<lparr>ez_confirms := seq # ez_confirms s\<rparr>, []))
      | ConfirmRollback seq \<Rightarrow>
          (s\<lparr>ez_confirms := remove1 seq (ez_confirms s)\<rparr>,
           start_call (CallRollbackTo seq) (edit_handleRollback p t seq None))
      | CancelRollback seq \<Rightarrow> (s\<lparr>ez_confirms := remove1 seq (ez_confirms s)\<rparr>, [])
      | CloseCompare \<Rightarrow> (s\<lparr>ez_compare := close_compare (ez_compare s)\<rparr>, []))"

definition edit_reply ::
  "edit_env \<Rightarrow> edit_perms \<Rightarrow> edit_call \<Rightarrow> edit_answer \<Rightarrow> edit_state \<Rightarrow> edit_state \<times> edit_call page_effect list" where
  "edit_reply env p c r s =
     (let t = ee_target env
      in case c of
        CallSave y \<Rightarrow>
          (s, reported (edit_handleSave (ee_stringify env) (ee_load env) p t ((ez_editor s)\<lparr>yamlValue := y\<rparr>) (r = Done)))
      | CallRemove \<Rightarrow> (s, reported (edit_handleDelete p t (r = Done)))
      | CallRollbackTo seq \<Rightarrow>
          (s, reported (edit_handleRollback p t seq (case r of RolledBack b n \<Rightarrow> Some (b, n) | _ \<Rightarrow> None)))
      | CallDiff pair \<Rightarrow>
          (s\<lparr>ez_compare := compare_reply pair (case r of DiffTexts a b \<Rightarrow> Some (a, b) | _ \<Rightarrow> None) (ez_compare s)\<rparr>, []))"

definition edit_commit ::
  "edit_env \<Rightarrow> edit_data \<Rightarrow> edit_state \<Rightarrow> edit_state \<times> edit_call page_effect list" where
  "edit_commit env d s =
     (if ed_resource d = ez_seen s then s
      else s\<lparr>ez_seen := ed_resource d, ez_editor := load_effect (ee_stringify env) (ed_resource d) (ez_editor s)\<rparr>,
      (case edit_cluster_effect (ee_target env) of None \<Rightarrow> [] | Some c \<Rightarrow> [PSelectCluster (Some c)]) @
      [PNavigate (''?'' @ usp_toString (edit_tab_query (ez_tab s)))])"

definition edit_typed :: "edit_perms \<Rightarrow> edit_state \<Rightarrow> edit_state \<Rightarrow> bool" where
  "edit_typed p s s' \<longleftrightarrow>
     ep_update p \<and> s' = s\<lparr>ez_editor := (ez_editor s)\<lparr>yamlValue := yamlValue (ez_editor s')\<rparr>\<rparr>"

definition edit_page ::
  "edit_env \<Rightarrow> (string \<Rightarrow> string option) \<Rightarrow> current_user option
    \<Rightarrow> (edit_data, edit_state, edit_action, edit_call, edit_answer) machine" where
  "edit_page env get u =
     (let p = edit_page_perms u
      in \<lparr>pg_start = edit_start get, pg_view = edit_view env p, pg_act = edit_act env p, pg_reply = edit_reply env p,
          pg_commit = edit_commit env, pg_typed = edit_typed p\<rparr>)"

subsection \<open>What the page offers\<close>

definition edit_offer_ok :: "edit_perms \<Rightarrow> edit_call list \<Rightarrow> edit_state \<Rightarrow> edit_action \<Rightarrow> bool" where
  "edit_offer_ok p flight s a \<longleftrightarrow>
     (case a of
        SaveYaml \<Rightarrow> ep_update p \<and> isDirty (ez_editor s) \<and> filter is_CallSave flight = []
      | RemoveResource \<Rightarrow> ep_delete p
      | OpenCompare \<Rightarrow> canOpenCompare (ez_compare s)
      | AskRollback seq \<Rightarrow> ep_rollback p
      | ConfirmRollback seq \<Rightarrow> seq \<in> set (ez_confirms s)
      | _ \<Rightarrow> True)"

lemma edit_buttons_offer: "offers_only (edit_offer_ok p flight s) (edit_buttons_view env p flight (ez_editor s))"
  by (auto simp: edit_buttons_view_def save_button_def edit_offer_ok_def offer_simps intro: not_list_ex_filter)

lemma edit_texts_offer:
  "offers_only P (edit_title_view env d)" "offers_only P (yaml_pane env p d e)" "offers_only P (summary_card env d)"
  by (simp_all add: edit_title_view_def yaml_pane_def summary_card_def summary_items_def Let_def case_prod_unfold
      offer_simps split: option.split editor_body.split)

lemma versions_offer: "offers_only (edit_offer_ok p flight s) (versions_pane env p d flight (ez_compare s))"
  by (simp add: versions_pane_def compare_bar_def live_card_def version_card_def compare_button_def edit_offer_ok_def
      offer_simps)

lemma compare_drawer_offers: "offers_only (edit_offer_ok p flight s) (compare_drawer d c)"
  by (simp add: compare_drawer_def edit_offer_ok_def offer_simps split: option.split prod.split)

lemma rollback_dialogs_offer: "list_all (\<lambda>seq. offers_only (edit_offer_ok p flight s) (rollback_dialog seq)) (ez_confirms s)"
  by (simp add: rollback_dialog_def edit_offer_ok_def list_all_iff offer_simps)

lemma plain_edit_offers: "edit_offer_ok p flight s GoBack" "edit_offer_ok p flight s ChooseEditTab"
  by (simp_all add: edit_offer_ok_def)

lemma edit_offered: "a \<in> set (acts (edit_view env p d flight s)) \<Longrightarrow> edit_offer_ok p flight s a"
  by (rule offers_onlyD [rotated], assumption)
    (simp add: edit_view_def editor_card_def edit_buttons_offer edit_texts_offer versions_offer compare_drawer_offers
      rollback_dialogs_offer plain_edit_offers offer_simps)

subsection \<open>Properties of the runs\<close>

text \<open>Without the permission to save there is nothing to save; the dialogs belong to a permitted rollback.\<close>

definition edit_inv :: "edit_perms \<Rightarrow> edit_state \<Rightarrow> bool" where
  "edit_inv p s \<longleftrightarrow> (isDirty (ez_editor s) \<longrightarrow> ep_update p) \<and> (ez_confirms s \<noteq> [] \<longrightarrow> ep_rollback p)"

definition edit_call_ok :: "edit_perms \<Rightarrow> edit_call \<Rightarrow> bool" where
  "edit_call_ok p c \<longleftrightarrow>
     (case c of
        CallSave y \<Rightarrow> ep_update p \<and> js_trim y \<noteq> []
      | CallRemove \<Rightarrow> ep_delete p
      | CallRollbackTo seq \<Rightarrow> ep_rollback p
      | CallDiff pair \<Rightarrow> ordered_pair pair)"

lemma ask_diff_sends:
  "c \<in> set (sends (snd (ask_diff outcome s))) \<longleftrightarrow> (\<exists>pair. c = CallDiff pair \<and> snd outcome = Inr pair)"
  "length (sends (snd (ask_diff outcome s))) \<le> 1" "filter is_CallSave (sends (snd (ask_diff outcome s))) = []"
  by (auto simp: ask_diff_def split: prod.split sum.split)

lemma ask_diff_state: "fst (ask_diff outcome s) = s\<lparr>ez_compare := fst outcome\<rparr>"
  by (simp add: ask_diff_def split: prod.split sum.split)

lemma run_ordered: "snd (runCompare a b c) = Inr pair \<Longrightarrow> ordered_pair pair"
  using ordered_compare [of a b] by (cases "runCompare a b c") (auto simp: runCompare_Inr)

lemma open_ordered: "snd (openCompare c) = Inr pair \<Longrightarrow> ordered_pair pair"
  using openCompare_Inr [of c "fst (openCompare c)" pair] run_ordered
  by (metis prod.collapse snd_conv)

lemma edit_act_sends:
  "edit_inv p s \<Longrightarrow> edit_offer_ok p flight s a \<Longrightarrow> c \<in> set (sends (snd (edit_act env p a x d s))) \<Longrightarrow> edit_call_ok p c"
  by (cases a)
    (auto simp: edit_act_def edit_inv_def edit_offer_ok_def edit_call_ok_def edit_handleSave_def edit_handleDelete_def
      edit_handleRollback_def ask_diff_sends Let_def dest: run_ordered open_ordered split: if_splits)

lemma edit_act_one:
  "length (sends (snd (edit_act env p a x d s))) \<le> 1"
  "filter is_CallSave (sends (snd (edit_act env p a x d s))) \<noteq> [] \<Longrightarrow> a = SaveYaml"
  by (cases a; simp add: edit_act_def edit_handleSave_def edit_handleDelete_def edit_handleRollback_def
      ask_diff_sends(2) [simplified] Let_def)
    (cases a; simp add: edit_act_def edit_handleSave_def edit_handleDelete_def edit_handleRollback_def
      ask_diff_sends(3) Let_def split: if_splits)

lemma edit_act_inv: "edit_inv p s \<Longrightarrow> edit_offer_ok p flight s a \<Longrightarrow> edit_inv p (fst (edit_act env p a x d s))"
  by (cases a)
    (auto simp: edit_act_def edit_inv_def edit_offer_ok_def ask_diff_state Let_def dest: notin_set_remove1)

lemma edit_reply_inv: "edit_inv p s \<Longrightarrow> edit_inv p (fst (edit_reply env p c r s))"
  by (cases c) (auto simp: edit_reply_def edit_inv_def Let_def)

lemma edit_reply_quiet: "sends (snd (edit_reply env p c r s)) = []"
  by (cases c) (simp_all add: edit_reply_def Let_def)

lemma edit_commit_inv: "edit_inv p s \<Longrightarrow> edit_inv p (fst (edit_commit env d s))"
  by (auto simp: edit_commit_def edit_inv_def load_effect_def isDirty_def)

lemma edit_commit_quiet: "sends (snd (edit_commit env d s)) = []"
  by (simp add: edit_commit_def split: option.split)

lemma edit_typed_inv: "edit_inv p s \<Longrightarrow> edit_typed p s s' \<Longrightarrow> edit_inv p s'"
  unfolding edit_typed_def by (elim conjE, erule ssubst) (simp add: edit_inv_def)

lemma edit_start_inv: "edit_inv p (edit_start get)"
  by (simp add: edit_inv_def edit_start_def isDirty_def)

lemmas edit_steps = edit_act_inv edit_reply_inv edit_reply_quiet edit_commit_inv edit_commit_quiet edit_typed_inv
  edit_start_inv

interpretation edit_machine: guarded_page "edit_page env get u"
  "edit_inv (edit_page_perms u)" "edit_call_ok (edit_page_perms u)"
  by unfold_locales (auto simp: edit_page_def Let_def edit_steps dest: edit_offered edit_act_sends)

interpretation edit_save_once: single_submit "edit_page env get u"
  "edit_inv (edit_page_perms u)" "edit_call_ok (edit_page_perms u)" is_CallSave
  by unfold_locales
    (auto simp: edit_page_def Let_def edit_act_one(1) [simplified] edit_offer_ok_def
      dest!: edit_act_one(2) edit_offered)

subsection \<open>The comparison of the page\<close>

definition diffs :: "edit_call list \<Rightarrow> (int \<times> int) list" where
  "diffs cs = concat (map (\<lambda>c. case c of CallDiff pair \<Rightarrow> [pair] | _ \<Rightarrow> []) cs)"

lemma diffs_simps [simp]:
  "diffs [] = []" "diffs (CallDiff pair # cs) = pair # diffs cs" "diffs (CallSave y # cs) = diffs cs"
  "diffs (CallRemove # cs) = diffs cs" "diffs (CallRollbackTo n # cs) = diffs cs" "diffs (cs @ bs) = diffs cs @ diffs bs"
  by (simp_all add: diffs_def)

lemma diffs_set: "set (diffs cs) = {pair. CallDiff pair \<in> set cs}"
  by (induction cs) (auto simp: diffs_def split: edit_call.split)

lemma diffs_Cons: "diffs (c # cs) = diffs [c] @ diffs cs"
  by (cases c) simp_all

lemma diffs_sub: "c \<in> set cs \<Longrightarrow> mset (diffs [c]) \<subseteq># mset (diffs cs)"
  by (cases c) (simp_all add: diffs_set)

lemma diffs_remove1: "c \<in> set cs \<Longrightarrow> mset (diffs (remove1 c cs)) = mset (diffs cs) - mset (diffs [c])"
proof (induction cs)
  case (Cons b cs)
  then show ?case
    using diffs_sub [of c cs] diffs_Cons [of b cs] diffs_Cons [of b "remove1 c cs"]
    by (cases "b = c") simp_all
qed simp

lemma edit_act_compare:
  assumes "compare_reach (ez_compare s) flying" and "edit_act env p a x d s = (s', es)"
  shows "compare_reach (ez_compare s') (diffs (sends es) @ flying)"
proof -
  have ask: "compare_reach (ez_compare s') (diffs (sends es) @ flying)"
    if "ask_diff outcome s = (s', es)" and "outcome = openCompare (ez_compare s) \<or> outcome = runCompare m n (ez_compare s)"
    for outcome m n
  proof (cases "snd outcome")
    case (Inl w)
    then have "fst outcome = ez_compare s"
      using that(2) by (auto simp: openCompare_def runCompare_def Let_def split: if_splits)
    then show ?thesis using that(1) Inl assms(1) by (cases outcome) (auto simp: ask_diff_def)
  next
    case (Inr pair)
    then have "compare_reach (fst outcome) (pair # flying)"
      using that(2) compare_reach.button [OF assms(1)] compare_reach.run_ok [OF assms(1)]
      by (metis prod.collapse)
    then show ?thesis using that(1) Inr by (cases outcome) (auto simp: ask_diff_def)
  qed
  show ?thesis
    using assms ask [of "openCompare (ez_compare s)"] ask [of "runCompare m CURRENT_VERSION_SEQ (ez_compare s)" m CURRENT_VERSION_SEQ for m]
    by (cases a)
      (auto simp: edit_act_def edit_handleSave_def edit_handleDelete_def edit_handleRollback_def Let_def
        intro: compare_reach.toggle compare_reach.close split: if_splits)
qed

lemma edit_reply_compare:
  assumes "compare_reach (ez_compare s) flying" and "mset flying = mset (diffs flight)" and "c \<in> set flight"
    and "edit_reply env p c r s = (s', es)"
  shows "\<exists>flying'. compare_reach (ez_compare s') flying' \<and> mset flying' = mset (diffs (remove1 c flight))"
proof (cases c)
  case (CallDiff pair)
  then have "pair \<in> set flying"
    using assms(2,3) diffs_set [of flight] mset_eq_setD [OF assms(2)] by auto
  from compare_reach.reply [OF assms(1) this] show ?thesis
    using assms(2,4) diffs_remove1 [OF assms(3)] CallDiff
    by (auto simp: edit_reply_def Let_def intro!: exI [of _ "remove1 pair flying"])
qed (use assms diffs_remove1 [OF assms(3)] in \<open>auto simp: edit_reply_def Let_def\<close>)

lemma edit_quiet_compare:
  "ez_compare (fst (edit_commit env d s)) = ez_compare s" "edit_typed p s s' \<Longrightarrow> ez_compare s' = ez_compare s"
  by (simp_all add: edit_commit_def edit_typed_def) (elim conjE, drule arg_cong [where f = ez_compare], simp)

lemma edit_compare_reach:
  "page_reach (edit_page env get u) s flight tr \<Longrightarrow>
     \<exists>flying. compare_reach (ez_compare s) flying \<and> mset flying = mset (diffs flight)"
proof (induction rule: page_reach.induct)
  case start
  then show ?case using compare_reach.start by (fastforce simp: edit_page_def edit_start_def Let_def)
next
  case (act s flight tr a d x s' es)
  then obtain flying where f: "compare_reach (ez_compare s) flying" "mset flying = mset (diffs flight)" by blast
  from edit_act_compare [OF f(1)] act.hyps(3) f(2) show ?case
    by (fastforce simp: edit_page_def Let_def)
next
  case (reply s flight tr c r s' es)
  then obtain flying where f: "compare_reach (ez_compare s) flying" "mset flying = mset (diffs flight)" by blast
  have es: "sends es = []" using edit_machine.reply_quiet [of env get u c r s] reply.hyps(3) by simp
  from reply.hyps(3) have "edit_reply env (edit_page_perms u) c r s = (s', es)" by (simp add: edit_page_def Let_def)
  from edit_reply_compare [OF f reply.hyps(2) this] es show ?case by simp
next
  case (commit s flight tr d s' es)
  moreover have "sends es = []" using edit_machine.commit_quiet [of env get u d s] commit.hyps(2) by simp
  ultimately show ?case using edit_quiet_compare(1) [of env d s] by (simp add: edit_page_def Let_def)
next
  case (typed s flight tr s')
  then show ?case using edit_quiet_compare(2) [of "edit_page_perms u" s s'] by (simp add: edit_page_def Let_def)
qed

text \<open>
  C14. Whatever happens on the page of a resource, in any order, while the resource and its versions
  change under it: it is saved only with the permission, with a text, and not twice at a time; it is
  deleted and rolled back only with the permission of each; every comparison asks for a history
  version against the live object or a newer version; and the comparison behaves as the relation
  \<open>compare_reach\<close> says, with the requests of the page in flight.
\<close>

theorem edit_run_safe:
  assumes "page_reach (edit_page env get u) s flight tr"
  shows "(\<forall>c \<in> set (sends tr). edit_call_ok (edit_page_perms u) c)
    \<and> length (filter is_CallSave flight) \<le> 1
    \<and> (\<exists>flying. compare_reach (ez_compare s) flying \<and> mset flying = mset (diffs flight))"
  using edit_machine.sent_permitted [OF assms] edit_save_once.at_most_one_in_flight [OF assms]
    edit_compare_reach [OF assms]
  by blast

definition demo_edit_env :: edit_env where
  "demo_edit_env = \<lparr>ee_target = \<lparr>gr_code = ''prod'', gr_apiVersion = ''v1'', gr_kind = ''ConfigMap'',
     gr_namespace = Some ''web'', gr_name = ''cfg''\<rparr>, ee_stringify = (\<lambda>_. ''a: 1''), ee_load = (\<lambda>_. None),
     ee_ago = (\<lambda>t. t), ee_fmt = (\<lambda>t. t)\<rparr>"

definition demo_edit_data :: edit_data where
  "demo_edit_data = \<lparr>ed_resource = Some (JObj [(''a'', JNum 1)]), ed_loading = False, ed_error = None,
     ed_versions = None, ed_diffLoading = False\<rparr>"

definition demo_saver :: "current_user option" where
  "demo_saver = Some (demo_user [''resource:update''])"

definition demo_edited :: edit_state where
  "demo_edited = (edit_start (\<lambda>_. None))\<lparr>ez_editor := \<lparr>yamlValue = ''a: 2'', originalYaml = []\<rparr>\<rparr>"

lemma demo_saver_can: "ep_update (edit_page_perms demo_saver)"
  by (simp add: edit_page_perms_def demo_saver_def hasPerm_def demo_user_def user_perms_def isPlatformAdmin_def)

lemma demo_save_reach:
  "page_reach (edit_page demo_edit_env (\<lambda>_. None) demo_saver) demo_edited [CallSave ''a: 2''] [PSend (CallSave ''a: 2'')]"
proof -
  let ?p = "edit_page demo_edit_env (\<lambda>_. None) demo_saver"
  have "page_reach ?p (edit_start (\<lambda>_. None)) [] []"
    using page_reach.start [of ?p] by (simp add: edit_page_def Let_def)
  moreover have "pg_typed ?p (edit_start (\<lambda>_. None)) demo_edited"
    by (simp add: edit_page_def edit_typed_def demo_edited_def edit_start_def demo_saver_can Let_def)
  ultimately have typed: "page_reach ?p demo_edited [] []" by (rule page_reach.typed)
  have "page_reach ?p demo_edited ([] @ sends [PSend (CallSave ''a: 2'')]) ([] @ [PSend (CallSave ''a: 2'')])"
  proof (rule page_reach.act [OF typed, of SaveYaml demo_edit_data NoArg])
    show "SaveYaml \<in> set (acts (pg_view ?p demo_edit_data [] demo_edited))"
      by (simp add: edit_page_def edit_view_def edit_buttons_view_def save_button_def isDirty_def demo_edited_def
          demo_saver_can view_simps Let_def)
    have "js_trim ''a: 2'' \<noteq> []" by code_simp
    then show "pg_act ?p SaveYaml NoArg demo_edit_data demo_edited = (demo_edited, [PSend (CallSave ''a: 2'')])"
      by (simp add: edit_page_def edit_act_def edit_handleSave_def try_send_def start_call_def demo_edited_def
          demo_saver_can Let_def)
  qed
  then show ?thesis by simp
qed

theorem edit_run_safe_witness: "edit_call_ok (edit_page_perms demo_saver) (CallSave ''a: 2'')"
  using edit_run_safe [OF demo_save_reach] by simp

text \<open>
  A resource that changed replaces the text of the editor, also one with changes that are not saved:
  what was typed while a save or a rollback was in flight is gone when the new object arrives.
\<close>

lemma reload_drops_edits:
  assumes "json_truthy (ed_resource d)" and "ed_resource d \<noteq> ez_seen s"
  shows "yamlValue (ez_editor (fst (edit_commit env d s))) = ee_stringify env (ed_resource d)"
    and "\<not> isDirty (ez_editor (fst (edit_commit env d s)))"
  using assms by (simp_all add: edit_commit_def load_effect_def isDirty_def)

text \<open>As long as the resource stays the same, a commit keeps the text.\<close>

lemma idle_commit_keeps_edits: "ed_resource d = ez_seen s \<Longrightarrow> fst (edit_commit env d s) = s"
  by (simp add: edit_commit_def)

end
