(* ===== verification/ClusterView.thy ===== *)
theory ClusterView
  imports View ClusterList
begin

section \<open>The list of clusters as a machine\<close>

text \<open>
  What \<open>pages/clusters/list.tsx\<close> renders and the runs of the page. A confirmation hangs on its button:
  it is rendered as a child of it, since a disabled button opens none. The two loading flags are true
  exactly from the request to its reply, as \<open>isLoading\<close> is. The deletion keeps the selected cluster of
  the click. \<open>json_ok\<close> is \<open>JSON.parse\<close>, \<open>fmt\<close> is dayjs.
\<close>

record 'l clusters_data =
  kd_keyword :: string
  kd_selected :: "string option"
  kd_clusters :: "('l cluster list \<times> int) option"
  kd_fetching :: bool

datatype 'l clusters_call =
    CallPing string
  | is_CallTest: CallTest "'l edit_drawer"
  | is_CallUpdate: CallUpdate "'l edit_drawer"
  | CallDeleteCluster "string option" string

record 'l clusters_state =
  kz_query :: cluster_list_query
  kz_pinging :: "string option"
  kz_drawer :: "'l edit_drawer"

datatype 'l clusters_action =
    EnterCluster "'l cluster" | PingRow "'l cluster" | EditRow "'l cluster" | DeleteRow "'l cluster"
  | SearchClusters | ResetClusters | ReloadClusters | GoImport | ChangeClusterPage
  | CloseEdit | TestEdit | SaveEdit

definition edit_form_empty :: edit_form where
  "edit_form_empty = \<lparr>ef_name = [], ef_description = None, ef_labels = None, ef_kubeconfig_text = None\<rparr>"

definition clusters_start :: "(string \<Rightarrow> string option) \<Rightarrow> 'l clusters_state" where
  "clusters_start get =
     \<lparr>kz_query = cluster_list_init get, kz_pinging = None,
      kz_drawer = \<lparr>ed_cluster = None, ed_ping = None, ed_form = edit_form_empty\<rparr>\<rparr>"

subsection \<open>What is rendered\<close>

definition cluster_name_view :: "'l cluster \<Rightarrow> 'l clusters_action node list" where
  "cluster_name_view r =
     [El ''Space'' []
        [El ''a'' [On ''onClick'' (EnterCluster r)] [Txt (cl_name r)], El ''span'' [] [Txt (cl_code r)]]]"

definition cluster_actions_view ::
  "current_user option \<Rightarrow> string option \<Rightarrow> 'l cluster \<Rightarrow> 'l clusters_action node list" where
  "cluster_actions_view u pinging r =
     [El ''Space'' []
        [El ''Button''
           [Attr ''icon'' (if pinging = Some (cl_code r) then ''Spin'' else ''PlayCircleOutlined''),
            Flag ''disabled'' (ping_disabled u pinging (cl_code r)), On ''onClick'' (PingRow r)] [Txt ''Ping''],
         El ''Button'' [Flag ''disabled'' (\<not> hasPerm u ''cluster:update''), On ''onClick'' (EditRow r)] [Txt [CHR 0xE7, CHR 0xBC, CHR 0x96, CHR 0xE8, CHR 0xBE, CHR 0x91]],
         El ''Button'' [Flag ''disabled'' (\<not> hasPerm u ''cluster:delete'')]
           [Txt [CHR 0xE5, CHR 0x88, CHR 0xA0, CHR 0xE9, CHR 0x99, CHR 0xA4],
            El ''Popconfirm''
              [Attr ''title'' ([CHR 0xE7, CHR 0xA1, CHR 0xAE, CHR 0xE5, CHR 0xAE, CHR 0x9A, CHR 0xE5, CHR 0x88,
      CHR 0xA0, CHR 0xE9, CHR 0x99, CHR 0xA4, CHR 0xE9, CHR 0x9B, CHR 0x86, CHR 0xE7,
      CHR 0xBE, CHR 0xA4, CHR 0xE3, CHR 0x80, CHR 0x8C] @ cl_name r @ ([CHR 0xE3, CHR 0x80, CHR 0x8D] @
     ''?'')),
               Attr ''description'' [CHR 0xE5, CHR 0x88, CHR 0xA0, CHR 0xE9, CHR 0x99, CHR 0xA4, CHR 0xE5, CHR 0x90,
      CHR 0x8E, CHR 0xE6, CHR 0x97, CHR 0xA0, CHR 0xE6, CHR 0xB3, CHR 0x95, CHR 0xE6,
      CHR 0x81, CHR 0xA2, CHR 0xE5, CHR 0xA4, CHR 0x8D, CHR 0xEF, CHR 0xBC, CHR 0x8C,
      CHR 0xE8, CHR 0xAF, CHR 0xB7, CHR 0xE7, CHR 0xA1, CHR 0xAE, CHR 0xE8, CHR 0xAE,
      CHR 0xA4, CHR 0xE3, CHR 0x80, CHR 0x82], On ''onConfirm'' (DeleteRow r)] []],
         El ''Button'' [On ''onClick'' (EnterCluster r)] [Txt [CHR 0xE8, CHR 0xB5, CHR 0x84, CHR 0xE6, CHR 0xBA, CHR 0x90]]]]"

definition cluster_columns ::
  "(string \<Rightarrow> string) \<Rightarrow> current_user option \<Rightarrow> string option
    \<Rightarrow> (string \<times> ('l cluster \<Rightarrow> 'l clusters_action node list)) list" where
  "cluster_columns fmt u pinging =
     [(([CHR 0xE5, CHR 0x90, CHR 0x8D, CHR 0xE7, CHR 0xA7, CHR 0xB0] @
     '' / '' @
     [CHR 0xE7, CHR 0xBC, CHR 0x96, CHR 0xE7, CHR 0xA0, CHR 0x81]), cluster_name_view),
      ([CHR 0xE7, CHR 0x89, CHR 0x88, CHR 0xE6, CHR 0x9C, CHR 0xAC], \<lambda>r. [Txt (fst (cluster_cells fmt r))]),
      ([CHR 0xE8, CHR 0x8A, CHR 0x82, CHR 0xE7, CHR 0x82, CHR 0xB9, CHR 0xE6, CHR 0x95,
      CHR 0xB0], \<lambda>r. [Txt (fst (snd (cluster_cells fmt r)))]),
      ([CHR 0xE7, CHR 0x8A, CHR 0xB6, CHR 0xE6, CHR 0x80, CHR 0x81], \<lambda>r. [El ''Tag'' [Attr ''color'' (fst (cluster_status_tag (cl_status r)))]
         [Txt (snd (cluster_status_tag (cl_status r)))]]),
      ([CHR 0xE6, CHR 0x9C, CHR 0x80, CHR 0xE8, CHR 0xBF, CHR 0x91, CHR 0xE5, CHR 0x90,
      CHR 0x8C, CHR 0xE6, CHR 0xAD, CHR 0xA5, CHR 0xE6, CHR 0x97, CHR 0xB6, CHR 0xE9,
      CHR 0x97, CHR 0xB4], \<lambda>r. [Txt (snd (snd (snd (cluster_cells fmt r))))]),
      ([CHR 0xE6, CHR 0x93, CHR 0x8D, CHR 0xE4, CHR 0xBD, CHR 0x9C], cluster_actions_view u pinging)]"

definition clusters_table ::
  "(string \<Rightarrow> string) \<Rightarrow> current_user option \<Rightarrow> 'l clusters_data \<Rightarrow> 'l clusters_state \<Rightarrow> 'l clusters_action node" where
  "clusters_table fmt u d s =
     El ''ProTable'' [Attr ''headerTitle'' [CHR 0xE9, CHR 0x9B, CHR 0x86, CHR 0xE7, CHR 0xBE, CHR 0xA4, CHR 0xE5, CHR 0x88,
      CHR 0x97, CHR 0xE8, CHR 0xA1, CHR 0xA8], Flag ''loading'' (kd_fetching d), On ''onSubmit'' SearchClusters,
        On ''onReset'' ResetClusters, On ''reload'' ReloadClusters]
       ([El ''search'' [Attr ''searchText'' [CHR 0xE6, CHR 0x90, CHR 0x9C, CHR 0xE7, CHR 0xB4, CHR 0xA2], Attr ''resetText'' [CHR 0xE9, CHR 0x87, CHR 0x8D, CHR 0xE7, CHR 0xBD, CHR 0xAE], Attr ''keyword'' (kd_keyword d)] [],
         El ''toolBar'' []
           [El ''Button'' [On ''onClick'' ReloadClusters] [Txt [CHR 0xE5, CHR 0x88, CHR 0xB7, CHR 0xE6, CHR 0x96, CHR 0xB0]],
            El ''Button'' [On ''onClick'' GoImport, Flag ''disabled'' (\<not> hasPerm u ''cluster:create'')] [Txt [CHR 0xE5, CHR 0xAF, CHR 0xBC, CHR 0xE5, CHR 0x85, CHR 0xA5, CHR 0xE9, CHR 0x9B,
      CHR 0x86, CHR 0xE7, CHR 0xBE, CHR 0xA4]]],
         El ''pagination''
           [Attr ''current'' (or_num_str (Some (cq_page (kz_query s))) ''1''),
            Attr ''pageSize'' (or_num_str (Some (cq_size (kz_query s))) ''10''),
            Attr ''total'' (case kd_clusters d of None \<Rightarrow> ''0'' | Some (_, n) \<Rightarrow> show_int n),
            On ''onChange'' ChangeClusterPage] []] @
        table_rows (cluster_columns fmt u (kz_pinging s)) (case kd_clusters d of None \<Rightarrow> [] | Some (cs, _) \<Rightarrow> cs))"

definition edit_form_view :: "(string \<Rightarrow> bool) \<Rightarrow> 'l edit_drawer \<Rightarrow> 'l clusters_action node" where
  "edit_form_view json_ok dr =
     El ''Form'' []
       ([El ''Form.Item'' [Attr ''name'' ''name'', Attr ''label'' [CHR 0xE9, CHR 0x9B, CHR 0x86, CHR 0xE7, CHR 0xBE, CHR 0xA4, CHR 0xE5, CHR 0x90,
      CHR 0x8D, CHR 0xE7, CHR 0xA7, CHR 0xB0], Rules [required]]
           [El ''Input'' [Attr ''placeholder'' [CHR 0xE8, CHR 0xAF, CHR 0xB7, CHR 0xE8, CHR 0xBE, CHR 0x93, CHR 0xE5, CHR 0x85,
      CHR 0xA5, CHR 0xE9, CHR 0x9B, CHR 0x86, CHR 0xE7, CHR 0xBE, CHR 0xA4, CHR 0xE5,
      CHR 0x90, CHR 0x8D, CHR 0xE7, CHR 0xA7, CHR 0xB0]] []],
         El ''Form.Item'' [Attr ''name'' ''description'', Attr ''label'' [CHR 0xE6, CHR 0x8F, CHR 0x8F, CHR 0xE8, CHR 0xBF, CHR 0xB0]]
           [El ''Input.TextArea'' [Attr ''placeholder'' [CHR 0xE8, CHR 0xAF, CHR 0xB7, CHR 0xE8, CHR 0xBE, CHR 0x93, CHR 0xE5, CHR 0x85,
      CHR 0xA5, CHR 0xE6, CHR 0x8F, CHR 0x8F, CHR 0xE8, CHR 0xBF, CHR 0xB0, CHR 0xEF,
      CHR 0xBC, CHR 0x88, CHR 0xE5, CHR 0x8F, CHR 0xAF, CHR 0xE9, CHR 0x80, CHR 0x89,
      CHR 0xEF, CHR 0xBC, CHR 0x89]] []],
         El ''Form.Item''
           [Attr ''name'' ''labels'', Attr ''label'' ([CHR 0xE6, CHR 0xA0, CHR 0x87, CHR 0xE7, CHR 0xAD, CHR 0xBE] @
     '' (JSON)''),
            Rules [no_rule\<lparr>fr_pattern := Some json_ok\<rparr>]]
           [El ''Input.TextArea'' [Attr ''placeholder'' ([CHR 0xE7, CHR 0x95, CHR 0x99, CHR 0xE7, CHR 0xA9, CHR 0xBA] @
     '' = '' @
     [CHR 0xE4, CHR 0xB8, CHR 0x8D, CHR 0xE4, CHR 0xBF, CHR 0xAE, CHR 0xE6, CHR 0x94,
      CHR 0xB9])] []],
         El ''Form.Item''
           [Attr ''name'' ''kubeconfig_text'', Attr ''label'' ([CHR 0xE6, CHR 0x9B, CHR 0xB4, CHR 0xE6, CHR 0x96, CHR 0xB0] @
     '' Kubeconfig ('' @
     [CHR 0xE5, CHR 0x8F, CHR 0xAF, CHR 0xE9, CHR 0x80, CHR 0x89] @
     '')''),
            Attr ''help'' [CHR 0xE7, CHR 0x95, CHR 0x99, CHR 0xE7, CHR 0xA9, CHR 0xBA, CHR 0xE8, CHR 0xA1,
      CHR 0xA8, CHR 0xE7, CHR 0xA4, CHR 0xBA, CHR 0xE4, CHR 0xB8, CHR 0x8D, CHR 0xE4,
      CHR 0xBF, CHR 0xAE, CHR 0xE6, CHR 0x94, CHR 0xB9, CHR 0xEF, CHR 0xBC, CHR 0x9B,
      CHR 0xE8, CHR 0x8B, CHR 0xA5, CHR 0xE5, CHR 0xA1, CHR 0xAB, CHR 0xE5, CHR 0x86,
      CHR 0x99, CHR 0xEF, CHR 0xBC, CHR 0x8C, CHR 0xE5, CHR 0xBC, CHR 0xBA, CHR 0xE7,
      CHR 0x83, CHR 0x88, CHR 0xE5, CHR 0xBB, CHR 0xBA, CHR 0xE8, CHR 0xAE, CHR 0xAE,
      CHR 0xE5, CHR 0x85, CHR 0x88, CHR 0xE7, CHR 0x82, CHR 0xB9, CHR 0xE3, CHR 0x80,
      CHR 0x8C, CHR 0xE6, CHR 0xA0, CHR 0xA1, CHR 0xE9, CHR 0xAA, CHR 0x8C, CHR 0xE8,
      CHR 0xBF, CHR 0x9E, CHR 0xE6, CHR 0x8E, CHR 0xA5, CHR 0xE3, CHR 0x80, CHR 0x8D,
      CHR 0xE5, CHR 0x86, CHR 0x8D, CHR 0xE4, CHR 0xBF, CHR 0x9D, CHR 0xE5, CHR 0xAD,
      CHR 0x98]]
           [El ''Input.TextArea'' [Attr ''placeholder'' ([CHR 0xE7, CHR 0xB2, CHR 0x98, CHR 0xE8, CHR 0xB4, CHR 0xB4, CHR 0xE6, CHR 0x96,
      CHR 0xB0, CHR 0xE7, CHR 0x9A, CHR 0x84] @
     '' kubeconfig YAML '' @
     [CHR 0xE5, CHR 0x86, CHR 0x85, CHR 0xE5, CHR 0xAE, CHR 0xB9])] []]] @
        (case ed_ping dr of
           None \<Rightarrow> []
         | Some (ok, msg) \<Rightarrow>
             [El ''Space'' []
                [El ''span'' []
                   [Txt ((if ok then ('' '' @
     [CHR 0xE8, CHR 0xBF, CHR 0x9E, CHR 0xE6, CHR 0x8E, CHR 0xA5, CHR 0xE6, CHR 0xA0,
      CHR 0xA1, CHR 0xE9, CHR 0xAA, CHR 0x8C, CHR 0xE9, CHR 0x80, CHR 0x9A, CHR 0xE8,
      CHR 0xBF, CHR 0x87]) else ('' '' @
     [CHR 0xE8, CHR 0xBF, CHR 0x9E, CHR 0xE6, CHR 0x8E, CHR 0xA5, CHR 0xE6, CHR 0xA0,
      CHR 0xA1, CHR 0xE9, CHR 0xAA, CHR 0x8C, CHR 0xE5, CHR 0xA4, CHR 0xB1, CHR 0xE8,
      CHR 0xB4, CHR 0xA5])) @
                      (if msg \<noteq> [] then [CHR 0xEF, CHR 0xBC, CHR 0x9A] @ msg else []))]]]))"

definition edit_drawer_view ::
  "(string \<Rightarrow> bool) \<Rightarrow> current_user option \<Rightarrow> 'l clusters_call list \<Rightarrow> 'l edit_drawer \<Rightarrow> 'l clusters_action node" where
  "edit_drawer_view json_ok u flight dr =
     El ''Drawer''
       [Attr ''title'' (case ed_cluster dr of None \<Rightarrow> [CHR 0xE7, CHR 0xBC, CHR 0x96, CHR 0xE8, CHR 0xBE, CHR 0x91, CHR 0xE9, CHR 0x9B,
      CHR 0x86, CHR 0xE7, CHR 0xBE, CHR 0xA4] | Some r \<Rightarrow> [CHR 0xE7, CHR 0xBC, CHR 0x96, CHR 0xE8, CHR 0xBE, CHR 0x91, CHR 0xE9, CHR 0x9B,
      CHR 0x86, CHR 0xE7, CHR 0xBE, CHR 0xA4, CHR 0xEF, CHR 0xBC, CHR 0x9A] @ cl_name r),
        Flag ''open'' (ed_cluster dr \<noteq> None), On ''onClose'' CloseEdit]
       [El ''extra'' []
          [El ''Space'' []
             [El ''Button'' [On ''onClick'' CloseEdit] [Txt [CHR 0xE5, CHR 0x8F, CHR 0x96, CHR 0xE6, CHR 0xB6, CHR 0x88]],
              El ''Button'' [Flag ''loading'' (list_ex is_CallTest flight), Flag ''disabled'' (\<not> hasPerm u ''cluster:ping''),
                 On ''onClick'' TestEdit] [Txt [CHR 0xE6, CHR 0xA0, CHR 0xA1, CHR 0xE9, CHR 0xAA, CHR 0x8C, CHR 0xE8, CHR 0xBF,
      CHR 0x9E, CHR 0xE6, CHR 0x8E, CHR 0xA5]],
              El ''Button'' [Flag ''loading'' (list_ex is_CallUpdate flight), On ''onClick'' SaveEdit] [Txt [CHR 0xE4, CHR 0xBF, CHR 0x9D, CHR 0xE5, CHR 0xAD, CHR 0x98]]]],
        edit_form_view json_ok dr]"

definition clusters_view ::
  "(string \<Rightarrow> string) \<Rightarrow> (string \<Rightarrow> bool) \<Rightarrow> current_user option \<Rightarrow> 'l clusters_data \<Rightarrow> 'l clusters_call list
    \<Rightarrow> 'l clusters_state \<Rightarrow> 'l clusters_action node" where
  "clusters_view fmt json_ok u d flight s =
     El ''PageContainer'' [] [clusters_table fmt u d s, edit_drawer_view json_ok u flight (kz_drawer s)]"

subsection \<open>What the actions and the replies do\<close>

text \<open>\<open>validateFields\<close>: the rules of the form on its values.\<close>

definition edit_field :: "edit_form \<Rightarrow> string \<Rightarrow> string option" where
  "edit_field f = map_of
     ([(''name'', ef_name f)] @
      (case ef_description f of None \<Rightarrow> [] | Some v \<Rightarrow> [(''description'', v)]) @
      (case ef_labels f of None \<Rightarrow> [] | Some v \<Rightarrow> [(''labels'', v)]) @
      (case ef_kubeconfig_text f of None \<Rightarrow> [] | Some v \<Rightarrow> [(''kubeconfig_text'', v)]))"

definition edit_form_valid :: "(string \<Rightarrow> bool) \<Rightarrow> 'l edit_drawer \<Rightarrow> bool" where
  "edit_form_valid json_ok dr = form_accepts (\<lambda>_. True) (edit_form_view json_ok dr) (edit_field (ed_form dr))"

definition clusters_act ::
  "(string \<Rightarrow> bool) \<Rightarrow> current_user option \<Rightarrow> 'l clusters_action \<Rightarrow> event \<Rightarrow> 'l clusters_data \<Rightarrow> 'l clusters_state
    \<Rightarrow> 'l clusters_state \<times> 'l clusters_call page_effect list" where
  "clusters_act json_ok u a x d s =
     (let dr = kz_drawer s
      in case a of
        EnterCluster r \<Rightarrow> (s, reported (enter_cluster r))
      | PingRow r \<Rightarrow> (s\<lparr>kz_pinging := Some (cl_code r)\<rparr>, [PSend (CallPing (cl_code r))])
      | EditRow r \<Rightarrow> (s\<lparr>kz_drawer := open_edit r dr\<rparr>, [])
      | DeleteRow r \<Rightarrow>
          (s, start_call (CallDeleteCluster (kd_selected d) (cl_code r)) (confirm_delete (kd_selected d) (cl_code r) False))
      | SearchClusters \<Rightarrow>
          (case x of
             FormArg vs \<Rightarrow>
               (case cluster_list_submit (map_of vs ''keyword'') (kz_query s) of (qs, q) \<Rightarrow>
                  (s\<lparr>kz_query := q\<rparr>, [PNavigate (''?'' @ usp_toString qs)]))
           | _ \<Rightarrow> (s, []))
      | ResetClusters \<Rightarrow>
          (case cluster_list_reset (kz_query s) of (qs, q) \<Rightarrow> (s\<lparr>kz_query := q\<rparr>, [PNavigate (''?'' @ usp_toString qs)]))
      | ReloadClusters \<Rightarrow> (s, [PRefetch])
      | GoImport \<Rightarrow> (s, [PNavigate ''/clusters/import''])
      | ChangeClusterPage \<Rightarrow>
          (case x of PageArg n sz \<Rightarrow> (s\<lparr>kz_query := cluster_list_page n sz (kz_query s)\<rparr>, []) | _ \<Rightarrow> (s, []))
      | CloseEdit \<Rightarrow> (s\<lparr>kz_drawer := close_edit dr\<rparr>, [])
      | TestEdit \<Rightarrow>
          (case handleEditPing dr None of (_, es) \<Rightarrow>
             (if sends es = [] then s else s\<lparr>kz_drawer := dr\<lparr>ed_ping := None\<rparr>\<rparr>, start_call (CallTest dr) es))
      | SaveEdit \<Rightarrow>
          (s, start_call (CallUpdate dr) (snd (handleSave json_ok u (edit_form_valid json_ok dr) dr False))))"

text \<open>A reply with an answer of the server, \<open>None\<close> a rejected promise. A test marks the drawer that is open by then.\<close>

definition clusters_reply ::
  "(string \<Rightarrow> bool) \<Rightarrow> current_user option \<Rightarrow> 'l clusters_call \<Rightarrow> ping_response option \<Rightarrow> 'l clusters_state
    \<Rightarrow> 'l clusters_state \<times> 'l clusters_call page_effect list" where
  "clusters_reply json_ok u c res s =
     (case c of
        CallPing code \<Rightarrow> (s\<lparr>kz_pinging := None\<rparr>, reported (handlePing code res))
      | CallTest dr \<Rightarrow>
          (case handleEditPing dr res of (dr', es) \<Rightarrow>
             (s\<lparr>kz_drawer := (kz_drawer s)\<lparr>ed_ping := ed_ping dr'\<rparr>\<rparr>, reported es))
      | CallUpdate dr \<Rightarrow>
          (if res \<noteq> None then s\<lparr>kz_drawer := close_edit (kz_drawer s)\<rparr> else s,
           reported (snd (handleSave json_ok u (edit_form_valid json_ok dr) dr (res \<noteq> None))))
      | CallDeleteCluster selected code \<Rightarrow> (s, reported (confirm_delete selected code (res \<noteq> None))))"

definition clusters_typed :: "'l clusters_state \<Rightarrow> 'l clusters_state \<Rightarrow> bool" where
  "clusters_typed s s' \<longleftrightarrow>
     ed_cluster (kz_drawer s) \<noteq> None
     \<and> s' = s\<lparr>kz_drawer := (kz_drawer s)\<lparr>ed_form := ed_form (kz_drawer s')\<rparr>\<rparr>"

definition clusters_page ::
  "(string \<Rightarrow> string) \<Rightarrow> (string \<Rightarrow> bool) \<Rightarrow> (string \<Rightarrow> string option) \<Rightarrow> current_user option
    \<Rightarrow> ('l clusters_data, 'l clusters_state, 'l clusters_action, 'l clusters_call, ping_response option) machine" where
  "clusters_page fmt json_ok get u =
     \<lparr>pg_start = clusters_start get, pg_view = clusters_view fmt json_ok u, pg_act = clusters_act json_ok u,
      pg_reply = clusters_reply json_ok u, pg_commit = (\<lambda>d s. (s, [])), pg_typed = clusters_typed\<rparr>"

subsection \<open>What the page offers\<close>

definition clusters_offer_ok :: "current_user option \<Rightarrow> 'l clusters_call list \<Rightarrow> 'l clusters_action \<Rightarrow> bool" where
  "clusters_offer_ok u flight a \<longleftrightarrow>
     (case a of
        PingRow r \<Rightarrow> hasPerm u ''cluster:ping''
      | EditRow r \<Rightarrow> hasPerm u ''cluster:update''
      | DeleteRow r \<Rightarrow> hasPerm u ''cluster:delete''
      | GoImport \<Rightarrow> hasPerm u ''cluster:create''
      | TestEdit \<Rightarrow> hasPerm u ''cluster:ping'' \<and> filter is_CallTest flight = []
      | SaveEdit \<Rightarrow> filter is_CallUpdate flight = []
      | _ \<Rightarrow> True)"

lemma clusters_table_offers: "offers_only (clusters_offer_ok u flight) (clusters_table fmt u d s)"
  by (auto simp: clusters_table_def cluster_columns_def cluster_name_view_def cluster_actions_view_def
      ping_disabled_def clusters_offer_ok_def offer_simps split: option.split)

lemma edit_drawer_offers: "offers_only (clusters_offer_ok u flight) (edit_drawer_view json_ok u flight dr)"
  by (auto simp: edit_drawer_view_def edit_form_view_def clusters_offer_ok_def offer_simps
      intro: not_list_ex_filter split: option.split)

lemma clusters_offered:
  "a \<in> set (acts (clusters_view fmt json_ok u d flight s)) \<Longrightarrow> clusters_offer_ok u flight a"
  by (rule offers_onlyD [rotated], assumption)
    (simp add: clusters_view_def clusters_table_offers edit_drawer_offers offer_simps)

text \<open>The form accepts what the handler needs: a name, and labels that are JSON.\<close>

lemma edit_form_valid_iff:
  "edit_form_valid json_ok dr \<longleftrightarrow>
     ef_name (ed_form dr) \<noteq> [] \<and> (truthy (ef_labels (ed_form dr)) \<longrightarrow> json_ok (the (ef_labels (ed_form dr))))"
  by (auto simp: edit_form_valid_def form_accepts_def edit_form_view_def edit_field_def field_of_def rule_ok_def
      required_def no_rule_def truthy_iff split: option.splits)

subsection \<open>Properties of the runs\<close>

text \<open>An open drawer is one that the permission opened.\<close>

definition edit_permitted :: "current_user option \<Rightarrow> 'l clusters_state \<Rightarrow> bool" where
  "edit_permitted u s \<longleftrightarrow> (ed_cluster (kz_drawer s) \<noteq> None \<longrightarrow> hasPerm u ''cluster:update'')"

text \<open>A saved form is accepted by its rules; a new Kubeconfig in it comes with a test that succeeded.\<close>

definition clusters_call_ok :: "(string \<Rightarrow> bool) \<Rightarrow> current_user option \<Rightarrow> 'l clusters_call \<Rightarrow> bool" where
  "clusters_call_ok json_ok u c \<longleftrightarrow>
     (case c of
        CallPing code \<Rightarrow> hasPerm u ''cluster:ping''
      | CallTest dr \<Rightarrow> hasPerm u ''cluster:ping'' \<and> \<not> blank (ef_kubeconfig_text (ed_form dr))
      | CallUpdate dr \<Rightarrow>
          hasPerm u ''cluster:update'' \<and> ed_cluster dr \<noteq> None \<and> edit_form_valid json_ok dr
          \<and> (blank (ef_kubeconfig_text (ed_form dr)) \<or> (\<exists>msg. ed_ping dr = Some (True, msg)))
      | CallDeleteCluster selected code \<Rightarrow> hasPerm u ''cluster:delete'')"

lemma edit_payload_tested:
  "edit_payload json_ok dr = Inr body \<Longrightarrow>
     blank (ef_kubeconfig_text (ed_form dr)) \<or> (\<exists>msg. ed_ping dr = Some (True, msg))"
  by (auto simp: edit_payload_def Let_def split: if_splits option.splits)

lemma save_sends_cond:
  "m \<in> set (sends (snd (handleSave json_ok u valid dr ok))) \<Longrightarrow>
     hasPerm u ''cluster:update'' \<and> valid \<and> ed_cluster dr \<noteq> None \<and> (\<exists>body. edit_payload json_ok dr = Inr body)"
  "length (sends (snd (handleSave json_ok u valid dr ok))) \<le> 1"
  by (auto simp: handleSave_def split: if_splits option.splits sum.splits prod.splits)

lemma test_sends_cond:
  "m \<in> set (sends (snd (handleEditPing dr res))) \<Longrightarrow> \<not> blank (ef_kubeconfig_text (ed_form dr))"
  "length (sends (snd (handleEditPing dr res))) \<le> 1"
  by (auto simp: handleEditPing_def Let_def split: if_splits option.splits)

lemma clusters_act_sends:
  assumes "clusters_offer_ok u flight a" and "c \<in> set (sends (snd (clusters_act json_ok u a x d s)))"
  shows "clusters_call_ok json_ok u c"
  using assms
proof (cases a)
  case TestEdit
  then show ?thesis
    using assms test_sends_cond(1) [of _ "kz_drawer s" None]
    by (auto simp: clusters_act_def clusters_call_ok_def clusters_offer_ok_def Let_def case_prod_unfold)
next
  case SaveEdit
  then obtain m where "m \<in> set (sends (snd (handleSave json_ok u (edit_form_valid json_ok (kz_drawer s)) (kz_drawer s) False)))"
    and "c = CallUpdate (kz_drawer s)"
    using assms(2) by (auto simp: clusters_act_def Let_def)
  with save_sends_cond(1) [OF this(1)] edit_payload_tested [of json_ok "kz_drawer s"] show ?thesis
    by (auto simp: clusters_call_ok_def)
qed (auto simp: clusters_act_def clusters_call_ok_def clusters_offer_ok_def confirm_delete_def enter_cluster_def
    reported_def Let_def case_prod_unfold split: event.splits)

lemma clusters_act_one:
  "length (sends (snd (clusters_act json_ok u a x d s))) \<le> 1"
  "filter is_CallUpdate (sends (snd (clusters_act json_ok u a x d s))) \<noteq> [] \<Longrightarrow> a = SaveEdit"
  "filter is_CallTest (sends (snd (clusters_act json_ok u a x d s))) \<noteq> [] \<Longrightarrow> a = TestEdit"
  using save_sends_cond(2) [of json_ok u _ "kz_drawer s" False] test_sends_cond(2) [of "kz_drawer s" None]
  by (cases a; auto simp: clusters_act_def confirm_delete_def Let_def case_prod_unfold split: event.splits if_splits)+

lemma clusters_act_permitted:
  "edit_permitted u s \<Longrightarrow> clusters_offer_ok u flight a \<Longrightarrow> edit_permitted u (fst (clusters_act json_ok u a x d s))"
  by (cases a)
    (auto simp: clusters_act_def edit_permitted_def clusters_offer_ok_def open_edit_def close_edit_def Let_def
      case_prod_unfold split: event.splits)

lemma clusters_reply_permitted: "edit_permitted u s \<Longrightarrow> edit_permitted u (fst (clusters_reply json_ok u c r s))"
  by (cases c) (auto simp: clusters_reply_def edit_permitted_def close_edit_def case_prod_unfold)

lemma clusters_reply_quiet: "sends (snd (clusters_reply json_ok u c r s)) = []"
  by (cases c) (simp_all add: clusters_reply_def case_prod_unfold)

lemma clusters_typed_permitted: "edit_permitted u s \<Longrightarrow> clusters_typed s s' \<Longrightarrow> edit_permitted u s'"
  unfolding clusters_typed_def by (elim conjE, erule ssubst) (simp add: edit_permitted_def)

lemma clusters_start_permitted: "edit_permitted u (clusters_start get)"
  by (simp add: edit_permitted_def clusters_start_def)

lemmas clusters_steps =
  clusters_act_permitted clusters_reply_permitted clusters_reply_quiet clusters_typed_permitted clusters_start_permitted

interpretation clusters_machine: guarded_page "clusters_page fmt json_ok get u"
  "edit_permitted u" "clusters_call_ok json_ok u"
  by unfold_locales (auto simp: clusters_page_def clusters_steps dest: clusters_offered clusters_act_sends)

interpretation clusters_save_once: single_submit "clusters_page fmt json_ok get u"
  "edit_permitted u" "clusters_call_ok json_ok u" is_CallUpdate
  by unfold_locales
    (auto simp: clusters_page_def clusters_act_one(1) [simplified] clusters_offer_ok_def
      dest!: clusters_act_one(2) clusters_offered)

interpretation clusters_test_once: single_submit "clusters_page fmt json_ok get u"
  "edit_permitted u" "clusters_call_ok json_ok u" is_CallTest
  by unfold_locales
    (auto simp: clusters_page_def clusters_act_one(1) [simplified] clusters_offer_ok_def
      dest!: clusters_act_one(3) clusters_offered)

text \<open>
  C18. Whatever happens on the list of clusters, in any order: clusters are pinged, tested, changed and
  deleted only with the permission of each; what is saved passed the rules of its form, and a new
  Kubeconfig is saved only when the drawer shows a successful test; neither two saves nor two tests
  are in flight at a time.
\<close>

theorem clusters_run_safe:
  assumes "page_reach (clusters_page fmt json_ok get u) s flight tr"
  shows "(\<forall>c \<in> set (sends tr). clusters_call_ok json_ok u c)
    \<and> length (filter is_CallUpdate flight) \<le> 1 \<and> length (filter is_CallTest flight) \<le> 1"
  using clusters_machine.sent_permitted [OF assms] clusters_save_once.at_most_one_in_flight [OF assms]
    clusters_test_once.at_most_one_in_flight [OF assms]
  by blast

definition demo_cluster :: "unit cluster" where
  "demo_cluster = \<lparr>cl_id = None, cl_code = ''prod'', cl_name = ''Production'', cl_description = None,
     cl_api_server = None, cl_status = 1, cl_version = None, cl_node_count = None, cl_last_sync_at = None,
     cl_labels = None, cl_creator_id = None, cl_created_at = None, cl_updated_at = None\<rparr>"

definition demo_clusters_data :: "unit clusters_data" where
  "demo_clusters_data = \<lparr>kd_keyword = [], kd_selected = None, kd_clusters = Some ([demo_cluster], 1), kd_fetching = False\<rparr>"

definition demo_updater :: "current_user option" where
  "demo_updater = Some (demo_user [''cluster:update''])"

definition demo_drawer :: "unit edit_drawer" where
  "demo_drawer = open_edit demo_cluster (kz_drawer (clusters_start (\<lambda>_. None)))"

lemma demo_updater_can: "hasPerm demo_updater ''cluster:update''"
  by (simp add: demo_updater_def hasPerm_def demo_user_def user_perms_def isPlatformAdmin_def)

lemma demo_update_reach:
  "page_reach (clusters_page fmt json_ok (\<lambda>_. None) demo_updater)
     ((clusters_start (\<lambda>_. None))\<lparr>kz_drawer := demo_drawer\<rparr>) [CallUpdate demo_drawer] [PSend (CallUpdate demo_drawer)]"
proof -
  let ?p = "clusters_page fmt json_ok (\<lambda>_. None) demo_updater"
  let ?s = "(clusters_start (\<lambda>_. None))\<lparr>kz_drawer := demo_drawer\<rparr>"
  have start: "page_reach ?p (clusters_start (\<lambda>_. None)) [] []"
    using page_reach.start [of ?p] by (simp add: clusters_page_def)
  have "page_reach ?p ?s ([] @ sends []) ([] @ [])"
  proof (rule page_reach.act [OF start, of "EditRow demo_cluster" demo_clusters_data NoArg])
    show "EditRow demo_cluster \<in> set (acts (pg_view ?p demo_clusters_data [] (clusters_start (\<lambda>_. None))))"
      by (simp add: clusters_page_def clusters_view_def clusters_table_def cluster_columns_def cluster_actions_view_def
          demo_clusters_data_def demo_updater_can view_simps)
    show "pg_act ?p (EditRow demo_cluster) NoArg demo_clusters_data (clusters_start (\<lambda>_. None)) = (?s, [])"
      by (simp add: clusters_page_def clusters_act_def demo_drawer_def Let_def)
  qed
  then have opened: "page_reach ?p ?s [] []" by simp
  have "page_reach ?p ?s ([] @ sends [PSend (CallUpdate demo_drawer)]) ([] @ [PSend (CallUpdate demo_drawer)])"
  proof (rule page_reach.act [OF opened, of SaveEdit demo_clusters_data NoArg])
    show "SaveEdit \<in> set (acts (pg_view ?p demo_clusters_data [] ?s))"
      by (simp add: clusters_page_def clusters_view_def edit_drawer_view_def demo_drawer_def open_edit_def view_simps)
    have "edit_form_valid json_ok demo_drawer"
      by (simp add: edit_form_valid_iff demo_drawer_def open_edit_def demo_cluster_def)
    then show "pg_act ?p SaveEdit NoArg demo_clusters_data ?s = (?s, [PSend (CallUpdate demo_drawer)])"
      by (simp add: clusters_page_def clusters_act_def handleSave_def edit_payload_def blank_def js_trim_def
          demo_updater_can demo_drawer_def open_edit_def try_send_def start_call_def Let_def)
  qed
  then show ?thesis by simp
qed

theorem clusters_run_safe_witness: "clusters_call_ok (\<lambda>_. True) demo_updater (CallUpdate demo_drawer)"
  using clusters_run_safe [OF demo_update_reach [where fmt = "\<lambda>t. t" and json_ok = "\<lambda>_. True"]] by simp

text \<open>
  The test belongs to a text, its result to the drawer: a test of one cluster that succeeds after the
  drawer was opened for another one marks that one, and its Kubeconfig, never tested, can be saved.
\<close>

lemma late_test_marks_other_cluster:
  assumes "ed_cluster dr \<noteq> None" and "\<not> blank (ef_kubeconfig_text (ed_form dr))"
    and "ed_cluster (kz_drawer s) = Some r" and "hasPerm u ''cluster:update''" and "edit_form_valid json_ok (kz_drawer s)"
    and "blank (ef_labels (ed_form (kz_drawer s)))" and "ef_kubeconfig_text (ed_form (kz_drawer s)) = Some t" and "js_trim t \<noteq> []"
    and "s' = fst (clusters_reply json_ok u (CallTest dr) (Some res) s)"
  shows "\<exists>body. sends (snd (handleSave json_ok u (edit_form_valid json_ok (kz_drawer s')) (kz_drawer s') ok))
      = [UpdateCluster (cl_code r) body] \<and> uc_kubeconfig_text body = Some t"
proof -
  have "t \<noteq> []" using assms(8) by (auto simp: js_trim_def)
  then show ?thesis
    using assms
    by (simp add: clusters_reply_def handleEditPing_def handleSave_def edit_payload_def edit_form_valid_iff blank_def
        Let_def)
qed

text \<open>One variable holds the row that is pinged: the ping of another row makes the first offered again.\<close>

lemma ping_again_in_flight:
  assumes "hasPerm u ''cluster:ping''" and "cl_code r \<noteq> cl_code r'"
    and "kd_clusters (d :: 'l clusters_data) = Some ([r, r'], n)"
  shows "\<exists>(s :: 'l clusters_state) tr. page_reach (clusters_page fmt json_ok get u) s [CallPing (cl_code r), CallPing (cl_code r'), CallPing (cl_code r)] tr"
proof -
  let ?p = "clusters_page fmt json_ok get u
    :: ('l clusters_data, 'l clusters_state, 'l clusters_action, 'l clusters_call, ping_response option) machine"
  have ping: "page_reach ?p (s\<lparr>kz_pinging := Some (cl_code q)\<rparr>) (flight @ [CallPing (cl_code q)]) (tr @ [PSend (CallPing (cl_code q))])"
    if "page_reach ?p s flight tr" "q \<in> {r, r'}" "kz_pinging s \<noteq> Some (cl_code q)" for s flight tr q
  proof -
    have "PingRow q \<in> set (acts (pg_view ?p d flight s))"
      using that(2,3) assms(1,3)
      by (auto simp: clusters_page_def clusters_view_def clusters_table_def cluster_columns_def cluster_actions_view_def
          ping_disabled_def view_simps)
    from page_reach.act [OF that(1) this, of NoArg] show ?thesis
      by (simp add: clusters_page_def clusters_act_def Let_def)
  qed
  have "page_reach ?p (clusters_start get) [] []"
    using page_reach.start [of ?p] by (simp add: clusters_page_def)
  from ping [OF this, of r] have one: "page_reach ?p ((clusters_start get)\<lparr>kz_pinging := Some (cl_code r)\<rparr>)
      [CallPing (cl_code r)] [PSend (CallPing (cl_code r))]"
    by (simp add: clusters_start_def)
  from ping [OF ping [OF one, of r'], of r] assms(2) show ?thesis
    by auto
qed

end
