(* ===== verification/ImportView.thy ===== *)
theory ImportView
  imports View ClusterImport
begin

section \<open>The import page as a machine\<close>

text \<open>
  What \<open>pages/clusters/import.tsx\<close> renders and the runs of the page. The component library submits
  the form only when its rules accept the values, and shows each field of \<open>ProForm\<close> as an item with a
  control. A file is chosen with its name and its text; a file without a text cannot be
  read, and reading is one step. Every run is a run of \<open>import_reach\<close>. \<open>json_ok\<close> is \<open>JSON.parse\<close>.
\<close>

record import_page_state =
  iz_form :: import_values
  iz_import :: import_state
  iz_files :: "string list"

datatype import_call = is_CallConnect: CallConnect string | is_CallImport: CallImport import_values import_state

datatype import_action =
    LeaveImport | TestConnection | SubmitImport | ChooseMode | TypeKubeconfig | ChooseFile | RemoveFile

definition import_start :: import_page_state where
  "import_start =
     \<lparr>iz_form = \<lparr>iv_name = [], iv_code = [], iv_description = None, iv_labels = None\<rparr>,
      iz_import = import_init, iz_files = []\<rparr>"

subsection \<open>What is rendered\<close>

text \<open>The pattern \<open>^[a-zA-Z0-9][a-zA-Z0-9_-]*$\<close> and the rules of the code.\<close>

definition code_pattern :: "string \<Rightarrow> bool" where
  "code_pattern s \<longleftrightarrow>
     (case s of [] \<Rightarrow> False
      | c # cs \<Rightarrow> is_alnum c \<and> list_all (\<lambda>x. is_alnum x \<or> x = CHR ''_'' \<or> x = CHR ''-'') cs)"

definition code_rules :: "form_rule list" where
  "code_rules = [required, no_rule\<lparr>fr_pattern := Some code_pattern\<rparr>, no_rule\<lparr>fr_max := Some 64\<rparr>]"

definition pro_field ::
  "string \<Rightarrow> string \<Rightarrow> string \<Rightarrow> string \<Rightarrow> string \<Rightarrow> form_rule list \<Rightarrow> import_action node" where
  "pro_field control name label placeholder max_length rs =
     El ''Form.Item'' [Attr ''name'' name, Attr ''label'' label, Rules rs]
       [El control [Attr ''placeholder'' placeholder, Attr ''maxLength'' max_length, Flag ''showCount'' True] []]"

definition import_fields :: "(string \<Rightarrow> bool) \<Rightarrow> import_action node list" where
  "import_fields json_ok =
     [pro_field ''Input'' ''name'' [CHR 0xE9, CHR 0x9B, CHR 0x86, CHR 0xE7, CHR 0xBE, CHR 0xA4, CHR 0xE5, CHR 0x90,
      CHR 0x8D, CHR 0xE7, CHR 0xA7, CHR 0xB0] [CHR 0xE8, CHR 0xAF, CHR 0xB7, CHR 0xE8, CHR 0xBE, CHR 0x93, CHR 0xE5, CHR 0x85,
      CHR 0xA5, CHR 0xE9, CHR 0x9B, CHR 0x86, CHR 0xE7, CHR 0xBE, CHR 0xA4, CHR 0xE6,
      CHR 0x98, CHR 0xBE, CHR 0xE7, CHR 0xA4, CHR 0xBA, CHR 0xE5, CHR 0x90, CHR 0x8D,
      CHR 0xE7, CHR 0xA7, CHR 0xB0] ''64'' [required],
      pro_field ''Input'' ''code'' [CHR 0xE9, CHR 0x9B, CHR 0x86, CHR 0xE7, CHR 0xBE, CHR 0xA4, CHR 0xE7, CHR 0xBC,
      CHR 0x96, CHR 0xE7, CHR 0xA0, CHR 0x81] ([CHR 0xE5, CHR 0x94, CHR 0xAF, CHR 0xE4, CHR 0xB8, CHR 0x80, CHR 0xE6, CHR 0xA0,
      CHR 0x87, CHR 0xE8, CHR 0xAF, CHR 0x86, CHR 0xEF, CHR 0xBC, CHR 0x8C, CHR 0xE5,
      CHR 0xBB, CHR 0xBA, CHR 0xE8, CHR 0xAE, CHR 0xAE, CHR 0xE8, CHR 0x8B, CHR 0xB1,
      CHR 0xE6, CHR 0x96, CHR 0x87] @
     ''/'' @
     [CHR 0xE6, CHR 0x95, CHR 0xB0, CHR 0xE5, CHR 0xAD, CHR 0x97] @
     ''/'' @
     [CHR 0xE7, CHR 0x9F, CHR 0xAD, CHR 0xE6, CHR 0xA8, CHR 0xAA, CHR 0xE7, CHR 0xBA,
      CHR 0xBF, CHR 0xEF, CHR 0xBC, CHR 0x88, CHR 0xE4, CHR 0xBE, CHR 0x8B, CHR 0xE5,
      CHR 0xA6, CHR 0x82] @
     '' prod-cluster-01'' @
     [CHR 0xEF, CHR 0xBC, CHR 0x89]) ''64'' code_rules,
      pro_field ''TextArea'' ''description'' [CHR 0xE6, CHR 0x8F, CHR 0x8F, CHR 0xE8, CHR 0xBF, CHR 0xB0] [CHR 0xE5, CHR 0x8F, CHR 0xAF, CHR 0xE9, CHR 0x80, CHR 0x89, CHR 0xEF, CHR 0xBC,
      CHR 0x8C, CHR 0xE8, CHR 0xAF, CHR 0xB4, CHR 0xE6, CHR 0x98, CHR 0x8E, CHR 0xE6,
      CHR 0xAD, CHR 0xA4, CHR 0xE9, CHR 0x9B, CHR 0x86, CHR 0xE7, CHR 0xBE, CHR 0xA4,
      CHR 0xE7, CHR 0x9A, CHR 0x84, CHR 0xE7, CHR 0x94, CHR 0xA8, CHR 0xE9, CHR 0x80,
      CHR 0x94] ''256'' [],
      pro_field ''TextArea'' ''labels'' ([CHR 0xE6, CHR 0xA0, CHR 0x87, CHR 0xE7, CHR 0xAD, CHR 0xBE] @
     '' (JSON)'')
        (([CHR 0xE5, CHR 0x8F, CHR 0xAF, CHR 0xE9, CHR 0x80, CHR 0x89, CHR 0xEF, CHR 0xBC,
      CHR 0x8C, CHR 0xE4, CHR 0xBE, CHR 0x8B, CHR 0xE5, CHR 0xA6, CHR 0x82] @
     '' '') @ [CHR ''{''] @ ''\"env\": \"prod\", \"team\": \"sre\"'' @ [CHR 0x7D] @ ([CHR 0xEF, CHR 0xBC, CHR 0x9B, CHR 0xE5, CHR 0xB0, CHR 0x86, CHR 0xE8, CHR 0xA2,
      CHR 0xAB, CHR 0xE4, CHR 0xBF, CHR 0x9D, CHR 0xE5, CHR 0xAD, CHR 0x98, CHR 0xE4,
      CHR 0xB8, CHR 0xBA] @
     '' labels.json '' @
     [CHR 0xE5, CHR 0xAD, CHR 0x97, CHR 0xE6, CHR 0xAE, CHR 0xB5]))
        ''2048'' [no_rule\<lparr>fr_pattern := Some json_ok\<rparr>]]"

definition kubeconfig_item :: "import_call list \<Rightarrow> import_page_state \<Rightarrow> import_action node" where
  "kubeconfig_item flight s =
     El ''ProFormItem'' [Attr ''label'' ''Kubeconfig'', Flag ''required'' True]
       [El ''Radio.Group'' [Attr ''value'' (case im_mode (iz_import s) of KText \<Rightarrow> ''text'' | KFile \<Rightarrow> ''file''),
          On ''onChange'' ChooseMode]
          [El ''Radio.Button'' [Attr ''value'' ''text''] [Txt [CHR 0xE7, CHR 0xB2, CHR 0x98, CHR 0xE8, CHR 0xB4, CHR 0xB4, CHR 0xE5, CHR 0x86,
      CHR 0x85, CHR 0xE5, CHR 0xAE, CHR 0xB9]],
           El ''Radio.Button'' [Attr ''value'' ''file''] [Txt [CHR 0xE4, CHR 0xB8, CHR 0x8A, CHR 0xE4, CHR 0xBC, CHR 0xA0, CHR 0xE6, CHR 0x96,
      CHR 0x87, CHR 0xE4, CHR 0xBB, CHR 0xB6]]],
        case im_mode (iz_import s) of
          KText \<Rightarrow>
            El ''Form.Item'' [Attr ''name'' ''kubeconfig'', Rules [required]]
              [El ''Input.TextArea'' [Attr ''placeholder'' ([CHR 0xE8, CHR 0xAF, CHR 0xB7, CHR 0xE7, CHR 0xB2, CHR 0x98, CHR 0xE8, CHR 0xB4,
      CHR 0xB4] @
     '' Kubeconfig YAML '' @
     [CHR 0xE5, CHR 0x86, CHR 0x85, CHR 0xE5, CHR 0xAE, CHR 0xB9]), On ''onChange'' TypeKubeconfig] []]
        | KFile \<Rightarrow>
            El ''Space'' []
              (El ''Upload'' [Attr ''accept'' ''.yaml,.yml,.kubeconfig'', On ''beforeUpload'' ChooseFile, On ''onRemove'' RemoveFile]
                 (map (\<lambda>n. El ''file'' [] [Txt n]) (iz_files s) @
                  [El ''Button'' [] [Txt ([CHR 0xE9, CHR 0x80, CHR 0x89, CHR 0xE6, CHR 0x8B, CHR 0xA9] @
     '' .yaml / .yml / .kubeconfig '' @
     [CHR 0xE6, CHR 0x96, CHR 0x87, CHR 0xE4, CHR 0xBB, CHR 0xB6])]]) #
               shown_if (list_ex is_CallConnect flight) [El ''Spin'' [] []])]"

definition ping_result_view :: "import_state \<Rightarrow> import_action node list" where
  "ping_result_view st =
     (case im_ping st of
        None \<Rightarrow> []
      | Some (ok, msg) \<Rightarrow>
          [El ''Space'' []
             [El ''span'' []
                [Txt ((if ok then ('' '' @
     [CHR 0xE8, CHR 0xBF, CHR 0x9E, CHR 0xE6, CHR 0x8E, CHR 0xA5, CHR 0xE6, CHR 0x88,
      CHR 0x90, CHR 0xE5, CHR 0x8A, CHR 0x9F]) else ('' '' @
     [CHR 0xE8, CHR 0xBF, CHR 0x9E, CHR 0xE6, CHR 0x8E, CHR 0xA5, CHR 0xE5, CHR 0xA4,
      CHR 0xB1, CHR 0xE8, CHR 0xB4, CHR 0xA5])) @ (if msg \<noteq> [] then [CHR 0xEF, CHR 0xBC, CHR 0x9A] @ msg else []))]]])"

definition import_buttons :: "import_call list \<Rightarrow> import_state \<Rightarrow> import_action node" where
  "import_buttons flight st =
     El ''Space'' []
       ([El ''Button'' [On ''onClick'' LeaveImport] [Txt [CHR 0xE8, CHR 0xBF, CHR 0x94, CHR 0xE5, CHR 0x9B, CHR 0x9E]],
         El ''Button'' [Flag ''loading'' (list_ex is_CallConnect flight), On ''onClick'' TestConnection] [Txt [CHR 0xE6, CHR 0xB5, CHR 0x8B, CHR 0xE8, CHR 0xAF, CHR 0x95, CHR 0xE8, CHR 0xBF,
      CHR 0x9E, CHR 0xE6, CHR 0x8E, CHR 0xA5]]] @
        ping_result_view st @
        [El ''Button'' [Flag ''loading'' (list_ex is_CallImport flight), On ''onSubmit'' SubmitImport] [Txt [CHR 0xE5, CHR 0xAF, CHR 0xBC, CHR 0xE5, CHR 0x85, CHR 0xA5]]])"

definition import_view ::
  "(string \<Rightarrow> bool) \<Rightarrow> unit \<Rightarrow> import_call list \<Rightarrow> import_page_state \<Rightarrow> import_action node" where
  "import_view json_ok d flight s =
     El ''PageContainer'' [Attr ''title'' [CHR 0xE5, CHR 0xAF, CHR 0xBC, CHR 0xE5, CHR 0x85, CHR 0xA5, CHR 0xE9, CHR 0x9B,
      CHR 0x86, CHR 0xE7, CHR 0xBE, CHR 0xA4], On ''onBack'' LeaveImport]
       [El ''Card'' []
          [El ''ProForm'' []
             (import_fields json_ok @ [kubeconfig_item flight s, import_buttons flight (iz_import s)])]]"

subsection \<open>What the actions and the replies do\<close>

definition import_field :: "import_page_state \<Rightarrow> string \<Rightarrow> string option" where
  "import_field s = map_of
     ([(''name'', iv_name (iz_form s)), (''code'', iv_code (iz_form s))] @
      (case iv_description (iz_form s) of None \<Rightarrow> [] | Some v \<Rightarrow> [(''description'', v)]) @
      (case iv_labels (iz_form s) of None \<Rightarrow> [] | Some v \<Rightarrow> [(''labels'', v)]) @
      [(''kubeconfig'', im_kubeconfig (iz_import s))])"

definition import_form_valid :: "(string \<Rightarrow> bool) \<Rightarrow> import_page_state \<Rightarrow> bool" where
  "import_form_valid json_ok s = form_accepts (\<lambda>_. True) (import_view json_ok () [] s) (import_field s)"

text \<open>\<open>validateFields(['name', 'code'])\<close> checks these two fields only.\<close>

definition name_code_valid :: "(string \<Rightarrow> bool) \<Rightarrow> import_page_state \<Rightarrow> bool" where
  "name_code_valid json_ok s =
     list_all (\<lambda>(n, rs). list_all (\<lambda>r. rule_ok (\<lambda>_. True) r (import_field s n)) rs)
       (filter (\<lambda>(n, rs). n \<in> {''name'', ''code''}) (form_fields (import_view json_ok () [] s)))"

definition import_act ::
  "(string \<Rightarrow> bool) \<Rightarrow> import_action \<Rightarrow> event \<Rightarrow> unit \<Rightarrow> import_page_state
    \<Rightarrow> import_page_state \<times> import_call page_effect list" where
  "import_act json_ok a x d s =
     (let st = iz_import s
      in case a of
        LeaveImport \<Rightarrow> (s, [PNavigate ''/clusters/list''])
      | TestConnection \<Rightarrow>
          (case test_start (name_code_valid json_ok s) st of (st', es) \<Rightarrow>
             (s\<lparr>iz_import := st'\<rparr>, start_call (CallConnect (or_str (extractKubeconfig st) [])) es))
      | SubmitImport \<Rightarrow>
          (s, if import_form_valid json_ok s
              then start_call (CallImport (iz_form s) st) (import_handleSubmit (iz_form s) st False) else [])
      | ChooseMode \<Rightarrow>
          (s\<lparr>iz_import := setMode (if text_arg x = Some ''file'' then KFile else KText) st\<rparr>, [])
      | TypeKubeconfig \<Rightarrow> (s\<lparr>iz_import := typeKubeconfig (text_or x []) st\<rparr>, [])
      | ChooseFile \<Rightarrow>
          (case x of
             FormArg vs \<Rightarrow>
               (let n = or_str (map_of vs ''name'') []
                in case beforeUpload n (map_of vs ''text'') st of (st', es) \<Rightarrow>
                     (s\<lparr>iz_import := st', iz_files := (if es = [] then [n] else iz_files s)\<rparr>, reported es))
           | _ \<Rightarrow> (s, []))
      | RemoveFile \<Rightarrow> (s\<lparr>iz_import := removeFile st, iz_files := []\<rparr>, []))"

text \<open>The reply to a test, or to an import, of which only the success counts.\<close>

definition import_reply ::
  "import_call \<Rightarrow> ping_response + request_error \<Rightarrow> import_page_state \<Rightarrow> import_page_state \<times> import_call page_effect list" where
  "import_reply c r s =
     (case c of
        CallConnect kc \<Rightarrow>
          (case test_done r (iz_import s) of (st', es) \<Rightarrow> (s\<lparr>iz_import := st'\<rparr>, reported es))
      | CallImport v st \<Rightarrow> (s, reported (import_handleSubmit v st (isl r))))"

definition import_typed :: "import_page_state \<Rightarrow> import_page_state \<Rightarrow> bool" where
  "import_typed s s' \<longleftrightarrow> s' = s\<lparr>iz_form := iz_form s'\<rparr>"

definition import_page ::
  "(string \<Rightarrow> bool)
    \<Rightarrow> (unit, import_page_state, import_action, import_call, ping_response + request_error) machine" where
  "import_page json_ok =
     \<lparr>pg_start = import_start, pg_view = import_view json_ok, pg_act = import_act json_ok,
      pg_reply = import_reply, pg_commit = (\<lambda>d s. (s, [])), pg_typed = import_typed\<rparr>"

subsection \<open>The rules of the form\<close>

lemma code_rules_valid: "list_all (\<lambda>r. rule_ok e r (Some c)) code_rules \<longleftrightarrow> valid_code c"
  by (cases c) (auto simp: code_rules_def rule_ok_def required_def no_rule_def code_pattern_def valid_code_def)

lemma ping_result_fields: "concat (map form_fields (ping_result_view st)) = []"
  by (cases "im_ping st") (simp_all add: ping_result_view_def case_prod_unfold)

lemma import_fields_eq:
  "form_fields (import_view json_ok () flight s) =
     [(''name'', [required]), (''code'', code_rules), (''description'', []), (''labels'', [no_rule\<lparr>fr_pattern := Some json_ok\<rparr>])] @
     (if im_mode (iz_import s) = KText then [(''kubeconfig'', [required])] else [])"
  by (simp add: import_view_def import_fields_def pro_field_def kubeconfig_item_def import_buttons_def ping_result_fields
      field_of_def shown_if_def comp_def split: kubeconfig_mode.split)

lemma import_field_values:
  "import_field s ''name'' = Some (iv_name (iz_form s))" "import_field s ''code'' = Some (iv_code (iz_form s))"
  "import_field s ''labels'' = iv_labels (iz_form s)" "import_field s ''kubeconfig'' = Some (im_kubeconfig (iz_import s))"
  by (simp_all add: import_field_def split: option.split)

lemma simple_rules: "rule_ok e required v \<longleftrightarrow> truthy v"
  "rule_ok e (no_rule\<lparr>fr_pattern := Some q\<rparr>) v \<longleftrightarrow> (truthy v \<longrightarrow> q (the v))"
  by (auto simp: rule_ok_def required_def no_rule_def)

lemma import_form_valid_iff:
  "import_form_valid json_ok s \<longleftrightarrow>
     iv_name (iz_form s) \<noteq> [] \<and> valid_code (iv_code (iz_form s)) \<and> valid_labels json_ok (iv_labels (iz_form s))
     \<and> (im_mode (iz_import s) = KText \<longrightarrow> im_kubeconfig (iz_import s) \<noteq> [])"
  by (auto simp: import_form_valid_def form_accepts_def import_fields_eq import_field_values code_rules_valid simple_rules
      valid_labels_def)

lemma name_code_valid_iff:
  "name_code_valid json_ok s \<longleftrightarrow> iv_name (iz_form s) \<noteq> [] \<and> valid_code (iv_code (iz_form s))"
  by (auto simp: name_code_valid_def import_fields_eq import_field_values code_rules_valid simple_rules)

subsection \<open>What the page offers\<close>

definition import_offer_ok :: "import_call list \<Rightarrow> import_page_state \<Rightarrow> import_action \<Rightarrow> bool" where
  "import_offer_ok flight s a \<longleftrightarrow>
     (case a of
        TestConnection \<Rightarrow> filter is_CallConnect flight = []
      | SubmitImport \<Rightarrow> filter is_CallImport flight = []
      | TypeKubeconfig \<Rightarrow> im_mode (iz_import s) = KText
      | ChooseFile \<Rightarrow> im_mode (iz_import s) = KFile
      | RemoveFile \<Rightarrow> im_mode (iz_import s) = KFile
      | _ \<Rightarrow> True)"

lemma ping_result_offers [offer_simps]: "list_all (offers_only P) (ping_result_view st)"
  by (simp add: ping_result_view_def offer_simps split: option.split)

lemma import_offered: "a \<in> set (acts (import_view json_ok d flight s)) \<Longrightarrow> import_offer_ok flight s a"
  by (rule offers_onlyD [rotated], assumption)
    (auto simp: import_view_def import_fields_def pro_field_def kubeconfig_item_def import_buttons_def
      import_offer_ok_def offer_simps intro: not_list_ex_filter split: kubeconfig_mode.split)

subsection \<open>Every run is a run of the relation\<close>

definition tests :: "import_call list \<Rightarrow> string list" where
  "tests cs = concat (map (\<lambda>c. case c of CallConnect kc \<Rightarrow> [kc] | _ \<Rightarrow> []) cs)"

lemma tests_simps [simp]:
  "tests [] = []" "tests (CallConnect kc # cs) = kc # tests cs" "tests (CallImport v st # cs) = tests cs"
  "tests (cs @ bs) = tests cs @ tests bs"
  by (simp_all add: tests_def)

lemma tests_remove1: "tests (remove1 (CallConnect kc) cs) = remove1 kc (tests cs)"
proof (induction cs)
  case (Cons c cs)
  then show ?case by (cases c) auto
qed simp

lemma tests_remove1_import: "tests (remove1 (CallImport v st) cs) = tests cs"
proof (induction cs)
  case (Cons c cs)
  then show ?case by (cases c) auto
qed simp

lemma tests_mem: "CallConnect kc \<in> set cs \<Longrightarrow> kc \<in> set (tests cs)"
  by (auto simp: tests_def split: import_call.splits)

lemma test_started:
  "extractKubeconfig st = Some kc \<Longrightarrow> sends (snd (test_start True st)) = [TempPing (Some kc)]"
  "extractKubeconfig st = None \<Longrightarrow> sends (snd (test_start True st)) = [] \<and> fst (test_start True st) = st"
  "sends (snd (test_start False st)) = []"
  by (simp_all add: test_start_def)

lemma import_act_reach:
  assumes "import_reach False (iz_import s) fl acc" and "import_offer_ok flight s a"
    and "import_act json_ok a x d s = (s', es)"
  shows "import_reach False (iz_import s') (fl @ tests (sends es)) acc"
proof (cases a)
  case TestConnection
  let ?st = "iz_import s" and ?v = "name_code_valid json_ok s"
  have s': "iz_import s' = fst (test_start ?v ?st)"
    "es = start_call (CallConnect (or_str (extractKubeconfig ?st) [])) (snd (test_start ?v ?st))"
    using assms(3) TestConnection by (auto simp: import_act_def Let_def case_prod_unfold)
  show ?thesis
  proof (cases "?v")
    case True
    show ?thesis
    proof (cases "extractKubeconfig ?st")
      case None
      then show ?thesis using s' True test_started(2) assms(1) by simp
    next
      case (Some kc)
      then show ?thesis using s' True test_started(1) reach_test [OF assms(1) Some] by (simp add: or_str_def)
    qed
  next
    case False
    then show ?thesis using s' test_started(3) reach_invalid [OF assms(1)] by simp
  qed
next
  case SubmitImport
  moreover have "tests (map (\<lambda>_. CallImport v st) ms) = []" for v st and ms :: "cluster_mutation list"
    by (induction ms) simp_all
  ultimately show ?thesis using assms by (auto simp: import_act_def Let_def)
next
  case ChooseFile
  then show ?thesis
    using assms(2,3) reach_upload [OF assms(1)] assms(1)
    by (auto simp: import_act_def import_offer_ok_def Let_def case_prod_unfold split: event.splits)
qed (use assms(2,3) reach_type [OF assms(1)] reach_mode [OF assms(1)] reach_remove [OF assms(1)] assms(1) in
    \<open>auto simp: import_act_def import_offer_ok_def Let_def\<close>)

lemma import_reply_reach:
  assumes "import_reach False (iz_import s) (tests flight) acc" and "c \<in> set flight"
    and "import_reply c r s = (s', es)"
  shows "\<exists>acc'. import_reach False (iz_import s') (tests (remove1 c flight)) acc'"
proof (cases c)
  case (CallConnect kc)
  then have "kc \<in> set (tests flight)" using assms(2) tests_mem by blast
  from reach_done [OF assms(1) this, of r] show ?thesis
    using assms(3) CallConnect by (auto simp: import_reply_def tests_remove1 case_prod_unfold)
next
  case (CallImport v st)
  then show ?thesis using assms by (auto simp: import_reply_def tests_remove1_import)
qed

lemma import_reply_quiet: "sends (snd (import_reply c r s)) = []"
  by (cases c) (simp_all add: import_reply_def case_prod_unfold)

lemma import_typed_same: "import_typed s s' \<Longrightarrow> iz_import s' = iz_import s"
  unfolding import_typed_def by (drule arg_cong [where f = iz_import]) simp

lemma import_page_reach:
  "page_reach (import_page json_ok) s flight tr \<Longrightarrow> \<exists>acc. import_reach False (iz_import s) (tests flight) acc"
proof (induction rule: page_reach.induct)
  case start
  then show ?case using reach_init by (auto simp: import_page_def import_start_def)
next
  case (act s flight tr a d x s' es)
  then show ?case
    using import_act_reach [of s "tests flight" _ flight a json_ok x d s' es] import_offered [of a json_ok d flight s]
    by (auto simp: import_page_def)
next
  case (reply s flight tr c r s' es)
  moreover have "sends es = []"
    using import_reply_quiet [of c r s] reply.hyps(3) by (simp add: import_page_def)
  ultimately show ?case using import_reply_reach [of s flight _ c r s' es] by (auto simp: import_page_def)
next
  case (commit s flight tr d s' es)
  then show ?case by (auto simp: import_page_def)
next
  case (typed s flight tr s')
  then show ?case using import_typed_same [of s s'] by (simp add: import_page_def)
qed

subsection \<open>Properties of the runs\<close>

definition import_call_ok :: "(string \<Rightarrow> bool) \<Rightarrow> import_call \<Rightarrow> bool" where
  "import_call_ok json_ok c \<longleftrightarrow>
     (case c of
        CallConnect kc \<Rightarrow> kc \<noteq> []
      | CallImport v st \<Rightarrow>
          iv_name v \<noteq> [] \<and> valid_code (iv_code v) \<and> valid_labels json_ok (iv_labels v)
          \<and> ping_passed st \<and> extractKubeconfig st \<noteq> None)"

lemma kubeconfig_nonempty: "extractKubeconfig st = Some kc \<Longrightarrow> kc \<noteq> []"
  by (auto simp: extractKubeconfig_def js_trim_def split: kubeconfig_mode.splits if_splits)

lemma import_act_sends:
  assumes "c \<in> set (sends (snd (import_act json_ok a x d s)))"
  shows "import_call_ok json_ok c"
proof (cases a)
  case TestConnection
  then show ?thesis
    using assms kubeconfig_nonempty
    by (auto simp: import_act_def import_call_ok_def test_start_def or_str_def Let_def split: option.splits if_splits)
next
  case SubmitImport
  then show ?thesis
    using assms
    by (auto simp: import_act_def import_call_ok_def import_sends import_form_valid_iff Let_def
        dest: sym split: option.splits if_splits)
qed (use assms in \<open>auto simp: import_act_def Let_def case_prod_unfold split: event.splits\<close>)

lemma import_act_one:
  "length (sends (snd (import_act json_ok a x d s))) \<le> 1"
  "filter is_CallConnect (sends (snd (import_act json_ok a x d s))) \<noteq> [] \<Longrightarrow> a = TestConnection"
  "filter is_CallImport (sends (snd (import_act json_ok a x d s))) \<noteq> [] \<Longrightarrow> a = SubmitImport"
  by (cases a; auto simp: import_act_def test_start_def import_sends Let_def case_prod_unfold
      split: event.splits option.splits if_splits)+

interpretation import_machine: guarded_page "import_page json_ok" "\<lambda>s. True" "import_call_ok json_ok"
  by unfold_locales (auto simp: import_page_def import_reply_quiet dest: import_act_sends)

interpretation import_connect_once: single_submit "import_page json_ok" "\<lambda>s. True" "import_call_ok json_ok" is_CallConnect
  by unfold_locales
    (auto simp: import_page_def import_act_one(1) [simplified] import_offer_ok_def dest!: import_act_one(2) import_offered)

interpretation import_submit_once: single_submit "import_page json_ok" "\<lambda>s. True" "import_call_ok json_ok" is_CallImport
  by unfold_locales
    (auto simp: import_page_def import_act_one(1) [simplified] import_offer_ok_def dest!: import_act_one(3) import_offered)

text \<open>
  C15. Whatever happens on the import page, in any order: an import is sent only with a name, a code
  and labels that the rules of the form accept, with a Kubeconfig, and after a successful connection
  test, a test that some reply of the server to a Kubeconfig of this page passed; neither two tests
  nor two imports are in flight at a time.
\<close>

theorem import_run_safe:
  assumes "page_reach (import_page json_ok) s flight tr"
  shows "(\<forall>c \<in> set (sends tr). import_call_ok json_ok c)
    \<and> length (filter is_CallConnect flight) \<le> 1 \<and> length (filter is_CallImport flight) \<le> 1
    \<and> (\<exists>accepted. import_reach False (iz_import s) (tests flight) accepted
         \<and> (ping_passed (iz_import s) \<longrightarrow> accepted \<noteq> {}))"
  using import_machine.sent_permitted [OF assms] import_connect_once.at_most_one_in_flight [OF assms]
    import_submit_once.at_most_one_in_flight [OF assms] import_page_reach [OF assms] some_test_passed
  by blast

definition demo_import_typed :: import_page_state where
  "demo_import_typed = \<lparr>iz_form = demo_values, iz_import = typeKubeconfig ''a'' import_init, iz_files = []\<rparr>"

lemma demo_connect_reach:
  "page_reach (import_page json_ok) demo_import_typed [CallConnect ''a''] [PSend (CallConnect ''a'')]"
proof -
  let ?p = "import_page json_ok"
  have "page_reach ?p import_start [] []"
    using page_reach.start [of ?p] by (simp add: import_page_def)
  moreover have "pg_typed ?p import_start (import_start\<lparr>iz_form := demo_values\<rparr>)"
    by (simp add: import_page_def import_typed_def)
  ultimately have "page_reach ?p (import_start\<lparr>iz_form := demo_values\<rparr>) [] []" by (rule page_reach.typed)
  from page_reach.act [OF this, of TypeKubeconfig "()" "TextArg ''a''"]
  have typed: "page_reach ?p demo_import_typed [] []"
    by (simp add: import_page_def import_view_def import_fields_def pro_field_def kubeconfig_item_def import_buttons_def
        import_start_def import_init_def import_act_def demo_import_typed_def text_or_def view_simps Let_def)
  have "valid_code ''prod-1''" by code_simp
  then have valid: "name_code_valid json_ok demo_import_typed"
    by (simp add: name_code_valid_iff demo_import_typed_def demo_values_def)
  have kc: "extractKubeconfig (typeKubeconfig ''a'' import_init) = Some ''a''"
    by (simp add: extractKubeconfig_def typeKubeconfig_def import_init_def js_trim_def js_space_def)
  have "page_reach ?p demo_import_typed ([] @ sends [PSend (CallConnect ''a'')]) ([] @ [PSend (CallConnect ''a'')])"
  proof (rule page_reach.act [OF typed, of TestConnection "()" NoArg])
    show "TestConnection \<in> set (acts (pg_view ?p () [] demo_import_typed))"
      by (simp add: import_page_def import_view_def import_fields_def pro_field_def kubeconfig_item_def import_buttons_def
          demo_import_typed_def typeKubeconfig_def import_init_def view_simps)
    show "pg_act ?p TestConnection NoArg () demo_import_typed = (demo_import_typed, [PSend (CallConnect ''a'')])"
      using valid kc
      by (simp add: import_page_def import_act_def test_start_def start_call_def demo_import_typed_def
          typeKubeconfig_def import_init_def or_str_def Let_def)
  qed
  then show ?thesis by simp
qed

theorem import_run_safe_witness: "import_call_ok (\<lambda>_. True) (CallConnect ''a'')"
  using import_run_safe [OF demo_connect_reach [where json_ok = "\<lambda>_. True"]] by simp

end
