(* ===== verification/ReposView.thy ===== *)
theory ReposView
  imports View HelmPages
begin

section \<open>The page of the Helm repositories as a machine\<close>

text \<open>
  What \<open>pages/helm/repos.tsx\<close> renders and the runs of the page: the repositories with the drawer that
  adds one, and the search for charts, whose query is what was typed when a search was started.
  \<open>is_url\<close> is the rule of the form library for URLs.
\<close>

record repos_data =
  xd_repos :: "helm_repo list option"
  xd_fetching :: bool
  xd_error :: "string option"
  xd_charts :: "helm_chart list option"
  xd_chartsLoading :: bool

datatype repos_call =
    is_CallAddRepo: CallAddRepo add_repo_form
  | is_CallUpdateRepos: CallUpdateRepos "string option"
  | CallRemoveRepo string

record repos_state =
  xz_open :: bool
  xz_form :: add_repo_form
  xz_repo :: string
  xz_keyword :: string
  xz_query :: "string \<times> string"

datatype repos_action =
    ReloadRepos | UpdateIndex "string option" | OpenAdd | CloseAdd | SubmitAdd | RemoveRepository helm_repo
  | GoInstall helm_chart | ChooseChartRepo | TypeChartKeyword | StartKeywordSearch | StartSearch

definition repo_form_empty :: add_repo_form where
  "repo_form_empty = \<lparr>af_name = [], af_url = [], af_username = None, af_password = None\<rparr>"

definition repos_start :: repos_state where
  "repos_start = \<lparr>xz_open = False, xz_form = repo_form_empty, xz_repo = [], xz_keyword = [], xz_query = ([], [])\<rparr>"

definition listed_repos :: "repos_data \<Rightarrow> helm_repo list" where
  "listed_repos d = (case xd_repos d of None \<Rightarrow> [] | Some rs \<Rightarrow> rs)"

subsection \<open>What is rendered\<close>

definition repo_actions_view :: "bool \<Rightarrow> repos_call list \<Rightarrow> helm_repo \<Rightarrow> repos_action node list" where
  "repo_actions_view canManage flight r =
     [El ''Space'' []
        [El ''Button'' [Flag ''disabled'' (\<not> canManage), Flag ''loading'' (list_ex is_CallUpdateRepos flight),
           On ''onClick'' (UpdateIndex (Some (rp_name r)))] [Txt [CHR 0xE6, CHR 0x9B, CHR 0xB4, CHR 0xE6, CHR 0x96, CHR 0xB0, CHR 0xE7, CHR 0xB4,
      CHR 0xA2, CHR 0xE5, CHR 0xBC, CHR 0x95]],
         El ''Popconfirm''
           [Attr ''title'' ([CHR 0xE7, CHR 0xA1, CHR 0xAE, CHR 0xE5, CHR 0xAE, CHR 0x9A, CHR 0xE7, CHR 0xA7,
      CHR 0xBB, CHR 0xE9, CHR 0x99, CHR 0xA4, CHR 0xE4, CHR 0xBB, CHR 0x93, CHR 0xE5,
      CHR 0xBA, CHR 0x93, CHR 0xE3, CHR 0x80, CHR 0x8C] @ rp_name r @ [CHR 0xE3, CHR 0x80, CHR 0x8D, CHR 0xEF, CHR 0xBC, CHR 0x9F]),
            Attr ''description'' ([CHR 0xE4, CHR 0xBB, CHR 0x85, CHR 0xE4, CHR 0xBB, CHR 0x8E, CHR 0xE6, CHR 0x9C,
      CHR 0xAC, CHR 0xE5, CHR 0xB9, CHR 0xB3, CHR 0xE5, CHR 0x8F, CHR 0xB0] @
     '' Helm CLI '' @
     [CHR 0xE4, CHR 0xBB, CHR 0x93, CHR 0xE5, CHR 0xBA, CHR 0x93, CHR 0xE5, CHR 0x88,
      CHR 0x97, CHR 0xE8, CHR 0xA1, CHR 0xA8, CHR 0xE7, CHR 0xA7, CHR 0xBB, CHR 0xE9,
      CHR 0x99, CHR 0xA4, CHR 0xEF, CHR 0xBC, CHR 0x8C, CHR 0xE4, CHR 0xB8, CHR 0x8D,
      CHR 0xE5, CHR 0xBD, CHR 0xB1, CHR 0xE5, CHR 0x93, CHR 0x8D, CHR 0xE5, CHR 0xB7,
      CHR 0xB2, CHR 0xE5, CHR 0xAE, CHR 0x89, CHR 0xE8, CHR 0xA3, CHR 0x85, CHR 0xE7,
      CHR 0x9A, CHR 0x84] @
     '' Release'')]
           [El ''okButton'' [Flag ''disabled'' (\<not> canManage), On ''onConfirm'' (RemoveRepository r)] [],
            El ''Button'' [Flag ''disabled'' (\<not> canManage)] [Txt [CHR 0xE7, CHR 0xA7, CHR 0xBB, CHR 0xE9, CHR 0x99, CHR 0xA4]]]]]"

definition repo_columns :: "bool \<Rightarrow> repos_call list \<Rightarrow> (string \<times> (helm_repo \<Rightarrow> repos_action node list)) list" where
  "repo_columns canManage flight =
     [([CHR 0xE5, CHR 0x90, CHR 0x8D, CHR 0xE7, CHR 0xA7, CHR 0xB0], \<lambda>r. [El ''Text'' [Flag ''strong'' True] [Txt (rp_name r)]]),
      ([CHR 0xE5, CHR 0x9C, CHR 0xB0, CHR 0xE5, CHR 0x9D, CHR 0x80], \<lambda>r. [Txt (rp_url r)]),
      ([CHR 0xE6, CHR 0x93, CHR 0x8D, CHR 0xE4, CHR 0xBD, CHR 0x9C], repo_actions_view canManage flight)]"

definition chart_columns :: "bool \<Rightarrow> (string \<times> (helm_chart \<Rightarrow> repos_action node list)) list" where
  "chart_columns canManage =
     [(''Chart'', \<lambda>r. [El ''Text'' [Flag ''code'' True] [Txt (hc_name r)]]),
      (''Version'', \<lambda>r. [Txt (hc_version r)]),
      (''App Version'', \<lambda>r. [Txt (if hc_app_version r = [] then ''-'' else hc_app_version r)]),
      ([CHR 0xE6, CHR 0x8F, CHR 0x8F, CHR 0xE8, CHR 0xBF, CHR 0xB0], \<lambda>r. [Txt (hc_description r)]),
      ([CHR 0xE6, CHR 0x93, CHR 0x8D, CHR 0xE4, CHR 0xBD, CHR 0x9C], \<lambda>r. [El ''Button'' [Flag ''disabled'' (\<not> canManage), On ''onClick'' (GoInstall r)] [Txt [CHR 0xE5, CHR 0x8E, CHR 0xBB, CHR 0xE5, CHR 0xAE, CHR 0x89, CHR 0xE8, CHR 0xA3,
      CHR 0x85]]])]"

definition repos_table :: "bool \<Rightarrow> repos_data \<Rightarrow> repos_call list \<Rightarrow> repos_action node" where
  "repos_table canManage d flight =
     El ''ProTable'' [Flag ''loading'' (xd_fetching d)]
       ([El ''headerTitle'' []
           [El ''span'' [] [Txt (''Helm '' @
     [CHR 0xE4, CHR 0xBB, CHR 0x93, CHR 0xE5, CHR 0xBA, CHR 0x93])], El ''Tag'' [] [Txt (show_nat (length (listed_repos d)) @ ('' '' @
     [CHR 0xE4, CHR 0xB8, CHR 0xAA]))]],
         El ''toolBar'' []
           [El ''Button'' [On ''onClick'' ReloadRepos] [Txt [CHR 0xE5, CHR 0x88, CHR 0xB7, CHR 0xE6, CHR 0x96, CHR 0xB0]],
            El ''Button'' [Flag ''loading'' (list_ex is_CallUpdateRepos flight), Flag ''disabled'' (\<not> canManage),
              On ''onClick'' (UpdateIndex None)] [Txt [CHR 0xE6, CHR 0x9B, CHR 0xB4, CHR 0xE6, CHR 0x96, CHR 0xB0, CHR 0xE5, CHR 0x85,
      CHR 0xA8, CHR 0xE9, CHR 0x83, CHR 0xA8, CHR 0xE7, CHR 0xB4, CHR 0xA2, CHR 0xE5,
      CHR 0xBC, CHR 0x95]],
            El ''Button'' [Flag ''disabled'' (\<not> canManage), On ''onClick'' OpenAdd] [Txt [CHR 0xE6, CHR 0xB7, CHR 0xBB, CHR 0xE5, CHR 0x8A, CHR 0xA0, CHR 0xE4, CHR 0xBB,
      CHR 0x93, CHR 0xE5, CHR 0xBA, CHR 0x93]]]] @
        table_rows (repo_columns canManage flight) (listed_repos d))"

definition charts_table :: "bool \<Rightarrow> repos_data \<Rightarrow> repos_state \<Rightarrow> repos_action node" where
  "charts_table canManage d s =
     El ''ProTable'' [Attr ''headerTitle'' (''Chart '' @
     [CHR 0xE6, CHR 0xA3, CHR 0x80, CHR 0xE7, CHR 0xB4, CHR 0xA2]), Flag ''loading'' (xd_chartsLoading d)]
       ([El ''toolBar'' []
           [El ''Select'' [Attr ''value'' (xz_repo s), Attr ''placeholder'' [CHR 0xE7, CHR 0xAD, CHR 0x9B, CHR 0xE9, CHR 0x80, CHR 0x89, CHR 0xE4, CHR 0xBB,
      CHR 0x93, CHR 0xE5, CHR 0xBA, CHR 0x93],
              Options (map (\<lambda>(l, v). (v, l)) (repoOptions (listed_repos d))), On ''onChange'' ChooseChartRepo] [],
            El ''Input.Search'' [Attr ''value'' (xz_keyword s), Attr ''placeholder'' ([CHR 0xE6, CHR 0x8C, CHR 0x89] @
     '' Chart '' @
     [CHR 0xE5, CHR 0x90, CHR 0x8D, CHR 0xE7, CHR 0xA7, CHR 0xB0, CHR 0xE6, CHR 0x90,
      CHR 0x9C, CHR 0xE7, CHR 0xB4, CHR 0xA2]),
              On ''onChange'' TypeChartKeyword, On ''onSearch'' StartKeywordSearch] [],
            El ''Button'' [On ''onClick'' StartSearch] [Txt [CHR 0xE6, CHR 0x90, CHR 0x9C, CHR 0xE7, CHR 0xB4, CHR 0xA2]]]] @
        table_rows (chart_columns canManage) (case xd_charts d of None \<Rightarrow> [] | Some cs \<Rightarrow> cs))"

definition add_repo_form_view :: "(string \<Rightarrow> bool) \<Rightarrow> repos_action node" where
  "add_repo_form_view is_url =
     El ''Form'' []
       [El ''Form.Item'' [Attr ''name'' ''name'', Attr ''label'' [CHR 0xE4, CHR 0xBB, CHR 0x93, CHR 0xE5, CHR 0xBA, CHR 0x93, CHR 0xE5, CHR 0x90,
      CHR 0x8D, CHR 0xE7, CHR 0xA7, CHR 0xB0],
           Rules [required, no_rule\<lparr>fr_pattern := Some valid_repo_name\<rparr>]]
          [El ''Input'' [Attr ''placeholder'' ([CHR 0xE5, CHR 0xA6, CHR 0x82] @
     '' bitnami'')] []],
        El ''Form.Item'' [Attr ''name'' ''url'', Attr ''label'' [CHR 0xE4, CHR 0xBB, CHR 0x93, CHR 0xE5, CHR 0xBA, CHR 0x93, CHR 0xE5, CHR 0x9C,
      CHR 0xB0, CHR 0xE5, CHR 0x9D, CHR 0x80],
           Rules [required, no_rule\<lparr>fr_pattern := Some is_url\<rparr>]]
          [El ''Input'' [Attr ''placeholder'' ''https://charts.bitnami.com/bitnami''] []],
        El ''Form.Item'' [Attr ''name'' ''username'', Attr ''label'' [CHR 0xE7, CHR 0x94, CHR 0xA8, CHR 0xE6, CHR 0x88, CHR 0xB7, CHR 0xE5, CHR 0x90,
      CHR 0x8D, CHR 0xEF, CHR 0xBC, CHR 0x88, CHR 0xE5, CHR 0x8F, CHR 0xAF, CHR 0xE9,
      CHR 0x80, CHR 0x89, CHR 0xEF, CHR 0xBC, CHR 0x89]]
          [El ''Input'' [Attr ''placeholder'' [CHR 0xE7, CHR 0xA7, CHR 0x81, CHR 0xE6, CHR 0x9C, CHR 0x89, CHR 0xE4, CHR 0xBB,
      CHR 0x93, CHR 0xE5, CHR 0xBA, CHR 0x93, CHR 0xE8, CHR 0xAE, CHR 0xA4, CHR 0xE8,
      CHR 0xAF, CHR 0x81]] []],
        El ''Form.Item'' [Attr ''name'' ''password'', Attr ''label'' [CHR 0xE5, CHR 0xAF, CHR 0x86, CHR 0xE7, CHR 0xA0, CHR 0x81, CHR 0xEF, CHR 0xBC,
      CHR 0x88, CHR 0xE5, CHR 0x8F, CHR 0xAF, CHR 0xE9, CHR 0x80, CHR 0x89, CHR 0xEF,
      CHR 0xBC, CHR 0x89]]
          [El ''Input.Password'' [Attr ''placeholder'' [CHR 0xE7, CHR 0xA7, CHR 0x81, CHR 0xE6, CHR 0x9C, CHR 0x89, CHR 0xE4, CHR 0xBB,
      CHR 0x93, CHR 0xE5, CHR 0xBA, CHR 0x93, CHR 0xE8, CHR 0xAE, CHR 0xA4, CHR 0xE8,
      CHR 0xAF, CHR 0x81]] []]]"

definition add_repo_drawer :: "(string \<Rightarrow> bool) \<Rightarrow> repos_call list \<Rightarrow> repos_state \<Rightarrow> repos_action node" where
  "add_repo_drawer is_url flight s =
     El ''Drawer'' [Attr ''title'' ([CHR 0xE6, CHR 0xB7, CHR 0xBB, CHR 0xE5, CHR 0x8A, CHR 0xA0] @
     '' Helm '' @
     [CHR 0xE4, CHR 0xBB, CHR 0x93, CHR 0xE5, CHR 0xBA, CHR 0x93]), Flag ''open'' (xz_open s), On ''onClose'' CloseAdd]
       [El ''extra'' []
          [El ''Space'' []
             [El ''Button'' [On ''onClick'' CloseAdd] [Txt [CHR 0xE5, CHR 0x8F, CHR 0x96, CHR 0xE6, CHR 0xB6, CHR 0x88]],
              El ''Button'' [Flag ''loading'' (list_ex is_CallAddRepo flight), On ''onClick'' SubmitAdd] [Txt [CHR 0xE6, CHR 0xB7, CHR 0xBB, CHR 0xE5, CHR 0x8A, CHR 0xA0]]]],
        add_repo_form_view is_url]"

definition repos_view ::
  "(string \<Rightarrow> bool) \<Rightarrow> current_user option \<Rightarrow> repos_data \<Rightarrow> repos_call list \<Rightarrow> repos_state \<Rightarrow> repos_action node" where
  "repos_view is_url u d flight s =
     (let canManage = hasPerm u ''helm:install''
      in El ''PageContainer'' [Attr ''title'' [CHR 0xE5, CHR 0x88, CHR 0xB6, CHR 0xE5, CHR 0x93, CHR 0x81, CHR 0xE4, CHR 0xBB,
      CHR 0x93, CHR 0xE5, CHR 0xBA, CHR 0x93], Attr ''subTitle'' ([CHR 0xE7, CHR 0xAE, CHR 0xA1, CHR 0xE7, CHR 0x90, CHR 0x86] @
     '' Helm Chart '' @
     [CHR 0xE4, CHR 0xBB, CHR 0x93, CHR 0xE5, CHR 0xBA, CHR 0x93, CHR 0xEF, CHR 0xBC,
      CHR 0x8C, CHR 0xE5, CHR 0xB9, CHR 0xB6, CHR 0xE6, CHR 0xA3, CHR 0x80, CHR 0xE7,
      CHR 0xB4, CHR 0xA2, CHR 0xE5, CHR 0x8F, CHR 0xAF, CHR 0xE5, CHR 0xAE, CHR 0x89,
      CHR 0xE8, CHR 0xA3, CHR 0x85, CHR 0xE7, CHR 0x9A, CHR 0x84] @
     '' Chart'')]
       [El ''Space'' []
          (shown_if (truthy (xd_error d))
             [El ''Alert'' [Attr ''type'' ''error'', Attr ''message'' ([CHR 0xE6, CHR 0x97, CHR 0xA0, CHR 0xE6, CHR 0xB3, CHR 0x95, CHR 0xE5, CHR 0x88,
      CHR 0x97, CHR 0xE5, CHR 0x87, CHR 0xBA] @
     '' Helm '' @
     [CHR 0xE4, CHR 0xBB, CHR 0x93, CHR 0xE5, CHR 0xBA, CHR 0x93]),
                Attr ''description'' (repos_error_text (the (xd_error d)))] []] @
           [repos_table canManage d flight, charts_table canManage d s]),
        add_repo_drawer is_url flight s])"

subsection \<open>What the actions and the replies do\<close>

definition repos_act ::
  "(string \<Rightarrow> bool) \<Rightarrow> current_user option \<Rightarrow> repos_action \<Rightarrow> event \<Rightarrow> repos_data \<Rightarrow> repos_state
    \<Rightarrow> repos_state \<times> repos_call page_effect list" where
  "repos_act is_url u a x d s =
     (case a of
        ReloadRepos \<Rightarrow> (s, [PRefetch])
      | UpdateIndex name \<Rightarrow> (s, start_call (CallUpdateRepos name) (handleUpdate name False))
      | OpenAdd \<Rightarrow> (s\<lparr>xz_form := repo_form_empty, xz_open := True\<rparr>, [])
      | CloseAdd \<Rightarrow> (s\<lparr>xz_open := False\<rparr>, [])
      | SubmitAdd \<Rightarrow> (s, start_call (CallAddRepo (xz_form s)) (snd (handleAdd is_url (xz_form s) False)))
      | RemoveRepository r \<Rightarrow> (s, start_call (CallRemoveRepo (rp_name r)) (confirm_remove u (rp_name r) False))
      | GoInstall r \<Rightarrow> (s, [PNavigate (chart_link r)])
      | ChooseChartRepo \<Rightarrow> (s\<lparr>xz_repo := text_or x (xz_repo s)\<rparr>, [])
      | TypeChartKeyword \<Rightarrow> (s\<lparr>xz_keyword := text_or x (xz_keyword s)\<rparr>, [])
      | StartKeywordSearch \<Rightarrow>
          (s\<lparr>xz_keyword := text_or x (xz_keyword s), xz_query := (xz_repo s, text_or x (xz_keyword s))\<rparr>, [])
      | StartSearch \<Rightarrow> (s\<lparr>xz_query := (xz_repo s, xz_keyword s)\<rparr>, []))"

text \<open>An addition that succeeded closes the drawer and clears the form, whatever is in it by then.\<close>

definition repos_reply ::
  "(string \<Rightarrow> bool) \<Rightarrow> current_user option \<Rightarrow> repos_call \<Rightarrow> bool \<Rightarrow> repos_state \<Rightarrow> repos_state \<times> repos_call page_effect list" where
  "repos_reply is_url u c ok s =
     (case c of
        CallAddRepo f \<Rightarrow>
          (if ok then s\<lparr>xz_open := False, xz_form := repo_form_empty\<rparr> else s, reported (snd (handleAdd is_url f ok)))
      | CallUpdateRepos name \<Rightarrow> (s, reported (handleUpdate name ok))
      | CallRemoveRepo name \<Rightarrow> (s, reported (confirm_remove u name ok)))"

definition repos_typed :: "repos_state \<Rightarrow> repos_state \<Rightarrow> bool" where
  "repos_typed s s' \<longleftrightarrow> xz_open s \<and> s' = s\<lparr>xz_form := xz_form s'\<rparr>"

definition repos_page ::
  "(string \<Rightarrow> bool) \<Rightarrow> current_user option \<Rightarrow> (repos_data, repos_state, repos_action, repos_call, bool) machine" where
  "repos_page is_url u =
     \<lparr>pg_start = repos_start, pg_view = repos_view is_url u, pg_act = repos_act is_url u, pg_reply = repos_reply is_url u,
      pg_commit = (\<lambda>d s. (s, [])), pg_typed = repos_typed\<rparr>"

text \<open>The query of the charts that the page sends.\<close>

definition repos_chart_query :: "repos_state \<Rightarrow> helm_query" where
  "repos_chart_query s = chart_query (fst (xz_query s)) (snd (xz_query s))"

subsection \<open>What the page offers\<close>

definition add_repo_field :: "add_repo_form \<Rightarrow> string \<Rightarrow> string option" where
  "add_repo_field f = map_of
     ([(''name'', af_name f), (''url'', af_url f)] @
      (case af_username f of None \<Rightarrow> [] | Some v \<Rightarrow> [(''username'', v)]) @
      (case af_password f of None \<Rightarrow> [] | Some v \<Rightarrow> [(''password'', v)]))"

text \<open>What the handler checks is what the rules of the rendered form accept.\<close>

lemma add_repo_rules:
  "form_accepts e (add_repo_form_view is_url) (add_repo_field f) \<longleftrightarrow> add_repo_valid is_url f"
  by (cases "af_name f") (auto simp: form_accepts_def add_repo_form_view_def add_repo_field_def add_repo_valid_def
      field_of_def rule_ok_def required_def no_rule_def valid_repo_name_def)

definition repos_offer_ok :: "current_user option \<Rightarrow> repos_call list \<Rightarrow> repos_state \<Rightarrow> repos_action \<Rightarrow> bool" where
  "repos_offer_ok u flight s a \<longleftrightarrow>
     (case a of
        UpdateIndex name \<Rightarrow> hasPerm u ''helm:install'' \<and> filter is_CallUpdateRepos flight = []
      | OpenAdd \<Rightarrow> hasPerm u ''helm:install''
      | SubmitAdd \<Rightarrow> xz_open s \<and> filter is_CallAddRepo flight = []
      | RemoveRepository r \<Rightarrow> hasPerm u ''helm:install''
      | GoInstall r \<Rightarrow> hasPerm u ''helm:install''
      | _ \<Rightarrow> True)"

lemma repos_tables_offer:
  "offers_only (repos_offer_ok u flight s) (repos_table (hasPerm u ''helm:install'') d flight)"
  "offers_only (repos_offer_ok u flight s) (charts_table (hasPerm u ''helm:install'') d s)"
  by (cases "list_ex is_CallUpdateRepos flight"; simp add: repos_table_def charts_table_def repo_columns_def
      chart_columns_def repo_actions_view_def repos_offer_ok_def not_list_ex_filter offer_simps)+

lemma add_repo_offers: "offers_only (repos_offer_ok u flight s) (add_repo_drawer is_url flight s)"
  by (auto simp: add_repo_drawer_def add_repo_form_view_def repos_offer_ok_def offer_simps intro: not_list_ex_filter)

lemma repos_offered: "a \<in> set (acts (repos_view is_url u d flight s)) \<Longrightarrow> repos_offer_ok u flight s a"
  by (rule offers_onlyD [rotated], assumption)
    (simp add: repos_view_def repos_tables_offer add_repo_offers Let_def offer_simps)

subsection \<open>Properties of the runs\<close>

definition adding_permitted :: "current_user option \<Rightarrow> repos_state \<Rightarrow> bool" where
  "adding_permitted u s \<longleftrightarrow> (xz_open s \<longrightarrow> hasPerm u ''helm:install'')"

definition repos_call_ok :: "(string \<Rightarrow> bool) \<Rightarrow> current_user option \<Rightarrow> repos_call \<Rightarrow> bool" where
  "repos_call_ok is_url u c \<longleftrightarrow>
     hasPerm u ''helm:install'' \<and> (case c of CallAddRepo f \<Rightarrow> add_repo_valid is_url f | _ \<Rightarrow> True)"

lemma repos_act_sends:
  "adding_permitted u s \<Longrightarrow> repos_offer_ok u flight s a \<Longrightarrow> c \<in> set (sends (snd (repos_act is_url u a x d s)))
    \<Longrightarrow> repos_call_ok is_url u c"
  by (cases a) (auto simp: repos_act_def repos_call_ok_def repos_offer_ok_def adding_permitted_def handleAdd_def
      handleUpdate_def confirm_remove_def split: if_splits)

lemma repos_act_one:
  "length (sends (snd (repos_act is_url u a x d s))) \<le> 1"
  "filter is_CallAddRepo (sends (snd (repos_act is_url u a x d s))) \<noteq> [] \<Longrightarrow> a = SubmitAdd"
  "filter is_CallUpdateRepos (sends (snd (repos_act is_url u a x d s))) \<noteq> [] \<Longrightarrow> \<exists>name. a = UpdateIndex name"
  by (cases a; auto simp: repos_act_def handleAdd_def handleUpdate_def confirm_remove_def split: if_splits)+

lemma repos_inv_steps:
  "adding_permitted u s \<Longrightarrow> repos_offer_ok u flight s a \<Longrightarrow> adding_permitted u (fst (repos_act is_url u a x d s))"
  "adding_permitted u s \<Longrightarrow> adding_permitted u (fst (repos_reply is_url u c ok s))"
  "sends (snd (repos_reply is_url u c ok s)) = []" "adding_permitted u repos_start"
  by (cases a; auto simp: repos_act_def adding_permitted_def repos_offer_ok_def)
    (cases c; auto simp: repos_reply_def adding_permitted_def repos_start_def)+

lemma repos_typed_inv: "adding_permitted u s \<Longrightarrow> repos_typed s s' \<Longrightarrow> adding_permitted u s'"
  unfolding repos_typed_def by (elim conjE, erule ssubst) (simp add: adding_permitted_def)

interpretation repos_machine: guarded_page "repos_page is_url u" "adding_permitted u" "repos_call_ok is_url u"
  by unfold_locales (auto simp: repos_page_def repos_inv_steps repos_typed_inv dest: repos_offered repos_act_sends)

interpretation repos_add_once: single_submit "repos_page is_url u" "adding_permitted u" "repos_call_ok is_url u" is_CallAddRepo
  by unfold_locales
    (auto simp: repos_page_def repos_act_one(1) [simplified] repos_offer_ok_def dest!: repos_act_one(2) repos_offered)

interpretation repos_update_once: single_submit "repos_page is_url u" "adding_permitted u" "repos_call_ok is_url u"
  is_CallUpdateRepos
  by unfold_locales
    (auto simp: repos_page_def repos_act_one(1) [simplified] repos_offer_ok_def dest!: repos_act_one(3) repos_offered)

text \<open>
  Whatever happens on the page of the repositories, in any order: repositories are added, updated
  and removed only with the permission to install, an added one has a name and an address that the
  form accepts, and neither two additions nor two updates of the index are in flight.
\<close>

theorem repos_run_safe:
  assumes "page_reach (repos_page is_url u) s flight tr"
  shows "(\<forall>c \<in> set (sends tr). repos_call_ok is_url u c)
    \<and> length (filter is_CallAddRepo flight) \<le> 1 \<and> length (filter is_CallUpdateRepos flight) \<le> 1"
  using repos_machine.sent_permitted [OF assms] repos_add_once.at_most_one_in_flight [OF assms]
    repos_update_once.at_most_one_in_flight [OF assms]
  by blast

definition demo_repo_manager :: "current_user option" where
  "demo_repo_manager = Some (demo_user [''helm:install''])"

lemma demo_repo_reach:
  "page_reach (repos_page is_url demo_repo_manager) repos_start [CallUpdateRepos None] [PSend (CallUpdateRepos None)]"
proof -
  let ?p = "repos_page is_url demo_repo_manager"
  let ?d = "\<lparr>xd_repos = None, xd_fetching = False, xd_error = None, xd_charts = None, xd_chartsLoading = False\<rparr>"
  have can: "hasPerm demo_repo_manager ''helm:install''"
    by (simp add: demo_repo_manager_def hasPerm_def demo_user_def user_perms_def isPlatformAdmin_def)
  have start: "page_reach ?p repos_start [] []"
    using page_reach.start [of ?p] by (simp add: repos_page_def)
  have "page_reach ?p repos_start ([] @ sends [PSend (CallUpdateRepos None)]) ([] @ [PSend (CallUpdateRepos None)])"
  proof (rule page_reach.act [OF start, of "UpdateIndex None" ?d NoArg])
    show "UpdateIndex None \<in> set (acts (pg_view ?p ?d [] repos_start))"
      by (simp add: repos_page_def repos_view_def repos_table_def can view_simps Let_def)
    show "pg_act ?p (UpdateIndex None) NoArg ?d repos_start = (repos_start, [PSend (CallUpdateRepos None)])"
      by (simp add: repos_page_def repos_act_def handleUpdate_def try_send_def start_call_def)
  qed
  then show ?thesis by simp
qed

theorem repos_run_safe_witness: "repos_call_ok is_url demo_repo_manager (CallUpdateRepos None)"
  using repos_run_safe [OF demo_repo_reach] by simp

text \<open>
  A late success clears a drawer that was opened again; and what is typed changes the search only when
  it is started.
\<close>

lemma late_add_reply:
  "xz_form (fst (repos_reply is_url u (CallAddRepo f) True s)) = repo_form_empty"
  "\<not> xz_open (fst (repos_reply is_url u (CallAddRepo f) True s))"
  by (simp_all add: repos_reply_def)

lemma typing_keeps_search:
  "repos_chart_query (fst (repos_act is_url u TypeChartKeyword x d s)) = repos_chart_query s"
  "repos_chart_query (fst (repos_act is_url u ChooseChartRepo x d s)) = repos_chart_query s"
  "repos_chart_query (fst (repos_act is_url u StartSearch x d s)) = chart_query (xz_repo s) (xz_keyword s)"
  by (simp_all add: repos_chart_query_def repos_act_def)

end
