(* ===== verification/CompareView.thy ===== *)
theory CompareView
  imports View Compare Permission
begin

section \<open>The page of the comparison across clusters as a machine\<close>

text \<open>
  What \<open>pages/ops/compare.tsx\<close> renders and the runs of the page. The two requests of a comparison are
  one call, since the page awaits both. A field without a value is the empty text. The data are the
  query string, the clusters, and for each side the namespaces and the names of the listed resources.
  \<open>yaml\<close> is \<open>resourceToYaml\<close>, \<open>leq\<close> is \<open>localeCompare\<close>.
\<close>

record compare_data =
  od_get :: "string \<Rightarrow> string option"
  od_clusters :: "(string option \<times> string) list"
  od_left :: allowed_namespaces
  od_right :: allowed_namespaces
  od_leftNames :: "string option list"
  od_rightNames :: "string option list"
  od_listing :: bool

type_synonym compare_call = "get_resource_params \<times> get_resource_params"

record compare_page_state =
  oz_form :: compare_form
  oz_count :: "nat option"
  oz_view :: compare_view
  oz_loading :: bool

datatype compare_action = RunComparison | SwapSides | ChooseKind

definition no_comparison :: compare_view where
  "no_comparison = \<lparr>leftYaml = [], rightYaml = [], leftError = [], rightError = [], summary = [], compared = False\<rparr>"

definition compare_page_start :: compare_page_state where
  "compare_page_start =
     \<lparr>oz_form = \<lparr>leftCluster = [], rightCluster = [], leftNamespace = [], rightNamespace = [], cf_kind = [], cf_name = []\<rparr>,
      oz_count = None, oz_view = no_comparison, oz_loading = False\<rparr>"

definition form_scoped :: "compare_form \<Rightarrow> bool" where
  "form_scoped f = snd (kind_meta (Some (cf_kind f)))"

subsection \<open>What is rendered\<close>

definition choice ::
  "string \<Rightarrow> string \<Rightarrow> string \<Rightarrow> (string \<times> string) list \<Rightarrow> compare_action node" where
  "choice name label placeholder options =
     El ''Form.Item'' [Attr ''name'' name, Attr ''label'' label, Rules [required]]
       [El ''Select'' [Options options, Attr ''placeholder'' placeholder] []]"

definition side_view ::
  "string \<times> string \<Rightarrow> string \<times> string \<Rightarrow> compare_data \<Rightarrow> allowed_namespaces \<Rightarrow> compare_form \<Rightarrow> compare_action node" where
  "side_view cluster ns d a f =
     El ''Col'' []
       (choice (fst cluster) (snd cluster) [CHR 0xE9, CHR 0x80, CHR 0x89, CHR 0xE6, CHR 0x8B, CHR 0xA9, CHR 0xE9, CHR 0x9B,
      CHR 0x86, CHR 0xE7, CHR 0xBE, CHR 0xA4] (map (\<lambda>c. (snd c, cluster_label c)) (od_clusters d)) #
        shown_if (\<not> form_scoped f)
          [choice (fst ns) (snd ns) [CHR 0xE5, CHR 0x91, CHR 0xBD, CHR 0xE5, CHR 0x90, CHR 0x8D, CHR 0xE7, CHR 0xA9,
      CHR 0xBA, CHR 0xE9, CHR 0x97, CHR 0xB4] (map (\<lambda>n. (n, n)) (an_namespaces a))])"

definition compare_form_view ::
  "(string \<Rightarrow> string \<Rightarrow> bool) \<Rightarrow> compare_data \<Rightarrow> compare_page_state \<Rightarrow> compare_action node" where
  "compare_form_view leq d s =
     (let f = oz_form s
      in El ''Card'' []
        [El ''Form'' []
           [El ''Row'' []
              [side_view (''leftCluster'', [CHR 0xE5, CHR 0xB7, CHR 0xA6, CHR 0xE4, CHR 0xBE, CHR 0xA7, CHR 0xE9, CHR 0x9B,
      CHR 0x86, CHR 0xE7, CHR 0xBE, CHR 0xA4]) (''leftNamespace'', [CHR 0xE5, CHR 0xB7, CHR 0xA6, CHR 0xE4, CHR 0xBE, CHR 0xA7, CHR 0xE5, CHR 0x91,
      CHR 0xBD, CHR 0xE5, CHR 0x90, CHR 0x8D, CHR 0xE7, CHR 0xA9, CHR 0xBA, CHR 0xE9,
      CHR 0x97, CHR 0xB4]) d (od_left d) f,
               El ''Col'' [] [El ''Button'' [On ''onClick'' SwapSides] [Txt [CHR 0xE4, CHR 0xBA, CHR 0xA4, CHR 0xE6, CHR 0x8D, CHR 0xA2]]],
               side_view (''rightCluster'', [CHR 0xE5, CHR 0x8F, CHR 0xB3, CHR 0xE4, CHR 0xBE, CHR 0xA7, CHR 0xE9, CHR 0x9B,
      CHR 0x86, CHR 0xE7, CHR 0xBE, CHR 0xA4]) (''rightNamespace'', [CHR 0xE5, CHR 0x8F, CHR 0xB3, CHR 0xE4, CHR 0xBE, CHR 0xA7, CHR 0xE5, CHR 0x91,
      CHR 0xBD, CHR 0xE5, CHR 0x90, CHR 0x8D, CHR 0xE7, CHR 0xA9, CHR 0xBA, CHR 0xE9,
      CHR 0x97, CHR 0xB4]) d (od_right d) f],
            El ''Row'' []
              [El ''Col'' []
                 [El ''Form.Item'' [Attr ''name'' ''kind'', Attr ''label'' [CHR 0xE8, CHR 0xB5, CHR 0x84, CHR 0xE6, CHR 0xBA, CHR 0x90, CHR 0xE7, CHR 0xB1,
      CHR 0xBB, CHR 0xE5, CHR 0x9E, CHR 0x8B], Rules [required]]
                    [El ''Select'' [Options (map (\<lambda>k. (ko_value k, ko_label k)) ALL_KIND_OPTIONS), On ''onChange'' ChooseKind] []]],
               El ''Col'' []
                 [El ''Form.Item'' [Attr ''name'' ''name'', Attr ''label'' [CHR 0xE8, CHR 0xB5, CHR 0x84, CHR 0xE6, CHR 0xBA, CHR 0x90, CHR 0xE5, CHR 0x90,
      CHR 0x8D, CHR 0xE7, CHR 0xA7, CHR 0xB0], Rules [required]]
                    [El ''Select'' [Flag ''loading'' (od_listing d), Flag ''allowClear'' True,
                       Options (nameOptions leq (od_leftNames d) (od_rightNames d)),
                       Attr ''placeholder'' [CHR 0xE4, CHR 0xBB, CHR 0x8E, CHR 0xE4, CHR 0xB8, CHR 0xA4, CHR 0xE4, CHR 0xBE,
      CHR 0xA7, CHR 0xE9, CHR 0x9B, CHR 0x86, CHR 0xE7, CHR 0xBE, CHR 0xA4, CHR 0xE4,
      CHR 0xB8, CHR 0xAD, CHR 0xE9, CHR 0x80, CHR 0x89, CHR 0xE6, CHR 0x8B, CHR 0xA9,
      CHR 0xE8, CHR 0xB5, CHR 0x84, CHR 0xE6, CHR 0xBA, CHR 0x90],
                       Attr ''notFoundContent'' (if od_listing d then ([CHR 0xE6, CHR 0xAD, CHR 0xA3, CHR 0xE5, CHR 0x9C, CHR 0xA8, CHR 0xE5, CHR 0x8A,
      CHR 0xA0, CHR 0xE8, CHR 0xBD, CHR 0xBD, CHR 0xE8, CHR 0xB5, CHR 0x84, CHR 0xE6,
      CHR 0xBA, CHR 0x90, CHR 0xE5, CHR 0x88, CHR 0x97, CHR 0xE8, CHR 0xA1, CHR 0xA8] @
     ''...'') else [CHR 0xE6, CHR 0xB2, CHR 0xA1, CHR 0xE6, CHR 0x9C, CHR 0x89, CHR 0xE5, CHR 0x8F,
      CHR 0xAF, CHR 0xE5, CHR 0xAF, CHR 0xB9, CHR 0xE6, CHR 0xAF, CHR 0x94, CHR 0xE7,
      CHR 0x9A, CHR 0x84, CHR 0xE8, CHR 0xB5, CHR 0x84, CHR 0xE6, CHR 0xBA, CHR 0x90])] []]],
               El ''Col'' []
                 [El ''Form.Item'' [Attr ''label'' '' '']
                    [El ''Button'' [Flag ''loading'' (oz_loading s), On ''onClick'' RunComparison] [Txt [CHR 0xE5, CHR 0x8A, CHR 0xA0, CHR 0xE8, CHR 0xBD, CHR 0xBD, CHR 0xE5, CHR 0xB9,
      CHR 0xB6, CHR 0xE5, CHR 0xAF, CHR 0xB9, CHR 0xE6, CHR 0xAF, CHR 0x94]]]]]]])"

text \<open>The names of the sides over the texts are those of the form, not of the comparison.\<close>

definition diff_labels :: "compare_form \<Rightarrow> string \<times> string" where
  "diff_labels f =
     (([CHR 0xE5, CHR 0xB7, CHR 0xA6, CHR 0xE4, CHR 0xBE, CHR 0xA7] @
     '' '') @ or_str (Some (leftCluster f)) ''-'', ([CHR 0xE5, CHR 0x8F, CHR 0xB3, CHR 0xE4, CHR 0xBE, CHR 0xA7] @
     '' '') @ or_str (Some (rightCluster f)) ''-'')"

definition error_lines :: "compare_view \<Rightarrow> string list" where
  "error_lines v =
     (if leftError v \<noteq> [] then [[CHR 0xE5, CHR 0xB7, CHR 0xA6, CHR 0xE4, CHR 0xBE, CHR 0xA7, CHR 0xEF, CHR 0xBC,
      CHR 0x9A] @ leftError v] else []) @
     (if rightError v \<noteq> [] then [[CHR 0xE5, CHR 0x8F, CHR 0xB3, CHR 0xE4, CHR 0xBE, CHR 0xA7, CHR 0xEF, CHR 0xBC,
      CHR 0x9A] @ rightError v] else [])"

definition result_view :: "compare_page_state \<Rightarrow> compare_action node list" where
  "result_view s =
     (let v = oz_view s
      in shown_if (compared v)
        (shown_if (error_lines v \<noteq> [])
           [El ''Alert'' [Attr ''type'' ''warning'']
              [El ''message'' [] (map (\<lambda>t. El ''Text'' [] [Txt t]) (error_lines v))]] @
         [El ''Alert'' [Attr ''type'' (if alert_success v then ''success'' else ''info''), Attr ''message'' (summary v)]
            [El ''action'' [] [El ''Button'' [On ''onClick'' RunComparison] [Txt [CHR 0xE9, CHR 0x87, CHR 0x8D, CHR 0xE6, CHR 0x96, CHR 0xB0, CHR 0xE5, CHR 0x8A,
      CHR 0xA0, CHR 0xE8, CHR 0xBD, CHR 0xBD]]]],
          El ''Card'' []
            [El ''title'' []
               [El ''span'' [] [Txt ''YAML Diff''],
                El ''Text'' [Attr ''type'' ''secondary''] [Txt (fst (diff_labels (oz_form s)))],
                El ''Text'' [Attr ''type'' ''secondary''] [Txt (snd (diff_labels (oz_form s)))]],
             if leftYaml v \<noteq> [] \<or> rightYaml v \<noteq> []
             then El ''YamlDiffEditor'' [Attr ''original'' (leftYaml v), Attr ''modified'' (rightYaml v)] []
             else El ''Empty'' [Attr ''description'' ([CHR 0xE6, CHR 0xB2, CHR 0xA1, CHR 0xE6, CHR 0x9C, CHR 0x89, CHR 0xE5, CHR 0x8F,
      CHR 0xAF, CHR 0xE5, CHR 0xAF, CHR 0xB9, CHR 0xE6, CHR 0xAF, CHR 0x94, CHR 0xE7,
      CHR 0x9A, CHR 0x84] @
     '' YAML'')] []]]))"

definition compare_page_view ::
  "(string \<Rightarrow> string \<Rightarrow> bool) \<Rightarrow> compare_data \<Rightarrow> compare_call list \<Rightarrow> compare_page_state \<Rightarrow> compare_action node" where
  "compare_page_view leq d flight s =
     El ''PageContainer'' [Attr ''title'' [CHR 0xE8, CHR 0xB7, CHR 0xA8, CHR 0xE9, CHR 0x9B, CHR 0x86, CHR 0xE7, CHR 0xBE,
      CHR 0xA4, CHR 0xE9, CHR 0x85, CHR 0x8D, CHR 0xE7, CHR 0xBD, CHR 0xAE, CHR 0xE5,
      CHR 0xAF, CHR 0xB9, CHR 0xE6, CHR 0xAF, CHR 0x94],
        Attr ''subTitle'' ([CHR 0xE6, CHR 0x8B, CHR 0x89, CHR 0xE5, CHR 0x8F, CHR 0x96, CHR 0xE4, CHR 0xB8,
      CHR 0xA4, CHR 0xE4, CHR 0xB8, CHR 0xAA, CHR 0xE9, CHR 0x9B, CHR 0x86, CHR 0xE7,
      CHR 0xBE, CHR 0xA4, CHR 0xE4, CHR 0xB8, CHR 0xAD, CHR 0xE5, CHR 0x90, CHR 0x8C,
      CHR 0xE5, CHR 0x90, CHR 0x8D, CHR 0xE8, CHR 0xB5, CHR 0x84, CHR 0xE6, CHR 0xBA,
      CHR 0x90, CHR 0xE7, CHR 0x9A, CHR 0x84] @
     '' YAML'' @
     [CHR 0xEF, CHR 0xBC, CHR 0x8C, CHR 0xE5, CHR 0xB9, CHR 0xB6, CHR 0xE9, CHR 0xAB,
      CHR 0x98, CHR 0xE4, CHR 0xBA, CHR 0xAE, CHR 0xE5, CHR 0xB7, CHR 0xAE, CHR 0xE5,
      CHR 0xBC, CHR 0x82])]
       [El ''Space'' [] (compare_form_view leq d s # result_view s)]"

subsection \<open>What the actions, the replies and the effects do\<close>

definition compare_field :: "compare_form \<Rightarrow> string \<Rightarrow> string option" where
  "compare_field f = map_of
     [(''leftCluster'', leftCluster f), (''rightCluster'', rightCluster f), (''leftNamespace'', leftNamespace f),
      (''rightNamespace'', rightNamespace f), (''kind'', cf_kind f), (''name'', cf_name f)]"

definition compare_form_valid :: "(string \<Rightarrow> string \<Rightarrow> bool) \<Rightarrow> compare_data \<Rightarrow> compare_page_state \<Rightarrow> bool" where
  "compare_form_valid leq d s = form_accepts (\<lambda>_. True) (compare_form_view leq d s) (compare_field (oz_form s))"

fun compare_send :: "compare_effect list \<Rightarrow> compare_call page_effect list" where
  "compare_send (Fetch p # Fetch q # es) = PSend (p, q) # compare_send es"
| "compare_send (CompareWarning t # es) = PToast ToastWarn t # compare_send es"
| "compare_send (CompareError t # es) = PToast ToastFail t # compare_send es"
| "compare_send (SetSearch kvs # es) = PNavigate (''?'' @ usp_toString kvs) # compare_send es"
| "compare_send es = []"

definition compare_act ::
  "(string \<Rightarrow> string \<Rightarrow> bool) \<Rightarrow> compare_action \<Rightarrow> event \<Rightarrow> compare_data \<Rightarrow> compare_page_state
    \<Rightarrow> compare_page_state \<times> compare_call page_effect list" where
  "compare_act leq a x d s =
     (case a of
        RunComparison \<Rightarrow>
          (if \<not> compare_form_valid leq d s then (s, [])
           else
             let es = compare_send (compare_start (form_scoped (oz_form s)) (oz_form s))
             in (if sends es = [] then s
                 else s\<lparr>oz_loading := True, oz_view := no_comparison\<lparr>summary := summary (oz_view s)\<rparr>\<rparr>, es))
      | SwapSides \<Rightarrow> (s\<lparr>oz_form := swapClusters (oz_form s)\<rparr>, [])
      | ChooseKind \<Rightarrow>
          (s\<lparr>oz_form := (oz_form s)\<lparr>cf_kind := text_or x (cf_kind (oz_form s)), cf_name := []\<rparr>\<rparr>, []))"

definition compare_page_reply ::
  "(json \<Rightarrow> string) \<Rightarrow> compare_call \<Rightarrow> fetch_result \<times> fetch_result \<Rightarrow> compare_page_state
    \<Rightarrow> compare_page_state \<times> compare_call page_effect list" where
  "compare_page_reply yaml c r s = (s\<lparr>oz_view := compare_finish yaml (fst r) (snd r), oz_loading := False\<rparr>, [])"

definition filled_form :: "(string \<times> string option) list \<Rightarrow> compare_form" where
  "filled_form kvs =
     (let get = (\<lambda>k. case map_of kvs k of Some (Some v) \<Rightarrow> v | _ \<Rightarrow> [])
      in \<lparr>leftCluster = get ''leftCluster'', rightCluster = get ''rightCluster'', leftNamespace = get ''leftNamespace'',
          rightNamespace = get ''rightNamespace'', cf_kind = get ''kind'', cf_name = get ''name''\<rparr>)"

text \<open>The effect that fills the form when the number of clusters changed, and the two on the namespaces.\<close>

definition compare_commit ::
  "compare_data \<Rightarrow> compare_page_state \<Rightarrow> compare_page_state \<times> compare_call page_effect list" where
  "compare_commit d s =
     (let n = length (od_clusters d);
          f = (if oz_count s = Some n then oz_form s else filled_form (initial_compare (od_get d) (map snd (od_clusters d))))
      in (s\<lparr>oz_count := Some n,
            oz_form := f\<lparr>leftNamespace := side_namespace_effect (an_isFullCluster (od_left d)) (an_namespaces (od_left d)) (leftNamespace f),
              rightNamespace := side_namespace_effect (an_isFullCluster (od_right d)) (an_namespaces (od_right d)) (rightNamespace f)\<rparr>\<rparr>,
          []))"

definition compare_typed :: "compare_page_state \<Rightarrow> compare_page_state \<Rightarrow> bool" where
  "compare_typed s s' \<longleftrightarrow> s' = s\<lparr>oz_form := oz_form s'\<rparr>"

definition compare_page ::
  "(string \<Rightarrow> string \<Rightarrow> bool) \<Rightarrow> (json \<Rightarrow> string)
    \<Rightarrow> (compare_data, compare_page_state, compare_action, compare_call, fetch_result \<times> fetch_result) machine" where
  "compare_page leq yaml =
     \<lparr>pg_start = compare_page_start, pg_view = compare_page_view leq, pg_act = compare_act leq,
      pg_reply = compare_page_reply yaml, pg_commit = compare_commit, pg_typed = compare_typed\<rparr>"

subsection \<open>What the page offers\<close>

definition compare_offer_ok :: "compare_page_state \<Rightarrow> compare_action \<Rightarrow> bool" where
  "compare_offer_ok s a \<longleftrightarrow> (a = RunComparison \<longrightarrow> \<not> oz_loading s \<or> compared (oz_view s))"

lemma compare_form_offers: "offers_only (compare_offer_ok s) (compare_form_view leq d s)"
  by (simp add: compare_form_view_def side_view_def choice_def compare_offer_ok_def Let_def offer_simps)

lemma result_offers: "list_all (offers_only (compare_offer_ok s)) (result_view s)"
  by (simp add: result_view_def compare_offer_ok_def Let_def offer_simps)

lemma compare_offered: "a \<in> set (acts (compare_page_view leq d flight s)) \<Longrightarrow> compare_offer_ok s a"
  by (rule offers_onlyD [rotated], assumption)
    (simp add: compare_page_view_def compare_form_offers result_offers offer_simps)

subsection \<open>Properties of the runs\<close>

text \<open>The required fields that are shown: what a comparison needs.\<close>

lemma compare_form_valid_iff:
  "compare_form_valid leq d s \<longleftrightarrow>
     (let f = oz_form s
      in leftCluster f \<noteq> [] \<and> rightCluster f \<noteq> [] \<and> cf_kind f \<noteq> [] \<and> cf_name f \<noteq> []
         \<and> (form_scoped f \<or> leftNamespace f \<noteq> [] \<and> rightNamespace f \<noteq> []))"
  by (auto simp: compare_form_valid_def form_accepts_def compare_form_view_def side_view_def choice_def field_of_def
      compare_field_def rule_ok_def required_def no_rule_def shown_if_def Let_def)

text \<open>A request is for one resource on two sides that the form names.\<close>

definition compare_call_ok :: "compare_call \<Rightarrow> bool" where
  "compare_call_ok c \<longleftrightarrow>
     (case c of (p, q) \<Rightarrow>
        gr_code p \<noteq> [] \<and> gr_code q \<noteq> [] \<and> gr_apiVersion p \<noteq> [] \<and> gr_apiVersion p = gr_apiVersion q
        \<and> gr_kind p = gr_kind q \<and> gr_name p = gr_name q
        \<and> truthy (gr_namespace p) \<and> truthy (gr_namespace q))"

text \<open>What is shown belongs to one pair of replies, and nothing is shown while the next pair is awaited.\<close>

definition compare_shown :: "(json \<Rightarrow> string) \<Rightarrow> compare_page_state \<Rightarrow> bool" where
  "compare_shown yaml s \<longleftrightarrow>
     (compared (oz_view s) \<longrightarrow> \<not> oz_loading s \<and> (\<exists>a b. oz_view s = compare_finish yaml a b))"

lemma compare_sends_cases:
  "sends (compare_send (compare_start scoped f)) =
     (case map_of ALL_KINDS_MAP (cf_kind f) of
        Some (v, _) \<Rightarrow>
          if v = [] then []
          else [(side_params (leftCluster f) v (cf_kind f) (if scoped then ''_'' else leftNamespace f) (cf_name f),
                 side_params (rightCluster f) v (cf_kind f) (if scoped then ''_'' else rightNamespace f) (cf_name f))]
      | None \<Rightarrow> [])"
  by (auto simp: compare_start_def Let_def truthy_iff split: option.splits)

lemma compare_act_sends: "c \<in> set (sends (snd (compare_act leq a x d s))) \<Longrightarrow> compare_call_ok c"
  by (cases a) (auto simp: compare_act_def compare_form_valid_iff compare_sends_cases compare_call_ok_def side_params_def
      Let_def split: option.splits if_splits)

lemma compare_act_one: "length (sends (snd (compare_act leq a x d s))) \<le> 1"
  by (cases a) (simp_all add: compare_act_def compare_sends_cases Let_def split: option.splits)

lemma compare_act_loading:
  "sends (snd (compare_act leq a x d s)) = [] \<Longrightarrow> oz_loading (fst (compare_act leq a x d s)) = oz_loading s"
  "sends (snd (compare_act leq a x d s)) \<noteq> [] \<Longrightarrow> a = RunComparison \<and> oz_loading (fst (compare_act leq a x d s))"
  by (cases a; auto simp: compare_act_def Let_def split: if_splits)+

lemma compare_act_shown: "compare_shown yaml s \<Longrightarrow> compare_shown yaml (fst (compare_act leq a x d s))"
  by (cases a) (auto simp: compare_act_def compare_shown_def no_comparison_def Let_def)

lemma compare_finish_compared: "compared (compare_finish yaml a b)"
  by (simp add: compare_finish_def Let_def case_prod_unfold)

lemma compare_quiet_steps:
  "compare_shown yaml (fst (compare_page_reply yaml c r s))" "sends (snd (compare_page_reply yaml c r s)) = []"
  "compare_shown yaml s \<Longrightarrow> compare_shown yaml (fst (compare_commit d s))" "sends (snd (compare_commit d s)) = []"
  "oz_loading (fst (compare_commit d s)) = oz_loading s" "\<not> oz_loading (fst (compare_page_reply yaml c r s))"
  "compare_shown yaml compare_page_start" "\<not> oz_loading compare_page_start"
  by (auto simp: compare_page_reply_def compare_commit_def compare_shown_def compare_page_start_def no_comparison_def Let_def)

lemma compare_typed_steps:
  "compare_typed s s' \<Longrightarrow> oz_loading s' = oz_loading s"
  "compare_typed s s' \<Longrightarrow> compare_shown yaml s \<Longrightarrow> compare_shown yaml s'"
  unfolding compare_typed_def by (erule ssubst, simp add: compare_shown_def)+

interpretation compare_machine: guarded_page "compare_page leq yaml" "compare_shown yaml" compare_call_ok
  by unfold_locales
    (auto simp: compare_page_def compare_act_shown compare_quiet_steps intro: compare_typed_steps(2) dest: compare_act_sends)

interpretation compare_loading: loading_flag "compare_page leq yaml" "compare_shown yaml" compare_call_ok "\<lambda>_. True" oz_loading
  by unfold_locales
    (auto simp: compare_page_def compare_act_one [simplified] compare_act_loading compare_quiet_steps compare_typed_steps(1)
      compare_shown_def compare_offer_ok_def dest!: compare_offered dest: compare_act_loading(2))

text \<open>
  C22. Whatever happens on the comparison page, in any order: each comparison asks for one kind and one
  name on two sides that the form names; the loading flag is up exactly while one comparison is in
  flight, and never more than one is; and a verdict is shown only between two comparisons, and is the
  right one for the last pair of replies, whose texts are shown with it.
\<close>

theorem compare_run_sound:
  assumes "page_reach (compare_page leq yaml) s flight tr"
  shows "(\<forall>c \<in> set (sends tr). compare_call_ok c)
    \<and> length flight = (if oz_loading s then 1 else 0)
    \<and> (compared (oz_view s) \<longrightarrow> flight = [] \<and>
        (\<exists>a b. oz_view s = compare_finish yaml a b
           \<and> (alert_success (oz_view s) \<longleftrightarrow>
                (\<exists>x y. a = Loaded x \<and> b = Loaded y \<and> yaml x = yaml y \<and> yaml x \<noteq> []))))"
proof -
  have shown: "compare_shown yaml s" and len: "length flight = (if oz_loading s then 1 else 0)"
    using compare_machine.reach_inv [OF assms] compare_loading.flag_counts [OF assms] by simp_all
  have "alert_success (compare_finish yaml a b) \<longleftrightarrow>
      (\<exists>x y. a = Loaded x \<and> b = Loaded y \<and> yaml x = yaml y \<and> yaml x \<noteq> [])" for a b
    by (cases a; cases b) (auto simp: compare_finish_def side_result_def is_loaded_def alert_success_def alert_texts Let_def)
  then have "compared (oz_view s) \<longrightarrow> flight = [] \<and>
        (\<exists>a b. oz_view s = compare_finish yaml a b
           \<and> (alert_success (oz_view s) \<longleftrightarrow>
                (\<exists>x y. a = Loaded x \<and> b = Loaded y \<and> yaml x = yaml y \<and> yaml x \<noteq> [])))"
    using shown len unfolding compare_shown_def by (metis list.size(3) length_0_conv)
  then show ?thesis using compare_machine.sent_permitted [OF assms] len by blast
qed

definition demo_compare_form :: compare_form where
  "demo_compare_form = \<lparr>leftCluster = ''test'', rightCluster = ''prod'', leftNamespace = ''web'', rightNamespace = ''web'',
     cf_kind = ''ConfigMap'', cf_name = ''cfg''\<rparr>"

definition demo_compare_data :: compare_data where
  "demo_compare_data = \<lparr>od_get = (\<lambda>_. None), od_clusters = [],
     od_left = \<lparr>an_namespaces = [], an_isFullCluster = True, an_isLoading = False\<rparr>,
     od_right = \<lparr>an_namespaces = [], an_isFullCluster = True, an_isLoading = False\<rparr>,
     od_leftNames = [], od_rightNames = [], od_listing = False\<rparr>"

definition demo_compare_state :: compare_page_state where
  "demo_compare_state = compare_page_start\<lparr>oz_form := demo_compare_form\<rparr>"

definition demo_compare_call :: compare_call where
  "demo_compare_call = (side_params ''test'' ''v1'' ''ConfigMap'' ''web'' ''cfg'', side_params ''prod'' ''v1'' ''ConfigMap'' ''web'' ''cfg'')"

lemma demo_kind: "map_of ALL_KINDS_MAP ''ConfigMap'' = Some (''v1'', None)"
  by code_simp

lemma demo_not_scoped: "\<not> form_scoped demo_compare_form"
  by (simp add: form_scoped_def kind_meta_def demo_compare_form_def demo_kind)

lemma demo_compare_reach:
  "\<exists>tr. page_reach (compare_page leq yaml) (demo_compare_state\<lparr>oz_loading := True\<rparr>) [demo_compare_call] tr
     \<and> demo_compare_call \<in> set (sends tr)"
proof -
  let ?p = "compare_page leq yaml" and ?s = demo_compare_state
  have "page_reach ?p compare_page_start [] []"
    using page_reach.start [of ?p] by (simp add: compare_page_def)
  moreover have "pg_typed ?p compare_page_start ?s"
    by (simp add: compare_page_def compare_typed_def demo_compare_state_def)
  ultimately have typed: "page_reach ?p ?s [] []" by (rule page_reach.typed)
  let ?es = "compare_send (compare_start False demo_compare_form)"
  have "compare_form_valid leq demo_compare_data ?s"
    by (simp add: compare_form_valid_iff demo_compare_state_def demo_compare_form_def Let_def)
  moreover have es: "sends ?es = [demo_compare_call]"
    by (simp add: compare_sends_cases demo_compare_form_def demo_kind demo_compare_call_def)
  ultimately have act: "pg_act ?p RunComparison NoArg demo_compare_data ?s = (?s\<lparr>oz_loading := True\<rparr>, ?es)"
    by (simp add: compare_page_def compare_act_def demo_not_scoped demo_compare_state_def compare_page_start_def
        no_comparison_def Let_def)
  have "RunComparison \<in> set (acts (pg_view ?p demo_compare_data [] ?s))"
    by (simp add: compare_page_def compare_page_view_def compare_form_view_def demo_compare_state_def
        compare_page_start_def view_simps Let_def)
  from page_reach.act [OF typed this act] es show ?thesis
    by (intro exI [of _ ?es]) simp
qed

theorem compare_run_sound_witness: "compare_call_ok demo_compare_call"
proof -
  obtain tr where "page_reach (compare_page (\<lambda>_ _. True) (\<lambda>_. [])) (demo_compare_state\<lparr>oz_loading := True\<rparr>) [demo_compare_call] tr"
    and "demo_compare_call \<in> set (sends tr)"
    using demo_compare_reach by blast
  with compare_run_sound [OF this(1)] show ?thesis by blast
qed

text \<open>
  Exchanging the sides after a comparison exchanges the names over the texts, but not the texts: each
  text then stands under the name of the other cluster.
\<close>

lemma swap_mislabels_texts:
  assumes "s' = fst (compare_act leq SwapSides x d s)"
  shows "oz_view s' = oz_view s"
    and "fst (diff_labels (oz_form s')) = ([CHR 0xE5, CHR 0xB7, CHR 0xA6, CHR 0xE4, CHR 0xBE, CHR 0xA7] @
     '' '') @ or_str (Some (rightCluster (oz_form s))) ''-''"
  using assms by (simp_all add: compare_act_def diff_labels_def swapClusters_def)

end
