(* ===== verification/BackupCreateView.thy ===== *)
theory BackupCreateView
  imports View BackupCreate
begin

section \<open>The form of a new backup as a machine\<close>

text \<open>
  What \<open>pages/backups/create.tsx\<close> renders and the runs of the page. The component library submits the
  form only when the rules of its shown fields accept the values, and hands over the values of these
  fields. The route guard alone checks the permission. The data are the clusters, as name and code, and
  the namespaces of the chosen one. \<open>navigate(-1)\<close> is the navigation to \<open>-1\<close>.
\<close>

record create_data =
  nd_clusters :: "(string \<times> string) list"
  nd_namespaces :: "string list"

type_synonym create_call = create_form_values

datatype create_action = CreateBack | CreateReturn | SubmitBackup

subsection \<open>What is rendered\<close>

definition scope_key :: "form_scope \<Rightarrow> string" where
  "scope_key sc = (case sc of ScopeObject \<Rightarrow> ''object'' | ScopeNamespaceOne \<Rightarrow> ''namespace''
     | ScopeNamespaceBatch \<Rightarrow> ''namespace_batch'')"

definition create_field ::
  "string \<Rightarrow> string \<Rightarrow> string \<Rightarrow> form_rule list \<Rightarrow> create_action attr list \<Rightarrow> create_action node" where
  "create_field control name label rs attrs =
     El ''Form.Item'' [Attr ''name'' name, Attr ''label'' label, Rules rs] [El control attrs []]"

definition same_options :: "string list \<Rightarrow> create_action attr" where
  "same_options ns = Options (map (\<lambda>n. (n, n)) ns)"

definition cluster_and_scope :: "create_data \<Rightarrow> create_action node list" where
  "cluster_and_scope d =
     [create_field ''Select'' ''code'' [CHR 0xE9, CHR 0x9B, CHR 0x86, CHR 0xE7, CHR 0xBE, CHR 0xA4] [required]
        [Attr ''placeholder'' [CHR 0xE8, CHR 0xAF, CHR 0xB7, CHR 0xE9, CHR 0x80, CHR 0x89, CHR 0xE6, CHR 0x8B,
      CHR 0xA9, CHR 0xE8, CHR 0xA6, CHR 0x81, CHR 0xE5, CHR 0xA4, CHR 0x87, CHR 0xE4,
      CHR 0xBB, CHR 0xBD, CHR 0xE7, CHR 0x9A, CHR 0x84, CHR 0xE9, CHR 0x9B, CHR 0x86,
      CHR 0xE7, CHR 0xBE, CHR 0xA4],
         Options (map (\<lambda>(n, c). (c, n @ '' ('' @ c @ '')'')) (nd_clusters d))],
      create_field ''Radio.Group'' ''scope'' [CHR 0xE5, CHR 0xA4, CHR 0x87, CHR 0xE4, CHR 0xBB, CHR 0xBD, CHR 0xE8, CHR 0x8C,
      CHR 0x83, CHR 0xE5, CHR 0x9B, CHR 0xB4] [required]
        [Options [(''object'', [CHR 0xE5, CHR 0x8D, CHR 0x95, CHR 0xE5, CHR 0xAF, CHR 0xB9, CHR 0xE8, CHR 0xB1,
      CHR 0xA1]), (''namespace'', [CHR 0xE5, CHR 0x91, CHR 0xBD, CHR 0xE5, CHR 0x90, CHR 0x8D, CHR 0xE7, CHR 0xA9,
      CHR 0xBA, CHR 0xE9, CHR 0x97, CHR 0xB4, CHR 0xE7, CHR 0xBA, CHR 0xA7]), (''namespace_batch'', [CHR 0xE5, CHR 0x91, CHR 0xBD, CHR 0xE5, CHR 0x90, CHR 0x8D, CHR 0xE7, CHR 0xA9,
      CHR 0xBA, CHR 0xE9, CHR 0x97, CHR 0xB4, CHR 0xE6, CHR 0x89, CHR 0xB9, CHR 0xE9,
      CHR 0x87, CHR 0x8F])]]]"

text \<open>The namespaces: several for a batch, else one, which an object of a cluster-scoped kind has not.\<close>

definition namespace_fields :: "create_data \<Rightarrow> create_form_values \<Rightarrow> create_action node list" where
  "namespace_fields d v =
     (case fv_scope v of
        ScopeNamespaceBatch \<Rightarrow>
          [create_field ''Checkbox.Group'' ''namespaces'' [CHR 0xE5, CHR 0x91, CHR 0xBD, CHR 0xE5, CHR 0x90, CHR 0x8D, CHR 0xE7, CHR 0xA9,
      CHR 0xBA, CHR 0xE9, CHR 0x97, CHR 0xB4, CHR 0xEF, CHR 0xBC, CHR 0x88, CHR 0xE5,
      CHR 0xA4, CHR 0x9A, CHR 0xE9, CHR 0x80, CHR 0x89, CHR 0xEF, CHR 0xBC, CHR 0x89] [required]
             [same_options (nd_namespaces d), Flag ''disabled'' (fv_code v = [])]]
      | _ \<Rightarrow>
          (case namespace_field (fv_scope v) (Some (fv_code v)) (Some (fv_kind v)) of (shown, off, need) \<Rightarrow>
             if shown
             then [create_field ''Select'' ''namespace'' [CHR 0xE5, CHR 0x91, CHR 0xBD, CHR 0xE5, CHR 0x90, CHR 0x8D, CHR 0xE7, CHR 0xA9,
      CHR 0xBA, CHR 0xE9, CHR 0x97, CHR 0xB4] (if need then [required] else [])
                     [Attr ''placeholder'' (if fv_scope v = ScopeObject then [CHR 0xE9, CHR 0x9B, CHR 0x86, CHR 0xE7, CHR 0xBE, CHR 0xA4, CHR 0xE7, CHR 0xBA,
      CHR 0xA7, CHR 0xE8, CHR 0xB5, CHR 0x84, CHR 0xE6, CHR 0xBA, CHR 0x90, CHR 0xE5,
      CHR 0x8F, CHR 0xAF, CHR 0xE4, CHR 0xB8, CHR 0x8D, CHR 0xE5, CHR 0xA1, CHR 0xAB,
      CHR 0xEF, CHR 0xBC, CHR 0x9B, CHR 0xE5, CHR 0x91, CHR 0xBD, CHR 0xE5, CHR 0x90,
      CHR 0x8D, CHR 0xE7, CHR 0xA9, CHR 0xBA, CHR 0xE9, CHR 0x97, CHR 0xB4, CHR 0xE8,
      CHR 0xB5, CHR 0x84, CHR 0xE6, CHR 0xBA, CHR 0x90, CHR 0xE5, CHR 0xBB, CHR 0xBA,
      CHR 0xE8, CHR 0xAE, CHR 0xAE, CHR 0xE5, CHR 0xA1, CHR 0xAB, CHR 0xE5, CHR 0x86,
      CHR 0x99]
                        else [CHR 0xE8, CHR 0xAF, CHR 0xB7, CHR 0xE9, CHR 0x80, CHR 0x89, CHR 0xE6, CHR 0x8B,
      CHR 0xA9, CHR 0xE5, CHR 0x91, CHR 0xBD, CHR 0xE5, CHR 0x90, CHR 0x8D, CHR 0xE7,
      CHR 0xA9, CHR 0xBA, CHR 0xE9, CHR 0x97, CHR 0xB4]),
                      Flag ''disabled'' off, same_options (nd_namespaces d), Flag ''allowClear'' True]]
             else [El ''div'' [] [Txt (([CHR 0xE5, CHR 0xBD, CHR 0x93, CHR 0xE5, CHR 0x89, CHR 0x8D, CHR 0xE9, CHR 0x80,
      CHR 0x89, CHR 0xE6, CHR 0x8B, CHR 0xA9, CHR 0xE7, CHR 0x9A, CHR 0x84] @
     '' Kind'' @
     [CHR 0xE3, CHR 0x80, CHR 0x8C]) @ fv_kind v @ ([CHR 0xE3, CHR 0x80, CHR 0x8D, CHR 0xE4, CHR 0xB8, CHR 0xBA, CHR 0xE9, CHR 0x9B,
      CHR 0x86, CHR 0xE7, CHR 0xBE, CHR 0xA4, CHR 0xE7, CHR 0xBA, CHR 0xA7, CHR 0xE8,
      CHR 0xB5, CHR 0x84, CHR 0xE6, CHR 0xBA, CHR 0x90, CHR 0xEF, CHR 0xBC, CHR 0x8C,
      CHR 0xE6, CHR 0x97, CHR 0xA0, CHR 0xE9, CHR 0x9C, CHR 0x80, CHR 0xE6, CHR 0x8C,
      CHR 0x87, CHR 0xE5, CHR 0xAE, CHR 0x9A] @
     '' Namespace'' @
     [CHR 0xE3, CHR 0x80, CHR 0x82]))]]))"

definition kind_fields :: "create_form_values \<Rightarrow> create_action node list" where
  "kind_fields v =
     (case fv_scope v of
        ScopeNamespaceBatch \<Rightarrow>
          [create_field ''Checkbox.Group'' ''kindFilter'' ([CHR 0xE8, CHR 0xB5, CHR 0x84, CHR 0xE6, CHR 0xBA, CHR 0x90, CHR 0xE7, CHR 0xB1,
      CHR 0xBB, CHR 0xE5, CHR 0x9E, CHR 0x8B, CHR 0xEF, CHR 0xBC, CHR 0x88] @
     ''Kind '' @
     [CHR 0xE5, CHR 0xA4, CHR 0x9A, CHR 0xE9, CHR 0x80, CHR 0x89, CHR 0xEF, CHR 0xBC,
      CHR 0x89]) [required] [Options kindOptions]]
      | _ \<Rightarrow>
          [create_field ''Select'' ''kind'' ([CHR 0xE5, CHR 0xAF, CHR 0xB9, CHR 0xE8, CHR 0xB1, CHR 0xA1, CHR 0xE7, CHR 0xB1,
      CHR 0xBB, CHR 0xE5, CHR 0x88, CHR 0xAB] @
     '' (Kind)'') [required]
             [Attr ''placeholder'' [CHR 0xE8, CHR 0xAF, CHR 0xB7, CHR 0xE9, CHR 0x80, CHR 0x89, CHR 0xE6, CHR 0x8B,
      CHR 0xA9, CHR 0xE5, CHR 0xAF, CHR 0xB9, CHR 0xE8, CHR 0xB1, CHR 0xA1, CHR 0xE7,
      CHR 0xB1, CHR 0xBB, CHR 0xE5, CHR 0x9E, CHR 0x8B], Options kindOptions]]) @
     shown_if (fv_scope v = ScopeObject)
       [create_field ''Input'' ''name'' [CHR 0xE5, CHR 0xAF, CHR 0xB9, CHR 0xE8, CHR 0xB1, CHR 0xA1, CHR 0xE5, CHR 0x90,
      CHR 0x8D, CHR 0xE7, CHR 0xA7, CHR 0xB0] [required]
          [Attr ''placeholder'' [CHR 0xE8, CHR 0xAF, CHR 0xB7, CHR 0xE8, CHR 0xBE, CHR 0x93, CHR 0xE5, CHR 0x85,
      CHR 0xA5, CHR 0xE8, CHR 0xA6, CHR 0x81, CHR 0xE5, CHR 0xA4, CHR 0x87, CHR 0xE4,
      CHR 0xBB, CHR 0xBD, CHR 0xE7, CHR 0x9A, CHR 0x84, CHR 0xE5, CHR 0xAF, CHR 0xB9,
      CHR 0xE8, CHR 0xB1, CHR 0xA1, CHR 0xE5, CHR 0x90, CHR 0x8D, CHR 0xE7, CHR 0xA7,
      CHR 0xB0], Attr ''maxLength'' ''255'']]"

definition storage_field :: "create_action node" where
  "storage_field =
     create_field ''Select'' ''storageType'' [CHR 0xE5, CHR 0xAD, CHR 0x98, CHR 0xE5, CHR 0x82, CHR 0xA8, CHR 0xE7, CHR 0xB1,
      CHR 0xBB, CHR 0xE5, CHR 0x9E, CHR 0x8B] [required]
       [Options [(''Local'', (''Local - '' @
     [CHR 0xE6, CHR 0x9C, CHR 0xAC, CHR 0xE5, CHR 0x9C, CHR 0xB0, CHR 0xE5, CHR 0xAD,
      CHR 0x98, CHR 0xE5, CHR 0x82, CHR 0xA8])), (''NFS'', (''NFS - '' @
     [CHR 0xE7, CHR 0xBD, CHR 0x91, CHR 0xE7, CHR 0xBB, CHR 0x9C, CHR 0xE6, CHR 0x96,
      CHR 0x87, CHR 0xE4, CHR 0xBB, CHR 0xB6, CHR 0xE7, CHR 0xB3, CHR 0xBB, CHR 0xE7,
      CHR 0xBB, CHR 0x9F])), (''S3'', (''S3 - '' @
     [CHR 0xE5, CHR 0xAF, CHR 0xB9, CHR 0xE8, CHR 0xB1, CHR 0xA1, CHR 0xE5, CHR 0xAD,
      CHR 0x98, CHR 0xE5, CHR 0x82, CHR 0xA8, CHR 0xEF, CHR 0xBC, CHR 0x88, CHR 0xE6,
      CHR 0x9A, CHR 0x82, CHR 0xE6, CHR 0x9C, CHR 0xAA, CHR 0xE5, CHR 0xBC, CHR 0x80,
      CHR 0xE6, CHR 0x94, CHR 0xBE, CHR 0xEF, CHR 0xBC, CHR 0x89]))]]"

definition batch_note :: "create_form_values \<Rightarrow> create_action node list" where
  "batch_note v =
     shown_if (fv_scope v = ScopeNamespaceBatch)
       [El ''Card'' [Attr ''title'' [CHR 0xE6, CHR 0x89, CHR 0xB9, CHR 0xE9, CHR 0x87, CHR 0x8F, CHR 0xE5, CHR 0xA4,
      CHR 0x87, CHR 0xE4, CHR 0xBB, CHR 0xBD, CHR 0xE8, CHR 0xAF, CHR 0xB4, CHR 0xE6,
      CHR 0x98, CHR 0x8E]]
          [El ''p'' []
             [Txt ([CHR 0xE5, CHR 0x91, CHR 0xBD, CHR 0xE5, CHR 0x90, CHR 0x8D, CHR 0xE7, CHR 0xA9,
      CHR 0xBA, CHR 0xE9, CHR 0x97, CHR 0xB4, CHR 0xE6, CHR 0x89, CHR 0xB9, CHR 0xE9,
      CHR 0x87, CHR 0x8F, CHR 0xE6, CHR 0xA8, CHR 0xA1, CHR 0xE5, CHR 0xBC, CHR 0x8F,
      CHR 0xE4, CHR 0xBC, CHR 0x9A, CHR 0xE9, CHR 0x81, CHR 0x8D, CHR 0xE5, CHR 0x8E,
      CHR 0x86, CHR 0xE5, CHR 0xB7, CHR 0xB2, CHR 0xE5, CHR 0x8B, CHR 0xBE, CHR 0xE9,
      CHR 0x80, CHR 0x89, CHR 0xE7, CHR 0x9A, CHR 0x84, CHR 0xE3, CHR 0x80, CHR 0x8C,
      CHR 0xE5, CHR 0x91, CHR 0xBD, CHR 0xE5, CHR 0x90, CHR 0x8D, CHR 0xE7, CHR 0xA9,
      CHR 0xBA, CHR 0xE9, CHR 0x97, CHR 0xB4] @
     '' '' @
     [CHR 0xC3, CHR 0x97] @
     '' '' @
     [CHR 0xE8, CHR 0xB5, CHR 0x84, CHR 0xE6, CHR 0xBA, CHR 0x90, CHR 0xE7, CHR 0xB1,
      CHR 0xBB, CHR 0xE5, CHR 0x9E, CHR 0x8B, CHR 0xE3, CHR 0x80, CHR 0x8D, CHR 0xE7,
      CHR 0xBB, CHR 0x84, CHR 0xE5, CHR 0x90, CHR 0x88, CHR 0xEF, CHR 0xBC, CHR 0x8C] @
     '' '' @
     [CHR 0xE5, CHR 0xAF, CHR 0xB9, CHR 0xE5, CHR 0x8C, CHR 0xB9, CHR 0xE9, CHR 0x85,
      CHR 0x8D, CHR 0xE5, CHR 0x88, CHR 0xB0, CHR 0xE7, CHR 0x9A, CHR 0x84, CHR 0xE6,
      CHR 0xAF, CHR 0x8F, CHR 0xE4, CHR 0xB8, CHR 0xAA] @
     '' K8s '' @
     [CHR 0xE5, CHR 0xAF, CHR 0xB9, CHR 0xE8, CHR 0xB1, CHR 0xA1, CHR 0xE5, CHR 0x88,
      CHR 0x86, CHR 0xE5, CHR 0x88, CHR 0xAB, CHR 0xE5, CHR 0xAF, CHR 0xBC, CHR 0xE5,
      CHR 0x87, CHR 0xBA] @
     '' YAML '' @
     [CHR 0xE5, CHR 0xB9, CHR 0xB6, CHR 0xE5, CHR 0x90, CHR 0x88, CHR 0xE5, CHR 0xB9,
      CHR 0xB6, CHR 0xE5, CHR 0xBD, CHR 0x92, CHR 0xE6, CHR 0xA1, CHR 0xA3, CHR 0xE3,
      CHR 0x80, CHR 0x82] @
     '' '' @
     [CHR 0xE4, CHR 0xBB, CHR 0xBB, CHR 0xE5, CHR 0x8A, CHR 0xA1, CHR 0xE8, CHR 0xBF,
      CHR 0x9B, CHR 0xE5, CHR 0xBA, CHR 0xA6, CHR 0xE4, CHR 0xBC, CHR 0x9A, CHR 0xE6,
      CHR 0x8C, CHR 0x89, CHR 0xE5, CHR 0xAF, CHR 0xB9, CHR 0xE8, CHR 0xB1, CHR 0xA1,
      CHR 0xE6, CHR 0x95, CHR 0xB0, CHR 0xE9, CHR 0x87, CHR 0x8F, CHR 0xE7, CHR 0xBB,
      CHR 0x86, CHR 0xE7, CHR 0xB2, CHR 0x92, CHR 0xE5, CHR 0xBA, CHR 0xA6, CHR 0xE5,
      CHR 0x8F, CHR 0x8D, CHR 0xE9, CHR 0xA6, CHR 0x88, CHR 0xE3, CHR 0x80, CHR 0x82])]]]"

definition create_view :: "create_data \<Rightarrow> create_call list \<Rightarrow> create_form_values \<Rightarrow> create_action node" where
  "create_view d flight v =
     El ''PageContainer'' [On ''onBack'' CreateBack]
       [El ''title'' [] [El ''span'' [] [Txt [CHR 0xE6, CHR 0x96, CHR 0xB0, CHR 0xE5, CHR 0xBB, CHR 0xBA, CHR 0xE5, CHR 0xA4,
      CHR 0x87, CHR 0xE4, CHR 0xBB, CHR 0xBD]]],
        El ''Card'' []
          [El ''ProForm'' []
             (cluster_and_scope d @ namespace_fields d v @ kind_fields v @ [storage_field] @ batch_note v @
              [El ''Space'' []
                 [El ''Button'' [On ''onClick'' CreateReturn] [Txt [CHR 0xE8, CHR 0xBF, CHR 0x94, CHR 0xE5, CHR 0x9B, CHR 0x9E]],
                  El ''Button'' [Flag ''loading'' (flight \<noteq> []), On ''onSubmit'' SubmitBackup] [Txt [CHR 0xE6, CHR 0x8F, CHR 0x90, CHR 0xE4, CHR 0xBA, CHR 0xA4, CHR 0xE5, CHR 0xA4,
      CHR 0x87, CHR 0xE4, CHR 0xBB, CHR 0xBD, CHR 0xE4, CHR 0xBB, CHR 0xBB, CHR 0xE5,
      CHR 0x8A, CHR 0xA1]]]])]]"

subsection \<open>What the actions and the replies do\<close>

text \<open>The value of a field for its rules; a list counts as filled when it has an item.\<close>

definition filled_list :: "string list option \<Rightarrow> string option" where
  "filled_list v = (case v of Some (x # xs) \<Rightarrow> Some ''x'' | _ \<Rightarrow> None)"

definition create_value :: "create_form_values \<Rightarrow> string \<Rightarrow> string option" where
  "create_value v name =
     (if name = ''code'' then Some (fv_code v)
      else if name = ''scope'' then Some (scope_key (fv_scope v))
      else if name = ''namespaces'' then filled_list (fv_namespaces v)
      else if name = ''namespace'' then fv_namespace v
      else if name = ''kindFilter'' then filled_list (fv_kindFilter v)
      else if name = ''kind'' then Some (fv_kind v)
      else if name = ''name'' then fv_name v
      else if name = ''storageType'' then fv_storageType v
      else None)"

definition create_valid :: "create_data \<Rightarrow> create_form_values \<Rightarrow> bool" where
  "create_valid d v = form_accepts (\<lambda>_. True) (create_view d [] v) (create_value v)"

text \<open>The values that are handed over: those of the fields that are shown.\<close>

definition shown_names :: "create_data \<Rightarrow> create_form_values \<Rightarrow> string list" where
  "shown_names d v = map fst (form_fields (create_view d [] v))"

definition submitted_values :: "create_data \<Rightarrow> create_form_values \<Rightarrow> create_form_values" where
  "submitted_values d v =
     (let has = (\<lambda>n. n \<in> set (shown_names d v))
      in v\<lparr>fv_namespace := (if has ''namespace'' then fv_namespace v else None),
           fv_namespaces := (if has ''namespaces'' then fv_namespaces v else None),
           fv_kind := (if has ''kind'' then fv_kind v else []),
           fv_kindFilter := (if has ''kindFilter'' then fv_kindFilter v else None),
           fv_name := (if has ''name'' then fv_name v else None)\<rparr>)"

definition submit_page_effect :: "submit_effect \<Rightarrow> (string \<times> create_backup_body) page_effect" where
  "submit_page_effect e =
     (case e of
        ErrorToast t \<Rightarrow> PToast ToastFail t
      | SendBackup c b \<Rightarrow> PSend (c, b)
      | SuccessToast t \<Rightarrow> PToast ToastOk t
      | GoTo u \<Rightarrow> PNavigate u)"

definition create_act ::
  "create_action \<Rightarrow> event \<Rightarrow> create_data \<Rightarrow> create_form_values \<Rightarrow> create_form_values \<times> create_call page_effect list" where
  "create_act a x d v =
     (v, case a of
           CreateBack \<Rightarrow> [PNavigate ''-1'']
         | CreateReturn \<Rightarrow> [PNavigate ''/backups/list'']
         | SubmitBackup \<Rightarrow>
             (if create_valid d v
              then start_call (submitted_values d v) (map submit_page_effect (backup_handleSubmit (submitted_values d v) False))
              else []))"

definition create_reply ::
  "create_call \<Rightarrow> bool \<Rightarrow> create_form_values \<Rightarrow> create_form_values \<times> create_call page_effect list" where
  "create_reply c ok v = (v, reported (map submit_page_effect (backup_handleSubmit c ok)))"

definition create_page ::
  "(string \<Rightarrow> string option) \<Rightarrow> string option
    \<Rightarrow> (create_data, create_form_values, create_action, create_call, bool) machine" where
  "create_page get selected =
     \<lparr>pg_start = initialValues get selected, pg_view = create_view, pg_act = create_act, pg_reply = create_reply,
      pg_commit = (\<lambda>d v. (v, [])), pg_typed = (\<lambda>v v'. True)\<rparr>"

subsection \<open>The rules and the handler\<close>

lemma filled_list_truthy [simp]: "truthy (filled_list v) \<longleftrightarrow> list_or_empty v \<noteq> []"
  by (auto simp: filled_list_def list_or_empty_def split: option.split list.split)

lemma create_form_fields:
  "form_fields (create_view d flight v) =
     [(''code'', [required]), (''scope'', [required])] @
     (case fv_scope v of
        ScopeObject \<Rightarrow> (if isClusterScopedKind (Some (fv_kind v)) then [] else [(''namespace'', [])]) @
          [(''kind'', [required]), (''name'', [required])]
      | ScopeNamespaceOne \<Rightarrow> [(''namespace'', if isClusterScopedKind (Some (fv_kind v)) then [] else [required]), (''kind'', [required])]
      | ScopeNamespaceBatch \<Rightarrow> [(''namespaces'', [required]), (''kindFilter'', [required])]) @
     [(''storageType'', [required])]"
  by (simp add: create_view_def cluster_and_scope_def namespace_fields_def kind_fields_def storage_field_def batch_note_def
      create_field_def field_of_def namespace_field_def shown_if_def split: form_scope.split)

lemma rule_required: "rule_ok e required v \<longleftrightarrow> truthy v"
  by (auto simp: rule_ok_def required_def no_rule_def)

text \<open>What the rules accept is sent, but for the dead end of a cluster-scoped kind in the namespace scope.\<close>

lemma accepted_form_sends:
  assumes "create_valid d v"
  shows "(\<exists>body. backup_body (submitted_values d v) = Inr body)
    \<or> fv_scope v = ScopeNamespaceOne \<and> isClusterScopedKind (Some (fv_kind v)) \<and> \<not> truthy (fv_namespace v)"
  using assms
  by (cases "fv_scope v")
    (auto simp: create_valid_def form_accepts_def create_form_fields create_value_def rule_required submitted_values_def
      shown_names_def backup_body_def empty_body_def truthy_iff or_str_def list_or_empty_def filled_list_def Let_def
      split: if_splits option.splits list.splits)

text \<open>A namespace that was prefilled is not sent for a kind that has none.\<close>

lemma cluster_kind_without_namespace:
  assumes "fv_scope v = ScopeObject" and "isClusterScopedKind (Some (fv_kind v))"
    and "backup_body (submitted_values d v) = Inr body"
  shows "cb_namespace body = Some []"
  using assms
  by (auto simp: submitted_values_def shown_names_def create_form_fields backup_body_def empty_body_def or_str_def Let_def
      split: if_splits)

subsection \<open>Properties of the runs\<close>

definition create_call_ok :: "create_call \<Rightarrow> bool" where
  "create_call_ok c \<longleftrightarrow> fv_code c \<noteq> [] \<and> (\<exists>body. backup_body c = Inr body \<and> complete_body body)"

lemma create_offered: "SubmitBackup \<in> set (acts (create_view d flight v)) \<Longrightarrow> flight = []"
  by (cases "fv_scope v")
    (auto simp: create_view_def cluster_and_scope_def namespace_fields_def kind_fields_def storage_field_def batch_note_def
      create_field_def same_options_def namespace_field_def view_simps split: if_splits)

lemma submit_sends:
  "sends (map submit_page_effect (backup_handleSubmit v ok)) =
     (case backup_body v of Inl _ \<Rightarrow> [] | Inr body \<Rightarrow> [(fv_code v, body)])"
  by (simp add: backup_handleSubmit_def submit_page_effect_def split: sum.split)

lemma submit_complete: "backup_body v = Inr body \<Longrightarrow> fv_code v \<noteq> [] \<and> complete_body body"
  by (cases "fv_scope v") (auto simp: backup_body_def complete_body_def empty_body_def Let_def split: if_splits)

lemma create_act_sends: "c \<in> set (sends (snd (create_act a x d v))) \<Longrightarrow> create_call_ok c"
  by (cases a) (auto simp: create_act_def submit_sends create_call_ok_def dest: sym submit_complete [OF sym]
      split: sum.splits if_splits)

lemma create_act_one:
  "length (sends (snd (create_act a x d v))) \<le> 1" "sends (snd (create_act a x d v)) \<noteq> [] \<Longrightarrow> a = SubmitBackup"
  by (cases a; auto simp: create_act_def submit_sends split: sum.splits)+

interpretation create_machine: guarded_page "create_page get selected" "\<lambda>v. True" create_call_ok
  by unfold_locales (auto simp: create_page_def create_reply_def dest: create_act_sends)

interpretation create_once: single_submit "create_page get selected" "\<lambda>v. True" create_call_ok "\<lambda>_. True"
  by unfold_locales
    (auto simp: create_page_def create_act_one(1) [simplified] dest!: create_act_one(2) create_offered)

text \<open>
  C24. Whatever happens on the page of a new backup, in any order: every request names a cluster and is
  complete, either one object with a kind and a name or non-empty lists of namespaces and kinds, and no
  two backups are requested at a time.
\<close>

theorem create_run_complete:
  assumes "page_reach (create_page get selected) v flight tr"
  shows "(\<forall>c \<in> set (sends tr). create_call_ok c) \<and> length flight \<le> 1"
  using create_machine.sent_permitted [OF assms] create_once.at_most_one_in_flight [OF assms] by simp

definition demo_backup_values :: create_form_values where
  "demo_backup_values = initialValues (\<lambda>k. if k = ''kind'' then Some ''Secret'' else if k = ''name'' then Some ''tls'' else None) (Some ''prod'')"

lemma demo_backup_submitted:
  "create_valid d demo_backup_values" "backup_body (submitted_values d demo_backup_values) \<noteq> Inl msg"
proof -
  have scoped: "\<not> isClusterScopedKind (Some ''Secret'')" by code_simp
  have v: "demo_backup_values = \<lparr>fv_code = ''prod'', fv_namespace = None, fv_namespaces = None, fv_scope = ScopeObject,
      fv_kind = ''Secret'', fv_kindFilter = Some [''Secret''], fv_name = Some ''tls'', fv_storageType = Some ''Local''\<rparr>"
    by (simp add: demo_backup_values_def initialValues_def or_str_def Let_def)
  show valid: "create_valid d demo_backup_values"
    by (simp add: create_valid_def form_accepts_def create_form_fields create_value_def rule_required scope_key_def v scoped)
  show "backup_body (submitted_values d demo_backup_values) \<noteq> Inl msg"
    using accepted_form_sends [OF valid] by (auto simp: v)
qed

theorem create_run_complete_witness:
  "create_call_ok (submitted_values \<lparr>nd_clusters = [], nd_namespaces = []\<rparr> demo_backup_values)"
proof -
  let ?d = "\<lparr>nd_clusters = [], nd_namespaces = []\<rparr>" and ?v = demo_backup_values
  let ?p = "create_page (\<lambda>k. if k = ''kind'' then Some ''Secret'' else if k = ''name'' then Some ''tls'' else None) (Some ''prod'')"
  let ?call = "submitted_values ?d ?v"
  have start: "page_reach ?p ?v [] []"
    using page_reach.start [of ?p] by (simp add: create_page_def demo_backup_values_def)
  obtain body where body: "backup_body ?call = Inr body"
    using demo_backup_submitted(2) [of ?d] by (cases "backup_body ?call") auto
  have "SubmitBackup \<in> set (acts (pg_view ?p ?d [] ?v))"
    by (simp add: create_page_def create_view_def view_simps)
  moreover have "pg_act ?p SubmitBackup NoArg ?d ?v = (?v, [PSend ?call])"
    using demo_backup_submitted(1) [of ?d] body
    by (simp add: create_page_def create_act_def backup_handleSubmit_def submit_page_effect_def start_call_def)
  ultimately have "page_reach ?p ?v ([] @ sends [PSend ?call]) ([] @ [PSend ?call])"
    by (rule page_reach.act [OF start])
  from create_run_complete [OF this] show ?thesis by simp
qed

end
