(* ===== verification/PodLogsView.thy ===== *)
theory PodLogsView
  imports View PodLogsPage
begin

section \<open>The page of the Pod logs as a machine\<close>

text \<open>
  What \<open>pages/pods/logs.tsx\<close> renders and the runs of the page: a chain of four selections and the
  viewer of what is selected. The data are the clusters, as name and code, the namespaces of the
  selected one and its Pods. \<open>navigate(-1)\<close> is the navigation to \<open>-1\<close>.
\<close>

record pods_data =
  qd_clusterNames :: "(string \<times> string) list"
  qd_namespaceNames :: "string list"
  qd_pods :: "(string \<times> json option) list"
  qd_podsLoading :: bool

datatype pods_action = PodsBack | PickCluster | PickPodNamespace | PickPod | PickContainer

subsection \<open>What is rendered\<close>

text \<open>A select of the chain: its value is missing when it is empty.\<close>

definition chain_select ::
  "string \<Rightarrow> string \<Rightarrow> string option \<Rightarrow> bool \<Rightarrow> bool \<Rightarrow> pods_action \<Rightarrow> (string \<times> string) list \<Rightarrow> pods_action node" where
  "chain_select label placeholder value off busy a options =
     El ''Form.Item'' [Attr ''label'' label]
       [El ''Select''
          ([Attr ''placeholder'' placeholder] @ (if truthy value then [Attr ''value'' (the value)] else []) @
           [Flag ''loading'' busy, Flag ''disabled'' off, On ''onChange'' a, Options options, Flag ''allowClear'' True]) []]"

definition selection_form :: "pods_data \<Rightarrow> pod_selection \<Rightarrow> pods_action node" where
  "selection_form d s =
     (let opts = container_options (qd_pods d) s
      in El ''Form'' []
        [chain_select [CHR 0xE9, CHR 0x9B, CHR 0x86, CHR 0xE7, CHR 0xBE, CHR 0xA4] [CHR 0xE9, CHR 0x80, CHR 0x89, CHR 0xE6, CHR 0x8B, CHR 0xA9, CHR 0xE9, CHR 0x9B,
      CHR 0x86, CHR 0xE7, CHR 0xBE, CHR 0xA4] (Some (ps_cluster s)) False False PickCluster
           (map (\<lambda>(n, c). (c, n @ '' ('' @ c @ '')'')) (qd_clusterNames d)),
         chain_select [CHR 0xE5, CHR 0x91, CHR 0xBD, CHR 0xE5, CHR 0x90, CHR 0x8D, CHR 0xE7, CHR 0xA9,
      CHR 0xBA, CHR 0xE9, CHR 0x97, CHR 0xB4] [CHR 0xE9, CHR 0x80, CHR 0x89, CHR 0xE6, CHR 0x8B, CHR 0xA9, CHR 0xE5, CHR 0x91,
      CHR 0xBD, CHR 0xE5, CHR 0x90, CHR 0x8D, CHR 0xE7, CHR 0xA9, CHR 0xBA, CHR 0xE9,
      CHR 0x97, CHR 0xB4] (Some (ps_namespace s)) (ps_cluster s = []) False PickPodNamespace
           (map (\<lambda>n. (n, n)) (qd_namespaceNames d)),
         chain_select ''Pod'' ([CHR 0xE9, CHR 0x80, CHR 0x89, CHR 0xE6, CHR 0x8B, CHR 0xA9] @
     '' Pod'') (Some (ps_pod s)) (ps_namespace s = []) (qd_podsLoading d) PickPod
           (map (\<lambda>p. (fst p, fst p)) (qd_pods d)),
         chain_select [CHR 0xE5, CHR 0xAE, CHR 0xB9, CHR 0xE5, CHR 0x99, CHR 0xA8] [CHR 0xE9, CHR 0x80, CHR 0x89, CHR 0xE6, CHR 0x8B, CHR 0xA9, CHR 0xE5, CHR 0xAE,
      CHR 0xB9, CHR 0xE5, CHR 0x99, CHR 0xA8] (ps_container s) (ps_pod s = [] \<or> opts = []) False PickContainer
           (map (\<lambda>c. (c, c)) opts)])"

definition viewer_card :: "pod_selection \<Rightarrow> pods_action node" where
  "viewer_card s =
     El ''Card'' []
       [if shows_viewer s
        then El ''PodLogsViewer''
          ([Attr ''clusterCode'' (ps_cluster s), Attr ''namespace'' (ps_namespace s), Attr ''podName'' (ps_pod s)] @
           (case ps_container s of None \<Rightarrow> [] | Some c \<Rightarrow> [Attr ''containerName'' c]) @
           [Attr ''height'' ''640'', Flag ''follow'' True, Attr ''tailLines'' ''500'']) []
        else El ''Space'' []
          [El ''Tag'' [Attr ''color'' ''default''] [Txt [CHR 0xE6, CHR 0x8F, CHR 0x90, CHR 0xE7, CHR 0xA4, CHR 0xBA]],
           El ''Text'' [Attr ''type'' ''secondary''] [Txt ([CHR 0xE8, CHR 0xAF, CHR 0xB7, CHR 0xE5, CHR 0x85, CHR 0x88, CHR 0xE9, CHR 0x80,
      CHR 0x89, CHR 0xE6, CHR 0x8B, CHR 0xA9] @
     '' '' @
     [CHR 0xE9, CHR 0x9B, CHR 0x86, CHR 0xE7, CHR 0xBE, CHR 0xA4] @
     '' / '' @
     [CHR 0xE5, CHR 0x91, CHR 0xBD, CHR 0xE5, CHR 0x90, CHR 0x8D, CHR 0xE7, CHR 0xA9,
      CHR 0xBA, CHR 0xE9, CHR 0x97, CHR 0xB4] @
     '' / Pod'' @
     [CHR 0xEF, CHR 0xBC, CHR 0x8C, CHR 0xE5, CHR 0xB0, CHR 0x86, CHR 0xE8, CHR 0x87,
      CHR 0xAA, CHR 0xE5, CHR 0x8A, CHR 0xA8, CHR 0xE5, CHR 0xBC, CHR 0x80, CHR 0xE5,
      CHR 0xA7, CHR 0x8B, CHR 0xE5, CHR 0xAE, CHR 0x9E, CHR 0xE6, CHR 0x97, CHR 0xB6,
      CHR 0xE6, CHR 0x97, CHR 0xA5, CHR 0xE5, CHR 0xBF, CHR 0x97, CHR 0xE6, CHR 0xB5,
      CHR 0x81, CHR 0xE6, CHR 0x8E, CHR 0xA8, CHR 0xE9, CHR 0x80, CHR 0x81])]]]"

definition pods_view :: "pods_data \<Rightarrow> unit list \<Rightarrow> pod_selection \<Rightarrow> pods_action node" where
  "pods_view d flight s =
     El ''PageContainer'' [On ''onBack'' PodsBack]
       [El ''title'' [] [El ''Space'' [] [El ''span'' [] [Txt (''Pod '' @
     [CHR 0xE6, CHR 0x97, CHR 0xA5, CHR 0xE5, CHR 0xBF, CHR 0x97, CHR 0xE6, CHR 0x9F,
      CHR 0xA5, CHR 0xE7, CHR 0x9C, CHR 0x8B])]]],
        El ''Card'' [] [selection_form d s],
        viewer_card s]"

subsection \<open>What the actions and the effects do\<close>

definition pods_act ::
  "pods_action \<Rightarrow> event \<Rightarrow> pods_data \<Rightarrow> pod_selection \<Rightarrow> pod_selection \<times> unit page_effect list" where
  "pods_act a x d s =
     (case a of
        PodsBack \<Rightarrow> (s, [PNavigate ''-1''])
      | PickCluster \<Rightarrow> (change_cluster (text_arg x) s, [])
      | PickPodNamespace \<Rightarrow> (change_namespace (text_arg x) s, [])
      | PickPod \<Rightarrow> (change_pod (text_arg x) s, [])
      | PickContainer \<Rightarrow> (change_container (text_arg x) s, []))"

definition pods_commit :: "pods_data \<Rightarrow> pod_selection \<Rightarrow> pod_selection \<times> unit page_effect list" where
  "pods_commit d s =
     (container_effect (container_options (qd_pods d) s) s, [PNavigate (''?'' @ usp_toString (pod_logs_query s))])"

definition pods_page ::
  "(string \<Rightarrow> string option) \<Rightarrow> string option \<Rightarrow> (pods_data, pod_selection, pods_action, unit, unit) machine" where
  "pods_page get selected =
     \<lparr>pg_start = pod_logs_init get selected, pg_view = pods_view, pg_act = pods_act,
      pg_reply = (\<lambda>c r s. (s, [])), pg_commit = pods_commit, pg_typed = (\<lambda>s s'. False)\<rparr>"

subsection \<open>Properties of the runs\<close>

lemma containers_nonempty: "n \<in> set (extractContainers spec) \<Longrightarrow> n \<noteq> []"
  by (auto simp: extractContainers_def fold_push_set dest: container_name_nonempty)

lemma container_options_nonempty: "n \<in> set (container_options pods s) \<Longrightarrow> n \<noteq> []"
  by (auto simp: container_options_def dest: containers_nonempty split: option.splits)

lemma container_effect_clean: "clean_selection s \<Longrightarrow> clean_selection (container_effect (container_options pods s) s)"
proof (cases "container_options pods s = []")
  case False
  then have "hd (container_options pods s) \<noteq> []" by (intro container_options_nonempty [of _ pods s]) simp
  moreover assume "clean_selection s"
  ultimately show ?thesis by (simp add: container_effect_def clean_selection_def)
qed (simp add: container_effect_def)

lemma selection_steps_clean:
  "clean_selection (pod_logs_init get selected)" "clean_selection s \<Longrightarrow> clean_selection (fst (pods_act a x d s))"
  by (auto simp: clean_selection_def pod_logs_init_def)
    (cases a; auto simp: pods_act_def change_cluster_def change_namespace_def change_pod_def change_container_def
      split: if_splits)

lemma pods_act_quiet: "sends (snd (pods_act a x d s)) = []"
  by (cases a) (simp_all add: pods_act_def)

interpretation pods_machine: guarded_page "pods_page get selected" clean_selection "\<lambda>c. False"
  by unfold_locales
    (auto simp: pods_page_def pods_commit_def selection_steps_clean container_effect_clean pods_act_quiet)

text \<open>
  C38. The page of the Pod logs survives a reload at every moment: whatever was selected, in any order,
  and whatever Pods the list brought, the query string that the page writes is read back as the same
  selection, and the page changes nothing on the server.
\<close>

theorem pod_logs_run_reload:
  assumes "page_reach (pods_page get selected) s flight tr" and "ps_cluster s \<noteq> []"
  shows "pod_logs_init (searchParams_get (usp_toString (pod_logs_query s))) selected' = s
    \<and> sends tr = [] \<and> flight = []"
proof -
  have "clean_selection s" using pods_machine.reach_inv [OF assms(1)] .
  moreover have "sends tr = []" using pods_machine.sent_permitted [OF assms(1)] by (cases "sends tr") auto
  moreover from this have "flight = []" using flight_was_sent [OF assms(1)] by simp
  ultimately show ?thesis using pod_selection_reload assms(2) by blast
qed

theorem pod_logs_run_reload_witness:
  "pod_logs_init (searchParams_get (usp_toString (pod_logs_query (pod_logs_init (\<lambda>_. None) (Some ''prod''))))) None
     = pod_logs_init (\<lambda>_. None) (Some ''prod'')"
proof -
  have "page_reach (pods_page (\<lambda>_. None) (Some ''prod'')) (pod_logs_init (\<lambda>_. None) (Some ''prod'')) [] []"
    using page_reach.start [of "pods_page (\<lambda>_. None) (Some ''prod'')"] by (simp add: pods_page_def)
  moreover have "ps_cluster (pod_logs_init (\<lambda>_. None) (Some ''prod'')) \<noteq> []"
    by (simp add: pod_logs_init_def or_str_def)
  ultimately show ?thesis using pod_logs_run_reload by blast
qed

text \<open>A level of the chain can be chosen only when the level above it is.\<close>

lemma chain_offered:
  "PickPodNamespace \<in> set (acts (pods_view d flight s)) \<longleftrightarrow> ps_cluster s \<noteq> []"
  "PickPod \<in> set (acts (pods_view d flight s)) \<longleftrightarrow> ps_namespace s \<noteq> []"
  "PickContainer \<in> set (acts (pods_view d flight s)) \<longleftrightarrow> ps_pod s \<noteq> [] \<and> container_options (qd_pods d) s \<noteq> []"
  by (auto simp: pods_view_def selection_form_def chain_select_def viewer_card_def view_simps Let_def simp del: acts.simps
      split: option.splits)

end
