(* ===== verification/FrameView.thy ===== *)
theory FrameView
  imports View Login
begin

section \<open>The frame of the console and the login page as machines\<close>

text \<open>
  What \<open>pages/Login/index.tsx\<close> and \<open>layouts/BasicLayout.tsx\<close> render, and the runs of both. The login
  form shows each of its fields as an item with a control, and submits only when the rules accept the
  values. \<open>ProLayout\<close> draws the menu of \<open>route\<close>: an entry without a submenu is passed to
  \<open>menuItemRender\<close>, one with a submenu is a group. A run of the frame is at one location; its data are
  the session, the connection and the answer of the query of the clusters.
\<close>

subsection \<open>The login page\<close>

record login_page =
  lg_username :: "string option"
  lg_password :: "string option"
  lg_session :: "user_state \<times> storage"

datatype login_action = SubmitLogin

datatype login_call = CallLogin string string

text \<open>A field of the form: a required one of the given name.\<close>

definition login_field :: "string \<Rightarrow> string \<Rightarrow> login_action node" where
  "login_field name placeholder =
     El ''Form.Item'' [Attr ''name'' name, Rules [required]] [El ''Input'' [Attr ''placeholder'' placeholder] []]"

definition login_view :: "login_action node" where
  "login_view =
     El ''div'' []
       [El ''LoginForm'' [Attr ''title'' [CHR 0xE7, CHR 0xAE, CHR 0xA1, CHR 0xE7, CHR 0x90, CHR 0x86, CHR 0xE6, CHR 0x8E,
      CHR 0xA7, CHR 0xE5, CHR 0x88, CHR 0xB6, CHR 0xE5, CHR 0x8F, CHR 0xB0], Attr ''subTitle'' [CHR 0xE7, CHR 0xBB, CHR 0x9F, CHR 0xE4, CHR 0xB8, CHR 0x80, CHR 0xE7, CHR 0xAE,
      CHR 0xA1, CHR 0xE7, CHR 0x90, CHR 0x86, CHR 0xE5, CHR 0xB9, CHR 0xB3, CHR 0xE5,
      CHR 0x8F, CHR 0xB0], On ''onFinish'' SubmitLogin]
         [El ''actions'' [] [El ''div'' [] [Txt ([CHR 0xE7, CHR 0x89, CHR 0x88, CHR 0xE6, CHR 0x9D, CHR 0x83, CHR 0xE6, CHR 0x89,
      CHR 0x80, CHR 0xE6, CHR 0x9C, CHR 0x89] @
     '' '' @
     [CHR 0xC2, CHR 0xA9] @
     '' 2026'')]],
          login_field ''username'' [CHR 0xE7, CHR 0x94, CHR 0xA8, CHR 0xE6, CHR 0x88, CHR 0xB7, CHR 0xE5, CHR 0x90,
      CHR 0x8D], login_field ''password'' [CHR 0xE5, CHR 0xAF, CHR 0x86, CHR 0xE7, CHR 0xA0, CHR 0x81], El ''div'' [] []]]"

definition login_get :: "login_page \<Rightarrow> string \<Rightarrow> string option" where
  "login_get s name =
     (if name = ''username'' then lg_username s else if name = ''password'' then lg_password s else None)"

text \<open>\<open>onFinish\<close> up to its first \<open>await\<close>, and the rest of it, for the results of the two thunks.\<close>

definition login_act :: "(string \<Rightarrow> bool) \<Rightarrow> login_page \<Rightarrow> login_page \<times> login_call page_effect list" where
  "login_act is_email s =
     (s, if form_accepts is_email login_view (login_get s)
         then [PSend (CallLogin (or_str (lg_username s) []) (or_str (lg_password s) []))] else [])"

definition login_reply ::
  "string \<Rightarrow> login_response thunk \<times> current_user thunk \<Rightarrow> login_page \<Rightarrow> login_page \<times> login_call page_effect list" where
  "login_reply redirect r s =
     (let res = handleSubmit redirect (fst r) (snd r) (lg_session s)
      in (s\<lparr>lg_session := (sub_user res, sub_ls res)\<rparr>,
          map (PToast ToastWarn) (sub_warnings res) @ map (PToast ToastOk) (sub_success res) @
          (case sub_navigate res of None \<Rightarrow> [] | Some u \<Rightarrow> [PNavigate u])))"

definition login_machine ::
  "(string \<Rightarrow> bool) \<Rightarrow> string \<Rightarrow> user_state \<times> storage
    \<Rightarrow> (unit, login_page, login_action, login_call, login_response thunk \<times> current_user thunk) machine" where
  "login_machine is_email query p =
     \<lparr>pg_start = \<lparr>lg_username = None, lg_password = None, lg_session = p\<rparr>, pg_view = (\<lambda>d flight s. login_view),
      pg_act = (\<lambda>a x d. login_act is_email), pg_reply = (\<lambda>m. login_reply (login_redirect query)),
      pg_commit = (\<lambda>d s. (s, [])), pg_typed = (\<lambda>s s'. lg_session s' = lg_session s)\<rparr>"

subsection \<open>The frame\<close>

datatype frame_action = FollowLink string | SwitchCluster | LogoutClick

datatype frame_call = CallLogout "string option" | CallProfile

record frame_data =
  fd_user :: user_state
  fd_storage :: storage
  fd_selected :: "string option"
  fd_collapsed :: bool
  fd_status :: connection_status
  fd_clusters :: "(string \<times> string) list option"
  fd_isLoading :: bool

text \<open>The clusters are their names and codes, none before the list is there.\<close>

definition frame_clusters :: "frame_data \<Rightarrow> (string \<times> string) list" where
  "frame_clusters d = (case fd_clusters d of None \<Rightarrow> [] | Some cs \<Rightarrow> cs)"

definition WSStatusBadge :: "connection_status \<Rightarrow> frame_action node" where
  "WSStatusBadge st =
     El ''Tooltip'' [Attr ''title'' (wsBadgeLabel st)]
       [El ''Badge'' [Attr ''status'' (case fst (ws_badge st) of
            BadgeSuccess \<Rightarrow> ''success'' | BadgeProcessing \<Rightarrow> ''processing'' | BadgeWarning \<Rightarrow> ''warning''
          | BadgeError \<Rightarrow> ''error'' | BadgeDefault \<Rightarrow> ''default'')]
         [El ''span'' [] [Txt (fst (snd (ws_badge st)))]]]"

definition menuItemRender :: "string \<Rightarrow> frame_action node list \<Rightarrow> frame_action node" where
  "menuItemRender p defaultDom = (let to = (if p = [] then ''/'' else p) in El ''Link'' [On ''to'' (FollowLink to)] defaultDom)"

fun frame_menu :: "menu_route list \<Rightarrow> frame_action node list" where
  "frame_menu [] = []"
| "frame_menu (MenuRoute p n sub # rs) =
     (let label = [Txt (or_str n [])]
      in case sub of
           Some (c # cs) \<Rightarrow> El ''SubMenu'' [] (label @ frame_menu (c # cs))
         | _ \<Rightarrow> menuItemRender p label) # frame_menu rs"

definition cluster_switcher :: "frame_data \<Rightarrow> frame_action node" where
  "cluster_switcher d =
     El ''Select''
       ([Attr ''placeholder'' [CHR 0xE9, CHR 0x80, CHR 0x89, CHR 0xE6, CHR 0x8B, CHR 0xA9, CHR 0xE9, CHR 0x9B,
      CHR 0x86, CHR 0xE7, CHR 0xBE, CHR 0xA4]] @
        (case fd_selected d of None \<Rightarrow> [] | Some c \<Rightarrow> [Attr ''value'' c]) @
        [Flag ''loading'' (fd_isLoading d), On ''onChange'' SwitchCluster,
         Options (map (\<lambda>(n, c). (c, n @ '' ('' @ c @ '')'')) (frame_clusters d)), Flag ''allowClear'' True]) []"

definition shown_name :: "current_user option \<Rightarrow> string" where
  "shown_name u =
     (let name = (case u of None \<Rightarrow> None | Some c \<Rightarrow> username c);
          nick = (case u of None \<Rightarrow> None | Some c \<Rightarrow> nickname c)
      in or_str nick (or_str name [CHR 0xE7, CHR 0x94, CHR 0xA8, CHR 0xE6, CHR 0x88, CHR 0xB7]))"

definition userMenuItems :: "frame_action node" where
  "userMenuItems = El ''menu'' [] [El ''item'' [Attr ''key'' ''logout'', On ''onClick'' LogoutClick] [Txt [CHR 0xE9, CHR 0x80, CHR 0x80, CHR 0xE5, CHR 0x87, CHR 0xBA, CHR 0xE7, CHR 0x99,
      CHR 0xBB, CHR 0xE5, CHR 0xBD, CHR 0x95]]]"

definition avatar_src :: "current_user option \<Rightarrow> frame_action attr list" where
  "avatar_src u =
     (case u of None \<Rightarrow> [] | Some c \<Rightarrow> (case avatar c of None \<Rightarrow> [] | Some a \<Rightarrow> [Attr ''src'' a]))"

definition user_dropdown :: "current_user option \<Rightarrow> frame_action node" where
  "user_dropdown u =
     El ''Dropdown'' []
       [userMenuItems,
        El ''Space'' []
          [El ''Avatar'' (avatar_src u) [],
           El ''span'' [] [Txt (shown_name u)]]]"

definition BasicLayout :: "string \<Rightarrow> frame_data \<Rightarrow> frame_action node" where
  "BasicLayout pathname d =
     El ''ProLayout'' [Attr ''title'' [CHR 0xE7, CHR 0xAE, CHR 0xA1, CHR 0xE7, CHR 0x90, CHR 0x86, CHR 0xE6, CHR 0x8E,
      CHR 0xA7, CHR 0xE5, CHR 0x88, CHR 0xB6, CHR 0xE5, CHR 0x8F, CHR 0xB0], Flag ''collapsed'' (fd_collapsed d)]
       [El ''route'' [] (frame_menu (filteredRoute (currentUser (fd_user d)))),
        El ''avatarProps'' (avatar_src (currentUser (fd_user d))) [],
        El ''actionsRender'' []
          (shown_if (showClusterSwitcher pathname) [cluster_switcher d] @ [WSStatusBadge (fd_status d)]),
        El ''rightContentRender'' [] [user_dropdown (currentUser (fd_user d))],
        El ''Outlet'' [] []]"

text \<open>
  The handlers, up to the answer of the logout, and the effects: the profile is fetched, and the
  first cluster is selected. The frame keeps no state of its own.
\<close>

definition frame_act :: "frame_action \<Rightarrow> event \<Rightarrow> frame_data \<Rightarrow> frame_call page_effect list" where
  "frame_act a x d =
     (case a of
        FollowLink p \<Rightarrow> [PNavigate p]
      | SwitchCluster \<Rightarrow> [PSelectCluster (text_arg x)]
      | LogoutClick \<Rightarrow> [PSend (CallLogout (logout_body (fd_storage d)))])"

definition frame_reply :: "frame_call \<Rightarrow> frame_call page_effect list" where
  "frame_reply c =
     (case c of CallLogout rt \<Rightarrow> [PToast ToastOk [CHR 0xE5, CHR 0xB7, CHR 0xB2, CHR 0xE9, CHR 0x80, CHR 0x80, CHR 0xE5, CHR 0x87,
      CHR 0xBA, CHR 0xE7, CHR 0x99, CHR 0xBB, CHR 0xE5, CHR 0xBD, CHR 0x95], PNavigate ''/login''] | CallProfile \<Rightarrow> [])"

definition frame_effects :: "frame_data \<Rightarrow> frame_call page_effect list" where
  "frame_effects d =
     (if should_fetch_profile (fd_user d) then [PSend CallProfile] else []) @
     (if \<not> truthy (fd_selected d) \<and> frame_clusters d \<noteq> []
      then [PSelectCluster (Some (snd (hd (frame_clusters d))))] else [])"

definition frame_machine :: "string \<Rightarrow> (frame_data, unit, frame_action, frame_call, unit) machine" where
  "frame_machine pathname =
     \<lparr>pg_start = (), pg_view = (\<lambda>d flight s. BasicLayout pathname d), pg_act = (\<lambda>a x d s. (s, frame_act a x d)),
      pg_reply = (\<lambda>m r s. (s, frame_reply m)), pg_commit = (\<lambda>d s. (s, frame_effects d)),
      pg_typed = (\<lambda>s s'. False)\<rparr>"

subsection \<open>Properties of the login page\<close>

definition typed_login :: "login_call \<Rightarrow> bool" where
  "typed_login m = (case m of CallLogin u p \<Rightarrow> u \<noteq> [] \<and> p \<noteq> [])"

lemma login_accepts: "form_accepts is_email login_view (login_get s) \<longleftrightarrow> truthy (lg_username s) \<and> truthy (lg_password s)"
  by (auto simp: form_accepts_def login_view_def login_field_def field_of_def login_get_def rule_ok_def required_def
      no_rule_def)

lemma login_reply_quiet: "sends (snd (login_reply redirect r s)) = []"
proof -
  have quiet: "sends (map (PToast l) ts :: login_call page_effect list) = []" for l and ts by (induction ts) simp_all
  show ?thesis by (simp add: login_reply_def Let_def quiet split: option.splits)
qed

interpretation login_form: guarded_page "login_machine is_email query p" "\<lambda>s. True" typed_login
  by unfold_locales
    (auto simp: login_machine_def login_act_def login_accepts login_reply_quiet typed_login_def truthy_iff or_str_simps
      split: if_splits)

lemma login_navigates: "PNavigate u \<in> set (snd (login_reply redirect r s)) \<Longrightarrow> u = redirect"
  by (auto simp: login_reply_def handleSubmit_def Let_def split: option.splits thunk.splits prod.splits)

text \<open>
  The login page tries no empty name or password, and all its navigations lead to the page that the
  query string names when that is a path of this site, else to the start page.
\<close>

lemma login_run_local:
  assumes "page_reach (login_machine is_email query p) s flight tr"
  shows "(\<forall>m \<in> set (sends tr). typed_login m) \<and> (\<forall>u. PNavigate u \<in> set tr \<longrightarrow> u = login_redirect query)"
proof (intro conjI ballI allI impI)
  show "typed_login m" if "m \<in> set (sends tr)" for m
    using login_form.sent_permitted [OF assms that] .
next
  show "u = login_redirect query" if "PNavigate u \<in> set tr" for u
    using assms that
  proof (induction rule: page_reach.induct)
    case (act s flight tr a d x s' es)
    then show ?case by (auto simp: login_machine_def login_act_def split: if_splits)
  next
    case (reply s flight tr m r s' es)
    have "es = snd (login_reply (login_redirect query) r s)"
      using reply.hyps(3) by (simp add: login_machine_def prod_eq_iff)
    then show ?case using reply.IH reply.prems login_navigates [of u _ r s] by auto
  qed (auto simp: login_machine_def)
qed

subsection \<open>Properties of the frame\<close>

lemma menu_links:
  "(\<Union>v \<in> set (frame_menu rs). set (acts v)) = (\<lambda>p. FollowLink (if p = [] then ''/'' else p)) ` set (menu_leaves rs)"
proof (induction rs rule: frame_menu.induct)
  case (2 p n sub rs)
  show ?case
  proof (cases "\<exists>c cs. sub = Some (c # cs)")
    case True
    then obtain c cs where sub: "sub = Some (c # cs)" by blast
    show ?thesis using "2.IH" by (auto simp: sub Let_def view_simps)
  next
    case False
    then have "frame_menu (MenuRoute p n sub # rs) = menuItemRender p [Txt (or_str n [])] # frame_menu rs"
      "menu_leaves (MenuRoute p n sub # rs) = p # menu_leaves rs"
      by (auto simp: Let_def split: option.split list.split)
    then show ?thesis using "2.IH"(2) by (auto simp: menuItemRender_def Let_def view_simps)
  qed
qed simp

lemma badge_quiet: "set (acts (WSStatusBadge st)) = {}"
  by (simp add: WSStatusBadge_def view_simps)

text \<open>What the frame offers: the entries of the filtered menu, the logout and, below \<open>/resources\<close>, the switcher.\<close>

lemma frame_offers:
  "set (acts (BasicLayout pathname d)) =
     (\<lambda>p. FollowLink (if p = [] then ''/'' else p)) ` set (menu_leaves (filteredRoute (currentUser (fd_user d))))
     \<union> (if showClusterSwitcher pathname then {SwitchCluster} else {}) \<union> {LogoutClick}"
  using menu_links [of "filteredRoute (currentUser (fd_user d))"]
  by (auto simp: BasicLayout_def cluster_switcher_def avatar_src_def user_dropdown_def userMenuItems_def view_simps badge_quiet
      simp del: acts.simps split: option.splits)

text \<open>The entries of the menu are reached from it: a link to one of its pages shows the page.\<close>

lemma leaf_link_opens:
  assumes "p \<in> set (menu_leaves rawRoutes)" and "currentUser s \<noteq> None"
    and "p \<in> set (menu_leaves (filteredRoute (currentUser s)))"
  shows "\<exists>pg. visit s p = ShowPage pg"
proof (cases "isPlatformAdmin (currentUser s)")
  case False
  have "p \<notin> set (menu_parents rawRoutes)"
    using assms(1) menu_leaves_no_parents by (simp add: list_all_iff)
  from filter_leaves [OF this] False assms show ?thesis by (simp add: visit_leaf filteredRoute_def)
qed (use assms in \<open>simp add: visit_leaf\<close>)

text \<open>A group whose entries are all filtered away becomes an entry itself; there are no other entries.\<close>

lemma filter_leaves_origin:
  "p \<in> set (menu_leaves (filterRoutesByPermission rs any admin)) \<Longrightarrow>
    p \<in> set (menu_leaves rs) \<or> p \<in> set (menu_parents rs)"
proof (induction rs any admin rule: filterRoutesByPermission.induct)
  case (2 p' n sub rs any admin)
  show ?case
  proof (cases "admin \<or> \<not> (\<exists>c cs. sub = Some (c # cs))")
    case True
    then show ?thesis
      using "2.prems" "2.IH"(1) by (auto simp: Let_def split: if_splits option.splits list.splits)
  next
    case False
    then obtain c cs where sub: "sub = Some (c # cs)" and adm: "\<not> admin" by blast
    have inner: "p \<in> set (menu_leaves (filterRoutesByPermission (c # cs) any admin))
        \<Longrightarrow> p \<in> set (menu_leaves (c # cs)) \<or> p \<in> set (menu_parents (c # cs))"
      by (rule "2.IH"(2) [OF adm refl refl sub refl])
    have rest: "p \<in> set (menu_leaves (filterRoutesByPermission rs any admin))
        \<Longrightarrow> p \<in> set (menu_leaves rs) \<or> p \<in> set (menu_parents rs)"
      by (rule "2.IH"(1) [OF adm refl])
    show ?thesis
      using "2.prems" inner rest adm
      by (cases "filterRoutesByPermission (c # cs) any admin")
        (auto simp: sub Let_def split: if_splits option.splits list.splits)
  qed
qed simp

text \<open>
  A run of the frame navigates only along its menu, or to the login page after a logout; a link to a
  page of the menu that a user with a loaded profile follows shows that page, not the view of a
  missing permission.
\<close>

lemma frame_run_navigates:
  assumes "page_reach (frame_machine pathname) s flight tr" and "PNavigate u \<in> set tr"
  shows "u = ''/login'' \<or> u \<in> set (menu_leaves rawRoutes) \<or> u \<in> set (menu_parents rawRoutes)"
  using assms
proof (induction rule: page_reach.induct)
  case (act s flight tr a d x s' es)
  have nonempty: "[] \<notin> set (menu_leaves rawRoutes) \<union> set (menu_parents rawRoutes)" by (simp add: rawRoutes_def)
  show ?case
  proof (cases "PNavigate u \<in> set tr")
    case False
    then have "PNavigate u \<in> set (frame_act a x d)" using act.prems act.hyps(3) by (auto simp: frame_machine_def)
    then have "FollowLink u \<in> set (acts (BasicLayout pathname d))"
      using act.hyps(2) by (cases a) (auto simp: frame_act_def frame_machine_def)
    then obtain p where "p \<in> set (menu_leaves (filteredRoute (currentUser (fd_user d))))"
      "u = (if p = [] then ''/'' else p)"
      by (auto simp: frame_offers split: if_splits)
    with nonempty show ?thesis using filter_leaves_origin [of p] by (auto simp: filteredRoute_def)
  qed (rule act.IH)
next
  case (reply s flight tr m r s' es)
  then show ?case by (cases m) (auto simp: frame_machine_def frame_reply_def)
next
  case (commit s flight tr d s' es)
  then show ?case by (auto simp: frame_machine_def frame_effects_def split: if_splits)
qed (auto simp: frame_machine_def)

text \<open>
  The switcher can be cleared, but not to any effect: the next effect of the frame selects the first
  cluster again, whichever was selected.
\<close>

lemma cleared_switcher_reselects:
  assumes "codes \<noteq> []"
  shows "selectedClusterCode (fst (cluster_effect codes (app_reduce (SetSelectedClusterCode None) p))) = Some (hd codes)"
  using assms by (cases p) (simp add: cluster_effect_def)

end
