(* ===== verification/PanelView.thy ===== *)
theory PanelView
  imports View PushPanels PodLogsView AuditPage YamlEditor
begin

section \<open>The panels, the dashboard and the editors as they are rendered\<close>

text \<open>
  What \<open>components/ws/PodLogsViewer.tsx\<close> renders and the runs of the viewer, with the markup of
  \<open>components/ws/ClusterEventsList.tsx\<close>, \<open>pages/dashboard/index.tsx\<close> and
  \<open>components/YamlEditor.tsx\<close>. \<open>fmt\<close> is dayjs, with the format as its first argument.
\<close>

subsection \<open>The log viewer\<close>

text \<open>The properties, with the values that the component gives to those left out.\<close>

record viewer_props =
  vp_clusterCode :: string
  vp_namespace :: string
  vp_podName :: string
  vp_containerName :: "string option"
  vp_height :: int
  vp_autoTrigger :: bool
  vp_follow :: bool
  vp_tailLines :: int

definition viewer_defaults :: "string \<Rightarrow> string \<Rightarrow> string \<Rightarrow> string option \<Rightarrow> viewer_props" where
  "viewer_defaults c n p cont =
     \<lparr>vp_clusterCode = c, vp_namespace = n, vp_podName = p, vp_containerName = cont, vp_height = 480,
      vp_autoTrigger = True, vp_follow = True, vp_tailLines = 500\<rparr>"

text \<open>The viewer of the page of the Pod logs, with the properties that its markup gives.\<close>

definition viewer_of :: "pod_selection \<Rightarrow> viewer_props" where
  "viewer_of s =
     (viewer_defaults (ps_cluster s) (ps_namespace s) (ps_pod s) (ps_container s))\<lparr>vp_height := 640\<rparr>"

text \<open>The data: the connection and the WebSocket slice that \<open>usePodLogs\<close> reads, and the clock.\<close>

record viewer_data =
  vd_wsStatus :: connection_status
  vd_ws :: ws_state
  vd_now :: nat

datatype viewer_action = Retrigger | SwitchPause | ClearLog | DownloadLog

datatype viewer_call = CallTrigger string "(string \<times> string) list"

definition viewer_logs :: "viewer_props \<Rightarrow> viewer_data \<Rightarrow> pod_logs_result" where
  "viewer_logs vp d = usePodLogs (vp_clusterCode vp) (vp_namespace vp) (vp_podName vp) (vd_ws d)"

definition viewer_toolbar :: "viewer_props \<Rightarrow> viewer_data \<Rightarrow> viewer_state \<Rightarrow> viewer_action node list" where
  "viewer_toolbar vp d v =
     [El ''Space'' []
        (map (\<lambda>t. El ''Tag'' [] [Txt t])
          (viewer_tags (vp_clusterCode vp) (vp_namespace vp) (vp_podName vp) (vp_containerName vp)
            (length (pr_lines (viewer_logs vp d))) (pr_eof (viewer_logs vp d)) (vd_wsStatus d) v)),
      El ''Space'' []
        [El ''Button'' [On ''onClick'' Retrigger, Flag ''loading'' (vw_triggering v), Attr ''title'' [CHR 0xE9, CHR 0x87, CHR 0x8D, CHR 0xE6, CHR 0x96, CHR 0xB0, CHR 0xE8, CHR 0xA7,
      CHR 0xA6, CHR 0xE5, CHR 0x8F, CHR 0x91, CHR 0xE6, CHR 0x97, CHR 0xA5, CHR 0xE5,
      CHR 0xBF, CHR 0x97, CHR 0xE6, CHR 0xB5, CHR 0x81]] [],
         El ''Button'' [On ''onClick'' SwitchPause, Attr ''title'' (pause_title v)] [],
         El ''Button'' [On ''onClick'' ClearLog, Attr ''title'' [CHR 0xE6, CHR 0xB8, CHR 0x85, CHR 0xE7, CHR 0xA9, CHR 0xBA]] [],
         El ''Button'' [On ''onClick'' DownloadLog, Attr ''title'' [CHR 0xE4, CHR 0xB8, CHR 0x8B, CHR 0xE8, CHR 0xBD, CHR 0xBD], Flag ''disabled'' (pr_isEmpty (viewer_logs vp d))] []]]"

definition PodLogsViewer :: "viewer_props \<Rightarrow> viewer_data \<Rightarrow> viewer_state \<Rightarrow> viewer_action node" where
  "PodLogsViewer vp d v =
     El ''div'' []
       [El ''div'' [] (viewer_toolbar vp d v),
        El ''div'' []
          (case viewer_content (vp_height vp) v (vd_wsStatus d) (viewer_logs vp d) of
             BodyText t \<Rightarrow> [El ''div'' [] [Txt t]]
           | BodyLines ls \<Rightarrow> map (\<lambda>l. El ''div'' [] [Txt l]) ls)]"

text \<open>\<open>triggerStream\<close> up to its \<open>await\<close>.\<close>

definition triggerStream :: "viewer_props \<Rightarrow> viewer_state \<Rightarrow> viewer_state \<times> viewer_call page_effect list" where
  "triggerStream vp v =
     (let c = vp_clusterCode vp; n = vp_namespace vp; p = vp_podName vp
      in (trigger_start c n p v,
          if c = [] \<or> n = [] \<or> p = [] then []
          else [PSend (CallTrigger (trigger_url c n p)
                  (trigger_params (vp_follow vp) (vp_tailLines vp) (vp_containerName vp)))]))"

text \<open>Clearing goes to the slice, and a download to the browser; an empty log gives a warning.\<close>

definition viewer_act ::
  "viewer_props \<Rightarrow> viewer_action \<Rightarrow> viewer_data \<Rightarrow> viewer_state \<Rightarrow> viewer_state \<times> viewer_call page_effect list" where
  "viewer_act vp a d v =
     (case a of
        Retrigger \<Rightarrow> triggerStream vp v
      | SwitchPause \<Rightarrow> (toggle_paused v, [])
      | ClearLog \<Rightarrow> (v, [])
      | DownloadLog \<Rightarrow>
          (v, case handleDownload (vp_clusterCode vp) (vp_namespace vp) (vp_podName vp) (vd_now d) (viewer_logs vp d) of
                NothingToDownload \<Rightarrow> [PToast ToastWarn [CHR 0xE6, CHR 0x9A, CHR 0x82, CHR 0xE6, CHR 0x97, CHR 0xA0, CHR 0xE6, CHR 0x97,
      CHR 0xA5, CHR 0xE5, CHR 0xBF, CHR 0x97, CHR 0xE5, CHR 0x8F, CHR 0xAF, CHR 0xE4,
      CHR 0xB8, CHR 0x8B, CHR 0xE8, CHR 0xBD, CHR 0xBD]] | LogFile name text \<Rightarrow> []))"

text \<open>The effects: the timer that triggers the stream has run out, and the note at the end mark.\<close>

definition viewer_effects ::
  "viewer_props \<Rightarrow> viewer_data \<Rightarrow> viewer_state \<Rightarrow> viewer_state \<times> viewer_call page_effect list" where
  "viewer_effects vp d v =
     (let (v', es) =
            (if should_trigger (vp_autoTrigger vp) (vd_wsStatus d) (vp_clusterCode vp) (vp_namespace vp) (vp_podName vp)
             then triggerStream vp v else (v, []))
      in (v', es @ (if pr_eof (viewer_logs vp d) then [PToast ToastInfo [CHR 0xE6, CHR 0x97, CHR 0xA5, CHR 0xE5, CHR 0xBF, CHR 0x97, CHR 0xE6, CHR 0xB5,
      CHR 0x81, CHR 0xE5, CHR 0xB7, CHR 0xB2, CHR 0xE7, CHR 0xBB, CHR 0x93, CHR 0xE6,
      CHR 0x9D, CHR 0x9F]] else [])))"

definition viewer_machine ::
  "viewer_props \<Rightarrow> (viewer_data, viewer_state, viewer_action, viewer_call, trigger_result) machine" where
  "viewer_machine vp =
     \<lparr>pg_start = viewer_init, pg_view = (\<lambda>d flight. PodLogsViewer vp d), pg_act = (\<lambda>a x. viewer_act vp a),
      pg_reply = (\<lambda>m r v. (trigger_done r v, [])), pg_commit = viewer_effects vp, pg_typed = (\<lambda>s s'. False)\<rparr>"

subsection \<open>The list of cluster events\<close>

text \<open>\<open>onClear\<close> is optional, and so is the header.\<close>

definition events_header ::
  "(string \<Rightarrow> string \<Rightarrow> string) \<Rightarrow> 'a option \<Rightarrow> cluster_events_result \<Rightarrow> 'a node" where
  "events_header fmt onClear r =
     El ''div'' []
       ([El ''Space'' []
          ([El ''Badge'' [Attr ''count'' (show_nat (length (cer_list r)))] [], El ''Text'' [] [Txt [CHR 0xE9, CHR 0x9B, CHR 0x86, CHR 0xE7, CHR 0xBE, CHR 0xA4, CHR 0xE4, CHR 0xBA,
      CHR 0x8B, CHR 0xE4, CHR 0xBB, CHR 0xB6]]] @
           map (\<lambda>t. El ''Tag'' [] [Txt t]) (event_badge_texts (cer_warnings r) (cer_errors r)) @
           (case cer_latest r of None \<Rightarrow> []
            | Some e \<Rightarrow> [El ''Tooltip'' [Attr ''title'' (latest_event_tip (fmt ''HH:mm:ss'') e)]
                          [El ''Text'' [] [Txt (latest_event_text e)]]]))] @
        (case onClear of None \<Rightarrow> [] | Some a \<Rightarrow> [El ''Button'' [On ''onClick'' a] [Txt [CHR 0xE6, CHR 0xB8, CHR 0x85, CHR 0xE7, CHR 0xA9, CHR 0xBA]]]))"

definition event_type_text :: "event_type \<Rightarrow> string" where
  "event_type_text t = (case t of EvAdded \<Rightarrow> ''ADDED'' | EvModified \<Rightarrow> ''MODIFIED'' | EvDeleted \<Rightarrow> ''DELETED''
     | EvError \<Rightarrow> ''ERROR'')"

definition event_row :: "(string \<Rightarrow> string \<Rightarrow> string) \<Rightarrow> cluster_event \<Rightarrow> 'a node" where
  "event_row fmt e =
     (case event_item (fmt ''MM-DD HH:mm:ss'') e of (badge, colour, tags, name, text, time) \<Rightarrow>
        El ''List.Item'' []
          ([El ''Space'' []
             ([El ''Badge'' [Attr ''status'' badge] [],
               El ''Tag'' [Attr ''color'' colour] [Txt (event_type_text (ce_event_type e))]] @
              map (\<lambda>t. El ''Tag'' [] [Txt t]) tags @ [El ''Text'' [] [Txt name]])] @
           (case text of None \<Rightarrow> [] | Some t \<Rightarrow> [El ''Text'' [] [Txt t]]) @
           (case time of None \<Rightarrow> [] | Some t \<Rightarrow> [El ''Text'' [] [Txt t]])))"

definition ClusterEventsList ::
  "(string \<Rightarrow> string \<Rightarrow> string) \<Rightarrow> bool \<Rightarrow> nat \<Rightarrow> 'a option \<Rightarrow> cluster_events_result \<Rightarrow> 'a node" where
  "ClusterEventsList fmt showHeader maxItems onClear r =
     (let sorted = events_shown maxItems (cer_list r)
      in El ''div'' []
           (shown_if showHeader [events_header fmt onClear r] @
            [El ''div'' []
               [if sorted = [] then El ''div'' [] [El ''Empty'' [Attr ''description'' [CHR 0xE6, CHR 0x9A, CHR 0x82, CHR 0xE6, CHR 0x97, CHR 0xA0, CHR 0xE9, CHR 0x9B,
      CHR 0x86, CHR 0xE7, CHR 0xBE, CHR 0xA4, CHR 0xE4, CHR 0xBA, CHR 0x8B, CHR 0xE4,
      CHR 0xBB, CHR 0xB6]] []]
                else El ''List'' [] (map (event_row fmt) sorted)]]))"

subsection \<open>The dashboard\<close>

datatype dashboard_action = ClearEvents

text \<open>The list of the clusters is its total, which may be missing, and its items.\<close>

definition dashboard_view ::
  "(string \<Rightarrow> string \<Rightarrow> string) \<Rightarrow> (int option \<times> 'c list option) option \<Rightarrow> bool \<Rightarrow> string option
    \<Rightarrow> cluster_event list \<Rightarrow> dashboard_action node" where
  "dashboard_view fmt data isFetching selected events =
     (let total = (case data of None \<Rightarrow> 0 | Some (t, items) \<Rightarrow> clusterTotal t items)
      in El ''PageContainer'' []
        [El ''Card'' []
          [El ''Statistic'' [Attr ''title'' [CHR 0xE5, CHR 0xB7, CHR 0xB2, CHR 0xE7, CHR 0xBA, CHR 0xB3, CHR 0xE7, CHR 0xAE,
      CHR 0xA1, CHR 0xE9, CHR 0x9B, CHR 0x86, CHR 0xE7, CHR 0xBE, CHR 0xA4], Attr ''value'' (show_int total), Flag ''loading'' (isFetching \<and> data = None)] []],
         El ''Card'' [Attr ''title'' (dashboard_title selected)]
          [ClusterEventsList fmt True 50 (Some ClearEvents)
            (useClusterEvents (if truthy selected then selected else None) None None events)]])"

definition dashboard_act :: "dashboard_action \<Rightarrow> ws_world \<Rightarrow> ws_world" where
  "dashboard_act a = (case a of ClearEvents \<Rightarrow> dispatch ClearClusterEvents)"

subsection \<open>The editors\<close>

text \<open>The text of the editor is controlled; the comparison is always read only.\<close>

definition yaml_editor_view :: "string \<Rightarrow> bool \<Rightarrow> string \<Rightarrow> editor_view \<Rightarrow> 'a option \<Rightarrow> 'a node" where
  "yaml_editor_view value readOnly thm v onChange =
     El ''div'' []
       [El ''Editor''
          ([Attr ''height'' (show_int (ev_px v)), Attr ''language'' ''yaml'', Attr ''theme'' thm, Attr ''value'' value,
            Flag ''readOnly'' readOnly] @ (case onChange of None \<Rightarrow> [] | Some a \<Rightarrow> [On ''onChange'' a]))
          [El ''loading'' [] [El ''div'' [] [Txt ([CHR 0xE5, CHR 0x8A, CHR 0xA0, CHR 0xE8, CHR 0xBD, CHR 0xBD, CHR 0xE7, CHR 0xBC,
      CHR 0x96, CHR 0xE8, CHR 0xBE, CHR 0x91, CHR 0xE5, CHR 0x99, CHR 0xA8] @
     ''...'')]]]]"

definition yaml_diff_view :: "string \<Rightarrow> string \<Rightarrow> string \<Rightarrow> editor_view \<Rightarrow> 'a node" where
  "yaml_diff_view original modified thm v =
     El ''div'' []
       [El ''DiffEditor''
          [Attr ''height'' (show_int (ev_px v)), Attr ''original'' original, Attr ''modified'' modified,
           Attr ''originalLanguage'' ''yaml'', Attr ''modifiedLanguage'' ''yaml'', Attr ''theme'' thm,
           Flag ''readOnly'' True, Flag ''renderSideBySide'' True] []]"

subsection \<open>Properties of the viewer\<close>

lemma trigger_sends:
  "sends (snd (triggerStream vp v)) =
     (if vp_clusterCode vp = [] \<or> vp_namespace vp = [] \<or> vp_podName vp = [] then []
      else [CallTrigger (trigger_url (vp_clusterCode vp) (vp_namespace vp) (vp_podName vp))
              (trigger_params (vp_follow vp) (vp_tailLines vp) (vp_containerName vp))])"
  by (simp add: triggerStream_def Let_def)

lemma trigger_raises:
  "vw_triggering (fst (triggerStream vp v)) \<longleftrightarrow> vw_triggering v \<or> sends (snd (triggerStream vp v)) \<noteq> []"
  by (simp add: triggerStream_def trigger_start_def Let_def)

lemma viewer_effects_sends:
  "sends (snd (viewer_effects vp d v)) =
     (if should_trigger (vp_autoTrigger vp) (vd_wsStatus d) (vp_clusterCode vp) (vp_namespace vp) (vp_podName vp)
      then sends (snd (triggerStream vp v)) else [])"
  "vw_triggering (fst (viewer_effects vp d v)) \<longleftrightarrow> vw_triggering v \<or> sends (snd (viewer_effects vp d v)) \<noteq> []"
  using trigger_raises [of vp v] by (auto simp: viewer_effects_def split: prod.splits if_splits)

lemma viewer_act_sends:
  "sends (snd (viewer_act vp a d v)) = (if a = Retrigger then sends (snd (triggerStream vp v)) else [])"
  "vw_triggering (fst (viewer_act vp a d v)) \<longleftrightarrow> vw_triggering v \<or> sends (snd (viewer_act vp a d v)) \<noteq> []"
  by (cases a; auto simp: viewer_act_def trigger_raises toggle_paused_def split: log_download.split)+

lemma trigger_done_idle: "\<not> vw_triggering (trigger_done r v)"
  by (simp add: trigger_done_def split: trigger_result.split)

text \<open>
  All requests of a viewer start the stream of its own Pod, and while it says that it starts one, a
  request is under way.
\<close>

lemma viewer_run:
  assumes "page_reach (viewer_machine vp) v flight tr"
  shows "(vw_triggering v \<longrightarrow> flight \<noteq> []) \<and> set (sends tr) \<subseteq> set (sends (snd (triggerStream vp viewer_init)))"
  using assms
proof (induction rule: page_reach.induct)
  case (act v flight tr a d x v' es)
  then have "es = snd (viewer_act vp a d v)" "v' = fst (viewer_act vp a d v)" by (simp_all add: viewer_machine_def)
  with act.IH show ?case by (auto simp: viewer_act_sends trigger_sends)
next
  case (reply v flight tr m r v' es)
  then have "es = []" "v' = trigger_done r v" by (simp_all add: viewer_machine_def)
  with reply.IH show ?case by (auto simp: trigger_done_idle)
next
  case (commit v flight tr d v' es)
  then have "es = snd (viewer_effects vp d v)" "v' = fst (viewer_effects vp d v)" by (simp_all add: viewer_machine_def)
  with commit.IH show ?case by (auto simp: viewer_effects_sends trigger_sends)
qed (auto simp: viewer_machine_def viewer_init_def)

text \<open>
  The converse fails: when the connection comes back while a trigger is under way the effect sends a
  second one, and the first reply switches the indicator off.
\<close>

definition lost_data :: viewer_data where
  "lost_data = \<lparr>vd_wsStatus = WOpen, vd_ws = initial_ws_state, vd_now = 0\<rparr>"

lemma viewer_indicator_lost:
  "\<exists>v flight tr. page_reach (viewer_machine (viewer_defaults ''c'' ''n'' ''p'' None)) v flight tr
     \<and> flight \<noteq> [] \<and> \<not> vw_triggering v"
proof -
  let ?vp = "viewer_defaults ''c'' ''n'' ''p'' None"
  let ?p = "viewer_machine ?vp"
  obtain v1 es1 where e1: "pg_commit ?p lost_data (pg_start ?p) = (v1, es1)" by (cases "pg_commit ?p lost_data (pg_start ?p)")
  obtain v2 es2 where e2: "pg_commit ?p lost_data v1 = (v2, es2)" by (cases "pg_commit ?p lost_data v1")
  have two: "page_reach ?p v2 (([] @ sends es1) @ sends es2) (([] @ es1) @ es2)"
    by (rule page_reach.commit [OF page_reach.commit [OF page_reach.start e1] e2])
  have "es1 = snd (viewer_effects ?vp lost_data (pg_start ?p))" "es2 = snd (viewer_effects ?vp lost_data v1)"
    using e1 e2 by (simp_all add: viewer_machine_def)
  then have "sends es1 = [CallTrigger (trigger_url ''c'' ''n'' ''p'') (trigger_params True 500 None)]" "sends es2 = sends es1"
    by (simp_all add: viewer_effects_sends trigger_sends should_trigger_def lost_data_def viewer_defaults_def)
  then obtain c where flight: "sends es1 = [c]" "sends es2 = [c]" by simp
  have fin: "pg_reply ?p c TriggerOk v2 = (trigger_done TriggerOk v2, [])" by (simp add: viewer_machine_def)
  show ?thesis
    using page_reach.reply [OF two _ fin] flight by (auto simp: trigger_done_def intro!: exI)
qed

text \<open>
  What the tool bar offers. A download that is offered and yields no file is of a log with a single
  empty line, as the mark of the end of a stream without output is one.
\<close>

lemma viewer_offers:
  "set (acts (PodLogsViewer vp d v)) =
     {SwitchPause, ClearLog} \<union> (if vw_triggering v then {} else {Retrigger})
     \<union> (if pr_isEmpty (viewer_logs vp d) then {} else {DownloadLog})"
  by (auto simp: PodLogsViewer_def viewer_toolbar_def view_simps simp del: acts.simps split: viewer_body.split)

lemma join_lines_empty: "join_lines ls = [] \<Longrightarrow> ls \<noteq> [] \<Longrightarrow> ls = [[]]"
  by (cases ls rule: list.exhaust; cases "tl ls") (auto simp: join_lines_def)

lemma offered_download_of_nothing:
  assumes "DownloadLog \<in> set (acts (PodLogsViewer vp d v))"
    and "handleDownload c n p now (viewer_logs vp d) = NothingToDownload"
  shows "map pl_line (pr_lines (viewer_logs vp d)) = [[]]"
proof -
  have "pr_lines (viewer_logs vp d) \<noteq> []"
    using assms(1) by (auto simp: viewer_offers viewer_logs_def usePodLogs_def Let_def split: if_splits)
  moreover have "join_lines (map pl_line (pr_lines (viewer_logs vp d))) = []"
    using assms(2) by (simp add: handleDownload_def viewer_logs_def usePodLogs_def Let_def split: if_splits)
  ultimately show ?thesis using join_lines_empty by blast
qed

subsection \<open>Properties of the other panels\<close>

lemma event_row_quiet: "set (acts (event_row fmt e)) = {}"
  by (auto simp: event_row_def view_simps simp del: acts.simps set_empty split: prod.split option.splits)
    (simp_all add: view_simps)

text \<open>The list of events offers its clearing only when it has a header and a handler for it.\<close>

lemma events_list_offers:
  "set (acts (ClusterEventsList fmt showHeader maxItems onClear r)) = (if showHeader then set_option onClear else {})"
  by (auto simp: ClusterEventsList_def events_header_def view_simps event_row_quiet Let_def simp del: acts.simps set_empty
      split: option.splits)

lemma dashboard_offers: "set (acts (dashboard_view fmt data isFetching selected events)) = {ClearEvents}"
  by (auto simp: dashboard_view_def events_list_offers view_simps Let_def simp del: acts.simps set_empty)

text \<open>The comparison cannot be edited, the editor only by the handler of its page.\<close>

lemma editors_offer:
  "set (acts (yaml_editor_view value ro thm v onChange)) = set_option onChange"
  "set (acts (yaml_diff_view original modified thm v)) = {}"
  by (auto simp: yaml_editor_view_def yaml_diff_view_def view_simps simp del: acts.simps set_empty split: option.splits)

end
