(* ===== verification/ServerAccess.thy ===== *)
theory ServerAccess
  imports Services QueryString JsNumber
begin

section \<open>The access control of the server\<close>

text \<open>
  The part of the back end that decides which requests of the console are let through:
  \<open>internal/auth/service.go\<close> (the permission tree of a user), \<open>internal/api/middleware\<close> (the
  permission point of a route, the checks on it and on the cluster), the registration of the routes
  under \<open>internal/api\<close>, and what \<open>CurrentUserHandler\<close> tells the console about the user. Paths are
  relative to \<open>src/backend\<close>. The database is the list of the bindings of the user, the router Gin is a
  parameter with its documented behaviour.
\<close>

subsection \<open>The permission tree\<close>

record server_scope =
  sv_type :: scope_type
  sv_cluster :: string
  sv_namespace :: string

record permission_tree =
  pt_perms :: "string list"
  pt_scopes :: "server_scope list"
  pt_admin :: bool

text \<open>The keys of a Go map are a list without duplicates, in an order that means nothing.\<close>

definition HasPerm :: "permission_tree \<Rightarrow> string \<Rightarrow> bool" where
  "HasPerm pt code \<longleftrightarrow>
     (if pt_admin pt then True
      else if ''*:*'' \<in> set (pt_perms pt) then True
      else if code \<in> set (pt_perms pt) then True
      else case index_of CHR '':'' code of
             None \<Rightarrow> False
           | Some i \<Rightarrow> take i code @ '':*'' \<in> set (pt_perms pt))"

definition HasClusterScope :: "permission_tree \<Rightarrow> string \<Rightarrow> bool" where
  "HasClusterScope pt clusterCode \<longleftrightarrow>
     pt_admin pt
     \<or> (\<exists>sc \<in> set (pt_scopes pt).
          sv_type sc = ScopePlatform \<or> sv_type sc = ScopeCluster \<and> sv_cluster sc = clusterCode)"

definition HasAnyAccessToCluster :: "permission_tree \<Rightarrow> string \<Rightarrow> bool" where
  "HasAnyAccessToCluster pt clusterCode \<longleftrightarrow>
     HasClusterScope pt clusterCode
     \<or> (\<exists>sc \<in> set (pt_scopes pt). sv_type sc = ScopeNamespace \<and> sv_cluster sc = clusterCode)"

fun namespace_loop :: "string \<Rightarrow> string \<Rightarrow> server_scope list \<Rightarrow> bool" where
  "namespace_loop clusterCode namespace [] = False"
| "namespace_loop clusterCode namespace (sc # scs) =
     (if sv_type sc = ScopePlatform then True
      else if sv_cluster sc \<noteq> clusterCode then namespace_loop clusterCode namespace scs
      else if sv_type sc = ScopeCluster then True
      else if sv_type sc = ScopeNamespace \<and> sv_namespace sc = namespace then True
      else namespace_loop clusterCode namespace scs)"

definition HasNamespaceScope :: "permission_tree \<Rightarrow> string \<Rightarrow> string \<Rightarrow> bool" where
  "HasNamespaceScope pt clusterCode namespace \<longleftrightarrow>
     (if pt_admin pt then True else namespace_loop clusterCode namespace (pt_scopes pt))"

definition AllowedNamespaces :: "permission_tree \<Rightarrow> string \<Rightarrow> string list \<times> bool" where
  "AllowedNamespaces pt clusterCode =
     (if pt_admin pt then ([], True)
      else if \<exists>sc \<in> set (pt_scopes pt).
                sv_type sc = ScopePlatform \<or> sv_cluster sc = clusterCode \<and> sv_type sc = ScopeCluster
      then ([], True)
      else (map sv_namespace
              (filter (\<lambda>sc. sv_type sc = ScopeNamespace \<and> sv_cluster sc = clusterCode) (pt_scopes pt)), False))"

text \<open>
  The bindings of a user: a row of \<open>sys_user_role\<close> joined with its role and the permission points of
  that role.
\<close>

record binding =
  bd_role_id :: int
  bd_role_code :: string
  bd_role_name :: string
  bd_role_status :: int
  bd_role_perms :: "string list"
  bd_scope :: server_scope

text \<open>The rows of the query of \<open>loadPermissionTree\<close>: a left join, a role without points gives one row.\<close>

definition perm_rows :: "binding list \<Rightarrow> (string \<times> server_scope) list" where
  "perm_rows bs =
     concat (map (\<lambda>b. if bd_role_perms b = [] then [([], bd_scope b)]
                      else map (\<lambda>c. (c, bd_scope b)) (bd_role_perms b))
               (filter (\<lambda>b. bd_role_status b = 1) bs))"

definition add_row :: "string \<times> server_scope \<Rightarrow> permission_tree \<Rightarrow> permission_tree" where
  "add_row row pt =
     (case row of (code, sc) \<Rightarrow>
        \<lparr>pt_perms = (if code \<noteq> [] then set_add code (pt_perms pt) else pt_perms pt),
         pt_scopes = (if sc \<in> set (pt_scopes pt) then pt_scopes pt else pt_scopes pt @ [sc]),
         pt_admin = (pt_admin pt \<or> sv_type sc = ScopePlatform)\<rparr>)"

definition loadPermissionTree :: "binding list \<Rightarrow> permission_tree" where
  "loadPermissionTree bs = fold add_row (perm_rows bs) \<lparr>pt_perms = [], pt_scopes = [], pt_admin = False\<rparr>"

text \<open>
  What the console is told about the user. An empty string is left out of the reply. All the bindings
  are listed, also those whose role is disabled.
\<close>

definition nonempty :: "string \<Rightarrow> string option" where
  "nonempty s = (if s = [] then None else Some s)"

definition role_info :: "binding \<Rightarrow> current_user_role" where
  "role_info b =
     \<lparr>role_id = bd_role_id b, role_code = bd_role_code b, role_name = bd_role_name b,
      scope_type = sv_type (bd_scope b), role_cluster_code = nonempty (sv_cluster (bd_scope b)),
      role_namespace = nonempty (sv_namespace (bd_scope b))\<rparr>"

definition CurrentUserHandler :: "string list \<Rightarrow> binding list \<Rightarrow> current_user \<Rightarrow> current_user" where
  "CurrentUserHandler permsSlice bs user =
     user\<lparr>roles := Some (map role_info bs), perms := Some permsSlice,
       is_platform_admin := Some (pt_admin (loadPermissionTree bs))\<rparr>"

text \<open>\<open>PermsSlice\<close> lists the keys of the map in any order.\<close>

definition PermsSlice :: "string list \<Rightarrow> permission_tree \<Rightarrow> bool" where
  "PermsSlice s pt \<longleftrightarrow> set s = set (pt_perms pt)"

subsection \<open>Routes and their permission points\<close>

definition routePermExact :: "(string \<times> string) list" where
  "routePermExact =
    [(''GET /api/v1/clusters'', ''cluster:list''),
     (''POST /api/v1/clusters'', ''cluster:create''),
     (''GET /api/v1/clusters/:code'', ''cluster:list''),
     (''PUT /api/v1/clusters/:code'', ''cluster:update''),
     (''DELETE /api/v1/clusters/:code'', ''cluster:delete''),
     (''POST /api/v1/clusters/:code/ping'', ''cluster:ping''),
     (''GET /api/v1/clusters/:code/resources/:apiVersion/:kind'', ''resource:list''),
     (''GET /api/v1/clusters/:code/resources/:apiVersion/:kind/:namespace/:name'', ''resource:get''),
     (''POST /api/v1/clusters/:code/resources/:apiVersion/:kind'', ''resource:create''),
     (''PUT /api/v1/clusters/:code/resources/:apiVersion/:kind/:namespace/:name'', ''resource:update''),
     (''DELETE /api/v1/clusters/:code/resources/:apiVersion/:kind/:namespace/:name'', ''resource:delete''),
     (''GET /api/v1/versions'', ''version:list''),
     (''GET /api/v1/versions/diff'', ''version:diff''),
     (''POST /api/v1/versions/diff'', ''version:diff''),
     (''POST /api/v1/versions/rollback'', ''version:rollback''),
     (''POST /api/v1/clusters/:code/backups'', ''backup:create''),
     (''GET /api/v1/backups'', ''backup:list''),
     (''GET /api/v1/backups/:id'', ''backup:list''),
     (''GET /api/v1/backups/:id/download'', ''backup:list''),
     (''POST /api/v1/backups/:id/restore'', ''backup:restore''),
     (''DELETE /api/v1/backups/:id'', ''backup:delete''),
     (''GET /api/v1/clusters/:code/helm/releases'', ''helm:view''),
     (''POST /api/v1/clusters/:code/helm/releases'', ''helm:install''),
     (''DELETE /api/v1/clusters/:code/helm/releases/:namespace/:name'', ''helm:uninstall''),
     (''POST /api/v1/clusters/:code/helm/releases/:namespace/:name/rollback'', ''helm:rollback''),
     (''GET /api/v1/clusters/:code/helm/releases/:namespace/:name/history'', ''helm:view''),
     (''GET /api/v1/clusters/:code/helm/check'', ''helm:view''),
     (''GET /api/v1/helm/repos'', ''helm:view''),
     (''POST /api/v1/helm/repos'', ''helm:install''),
     (''DELETE /api/v1/helm/repos/:name'', ''helm:install''),
     (''POST /api/v1/helm/repos/update'', ''helm:install''),
     (''GET /api/v1/helm/charts'', ''helm:view''),
     (''GET /api/v1/clusters/:code/pods/:namespace/:pod/logs'', ''resource:get''),
     (''GET /api/v1/users'', ''user:manage''),
     (''POST /api/v1/users'', ''user:manage''),
     (''PUT /api/v1/users/:id'', ''user:manage''),
     (''PATCH /api/v1/users/:id/status'', ''user:manage''),
     (''POST /api/v1/users/:id/reset-password'', ''user:manage''),
     (''GET /api/v1/users/:id/roles'', ''user:manage''),
     (''POST /api/v1/users/:id/roles'', ''user:manage''),
     (''DELETE /api/v1/users/:id/roles'', ''user:manage''),
     (''GET /api/v1/roles'', ''role:manage''),
     (''POST /api/v1/roles'', ''role:manage''),
     (''PUT /api/v1/roles/:id'', ''role:manage''),
     (''DELETE /api/v1/roles/:id'', ''role:manage''),
     (''GET /api/v1/roles/:id/permissions'', ''role:manage''),
     (''POST /api/v1/roles/:id/permissions'', ''role:manage''),
     (''GET /api/v1/permissions'', ''role:manage''),
     (''GET /api/v1/audit-logs'', ''audit:list'')]"

definition show_method :: "http_method \<Rightarrow> string" where
  "show_method m =
     (case m of GET \<Rightarrow> ''GET'' | POST \<Rightarrow> ''POST'' | PUT \<Rightarrow> ''PUT'' | PATCH \<Rightarrow> ''PATCH'' | DELETE \<Rightarrow> ''DELETE'')"

definition resolvePermCode :: "http_method \<Rightarrow> string \<Rightarrow> string" where
  "resolvePermCode meth fullPath =
     (if fullPath = [] then []
      else case map_of routePermExact (show_method meth @ '' '' @ fullPath) of None \<Rightarrow> [] | Some c \<Rightarrow> c)"

text \<open>The registered routes: method, pattern, and the permission point that the route itself requires.\<close>

type_synonym server_route = "http_method \<times> string \<times> string option"

definition RegisterAuthRoutes :: "server_route list" where
  "RegisterAuthRoutes =
    [(POST, ''/api/v1/auth/login'', None),
     (POST, ''/api/v1/auth/refresh'', None),
     (GET, ''/api/v1/auth/me'', None),
     (POST, ''/api/v1/auth/logout'', None)]"

definition RegisterUserRoutes :: "server_route list" where
  "RegisterUserRoutes =
    [(GET, ''/api/v1/users'', Some ''user:manage''),
     (POST, ''/api/v1/users'', Some ''user:manage''),
     (PUT, ''/api/v1/users/:id'', Some ''user:manage''),
     (PATCH, ''/api/v1/users/:id/status'', Some ''user:manage''),
     (POST, ''/api/v1/users/:id/reset-password'', Some ''user:manage''),
     (GET, ''/api/v1/users/:id/roles'', Some ''user:manage''),
     (POST, ''/api/v1/users/:id/roles'', Some ''user:manage''),
     (DELETE, ''/api/v1/users/:id/roles'', Some ''user:manage'')]"

definition RegisterRoleRoutes :: "server_route list" where
  "RegisterRoleRoutes =
    [(GET, ''/api/v1/roles'', Some ''role:manage''),
     (POST, ''/api/v1/roles'', Some ''role:manage''),
     (PUT, ''/api/v1/roles/:id'', Some ''role:manage''),
     (DELETE, ''/api/v1/roles/:id'', Some ''role:manage''),
     (GET, ''/api/v1/roles/:id/permissions'', Some ''role:manage''),
     (POST, ''/api/v1/roles/:id/permissions'', Some ''role:manage''),
     (GET, ''/api/v1/permissions'', Some ''role:manage'')]"

definition RegisterAuditRoutes :: "server_route list" where
  "RegisterAuditRoutes =
    [(GET, ''/api/v1/audit-logs'', Some ''audit:list'')]"

definition RegisterClusterRoutes :: "server_route list" where
  "RegisterClusterRoutes =
    [(POST, ''/api/v1/clusters'', Some ''cluster:create''),
     (GET, ''/api/v1/clusters'', Some ''cluster:list''),
     (GET, ''/api/v1/clusters/:code'', Some ''cluster:list''),
     (PUT, ''/api/v1/clusters/:code'', Some ''cluster:update''),
     (DELETE, ''/api/v1/clusters/:code'', Some ''cluster:delete''),
     (POST, ''/api/v1/clusters/:code/ping'', Some ''cluster:ping'')]"

definition RegisterResourceRoutes :: "server_route list" where
  "RegisterResourceRoutes =
    [(GET, ''/api/v1/clusters/:code/resources/:apiVersion/:kind'', Some ''resource:list''),
     (GET, ''/api/v1/clusters/:code/resources/:apiVersion/:kind/:namespace/:name'', Some ''resource:get''),
     (POST, ''/api/v1/clusters/:code/resources/:apiVersion/:kind'', Some ''resource:create''),
     (PUT, ''/api/v1/clusters/:code/resources/:apiVersion/:kind/:namespace/:name'', Some ''resource:update''),
     (DELETE, ''/api/v1/clusters/:code/resources/:apiVersion/:kind/:namespace/:name'', Some ''resource:delete'')]"

definition RegisterVersionRoutes :: "server_route list" where
  "RegisterVersionRoutes =
    [(GET, ''/api/v1/versions'', Some ''version:list''),
     (GET, ''/api/v1/versions/diff'', Some ''version:diff''),
     (POST, ''/api/v1/versions/diff'', Some ''version:diff''),
     (POST, ''/api/v1/versions/rollback'', Some ''version:rollback'')]"

definition RegisterBackupRoutes :: "server_route list" where
  "RegisterBackupRoutes =
    [(POST, ''/api/v1/clusters/:code/backups'', Some ''backup:create''),
     (GET, ''/api/v1/backups'', Some ''backup:list''),
     (GET, ''/api/v1/backups/:id'', Some ''backup:list''),
     (GET, ''/api/v1/backups/:id/download'', Some ''backup:list''),
     (POST, ''/api/v1/backups/:id/restore'', Some ''backup:restore''),
     (DELETE, ''/api/v1/backups/:id'', Some ''backup:delete'')]"

definition RegisterHelmRoutes :: "server_route list" where
  "RegisterHelmRoutes =
    [(GET, ''/api/v1/helm/repos'', Some ''helm:view''),
     (POST, ''/api/v1/helm/repos'', Some ''helm:install''),
     (DELETE, ''/api/v1/helm/repos/:name'', Some ''helm:install''),
     (POST, ''/api/v1/helm/repos/update'', Some ''helm:install''),
     (GET, ''/api/v1/helm/charts'', Some ''helm:view''),
     (GET, ''/api/v1/clusters/:code/helm/releases'', Some ''helm:view''),
     (POST, ''/api/v1/clusters/:code/helm/releases'', Some ''helm:install''),
     (DELETE, ''/api/v1/clusters/:code/helm/releases/:namespace/:name'', Some ''helm:uninstall''),
     (POST, ''/api/v1/clusters/:code/helm/releases/:namespace/:name/rollback'', Some ''helm:rollback''),
     (GET, ''/api/v1/clusters/:code/helm/releases/:namespace/:name/history'', Some ''helm:view''),
     (GET, ''/api/v1/clusters/:code/helm/check'', Some ''helm:view'')]"

definition RegisterWebsocketRoutes :: "server_route list" where
  "RegisterWebsocketRoutes =
    [(GET, ''/api/v1/clusters/:code/pods/:namespace/:pod/logs'', Some ''resource:get''),
     (GET, ''/api/v1/ws'', None)]"

definition server_routes :: "server_route list" where
  "server_routes =
     RegisterAuthRoutes @ RegisterUserRoutes @ RegisterRoleRoutes @ RegisterAuditRoutes @ RegisterClusterRoutes
     @ RegisterResourceRoutes @ RegisterVersionRoutes @ RegisterBackupRoutes @ RegisterHelmRoutes @ RegisterWebsocketRoutes"

text \<open>
  The router: a segment of a pattern that starts with a colon stands for any non-empty segment, the
  others for themselves; the path is matched as it was sent, since \<open>UseRawPath\<close> is set. Gin is not part
  of the repository: \<open>gin\<close> gives the pattern of the route that serves a request, or the empty string, and
  the value of a parameter; \<open>gin_routes\<close> is what its documentation says of the pattern.
\<close>

definition path_matches :: "string \<Rightarrow> string \<Rightarrow> bool" where
  "path_matches pat p =
     list_all2 (\<lambda>w x. if starts_with w '':'' then x \<noteq> [] else x = w) (split_on CHR ''/'' pat) (split_on CHR ''/'' p)"

definition matching_routes :: "http_method \<Rightarrow> string \<Rightarrow> server_route list" where
  "matching_routes meth p = filter (\<lambda>(m, pat, c). m = meth \<and> path_matches pat p) server_routes"

record gin_route =
  gin_FullPath :: string
  gin_Param :: "string \<Rightarrow> string"

type_synonym gin = "http_method \<Rightarrow> string \<Rightarrow> gin_route"

definition gin_routes :: "gin \<Rightarrow> bool" where
  "gin_routes gin \<longleftrightarrow>
     (\<forall>meth p. case matching_routes meth p of
         [] \<Rightarrow> gin_FullPath (gin meth p) = []
       | [r] \<Rightarrow> gin_FullPath (gin meth p) = fst (snd r)
       | _ \<Rightarrow> True)"

subsection \<open>The middleware\<close>

datatype access_error = UnknownInterface | MissingPerm string | ScopeDenied string

text \<open>The cluster of a request: from the path, \<open>_\<close> is none, or from the header. \<open>True\<close>: they differ.\<close>

definition requestClusterCode :: "string \<Rightarrow> string \<Rightarrow> string \<times> bool" where
  "requestClusterCode param header =
     (let fromPath = (if js_trim param = ''_'' then [] else js_trim param); fromHeader = js_trim header
      in if fromPath \<noteq> [] \<and> fromHeader \<noteq> [] \<and> fromPath \<noteq> fromHeader then (fromPath, True)
         else if fromPath \<noteq> [] then (fromPath, False)
         else (fromHeader, False))"

definition RequireAnyClusterAccess :: "permission_tree \<Rightarrow> string \<Rightarrow> access_error + unit" where
  "RequireAnyClusterAccess pt clusterCode =
     (if HasAnyAccessToCluster pt clusterCode then Inr () else Inl (ScopeDenied clusterCode))"

text \<open>The middleware for a signed-in user; \<open>header\<close> is the header \<open>X-Cluster-Code\<close>.\<close>

definition RBACMiddleware :: "permission_tree \<Rightarrow> http_method \<Rightarrow> gin_route \<Rightarrow> string \<Rightarrow> access_error + unit" where
  "RBACMiddleware pt meth r header =
     (let permCode = resolvePermCode meth (gin_FullPath r)
      in if permCode = [] then Inl UnknownInterface
         else if \<not> HasPerm pt permCode then Inl (MissingPerm permCode)
         else
           let (clusterCode, mismatch) = requestClusterCode (gin_Param r ''code'') header
           in if mismatch then Inl (ScopeDenied clusterCode)
              else if clusterCode \<noteq> [] then RequireAnyClusterAccess pt clusterCode
              else Inr ())"

definition RequirePermission :: "permission_tree \<Rightarrow> string \<Rightarrow> access_error + unit" where
  "RequirePermission pt code =
     (if code = [] then Inl UnknownInterface else if HasPerm pt code then Inr () else Inl (MissingPerm code))"

subsection \<open>The two views of the permissions\<close>

text \<open>What the rows build: the points and the scopes of the enabled bindings.\<close>

lemma add_row_fields:
  "set (pt_perms (add_row r pt)) = set (pt_perms pt) \<union> ({fst r} - {[]})"
  "set (pt_scopes (add_row r pt)) = insert (snd r) (set (pt_scopes pt))"
  "pt_admin (add_row r pt) \<longleftrightarrow> pt_admin pt \<or> sv_type (snd r) = ScopePlatform"
  by (auto simp: add_row_def split: prod.split)

lemma fold_add_row:
  "set (pt_perms (fold add_row rows pt)) = set (pt_perms pt) \<union> (fst ` set rows - {[]})"
  "set (pt_scopes (fold add_row rows pt)) = set (pt_scopes pt) \<union> snd ` set rows"
  "pt_admin (fold add_row rows pt) \<longleftrightarrow> pt_admin pt \<or> (\<exists>r \<in> set rows. sv_type (snd r) = ScopePlatform)"
  by (induction rows arbitrary: pt) (auto simp: add_row_fields)

lemma perm_rows_set:
  "(c, sc) \<in> set (perm_rows bs) \<longleftrightarrow>
     (\<exists>b \<in> set bs. bd_role_status b = 1 \<and> sc = bd_scope b
        \<and> (c \<in> set (bd_role_perms b) \<or> bd_role_perms b = [] \<and> c = []))"
  by (auto simp: perm_rows_def)

lemma scopes_of_rows: "snd ` set (perm_rows bs) = bd_scope ` {b \<in> set bs. bd_role_status b = 1}"
proof (rule set_eqI)
  fix sc
  have "\<exists>c. c \<in> set (bd_role_perms b) \<or> bd_role_perms b = [] \<and> c = []" for b :: binding
    by (cases "bd_role_perms b") auto
  then have "(\<exists>c. (c, sc) \<in> set (perm_rows bs)) \<longleftrightarrow> (\<exists>b \<in> set bs. bd_role_status b = 1 \<and> sc = bd_scope b)"
    unfolding perm_rows_set by blast
  moreover have "sc \<in> snd ` set (perm_rows bs) \<longleftrightarrow> (\<exists>c. (c, sc) \<in> set (perm_rows bs))"
    by force
  ultimately show "sc \<in> snd ` set (perm_rows bs) \<longleftrightarrow> sc \<in> bd_scope ` {b \<in> set bs. bd_role_status b = 1}"
    by blast
qed

lemma tree_scopes:
  "set (pt_scopes (loadPermissionTree bs)) = bd_scope ` {b \<in> set bs. bd_role_status b = 1}"
  by (simp add: loadPermissionTree_def fold_add_row scopes_of_rows)

lemma tree_admin:
  "pt_admin (loadPermissionTree bs) \<longleftrightarrow>
     (\<exists>sc \<in> set (pt_scopes (loadPermissionTree bs)). sv_type sc = ScopePlatform)"
  by (simp add: loadPermissionTree_def fold_add_row)

text \<open>
  A role bound for the whole platform makes its user an administrator, whatever the role grants: the
  built-in viewer of the platform may do everything.
\<close>

lemma platform_binding_grants_all:
  assumes "b \<in> set bs" and "bd_role_status b = 1" and "sv_type (bd_scope b) = ScopePlatform"
  shows "HasPerm (loadPermissionTree bs) code"
  using assms by (auto simp: HasPerm_def tree_admin tree_scopes)

lemma profile_fields:
  "isPlatformAdmin (Some (CurrentUserHandler s bs base)) = pt_admin (loadPermissionTree bs)"
  "user_perms (Some (CurrentUserHandler s bs base)) = s"
  "roles (CurrentUserHandler s bs base) = Some (map role_info bs)"
  by (simp_all add: isPlatformAdmin_def user_perms_def CurrentUserHandler_def)

lemma HasPerm_agrees:
  assumes "PermsSlice s (loadPermissionTree bs)" and "\<not> starts_with code '':''"
  shows "hasPerm (Some (CurrentUserHandler s bs base)) code \<longleftrightarrow> HasPerm (loadPermissionTree bs) code"
proof -
  have "index_of CHR '':'' code = Some idx \<Longrightarrow> 0 < idx" for idx
    using assms(2) by (cases code) (auto simp: starts_with_def split: if_splits)
  then show ?thesis
    using assms(1)
    by (auto simp: hasPerm_def HasPerm_def profile_fields PermsSlice_def simp del: index_of_None split: option.split)
qed

lemma namespace_loop_iff:
  "namespace_loop c n scs \<longleftrightarrow>
     (\<exists>sc \<in> set scs. sv_type sc = ScopePlatform
        \<or> sv_cluster sc = c \<and> (sv_type sc = ScopeCluster \<or> sv_type sc = ScopeNamespace \<and> sv_namespace sc = n))"
  by (induction scs) auto

lemma HasNamespaceScope_iff:
  "HasNamespaceScope pt c n \<longleftrightarrow>
     HasClusterScope pt c
     \<or> (\<exists>sc \<in> set (pt_scopes pt). sv_type sc = ScopeNamespace \<and> sv_cluster sc = c \<and> sv_namespace sc = n)"
  by (auto simp: HasNamespaceScope_def HasClusterScope_def namespace_loop_iff)

lemma AllowedNamespaces_iff:
  "snd (AllowedNamespaces pt c) \<longleftrightarrow> HasClusterScope pt c"
  "\<not> HasClusterScope pt c \<Longrightarrow> n \<in> set (fst (AllowedNamespaces pt c)) \<longleftrightarrow> HasNamespaceScope pt c n"
  by (auto simp: AllowedNamespaces_def HasClusterScope_def HasNamespaceScope_iff)

text \<open>The roles of the profile are the bindings; an enabled binding is a scope of the tree.\<close>

lemma role_info_grants:
  assumes "c \<noteq> []"
  shows "grants_cluster c (role_info b) \<longleftrightarrow>
      sv_type (bd_scope b) = ScopePlatform \<or> sv_type (bd_scope b) = ScopeCluster \<and> sv_cluster (bd_scope b) = c"
    and "grants_namespace c n (role_info b) \<longleftrightarrow>
      sv_type (bd_scope b) = ScopeNamespace \<and> sv_cluster (bd_scope b) = c \<and> sv_namespace (bd_scope b) = n \<and> n \<noteq> []"
  using assms by (auto simp: grants_cluster_def grants_namespace_def role_info_def nonempty_def)

lemma tree_cluster_scope:
  "c \<noteq> [] \<Longrightarrow> HasClusterScope (loadPermissionTree bs) c \<longleftrightarrow>
     (\<exists>b \<in> set bs. bd_role_status b = 1 \<and> grants_cluster c (role_info b))"
  by (auto simp: HasClusterScope_def tree_admin tree_scopes role_info_grants)

lemma tree_namespace_scope:
  "c \<noteq> [] \<Longrightarrow> n \<noteq> [] \<Longrightarrow> HasNamespaceScope (loadPermissionTree bs) c n \<longleftrightarrow>
     HasClusterScope (loadPermissionTree bs) c
     \<or> (\<exists>b \<in> set bs. bd_role_status b = 1 \<and> grants_namespace c n (role_info b))"
  by (auto simp: HasNamespaceScope_iff tree_scopes role_info_grants)

lemma offered_scope:
  fixes s bs base
  defines "u \<equiv> Some (CurrentUserHandler s bs base)"
  assumes "c \<noteq> []"
  shows "sc_isFullCluster (namespace_scope (Some c) u) \<longleftrightarrow> (\<exists>b \<in> set bs. grants_cluster c (role_info b))"
    and "\<not> sc_isFullCluster (namespace_scope (Some c) u) \<Longrightarrow>
      n \<in> set (sc_fromRoles (namespace_scope (Some c) u)) \<longleftrightarrow> (\<exists>b \<in> set bs. grants_namespace c n (role_info b))"
proof -
  have "pt_admin (loadPermissionTree bs) \<Longrightarrow> \<exists>b \<in> set bs. grants_cluster c (role_info b)"
    using assms(2) by (auto simp: tree_admin tree_scopes role_info_grants)
  then show "sc_isFullCluster (namespace_scope (Some c) u) \<longleftrightarrow> (\<exists>b \<in> set bs. grants_cluster c (role_info b))"
    using assms(2) by (auto simp: u_def namespace_scope_def profile_fields role_loop_full Let_def split: prod.splits
      dest: arg_cong [where f = fst])
  show "n \<in> set (sc_fromRoles (namespace_scope (Some c) u)) \<longleftrightarrow> (\<exists>b \<in> set bs. grants_namespace c n (role_info b))"
    if "\<not> sc_isFullCluster (namespace_scope (Some c) u)"
    using that assms(2) role_loop_names [of c "map role_info bs" "[]"]
    by (auto simp: u_def namespace_scope_def profile_fields Let_def split: prod.splits if_splits)
qed

text \<open>
  C7. The console and the server have the same view of a user: for the profile that the server sends, the
  permission check of the console answers every permission point as the server does; and when all
  roles of the user are enabled, the console offers the full listing of a cluster exactly to users
  with the scope of that cluster, and to the others exactly the namespaces that the server lets them
  use. A disabled role can only make the console offer more.
\<close>

theorem console_agrees_with_server:
  assumes "PermsSlice s (loadPermissionTree bs)" and "c \<noteq> []"
    and "u = Some (CurrentUserHandler s bs base)" and "a = useAllowedNamespaces (Some c) u data fetching"
  shows "(\<forall>code. \<not> starts_with code '':'' \<longrightarrow> hasPerm u code = HasPerm (loadPermissionTree bs) code)
    \<and> (HasClusterScope (loadPermissionTree bs) c \<longrightarrow> an_isFullCluster a)
    \<and> (\<not> an_isFullCluster a \<longrightarrow>
         (\<forall>n. n \<noteq> [] \<and> HasNamespaceScope (loadPermissionTree bs) c n \<longrightarrow> n \<in> set (an_namespaces a)))
    \<and> ((\<forall>b \<in> set bs. bd_role_status b = 1) \<longrightarrow>
         an_isFullCluster a = HasClusterScope (loadPermissionTree bs) c
         \<and> (\<not> an_isFullCluster a \<longrightarrow>
              (\<forall>n. n \<noteq> [] \<longrightarrow> n \<in> set (an_namespaces a) = HasNamespaceScope (loadPermissionTree bs) c n)))"
proof -
  have offered: "an_isFullCluster a = sc_isFullCluster (namespace_scope (Some c) u)"
      "\<not> an_isFullCluster a \<Longrightarrow> an_namespaces a = sc_fromRoles (namespace_scope (Some c) u)"
    by (auto simp: assms(4) useAllowedNamespaces_def Let_def split: if_splits)
  show ?thesis
    using HasPerm_agrees [OF assms(1)] offered offered_scope [OF assms(2), of s bs base] assms(2,3)
    by (auto simp: tree_cluster_scope tree_namespace_scope)
qed

text \<open>The case of a disabled role: the console offers a namespace that the server refuses.\<close>

definition demo_binding :: "int \<Rightarrow> server_scope \<Rightarrow> string list \<Rightarrow> binding" where
  "demo_binding status sc ps =
     \<lparr>bd_role_id = 3, bd_role_code = ''dev'', bd_role_name = ''Developer'', bd_role_status = status,
      bd_role_perms = ps, bd_scope = sc\<rparr>"

definition web_scope :: server_scope where
  "web_scope = \<lparr>sv_type = ScopeNamespace, sv_cluster = ''prod'', sv_namespace = ''web''\<rparr>"

lemma disabled_role_still_offered:
  "an_namespaces (useAllowedNamespaces (Some ''prod'')
     (Some (CurrentUserHandler [] [demo_binding 0 web_scope []] (demo_user []))) None False) = [''web'']"
  "\<not> HasNamespaceScope (loadPermissionTree [demo_binding 0 web_scope []]) ''prod'' ''web''"
  by code_simp+

theorem console_agrees_with_server_witness:
  "hasPerm (Some (CurrentUserHandler [''resource:*''] [demo_binding 1 web_scope [''resource:*'']] (demo_user []))) ''resource:get''
     = HasPerm (loadPermissionTree [demo_binding 1 web_scope [''resource:*'']]) ''resource:get''
   \<and> ''web'' \<in> set (an_namespaces (useAllowedNamespaces (Some ''prod'')
        (Some (CurrentUserHandler [''resource:*''] [demo_binding 1 web_scope [''resource:*'']] (demo_user []))) None False))"
proof -
  let ?bs = "[demo_binding 1 web_scope [''resource:*'']]"
  have "PermsSlice [''resource:*''] (loadPermissionTree ?bs)" by code_simp
  from console_agrees_with_server [OF this _ refl refl, of "''prod''" "demo_user []" None False]
  have "\<forall>code. \<not> starts_with code '':'' \<longrightarrow> hasPerm (Some (CurrentUserHandler [''resource:*''] ?bs (demo_user []))) code
      = HasPerm (loadPermissionTree ?bs) code" by simp
  moreover have "\<not> starts_with ''resource:get'' '':''" by code_simp
  moreover have "''web'' \<in> set (an_namespaces (useAllowedNamespaces (Some ''prod'')
        (Some (CurrentUserHandler [''resource:*''] ?bs (demo_user []))) None False))" by code_simp
  ultimately show ?thesis by blast
qed

end
