(* ===== verification/ServerRoutes.thy ===== *)
theory ServerRoutes
  imports ServerAccess
begin

section \<open>The requests of the console at the server\<close>

text \<open>
  Every request that the service APIs of the console send is served by one route of the server, and
  the permission point that the server asks for is known: the functions \<open>_point\<close> below name it for
  each mutation and query, the lemmas compute it from the tables of \<open>ServerAccess\<close>.
\<close>

definition API_BASE :: string where
  "API_BASE = ''/api/v1''"

subsection \<open>Computing the routes\<close>

text \<open>Paths are compared by their segments.\<close>

fun join_segments :: "char \<Rightarrow> string list \<Rightarrow> string" where
  "join_segments d [] = []"
| "join_segments d [w] = w"
| "join_segments d (w # ws) = w @ d # join_segments d ws"

lemma join_split: "join_segments d (split_on d s) = s"
proof (induction s)
  case (Cons c cs)
  then show ?case by (cases "(d, split_on d cs)" rule: join_segments.cases) auto
qed simp

lemma split_inject: "split_on d s = split_on d t \<longleftrightarrow> s = t"
  by (metis join_split)

lemma map_of_split: "map_of (map (\<lambda>(k, v). (split_on d k, v)) xs) (split_on d k) = map_of xs k"
  by (induction xs) (auto simp: split_inject)

lemma split_prefix: "d \<notin> set s \<Longrightarrow> split_on d p = w # ws \<Longrightarrow> split_on d (s @ p) = (s @ w) # ws"
  by (induction s) auto

definition segments_match :: "string list \<Rightarrow> string list \<Rightarrow> bool" where
  "segments_match pat p = list_all2 (\<lambda>w x. if starts_with w '':'' then x \<noteq> [] else x = w) pat p"

lemma segments_match_simps:
  "segments_match [] p \<longleftrightarrow> p = []"
  "segments_match (w # ws) [] \<longleftrightarrow> False"
  "segments_match ((CHR '':'' # w) # ws) (x # xs) \<longleftrightarrow> x \<noteq> [] \<and> segments_match ws xs"
  "segments_match ([] # ws) (x # xs) \<longleftrightarrow> x = [] \<and> segments_match ws xs"
  "a \<noteq> CHR '':'' \<Longrightarrow> segments_match ((a # w) # ws) (x # xs) \<longleftrightarrow> x = a # w \<and> segments_match ws xs"
  by (auto simp: segments_match_def starts_with_def)

text \<open>The segments after \<open>/api/v1\<close> of all routes, by method.\<close>

definition api_rows :: "(http_method \<times> string list \<times> string option) list" where
  "api_rows =
     [(POST, [''auth'', ''login''], None),
      (POST, [''auth'', ''refresh''], None),
      (GET, [''auth'', ''me''], None),
      (POST, [''auth'', ''logout''], None),
      (GET, [''users''], Some ''user:manage''),
      (POST, [''users''], Some ''user:manage''),
      (PUT, [''users'', '':id''], Some ''user:manage''),
      (PATCH, [''users'', '':id'', ''status''], Some ''user:manage''),
      (POST, [''users'', '':id'', ''reset-password''], Some ''user:manage''),
      (GET, [''users'', '':id'', ''roles''], Some ''user:manage''),
      (POST, [''users'', '':id'', ''roles''], Some ''user:manage''),
      (DELETE, [''users'', '':id'', ''roles''], Some ''user:manage''),
      (GET, [''roles''], Some ''role:manage''),
      (POST, [''roles''], Some ''role:manage''),
      (PUT, [''roles'', '':id''], Some ''role:manage''),
      (DELETE, [''roles'', '':id''], Some ''role:manage''),
      (GET, [''roles'', '':id'', ''permissions''], Some ''role:manage''),
      (POST, [''roles'', '':id'', ''permissions''], Some ''role:manage''),
      (GET, [''permissions''], Some ''role:manage''),
      (GET, [''audit-logs''], Some ''audit:list''),
      (POST, [''clusters''], Some ''cluster:create''),
      (GET, [''clusters''], Some ''cluster:list''),
      (GET, [''clusters'', '':code''], Some ''cluster:list''),
      (PUT, [''clusters'', '':code''], Some ''cluster:update''),
      (DELETE, [''clusters'', '':code''], Some ''cluster:delete''),
      (POST, [''clusters'', '':code'', ''ping''], Some ''cluster:ping''),
      (GET, [''clusters'', '':code'', ''resources'', '':apiVersion'', '':kind''], Some ''resource:list''),
      (GET, [''clusters'', '':code'', ''resources'', '':apiVersion'', '':kind'', '':namespace'', '':name''], Some ''resource:get''),
      (POST, [''clusters'', '':code'', ''resources'', '':apiVersion'', '':kind''], Some ''resource:create''),
      (PUT, [''clusters'', '':code'', ''resources'', '':apiVersion'', '':kind'', '':namespace'', '':name''], Some ''resource:update''),
      (DELETE, [''clusters'', '':code'', ''resources'', '':apiVersion'', '':kind'', '':namespace'', '':name''], Some ''resource:delete''),
      (GET, [''versions''], Some ''version:list''),
      (GET, [''versions'', ''diff''], Some ''version:diff''),
      (POST, [''versions'', ''diff''], Some ''version:diff''),
      (POST, [''versions'', ''rollback''], Some ''version:rollback''),
      (POST, [''clusters'', '':code'', ''backups''], Some ''backup:create''),
      (GET, [''backups''], Some ''backup:list''),
      (GET, [''backups'', '':id''], Some ''backup:list''),
      (GET, [''backups'', '':id'', ''download''], Some ''backup:list''),
      (POST, [''backups'', '':id'', ''restore''], Some ''backup:restore''),
      (DELETE, [''backups'', '':id''], Some ''backup:delete''),
      (GET, [''helm'', ''repos''], Some ''helm:view''),
      (POST, [''helm'', ''repos''], Some ''helm:install''),
      (DELETE, [''helm'', ''repos'', '':name''], Some ''helm:install''),
      (POST, [''helm'', ''repos'', ''update''], Some ''helm:install''),
      (GET, [''helm'', ''charts''], Some ''helm:view''),
      (GET, [''clusters'', '':code'', ''helm'', ''releases''], Some ''helm:view''),
      (POST, [''clusters'', '':code'', ''helm'', ''releases''], Some ''helm:install''),
      (DELETE, [''clusters'', '':code'', ''helm'', ''releases'', '':namespace'', '':name''], Some ''helm:uninstall''),
      (POST, [''clusters'', '':code'', ''helm'', ''releases'', '':namespace'', '':name'', ''rollback''], Some ''helm:rollback''),
      (GET, [''clusters'', '':code'', ''helm'', ''releases'', '':namespace'', '':name'', ''history''], Some ''helm:view''),
      (GET, [''clusters'', '':code'', ''helm'', ''check''], Some ''helm:view''),
      (GET, [''clusters'', '':code'', ''pods'', '':namespace'', '':pod'', ''logs''], Some ''resource:get''),
      (GET, [''ws''], None)]"

lemma routes_split:
  "map (\<lambda>(m, pat, c). (m, split_on CHR ''/'' pat, c)) server_routes =
     map (\<lambda>(m, ws, c). (m, [] # ''api'' # ''v1'' # ws, c)) api_rows"
  by code_simp

lemma routes_POST:
  "map snd (filter (\<lambda>(m, ws, c). m = POST) api_rows) =
     [([''auth'', ''login''], None),
      ([''auth'', ''refresh''], None),
      ([''auth'', ''logout''], None),
      ([''users''], Some ''user:manage''),
      ([''users'', '':id'', ''reset-password''], Some ''user:manage''),
      ([''users'', '':id'', ''roles''], Some ''user:manage''),
      ([''roles''], Some ''role:manage''),
      ([''roles'', '':id'', ''permissions''], Some ''role:manage''),
      ([''clusters''], Some ''cluster:create''),
      ([''clusters'', '':code'', ''ping''], Some ''cluster:ping''),
      ([''clusters'', '':code'', ''resources'', '':apiVersion'', '':kind''], Some ''resource:create''),
      ([''versions'', ''diff''], Some ''version:diff''),
      ([''versions'', ''rollback''], Some ''version:rollback''),
      ([''clusters'', '':code'', ''backups''], Some ''backup:create''),
      ([''backups'', '':id'', ''restore''], Some ''backup:restore''),
      ([''helm'', ''repos''], Some ''helm:install''),
      ([''helm'', ''repos'', ''update''], Some ''helm:install''),
      ([''clusters'', '':code'', ''helm'', ''releases''], Some ''helm:install''),
      ([''clusters'', '':code'', ''helm'', ''releases'', '':namespace'', '':name'', ''rollback''], Some ''helm:rollback'')]"
  by code_simp

lemma routes_GET:
  "map snd (filter (\<lambda>(m, ws, c). m = GET) api_rows) =
     [([''auth'', ''me''], None),
      ([''users''], Some ''user:manage''),
      ([''users'', '':id'', ''roles''], Some ''user:manage''),
      ([''roles''], Some ''role:manage''),
      ([''roles'', '':id'', ''permissions''], Some ''role:manage''),
      ([''permissions''], Some ''role:manage''),
      ([''audit-logs''], Some ''audit:list''),
      ([''clusters''], Some ''cluster:list''),
      ([''clusters'', '':code''], Some ''cluster:list''),
      ([''clusters'', '':code'', ''resources'', '':apiVersion'', '':kind''], Some ''resource:list''),
      ([''clusters'', '':code'', ''resources'', '':apiVersion'', '':kind'', '':namespace'', '':name''], Some ''resource:get''),
      ([''versions''], Some ''version:list''),
      ([''versions'', ''diff''], Some ''version:diff''),
      ([''backups''], Some ''backup:list''),
      ([''backups'', '':id''], Some ''backup:list''),
      ([''backups'', '':id'', ''download''], Some ''backup:list''),
      ([''helm'', ''repos''], Some ''helm:view''),
      ([''helm'', ''charts''], Some ''helm:view''),
      ([''clusters'', '':code'', ''helm'', ''releases''], Some ''helm:view''),
      ([''clusters'', '':code'', ''helm'', ''releases'', '':namespace'', '':name'', ''history''], Some ''helm:view''),
      ([''clusters'', '':code'', ''helm'', ''check''], Some ''helm:view''),
      ([''clusters'', '':code'', ''pods'', '':namespace'', '':pod'', ''logs''], Some ''resource:get''),
      ([''ws''], None)]"
  by code_simp

lemma routes_PUT:
  "map snd (filter (\<lambda>(m, ws, c). m = PUT) api_rows) =
     [([''users'', '':id''], Some ''user:manage''),
      ([''roles'', '':id''], Some ''role:manage''),
      ([''clusters'', '':code''], Some ''cluster:update''),
      ([''clusters'', '':code'', ''resources'', '':apiVersion'', '':kind'', '':namespace'', '':name''], Some ''resource:update'')]"
  by code_simp

lemma routes_PATCH:
  "map snd (filter (\<lambda>(m, ws, c). m = PATCH) api_rows) =
     [([''users'', '':id'', ''status''], Some ''user:manage'')]"
  by code_simp

lemma routes_DELETE:
  "map snd (filter (\<lambda>(m, ws, c). m = DELETE) api_rows) =
     [([''users'', '':id'', ''roles''], Some ''user:manage''),
      ([''roles'', '':id''], Some ''role:manage''),
      ([''clusters'', '':code''], Some ''cluster:delete''),
      ([''clusters'', '':code'', ''resources'', '':apiVersion'', '':kind'', '':namespace'', '':name''], Some ''resource:delete''),
      ([''backups'', '':id''], Some ''backup:delete''),
      ([''helm'', ''repos'', '':name''], Some ''helm:install''),
      ([''clusters'', '':code'', ''helm'', ''releases'', '':namespace'', '':name''], Some ''helm:uninstall'')]"
  by code_simp

text \<open>The table of the middleware in the same form; it agrees with the points that the routes require.\<close>

definition table_rows :: "(http_method \<times> string list \<times> string) list" where
  "table_rows =
     [(GET, [''clusters''], ''cluster:list''),
      (POST, [''clusters''], ''cluster:create''),
      (GET, [''clusters'', '':code''], ''cluster:list''),
      (PUT, [''clusters'', '':code''], ''cluster:update''),
      (DELETE, [''clusters'', '':code''], ''cluster:delete''),
      (POST, [''clusters'', '':code'', ''ping''], ''cluster:ping''),
      (GET, [''clusters'', '':code'', ''resources'', '':apiVersion'', '':kind''], ''resource:list''),
      (GET, [''clusters'', '':code'', ''resources'', '':apiVersion'', '':kind'', '':namespace'', '':name''], ''resource:get''),
      (POST, [''clusters'', '':code'', ''resources'', '':apiVersion'', '':kind''], ''resource:create''),
      (PUT, [''clusters'', '':code'', ''resources'', '':apiVersion'', '':kind'', '':namespace'', '':name''], ''resource:update''),
      (DELETE, [''clusters'', '':code'', ''resources'', '':apiVersion'', '':kind'', '':namespace'', '':name''], ''resource:delete''),
      (GET, [''versions''], ''version:list''),
      (GET, [''versions'', ''diff''], ''version:diff''),
      (POST, [''versions'', ''diff''], ''version:diff''),
      (POST, [''versions'', ''rollback''], ''version:rollback''),
      (POST, [''clusters'', '':code'', ''backups''], ''backup:create''),
      (GET, [''backups''], ''backup:list''),
      (GET, [''backups'', '':id''], ''backup:list''),
      (GET, [''backups'', '':id'', ''download''], ''backup:list''),
      (POST, [''backups'', '':id'', ''restore''], ''backup:restore''),
      (DELETE, [''backups'', '':id''], ''backup:delete''),
      (GET, [''clusters'', '':code'', ''helm'', ''releases''], ''helm:view''),
      (POST, [''clusters'', '':code'', ''helm'', ''releases''], ''helm:install''),
      (DELETE, [''clusters'', '':code'', ''helm'', ''releases'', '':namespace'', '':name''], ''helm:uninstall''),
      (POST, [''clusters'', '':code'', ''helm'', ''releases'', '':namespace'', '':name'', ''rollback''], ''helm:rollback''),
      (GET, [''clusters'', '':code'', ''helm'', ''releases'', '':namespace'', '':name'', ''history''], ''helm:view''),
      (GET, [''clusters'', '':code'', ''helm'', ''check''], ''helm:view''),
      (GET, [''helm'', ''repos''], ''helm:view''),
      (POST, [''helm'', ''repos''], ''helm:install''),
      (DELETE, [''helm'', ''repos'', '':name''], ''helm:install''),
      (POST, [''helm'', ''repos'', ''update''], ''helm:install''),
      (GET, [''helm'', ''charts''], ''helm:view''),
      (GET, [''clusters'', '':code'', ''pods'', '':namespace'', '':pod'', ''logs''], ''resource:get''),
      (GET, [''users''], ''user:manage''),
      (POST, [''users''], ''user:manage''),
      (PUT, [''users'', '':id''], ''user:manage''),
      (PATCH, [''users'', '':id'', ''status''], ''user:manage''),
      (POST, [''users'', '':id'', ''reset-password''], ''user:manage''),
      (GET, [''users'', '':id'', ''roles''], ''user:manage''),
      (POST, [''users'', '':id'', ''roles''], ''user:manage''),
      (DELETE, [''users'', '':id'', ''roles''], ''user:manage''),
      (GET, [''roles''], ''role:manage''),
      (POST, [''roles''], ''role:manage''),
      (PUT, [''roles'', '':id''], ''role:manage''),
      (DELETE, [''roles'', '':id''], ''role:manage''),
      (GET, [''roles'', '':id'', ''permissions''], ''role:manage''),
      (POST, [''roles'', '':id'', ''permissions''], ''role:manage''),
      (GET, [''permissions''], ''role:manage''),
      (GET, [''audit-logs''], ''audit:list'')]"

definition table_key :: "http_method \<Rightarrow> string list \<Rightarrow> string list" where
  "table_key m ws = (show_method m @ '' '') # ''api'' # ''v1'' # ws"

lemma table_key_inject: "table_key m ws = table_key n vs \<longleftrightarrow> m = n \<and> ws = vs"
  by (cases m; cases n) (auto simp: table_key_def show_method_def)

lemma table_split:
  "map (\<lambda>(k, v). (split_on CHR ''/'' k, v)) routePermExact = map (\<lambda>(m, ws, c). (table_key m ws, c)) table_rows"
  by code_simp

lemma map_of_method:
  "map_of (map (\<lambda>(m, ws, c). (table_key m ws, c)) rows) (table_key m ws) =
     map_of (map snd (filter (\<lambda>(m', ws, c). m' = m) rows)) ws"
  by (induction rows) (auto simp: table_key_inject)

lemma resolve_split:
  assumes "split_on CHR ''/'' p = [] # ''api'' # ''v1'' # ws" and "p \<noteq> []"
  shows "resolvePermCode m p =
    (case map_of (map snd (filter (\<lambda>(m', ws, c). m' = m) table_rows)) ws of None \<Rightarrow> [] | Some c \<Rightarrow> c)"
proof -
  have "split_on CHR ''/'' ((show_method m @ '' '') @ p) = table_key m ws"
    unfolding table_key_def by (subst split_prefix [OF _ assms(1)]) (simp_all add: show_method_def split: http_method.split)
  then have "map_of routePermExact ((show_method m @ '' '') @ p) =
      map_of (map (\<lambda>(m, ws, c). (table_key m ws, c)) table_rows) (table_key m ws)"
    by (simp only: map_of_split [where d = "CHR ''/''", symmetric] table_split)
  then show ?thesis using assms(2) by (simp add: resolvePermCode_def map_of_method)
qed

lemma table_GET:
  "map snd (filter (\<lambda>(m, ws, c). m = GET) table_rows) =
     [([''clusters''], ''cluster:list''),
      ([''clusters'', '':code''], ''cluster:list''),
      ([''clusters'', '':code'', ''resources'', '':apiVersion'', '':kind''], ''resource:list''),
      ([''clusters'', '':code'', ''resources'', '':apiVersion'', '':kind'', '':namespace'', '':name''], ''resource:get''),
      ([''versions''], ''version:list''),
      ([''versions'', ''diff''], ''version:diff''),
      ([''backups''], ''backup:list''),
      ([''backups'', '':id''], ''backup:list''),
      ([''backups'', '':id'', ''download''], ''backup:list''),
      ([''clusters'', '':code'', ''helm'', ''releases''], ''helm:view''),
      ([''clusters'', '':code'', ''helm'', ''releases'', '':namespace'', '':name'', ''history''], ''helm:view''),
      ([''clusters'', '':code'', ''helm'', ''check''], ''helm:view''),
      ([''helm'', ''repos''], ''helm:view''),
      ([''helm'', ''charts''], ''helm:view''),
      ([''clusters'', '':code'', ''pods'', '':namespace'', '':pod'', ''logs''], ''resource:get''),
      ([''users''], ''user:manage''),
      ([''users'', '':id'', ''roles''], ''user:manage''),
      ([''roles''], ''role:manage''),
      ([''roles'', '':id'', ''permissions''], ''role:manage''),
      ([''permissions''], ''role:manage''),
      ([''audit-logs''], ''audit:list'')]"
  by code_simp

lemma table_POST:
  "map snd (filter (\<lambda>(m, ws, c). m = POST) table_rows) =
     [([''clusters''], ''cluster:create''),
      ([''clusters'', '':code'', ''ping''], ''cluster:ping''),
      ([''clusters'', '':code'', ''resources'', '':apiVersion'', '':kind''], ''resource:create''),
      ([''versions'', ''diff''], ''version:diff''),
      ([''versions'', ''rollback''], ''version:rollback''),
      ([''clusters'', '':code'', ''backups''], ''backup:create''),
      ([''backups'', '':id'', ''restore''], ''backup:restore''),
      ([''clusters'', '':code'', ''helm'', ''releases''], ''helm:install''),
      ([''clusters'', '':code'', ''helm'', ''releases'', '':namespace'', '':name'', ''rollback''], ''helm:rollback''),
      ([''helm'', ''repos''], ''helm:install''),
      ([''helm'', ''repos'', ''update''], ''helm:install''),
      ([''users''], ''user:manage''),
      ([''users'', '':id'', ''reset-password''], ''user:manage''),
      ([''users'', '':id'', ''roles''], ''user:manage''),
      ([''roles''], ''role:manage''),
      ([''roles'', '':id'', ''permissions''], ''role:manage'')]"
  by code_simp

lemma table_PUT:
  "map snd (filter (\<lambda>(m, ws, c). m = PUT) table_rows) =
     [([''clusters'', '':code''], ''cluster:update''),
      ([''clusters'', '':code'', ''resources'', '':apiVersion'', '':kind'', '':namespace'', '':name''], ''resource:update''),
      ([''users'', '':id''], ''user:manage''),
      ([''roles'', '':id''], ''role:manage'')]"
  by code_simp

lemma table_DELETE:
  "map snd (filter (\<lambda>(m, ws, c). m = DELETE) table_rows) =
     [([''clusters'', '':code''], ''cluster:delete''),
      ([''clusters'', '':code'', ''resources'', '':apiVersion'', '':kind'', '':namespace'', '':name''], ''resource:delete''),
      ([''backups'', '':id''], ''backup:delete''),
      ([''clusters'', '':code'', ''helm'', ''releases'', '':namespace'', '':name''], ''helm:uninstall''),
      ([''helm'', ''repos'', '':name''], ''helm:install''),
      ([''users'', '':id'', ''roles''], ''user:manage''),
      ([''roles'', '':id''], ''role:manage'')]"
  by code_simp

lemma table_PATCH:
  "map snd (filter (\<lambda>(m, ws, c). m = PATCH) table_rows) =
     [([''users'', '':id'', ''status''], ''user:manage'')]"
  by code_simp

lemma table_agrees_GET: "list_all (\<lambda>(ws, c). map_of (map snd (filter (\<lambda>(m', ws, c). m' = GET) table_rows)) ws = c)
    (map snd (filter (\<lambda>(m, ws, c). m = GET) api_rows))"
  by code_simp

lemma table_agrees_others:
  "m \<noteq> GET \<Longrightarrow> list_all (\<lambda>(ws, c). map_of (map snd (filter (\<lambda>(m', ws, c). m' = m) table_rows)) ws = c)
    (map snd (filter (\<lambda>(m', ws, c). m' = m) api_rows))"
  by (cases m) (simp_all add: routes_POST routes_PUT routes_PATCH routes_DELETE table_POST table_PUT table_PATCH table_DELETE)

lemma table_agrees:
  assumes "(m, p, c) \<in> set server_routes"
  shows "resolvePermCode m p = (case c of None \<Rightarrow> [] | Some k \<Rightarrow> k)"
proof -
  have "(m, split_on CHR ''/'' p, c) \<in> set (map (\<lambda>(m, pat, c). (m, split_on CHR ''/'' pat, c)) server_routes)"
    using assms by force
  then obtain ws where row: "(m, ws, c) \<in> set api_rows" and ws: "split_on CHR ''/'' p = [] # ''api'' # ''v1'' # ws"
    unfolding routes_split by auto
  have "(ws, c) \<in> set (map snd (filter (\<lambda>(m', ws, c). m' = m) api_rows))" using row by force
  then have "map_of (map snd (filter (\<lambda>(m', ws, c). m' = m) table_rows)) ws = c"
    using table_agrees_GET table_agrees_others [of m] by (cases "m = GET") (auto simp: list_all_iff)
  moreover have "p \<noteq> []" using ws by auto
  ultimately show ?thesis by (simp add: resolve_split [OF ws])
qed

lemma resolve_at:
  assumes "gin_routes gin" and "matching_routes meth p = [r]"
  shows "resolvePermCode meth (gin_FullPath (gin meth p)) = (case snd (snd r) of None \<Rightarrow> [] | Some k \<Rightarrow> k)"
proof -
  have "r \<in> set (matching_routes meth p)" using assms(2) by simp
  then have "(meth, fst (snd r), snd (snd r)) \<in> set server_routes" by (auto simp: matching_routes_def)
  then have "resolvePermCode meth (fst (snd r)) = (case snd (snd r) of None \<Rightarrow> [] | Some k \<Rightarrow> k)"
    by (rule table_agrees)
  moreover have "gin_FullPath (gin meth p) = fst (snd r)"
    using assms(1) [unfolded gin_routes_def, THEN spec, THEN spec, of meth p] by (simp add: assms(2))
  ultimately show ?thesis by simp
qed

lemma points_split:
  "map (\<lambda>r. snd (snd r)) (matching_routes meth (''/api/v1/'' @ p)) =
     map snd (filter (\<lambda>(ws, c). segments_match ws (split_on CHR ''/'' p)) (map snd (filter (\<lambda>(m, ws, c). m = meth) api_rows)))"
proof -
  let ?sel = "\<lambda>q. \<lambda>(m, ws, c :: string option). m = meth \<and> segments_match ws (split_on CHR ''/'' q)"
  have "map (\<lambda>r. snd (snd r)) (matching_routes meth q) =
      map (\<lambda>(m, ws, c). c) (filter (?sel q) (map (\<lambda>(m, pat, c). (m, split_on CHR ''/'' pat, c)) server_routes))" for q
    by (simp add: matching_routes_def filter_map comp_def path_matches_def segments_match_def case_prod_unfold)
  moreover have "split_on CHR ''/'' (''/api/v1/'' @ p) = [] # ''api'' # ''v1'' # split_on CHR ''/'' p"
    by simp
  then have "map (\<lambda>(m, ws, c). c)
      (filter (?sel (''/api/v1/'' @ p)) (map (\<lambda>(m, ws, c). (m, [] # ''api'' # ''v1'' # ws, c)) rows)) =
      map snd (filter (\<lambda>(ws, c). segments_match ws (split_on CHR ''/'' p)) (map snd (filter (\<lambda>(m, ws, c). m = meth) rows)))"
    for rows
    by (induction rows) (auto simp: segments_match_simps)
  ultimately show ?thesis by (simp only: routes_split)
qed

lemma show_nat_no_slash: "CHR ''/'' \<notin> set (show_nat n)"
  using show_nat_digits [of "CHR ''/''" n] by auto

lemma show_int_segment [simp]: "CHR ''/'' \<notin> set (show_int i)" "show_int i \<noteq> []"
  by (simp_all add: show_int_def show_nat_no_slash)

declare encode_no_slash [simp]

lemma encode_nonempty [simp]: "encodeURIComponent s = [] \<longleftrightarrow> s = []"
  by (cases s) (simp_all add: encodeURIComponent_def enc_char_def)

lemma split_segment [simp]:
  "CHR ''/'' \<notin> set s \<Longrightarrow> split_on CHR ''/'' (s @ CHR ''/'' # t) = s # split_on CHR ''/'' t"
  "CHR ''/'' \<notin> set s \<Longrightarrow> split_on CHR ''/'' s = [s]"
  by (simp_all add: split_on_append split_on_none)

subsection \<open>The points of the requests\<close>

text \<open>
  What the routes that match a request require. A parameter that is missing leaves an empty segment,
  or one segment less, and then no route matches; the cluster API does not encode the code of the
  cluster, the others encode every parameter.
\<close>

definition points_of :: "'d request \<Rightarrow> string option list" where
  "points_of r = map (\<lambda>x. snd (snd x)) (matching_routes (rq_method r) (API_BASE @ rq_url r))"

lemma points_of_request:
  "points_of r = map snd (filter (\<lambda>(ws, c). segments_match ws (split_on CHR ''/'' p))
     (map snd (filter (\<lambda>(m, ws, c). m = rq_method r) api_rows)))"
  if "rq_url r = CHR ''/'' # p"
  using that points_split [of "rq_method r" p] by (simp add: points_of_def API_BASE_def)

lemmas routing = points_of_request routes_GET routes_POST routes_PUT routes_PATCH routes_DELETE
  segments_match_simps send_req_def get_req_def

fun rbac_point :: "rbac_mutation \<Rightarrow> string" where
  "rbac_point (CreateRole b) = ''role:manage''"
| "rbac_point (UpdateRole i b) = ''role:manage''"
| "rbac_point (DeleteRole i) = ''role:manage''"
| "rbac_point (SetRolePermissions i ps) = ''role:manage''"
| "rbac_point m = ''user:manage''"

lemma rbac_routed: "points_of (rbac_mutation_request m) = [Some (rbac_point m)]"
  by (cases m; simp add: routing)

text \<open>The page of users needs the listing of roles, which takes another point than the page.\<close>

fun rbac_query_point :: "rbac_query \<Rightarrow> string" where
  "rbac_query_point (ListUsers ps) = ''user:manage''"
| "rbac_query_point (ListUserRoles i) = ''user:manage''"
| "rbac_query_point (ListAuditLogs ps) = ''audit:list''"
| "rbac_query_point q = ''role:manage''"

lemma rbac_query_routed: "points_of (rbac_query_request q) = [Some (rbac_query_point q)]"
  by (cases q; simp add: routing)

fun cluster_point :: "cluster_mutation \<Rightarrow> string" where
  "cluster_point (ImportCluster d) = ''cluster:create''"
| "cluster_point (UpdateCluster code d) = ''cluster:update''"
| "cluster_point (DeleteCluster code) = ''cluster:delete''"
| "cluster_point (PingCluster code) = ''cluster:ping''"
| "cluster_point (TempPing d) = ''cluster:ping''"

fun cluster_path :: "cluster_mutation \<Rightarrow> string list" where
  "cluster_path (UpdateCluster code d) = [code]"
| "cluster_path (DeleteCluster code) = [code]"
| "cluster_path (PingCluster code) = [code]"
| "cluster_path m = []"

lemma cluster_routed:
  "\<forall>w \<in> set (cluster_path m). CHR ''/'' \<notin> set w \<Longrightarrow>
     points_of (cluster_mutation_request m) = (if [] \<in> set (cluster_path m) then [] else [Some (cluster_point m)])"
  by (cases m; simp add: routing)

fun resource_point :: "resource_mutation \<Rightarrow> string" where
  "resource_point (CreateResource p) = ''resource:create''"
| "resource_point (UpdateResource p y) = ''resource:update''"
| "resource_point (DeleteResource p) = ''resource:delete''"

fun resource_path :: "resource_mutation \<Rightarrow> string list" where
  "resource_path (CreateResource p) = [cr_code p, cr_apiVersion p, cr_kind p]"
| "resource_path (UpdateResource p y) =
     [gr_code p, gr_apiVersion p, gr_kind p, or_str (gr_namespace p) [], gr_name p]"
| "resource_path (DeleteResource p) =
     [gr_code p, gr_apiVersion p, gr_kind p, or_str (gr_namespace p) [], gr_name p]"

lemma resource_routed:
  "points_of (resource_mutation_request m) = (if [] \<in> set (resource_path m) then [] else [Some (resource_point m)])"
  by (cases m; auto simp: routing kind_url_def resource_url_def enc_def truthy_iff or_str_def split: option.split)

text \<open>Reading one resource, and the comparison of two versions.\<close>

lemma get_resource_routed:
  "points_of (resource_query_request (GetResource p)) =
     (if [] \<in> set [gr_code p, gr_apiVersion p, gr_kind p, or_str (gr_namespace p) [], gr_name p] then []
      else [Some ''resource:get''])"
  by (auto simp: routing resource_url_def enc_def truthy_iff or_str_def split: option.split)

lemma version_routed:
  "points_of (version_mutation_request (RollbackVersion t n)) = [Some ''version:rollback'']"
  "points_of (version_query_request (GetVersionDiff t i j)) = [Some ''version:diff'']"
  by (simp_all add: routing)

fun backup_point :: "backup_mutation \<Rightarrow> string" where
  "backup_point (CreateBackup code b) = ''backup:create''"
| "backup_point (RestoreBackup i b) = ''backup:restore''"
| "backup_point (DeleteBackup i) = ''backup:delete''"

fun backup_path :: "backup_mutation \<Rightarrow> string list" where
  "backup_path (CreateBackup code b) = [code]"
| "backup_path m = []"

lemma backup_routed:
  "points_of (backup_mutation_request m) = (if [] \<in> set (backup_path m) then [] else [Some (backup_point m)])"
  by (cases m; simp add: routing)

fun helm_point :: "helm_mutation \<Rightarrow> string" where
  "helm_point (InstallRelease c b) = ''helm:install''"
| "helm_point (UninstallRelease c ns n) = ''helm:uninstall''"
| "helm_point (RollbackRelease c ns n k) = ''helm:rollback''"
| "helm_point m = ''helm:install''"

fun helm_path :: "helm_mutation \<Rightarrow> string list" where
  "helm_path (InstallRelease c b) = [c]"
| "helm_path (UninstallRelease c ns n) = [c, ns, n]"
| "helm_path (RollbackRelease c ns n k) = [c, ns, n]"
| "helm_path (RemoveRepo n) = [n]"
| "helm_path m = []"

lemma helm_routed:
  "points_of (helm_mutation_request m) = (if [] \<in> set (helm_path m) then [] else [Some (helm_point m)])"
  by (cases m; simp add: routing releases_url_def release_url_def)

end
