(* ===== verification/Requests.thy ===== *)
theory Requests
  imports ServerRoutes UsersView RolesView HelmView ReposView BackupView BackupCreateView ClusterView
    ImportView ResourceView ResourceEditView QuotaView CompareView AuditView FrameView PanelView
begin

section \<open>The requests of the console\<close>

text \<open>
  What leaves the pages: \<open>api_request\<close> is a request of one of the service APIs, a mutation, a query, a
  download or the start of a log stream, with its line on the wire and the permission point of the route
  that serves it. The functions \<open>_api\<close> give the requests of a call of a page, as its handler sends
  them, the functions \<open>_queries\<close> those of its query hooks while it is rendered in a state. The requests of
  the session itself, under \<open>/auth\<close>, take no permission and are left out.
\<close>

datatype api_request =
    ReqRbac rbac_mutation
  | ReqCluster cluster_mutation
  | ReqResource resource_mutation
  | ReqRead get_resource_params
  | ReqRollback version_target int
  | ReqDiff version_target int int
  | ReqBackup backup_mutation
  | ReqDownload int
  | ReqHelm helm_mutation
  | ReqLogs string string string "(string \<times> string) list"
  | ReqRbacQuery rbac_query
  | ReqClusters "list_clusters_params option"
  | ReqResources list_resources_params
  | ReqNamespaces string
  | ReqVersions version_target
  | ReqBackups "list_backups_params option"
  | ReqHelmQuery helm_query

text \<open>Method and path of a request, as \<open>request.ts\<close> sends it.\<close>

definition line_of :: "'d request \<Rightarrow> http_method \<times> string" where
  "line_of r = (rq_method r, API_BASE @ rq_url r)"

fun api_line :: "api_request \<Rightarrow> http_method \<times> string" where
  "api_line (ReqRbac m) = line_of (rbac_mutation_request m)"
| "api_line (ReqCluster m) = line_of (cluster_mutation_request m)"
| "api_line (ReqResource m) = line_of (resource_mutation_request m)"
| "api_line (ReqRead p) = line_of (resource_query_request (GetResource p))"
| "api_line (ReqRollback t n) = line_of (version_mutation_request (RollbackVersion t n))"
| "api_line (ReqDiff t i j) = line_of (version_query_request (GetVersionDiff t i j))"
| "api_line (ReqBackup m) = line_of (backup_mutation_request m)"
| "api_line (ReqDownload i) = (GET, API_BASE @ ''/backups/'' @ show_int i @ ''/download'')"
| "api_line (ReqHelm m) = line_of (helm_mutation_request m)"
| "api_line (ReqLogs c n p params) = (GET, API_BASE @ trigger_url c n p)"
| "api_line (ReqRbacQuery q) = line_of (rbac_query_request q)"
| "api_line (ReqClusters ps) = line_of (cluster_query_request (ListClusters ps))"
| "api_line (ReqResources p) = line_of (resource_query_request (ListResources p))"
| "api_line (ReqNamespaces c) = line_of (resource_query_request (ListNamespaces c))"
| "api_line (ReqVersions t) = line_of (version_query_request (ListVersions t))"
| "api_line (ReqBackups ps) = line_of (backup_query_request (ListBackups ps))"
| "api_line (ReqHelmQuery q) = line_of (helm_query_request q)"

text \<open>The point that the server requires, and the parameters of the path.\<close>

fun api_point :: "api_request \<Rightarrow> string" where
  "api_point (ReqRbac m) = rbac_point m"
| "api_point (ReqCluster m) = cluster_point m"
| "api_point (ReqResource m) = resource_point m"
| "api_point (ReqRead p) = ''resource:get''"
| "api_point (ReqRollback t n) = ''version:rollback''"
| "api_point (ReqDiff t i j) = ''version:diff''"
| "api_point (ReqBackup m) = backup_point m"
| "api_point (ReqDownload i) = ''backup:list''"
| "api_point (ReqHelm m) = helm_point m"
| "api_point (ReqLogs c n p params) = ''resource:get''"
| "api_point (ReqRbacQuery q) = rbac_query_point q"
| "api_point (ReqClusters ps) = ''cluster:list''"
| "api_point (ReqResources p) = ''resource:list''"
| "api_point (ReqNamespaces c) = ''resource:list''"
| "api_point (ReqVersions t) = ''version:list''"
| "api_point (ReqBackups ps) = ''backup:list''"
| "api_point (ReqHelmQuery q) = ''helm:view''"

fun helm_query_path :: "helm_query \<Rightarrow> string list" where
  "helm_query_path (ListReleases c ns) = [c]"
| "helm_query_path (ListHistory c ns n) = [c, ns, n]"
| "helm_query_path q = []"

fun api_path :: "api_request \<Rightarrow> string list" where
  "api_path (ReqCluster m) = cluster_path m"
| "api_path (ReqResource m) = resource_path m"
| "api_path (ReqRead p) = [gr_code p, gr_apiVersion p, gr_kind p, or_str (gr_namespace p) [], gr_name p]"
| "api_path (ReqBackup m) = backup_path m"
| "api_path (ReqHelm m) = helm_path m"
| "api_path (ReqLogs c n p params) = [c, n, p]"
| "api_path (ReqResources p) = [lr_code p, lr_apiVersion p, lr_kind p]"
| "api_path (ReqNamespaces c) = [c]"
| "api_path (ReqHelmQuery q) = helm_query_path q"
| "api_path r = []"

text \<open>A request whose path is complete; the cluster API does not encode the code that it puts there.\<close>

definition addressed :: "api_request \<Rightarrow> bool" where
  "addressed r \<longleftrightarrow>
     [] \<notin> set (api_path r)
     \<and> (case r of ReqCluster m \<Rightarrow> \<forall>w \<in> set (cluster_path m). CHR ''/'' \<notin> set w | _ \<Rightarrow> True)"

lemma download_routed:
  "map (\<lambda>x. snd (snd x)) (matching_routes GET (API_BASE @ ''/backups/'' @ show_int i @ ''/download'')) = [Some ''backup:list'']"
  using points_of_request [of "\<lparr>rq_url = ''/backups/'' @ show_int i @ ''/download'', rq_method = GET, rq_params = None, rq_data = None :: unit option\<rparr>"]
  by (simp add: points_of_def routes_GET segments_match_simps)

lemma logs_routed:
  assumes "c \<noteq> []" and "n \<noteq> []" and "p \<noteq> []"
  shows "map (\<lambda>x. snd (snd x)) (matching_routes GET (API_BASE @ trigger_url c n p)) = [Some ''resource:get'']"
  using points_of_request [of "\<lparr>rq_url = trigger_url c n p, rq_method = GET, rq_params = None, rq_data = None :: unit option\<rparr>"] assms
  by (simp add: points_of_def trigger_url_def routes_GET segments_match_simps)

lemma queries_routed:
  "points_of (cluster_query_request (ListClusters ps)) = [Some ''cluster:list'']"
  "[] \<notin> {lr_code p, lr_apiVersion p, lr_kind p} \<Longrightarrow>
     points_of (resource_query_request (ListResources p)) = [Some ''resource:list'']"
  "c \<noteq> [] \<Longrightarrow> points_of (resource_query_request (ListNamespaces c)) = [Some ''resource:list'']"
  "points_of (version_query_request (ListVersions t)) = [Some ''version:list'']"
  "points_of (backup_query_request (ListBackups bs)) = [Some ''backup:list'']"
  by (auto simp: routing kind_url_def enc_def truthy_iff or_str_def split: option.split)

lemma helm_queries_routed:
  "[] \<notin> set (helm_query_path q) \<Longrightarrow> points_of (helm_query_request q) = [Some ''helm:view'']"
  by (cases q; auto simp: routing releases_url_def release_url_def)

lemma api_routed:
  assumes "addressed r"
  shows "map (\<lambda>x. snd (snd x)) (matching_routes (fst (api_line r)) (snd (api_line r))) = [Some (api_point r)]"
  using assms rbac_routed cluster_routed resource_routed get_resource_routed version_routed backup_routed helm_routed
    download_routed logs_routed rbac_query_routed queries_routed helm_queries_routed
  by (cases r) (auto simp: addressed_def line_of_def points_of_def)

text \<open>What the middleware answers to a request.\<close>

definition server_answer :: "permission_tree \<Rightarrow> gin \<Rightarrow> string \<Rightarrow> api_request \<Rightarrow> access_error + unit" where
  "server_answer pt gin header r =
     (case api_line r of (meth, p) \<Rightarrow> RBACMiddleware pt meth (gin meth p) header)"

lemma api_point_nonempty: "api_point r \<noteq> []"
proof (cases r)
  case (ReqRbac m) then show ?thesis by (cases m) simp_all
next
  case (ReqCluster m) then show ?thesis by (cases m) simp_all
next
  case (ReqResource m) then show ?thesis by (cases m) simp_all
next
  case (ReqBackup m) then show ?thesis by (cases m) simp_all
next
  case (ReqHelm m) then show ?thesis by (cases m) simp_all
next
  case (ReqRbacQuery q) then show ?thesis by (cases q) simp_all
qed simp_all

lemma server_answer_point:
  assumes "gin_routes gin" and "addressed r"
  shows "server_answer pt gin header r = Inl e \<Longrightarrow>
      (\<exists>c. e = ScopeDenied c) \<or> e = MissingPerm (api_point r) \<and> \<not> HasPerm pt (api_point r)"
    and "\<not> HasPerm pt (api_point r) \<Longrightarrow> server_answer pt gin header r = Inl (MissingPerm (api_point r))"
proof -
  obtain meth p where line: "api_line r = (meth, p)" by (cases "api_line r")
  obtain x where "matching_routes meth p = [x]" "snd (snd x) = Some (api_point r)"
    using api_routed [OF assms(2)] by (auto simp: line)
  then have "resolvePermCode meth (gin_FullPath (gin meth p)) = api_point r"
    using resolve_at [OF assms(1)] by simp
  then show "server_answer pt gin header r = Inl e \<Longrightarrow>
      (\<exists>c. e = ScopeDenied c) \<or> e = MissingPerm (api_point r) \<and> \<not> HasPerm pt (api_point r)"
    "\<not> HasPerm pt (api_point r) \<Longrightarrow> server_answer pt gin header r = Inl (MissingPerm (api_point r))"
    using api_point_nonempty [of r]
    by (auto simp: server_answer_def line RBACMiddleware_def RequireAnyClusterAccess_def Let_def
        split: if_splits prod.splits)
qed

subsection \<open>The requests of the calls\<close>

text \<open>
  A call of a page machine stands for the request that its handler sends; the functions take it from
  the handler itself, with the same arguments as the machine.
\<close>

definition users_api :: "(string \<Rightarrow> bool) \<Rightarrow> users_call \<Rightarrow> api_request list" where
  "users_api is_email c = map ReqRbac
     (case c of
        users_call.CallCreate b \<Rightarrow> sends (user_handleCreate is_email b None)
      | users_call.CallUpdate r b \<Rightarrow> sends (snd (handleEdit is_email (Some r, b) False))
      | CallStatus r \<Rightarrow> sends (handleToggleStatus r False)
      | CallReset r pwd \<Rightarrow> sends (snd (reset_confirm r pwd False))
      | CallBind n r f \<Rightarrow> sends (snd (handleBind (us_id r) f False))
      | CallUnbind r ur \<Rightarrow> sends (handleUnbind (us_id r) ur False))"

definition roles_api :: "roles_call \<Rightarrow> api_request list" where
  "roles_api c = map ReqRbac
     (case c of
        CallCreateRole b \<Rightarrow> sends (role_handleCreate b None)
      | CallEditRole n r b \<Rightarrow> sends (snd (role_handleEdit (Some r, b) False))
      | CallRoleStatus n r \<Rightarrow> sends (role_handleToggleStatus r False)
      | CallDeleteRole r \<Rightarrow> sends (role_handleDelete r False)
      | CallSavePerms n r dr \<Rightarrow> sends (perms_handleSave (ro_id r) dr False))"

definition helm_api :: "helm_perms \<Rightarrow> helm_call \<Rightarrow> api_request list" where
  "helm_api p c = map ReqHelm
     (case c of
        CallInstall pg dr \<Rightarrow> sends (snd (handleInstallConfirm pg dr False))
      | CallUninstall pg r \<Rightarrow> sends (handleUninstall p pg r False)
      | CallRollback pg r n \<Rightarrow> sends (helm_handleRollback p pg r n False))"

definition repos_api :: "(string \<Rightarrow> bool) \<Rightarrow> current_user option \<Rightarrow> repos_call \<Rightarrow> api_request list" where
  "repos_api is_url u c = map ReqHelm
     (case c of
        CallAddRepo f \<Rightarrow> sends (snd (handleAdd is_url f False))
      | CallUpdateRepos n \<Rightarrow> sends (handleUpdate n False)
      | CallRemoveRepo n \<Rightarrow> sends (confirm_remove u n False))"

definition backups_api :: "backup_perms \<Rightarrow> backups_call \<Rightarrow> api_request list" where
  "backups_api p c =
     (case c of
        CallRestore rd \<Rightarrow> map ReqBackup (sends (snd (handleConfirmRestore p rd None)))
      | CallDownload r \<Rightarrow> map (\<lambda>d. ReqDownload (bk_id r)) (sends (backup_handleDownload p r False))
      | backups_call.CallDelete r \<Rightarrow> map ReqBackup (sends (backup_confirm_delete p r False)))"

definition create_api :: "create_call \<Rightarrow> api_request list" where
  "create_api v = map (\<lambda>(code, body). ReqBackup (CreateBackup code body))
     (sends (map submit_page_effect (backup_handleSubmit v False)))"

definition clusters_api ::
  "(string \<Rightarrow> bool) \<Rightarrow> current_user option \<Rightarrow> 'l clusters_call \<Rightarrow> api_request list" where
  "clusters_api json_ok u c = map ReqCluster
     (case c of
        CallPing code \<Rightarrow> [PingCluster code]
      | CallTest dr \<Rightarrow> sends (snd (handleEditPing dr None))
      | clusters_call.CallUpdate dr \<Rightarrow> sends (snd (handleSave json_ok u (edit_form_valid json_ok dr) dr False))
      | CallDeleteCluster selected code \<Rightarrow> sends (confirm_delete selected code False))"

definition import_api :: "import_call \<Rightarrow> api_request list" where
  "import_api c = map ReqCluster
     (case c of
        CallConnect kc \<Rightarrow> [TempPing (Some kc)]
      | CallImport v st \<Rightarrow> sends (import_handleSubmit v st False))"

definition resources_api :: "res_perms \<Rightarrow> resources_call \<Rightarrow> api_request list" where
  "resources_api p c = map ReqResource
     (case c of
        CallCreateResource pg yaml \<Rightarrow>
          sends (snd (handleCreateConfirm pg \<lparr>cd_open = True, cd_yaml = yaml\<rparr> False))
      | CallDeleteResource pg item \<Rightarrow> sends (res_delete p pg item False))"

definition edit_api :: "edit_env \<Rightarrow> edit_perms \<Rightarrow> edit_call \<Rightarrow> api_request list" where
  "edit_api env p c =
     (let t = ee_target env
      in case c of
        CallSave y \<Rightarrow> [ReqResource (UpdateResource t (yamlToSend (ee_stringify env) (ee_load env) y))]
      | CallRemove \<Rightarrow> map ReqResource (sends (edit_handleDelete p t False))
      | CallRollbackTo seq \<Rightarrow> [ReqRollback (version_of t) seq]
      | CallDiff pair \<Rightarrow> [ReqDiff (version_of t) (fst pair) (snd pair)])"

definition quota_api :: "quota_call \<Rightarrow> api_request list" where
  "quota_api c = map ReqResource
     (case c of
        quota_call.CallCreate k n cc yaml \<Rightarrow>
          sends (map quota_effect (snd (handleCreate k cc False \<lparr>createOpen = True, createYaml = yaml\<rparr>)))
      | quota_call.CallDelete k cc ns name \<Rightarrow> sends (map quota_effect (deleteItem k cc True ns name False)))"

definition compare_api :: "compare_call \<Rightarrow> api_request list" where
  "compare_api c = [ReqRead (fst c), ReqRead (snd c)]"

text \<open>
  The viewer in the log drawer of the list of resources, with the properties that its markup gives;
  \<open>height\<close> is \<open>window.innerHeight\<close>.
\<close>

definition viewer_of_drawer :: "int \<Rightarrow> pod_drawer \<Rightarrow> viewer_props" where
  "viewer_of_drawer height d =
     (viewer_defaults (pd_clusterCode d) (pd_namespace d) (pd_name d) (pd_containerName d))
       \<lparr>vp_height := max 480 (height - 220)\<rparr>"

text \<open>The viewer sends the names of its Pod and the parameters that \<open>triggerStream\<close> puts together.\<close>

definition viewer_api :: "viewer_props \<Rightarrow> viewer_call \<Rightarrow> api_request list" where
  "viewer_api vp m =
     (case m of CallTrigger url params \<Rightarrow> [ReqLogs (vp_clusterCode vp) (vp_namespace vp) (vp_podName vp) params])"

subsection \<open>The queries of the pages\<close>

text \<open>
  The queries that the hooks of RTK Query send while a component is rendered in a state: the arguments
  and the \<open>skip\<close> of each hook, for the user of the session. A query is sent again by its \<open>refetch\<close>,
  by a new mount and when one of its tags is invalidated, always with the arguments of the rendering.
\<close>

definition namespaces_query :: "string option \<Rightarrow> current_user option \<Rightarrow> api_request list" where
  "namespaces_query code u = (if skip_namespaces code u then [] else [ReqNamespaces (or_str code [])])"

definition frame_queries :: "user_state \<Rightarrow> api_request list" where
  "frame_queries us = (if truthy (token us) then [ReqClusters None] else [])"

definition dashboard_queries :: "user_state \<Rightarrow> api_request list" where
  "dashboard_queries us = (if truthy (token us) then [ReqClusters None] else [])"

definition all_roles :: list_params where
  "all_roles = \<lparr>lp_page = Some 1, lp_page_size = Some 200, lp_keyword = None, lp_status = None\<rparr>"

definition user_drawer_queries :: "user \<Rightarrow> api_request list" where
  "user_drawer_queries r =
     [ReqRbacQuery (ListUserRoles (us_id r)), ReqRbacQuery (ListRoles (Some all_roles)), ReqClusters None]"

definition users_queries :: "current_user option \<Rightarrow> users_state \<Rightarrow> api_request list" where
  "users_queries u s =
     (if hasPerm u ''user:manage'' then [ReqRbacQuery (ListUsers (Some (uz_filters s)))] else []) @
     (case uz_rolesUser s of None \<Rightarrow> [] | Some r \<Rightarrow> user_drawer_queries r)"

definition role_drawer_queries :: "role \<Rightarrow> api_request list" where
  "role_drawer_queries r = [ReqRbacQuery (ListPermissions None), ReqRbacQuery (GetRolePermissions (ro_id r))]"

definition roles_queries :: "current_user option \<Rightarrow> roles_state \<Rightarrow> api_request list" where
  "roles_queries u s =
     (if hasPerm u ''role:manage'' then [ReqRbacQuery (ListRoles (Some (rz_filters s)))] else []) @
     (case rz_permsRole s of None \<Rightarrow> [] | Some r \<Rightarrow> role_drawer_queries r)"

definition audit_queries :: "current_user option \<Rightarrow> audit_state \<Rightarrow> api_request list" where
  "audit_queries u s = (if audit_skip u then [] else [ReqRbacQuery (ListAuditLogs (Some (az_filters s)))])"

definition clusters_queries :: "'l clusters_state \<Rightarrow> api_request list" where
  "clusters_queries s =
     (let q = kz_query s
      in [ReqClusters (Some \<lparr>lc_keyword = Some (cq_keyword q), lc_page = Some (cq_page q), lc_size = Some (cq_size q)\<rparr>)])"

definition resources_queries :: "current_user option \<Rightarrow> resources_data \<Rightarrow> resources_state \<Rightarrow> api_request list" where
  "resources_queries u d s =
     (let pg = sz_page s
      in namespaces_query (if page_scoped pg then None else rl_clusterCode pg) u @
         (if res_list_skip (rp_view (res_list_perms u)) (page_scoped pg) (an_isFullCluster (page_namespaces u d pg)) pg
          then [] else [ReqResources (res_list_request pg)]))"

definition edit_queries :: "edit_env \<Rightarrow> api_request list" where
  "edit_queries env =
     (let t = ee_target env in if edit_skip t then [] else [ReqRead t, ReqVersions (version_of t)])"

definition quota_queries :: "current_user option \<Rightarrow> quota_data \<Rightarrow> quota_state \<Rightarrow> api_request list" where
  "quota_queries u d s =
     namespaces_query (qd_cluster d) u @
     (if \<not> truthy (qd_cluster d) then []
      else concat (map (\<lambda>k.
             if list_skip (fst (quota_permissions u)) (the (qd_cluster d)) (qz_namespace s) then []
             else [ReqResources (list_request k (the (qd_cluster d)) (qz_namespace s))])
             [ResourceQuotaKind, LimitRangeKind]))"

definition every_cluster :: list_clusters_params where
  "every_cluster = \<lparr>lc_keyword = None, lc_page = Some 1, lc_size = Some 200\<rparr>"

definition backups_queries :: "current_user option \<Rightarrow> backups_state \<Rightarrow> api_request list" where
  "backups_queries u s =
     ReqClusters (Some every_cluster) #
     (if bp_view (backup_list_perms u) then [ReqBackups (Some (bz_filters s))] else [])"

definition create_queries :: "current_user option \<Rightarrow> create_form_values \<Rightarrow> api_request list" where
  "create_queries u v = ReqClusters None # namespaces_query (Some (fv_code v)) u"

definition compare_queries :: "current_user option \<Rightarrow> compare_page_state \<Rightarrow> api_request list" where
  "compare_queries u s =
     (let f = oz_form s;
          side = (\<lambda>code ns. if can_list (Some code) (Some (cf_kind f)) (Some ns)
                            then [ReqResources (side_request (Some code) (Some (cf_kind f)) (Some ns))] else [])
      in ReqClusters None # namespaces_query (Some (leftCluster f)) u @ namespaces_query (Some (rightCluster f)) u @
         side (leftCluster f) (leftNamespace f) @ side (rightCluster f) (rightNamespace f))"

definition pods_queries :: "current_user option \<Rightarrow> pod_selection \<Rightarrow> api_request list" where
  "pods_queries u s =
     ReqClusters None # namespaces_query (Some (ps_cluster s)) u @
     (if pods_skip s then [] else [ReqResources (pods_request s)])"

definition helm_queries :: "current_user option \<Rightarrow> hlist_data \<Rightarrow> helm_state \<Rightarrow> api_request list" where
  "helm_queries u d s =
     (let pg = hz_page s
      in ReqClusters None # namespaces_query (hl_clusterCode pg) u @
         (if helm_list_skip (helm_list_perms u) (hd_full d) pg then [] else [ReqHelmQuery (helm_list_query pg)]) @
         (case history_query (or_str (hl_clusterCode pg) []) (hz_historyRecord s) of
            None \<Rightarrow> [] | Some q \<Rightarrow> [ReqHelmQuery q]))"

definition repos_queries :: "current_user option \<Rightarrow> repos_data \<Rightarrow> repos_state \<Rightarrow> api_request list" where
  "repos_queries u d s =
     (if repos_skip u then [] else [ReqHelmQuery ListRepos]) @
     (if charts_skip u (case xd_repos d of None \<Rightarrow> [] | Some rs \<Rightarrow> rs) then []
      else [ReqHelmQuery (repos_chart_query s)])"

end
