(* ===== verification/Console.thy ===== *)
theory Console
  imports Requests
begin

section \<open>A session of the console at the server\<close>

text \<open>
  The parts together: a user opens pages through the guards of the router, every page runs as its
  machine says, and what the pages send, their actions and their queries, arrives at the access control of
  the server. \<open>console_points\<close> is what the console has asked for when a request leaves it, and
  \<open>console_reach\<close> is the log of all requests of a session.
\<close>

subsection \<open>What the console asks for\<close>

text \<open>
  The points of which the console asks for one before it sends a request: the same point as the server,
  but for nine requests. It asks for none before it lists the clusters, for the frame of every page, and
  the namespaces of a cluster.
\<close>

fun console_points :: "api_request \<Rightarrow> string list" where
  "console_points (ReqCluster (TempPing d)) = [''cluster:ping'', ''cluster:create'']"
| "console_points (ReqRollback t n) = [''version:rollback'', ''resource:update'']"
| "console_points (ReqDiff t i j) = [''resource:get'']"
| "console_points (ReqLogs c n p params) = [''resource:get'', ''resource:list'']"
| "console_points (ReqRbacQuery (ListRoles ps)) = [''role:manage'', ''user:manage'']"
| "console_points (ReqClusters ps) = []"
| "console_points (ReqNamespaces c) = []"
| "console_points (ReqResources p) = [''resource:get'', ''resource:list'']"
| "console_points (ReqVersions t) = [''resource:get'']"
| "console_points r = [api_point r]"

definition lenient :: "api_request \<Rightarrow> bool" where
  "lenient r \<longleftrightarrow>
     (case r of ReqCluster (TempPing d) \<Rightarrow> True | ReqRollback t n \<Rightarrow> True | ReqDiff t i j \<Rightarrow> True
      | ReqLogs c n p params \<Rightarrow> True | ReqRbacQuery (ListRoles ps) \<Rightarrow> True | ReqClusters ps \<Rightarrow> True
      | ReqNamespaces c \<Rightarrow> True | ReqResources p \<Rightarrow> True | ReqVersions t \<Rightarrow> True | _ \<Rightarrow> False)"

text \<open>A request of a user who holds one of the points, or of which none is asked.\<close>

definition granted :: "current_user option \<Rightarrow> api_request \<Rightarrow> bool" where
  "granted u r \<longleftrightarrow> console_points r = [] \<or> hasAnyPerm u (console_points r)"

lemma console_points_strict: "\<not> lenient r \<Longrightarrow> console_points r = [api_point r]"
  by (cases r rule: console_points.cases) (auto simp: lenient_def)

lemma hasAny_one: "hasAnyPerm u [c] = hasPerm u c"
  by (auto simp: hasAnyPerm_def hasPerm_def)

lemma users_granted: "can_manage_users u \<Longrightarrow> r \<in> set (users_api is_email c) \<Longrightarrow> hasAnyPerm u (console_points r)"
  by (cases c) (auto simp: users_api_def can_manage_users_def hasAny_one user_handleCreate_def handleEdit_def
      handleToggleStatus_def reset_confirm_def handleBind_def handleUnbind_def Let_def split: if_splits option.splits)

lemma roles_granted: "can_manage_roles u \<Longrightarrow> r \<in> set (roles_api c) \<Longrightarrow> hasAnyPerm u (console_points r)"
  by (cases c) (auto simp: roles_api_def can_manage_roles_def hasAny_one role_handleCreate_def role_handleEdit_def
      role_handleToggleStatus_def role_handleDelete_def perms_handleSave_def Let_def split: if_splits option.splits)

lemma helm_granted:
  "helm_call_ok (helm_list_perms u) c \<Longrightarrow> r \<in> set (helm_api p c) \<Longrightarrow> hasAnyPerm u (console_points r)"
  by (cases c) (auto simp: helm_api_def helm_call_ok_def helm_list_perms_def hasAny_one handleInstallConfirm_def
      handleUninstall_def helm_handleRollback_def Let_def split: if_splits option.splits)

lemma repos_granted:
  "repos_call_ok is_url u c \<Longrightarrow> r \<in> set (repos_api is_url u c) \<Longrightarrow> hasAnyPerm u (console_points r)"
  by (cases c) (auto simp: repos_api_def repos_call_ok_def hasAny_one handleAdd_def handleUpdate_def
      confirm_remove_def Let_def split: if_splits option.splits)

lemma backups_granted:
  "backups_call_ok (backup_list_perms u) c \<Longrightarrow> r \<in> set (backups_api p c) \<Longrightarrow> hasAnyPerm u (console_points r)"
  by (cases c) (auto simp: backups_api_def backups_call_ok_def backup_list_perms_def hasAny_one
      handleConfirmRestore_def backup_confirm_delete_def Let_def split: if_splits option.splits)

lemma create_granted: "hasPerm u ''backup:create'' \<Longrightarrow> r \<in> set (create_api v) \<Longrightarrow> hasAnyPerm u (console_points r)"
  by (auto simp: create_api_def hasAny_one submit_sends split: sum.splits)

lemma clusters_granted:
  "clusters_call_ok json_ok u c \<Longrightarrow> r \<in> set (clusters_api json_ok u c) \<Longrightarrow> hasAnyPerm u (console_points r)"
  by (cases c) (auto simp: clusters_api_def clusters_call_ok_def hasAny_one hasAnyPerm_def handleEditPing_def
      handleSave_def confirm_delete_def Let_def split: if_splits option.splits sum.splits prod.splits)

lemma import_granted:
  "hasPerm u ''cluster:create'' \<Longrightarrow> r \<in> set (import_api c) \<Longrightarrow> hasAnyPerm u (console_points r)"
  by (cases c) (auto simp: import_api_def hasAny_one hasAnyPerm_def import_handleSubmit_def Let_def
      split: if_splits option.splits)

lemma resources_granted:
  "resources_call_ok (res_list_perms u) c \<Longrightarrow> r \<in> set (resources_api p c) \<Longrightarrow> hasAnyPerm u (console_points r)"
  by (cases c) (auto simp: resources_api_def resources_call_ok_def res_list_perms_def hasAny_one
      handleCreateConfirm_def res_delete_def Let_def split: if_splits option.splits)

lemma edit_granted:
  "edit_call_ok (edit_page_perms u) c \<Longrightarrow> hasPerm u ''resource:get'' \<Longrightarrow> r \<in> set (edit_api env p c)
    \<Longrightarrow> hasAnyPerm u (console_points r)"
  by (cases c) (auto simp: edit_api_def edit_call_ok_def edit_page_perms_def hasAny_one hasAnyPerm_def
      edit_handleDelete_def Let_def split: if_splits)

lemma quota_granted:
  "quota_call_ok (quota_permissions u) c \<Longrightarrow> r \<in> set (quota_api c) \<Longrightarrow> hasAnyPerm u (console_points r)"
  by (cases c) (auto simp: quota_api_def quota_call_ok_def quota_permissions_def hasAny_one handleCreate_def
      deleteItem_def quota_effect_def Let_def split: if_splits)

lemma viewer_granted:
  "hasAnyPerm u [''resource:get'', ''resource:list''] \<Longrightarrow> r \<in> set (viewer_api vp m) \<Longrightarrow> hasAnyPerm u (console_points r)"
  by (cases m) (simp add: viewer_api_def)

lemma compare_granted: "hasPerm u ''resource:get'' \<Longrightarrow> r \<in> set (compare_api c) \<Longrightarrow> hasAnyPerm u (console_points r)"
  by (auto simp: compare_api_def hasAny_one)

text \<open>The queries: with the guard of the page, and the \<open>skip\<close> of the hook where it has one.\<close>

lemma unchecked_granted:
  "r \<in> set (namespaces_query code u) \<Longrightarrow> granted v r" "r \<in> set (frame_queries us) \<Longrightarrow> granted v r"
  "r \<in> set (dashboard_queries us) \<Longrightarrow> granted v r" "r \<in> set (clusters_queries s) \<Longrightarrow> granted v r"
  "r \<in> set (create_queries u w) \<Longrightarrow> granted v r"
  by (auto simp: namespaces_query_def frame_queries_def dashboard_queries_def clusters_queries_def create_queries_def
      granted_def Let_def split: if_splits)

lemma rbac_queries_granted:
  "hasPerm u ''user:manage'' \<Longrightarrow> r \<in> set (users_queries u s) \<Longrightarrow> granted u r"
  "hasPerm u ''role:manage'' \<Longrightarrow> r \<in> set (roles_queries u t) \<Longrightarrow> granted u r"
  "r \<in> set (audit_queries u z) \<Longrightarrow> granted u r"
  by (auto simp: users_queries_def user_drawer_queries_def roles_queries_def role_drawer_queries_def audit_queries_def audit_skip_def granted_def hasAny_one
      hasAnyPerm_def split: if_splits option.splits)

lemma resource_queries_granted:
  "hasPerm u ''resource:list'' \<Longrightarrow> r \<in> set (resources_queries u d s) \<Longrightarrow> granted u r"
  "hasPerm u ''resource:get'' \<Longrightarrow> r \<in> set (edit_queries env) \<Longrightarrow> granted u r"
  "r \<in> set (quota_queries u qd qs) \<Longrightarrow> granted u r"
  "hasPerm u ''resource:get'' \<Longrightarrow> r \<in> set (compare_queries u cs) \<Longrightarrow> granted u r"
  "hasAnyPerm u [''resource:get'', ''resource:list''] \<Longrightarrow> r \<in> set (pods_queries u ps) \<Longrightarrow> granted u r"
  by (auto simp: resources_queries_def edit_queries_def quota_queries_def compare_queries_def pods_queries_def
      namespaces_query_def quota_permissions_def list_skip_def granted_def hasAnyPerm_def hasAny_one Let_def
      split: if_splits)

lemma other_queries_granted:
  "hasPerm u ''helm:view'' \<Longrightarrow> r \<in> set (helm_queries u d s) \<Longrightarrow> granted u r"
  "r \<in> set (repos_queries u rd rs) \<Longrightarrow> granted u r"
  "r \<in> set (backups_queries u bs) \<Longrightarrow> granted u r"
  by (auto simp: helm_queries_def repos_queries_def backups_queries_def namespaces_query_def repos_skip_def charts_skip_def
      backup_list_perms_def history_query_def granted_def hasAny_one Let_def split: if_splits option.splits)

subsection \<open>The session\<close>

text \<open>
  The guard of the router shows a page; then the page runs until the user leaves it, when the log of its
  actions is appended. In every state that a page reaches, its hooks send their queries, any number of
  times; so does the frame around the pages. What the environment supplies, formats, replies, query results, may differ in each run.
  The labels of a cluster do not matter here, their type is \<open>unit\<close>.
\<close>

inductive console_reach :: "user_state \<Rightarrow> api_request list \<Rightarrow> bool" for us where
  start: "console_reach us []"
| users: "console_reach us rs \<Longrightarrow> visit us p = ShowPage UserList \<Longrightarrow> u = currentUser us
    \<Longrightarrow> page_reach (users_page fmt is_email u) st flight tr
    \<Longrightarrow> console_reach us (rs @ concat (map (users_api is_email) (sends tr)))"
| roles: "console_reach us rs \<Longrightarrow> visit us p = ShowPage RoleList \<Longrightarrow> u = currentUser us
    \<Longrightarrow> page_reach (roles_page fmt tree u) st flight tr
    \<Longrightarrow> console_reach us (rs @ concat (map (roles_api) (sends tr)))"
| helm: "console_reach us rs \<Longrightarrow> visit us p = ShowPage HelmList \<Longrightarrow> u = currentUser us
    \<Longrightarrow> page_reach (helm_releases_page F get selected u) st flight tr
    \<Longrightarrow> console_reach us (rs @ concat (map (helm_api (helm_list_perms u)) (sends tr)))"
| repos: "console_reach us rs \<Longrightarrow> visit us p = ShowPage HelmRepos \<Longrightarrow> u = currentUser us
    \<Longrightarrow> page_reach (repos_page is_url u) st flight tr
    \<Longrightarrow> console_reach us (rs @ concat (map (repos_api is_url u) (sends tr)))"
| backups: "console_reach us rs \<Longrightarrow> visit us p = ShowPage BackupList \<Longrightarrow> u = currentUser us
    \<Longrightarrow> page_reach (backups_page fmt fmt_short get u) st flight tr
    \<Longrightarrow> console_reach us (rs @ concat (map (backups_api (backup_list_perms u)) (sends tr)))"
| create: "console_reach us rs \<Longrightarrow> visit us p = ShowPage BackupCreate \<Longrightarrow> u = currentUser us
    \<Longrightarrow> page_reach (create_page get selected) st flight tr
    \<Longrightarrow> console_reach us (rs @ concat (map (create_api) (sends tr)))"
| clusters: "console_reach us rs \<Longrightarrow> visit us p = ShowPage ClusterList \<Longrightarrow> u = currentUser us
    \<Longrightarrow> page_reach (clusters_page fmt json_ok get u :: (unit clusters_data, unit clusters_state, unit clusters_action, unit clusters_call, ping_response option) machine) st flight tr
    \<Longrightarrow> console_reach us (rs @ concat (map (clusters_api json_ok u) (sends tr)))"
| import: "console_reach us rs \<Longrightarrow> visit us p = ShowPage ClusterImport \<Longrightarrow> u = currentUser us
    \<Longrightarrow> page_reach (import_page json_ok) st flight tr
    \<Longrightarrow> console_reach us (rs @ concat (map (import_api) (sends tr)))"
| resources: "console_reach us rs \<Longrightarrow> visit us p = ShowPage ResourceList \<Longrightarrow> u = currentUser us
    \<Longrightarrow> page_reach (resources_page ago fmt get selected u) st flight tr
    \<Longrightarrow> console_reach us (rs @ concat (map (resources_api (res_list_perms u)) (sends tr)))"
| edit: "console_reach us rs \<Longrightarrow> visit us p = ShowPage ResourceEdit \<Longrightarrow> u = currentUser us
    \<Longrightarrow> page_reach (edit_page env get u) st flight tr
    \<Longrightarrow> console_reach us (rs @ concat (map (edit_api env (edit_page_perms u)) (sends tr)))"
| quota: "console_reach us rs \<Longrightarrow> visit us p = ShowPage QuotaManagement \<Longrightarrow> u = currentUser us
    \<Longrightarrow> page_reach (quota_page ago u) st flight tr
    \<Longrightarrow> console_reach us (rs @ concat (map (quota_api) (sends tr)))"
| compare: "console_reach us rs \<Longrightarrow> visit us p = ShowPage ClusterCompare \<Longrightarrow> u = currentUser us
    \<Longrightarrow> page_reach (compare_page leq yaml) st flight tr
    \<Longrightarrow> console_reach us (rs @ concat (map (compare_api) (sends tr)))"
| logs: "console_reach us rs \<Longrightarrow> visit us p = ShowPage PodLogsPage \<Longrightarrow> u = currentUser us
    \<Longrightarrow> page_reach (pods_page get selected) sel [] moves \<Longrightarrow> shows_viewer sel
    \<Longrightarrow> vp = viewer_of sel \<Longrightarrow> page_reach (viewer_machine vp) st flight tr
    \<Longrightarrow> console_reach us (rs @ concat (map (viewer_api vp) (sends tr)))"
| drawer: "console_reach us rs \<Longrightarrow> visit us p = ShowPage ResourceList \<Longrightarrow> u = currentUser us
    \<Longrightarrow> page_reach (resources_page ago fmt get selected u) st flight tr \<Longrightarrow> sz_pod st = Some pod
    \<Longrightarrow> vp = viewer_of_drawer height pod \<Longrightarrow> page_reach (viewer_machine vp) sv fv tv
    \<Longrightarrow> console_reach us (rs @ concat (map (viewer_api vp) (sends tv)))"
| in_frame: "console_reach us rs \<Longrightarrow> console_reach us (rs @ frame_queries us)"
| in_dashboard: "console_reach us rs \<Longrightarrow> visit us p = ShowPage Dashboard \<Longrightarrow> console_reach us (rs @ dashboard_queries us)"
| in_users: "console_reach us rs \<Longrightarrow> visit us p = ShowPage UserList \<Longrightarrow> u = currentUser us
    \<Longrightarrow> page_reach (users_page fmt is_email u) st flight tr \<Longrightarrow> console_reach us (rs @ users_queries u st)"
| in_roles: "console_reach us rs \<Longrightarrow> visit us p = ShowPage RoleList \<Longrightarrow> u = currentUser us
    \<Longrightarrow> page_reach (roles_page fmt tree u) st flight tr \<Longrightarrow> console_reach us (rs @ roles_queries u st)"
| in_audit: "console_reach us rs \<Longrightarrow> visit us p = ShowPage AuditLogList \<Longrightarrow> u = currentUser us
    \<Longrightarrow> page_reach (audit_page fmt stringify u) st flight tr \<Longrightarrow> console_reach us (rs @ audit_queries u st)"
| in_helm: "console_reach us rs \<Longrightarrow> visit us p = ShowPage HelmList \<Longrightarrow> u = currentUser us
    \<Longrightarrow> page_reach (helm_releases_page F get selected u) st flight tr \<Longrightarrow> console_reach us (rs @ helm_queries u d st)"
| in_repos: "console_reach us rs \<Longrightarrow> visit us p = ShowPage HelmRepos \<Longrightarrow> u = currentUser us
    \<Longrightarrow> page_reach (repos_page is_url u) st flight tr \<Longrightarrow> console_reach us (rs @ repos_queries u d st)"
| in_backups: "console_reach us rs \<Longrightarrow> visit us p = ShowPage BackupList \<Longrightarrow> u = currentUser us
    \<Longrightarrow> page_reach (backups_page fmt fmt_short get u) st flight tr \<Longrightarrow> console_reach us (rs @ backups_queries u st)"
| in_create: "console_reach us rs \<Longrightarrow> visit us p = ShowPage BackupCreate \<Longrightarrow> u = currentUser us
    \<Longrightarrow> page_reach (create_page get selected) st flight tr \<Longrightarrow> console_reach us (rs @ create_queries u st)"
| in_clusters: "console_reach us rs \<Longrightarrow> visit us p = ShowPage ClusterList \<Longrightarrow> u = currentUser us
    \<Longrightarrow> page_reach (clusters_page fmt json_ok get u :: (unit clusters_data, unit clusters_state, unit clusters_action, unit clusters_call, ping_response option) machine) st flight tr
    \<Longrightarrow> console_reach us (rs @ clusters_queries st)"
| in_resources: "console_reach us rs \<Longrightarrow> visit us p = ShowPage ResourceList \<Longrightarrow> u = currentUser us
    \<Longrightarrow> page_reach (resources_page ago fmt get selected u) st flight tr \<Longrightarrow> console_reach us (rs @ resources_queries u d st)"
| in_edit: "console_reach us rs \<Longrightarrow> visit us p = ShowPage ResourceEdit \<Longrightarrow> console_reach us (rs @ edit_queries env)"
| in_quota: "console_reach us rs \<Longrightarrow> visit us p = ShowPage QuotaManagement \<Longrightarrow> u = currentUser us
    \<Longrightarrow> page_reach (quota_page ago u) st flight tr \<Longrightarrow> console_reach us (rs @ quota_queries u d st)"
| in_compare: "console_reach us rs \<Longrightarrow> visit us p = ShowPage ClusterCompare \<Longrightarrow> u = currentUser us
    \<Longrightarrow> page_reach (compare_page leq yaml) st flight tr \<Longrightarrow> console_reach us (rs @ compare_queries u st)"
| in_logs: "console_reach us rs \<Longrightarrow> visit us p = ShowPage PodLogsPage \<Longrightarrow> u = currentUser us
    \<Longrightarrow> page_reach (pods_page get selected) sel flight moves \<Longrightarrow> console_reach us (rs @ pods_queries u sel)"

text \<open>What the guards ask for of the pages whose requests have no check of their own.\<close>

lemma guards_of_pages:
  "list_all (\<lambda>(p, e). case e of
       WithPage pg \<Rightarrow> pg = Dashboard
     | RequirePerm ps pg \<Rightarrow>
         ps = (case pg of
             ClusterImport \<Rightarrow> [''cluster:create''] | BackupCreate \<Rightarrow> [''backup:create'']
           | ResourceEdit \<Rightarrow> [''resource:get''] | ClusterCompare \<Rightarrow> [''resource:get'']
           | PodLogsPage \<Rightarrow> [''resource:get'', ''resource:list''] | ResourceList \<Rightarrow> [''resource:list'']
           | UserList \<Rightarrow> [''user:manage''] | RoleList \<Rightarrow> [''role:manage''] | HelmList \<Rightarrow> [''helm:view''] | _ \<Rightarrow> ps)
     | NavigateTo q \<Rightarrow> True) (route_paths [] app_routes)"
  by code_simp

lemma shown_page:
  assumes "visit us p = ShowPage pg" and "pg \<noteq> Dashboard"
  shows "\<exists>ps. (p, RequirePerm ps pg) \<in> set (route_paths [] app_routes) \<and> hasAnyPerm (currentUser us) ps"
  using assms guards_of_pages
  by (auto simp: visit_def route_element_at_def render_element_def list_all_iff hasAnyPerm_def
      split: option.splits route_element.splits if_splits dest!: map_of_SomeD)

lemma shown_guarded:
  assumes "visit us p = ShowPage pg" and "pg \<noteq> Dashboard"
  obtains ps where "hasAnyPerm (currentUser us) ps" and "ps = (case pg of
             ClusterImport \<Rightarrow> [''cluster:create''] | BackupCreate \<Rightarrow> [''backup:create'']
           | ResourceEdit \<Rightarrow> [''resource:get''] | ClusterCompare \<Rightarrow> [''resource:get'']
           | PodLogsPage \<Rightarrow> [''resource:get'', ''resource:list''] | ResourceList \<Rightarrow> [''resource:list'']
           | UserList \<Rightarrow> [''user:manage''] | RoleList \<Rightarrow> [''role:manage''] | HelmList \<Rightarrow> [''helm:view''] | _ \<Rightarrow> ps)"
  using shown_page [OF assms] guards_of_pages by (auto simp: list_all_iff)

lemma shown_with:
  "visit us p = ShowPage ClusterImport \<Longrightarrow> hasPerm (currentUser us) ''cluster:create''"
  "visit us p = ShowPage BackupCreate \<Longrightarrow> hasPerm (currentUser us) ''backup:create''"
  "visit us p = ShowPage ResourceEdit \<Longrightarrow> hasPerm (currentUser us) ''resource:get''"
  "visit us p = ShowPage ClusterCompare \<Longrightarrow> hasPerm (currentUser us) ''resource:get''"
  "visit us p = ShowPage PodLogsPage \<Longrightarrow> hasAnyPerm (currentUser us) [''resource:get'', ''resource:list'']"
  "visit us p = ShowPage ResourceList \<Longrightarrow> hasPerm (currentUser us) ''resource:list''"
  "visit us p = ShowPage UserList \<Longrightarrow> hasPerm (currentUser us) ''user:manage''"
  "visit us p = ShowPage RoleList \<Longrightarrow> hasPerm (currentUser us) ''role:manage''"
  "visit us p = ShowPage HelmList \<Longrightarrow> hasPerm (currentUser us) ''helm:view''"
  by (erule shown_guarded; simp add: hasAny_one)+

lemma console_granted: "console_reach us rs \<Longrightarrow> r \<in> set rs \<Longrightarrow> granted (currentUser us) r"
proof (induction rule: console_reach.induct)
  case (users rs p u fmt is_email st flight tr)
  then show ?case using users_machine.sent_permitted [OF users(4)] by (auto simp: granted_def intro: users_granted)
next
  case (roles rs p u fmt tree st flight tr)
  then show ?case using roles_machine.sent_permitted [OF roles(4)] by (auto simp: granted_def intro: roles_granted)
next
  case (helm rs p u F get selected st flight tr)
  then show ?case using helm_machine.sent_permitted [OF helm(4)] by (auto simp: granted_def intro: helm_granted)
next
  case (repos rs p u is_url st flight tr)
  then show ?case using repos_machine.sent_permitted [OF repos(4)] by (auto simp: granted_def intro: repos_granted)
next
  case (backups rs p u fmt fmt_short get st flight tr)
  then show ?case using backups_machine.sent_permitted [OF backups(4)] by (auto simp: granted_def intro: backups_granted)
next
  case (create rs p u get selected st flight tr)
  then show ?case using create_granted shown_with(2) by (auto simp: granted_def)
next
  case (clusters rs p u fmt json_ok get st flight tr)
  then show ?case using clusters_machine.sent_permitted [OF clusters(4)] by (auto simp: granted_def intro: clusters_granted)
next
  case (import rs p u json_ok st flight tr)
  then show ?case using import_granted shown_with(1) by (auto simp: granted_def)
next
  case (resources rs p u ago fmt get selected st flight tr)
  then show ?case using resources_machine.sent_permitted [OF resources(4)] by (auto simp: granted_def intro: resources_granted)
next
  case (edit rs p u env get st flight tr)
  then show ?case using shown_with(3) edit_machine.sent_permitted [OF edit(4)] by (auto simp: granted_def intro: edit_granted)
next
  case (quota rs p u ago st flight tr)
  then show ?case using quota_machine.sent_permitted [OF quota(4)] by (auto simp: granted_def intro: quota_granted)
next
  case (compare rs p u leq yaml st flight tr)
  then show ?case using compare_granted shown_with(4) by (auto simp: granted_def)
next
  case (logs rs p u get selected sel moves vp st flight tr)
  then show ?case using viewer_granted shown_with(5) by (auto simp: granted_def)
next
  case (drawer rs p u ago fmt get selected st flight tr pod vp height sv fv tv)
  have "hasAnyPerm (currentUser us) [''resource:get'', ''resource:list'']"
    using shown_with(6) [OF drawer(2)] by (simp add: hasAnyPerm_def)
  with drawer show ?case using viewer_granted by (auto simp: granted_def)
next
  case (in_users rs p u fmt is_email st flight tr)
  then show ?case using rbac_queries_granted(1) shown_with(7) by auto
next
  case (in_roles rs p u fmt tree st flight tr)
  then show ?case using rbac_queries_granted(2) shown_with(8) by auto
next
  case (in_audit rs p u fmt stringify st flight tr)
  then show ?case using rbac_queries_granted(3) by auto
next
  case (in_helm rs p u F get selected st flight tr d)
  then show ?case using other_queries_granted(1) shown_with(9) by auto
next
  case (in_resources rs p u ago fmt get selected st flight tr d)
  then show ?case using resource_queries_granted(1) shown_with(6) by auto
next
  case (in_edit rs p env)
  then show ?case using resource_queries_granted(2) shown_with(3) by auto
next
  case (in_compare rs p u leq yaml st flight tr)
  then show ?case using resource_queries_granted(4) shown_with(4) by auto
next
  case (in_logs rs p u get selected sel flight moves)
  then show ?case using resource_queries_granted(5) shown_with(5) by auto
qed (auto intro: unchecked_granted other_queries_granted resource_queries_granted(3))


lemma api_point_module: "\<not> starts_with (api_point r) '':''"
proof (cases r)
  case (ReqRbac m) then show ?thesis by (cases m) (simp_all add: starts_with_def)
next
  case (ReqCluster m) then show ?thesis by (cases m) (simp_all add: starts_with_def)
next
  case (ReqResource m) then show ?thesis by (cases m) (simp_all add: starts_with_def)
next
  case (ReqBackup m) then show ?thesis by (cases m) (simp_all add: starts_with_def)
next
  case (ReqHelm m) then show ?thesis by (cases m) (simp_all add: starts_with_def)
next
  case (ReqRbacQuery q) then show ?thesis by (cases q) (simp_all add: starts_with_def)
qed (simp_all add: starts_with_def)

text \<open>
  C6. The console asks for what the server asks for. Whatever a user does in a session, opening
  pages through the guards and acting on them in any order, take any request that leaves a page, sent by
  an action or by a query hook of a rendered page. The console has then asked for one of the
  points of \<open>console_points\<close>, if it asks at all; and the server, for the user whose profile the console
  holds, refuses the request for nothing but the scope of the cluster, unless it is one of nine kinds that the console grants
  more leniently than the server: the connection test of the import page, a rollback, a comparison of
  versions, the start of a log stream, and the listings of clusters, of namespaces, of roles, of
  resources and of the versions of a resource.
\<close>

theorem session_requests_admitted:
  assumes "console_reach us rs" and "r \<in> set rs"
    and "currentUser us = Some (CurrentUserHandler slice bs base)" and "PermsSlice slice (loadPermissionTree bs)"
    and "gin_routes gin" and "addressed r"
  shows "(console_points r = [] \<or> hasAnyPerm (currentUser us) (console_points r))
    \<and> (server_answer (loadPermissionTree bs) gin header r = Inl e \<longrightarrow>
         (\<exists>c. e = ScopeDenied c) \<or> lenient r \<and> e = MissingPerm (api_point r))"
proof -
  have granted: "console_points r = [] \<or> hasAnyPerm (currentUser us) (console_points r)"
    using console_granted [OF assms(1,2)] by (simp add: granted_def)
  have "lenient r \<or> HasPerm (loadPermissionTree bs) (api_point r)"
    using granted HasPerm_agrees [OF assms(4) api_point_module [of r], of base] console_points_strict [of r]
    by (cases "lenient r") (auto simp: assms(3) hasAny_one)
  then show ?thesis using granted server_answer_point(1) [OF assms(5,6)] by blast
qed

text \<open>A router that does what \<open>gin_routes\<close> says, and a user who may read resources in a namespace of a cluster.\<close>

definition first_route :: "(string \<Rightarrow> string) \<Rightarrow> gin" where
  "first_route param meth p =
     (case matching_routes meth p of
        [] \<Rightarrow> \<lparr>gin_FullPath = [], gin_Param = param\<rparr>
      | r # rs \<Rightarrow> \<lparr>gin_FullPath = fst (snd r), gin_Param = param\<rparr>)"

lemma first_route_ok: "gin_routes (first_route param)"
  unfolding gin_routes_def
proof (intro allI)
  fix meth p
  show "case matching_routes meth p of
      [] \<Rightarrow> gin_FullPath (first_route param meth p) = []
    | [r] \<Rightarrow> gin_FullPath (first_route param meth p) = fst (snd r)
    | _ \<Rightarrow> True"
    by (cases "matching_routes meth p" rule: list.exhaust; cases "tl (matching_routes meth p)")
      (auto simp: first_route_def)
qed

definition demo_profile :: "string list \<Rightarrow> user_state" where
  "demo_profile ps =
     (demo_user_state [])\<lparr>currentUser := Some (CurrentUserHandler ps [demo_binding 1 web_scope ps] (demo_user []))\<rparr>"

theorem session_requests_admitted_witness:
  "server_answer (loadPermissionTree [demo_binding 1 web_scope [''resource:get'']]) (first_route (\<lambda>_. [])) []
     (ReqRead (snd demo_compare_call)) \<noteq> Inl (MissingPerm ''resource:get'')"
proof -
  let ?us = "demo_profile [''resource:get'']" and ?bs = "[demo_binding 1 web_scope [''resource:get'']]"
  obtain tr where run: "page_reach (compare_page (\<lambda>_ _. True) (\<lambda>_. [])) (demo_compare_state\<lparr>oz_loading := True\<rparr>) [demo_compare_call] tr"
    and sent: "demo_compare_call \<in> set (sends tr)"
    using demo_compare_reach by blast
  have "visit ?us ''/ops/compare'' = ShowPage ClusterCompare" by code_simp
  from console_reach.compare [OF console_reach.start this refl run]
  have "console_reach ?us (concat (map compare_api (sends tr)))" by simp
  moreover have "ReqRead (snd demo_compare_call) \<in> set (concat (map compare_api (sends tr)))"
    using sent by (auto simp: compare_api_def)
  moreover have "currentUser ?us = Some (CurrentUserHandler [''resource:get''] ?bs (demo_user []))"
    by (simp add: demo_profile_def)
  moreover have "PermsSlice [''resource:get''] (loadPermissionTree ?bs)" by code_simp
  moreover have "addressed (ReqRead (snd demo_compare_call))"
    by (simp add: addressed_def demo_compare_call_def side_params_def or_str_def js_trim_def js_space_def)
  ultimately show ?thesis
    using session_requests_admitted [OF _ _ _ _ first_route_ok] by (fastforce simp: lenient_def)
qed

text \<open>
  The nine exceptions are real. A user who may import clusters but not ping them can open the import
  page and start the test, which the server refuses; without the test nothing is imported. The drawer of
  the roles of a user lists all roles, which takes \<open>role:manage\<close>, for one who may manage users only, and
  the frame lists the clusters for everyone.
\<close>

lemma lenient_refused:
  assumes "gin_routes gin"
  shows "\<not> HasPerm pt ''cluster:ping'' \<Longrightarrow>
      server_answer pt gin header (ReqCluster (TempPing d)) = Inl (MissingPerm ''cluster:ping'')"
    and "\<not> HasPerm pt ''version:rollback'' \<Longrightarrow>
      server_answer pt gin header (ReqRollback t n) = Inl (MissingPerm ''version:rollback'')"
    and "\<not> HasPerm pt ''version:diff'' \<Longrightarrow>
      server_answer pt gin header (ReqDiff t i j) = Inl (MissingPerm ''version:diff'')"
    and "\<not> HasPerm pt ''resource:get'' \<Longrightarrow> [] \<notin> {c, ns, q} \<Longrightarrow>
      server_answer pt gin header (ReqLogs c ns q params) = Inl (MissingPerm ''resource:get'')"
    and "\<not> HasPerm pt ''role:manage'' \<Longrightarrow>
      server_answer pt gin header (ReqRbacQuery (ListRoles ps)) = Inl (MissingPerm ''role:manage'')"
    and "\<not> HasPerm pt ''cluster:list'' \<Longrightarrow>
      server_answer pt gin header (ReqClusters cs) = Inl (MissingPerm ''cluster:list'')"
    and "\<not> HasPerm pt ''resource:list'' \<Longrightarrow> c \<noteq> [] \<Longrightarrow>
      server_answer pt gin header (ReqNamespaces c) = Inl (MissingPerm ''resource:list'')"
    and "\<not> HasPerm pt ''resource:list'' \<Longrightarrow> [] \<notin> {lr_code l, lr_apiVersion l, lr_kind l} \<Longrightarrow>
      server_answer pt gin header (ReqResources l) = Inl (MissingPerm ''resource:list'')"
    and "\<not> HasPerm pt ''version:list'' \<Longrightarrow>
      server_answer pt gin header (ReqVersions t) = Inl (MissingPerm ''version:list'')"
  using server_answer_point(2) [OF assms, of "ReqCluster (TempPing d)" pt header]
    server_answer_point(2) [OF assms, of "ReqRollback t n" pt header]
    server_answer_point(2) [OF assms, of "ReqDiff t i j" pt header]
    server_answer_point(2) [OF assms, of "ReqLogs c ns q params" pt header]
    server_answer_point(2) [OF assms, of "ReqRbacQuery (ListRoles ps)" pt header]
    server_answer_point(2) [OF assms, of "ReqClusters cs" pt header]
    server_answer_point(2) [OF assms, of "ReqNamespaces c" pt header]
    server_answer_point(2) [OF assms, of "ReqResources l" pt header]
    server_answer_point(2) [OF assms, of "ReqVersions t" pt header]
  by (simp_all add: addressed_def)

lemma refused_listings:
  "truthy (token us) \<Longrightarrow> console_reach us [ReqClusters None]"
  "uz_rolesUser s = Some r \<Longrightarrow> ReqRbacQuery (ListRoles (Some all_roles)) \<in> set (users_queries u s)"
  "\<not> HasPerm (loadPermissionTree [demo_binding 1 web_scope [''user:manage'']]) ''role:manage''"
  "\<not> HasPerm (loadPermissionTree [demo_binding 1 web_scope [''user:manage'']]) ''cluster:list''"
  using console_reach.in_frame [OF console_reach.start, of us]
  by (simp_all add: frame_queries_def users_queries_def user_drawer_queries_def) code_simp+

lemma import_test_refused:
  defines "bs \<equiv> [demo_binding 1 web_scope [''cluster:create'']]"
  shows "console_reach (demo_profile [''cluster:create'']) [ReqCluster (TempPing (Some ''a''))]"
    and "gin_routes gin \<Longrightarrow> server_answer (loadPermissionTree bs) gin header (ReqCluster (TempPing (Some ''a'')))
      = Inl (MissingPerm ''cluster:ping'')"
proof -
  have "visit (demo_profile [''cluster:create'']) ''/clusters/import'' = ShowPage ClusterImport" by code_simp
  from console_reach.import [OF console_reach.start this refl demo_connect_reach]
  show "console_reach (demo_profile [''cluster:create'']) [ReqCluster (TempPing (Some ''a''))]"
    by (simp add: import_api_def)
  have "\<not> HasPerm (loadPermissionTree bs) ''cluster:ping''" unfolding bs_def by code_simp
  then show "gin_routes gin \<Longrightarrow> server_answer (loadPermissionTree bs) gin header (ReqCluster (TempPing (Some ''a'')))
      = Inl (MissingPerm ''cluster:ping'')"
    by (rule lenient_refused(1) [rotated])
qed

subsection \<open>Resources without a namespace\<close>

lemma placeholder_namespace:
  assumes "edit_target params = Some t" and "or_str (params ''namespace'') ''_'' = ''_''"
  shows "\<not> truthy (gr_namespace t)"
proof -
  have ns: "decodeURIComponent (or_str (params ''namespace'') ''_'') = Some ''_''"
    unfolding assms(2) by code_simp
  have "edit_target params = Some t \<Longrightarrow> gr_namespace t = Some []"
    unfolding edit_target_def ns by (auto split: option.splits)
  then show ?thesis using assms(1) by (simp add: truthy_iff)
qed

text \<open>
  C8. The server serves one resource under a path that names its namespace, and the console asks under
  that path exactly for resources with a namespace: reading, changing and deleting reach their route
  with the points for these actions. For a resource without a namespace no route of the server matches
  any of the three requests; and the page of a resource turns the placeholder that stands for no
  namespace in its own path into no namespace, so the pages of cluster-scoped resources, and the
  deletion in the list, always fail.
\<close>

theorem cluster_scoped_unserved:
  assumes "gr_code t \<noteq> []" and "gr_apiVersion t \<noteq> []" and "gr_kind t \<noteq> []" and "gr_name t \<noteq> []"
  shows "points_of (resource_query_request (GetResource t)) = (if truthy (gr_namespace t) then [Some ''resource:get''] else [])
    \<and> points_of (resource_mutation_request (UpdateResource t y)) =
        (if truthy (gr_namespace t) then [Some ''resource:update''] else [])
    \<and> points_of (resource_mutation_request (DeleteResource t)) =
        (if truthy (gr_namespace t) then [Some ''resource:delete''] else [])
    \<and> (edit_target params = Some t \<and> or_str (params ''namespace'') ''_'' = ''_'' \<longrightarrow> \<not> truthy (gr_namespace t))"
proof -
  have "edit_target params = Some t \<and> or_str (params ''namespace'') ''_'' = ''_'' \<longrightarrow> \<not> truthy (gr_namespace t)"
    using placeholder_namespace by blast
  moreover have "[] = or_str (gr_namespace t) [] \<longleftrightarrow> \<not> truthy (gr_namespace t)"
    by (cases "gr_namespace t") (auto simp: truthy_iff or_str_def)
  ultimately show ?thesis
    using assms get_resource_routed [of t] resource_routed [of "UpdateResource t y"] resource_routed [of "DeleteResource t"]
    by (simp del: resource_query_request.simps resource_mutation_request.simps)
qed

text \<open>The page of a node.\<close>

definition node_params :: "string \<Rightarrow> string option" where
  "node_params = map_of [(''code'', ''prod''), (''apiVersion'', ''v1''), (''kind'', ''Node''), (''namespace'', ''_''), (''name'', ''n1'')]"

definition node_target :: get_resource_params where
  "node_target = \<lparr>gr_code = ''prod'', gr_apiVersion = ''v1'', gr_kind = ''Node'', gr_namespace = Some [], gr_name = ''n1''\<rparr>"

theorem cluster_scoped_unserved_witness:
  "edit_target node_params = Some node_target \<and> points_of (resource_query_request (GetResource node_target)) = []"
proof -
  have target: "edit_target node_params = Some node_target" by code_simp
  have parts: "gr_code node_target \<noteq> []" "gr_apiVersion node_target \<noteq> []" "gr_kind node_target \<noteq> []"
    "gr_name node_target \<noteq> []" and none: "\<not> truthy (gr_namespace node_target)"
    by (simp_all add: node_target_def)
  have "points_of (resource_query_request (GetResource node_target))
      = (if truthy (gr_namespace node_target) then [Some ''resource:get''] else [])"
    using cluster_scoped_unserved [OF parts] by blast
  then show ?thesis unfolding if_not_P [OF none] using target by (rule conjI [rotated])
qed

end
