(* ===== verification/Spec2Isabelle.thy ===== *)
theory Spec2Isabelle
  imports Login WsTheorems HttpTheorems Services Quota BackupCreate Compare
    PushPanels AuditPage YamlEditor PageTheorems
    UsersView RolesView HelmView BackupView AuditView QuotaView ResourceView ResourceEditView
    ClusterView ImportView ReposView CompareView BackupCreateView PodLogsView
    FrameView PanelView Console
begin

text \<open>
  A verification development for the front end of the multi-cluster Kubernetes console, the
  TypeScript program under \<open>src/frontend/src\<close>. File names below are relative to that directory.

  \<^bold>\<open>The program.\<close> A React application over a Redux store. \<open>app/store.ts\<close> joins the user,
  application and WebSocket slices with the caches of six RTK Query APIs. All HTTP goes through
  \<open>app/services/request.ts\<close>, an axios instance whose interceptors add the token, refresh it once
  for all requests that fail meanwhile, and show errors; \<open>axiosBaseQuery.ts\<close> and the API files
  (\<open>cluster.ts\<close>, \<open>resource.ts\<close>, \<open>version.ts\<close>, \<open>rbac.ts\<close>, \<open>backup.ts\<close>, \<open>helm.ts\<close>) build on it. Server
  pushes arrive over \<open>app/services/websocket.ts\<close>, a singleton whose channels are reference counted
  by the hooks that use them. \<open>app/router.tsx\<close>, \<open>app/routePerms.ts\<close> and \<open>layouts/BasicLayout.tsx\<close>
  guard the pages and build the menu from the permission points of the user.

  \<^bold>\<open>Theories.\<close>
  \<^item> \<open>Prelude\<close>: truthiness, defaults, string functions and numerals of JavaScript; \<open>UriCodec\<close>:
    \<open>encodeURIComponent\<close> and the decoding of query strings; \<open>JsNumber\<close>: \<open>Number\<close>, \<open>parseInt\<close>,
    \<open>parseFloat\<close>, \<open>Math.round\<close>; \<open>JsDouble\<close>: the rounding of doubles and the arithmetic on them;
    \<open>JsSort\<close>: the stable \<open>sort\<close> and \<open>Object.values\<close>.
  \<^item> \<open>Session\<close>: \<open>slices/userSlice.ts\<close> and \<open>appSlice.ts\<close> with the local storage (locale
    \<open>session_store\<close>); \<open>WsStore\<close>: \<open>slices/wsSlice.ts\<close>; \<open>Store\<close>: \<open>app/store.ts\<close>.
  \<^item> \<open>WsClient\<close>: \<open>app/services/websocket.ts\<close> and \<open>hooks/useWebSocket.ts\<close>, every method and handler
    a function on \<open>ws_world\<close>. \<open>WsClientProofs\<close>, \<open>WsInvariant\<close> and \<open>WsTheorems\<close> hold the step
    relation \<open>ws_step\<close>, its invariant and the properties of the connection.
  \<^item> \<open>HttpClient\<close>: \<open>app/services/request.ts\<close> and \<open>axiosBaseQuery.ts\<close>, cut into the pieces that run
    between two awaits. \<open>HttpProofs\<close> and \<open>HttpTheorems\<close> hold the step relation \<open>http_step\<close>, its
    invariant and the properties of refresh, errors and downloads.
  \<^item> \<open>Permission\<close>: \<open>hooks/usePermission.ts\<close>, \<open>hooks/useAllowedNamespaces.ts\<close>, \<open>app/routePerms.ts\<close>,
    \<open>app/router.tsx\<close> and \<open>layouts/BasicLayout.tsx\<close>; \<open>Login\<close>: \<open>pages/Login/index.tsx\<close>.
  \<^item> \<open>Endpoints\<close>: requests and cache tags (locale \<open>tagged_listing\<close>, the contract between the queries
    of a listing and the mutations that change it); \<open>ClusterService\<close>, \<open>ResourceService\<close> (with \<open>version.ts\<close>), \<open>RbacService\<close>,
    \<open>BackupService\<close>, \<open>HelmService\<close>: the API files with their listings; \<open>Services\<close>: those of resources and versions.
  \<^item> \<open>Resources\<close>: \<open>constants/k8sKinds.ts\<close>, \<open>utils/workloadStatus.ts\<close>, \<open>utils/yaml.ts\<close>; \<open>PushHooks\<close>: the
    hooks and panels fed by the WebSocket slice; \<open>Quota\<close>: \<open>pages/resources/quota.tsx\<close>;
    \<open>BackupCreate\<close>: \<open>pages/backups/create.tsx\<close>; \<open>Compare\<close>: \<open>pages/ops/compare.tsx\<close>.
  \<^item> \<open>QueryString\<close>: \<open>URLSearchParams\<close> and the query strings by which pages call each other (locale
    \<open>query_codec\<close>, for both encoders). \<open>Pages\<close>: the effects of a page handler and the contracts of
    the handlers (locales \<open>page_handler\<close>, and \<open>silent_handler\<close> that extends it).
  \<^item> \<open>ClusterList\<close> and \<open>ClusterImport\<close>: \<open>pages/clusters\<close>; \<open>ResourceList\<close>: \<open>pages/resources/list.tsx\<close>;
    \<open>ResourceEdit\<close>: the page of one resource, \<open>edit.tsx\<close>; \<open>PodLogsPage\<close>: \<open>pages/pods/logs.tsx\<close>;
    \<open>BackupList\<close>: \<open>pages/backups/list.tsx\<close>; \<open>HelmPages\<close>: \<open>pages/helm\<close>; \<open>UsersPage\<close> and
    \<open>RolesPage\<close>: \<open>pages/users\<close> and \<open>pages/roles\<close>; \<open>AuditPage\<close>: \<open>pages/audit/list.tsx\<close> and the
    counter of the dashboard; \<open>PushPanels\<close>: \<open>components/ws\<close> and \<open>components/ErrorBoundary.tsx\<close>;
    \<open>YamlEditor\<close>: \<open>components/YamlEditor.tsx\<close>.
  \<^item> \<open>PageTheorems\<close>: the properties of the handlers of all pages.
  \<^item> \<open>View\<close>: rendered trees, what they offer, and the runs of a page (\<open>machine\<close>, \<open>page_reach\<close>), with the
    contracts of a page (locales \<open>guarded_page\<close>, and \<open>single_submit\<close> and \<open>loading_flag\<close> that extend it).
    \<open>UsersView\<close>, \<open>RolesView\<close>, \<open>HelmView\<close>, \<open>ReposView\<close>, \<open>BackupView\<close>, \<open>BackupCreateView\<close>, \<open>AuditView\<close>,
    \<open>QuotaView\<close>, \<open>ResourceView\<close>, \<open>ResourceEditView\<close>, \<open>ClusterView\<close>, \<open>ImportView\<close>, \<open>CompareView\<close> and
    \<open>PodLogsView\<close>: what each page renders, its machine, and the properties of its runs. \<open>FrameView\<close>: the
    login page and the frame of \<open>layouts/BasicLayout.tsx\<close>; \<open>PanelView\<close>: the log viewer, the list of
    events, the dashboard and the editors.
  \<^item> \<open>ServerAccess\<close>: the access control of the server under \<open>src/backend\<close> (\<open>internal/auth/service.go\<close>,
    \<open>internal/api/middleware\<close>, the registration of the routes) and its agreement with the permission
    check of the console; \<open>ServerRoutes\<close>: the route and the permission point of every request of the
    service APIs; \<open>Requests\<close>: what leaves the pages, the requests of their calls and of their query hooks
    with the \<open>skip\<close> of each; \<open>Console\<close>: a session, which visits pages through the guards and runs them,
    against the server.

  \<^bold>\<open>Correspondence.\<close> A definition has the name of the function, reducer, selector or component it
  models. Records are the interfaces and states of the source, an optional field is an option.
  Redux actions are datatypes, reducers are functions on states. A promise is cut at its awaits:
  the state records what waits (\<open>h_waiting\<close>, \<open>h_pending\<close>), and the reply is a step of the relation
  or an argument. Strings are byte strings in UTF-8. Effects of a page handler are a list in the
  order in which they happen; a handler takes the outcome of the request it awaits as an argument.
  The import page, the version history, the permission drawer and the editor are step relations on
  the states of their components, with the replies of the server as steps of their own. The
  button that starts a handler is a definition too (\<open>press_\<close>), with its condition. The markup of a
  page is a tree (\<open>node\<close>) of elements with their handlers, flags and form rules; only what it offers
  can be done, and a run interleaves actions, replies, effects and typing in any order. A permission
  tree of the server is a record, a middleware a function to an error or unit.

  \<^bold>\<open>What the lemmas show.\<close> For the connection: slice, reference counts and server agree on an open
  connection, a reconnection restores the subscriptions, at most one client is alive. For HTTP:
  every request is accounted for and sent at most twice, one refresh serves all that wait, its
  failure ends the session, and the toasts of a run are those of its failures. For the session: storage
  and slice agree, and after a logout and the reset by the hook two histories of the store cannot be told
  apart, but for sidebar and theme.
  For the pages: menu and guards agree, redirects stay on the site, allowed namespaces follow the
  roles, requests identify their resource, mutations refresh the listings they change, no handler acts
  without its permission, links between pages open what they name, the effects that correct a
  selection come to rest, and the forms and panels behave as written. For the runs of the pages: the
  offered actions send permitted and well-formed requests only, whatever changes under an open
  dialog, and forms are not submitted twice. For the parts together: the console and the server
  agree on the permissions, and no request of a session, sent by an action or a query hook, is
  refused for a missing permission, but for nine kinds. Some properties and lemmas state the flaws the model exposed.

  \<^bold>\<open>Bounds.\<close> No fuel is used: all recursion is structural. The buffers of the WebSocket slice have
  the limits of the source. The percentages of the quota page are computed in doubles, with their
  rounding and overflow (\<open>JsDouble\<close>); other numbers are counts, pages and times, taken as integers or
  exact rationals. The effects on the namespace of the resource list
  are the library's \<open>while_option\<close>; a theorem shows that it returns.

  \<^bold>\<open>Environment.\<close> axios, reconnecting-websocket, the browser, React, React Router, RTK Query, antd,
  dayjs, js-yaml and the server are not part of the source: their events are the steps of the
  relations, their results are arguments (\<open>yaml\<close>, \<open>fmt\<close>, \<open>leq\<close> for \<open>localeCompare\<close>, \<open>tree\<close> for the
  check state of the tree, query results, replies; \<open>gin\<close> for the router of the server, with its
  documented behaviour as the hypothesis \<open>gin_routes\<close>).

  \<^bold>\<open>Not modelled.\<close> Attributes of the markup that only style; Monaco and its configuration in
  \<open>app/monaco.ts\<close>; \<open>main.tsx\<close>, which only mounts other components, and \<open>pages/resources/workloads\<close>,
  empty tabs that no route mounts; the rest of the Go back end, its handlers, tokens and caches, whose
  replies are the environment; the prototypes and the documents.
\<close>

end
